(* ===== verification/Prelude.thy ===== *)
theory Prelude
  imports Main "HOL-Library.AList" "HOL-Library.List_Lexorder" "HOL-Library.Product_Lexorder"
    "HOL-Library.Multiset"
begin

text \<open>
  Shared vocabulary of the development: Python strings as lists of code points,
  dictionaries as association lists in insertion order, results that are either an
  exception or a value, and the generic lemmas on them that every component uses.
\<close>

section \<open>Named collections\<close>

named_theorems py_simps \<open>evaluation of the Python primitives on literals\<close>
named_theorems res_simps \<open>case analysis of results\<close>

section \<open>Strings\<close>

text \<open>
  A Python \<open>str\<close> is a sequence of Unicode code points, so \<open>len\<close> counts code points.
  The literal \<open>"abc"\<close> of the source is written \<open>str ''abc''\<close>; a literal with
  non-ASCII characters is written as its list of code points.
\<close>

type_synonym pystr = "nat list"

definition str :: "string \<Rightarrow> pystr" where
  "str s = map of_char s"

lemma inj_of_char_nat: "inj (of_char :: char \<Rightarrow> nat)"
  by (simp add: inj_def)

lemma str_eq_iff [simp]: "str s = str t \<longleftrightarrow> s = t"
  by (simp add: str_def inj_map_eq_map [OF inj_of_char_nat])

lemma str_Nil [simp]: "str [] = []"
  by (simp add: str_def)

lemma str_eq_Nil [simp]: "str s = [] \<longleftrightarrow> s = []" and Nil_eq_str [simp]: "[] = str s \<longleftrightarrow> s = []"
  by (auto simp: str_def)

lemma length_str [simp]: "length (str s) = length s"
  by (simp add: str_def)

lemma str_append: "str (s @ t) = str s @ str t"
  by (simp add: str_def)

lemma str_Cons [py_simps]: "str (c # s) = of_char c # str s"
  by (simp add: str_def)

text \<open>
  The characters for which \<open>str.isspace\<close> is true; \<open>str.strip()\<close> removes them at both
  ends, and \<open>\s\<close> of the \<open>re\<close> module matches them.
\<close>

definition py_space :: "nat \<Rightarrow> bool" where
  "py_space c \<longleftrightarrow> (9 \<le> c \<and> c \<le> 13) \<or> (28 \<le> c \<and> c \<le> 32) \<or> c = 133 \<or> c = 160 \<or> c = 5760
     \<or> (8192 \<le> c \<and> c \<le> 8202) \<or> c = 8232 \<or> c = 8233 \<or> c = 8239 \<or> c = 8287 \<or> c = 12288"

definition strip_by :: "(nat \<Rightarrow> bool) \<Rightarrow> pystr \<Rightarrow> pystr" where
  "strip_by p s = rev (dropWhile p (rev (dropWhile p s)))"

definition strip :: "pystr \<Rightarrow> pystr" where
  "strip s = strip_by py_space s"

definition startswith :: "pystr \<Rightarrow> pystr \<Rightarrow> bool" where
  "startswith s p \<longleftrightarrow> take (length p) s = p"

definition endswith :: "pystr \<Rightarrow> pystr \<Rightarrow> bool" where
  "endswith s p \<longleftrightarrow> length p \<le> length s \<and> drop (length s - length p) s = p"

text \<open>\<open>needle in s\<close>\<close>

fun contains :: "pystr \<Rightarrow> pystr \<Rightarrow> bool" where
  "contains needle [] \<longleftrightarrow> needle = []"
| "contains needle (c # cs) \<longleftrightarrow> startswith (c # cs) needle \<or> contains needle cs"

lemma dropWhile_last: "xs \<noteq> [] \<Longrightarrow> \<not> p (last xs) \<Longrightarrow> dropWhile p xs \<noteq> []"
  using last_in_set [of xs] by auto

lemma last_dropWhile: "dropWhile p xs \<noteq> [] \<Longrightarrow> last (dropWhile p xs) = last xs"
  by (induction xs) (auto split: if_splits)

lemma strip_by_ends:
  "strip_by p s = [] \<or> (\<not> p (hd (strip_by p s)) \<and> \<not> p (last (strip_by p s)))"
proof (cases "strip_by p s = []")
  case False
  let ?a = "dropWhile p s"
  let ?b = "dropWhile p (rev ?a)"
  from False have b: "?b \<noteq> []" by (simp add: strip_by_def)
  then have a: "?a \<noteq> []" using dropWhile.simps(1) rev.simps(1) by metis
  have "last (strip_by p s) = hd ?b" using b by (simp add: strip_by_def last_rev)
  moreover have "\<not> p (hd ?b)" using b by (rule hd_dropWhile)
  moreover have "hd (strip_by p s) = last ?b" using b by (simp add: strip_by_def hd_rev)
  moreover have "last ?b = hd ?a" using b a by (simp add: last_dropWhile last_rev)
  moreover have "\<not> p (hd ?a)" using a by (rule hd_dropWhile)
  ultimately show ?thesis by simp
qed simp

lemma set_strip_by: "set (strip_by p s) \<subseteq> set s"
  by (auto simp: strip_by_def dest!: set_dropWhileD)

lemma strip_by_idem: "strip_by p (strip_by p s) = strip_by p s"
proof (cases "strip_by p s = []")
  case True
  then show ?thesis by (simp add: strip_by_def [of p "[]"])
next
  case False
  let ?t = "strip_by p s"
  from strip_by_ends [of p s] False have h: "\<not> p (hd ?t)" and l: "\<not> p (last ?t)" by auto
  have "dropWhile p ?t = ?t" using h False by (cases ?t) auto
  moreover have "dropWhile p (rev ?t) = rev ?t"
    using l False by (cases "rev ?t") (auto simp: last_rev hd_rev [symmetric])
  ultimately show ?thesis by (subst strip_by_def) simp
qed

lemma length_strip_by: "length (strip_by p s) \<le> length s"
  by (simp add: strip_by_def) (metis length_dropWhile_le length_rev order_trans)

section \<open>Dictionaries\<close>

text \<open>
  A Python dictionary keeps insertion order; assigning to a present key keeps its place.
  \<open>d[k] = v\<close> is \<open>AList.update k v d\<close> and \<open>d.get(k)\<close> is \<open>map_of d k\<close>.
\<close>

type_synonym ('k, 'v) pydict = "('k \<times> 'v) list"

abbreviation dict_get :: "('k, 'v) pydict \<Rightarrow> 'k \<Rightarrow> 'v option" where
  "dict_get d k \<equiv> map_of d k"

abbreviation dict_set :: "'k \<Rightarrow> 'v \<Rightarrow> ('k, 'v) pydict \<Rightarrow> ('k, 'v) pydict" where
  "dict_set k v d \<equiv> AList.update k v d"

definition dict_keys :: "('k, 'v) pydict \<Rightarrow> 'k list" where
  "dict_keys d = map fst d"

definition dict_values :: "('k, 'v) pydict \<Rightarrow> 'v list" where
  "dict_values d = map snd d"

definition dict_wf :: "('k, 'v) pydict \<Rightarrow> bool" where
  "dict_wf d \<longleftrightarrow> distinct (map fst d)"

lemma set_dict_set: "set (dict_set k v d) \<subseteq> insert (k, v) (set d)"
  by (induction d) auto

lemma dict_get_set [simp]: "dict_get (dict_set k v d) k' = (if k' = k then Some v else dict_get d k')"
  by (simp add: update_conv)

lemma dict_wf_Nil [simp]: "dict_wf []"
  by (simp add: dict_wf_def)

lemma dict_wf_set [simp]: "dict_wf d \<Longrightarrow> dict_wf (dict_set k v d)"
  by (simp add: dict_wf_def distinct_update)

lemma dict_wf_get_iff: "dict_wf d \<Longrightarrow> dict_get d k = Some v \<longleftrightarrow> (k, v) \<in> set d"
  by (simp add: dict_wf_def)

lemma dict_values_get: "dict_wf d \<Longrightarrow> v \<in> set (dict_values d) \<longleftrightarrow> (\<exists>k. dict_get d k = Some v)"
  by (force simp: dict_values_def dict_wf_get_iff)

lemma dict_set_absent: "dict_get d k = None \<Longrightarrow> dict_set k v d = d @ [(k, v)]"
  by (induction d) (auto split: if_splits)

lemma find_append: "find P (xs @ ys) = (case find P xs of None \<Rightarrow> find P ys | Some x \<Rightarrow> Some x)"
  by (induction xs) auto

section \<open>Results\<close>

text \<open>
  A computation that may raise is a value of \<open>'e + 'a\<close>: \<open>Inl\<close> the exception,
  \<open>Inr\<close> the value.
\<close>

fun bind_res :: "'e + 'a \<Rightarrow> ('a \<Rightarrow> 'e + 'b) \<Rightarrow> 'e + 'b" where
  "bind_res (Inl e) f = Inl e"
| "bind_res (Inr x) f = f x"

fun map_res :: "('a \<Rightarrow> 'e + 'b) \<Rightarrow> 'a list \<Rightarrow> 'e + 'b list" where
  "map_res f [] = Inr []"
| "map_res f (x # xs) = bind_res (f x) (\<lambda>y. bind_res (map_res f xs) (\<lambda>ys. Inr (y # ys)))"

fun is_ok :: "'e + 'a \<Rightarrow> bool" where
  "is_ok (Inl e) \<longleftrightarrow> False"
| "is_ok (Inr x) \<longleftrightarrow> True"

text \<open>Folding events into an optional state, stopping at the first exception.\<close>

fun fold_res :: "('s option \<Rightarrow> 'e \<Rightarrow> 'x + 's) \<Rightarrow> 's option \<Rightarrow> 'e list \<Rightarrow> 'x + 's option" where
  "fold_res f st [] = Inr st"
| "fold_res f st (e # es) = bind_res (f st e) (\<lambda>s. fold_res f (Some s) es)"

lemma bind_res_Inr [res_simps]: "bind_res r f = Inr y \<longleftrightarrow> (\<exists>x. r = Inr x \<and> f x = Inr y)"
  by (cases r) auto

lemma bind_res_Inl [res_simps]: "bind_res r f = Inl e \<longleftrightarrow> r = Inl e \<or> (\<exists>x. r = Inr x \<and> f x = Inl e)"
  by (cases r) auto

lemma is_ok_iff [res_simps]: "is_ok r \<longleftrightarrow> (\<exists>x. r = Inr x)"
  by (cases r) auto

lemma map_res_Inr: "map_res f xs = Inr ys \<longleftrightarrow> list_all2 (\<lambda>x y. f x = Inr y) xs ys"
  by (induction xs arbitrary: ys) (auto simp: bind_res_Inr list_all2_Cons1)

lemma bind_res_assoc: "bind_res (bind_res r f) g = bind_res r (\<lambda>x. bind_res (f x) g)"
  by (cases r) auto

lemma fold_res_append:
  "fold_res f st (xs @ ys) = bind_res (fold_res f st xs) (\<lambda>st'. fold_res f st' ys)"
  by (induction xs arbitrary: st) (auto simp: bind_res_assoc)

section \<open>Sorting and paging\<close>

text \<open>
  \<open>xs.sort(key=k, reverse=True)\<close> keeps the order of elements with equal keys, and
  \<open>xs[offset : offset + limit]\<close> is a slice.
\<close>

definition sort_desc :: "('a \<Rightarrow> 'k::linorder) \<Rightarrow> 'a list \<Rightarrow> 'a list" where
  "sort_desc k xs = rev (sort_key k (rev xs))"

definition page_slice :: "nat \<Rightarrow> nat \<Rightarrow> 'a list \<Rightarrow> 'a list" where
  "page_slice offset limit xs = take limit (drop offset xs)"

lemma set_sort_desc [simp]: "set (sort_desc k xs) = set xs"
  by (simp add: sort_desc_def)

lemma mset_sort_desc [simp]: "mset (sort_desc k xs) = mset xs"
  by (simp add: sort_desc_def)

lemma length_sort_desc [simp]: "length (sort_desc k xs) = length xs"
  by (simp add: sort_desc_def)

lemma sorted_sort_desc: "sorted_wrt (\<lambda>x y. k y \<le> k x) (sort_desc k xs)"
proof -
  have "sorted_wrt (\<lambda>x y. k x \<le> k y) (sort_key k (rev xs))"
    using sorted_sort_key [of k "rev xs"] by (simp add: sorted_map)
  then show ?thesis by (simp add: sort_desc_def sorted_wrt_rev)
qed

lemma set_page_slice: "set (page_slice n m xs) \<subseteq> set xs"
  by (auto simp: page_slice_def dest: in_set_takeD in_set_dropD)

lemma length_page_slice: "length (page_slice n m xs) \<le> m"
  by (simp add: page_slice_def)

lemma page_slice_append: "page_slice 0 n xs @ page_slice n m xs = page_slice 0 (n + m) xs"
  by (simp add: page_slice_def take_add)

lemma sorted_wrt_page_slice: "sorted_wrt P xs \<Longrightarrow> sorted_wrt P (page_slice n m xs)"
  by (simp add: page_slice_def)

end
