(* ===== verification/EventKernel.thy ===== *)
theory EventKernel
  imports Prelude
begin

text \<open>
  The contract of a command-to-event kernel, as the stores use it: deciding a command gives
  one event, the state it was decided on accepts that event, and the result satisfies the
  kernel's invariant with the version one higher. The stores' lemmas about growing event
  streams are proved here once; \<open>WikiDomain\<close> interprets the contract on \<open>decide\<close> and
  \<open>evolve\<close>.
\<close>

locale event_kernel =
  fixes dec :: "'s option \<Rightarrow> 'c \<Rightarrow> 'x + 'd"
    and ev :: "'s option \<Rightarrow> 'e \<Rightarrow> 'x + 's"
    and evs :: "'d \<Rightarrow> 'e list"
    and ver :: "'s \<Rightarrow> int"
    and ok :: "'s \<Rightarrow> bool"
  assumes one_event: "dec st c = Inr d \<Longrightarrow> \<exists>e. evs d = [e]"
    and evolves: "dec st c = Inr d \<Longrightarrow> \<forall>s. st = Some s \<longrightarrow> ok s \<Longrightarrow> e \<in> set (evs d) \<Longrightarrow>
      \<exists>s'. ev st e = Inr s' \<and> ok s' \<and> ver s' = (case st of None \<Rightarrow> 1 | Some s \<Rightarrow> ver s + 1)"
begin

lemma accepted_fold:
  assumes "dec st c = Inr d" and "\<forall>s. st = Some s \<longrightarrow> ok s"
  shows "\<exists>s'. fold_res ev st (evs d) = Inr (Some s') \<and> ok s'
    \<and> ver s' = (case st of None \<Rightarrow> 1 | Some s \<Rightarrow> ver s + 1)"
proof -
  from one_event [OF assms(1)] obtain e where e: "evs d = [e]" by blast
  with evolves [OF assms, of e] show ?thesis by auto
qed

text \<open>A stream that replays to the current state still does after the accepted events.\<close>

lemma stream_grows:
  assumes stream: "fold_res ev None es = Inr st"
    and version: "(case st of None \<Rightarrow> 0 | Some s \<Rightarrow> ver s) = int (length es)"
    and dec: "dec st c = Inr d" and ok: "\<forall>s. st = Some s \<longrightarrow> ok s"
  shows "\<exists>s'. fold_res ev st (evs d) = Inr (Some s')
    \<and> fold_res ev None (es @ evs d) = Inr (Some s') \<and> ok s'
    \<and> ver s' = int (length (es @ evs d))"
proof -
  from accepted_fold [OF dec ok] obtain s' where
    s': "fold_res ev st (evs d) = Inr (Some s')" "ok s'"
      "ver s' = (case st of None \<Rightarrow> 1 | Some s \<Rightarrow> ver s + 1)" by blast
  from one_event [OF dec] have "length (evs d) = 1" by auto
  with s'(3) version have "ver s' = int (length (es @ evs d))"
    by (auto split: option.splits)
  moreover have "fold_res ev None (es @ evs d) = Inr (Some s')"
    using stream s'(1) by (simp add: fold_res_append)
  ultimately show ?thesis using s' by blast
qed

end

end
