(* ===== verification/Hashing.thy ===== *)
theory Hashing
  imports Prelude "HOL-Library.Word"
begin

unbundle bit_operations_syntax

text \<open>
  The byte-level routines of the Python standard library that the program relies on:
  UTF-8 encoding of a \<open>str\<close>, SHA-256 (FIPS 180-4) and its hexadecimal digest, HMAC-SHA256
  (RFC 2104) and unpadded URL-safe base64. They are executable; the proofs of the other
  theories treat the hash as an opaque function and use only the shape of its output.
\<close>

type_synonym byte = "8 word"
type_synonym bytes = "byte list"

section \<open>UTF-8\<close>

text \<open>
  \<open>s.encode("utf-8")\<close>; \<open>None\<close> is the \<open>UnicodeEncodeError\<close> raised for a lone surrogate.
\<close>

definition utf8_char :: "nat \<Rightarrow> bytes option" where
  "utf8_char c =
    (if c < 128 then Some [of_nat c]
     else if c < 2048 then Some [of_nat (192 + c div 64), of_nat (128 + c mod 64)]
     else if 55296 \<le> c \<and> c \<le> 57343 then None
     else if c < 65536 then
       Some [of_nat (224 + c div 4096), of_nat (128 + c div 64 mod 64), of_nat (128 + c mod 64)]
     else if c < 1114112 then
       Some [of_nat (240 + c div 262144), of_nat (128 + c div 4096 mod 64),
             of_nat (128 + c div 64 mod 64), of_nat (128 + c mod 64)]
     else None)"

fun utf8_encode :: "pystr \<Rightarrow> bytes option" where
  "utf8_encode [] = Some []"
| "utf8_encode (c # cs) =
     (case utf8_char c of None \<Rightarrow> None
      | Some b \<Rightarrow> (case utf8_encode cs of None \<Rightarrow> None | Some bs \<Rightarrow> Some (b @ bs)))"

lemma utf8_encode_append:
  "utf8_encode (xs @ ys) =
     (case utf8_encode xs of None \<Rightarrow> None
      | Some a \<Rightarrow> (case utf8_encode ys of None \<Rightarrow> None | Some b \<Rightarrow> Some (a @ b)))"
  by (induction xs) (auto split: option.splits)

lemma length_utf8_char: "utf8_char c = Some b \<Longrightarrow> 1 \<le> length b \<and> length b \<le> 4"
  by (auto simp: utf8_char_def split: if_splits)

lemma length_utf8_encode:
  "utf8_encode s = Some b \<Longrightarrow> length s \<le> length b \<and> length b \<le> 4 * length s"
proof (induction s arbitrary: b)
  case (Cons c cs)
  then show ?case
    by (fastforce split: option.splits dest: length_utf8_char)
qed simp

lemma utf8_encode_ascii:
  "\<forall>c \<in> set s. c < 128 \<Longrightarrow> utf8_encode s = Some (map of_nat s)"
  by (induction s) (auto simp: utf8_char_def)

text \<open>Text that encodes: every code point is a Unicode scalar value.\<close>

definition encodable :: "pystr \<Rightarrow> bool" where
  "encodable s \<longleftrightarrow> (\<forall>x \<in> set s. x < 1114112 \<and> \<not> (55296 \<le> x \<and> x \<le> 57343))"

lemma utf8_encode_total_iff: "utf8_encode s \<noteq> None \<longleftrightarrow> encodable s"
  by (induction s) (auto simp: encodable_def utf8_char_def split: option.splits if_splits)

lemma of_char_lt_256: "(of_char c :: nat) < 256"
  by (metis of_char_mod_256 mod_less_divisor zero_less_numeral)

lemma encodable_str [simp]: "encodable (str s)"
proof -
  have "x < 256" if "x \<in> set (str s)" for x
    using that of_char_lt_256 by (auto simp: str_def)
  then show ?thesis by (fastforce simp: encodable_def)
qed

lemma encodable_Nil [simp]: "encodable []"
  by (simp add: encodable_def)

lemma encodable_append [simp]: "encodable (s @ t) \<longleftrightarrow> encodable s \<and> encodable t"
  by (auto simp: encodable_def)

text \<open>
  \<open>b.decode("utf-8")\<close>; \<open>None\<close> is the \<open>UnicodeDecodeError\<close> for a byte out of place, an overlong
  form, a surrogate or a value past U+10FFFF.
\<close>

definition utf8_tail :: "byte \<Rightarrow> nat option" where
  "utf8_tail b = (if 128 \<le> unat b \<and> unat b < 192 then Some (unat b - 128) else None)"

fun utf8_tails :: "nat \<Rightarrow> bytes \<Rightarrow> nat \<Rightarrow> nat option" where
  "utf8_tails acc bs 0 = Some acc"
| "utf8_tails acc [] (Suc n) = None"
| "utf8_tails acc (b # bs) (Suc n) =
     (case utf8_tail b of None \<Rightarrow> None | Some v \<Rightarrow> utf8_tails (64 * acc + v) bs n)"

definition utf8_lead :: "byte \<Rightarrow> (nat \<times> nat) option" where
  "utf8_lead b = (let n = unat b in
     if n < 128 then Some (n, 0)
     else if 192 \<le> n \<and> n < 224 then Some (n - 192, 1)
     else if 224 \<le> n \<and> n < 240 then Some (n - 224, 2)
     else if 240 \<le> n \<and> n < 248 then Some (n - 240, 3) else None)"

definition utf8_legal :: "nat \<Rightarrow> nat \<Rightarrow> bool" where
  "utf8_legal k c \<longleftrightarrow>
     (if k = 0 then c < 128
      else if k = 1 then 128 \<le> c \<and> c < 2048
      else if k = 2 then 2048 \<le> c \<and> c < 65536 \<and> \<not> (55296 \<le> c \<and> c \<le> 57343)
      else 65536 \<le> c \<and> c < 1114112)"

fun utf8_decode :: "bytes \<Rightarrow> pystr option" where
  "utf8_decode [] = Some []"
| "utf8_decode (b # bs) =
     (case utf8_lead b of
        None \<Rightarrow> None
      | Some (v, k) \<Rightarrow>
          (case utf8_tails v bs k of
             None \<Rightarrow> None
           | Some c \<Rightarrow> if utf8_legal k c then map_option ((#) c) (utf8_decode (drop k bs)) else None))"

lemma unat_byte: "n < 256 \<Longrightarrow> unat (of_nat n :: byte) = n"
  by (simp add: unat_of_nat)

lemma utf8_tail_of_nat: "n < 64 \<Longrightarrow> utf8_tail (of_nat (128 + n)) = Some n"
  using unat_byte [of "128 + n"] by (simp add: utf8_tail_def del: of_nat_add)

lemma utf8_lead_of_nat:
  "n < 128 \<Longrightarrow> utf8_lead (of_nat n) = Some (n, 0)"
  "n < 32 \<Longrightarrow> utf8_lead (of_nat (192 + n)) = Some (n, 1)"
  "n < 16 \<Longrightarrow> utf8_lead (of_nat (224 + n)) = Some (n, 2)"
  "n < 8 \<Longrightarrow> utf8_lead (of_nat (240 + n)) = Some (n, 3)"
  using unat_byte [of n] unat_byte [of "192 + n"] unat_byte [of "224 + n"] unat_byte [of "240 + n"]
  by (simp_all add: utf8_lead_def Let_def del: of_nat_add)

lemma utf8_decode_char:
  assumes "utf8_char c = Some b"
  shows "utf8_decode (b @ bs) = map_option ((#) c) (utf8_decode bs)"
proof -
  note leads = utf8_lead_of_nat utf8_tail_of_nat
  consider "c < 128" | "128 \<le> c" "c < 2048" | "2048 \<le> c" "c < 65536" | "65536 \<le> c" "c < 1114112"
    using assms by (force simp: utf8_char_def split: if_splits)
  then show ?thesis
  proof cases
    case 1
    with assms show ?thesis by (auto simp: utf8_char_def leads utf8_legal_def)
  next
    case 2
    then have d: "c div 64 < 32" by auto
    have "b = [of_nat (192 + c div 64), of_nat (128 + c mod 64)]" using 2 assms by (simp add: utf8_char_def)
    with 2 d show ?thesis
      by (simp add: leads utf8_legal_def del: of_nat_add)
  next
    case 3
    then have d: "c div 4096 < 16" by auto
    have v: "64 * (64 * (c div 4096) + c div 64 mod 64) + c mod 64 = c"
      using div_mult_mod_eq [of c 64] div_mult_mod_eq [of "c div 64" 64] div_mult2_eq [of c 64 64] by simp
    have "b = [of_nat (224 + c div 4096), of_nat (128 + c div 64 mod 64), of_nat (128 + c mod 64)]"
      and "\<not> (55296 \<le> c \<and> c \<le> 57343)" using 3 assms by (auto simp: utf8_char_def split: if_splits)
    with 3 d show ?thesis
      by (simp add: leads utf8_legal_def numeral_2_eq_2 v [simplified] del: of_nat_add)
  next
    case 4
    then have d: "c div 262144 < 8" by auto
    have v: "64 * (64 * (64 * (c div 262144) + c div 4096 mod 64) + c div 64 mod 64) + c mod 64 = c"
      using div_mult_mod_eq [of c 64] div_mult_mod_eq [of "c div 64" 64] div_mult_mod_eq [of "c div 4096" 64]
        div_mult2_eq [of c 64 64] div_mult2_eq [of c 4096 64] by simp
    have "b = [of_nat (240 + c div 262144), of_nat (128 + c div 4096 mod 64),
        of_nat (128 + c div 64 mod 64), of_nat (128 + c mod 64)]" using 4 assms by (simp add: utf8_char_def)
    with 4 d show ?thesis
      by (simp add: leads utf8_legal_def numeral_3_eq_3 v [simplified] del: of_nat_add)
  qed
qed

lemma utf8_decode_encode: "utf8_encode s = Some b \<Longrightarrow> utf8_decode b = Some s"
  by (induction s arbitrary: b) (auto simp: utf8_decode_char split: option.splits)

section \<open>SHA-256\<close>

type_synonym word32 = "32 word"

definition sha_k :: "word32 list" where
  "sha_k = [
     1116352408, 1899447441, 3049323471, 3921009573,
     961987163, 1508970993, 2453635748, 2870763221,
     3624381080, 310598401, 607225278, 1426881987,
     1925078388, 2162078206, 2614888103, 3248222580,
     3835390401, 4022224774, 264347078, 604807628,
     770255983, 1249150122, 1555081692, 1996064986,
     2554220882, 2821834349, 2952996808, 3210313671,
     3336571891, 3584528711, 113926993, 338241895,
     666307205, 773529912, 1294757372, 1396182291,
     1695183700, 1986661051, 2177026350, 2456956037,
     2730485921, 2820302411, 3259730800, 3345764771,
     3516065817, 3600352804, 4094571909, 275423344,
     430227734, 506948616, 659060556, 883997877,
     958139571, 1322822218, 1537002063, 1747873779,
     1955562222, 2024104815, 2227730452, 2361852424,
     2428436474, 2756734187, 3204031479, 3329325298]"

definition sha_h0 :: "word32 list" where
  "sha_h0 = [
     1779033703, 3144134277, 1013904242, 2773480762,
     1359893119, 2600822924, 528734635, 1541459225]"

definition rotr :: "nat \<Rightarrow> word32 \<Rightarrow> word32" where
  "rotr n x = drop_bit n x OR push_bit (32 - n) x"

definition sha_sigma0 :: "word32 \<Rightarrow> word32" where
  "sha_sigma0 x = rotr 7 x XOR rotr 18 x XOR drop_bit 3 x"

definition sha_sigma1 :: "word32 \<Rightarrow> word32" where
  "sha_sigma1 x = rotr 17 x XOR rotr 19 x XOR drop_bit 10 x"

definition sha_Sigma0 :: "word32 \<Rightarrow> word32" where
  "sha_Sigma0 x = rotr 2 x XOR rotr 13 x XOR rotr 22 x"

definition sha_Sigma1 :: "word32 \<Rightarrow> word32" where
  "sha_Sigma1 x = rotr 6 x XOR rotr 11 x XOR rotr 25 x"

definition sha_ch :: "word32 \<Rightarrow> word32 \<Rightarrow> word32 \<Rightarrow> word32" where
  "sha_ch x y z = (x AND y) XOR (NOT x AND z)"

definition sha_maj :: "word32 \<Rightarrow> word32 \<Rightarrow> word32 \<Rightarrow> word32" where
  "sha_maj x y z = (x AND y) XOR (x AND z) XOR (y AND z)"

text \<open>The message schedule: the next word from the sixteen before it.\<close>

fun sha_schedule :: "nat \<Rightarrow> word32 list \<Rightarrow> word32 list" where
  "sha_schedule 0 w = w"
| "sha_schedule (Suc n) w =
     (let t = length w in
      sha_schedule n
        (w @ [sha_sigma1 (w ! (t - 2)) + w ! (t - 7) + sha_sigma0 (w ! (t - 15)) + w ! (t - 16)]))"

fun sha_round :: "word32 list \<Rightarrow> word32 \<times> word32 \<Rightarrow> word32 list" where
  "sha_round [a, b, c, d, e, f, g, h] (k, w) =
     (let t1 = h + sha_Sigma1 e + sha_ch e f g + k + w;
          t2 = sha_Sigma0 a + sha_maj a b c
      in [t1 + t2, a, b, c, d + t1, e, f, g])"
| "sha_round s _ = s"

definition sha_word :: "byte \<Rightarrow> byte \<Rightarrow> byte \<Rightarrow> byte \<Rightarrow> word32" where
  "sha_word a b c d =
     push_bit 24 (ucast a) OR push_bit 16 (ucast b) OR push_bit 8 (ucast c) OR ucast d"

fun sha_words :: "bytes \<Rightarrow> word32 list" where
  "sha_words (a # b # c # d # r) = sha_word a b c d # sha_words r"
| "sha_words _ = []"

definition sha_block :: "word32 list \<Rightarrow> bytes \<Rightarrow> word32 list" where
  "sha_block h blk =
     map2 (+) h (foldl sha_round h (zip sha_k (sha_schedule 48 (sha_words blk))))"

function sha_blocks :: "word32 list \<Rightarrow> bytes \<Rightarrow> word32 list" where
  "sha_blocks h m = (if m = [] then h else sha_blocks (sha_block h (take 64 m)) (drop 64 m))"
  by pat_completeness auto
termination
  by (relation "measure (\<lambda>(h, m). length m)") auto

declare sha_blocks.simps [simp del]

definition be_bytes :: "nat \<Rightarrow> nat \<Rightarrow> bytes" where
  "be_bytes n x = map (\<lambda>i. of_nat (x div 256 ^ i mod 256)) (rev [0..<n])"

definition sha_pad :: "bytes \<Rightarrow> bytes" where
  "sha_pad m =
     (let l = length m; z = (119 - l mod 64) mod 64
      in m @ 128 # replicate z 0 @ be_bytes 8 (8 * l mod 2 ^ 64))"

definition word_bytes :: "word32 \<Rightarrow> bytes" where
  "word_bytes w =
     [ucast (drop_bit 24 w), ucast (drop_bit 16 w), ucast (drop_bit 8 w), ucast w]"

definition sha256 :: "bytes \<Rightarrow> bytes" where
  "sha256 m = concat (map word_bytes (sha_blocks sha_h0 (sha_pad m)))"

text \<open>The padded message is a whole number of blocks, so no input byte is dropped.\<close>

lemma length_be_bytes [simp]: "length (be_bytes n x) = n"
  by (simp add: be_bytes_def)

lemma length_sha_pad: "length (sha_pad m) mod 64 = 0"
proof -
  define r where "r = length m mod 64"
  have r: "r < 64" by (simp add: r_def)
  have "(r + 9 + (119 - r) mod 64) mod 64 = 0"
  proof (cases "r \<le> 55")
    case True
    then have "119 - r = (55 - r) + 64" by simp
    then have "(119 - r) mod 64 = 55 - r" by (simp only: mod_add_self2) simp
    with True show ?thesis by simp
  next
    case False
    with r have "(119 - r) mod 64 = 119 - r" by simp
    with r show ?thesis by simp
  qed
  then have "(length m + 9 + (119 - length m mod 64) mod 64) mod 64 = 0"
    by (metis (no_types, lifting) r_def mod_add_left_eq add.assoc)
  moreover have "length (sha_pad m) = length m + 9 + (119 - length m mod 64) mod 64"
    by (simp add: sha_pad_def Let_def)
  ultimately show ?thesis by (simp only:)
qed

lemma length_sha_round: "length (sha_round s x) = length s"
  by (induction s x rule: sha_round.induct) (simp_all add: Let_def)

lemma length_foldl_sha_round: "length (foldl sha_round s xs) = length s"
  by (induction xs arbitrary: s) (simp_all add: length_sha_round)

lemma length_sha_block [simp]: "length (sha_block h blk) = length h"
  by (simp add: sha_block_def length_foldl_sha_round)

lemma length_sha_blocks: "length (sha_blocks h m) = length h"
proof (induction h m rule: sha_blocks.induct)
  case (1 h m)
  then show ?case by (subst sha_blocks.simps) auto
qed

lemma length_sha256 [simp]: "length (sha256 m) = 32"
proof -
  have "length (concat (map word_bytes xs)) = 4 * length xs" for xs
    by (induction xs) (auto simp: word_bytes_def)
  then show ?thesis
    by (simp add: sha256_def length_sha_blocks sha_h0_def)
qed

section \<open>Hexadecimal digests\<close>

definition hex_digit :: "nat \<Rightarrow> nat" where
  "hex_digit n = (if n < 10 then 48 + n else 87 + n)"

definition hex_byte :: "byte \<Rightarrow> pystr" where
  "hex_byte b = [hex_digit (unat b div 16), hex_digit (unat b mod 16)]"

definition hexdigest :: "bytes \<Rightarrow> pystr" where
  "hexdigest bs = concat (map hex_byte bs)"

definition is_hex_char :: "nat \<Rightarrow> bool" where
  "is_hex_char c \<longleftrightarrow> (48 \<le> c \<and> c \<le> 57) \<or> (97 \<le> c \<and> c \<le> 102)"

lemma length_hexdigest [simp]: "length (hexdigest bs) = 2 * length bs"
  by (induction bs) (auto simp: hexdigest_def hex_byte_def)

lemma hex_digit_hex: "n < 16 \<Longrightarrow> is_hex_char (hex_digit n)"
  by (auto simp: hex_digit_def is_hex_char_def)

lemma unat_byte_lt: "unat (b :: byte) < 256"
  using unsigned_less [where w = b] by simp

lemma hexdigest_hex: "\<forall>c \<in> set (hexdigest bs). is_hex_char c"
proof -
  have "unat (b :: byte) div 16 < 16" for b
    using unat_byte_lt [of b] by simp
  then show ?thesis
    by (auto simp: hexdigest_def hex_byte_def intro!: hex_digit_hex)
qed

lemma hex_digit_inj: "m < 16 \<Longrightarrow> n < 16 \<Longrightarrow> hex_digit m = hex_digit n \<Longrightarrow> m = n"
  by (auto simp: hex_digit_def split: if_splits)

lemma hex_byte_inj: "hex_byte a = hex_byte b \<Longrightarrow> a = b"
proof -
  assume h: "hex_byte a = hex_byte b"
  have d: "unat (c :: byte) div 16 < 16" for c using unat_byte_lt [of c] by simp
  from h have "unat a div 16 = unat b div 16" and "unat a mod 16 = unat b mod 16"
    by (auto simp: hex_byte_def intro!: hex_digit_inj d)
  then have "unat a = unat b"
    by (metis div_mult_mod_eq)
  then show "a = b" by (simp add: word_unat_eq_iff)
qed

lemma hexdigest_inj: "hexdigest a = hexdigest b \<Longrightarrow> a = b"
proof (induction a arbitrary: b)
  case Nil
  then show ?case by (cases b) (auto simp: hexdigest_def hex_byte_def)
next
  case (Cons x xs)
  then obtain y ys where b: "b = y # ys"
    by (cases b) (auto simp: hexdigest_def hex_byte_def)
  have "length (hex_byte x) = length (hex_byte y)" by (simp add: hex_byte_def)
  with Cons.prems b have "hex_byte x = hex_byte y" and "hexdigest xs = hexdigest ys"
    by (auto simp: hexdigest_def)
  with Cons.IH b show ?case by (auto dest: hex_byte_inj)
qed

section \<open>HMAC-SHA256\<close>

definition hmac_key :: "bytes \<Rightarrow> bytes" where
  "hmac_key k = (let k' = if length k > 64 then sha256 k else k
                 in k' @ replicate (64 - length k') 0)"

definition hmac_sha256 :: "bytes \<Rightarrow> bytes \<Rightarrow> bytes" where
  "hmac_sha256 k m =
     (let k0 = hmac_key k
      in sha256 (map (\<lambda>b. b XOR 92) k0 @ sha256 (map (\<lambda>b. b XOR 54) k0 @ m)))"

lemma length_hmac [simp]: "length (hmac_sha256 k m) = 32"
  by (simp add: hmac_sha256_def Let_def)

end
