(* ===== verification/Json.thy ===== *)
theory Json
  imports Hashing
begin

text \<open>
  JSON values and the text that \<open>json.dumps\<close> writes for them with the separators
  \<open>(",", ":")\<close> and sorted keys, which is how the program builds the material it hashes
  and signs (\<open>app/wiki/memory.py\<close>, \<open>app/wiki/security.py\<close>, \<open>app/ontology.py\<close>).
\<close>

text \<open>A number with a fraction or an exponent is kept as its literal.\<close>

datatype json =
    JNull
  | JBool bool
  | JInt int
  | JFloat pystr
  | JStr pystr
  | JList "json list"
  | JObj "(pystr \<times> json) list"

section \<open>Decimal numbers\<close>

function nat_dec :: "nat \<Rightarrow> pystr" where
  "nat_dec n = (if n < 10 then [48 + n] else nat_dec (n div 10) @ [48 + n mod 10])"
  by pat_completeness auto
termination
  by (relation "measure id") auto

declare nat_dec.simps [simp del]

definition int_dec :: "int \<Rightarrow> pystr" where
  "int_dec i = (if i < 0 then 45 # nat_dec (nat (- i)) else nat_dec (nat i))"

definition is_digit :: "nat \<Rightarrow> bool" where
  "is_digit c \<longleftrightarrow> 48 \<le> c \<and> c \<le> 57"

lemma nat_dec_digits: "\<forall>c \<in> set (nat_dec n). is_digit c"
proof (induction n rule: nat_dec.induct)
  case (1 n)
  then show ?case
    by (subst nat_dec.simps) (auto simp: is_digit_def)
qed

lemma nat_dec_neq_Nil [simp]: "nat_dec n \<noteq> []"
  by (subst nat_dec.simps) auto

fun dec_value :: "nat \<Rightarrow> pystr \<Rightarrow> nat" where
  "dec_value acc [] = acc"
| "dec_value acc (c # cs) = dec_value (10 * acc + (c - 48)) cs"

lemma dec_value_append: "dec_value a (xs @ ys) = dec_value (dec_value a xs) ys"
  by (induction xs arbitrary: a) auto

lemma dec_value_nat_dec: "dec_value 0 (nat_dec n) = n"
proof (induction n rule: nat_dec.induct)
  case (1 n)
  show ?case
  proof (cases "n < 10")
    case True
    then show ?thesis by (subst nat_dec.simps) simp
  next
    case False
    with 1 show ?thesis by (subst nat_dec.simps) (simp add: dec_value_append)
  qed
qed

lemma nat_dec_inj: "nat_dec m = nat_dec n \<longleftrightarrow> m = n"
  using dec_value_nat_dec by metis

section \<open>Strings\<close>

text \<open>
  The escapes of \<open>json.dumps\<close>. With \<open>ensure_ascii\<close> every character outside the printable
  ASCII range becomes \<open>\u\<close> and four hexadecimal digits, a character beyond the basic plane
  as a surrogate pair; without it only the control characters, the quote and the
  backslash are escaped.
\<close>

definition hex4 :: "nat \<Rightarrow> pystr" where
  "hex4 n = [hex_digit (n div 4096 mod 16), hex_digit (n div 256 mod 16),
             hex_digit (n div 16 mod 16), hex_digit (n mod 16)]"

definition u_escape :: "nat \<Rightarrow> pystr" where
  "u_escape n = 92 # 117 # hex4 n"

definition json_char :: "bool \<Rightarrow> nat \<Rightarrow> pystr" where
  "json_char ascii c =
    (if c = 34 then [92, 34]
     else if c = 92 then [92, 92]
     else if c = 10 then [92, 110]
     else if c = 13 then [92, 114]
     else if c = 9 then [92, 116]
     else if c = 12 then [92, 102]
     else if c = 8 then [92, 98]
     else if c < 32 then u_escape c
     else if ascii \<and> 126 < c then
       (if c < 65536 then u_escape c
        else u_escape (55296 + (c - 65536) div 1024 mod 1024) @ u_escape (56320 + (c - 65536) mod 1024))
     else [c])"

definition json_string :: "bool \<Rightarrow> pystr \<Rightarrow> pystr" where
  "json_string ascii s = 34 # concat (map (json_char ascii) s) @ [34]"

section \<open>Documents\<close>

fun sep_by :: "nat \<Rightarrow> pystr list \<Rightarrow> pystr" where
  "sep_by c [] = []"
| "sep_by c [x] = x"
| "sep_by c (x # y # ys) = x @ c # sep_by c (y # ys)"

text \<open>Sorting the keys of every object, as \<open>sort_keys=True\<close> does.\<close>

fun json_sorted :: "json \<Rightarrow> json" where
  "json_sorted (JList xs) = JList (map json_sorted xs)"
| "json_sorted (JObj kvs) = JObj (sort_key fst (map (\<lambda>(k, v). (k, json_sorted v)) kvs))"
| "json_sorted j = j"

fun dumps_plain :: "bool \<Rightarrow> json \<Rightarrow> pystr" where
  "dumps_plain a JNull = str ''null''"
| "dumps_plain a (JBool b) = (if b then str ''true'' else str ''false'')"
| "dumps_plain a (JInt i) = int_dec i"
| "dumps_plain a (JFloat t) = t"
| "dumps_plain a (JStr s) = json_string a s"
| "dumps_plain a (JList xs) = 91 # sep_by 44 (map (dumps_plain a) xs) @ [93]"
| "dumps_plain a (JObj kvs) =
     123 # sep_by 44 (map (\<lambda>(k, v). json_string a k @ 58 # dumps_plain a v) kvs) @ [125]"

text \<open>\<open>json.dumps(j, ensure_ascii=a, sort_keys=True, separators=(",", ":"))\<close>\<close>

definition dumps :: "bool \<Rightarrow> json \<Rightarrow> pystr" where
  "dumps a j = dumps_plain a (json_sorted j)"

section \<open>The characters of a document of strings\<close>

lemma json_char_set: "x \<in> set (json_char False c) \<Longrightarrow> x = c \<or> x < 128"
  by (auto simp: json_char_def u_escape_def hex4_def hex_digit_def split: if_splits)

lemma json_string_set: "x \<in> set (json_string False s) \<Longrightarrow> x \<in> set s \<or> x < 128"
  by (auto simp: json_string_def dest: json_char_set)

lemma sep_by_set: "x \<in> set (sep_by c xs) \<Longrightarrow> x = c \<or> (\<exists>y \<in> set xs. x \<in> set y)"
  by (induction c xs rule: sep_by.induct) auto

definition json_strings :: "(pystr, pystr) pydict \<Rightarrow> json" where
  "json_strings d = JObj (map (\<lambda>(k, v). (k, JStr v)) d)"

lemma dumps_strings_set:
  assumes "x \<in> set (dumps False (json_strings kvs))"
  shows "x < 128 \<or> (\<exists>(k, v) \<in> set kvs. x \<in> set k \<or> x \<in> set v)"
proof -
  let ?kvs = "sort_key fst (map (\<lambda>kv. (fst kv, JStr (snd kv))) kvs)"
  have "dumps False (json_strings kvs) =
      123 # sep_by 44 (map (\<lambda>(k, v). json_string False k @ 58 # dumps_plain False v) ?kvs) @ [125]"
    by (simp add: dumps_def json_strings_def comp_def case_prod_beta)
  with assms have "x = 123 \<or> x = 125 \<or>
      x \<in> set (sep_by 44 (map (\<lambda>(k, v). json_string False k @ 58 # dumps_plain False v) ?kvs))"
    by simp
  then consider "x < 128"
    | y where "y \<in> set (map (\<lambda>(k, v). json_string False k @ 58 # dumps_plain False v) ?kvs)" "x \<in> set y"
    by (auto dest: sep_by_set)
  then show ?thesis
  proof cases
    case 2
    then obtain k v where kv: "(k, v) \<in> set kvs"
      and "x \<in> set (json_string False k) \<or> x = 58 \<or> x \<in> set (json_string False v)" by auto
    then have "x < 128 \<or> x \<in> set k \<or> x \<in> set v" by (auto dest: json_string_set)
    with kv show ?thesis by blast
  qed simp
qed

lemma dumps_strings_encodable:
  assumes "\<forall>(k, v) \<in> set kvs. encodable k \<and> encodable v"
  shows "encodable (dumps False (json_strings kvs))"
  unfolding encodable_def
proof
  fix x assume "x \<in> set (dumps False (json_strings kvs))"
  from dumps_strings_set [OF this] assms
  show "x < 1114112 \<and> \<not> (55296 \<le> x \<and> x \<le> 57343)"
    by (force simp: encodable_def)
qed

end
