(* ===== verification/WikiDomain.thy ===== *)
theory WikiDomain
  imports EventKernel Json
begin

text \<open>
  The command-to-event kernel of the community wiki, \<open>src/app/wiki/domain.py\<close>: the page
  state, the six commands, the decision function that turns a command into events and
  outbox effects, the fold that applies recorded events, and the intent of a command.
  A \<open>datetime\<close> is its instant in microseconds; a \<open>dict[str, Any]\<close> whose values are all
  strings is an association list of strings.
\<close>

type_synonym datetime = int
type_synonym event_data = "(pystr, pystr) pydict"

section \<open>Errors\<close>

datatype wiki_exn =
    WikiError (err_code: pystr) (err_message: pystr) (err_status: int)
  | PyKeyError pystr
  | PyUnicodeEncodeError
  | PyUnicodeDecodeError
  | PyRuntimeError pystr
  | PyValueError pystr
  | PyTypeError pystr
  | PyAttributeError pystr
  | PyOverflowError
  | DbError pystr

section \<open>State, commands, events\<close>

record PageState =
  ps_page_id :: pystr
  ps_slug :: pystr
  ps_title :: pystr
  ps_content :: pystr
  ps_head_revision_id :: pystr
  ps_content_hash :: pystr
  ps_head_actor_id :: pystr
  ps_stream_version :: int
  ps_review_status :: pystr
  ps_moderation_status :: pystr
  ps_created_at :: datetime
  ps_updated_at :: datetime
  ps_authority :: pystr

datatype WikiCommand =
    CreatePage (command_id: pystr) (actor_id: pystr) (scopes: "pystr set") (occurred_at: datetime)
      (page_id: pystr) (revision_id: pystr) (slug: pystr) (title: pystr) (content: pystr)
      (summary: pystr)
  | EditPage (command_id: pystr) (actor_id: pystr) (scopes: "pystr set") (occurred_at: datetime)
      (page_id: pystr) (revision_id: pystr) (expected_revision_id: pystr) (title: pystr)
      (content: pystr) (summary: pystr)
  | SubmitReview (command_id: pystr) (actor_id: pystr) (scopes: "pystr set") (occurred_at: datetime)
      (page_id: pystr) (submission_id: pystr) (expected_revision_id: pystr)
      (expected_content_hash: pystr) (note_text: pystr)
  | ReportPage (command_id: pystr) (actor_id: pystr) (scopes: "pystr set") (occurred_at: datetime)
      (page_id: pystr) (report_id: pystr) (reason: pystr)
  | QuarantinePage (command_id: pystr) (actor_id: pystr) (scopes: "pystr set") (occurred_at: datetime)
      (page_id: pystr) (moderation_id: pystr) (expected_revision_id: pystr)
      (expected_content_hash: pystr) (reason: pystr)
  | ReleasePage (command_id: pystr) (actor_id: pystr) (scopes: "pystr set") (occurred_at: datetime)
      (page_id: pystr) (moderation_id: pystr) (expected_revision_id: pystr)
      (expected_content_hash: pystr) (note_text: pystr)

record WikiEvent =
  ev_event_id :: pystr
  ev_command_id :: pystr
  ev_page_id :: pystr
  ev_event_type :: pystr
  ev_occurred_at :: datetime
  ev_actor_id :: pystr
  ev_schema_version :: int
  ev_data :: event_data

record OutboxEffect =
  ef_effect_id :: pystr
  ef_event_id :: pystr
  ef_effect_type :: pystr
  ef_payload :: event_data

record Decision =
  dc_events :: "WikiEvent list"
  dc_effects :: "OutboxEffect list"

section \<open>Deciding\<close>

definition content_digest :: "pystr \<Rightarrow> wiki_exn + pystr" where
  "content_digest c = (case utf8_encode c of
     None \<Rightarrow> Inl PyUnicodeEncodeError
   | Some b \<Rightarrow> Inr (hexdigest (sha256 b)))"

definition require_scope :: "WikiCommand \<Rightarrow> pystr \<Rightarrow> wiki_exn + unit" where
  "require_scope cmd scope =
     (if scope \<notin> scopes cmd
      then Inl (WikiError (str ''insufficient_scope'') (str ''required scope: '' @ scope) 403)
      else Inr ())"

definition mk_event :: "WikiCommand \<Rightarrow> pystr \<Rightarrow> pystr \<Rightarrow> event_data \<Rightarrow> WikiEvent" where
  "mk_event cmd eid etype data =
     \<lparr>ev_event_id = eid, ev_command_id = command_id cmd, ev_page_id = page_id cmd,
      ev_event_type = etype, ev_occurred_at = occurred_at cmd, ev_actor_id = actor_id cmd,
      ev_schema_version = 1, ev_data = data\<rparr>"

definition decide_create :: "PageState option \<Rightarrow> WikiCommand \<Rightarrow> wiki_exn + Decision" where
  "decide_create state cmd =
     bind_res (require_scope cmd (str ''wiki:edit'')) (\<lambda>_.
     if state \<noteq> None
     then Inl (WikiError (str ''page_exists'') (str ''the page already exists'') 409)
     else bind_res (content_digest (content cmd)) (\<lambda>digest.
       Inr \<lparr>dc_events = [mk_event cmd (revision_id cmd) (str ''page_created'')
              [(str ''slug'', slug cmd), (str ''title'', title cmd), (str ''content'', content cmd),
               (str ''content_hash'', digest), (str ''revision_id'', revision_id cmd),
               (str ''summary'', summary cmd), (str ''edit_summary'', summary cmd),
               (str ''authority'', str ''community''), (str ''review_status'', str ''unreviewed''),
               (str ''moderation_status'', str ''visible'')]],
            dc_effects = []\<rparr>))"

definition decide_edit :: "PageState \<Rightarrow> WikiCommand \<Rightarrow> wiki_exn + Decision" where
  "decide_edit state cmd =
     bind_res (require_scope cmd (str ''wiki:edit'')) (\<lambda>_.
     if ps_moderation_status state = str ''quarantined''
     then Inl (WikiError (str ''page_quarantined'') (str ''quarantined pages cannot be edited'') 423)
     else if expected_revision_id cmd \<noteq> ps_head_revision_id state
     then Inl (WikiError (str ''revision_conflict'') (str ''the page head has changed'') 409)
     else bind_res (content_digest (content cmd)) (\<lambda>digest.
       Inr \<lparr>dc_events = [mk_event cmd (revision_id cmd) (str ''revision_committed'')
              [(str ''revision_id'', revision_id cmd),
               (str ''parent_revision_id'', ps_head_revision_id state),
               (str ''slug'', ps_slug state), (str ''title'', title cmd),
               (str ''content'', content cmd), (str ''content_hash'', digest),
               (str ''summary'', summary cmd), (str ''edit_summary'', summary cmd),
               (str ''review_status'', str ''unreviewed'')]],
            dc_effects = []\<rparr>))"

definition decide_submit :: "PageState \<Rightarrow> WikiCommand \<Rightarrow> wiki_exn + Decision" where
  "decide_submit state cmd =
     bind_res (require_scope cmd (str ''wiki:submit'')) (\<lambda>_.
     if ps_moderation_status state = str ''quarantined''
     then Inl (WikiError (str ''page_quarantined'')
                 (str ''quarantined pages cannot be submitted for review'') 423)
     else if expected_revision_id cmd \<noteq> ps_head_revision_id state
     then Inl (WikiError (str ''revision_conflict'') (str ''the page head has changed'') 409)
     else if expected_content_hash cmd \<noteq> ps_content_hash state
     then Inl (WikiError (str ''content_hash_conflict'') (str ''the page content hash has changed'') 409)
     else if ps_review_status state = str ''submitted''
     then Inl (WikiError (str ''already_submitted'')
                 (str ''the current revision is already submitted'') 409)
     else
       let event = mk_event cmd (submission_id cmd) (str ''review_submitted'')
              [(str ''submission_id'', submission_id cmd),
               (str ''revision_id'', ps_head_revision_id state), (str ''note'', note_text cmd),
               (str ''authority'', str ''community''), (str ''review_status'', str ''submitted'')];
           effect = \<lparr>ef_effect_id = str ''review:'' @ submission_id cmd,
              ef_event_id = ev_event_id event, ef_effect_type = str ''review_requested'',
              ef_payload =
                [(str ''submission_id'', submission_id cmd), (str ''page_id'', ps_page_id state),
                 (str ''slug'', ps_slug state), (str ''revision_id'', ps_head_revision_id state),
                 (str ''actor_id'', actor_id cmd), (str ''note'', note_text cmd),
                 (str ''authority'', str ''community'')]\<rparr>
       in Inr \<lparr>dc_events = [event], dc_effects = [effect]\<rparr>)"

definition decide_report :: "PageState \<Rightarrow> WikiCommand \<Rightarrow> wiki_exn + Decision" where
  "decide_report state cmd =
     bind_res (require_scope cmd (str ''wiki:report'')) (\<lambda>_.
     if ps_moderation_status state = str ''quarantined''
     then Inl (WikiError (str ''page_quarantined'') (str ''the page is not publicly reportable'') 404)
     else
       let event = mk_event cmd (report_id cmd) (str ''page_reported'')
              [(str ''report_id'', report_id cmd), (str ''revision_id'', ps_head_revision_id state),
               (str ''content_hash'', ps_content_hash state), (str ''reason'', reason cmd),
               (str ''authority'', str ''community'')];
           effect = \<lparr>ef_effect_id = str ''report:'' @ report_id cmd,
              ef_event_id = ev_event_id event,
              ef_effect_type = str ''moderation_report_requested'',
              ef_payload =
                [(str ''report_id'', report_id cmd), (str ''page_id'', ps_page_id state),
                 (str ''slug'', ps_slug state), (str ''revision_id'', ps_head_revision_id state),
                 (str ''content_hash'', ps_content_hash state), (str ''actor_id'', actor_id cmd),
                 (str ''reason'', reason cmd), (str ''authority'', str ''community'')]\<rparr>
       in Inr \<lparr>dc_events = [event], dc_effects = [effect]\<rparr>)"

definition decide_moderation :: "PageState \<Rightarrow> WikiCommand \<Rightarrow> wiki_exn + Decision" where
  "decide_moderation state cmd =
     bind_res (require_scope cmd (str ''wiki:moderate'')) (\<lambda>_.
     if actor_id cmd = ps_head_actor_id state
     then Inl (WikiError (str ''moderator_is_head_actor'')
                 (str ''the head revision author cannot moderate that revision'') 403)
     else if expected_revision_id cmd \<noteq> ps_head_revision_id state
     then Inl (WikiError (str ''revision_conflict'') (str ''the page head has changed'') 409)
     else if expected_content_hash cmd \<noteq> ps_content_hash state
     then Inl (WikiError (str ''content_hash_conflict'') (str ''the page content hash has changed'') 409)
     else if is_QuarantinePage cmd
     then (if ps_moderation_status state = str ''quarantined''
           then Inl (WikiError (str ''already_quarantined'') (str ''the page is already quarantined'') 409)
           else Inr \<lparr>dc_events = [mk_event cmd (moderation_id cmd) (str ''page_quarantined'')
                  [(str ''moderation_id'', moderation_id cmd),
                   (str ''revision_id'', ps_head_revision_id state),
                   (str ''content_hash'', ps_content_hash state), (str ''reason'', reason cmd),
                   (str ''moderation_status'', str ''quarantined''),
                   (str ''authority'', str ''community'')]], dc_effects = []\<rparr>)
     else (if ps_moderation_status state \<noteq> str ''quarantined''
           then Inl (WikiError (str ''page_not_quarantined'') (str ''the page is not quarantined'') 409)
           else Inr \<lparr>dc_events = [mk_event cmd (moderation_id cmd) (str ''page_released'')
                  [(str ''moderation_id'', moderation_id cmd),
                   (str ''revision_id'', ps_head_revision_id state),
                   (str ''content_hash'', ps_content_hash state), (str ''note'', note_text cmd),
                   (str ''moderation_status'', str ''visible''),
                   (str ''authority'', str ''community'')]], dc_effects = []\<rparr>))"

text \<open>
  The \<open>isinstance\<close> chain of \<open>decide\<close>; its last line (\<open>unsupported_command\<close>) is for a
  value outside the command union, which the datatype excludes.
\<close>

definition decide :: "PageState option \<Rightarrow> WikiCommand \<Rightarrow> wiki_exn + Decision" where
  "decide state cmd =
     (if is_CreatePage cmd then decide_create state cmd
      else case state of
        None \<Rightarrow> Inl (WikiError (str ''page_not_found'') (str ''the page does not exist'') 404)
      | Some s \<Rightarrow>
          (if is_EditPage cmd then decide_edit s cmd
           else if is_SubmitReview cmd then decide_submit s cmd
           else if is_ReportPage cmd then decide_report s cmd
           else decide_moderation s cmd))"

section \<open>Evolving\<close>

definition data_item :: "WikiEvent \<Rightarrow> pystr \<Rightarrow> wiki_exn + pystr" where
  "data_item e k = (case dict_get (ev_data e) k of None \<Rightarrow> Inl (PyKeyError k) | Some v \<Rightarrow> Inr v)"

definition evolve_created :: "WikiEvent \<Rightarrow> wiki_exn + PageState" where
  "evolve_created e =
     bind_res (data_item e (str ''slug'')) (\<lambda>sl.
     bind_res (data_item e (str ''title'')) (\<lambda>ti.
     bind_res (data_item e (str ''content'')) (\<lambda>co.
     bind_res (data_item e (str ''revision_id'')) (\<lambda>rv.
     bind_res (data_item e (str ''content_hash'')) (\<lambda>ha.
       Inr \<lparr>ps_page_id = ev_page_id e, ps_slug = sl, ps_title = ti, ps_content = co,
            ps_head_revision_id = rv, ps_content_hash = ha, ps_head_actor_id = ev_actor_id e,
            ps_stream_version = 1, ps_review_status = str ''unreviewed'',
            ps_moderation_status = str ''visible'', ps_created_at = ev_occurred_at e,
            ps_updated_at = ev_occurred_at e, ps_authority = str ''community''\<rparr>)))))"

definition evolve_committed :: "PageState \<Rightarrow> WikiEvent \<Rightarrow> wiki_exn + PageState" where
  "evolve_committed s e =
     bind_res (data_item e (str ''title'')) (\<lambda>ti.
     bind_res (data_item e (str ''content'')) (\<lambda>co.
     bind_res (data_item e (str ''revision_id'')) (\<lambda>rv.
     bind_res (data_item e (str ''content_hash'')) (\<lambda>ha.
       Inr \<lparr>ps_page_id = ps_page_id s, ps_slug = ps_slug s, ps_title = ti, ps_content = co,
            ps_head_revision_id = rv, ps_content_hash = ha, ps_head_actor_id = ev_actor_id e,
            ps_stream_version = ps_stream_version s + 1, ps_review_status = str ''unreviewed'',
            ps_moderation_status = str ''visible'', ps_created_at = ps_created_at s,
            ps_updated_at = ev_occurred_at e, ps_authority = str ''community''\<rparr>))))"

definition evolve :: "PageState option \<Rightarrow> WikiEvent \<Rightarrow> wiki_exn + PageState" where
  "evolve state e =
     (if ev_event_type e = str ''page_created''
      then (case state of
              Some _ \<Rightarrow> Inl (WikiError (str ''invalid_event_stream'')
                               (str ''page_created must be the first event'') 409)
            | None \<Rightarrow> evolve_created e)
      else case state of
        None \<Rightarrow> Inl (WikiError (str ''invalid_event_stream'')
                        (str ''event stream does not start with page_created'') 409)
      | Some s \<Rightarrow>
          if ev_event_type e = str ''revision_committed'' then evolve_committed s e
          else if ev_event_type e = str ''review_submitted''
          then Inr (s\<lparr>ps_stream_version := ps_stream_version s + 1,
                      ps_review_status := str ''submitted'', ps_updated_at := ev_occurred_at e\<rparr>)
          else if ev_event_type e = str ''page_reported''
          then Inr (s\<lparr>ps_stream_version := ps_stream_version s + 1\<rparr>)
          else if ev_event_type e \<in> {str ''page_quarantined'', str ''page_released''}
          then bind_res (data_item e (str ''moderation_status'')) (\<lambda>m.
                 Inr (s\<lparr>ps_stream_version := ps_stream_version s + 1, ps_moderation_status := m\<rparr>))
          else Inl (WikiError (str ''unknown_event'')
                      (str ''unknown event type: '' @ ev_event_type e) 409))"

definition replay :: "WikiEvent list \<Rightarrow> wiki_exn + PageState option" where
  "replay events = fold_res evolve None events"

section \<open>Intent\<close>

fun command_kind :: "WikiCommand \<Rightarrow> pystr" where
  "command_kind (CreatePage _ _ _ _ _ _ _ _ _ _) = str ''CreatePage''"
| "command_kind (EditPage _ _ _ _ _ _ _ _ _ _) = str ''EditPage''"
| "command_kind (SubmitReview _ _ _ _ _ _ _ _ _) = str ''SubmitReview''"
| "command_kind (ReportPage _ _ _ _ _ _ _) = str ''ReportPage''"
| "command_kind (QuarantinePage _ _ _ _ _ _ _ _ _) = str ''QuarantinePage''"
| "command_kind (ReleasePage _ _ _ _ _ _ _ _ _) = str ''ReleasePage''"

definition command_intent :: "WikiCommand \<Rightarrow> (pystr, pystr) pydict" where
  "command_intent cmd =
     [(str ''kind'', command_kind cmd), (str ''actor_id'', actor_id cmd),
      (str ''page_id'', page_id cmd)] @
     (case cmd of
        CreatePage _ _ _ _ _ _ sl ti co su \<Rightarrow>
          [(str ''slug'', sl), (str ''title'', ti), (str ''content'', co), (str ''summary'', su)]
      | EditPage _ _ _ _ _ _ ex ti co su \<Rightarrow>
          [(str ''expected_revision_id'', ex), (str ''title'', ti), (str ''content'', co),
           (str ''summary'', su)]
      | SubmitReview _ _ _ _ _ _ ex ha no \<Rightarrow>
          [(str ''expected_revision_id'', ex), (str ''expected_content_hash'', ha), (str ''note'', no)]
      | ReportPage _ _ _ _ _ _ re \<Rightarrow> [(str ''reason'', re)]
      | QuarantinePage _ _ _ _ _ _ ex ha re \<Rightarrow>
          [(str ''expected_revision_id'', ex), (str ''expected_content_hash'', ha), (str ''reason'', re)]
      | ReleasePage _ _ _ _ _ _ ex ha no \<Rightarrow>
          [(str ''expected_revision_id'', ex), (str ''expected_content_hash'', ha), (str ''note'', no)])"

lemma content_digest_ok_iff: "(\<exists>h. content_digest c = Inr h) \<longleftrightarrow> encodable c"
  using utf8_encode_total_iff [of c] by (auto simp: content_digest_def split: option.splits)

lemma content_digest_shape:
  "content_digest c = Inr h \<Longrightarrow> length h = 64 \<and> (\<forall>x \<in> set h. is_hex_char x)"
  using hexdigest_hex by (auto simp: content_digest_def split: option.splits)

lemma content_digest_encodable: "content_digest c = Inr h \<Longrightarrow> encodable h"
  by (drule content_digest_shape) (auto simp: encodable_def is_hex_char_def)

section \<open>Correctness of the kernel\<close>

text \<open>The invariant of a page: its hash is the digest of its content and its statuses are legal.\<close>

definition page_ok :: "PageState \<Rightarrow> bool" where
  "page_ok s \<longleftrightarrow> content_digest (ps_content s) = Inr (ps_content_hash s)
     \<and> ps_review_status s \<in> {str ''unreviewed'', str ''submitted''}
     \<and> ps_moderation_status s \<in> {str ''visible'', str ''quarantined''}
     \<and> ps_authority s = str ''community'' \<and> 1 \<le> ps_stream_version s"

definition next_version :: "PageState option \<Rightarrow> int" where
  "next_version st = (case st of None \<Rightarrow> 1 | Some s \<Rightarrow> ps_stream_version s + 1)"

lemmas decide_defs = decide_def decide_create_def decide_edit_def decide_submit_def
  decide_report_def decide_moderation_def require_scope_def mk_event_def

lemmas evolve_defs = evolve_def evolve_created_def evolve_committed_def data_item_def

text \<open>\<open>evolve\<close> on each event type, as rewrite rules on the type of the event.\<close>

lemma evolve_by_type:
  "ev_event_type e = str ''page_created'' \<Longrightarrow> evolve None e = evolve_created e"
  "ev_event_type e = str ''revision_committed'' \<Longrightarrow> evolve (Some s) e = evolve_committed s e"
  "ev_event_type e = str ''review_submitted'' \<Longrightarrow> evolve (Some s) e =
     Inr (s\<lparr>ps_stream_version := ps_stream_version s + 1,
            ps_review_status := str ''submitted'', ps_updated_at := ev_occurred_at e\<rparr>)"
  "ev_event_type e = str ''page_reported'' \<Longrightarrow> evolve (Some s) e =
     Inr (s\<lparr>ps_stream_version := ps_stream_version s + 1\<rparr>)"
  "ev_event_type e = str ''page_quarantined'' \<or> ev_event_type e = str ''page_released'' \<Longrightarrow>
     evolve (Some s) e = bind_res (data_item e (str ''moderation_status'')) (\<lambda>m.
       Inr (s\<lparr>ps_stream_version := ps_stream_version s + 1, ps_moderation_status := m\<rparr>))"
  by (auto simp: evolve_def)

lemmas evolve_rules = evolve_by_type evolve_created_def evolve_committed_def data_item_def

text \<open>What each accepted command is, with its event: one lemma per command.\<close>

lemma decide_create_Inr:
  assumes "decide st cmd = Inr d" and "is_CreatePage cmd"
  shows "st = None \<and> str ''wiki:edit'' \<in> scopes cmd \<and> dc_effects d = []
    \<and> (\<exists>h. content_digest (content cmd) = Inr h \<and> dc_events d = [hd (dc_events d)]
        \<and> evolve None (hd (dc_events d)) = Inr \<lparr>ps_page_id = page_id cmd, ps_slug = slug cmd, ps_title = title cmd,
            ps_content = content cmd, ps_head_revision_id = revision_id cmd, ps_content_hash = h,
            ps_head_actor_id = actor_id cmd, ps_stream_version = 1,
            ps_review_status = str ''unreviewed'', ps_moderation_status = str ''visible'',
            ps_created_at = occurred_at cmd, ps_updated_at = occurred_at cmd,
            ps_authority = str ''community''\<rparr>)"
  using assms by (auto simp: decide_defs evolve_rules res_simps split: if_splits)

lemma decide_edit_Inr:
  assumes "decide (Some s) cmd = Inr d" and "is_EditPage cmd"
  shows "str ''wiki:edit'' \<in> scopes cmd \<and> ps_moderation_status s \<noteq> str ''quarantined''
    \<and> expected_revision_id cmd = ps_head_revision_id s \<and> dc_effects d = []
    \<and> (\<exists>h. content_digest (content cmd) = Inr h \<and> dc_events d = [hd (dc_events d)]
        \<and> evolve (Some s) (hd (dc_events d)) = Inr (s\<lparr>ps_title := title cmd, ps_content := content cmd,
            ps_head_revision_id := revision_id cmd, ps_content_hash := h,
            ps_head_actor_id := actor_id cmd, ps_stream_version := ps_stream_version s + 1,
            ps_review_status := str ''unreviewed'', ps_moderation_status := str ''visible'',
            ps_updated_at := occurred_at cmd, ps_authority := str ''community''\<rparr>))"
  using assms by (auto simp: decide_defs evolve_rules res_simps split: if_splits)

lemma decide_submit_Inr:
  assumes "decide (Some s) cmd = Inr d" and "is_SubmitReview cmd"
  shows "str ''wiki:submit'' \<in> scopes cmd \<and> ps_moderation_status s \<noteq> str ''quarantined''
    \<and> expected_revision_id cmd = ps_head_revision_id s
    \<and> expected_content_hash cmd = ps_content_hash s \<and> ps_review_status s \<noteq> str ''submitted''
    \<and> (\<exists>f. dc_events d = [hd (dc_events d)] \<and> dc_effects d = [f]
        \<and> ef_event_id f = ev_event_id (hd (dc_events d))
        \<and> ef_effect_id f = str ''review:'' @ submission_id cmd
        \<and> ef_effect_type f = str ''review_requested''
        \<and> evolve (Some s) (hd (dc_events d)) = Inr (s\<lparr>ps_stream_version := ps_stream_version s + 1,
            ps_review_status := str ''submitted'', ps_updated_at := occurred_at cmd\<rparr>))"
  using assms by (auto simp: decide_defs evolve_rules res_simps Let_def split: if_splits)

lemma decide_report_Inr:
  assumes "decide (Some s) cmd = Inr d" and "is_ReportPage cmd"
  shows "str ''wiki:report'' \<in> scopes cmd \<and> ps_moderation_status s \<noteq> str ''quarantined''
    \<and> (\<exists>f. dc_events d = [hd (dc_events d)] \<and> dc_effects d = [f]
        \<and> ef_event_id f = ev_event_id (hd (dc_events d))
        \<and> ef_effect_id f = str ''report:'' @ report_id cmd
        \<and> ef_effect_type f = str ''moderation_report_requested''
        \<and> evolve (Some s) (hd (dc_events d)) = Inr (s\<lparr>ps_stream_version := ps_stream_version s + 1\<rparr>))"
  using assms by (auto simp: decide_defs evolve_rules res_simps Let_def split: if_splits)

lemma decide_moderation_Inr:
  assumes "decide (Some s) cmd = Inr d" and "is_QuarantinePage cmd \<or> is_ReleasePage cmd"
  shows "str ''wiki:moderate'' \<in> scopes cmd \<and> actor_id cmd \<noteq> ps_head_actor_id s
    \<and> expected_revision_id cmd = ps_head_revision_id s
    \<and> expected_content_hash cmd = ps_content_hash s \<and> dc_effects d = []
    \<and> (is_QuarantinePage cmd \<longleftrightarrow> ps_moderation_status s \<noteq> str ''quarantined'')
    \<and> (dc_events d = [hd (dc_events d)]
        \<and> evolve (Some s) (hd (dc_events d)) = Inr (s\<lparr>ps_stream_version := ps_stream_version s + 1,
            ps_moderation_status := (if is_QuarantinePage cmd then str ''quarantined''
                                     else str ''visible'')\<rparr>))"
  using assms by (cases cmd) (auto simp: decide_defs evolve_rules res_simps Let_def split: if_splits)

lemmas decide_Inr = decide_create_Inr decide_edit_Inr decide_submit_Inr decide_report_Inr
  decide_moderation_Inr

lemma decide_None_Inr: "decide None cmd = Inr d \<Longrightarrow> is_CreatePage cmd"
  by (auto simp: decide_def split: if_splits)

text \<open>Every accepted decision is one event, which the state it was decided on accepts.\<close>

lemma decide_one_event: "decide st cmd = Inr d \<Longrightarrow> \<exists>e. dc_events d = [e]"
  by (auto simp: decide_defs res_simps Let_def split: if_splits option.splits)

lemma decide_event_ids:
  "decide st cmd = Inr d \<Longrightarrow> \<forall>e \<in> set (dc_events d). ev_page_id e = page_id cmd
    \<and> ev_command_id e = command_id cmd \<and> ev_actor_id e = actor_id cmd
    \<and> ev_occurred_at e = occurred_at cmd \<and> ev_schema_version e = 1"
  by (auto simp: decide_defs res_simps Let_def split: if_splits option.splits)

lemma decide_evolves:
  assumes "decide st cmd = Inr d" and "\<forall>s. st = Some s \<longrightarrow> page_ok s"
  shows "\<exists>s'. dc_events d = [hd (dc_events d)] \<and> evolve st (hd (dc_events d)) = Inr s' \<and> page_ok s'
    \<and> ps_stream_version s' = next_version st"
proof (cases "is_CreatePage cmd")
  case True
  from decide_create_Inr [OF assms(1) True] show ?thesis
    by (auto simp: page_ok_def next_version_def)
next
  case False
  with assms(1) obtain s where st: "st = Some s"
    by (cases st) (auto dest: decide_None_Inr)
  with assms(2) have ok: "page_ok s" by simp
  note d = assms(1) [unfolded st]
  consider "is_EditPage cmd" | "is_SubmitReview cmd" | "is_ReportPage cmd"
    | "is_QuarantinePage cmd \<or> is_ReleasePage cmd"
    using False by (cases cmd) auto
  then show ?thesis
  proof cases
    case 1
    from decide_edit_Inr [OF d 1] ok show ?thesis
      by (auto simp: page_ok_def next_version_def st)
  next
    case 2
    from decide_submit_Inr [OF d 2] ok show ?thesis
      by (auto simp: page_ok_def next_version_def st)
  next
    case 3
    from decide_report_Inr [OF d 3] ok show ?thesis
      by (auto simp: page_ok_def next_version_def st)
  next
    case 4
    from decide_moderation_Inr [OF d 4] ok show ?thesis
      by (auto simp: page_ok_def next_version_def st)
  qed
qed

interpretation wk: event_kernel decide evolve dc_events ps_stream_version page_ok
proof unfold_locales
  fix st cmd d
  assume "decide st cmd = Inr d"
  then show "\<exists>e. dc_events d = [e]" by (rule decide_one_event)
next
  fix st cmd d e
  assume d: "decide st cmd = Inr d" and ok: "\<forall>s. st = Some s \<longrightarrow> page_ok s"
    and e: "e \<in> set (dc_events d)"
  from decide_evolves [OF d ok] obtain s' where s': "dc_events d = [hd (dc_events d)]"
    "evolve st (hd (dc_events d)) = Inr s'" "page_ok s'" "ps_stream_version s' = next_version st"
    by blast
  from s'(1) e have "e = hd (dc_events d)" by (metis empty_iff list.set(1) set_ConsD)
  with s' show "\<exists>s'. evolve st e = Inr s' \<and> page_ok s'
    \<and> ps_stream_version s' = (case st of None \<Rightarrow> 1 | Some s \<Rightarrow> ps_stream_version s + 1)"
    by (simp add: next_version_def)
qed

text \<open>Fields no event of an existing page can change.\<close>

lemma evolve_frame:
  assumes "evolve (Some s) e = Inr s'"
  shows "ps_page_id s' = ps_page_id s \<and> ps_slug s' = ps_slug s \<and> ps_created_at s' = ps_created_at s
    \<and> ps_stream_version s' = ps_stream_version s + 1"
  using assms by (auto simp: evolve_defs res_simps split: if_splits)

section \<open>A concrete page\<close>

text \<open>Concrete commands and the page they make, for the witnesses.\<close>

definition demo_create :: WikiCommand where
  "demo_create = CreatePage (str ''cmd:1'') (str ''anonymous:a'') {str ''wiki:edit''} 1000
     (str ''page-1'') (str ''rev-1'') (str ''hello'') (str ''Hello'') (str ''First'') (str '''')"

definition demo_edit :: WikiCommand where
  "demo_edit = EditPage (str ''cmd:2'') (str ''anonymous:b'') {str ''wiki:edit''} 2000
     (str ''page-1'') (str ''rev-2'') (str ''rev-1'') (str ''Hello'') (str ''Second'') (str '''')"

lemma demo_create_sel [simp]:
  "is_CreatePage demo_create" "command_id demo_create = str ''cmd:1''"
  "actor_id demo_create = str ''anonymous:a''" "scopes demo_create = {str ''wiki:edit''}"
  "occurred_at demo_create = 1000" "page_id demo_create = str ''page-1''"
  "revision_id demo_create = str ''rev-1''" "slug demo_create = str ''hello''"
  "title demo_create = str ''Hello''" "content demo_create = str ''First''" "summary demo_create = []"
  by (simp_all add: demo_create_def)

lemma demo_edit_sel [simp]:
  "is_EditPage demo_edit" "\<not> is_CreatePage demo_edit" "command_id demo_edit = str ''cmd:2''"
  "actor_id demo_edit = str ''anonymous:b''" "scopes demo_edit = {str ''wiki:edit''}"
  "occurred_at demo_edit = 2000" "page_id demo_edit = str ''page-1''"
  "revision_id demo_edit = str ''rev-2''" "expected_revision_id demo_edit = str ''rev-1''"
  "title demo_edit = str ''Hello''" "content demo_edit = str ''Second''" "summary demo_edit = []"
  by (simp_all add: demo_edit_def)

lemma demo_digest: "content_digest (str s) = Inr (projr (content_digest (str s)))"
proof -
  have "encodable (str s)" by simp
  with content_digest_ok_iff [of "str s"] show ?thesis by auto
qed

definition demo_page :: PageState where
  "demo_page = \<lparr>ps_page_id = str ''page-1'', ps_slug = str ''hello'', ps_title = str ''Hello'',
     ps_content = str ''First'', ps_head_revision_id = str ''rev-1'',
     ps_content_hash = projr (content_digest (str ''First'')),
     ps_head_actor_id = str ''anonymous:a'', ps_stream_version = 1,
     ps_review_status = str ''unreviewed'', ps_moderation_status = str ''visible'',
     ps_created_at = 1000, ps_updated_at = 1000, ps_authority = str ''community''\<rparr>"

lemma demo_page_ok: "page_ok demo_page"
  using demo_digest [of "''First''"] by (simp add: page_ok_def demo_page_def)

definition demo_quarantine :: WikiCommand where
  "demo_quarantine = QuarantinePage (str ''cmd:3'') (str ''moderator:m'') {str ''wiki:moderate''} 3000
     (str ''page-1'') (str ''mod-1'') (str ''rev-1'') (ps_content_hash demo_page) (str ''spam'')"

definition demo_hidden_page :: PageState where
  "demo_hidden_page = demo_page\<lparr>ps_stream_version := 2, ps_moderation_status := str ''quarantined''\<rparr>"

definition demo_release :: WikiCommand where
  "demo_release = ReleasePage (str ''cmd:4'') (str ''moderator:m'') {str ''wiki:moderate''} 4000
     (str ''page-1'') (str ''mod-2'') (str ''rev-1'') (ps_content_hash demo_page) (str ''ok'')"

definition demo_submit :: WikiCommand where
  "demo_submit = SubmitReview (str ''cmd:5'') (str ''anonymous:a'') {str ''wiki:submit''} 5000
     (str ''page-1'') (str ''sub-1'') (str ''rev-1'') (ps_content_hash demo_page) (str ''please'')"

section \<open>Properties of the kernel\<close>

text \<open>C1: A command that is decided on a well-formed page (or on no page) yields one event, the
  page state accepts that event, and the page it gives is well formed with the next version
  number: the kernel never records an event it cannot fold.\<close>

theorem decided_event_folds:
  assumes "decide st cmd = Inr d" and "\<forall>s. st = Some s \<longrightarrow> page_ok s"
  shows "\<exists>e s'. dc_events d = [e] \<and> evolve st e = Inr s' \<and> page_ok s'
    \<and> ps_stream_version s' = next_version st"
  using decide_evolves [OF assms] by blast

theorem decided_event_folds_witness:
  "\<exists>d e s'. decide None demo_create = Inr d \<and> dc_events d = [e] \<and> evolve None e = Inr s'
    \<and> page_ok s' \<and> ps_stream_version s' = next_version None"
proof -
  obtain d where d: "decide None demo_create = Inr d"
    using demo_digest [of "''First''"] by (simp add: decide_defs) (metis bind_res.simps(2))
  from decided_event_folds [OF d] d show ?thesis by blast
qed

text \<open>C7: An edit is accepted exactly when its session may edit, the page is not quarantined,
  the client saw the current head revision, and the content can be encoded.\<close>

theorem edit_accepted_iff:
  assumes "is_EditPage cmd"
  shows "(\<exists>d. decide (Some s) cmd = Inr d) \<longleftrightarrow>
    str ''wiki:edit'' \<in> scopes cmd \<and> ps_moderation_status s \<noteq> str ''quarantined''
    \<and> expected_revision_id cmd = ps_head_revision_id s \<and> encodable (content cmd)"
proof -
  from assms have "decide (Some s) cmd = decide_edit s cmd" by (cases cmd) (auto simp: decide_def)
  then show ?thesis
    by (auto simp: decide_edit_def require_scope_def res_simps content_digest_ok_iff [symmetric]
        split: if_splits)
qed

theorem edit_accepted_iff_witness: "\<exists>d. decide (Some demo_page) demo_edit = Inr d"
  by (subst edit_accepted_iff) (simp_all add: demo_page_def)

text \<open>C3: No lost update. Of two edits made against the same head, once the first is applied under a revision
  id other than that head's, the second, of a caller with the edit scope, is refused with
  \<open>revision_conflict\<close>, and the page holds the first one's content.\<close>

theorem no_lost_update:
  assumes "is_EditPage a" and "is_EditPage b" and "decide (Some s) a = Inr d"
    and "dc_events d = [e]" and "evolve (Some s) e = Inr s'"
    and "expected_revision_id b = ps_head_revision_id s" and "revision_id a \<noteq> ps_head_revision_id s"
    and "str ''wiki:edit'' \<in> scopes b"
  shows "decide (Some s') b =
      Inl (WikiError (str ''revision_conflict'') (str ''the page head has changed'') 409)
    \<and> ps_content s' = content a \<and> ps_head_revision_id s' = revision_id a"
proof -
  from decide_edit_Inr [OF assms(3,1)] assms(4,5)
  have s': "ps_content s' = content a" "ps_head_revision_id s' = revision_id a"
    "ps_moderation_status s' = str ''visible''" by auto
  from assms(2) have "decide (Some s') b = decide_edit s' b" by (cases b) (auto simp: decide_def)
  with s' assms(6-8) show ?thesis by (auto simp: decide_edit_def require_scope_def)
qed

theorem no_lost_update_witness:
  "\<exists>s'. decide (Some s') demo_edit =
      Inl (WikiError (str ''revision_conflict'') (str ''the page head has changed'') 409)
    \<and> ps_content s' = str ''Second'' \<and> ps_head_revision_id s' = str ''rev-2''"
proof -
  obtain d where d: "decide (Some demo_page) demo_edit = Inr d"
    using demo_digest [of "''Second''"]
    by (simp add: decide_defs demo_page_def) (metis bind_res.simps(2))
  from decide_edit_Inr [OF d] obtain e s' where e: "dc_events d = [e]" "evolve (Some demo_page) e = Inr s'"
    by (metis demo_edit_sel(1))
  from no_lost_update [of demo_edit demo_edit demo_page d e s', OF _ _ d e] show ?thesis
    by (auto simp: demo_page_def)
qed

text \<open>C5: A quarantined page is frozen. The only command it accepts is a release by someone
  holding the moderation scope who is not the author of the head revision, and the release
  changes nothing but the visibility and the version.\<close>

theorem quarantine_freezes:
  assumes "ps_moderation_status s = str ''quarantined''"
    and "decide (Some s) cmd = Inr d" and "dc_events d = [e]" and "evolve (Some s) e = Inr s'"
  shows "is_ReleasePage cmd \<and> str ''wiki:moderate'' \<in> scopes cmd
    \<and> actor_id cmd \<noteq> ps_head_actor_id s
    \<and> s' = s\<lparr>ps_stream_version := ps_stream_version s + 1,
            ps_moderation_status := str ''visible''\<rparr>"
proof -
  have "\<not> is_CreatePage cmd" using assms(2) decide_create_Inr by fastforce
  moreover have "\<not> is_EditPage cmd" using assms(1,2) decide_edit_Inr by fastforce
  moreover have "\<not> is_SubmitReview cmd" using assms(1,2) decide_submit_Inr by fastforce
  moreover have "\<not> is_ReportPage cmd" using assms(1,2) decide_report_Inr by fastforce
  moreover have "\<not> is_QuarantinePage cmd" using assms(1,2) decide_moderation_Inr by fastforce
  ultimately have r: "is_ReleasePage cmd" by (cases cmd) auto
  from decide_moderation_Inr [OF assms(2)] r assms(1,3,4) show ?thesis by auto
qed

theorem quarantine_freezes_witness:
  "\<exists>d e s'. decide (Some demo_hidden_page) demo_release = Inr d \<and> dc_events d = [e]
    \<and> evolve (Some demo_hidden_page) e = Inr s' \<and> s' = demo_page\<lparr>ps_stream_version := 3\<rparr>"
proof -
  have "\<exists>d. decide (Some demo_hidden_page) demo_release = Inr d"
    by (simp add: decide_defs demo_release_def demo_hidden_page_def demo_page_def)
  then obtain d where d: "decide (Some demo_hidden_page) demo_release = Inr d" ..
  from decide_moderation_Inr [OF d] obtain e s' where
    e: "dc_events d = [e]" "evolve (Some demo_hidden_page) e = Inr s'"
    by (metis demo_release_def WikiCommand.disc(36))
  have "ps_moderation_status demo_hidden_page = str ''quarantined''"
    by (simp add: demo_hidden_page_def)
  from quarantine_freezes [OF this d e] d e show ?thesis
    by (auto simp: demo_hidden_page_def demo_page_def)
qed

text \<open>C6: Moderation is a second person's decision on exact content: a quarantine or a release is
  accepted exactly when the actor holds the moderation scope, did not write the head
  revision, names the current head and its hash, and the page is on the other side.\<close>

theorem moderation_accepted_iff:
  assumes "is_QuarantinePage cmd \<or> is_ReleasePage cmd"
  shows "(\<exists>d. decide (Some s) cmd = Inr d) \<longleftrightarrow>
    str ''wiki:moderate'' \<in> scopes cmd \<and> actor_id cmd \<noteq> ps_head_actor_id s
    \<and> expected_revision_id cmd = ps_head_revision_id s
    \<and> expected_content_hash cmd = ps_content_hash s
    \<and> (is_QuarantinePage cmd \<longleftrightarrow> ps_moderation_status s \<noteq> str ''quarantined'')"
proof -
  from assms have "decide (Some s) cmd = decide_moderation s cmd"
    by (cases cmd) (auto simp: decide_def)
  then show ?thesis
    by (auto simp: decide_moderation_def require_scope_def res_simps split: if_splits)
qed

theorem moderation_accepted_iff_witness: "\<exists>d. decide (Some demo_page) demo_quarantine = Inr d"
proof -
  have "is_QuarantinePage demo_quarantine \<or> is_ReleasePage demo_quarantine"
    by (simp add: demo_quarantine_def)
  from moderation_accepted_iff [OF this, of demo_page] show ?thesis
    by (simp add: demo_quarantine_def demo_page_def)
qed

text \<open>A revision is submitted for review at most once: an accepted submission leaves one outbox
  effect for the recorded event, and every further submission of that revision is refused,
  while an accepted edit opens the page for a new submission.\<close>

theorem submitted_once:
  assumes "is_SubmitReview cmd" and "decide (Some s) cmd = Inr d"
    and "dc_events d = [e]" and "evolve (Some s) e = Inr s'"
  shows "(\<exists>f. dc_effects d = [f] \<and> ef_event_id f = ev_event_id e
      \<and> ef_effect_type f = str ''review_requested'')
    \<and> (\<forall>again. is_SubmitReview again \<longrightarrow> \<not> (\<exists>d'. decide (Some s') again = Inr d'))
    \<and> (\<forall>edit d' e' s''. is_EditPage edit \<longrightarrow> decide (Some s') edit = Inr d' \<longrightarrow> dc_events d' = [e'] \<longrightarrow>
         evolve (Some s') e' = Inr s'' \<longrightarrow> ps_review_status s'' = str ''unreviewed'')"
proof -
  note sub = decide_submit_Inr [OF assms(2,1)]
  then have s': "ps_review_status s' = str ''submitted''" using assms(3,4) by auto
  have "\<not> (\<exists>d'. decide (Some s') again = Inr d')" if "is_SubmitReview again" for again
    using decide_submit_Inr [of s' again] that s' by blast
  moreover have "ps_review_status s'' = str ''unreviewed''"
    if "is_EditPage edit" "decide (Some s') edit = Inr d'" "dc_events d' = [e']"
      "evolve (Some s') e' = Inr s''" for edit d' e' s''
    using decide_edit_Inr [OF that(2,1)] that(3,4) by auto
  ultimately show ?thesis using sub assms(3) by auto
qed

theorem submitted_once_witness:
  "\<exists>d e s'. decide (Some demo_page) demo_submit = Inr d \<and> dc_events d = [e]
    \<and> evolve (Some demo_page) e = Inr s' \<and> \<not> (\<exists>d'. decide (Some s') demo_submit = Inr d')"
proof -
  have s: "is_SubmitReview demo_submit" by (simp add: demo_submit_def)
  have "\<exists>d. decide (Some demo_page) demo_submit = Inr d"
    by (simp add: decide_defs demo_submit_def demo_page_def Let_def)
  then obtain d where d: "decide (Some demo_page) demo_submit = Inr d" ..
  from decide_submit_Inr [OF d s] obtain e s' where
    e: "dc_events d = [e]" "evolve (Some demo_page) e = Inr s'" by metis
  from submitted_once [OF s d e] s d e show ?thesis by blast
qed

end
