(* ===== verification/WikiStore.thy ===== *)
theory WikiStore
  imports WikiDomain
begin

text \<open>
  The storage records of \<open>src/app/wiki/store.py\<close>, the fingerprint of a command's intent,
  and the contract \<open>wiki_store\<close> of the \<open>WikiStore\<close> protocol: what the HTTP layer relies on
  about receipts, failed commands and hidden pages, whichever adapter is wired in. The two
  adapters interpret it in \<open>WikiMemory\<close> and \<open>WikiPostgres\<close>.
\<close>

record CommandReceipt =
  rc_command_id :: pystr
  rc_fingerprint :: pystr
  rc_page_id :: pystr
  rc_stream_version :: int
  rc_event_ids :: "pystr list"
  rc_replayed :: bool

record StoredEvent =
  se_index :: int
  se_event :: WikiEvent

record OutboxRecord =
  ob_effect :: OutboxEffect
  ob_status :: pystr
  ob_created_at :: datetime
  ob_attempts :: int
  ob_delivered_at :: "datetime option"

definition intent_fingerprint :: "WikiCommand \<Rightarrow> wiki_exn + pystr" where
  "intent_fingerprint cmd =
     (case utf8_encode (dumps False (json_strings (command_intent cmd))) of
        None \<Rightarrow> Inl PyUnicodeEncodeError
      | Some material \<Rightarrow> Inr (hexdigest (sha256 material)))"

lemma intent_fingerprint_ok:
  assumes "\<forall>(k, v) \<in> set (command_intent cmd). encodable k \<and> encodable v"
  shows "\<exists>fp. intent_fingerprint cmd = Inr fp"
  using utf8_encode_total_iff dumps_strings_encodable [OF assms]
  by (auto simp: intent_fingerprint_def split: option.splits)

definition idempotency_conflict :: wiki_exn where
  "idempotency_conflict = WikiError (str ''idempotency_conflict'')
     (str ''command id was already used for different intent'') 409"

definition slug_taken :: wiki_exn where
  "slug_taken = WikiError (str ''slug_taken'') (str ''slug is already in use'') 409"

definition revision_event :: "WikiEvent \<Rightarrow> bool" where
  "revision_event e \<longleftrightarrow> ev_event_type e \<in> {str ''page_created'', str ''revision_committed''}"

text \<open>The dictionary \<open>get_revision\<close> builds from a stored event.\<close>

record Revision =
  rv_revision_id :: pystr
  rv_title :: pystr
  rv_content :: pystr
  rv_content_hash :: pystr
  rv_occurred_at :: datetime
  rv_actor_id :: pystr

definition revision_of_event :: "pystr \<Rightarrow> WikiEvent \<Rightarrow> wiki_exn + Revision" where
  "revision_of_event rid e =
     bind_res (data_item e (str ''title'')) (\<lambda>ti.
     bind_res (data_item e (str ''content'')) (\<lambda>co.
     bind_res (data_item e (str ''content_hash'')) (\<lambda>ha.
       Inr \<lparr>rv_revision_id = rid, rv_title = ti, rv_content = co, rv_content_hash = ha,
            rv_occurred_at = ev_occurred_at e, rv_actor_id = ev_actor_id e\<rparr>)))"

text \<open>
  A stored stream replays to the projected page, its indices count from one and its length
  is the page's version.
\<close>

definition stream_ok :: "PageState \<Rightarrow> StoredEvent list \<Rightarrow> bool" where
  "stream_ok p es \<longleftrightarrow> replay (map se_event es) = Inr (Some p)
     \<and> map se_index es = map int [1..<Suc (length es)]
     \<and> ps_stream_version p = int (length es)"

definition version_of :: "PageState option \<Rightarrow> int" where
  "version_of st = (case st of None \<Rightarrow> 0 | Some s \<Rightarrow> ps_stream_version s)"

text \<open>Appending the event of a decided command keeps a stream the replay of its page.\<close>

lemma stream_step:
  assumes stream: "case st of None \<Rightarrow> es = [] | Some s \<Rightarrow> page_ok s \<and> stream_ok s es"
    and dec: "decide st cmd = Inr d" "dc_events d = [e]" and s': "evolve st e = Inr s'"
  shows "page_ok s' \<and> stream_ok s' (es @ [\<lparr>se_index = version_of st + 1, se_event = e\<rparr>])"
proof -
  have h: "fold_res evolve None (map se_event es) = Inr st"
    "(case st of None \<Rightarrow> 0 | Some s \<Rightarrow> ps_stream_version s) = int (length (map se_event es))"
    "\<forall>s. st = Some s \<longrightarrow> page_ok s" "map se_index es = map int [1..<Suc (length es)]"
    using stream by (auto simp: stream_ok_def replay_def split: option.splits)
  from wk.stream_grows [OF h(1,2) dec(1) h(3)] dec(2) obtain t where
    "fold_res evolve st (dc_events d) = Inr (Some t)" "page_ok t"
    "fold_res evolve None (map se_event es @ [e]) = Inr (Some t)"
    "ps_stream_version t = int (length (map se_event es @ [e]))" by metis
  with h dec(2) s' show ?thesis
    by (simp add: stream_ok_def replay_def version_of_def)
qed

section \<open>The contract of a store\<close>

locale wiki_store =
  fixes exec :: "WikiCommand \<Rightarrow> 's \<Rightarrow> (wiki_exn + CommandReceipt) \<times> 's"
    and by_slug :: "pystr \<Rightarrow> bool \<Rightarrow> 's \<Rightarrow> PageState option"
    and receipt :: "'s \<Rightarrow> pystr \<Rightarrow> CommandReceipt option"
    and inv :: "'s \<Rightarrow> bool"
    and allowed :: "'s \<Rightarrow> WikiCommand \<Rightarrow> bool"
  assumes inv_exec: "inv s \<Longrightarrow> allowed s c \<Longrightarrow> inv (snd (exec c s))"
    and failed: "fst (exec c s) = Inl x \<Longrightarrow> snd (exec c s) = s"
    and recorded: "inv s \<Longrightarrow> allowed s c \<Longrightarrow> fst (exec c s) = Inr r \<Longrightarrow>
      intent_fingerprint c = Inr (rc_fingerprint r)
      \<and> receipt (snd (exec c s)) (command_id c) = Some (r\<lparr>rc_replayed := False\<rparr>)"
    and kept: "receipt s i = Some r \<Longrightarrow> receipt (snd (exec c s)) i = Some r"
    and replays: "receipt s (command_id c) = Some r \<Longrightarrow>
      intent_fingerprint c = Inr (rc_fingerprint r) \<Longrightarrow>
      exec c s = (Inr (r\<lparr>rc_replayed := True\<rparr>), s)"
    and conflicts: "receipt s (command_id c) = Some r \<Longrightarrow>
      intent_fingerprint c = Inr fp \<Longrightarrow> fp \<noteq> rc_fingerprint r \<Longrightarrow>
      exec c s = (Inl idempotency_conflict, s)"
    and hidden: "inv s \<Longrightarrow> by_slug sl False s = Some p \<Longrightarrow>
      ps_slug p = sl \<and> ps_moderation_status p = str ''visible''"
begin

lemma kept_run: "receipt s i = Some r \<Longrightarrow> receipt (foldl (\<lambda>t c. snd (exec c t)) s cs) i = Some r"
  by (induction cs arbitrary: s) (auto intro: kept)

lemma inv_run:
  "inv s \<Longrightarrow> (\<And>t c. inv t \<Longrightarrow> c \<in> set cs \<Longrightarrow> allowed t c) \<Longrightarrow>
   inv (foldl (\<lambda>t c. snd (exec c t)) s cs)"
  by (induction cs arbitrary: s) (auto intro: inv_exec)

text \<open>
  A client that retries a command, whatever was executed in between, gets its first receipt
  back and changes nothing.
\<close>

lemma retry_replays:
  fixes cs :: "WikiCommand list"
  assumes "inv s" and "allowed s c" and ok: "fst (exec c s) = Inr r"
    and same: "command_id c' = command_id c" "intent_fingerprint c' = intent_fingerprint c"
  defines "t \<equiv> foldl (\<lambda>t c. snd (exec c t)) (snd (exec c s)) cs"
  shows "exec c' t = (Inr (r\<lparr>rc_replayed := True\<rparr>), t)"
proof -
  note rec = recorded [OF assms(1,2) ok]
  then have "receipt t (command_id c) = Some (r\<lparr>rc_replayed := False\<rparr>)"
    unfolding t_def by (intro kept_run) simp
  with rec same show ?thesis
    using replays [of t c' "r\<lparr>rc_replayed := False\<rparr>"] by simp
qed

text \<open>Reusing the id for a different intent is refused, then and later.\<close>

lemma reuse_conflicts:
  fixes cs :: "WikiCommand list"
  assumes "inv s" and "allowed s c" and ok: "fst (exec c s) = Inr r"
    and same: "command_id c' = command_id c"
    and fp: "intent_fingerprint c' = Inr fp" "intent_fingerprint c \<noteq> Inr fp"
  defines "t \<equiv> foldl (\<lambda>t c. snd (exec c t)) (snd (exec c s)) cs"
  shows "exec c' t = (Inl idempotency_conflict, t)"
proof -
  note rec = recorded [OF assms(1,2) ok]
  then have "receipt t (command_id c) = Some (r\<lparr>rc_replayed := False\<rparr>)"
    unfolding t_def by (intro kept_run) simp
  moreover have "fp \<noteq> rc_fingerprint r" using rec fp by auto
  ultimately show ?thesis
    using conflicts [of t c' "r\<lparr>rc_replayed := False\<rparr>" fp] same fp by simp
qed

end

end
