(* ===== verification/PyText.thy ===== *)
theory PyText
  imports Hashing
begin

text \<open>
  The text primitives of Python's standard library that the components use: \<open>str.replace\<close> with
  the empty string, \<open>str.split()\<close> and \<open>" ".join\<close>, \<open>str.strip(chars)\<close>, ASCII case, the
  base-16 \<open>int\<close> and \<open>uuid.UUID\<close>, and the SQL pattern match of \<open>ILIKE\<close>.
\<close>

section \<open>Removing, splitting, joining\<close>

text \<open>\<open>s.replace(p, "")\<close> for a non-empty \<open>p\<close>\<close>

fun remove_all :: "pystr \<Rightarrow> pystr \<Rightarrow> pystr" where
  "remove_all p [] = []"
| "remove_all p (c # cs) =
     (if p \<noteq> [] \<and> startswith (c # cs) p then remove_all p (drop (length p - 1) cs)
      else c # remove_all p cs)"

text \<open>\<open>s.split()\<close>: the maximal runs of characters that are not white space\<close>

fun words_acc :: "pystr \<Rightarrow> pystr \<Rightarrow> pystr list" where
  "words_acc w [] = (if w = [] then [] else [rev w])"
| "words_acc w (c # cs) =
     (if py_space c then (if w = [] then words_acc [] cs else rev w # words_acc [] cs)
      else words_acc (c # w) cs)"

definition split_ws :: "pystr \<Rightarrow> pystr list" where
  "split_ws s = words_acc [] s"

fun join :: "pystr \<Rightarrow> pystr list \<Rightarrow> pystr" where
  "join sep [] = []"
| "join sep [x] = x"
| "join sep (x # y # xs) = x @ sep @ join sep (y # xs)"

text \<open>\<open>s.split(sep)\<close> for a separator of one character\<close>

fun split_on :: "nat \<Rightarrow> pystr \<Rightarrow> pystr list" where
  "split_on sep [] = [[]]"
| "split_on sep (c # cs) =
     (if c = sep then [] # split_on sep cs
      else (case split_on sep cs of [] \<Rightarrow> [[c]] | w # ws \<Rightarrow> (c # w) # ws))"

lemma split_on_ne: "split_on sep s \<noteq> []"
  by (induction s) (auto split: list.splits)

lemma split_on_no_sep: "\<forall>w \<in> set (split_on sep s). sep \<notin> set w"
proof (induction s)
  case (Cons c cs)
  then show ?case by (cases "split_on sep cs") auto
qed simp

lemma join_split_on: "join [sep] (split_on sep s) = s"
proof (induction s)
  case (Cons c cs)
  then show ?case
    by (cases "split_on sep cs" rule: list.exhaust; cases "tl (split_on sep cs)")
      (auto simp: split_on_ne)
qed simp

lemma split_on_append:
  "sep \<notin> set w \<Longrightarrow> split_on sep (w @ sep # s) = w # split_on sep s"
  by (induction w) auto

lemma split_on_single: "sep \<notin> set w \<Longrightarrow> split_on sep w = [w]"
  by (induction w) auto

section \<open>Case\<close>

definition is_upper_ascii :: "nat \<Rightarrow> bool" where
  "is_upper_ascii c \<longleftrightarrow> 65 \<le> c \<and> c \<le> 90"

definition lower_ascii :: "nat \<Rightarrow> nat" where
  "lower_ascii c = (if is_upper_ascii c then c + 32 else c)"

section \<open>UUIDs\<close>

text \<open>
  \<open>int(s, 16)\<close> on ASCII text: surrounding white space, a sign, a \<open>0x\<close> prefix and single
  underscores between digits are allowed. Decimal digits outside ASCII, which \<open>int\<close> would
  also take, are refused here.
\<close>

definition hex_val :: "nat \<Rightarrow> int option" where
  "hex_val c =
     (if 48 \<le> c \<and> c \<le> 57 then Some (int (c - 48))
      else if 97 \<le> c \<and> c \<le> 102 then Some (int (c - 87))
      else if 65 \<le> c \<and> c \<le> 70 then Some (int (c - 55)) else None)"

fun hex_run :: "int \<Rightarrow> pystr \<Rightarrow> int option" where
  "hex_run acc [] = Some acc"
| "hex_run acc (c # cs) =
     (case hex_val c of
        Some v \<Rightarrow> hex_run (16 * acc + v) cs
      | None \<Rightarrow>
          (if c \<noteq> 95 then None
           else case cs of
             [] \<Rightarrow> None
           | d # ds \<Rightarrow> (case hex_val d of None \<Rightarrow> None | Some v \<Rightarrow> hex_run (16 * acc + v) ds)))"

definition hex_digits :: "pystr \<Rightarrow> int option" where
  "hex_digits s = (case s of [] \<Rightarrow> None | c # cs \<Rightarrow>
     (case hex_val c of None \<Rightarrow> None | Some v \<Rightarrow> hex_run v cs))"

definition hex_unsigned :: "pystr \<Rightarrow> int option" where
  "hex_unsigned s =
     (if take 2 s \<in> {str ''0x'', str ''0X''}
      then hex_digits (if take 1 (drop 2 s) = [95] then drop 3 s else drop 2 s)
      else hex_digits s)"

definition int16 :: "pystr \<Rightarrow> int option" where
  "int16 s = (let t = strip s in
     if take 1 t = [45] then map_option uminus (hex_unsigned (drop 1 t))
     else if take 1 t = [43] then hex_unsigned (drop 1 t)
     else hex_unsigned t)"

definition uuid_digits :: "int \<Rightarrow> pystr" where
  "uuid_digits n = map (\<lambda>i. hex_digit (nat (n div 16 ^ (31 - i) mod 16))) [0..<32]"

definition uuid_str :: "int \<Rightarrow> pystr" where
  "uuid_str n = (let h = uuid_digits n in
     take 8 h @ 45 # take 4 (drop 8 h) @ 45 # take 4 (drop 12 h) @ 45 # take 4 (drop 16 h)
       @ 45 # drop 20 h)"

text \<open>\<open>str(UUID(s))\<close>, \<open>None\<close> where \<open>UUID(s)\<close> raises \<open>ValueError\<close>\<close>

definition uuid_canon :: "pystr \<Rightarrow> pystr option" where
  "uuid_canon s =
     (let h = remove_all [45] (strip_by (\<lambda>c. c \<in> {123, 125})
                (remove_all (str ''uuid:'') (remove_all (str ''urn:'') s)))
      in if length h \<noteq> 32 then None
         else case int16 h of
           None \<Rightarrow> None
         | Some n \<Rightarrow> if 0 \<le> n then Some (uuid_str n) else None)"

lemma uuid_canon_length: "uuid_canon s = Some t \<Longrightarrow> length t = 36"
  by (auto simp: uuid_canon_def Let_def uuid_str_def uuid_digits_def split: if_splits option.splits)

section \<open>SQL patterns\<close>

text \<open>
  \<open>text LIKE pattern\<close>: \<open>%\<close> stands for any string, \<open>_\<close> for any character, and a backslash
  quotes the next one. (A pattern that ends in a backslash never arises here.)
\<close>

fun like :: "pystr \<Rightarrow> pystr \<Rightarrow> bool" where
  "like [] t \<longleftrightarrow> t = []"
| "like (p # ps) [] \<longleftrightarrow> p = 37 \<and> like ps []"
| "like (p # ps) (c # cs) \<longleftrightarrow>
     (if p = 37 then like ps (c # cs) \<or> like (p # ps) cs
      else if p = 95 then like ps cs
      else if p = 92 then (case ps of [] \<Rightarrow> False | q # qs \<Rightarrow> c = q \<and> like qs cs)
      else c = p \<and> like ps cs)"

text \<open>\<open>text ILIKE '%' || q || '%'\<close>, case-insensitively by the database's \<open>lower\<close>\<close>

definition ilike_around :: "(pystr \<Rightarrow> pystr) \<Rightarrow> pystr \<Rightarrow> pystr \<Rightarrow> bool" where
  "ilike_around low q t = like (37 # low q @ [37]) (low t)"

definition plain_pattern :: "pystr \<Rightarrow> bool" where
  "plain_pattern q \<longleftrightarrow> 37 \<notin> set q \<and> 95 \<notin> set q \<and> 92 \<notin> set q"

lemma like_any: "like [37] t"
  by (induction t) auto

lemma like_prefix: "plain_pattern q \<Longrightarrow> like (q @ [37]) t \<longleftrightarrow> startswith t q"
proof (induction q arbitrary: t)
  case Nil
  then show ?case by (simp add: like_any startswith_def)
next
  case (Cons c q)
  then have "plain_pattern q" "c \<noteq> 37" "c \<noteq> 95" "c \<noteq> 92" by (auto simp: plain_pattern_def)
  with Cons.IH show ?case by (cases t) (auto simp: startswith_def)
qed

lemma like_around: "plain_pattern q \<Longrightarrow> like (37 # q @ [37]) t \<longleftrightarrow> contains q t"
proof (induction t)
  case Nil
  then show ?case by (cases q) (auto simp: like_prefix startswith_def plain_pattern_def)
next
  case (Cons c t)
  then show ?case using like_prefix [of q "c # t"] by simp
qed

end
