(* ===== verification/JsonParse.thy ===== *)
theory JsonParse
  imports Json PyText
begin

text \<open>
  \<open>json.loads\<close> on text: the scanner of the standard library, with white space, the escapes
  of a string (a surrogate pair of escapes is one character), the integer literals and
  duplicate keys, of which the last wins. A literal with a fraction or an exponent is kept
  as it is written. The number bounds the nesting of calls; twice the length of the
  text is enough, because of two nested calls at least one consumes a character first.
\<close>

definition json_ws :: "nat \<Rightarrow> bool" where
  "json_ws c \<longleftrightarrow> c = 32 \<or> c = 9 \<or> c = 10 \<or> c = 13"

definition skip_ws :: "pystr \<Rightarrow> pystr" where
  "skip_ws s = dropWhile json_ws s"

section \<open>Strings\<close>

definition hex4_val :: "pystr \<Rightarrow> (nat \<times> pystr) option" where
  "hex4_val s =
     (case s of
        a # b # c # d # r \<Rightarrow>
          (case (hex_val a, hex_val b, hex_val c, hex_val d) of
             (Some w, Some x, Some y, Some z) \<Rightarrow> Some (nat (4096 * w + 256 * x + 16 * y + z), r)
           | _ \<Rightarrow> None)
      | _ \<Rightarrow> None)"

definition high_surrogate :: "nat \<Rightarrow> bool" where
  "high_surrogate c \<longleftrightarrow> 55296 \<le> c \<and> c \<le> 56319"

definition low_surrogate :: "nat \<Rightarrow> bool" where
  "low_surrogate c \<longleftrightarrow> 56320 \<le> c \<and> c \<le> 57343"

text \<open>After \<open>\u\<close>: one character, or two escapes that make one; a broken second escape fails.\<close>

definition u_val :: "pystr \<Rightarrow> (nat \<times> pystr) option" where
  "u_val s =
     (case hex4_val s of
        None \<Rightarrow> None
      | Some (n, r) \<Rightarrow>
          (if high_surrogate n \<and> take 2 r = [92, 117] then
             (case hex4_val (drop 2 r) of
                None \<Rightarrow> None
              | Some (m, r') \<Rightarrow>
                  if low_surrogate m then Some (65536 + (n - 55296) * 1024 + (m - 56320), r')
                  else Some (n, r))
           else Some (n, r)))"

definition simple_escape :: "nat \<Rightarrow> nat option" where
  "simple_escape c =
     (if c = 34 \<or> c = 92 \<or> c = 47 then Some c
      else if c = 98 then Some 8 else if c = 102 then Some 12 else if c = 110 then Some 10
      else if c = 114 then Some 13 else if c = 116 then Some 9 else None)"

fun scan_string :: "nat \<Rightarrow> pystr \<Rightarrow> (pystr \<times> pystr) option" where
  "scan_string 0 s = None"
| "scan_string (Suc n) [] = None"
| "scan_string (Suc n) (c # s) =
     (if c = 34 then Some ([], s)
      else if c = 92 then
        (case s of
           [] \<Rightarrow> None
         | e # r \<Rightarrow>
             (case (if e = 117 then u_val r else map_option (\<lambda>x. (x, r)) (simple_escape e)) of
                None \<Rightarrow> None
              | Some (x, r') \<Rightarrow> map_option (\<lambda>(t, q). (x # t, q)) (scan_string n r')))
      else if c < 32 then None
      else map_option (\<lambda>(t, q). (c # t, q)) (scan_string n s))"

section \<open>Numbers\<close>

definition int_part :: "pystr \<Rightarrow> (pystr \<times> pystr) option" where
  "int_part s =
     (case s of
        [] \<Rightarrow> None
      | c # r \<Rightarrow> if c = 48 then Some ([c], r)
                 else if is_digit c then Some (takeWhile is_digit s, dropWhile is_digit s)
                 else None)"

definition frac_part :: "pystr \<Rightarrow> pystr \<times> pystr" where
  "frac_part s =
     (case s of
        c # d # r \<Rightarrow> if c = 46 \<and> is_digit d
          then (c # takeWhile is_digit (d # r), dropWhile is_digit (d # r)) else ([], s)
      | _ \<Rightarrow> ([], s))"

definition exp_part :: "pystr \<Rightarrow> pystr \<times> pystr" where
  "exp_part s =
     (case s of
        [] \<Rightarrow> ([], s)
      | c # r \<Rightarrow>
          (let sign = (case r of [] \<Rightarrow> [] | d # _ \<Rightarrow> if d = 43 \<or> d = 45 then [d] else []);
               ds = takeWhile is_digit (drop (length sign) r)
           in if (c = 101 \<or> c = 69) \<and> ds \<noteq> []
              then (c # sign @ ds, dropWhile is_digit (drop (length sign) r)) else ([], s)))"

text \<open>An integer literal of more than 4300 digits is a \<open>ValueError\<close>.\<close>

definition scan_number :: "pystr \<Rightarrow> (json \<times> pystr) option" where
  "scan_number s =
     (let sign = (case s of [] \<Rightarrow> [] | c # _ \<Rightarrow> if c = 45 then [c] else [])
      in case int_part (drop (length sign) s) of
           None \<Rightarrow> None
         | Some (ds, r) \<Rightarrow>
             (let (fr, r1) = frac_part r; (ex, r2) = exp_part r1
              in if fr @ ex \<noteq> [] then Some (JFloat (sign @ ds @ fr @ ex), r2)
                 else if 4300 < length ds then None
                 else Some (JInt (if sign = [] then int (dec_value 0 ds) else - int (dec_value 0 ds)), r)))"

section \<open>Values\<close>

definition literal :: "pystr \<Rightarrow> (json \<times> pystr) option" where
  "literal s =
     (if startswith s (str ''null'') then Some (JNull, drop 4 s)
      else if startswith s (str ''true'') then Some (JBool True, drop 4 s)
      else if startswith s (str ''false'') then Some (JBool False, drop 5 s)
      else case scan_number s of
        Some x \<Rightarrow> Some x
      | None \<Rightarrow>
          (if startswith s (str ''NaN'') then Some (JFloat (str ''NaN''), drop 3 s)
           else if startswith s (str ''Infinity'') then Some (JFloat (str ''Infinity''), drop 8 s)
           else if startswith s (str ''-Infinity'') then Some (JFloat (str ''-Infinity''), drop 9 s)
           else None))"

fun scan_value :: "nat \<Rightarrow> pystr \<Rightarrow> (json \<times> pystr) option"
  and scan_items :: "nat \<Rightarrow> pystr \<Rightarrow> (json list \<times> pystr) option"
  and scan_members :: "nat \<Rightarrow> pystr \<Rightarrow> ((pystr \<times> json) list \<times> pystr) option" where
  "scan_value 0 s = None"
| "scan_value (Suc n) [] = None"
| "scan_value (Suc n) (c # s) =
     (if c = 34 then map_option (\<lambda>(t, r). (JStr t, r)) (scan_string n s)
      else if c = 91 then
        (case skip_ws s of
           [] \<Rightarrow> None
         | d # r \<Rightarrow> if d = 93 then Some (JList [], r)
                    else map_option (\<lambda>(xs, r). (JList xs, r)) (scan_items n (d # r)))
      else if c = 123 then
        (case skip_ws s of
           [] \<Rightarrow> None
         | d # r \<Rightarrow> if d = 125 then Some (JObj [], r)
                    else map_option (\<lambda>(kvs, r). (JObj (foldl (\<lambda>m (k, v). dict_set k v m) [] kvs), r))
                           (scan_members n (d # r)))
      else literal (c # s))"
| "scan_items 0 s = None"
| "scan_items (Suc n) s =
     (case scan_value n s of
        None \<Rightarrow> None
      | Some (x, r) \<Rightarrow>
          (case skip_ws r of
             [] \<Rightarrow> None
           | d # r' \<Rightarrow>
               if d = 93 then Some ([x], r')
               else if d = 44 then map_option (\<lambda>(xs, q). (x # xs, q)) (scan_items n (skip_ws r'))
               else None))"
| "scan_members 0 s = None"
| "scan_members (Suc n) s =
     (case s of
        [] \<Rightarrow> None
      | c # s1 \<Rightarrow>
          if c \<noteq> 34 then None
          else case scan_string n s1 of
            None \<Rightarrow> None
          | Some (k, r) \<Rightarrow>
              (case skip_ws r of
                 [] \<Rightarrow> None
               | d # r1 \<Rightarrow>
                   if d \<noteq> 58 then None
                   else case scan_value n (skip_ws r1) of
                     None \<Rightarrow> None
                   | Some (v, r2) \<Rightarrow>
                       (case skip_ws r2 of
                          [] \<Rightarrow> None
                        | e # r3 \<Rightarrow>
                            if e = 125 then Some ([(k, v)], r3)
                            else if e = 44
                            then map_option (\<lambda>(kvs, q). ((k, v) # kvs, q)) (scan_members n (skip_ws r3))
                            else None)))"

text \<open>\<open>json.loads(s)\<close>; \<open>None\<close> is \<open>JSONDecodeError\<close>, a \<open>ValueError\<close>\<close>

definition loads :: "pystr \<Rightarrow> json option" where
  "loads s =
     (if take 1 s = [65279] then None
      else case scan_value (Suc (2 * length s)) (skip_ws s) of
        None \<Rightarrow> None
      | Some (j, r) \<Rightarrow> if skip_ws r = [] then Some j else None)"

section \<open>Reading back what was written\<close>

text \<open>
  The documents that survive the round trip: characters are encodable, keys are distinct,
  integers have at most 4300 digits, and there is no number with a fraction.
\<close>

fun json_ok :: "json \<Rightarrow> bool" where
  "json_ok (JInt i) \<longleftrightarrow> length (nat_dec (nat \<bar>i\<bar>)) \<le> 4300"
| "json_ok (JFloat t) \<longleftrightarrow> False"
| "json_ok (JStr s) \<longleftrightarrow> encodable s"
| "json_ok (JList xs) \<longleftrightarrow> (\<forall>x \<in> set xs. json_ok x)"
| "json_ok (JObj kvs) \<longleftrightarrow> distinct (map fst kvs) \<and> (\<forall>(k, v) \<in> set kvs. encodable k \<and> json_ok v)"
| "json_ok j \<longleftrightarrow> True"

lemma hex_val_digit [simp]: "n < 16 \<Longrightarrow> hex_val (hex_digit n) = Some (int n)"
  by (auto simp: hex_val_def hex_digit_def)

lemma hex4_roundtrip: "n < 65536 \<Longrightarrow> hex4_val (hex4 n @ r) = Some (n, r)"
proof -
  assume n: "n < 65536"
  define w x y z where d: "w = n div 4096" "x = n div 256 mod 16" "y = n div 16 mod 16" "z = n mod 16"
  have "n div 16 div 16 = n div 256" "n div 256 div 16 = n div 4096"
    by (simp_all flip: div_mult2_eq)
  then have "n = 4096 * w + 256 * x + 16 * y + z"
    using div_mult_mod_eq [of n 16] div_mult_mod_eq [of "n div 16" 16]
      div_mult_mod_eq [of "n div 256" 16] unfolding d by linarith
  then have "nat (4096 * int w + 256 * int x + 16 * int y + int z) = n" by simp
  moreover have "w < 16" "x < 16" "y < 16" "z < 16" using n by (auto simp: d)
  moreover have "hex4 n = [hex_digit w, hex_digit x, hex_digit y, hex_digit z]"
    using n by (simp add: hex4_def d)
  ultimately show ?thesis by (simp add: hex4_val_def)
qed

lemma u_val_escape:
  assumes "c < 65536" and "\<not> (55296 \<le> c \<and> c \<le> 57343)"
  shows "u_val (hex4 c @ r) = Some (c, r)"
  using assms by (auto simp: u_val_def hex4_roundtrip high_surrogate_def)

lemma u_val_pair:
  assumes "65536 \<le> c" and "c < 1114112"
  shows "u_val (hex4 (55296 + (c - 65536) div 1024 mod 1024)
      @ u_escape (56320 + (c - 65536) mod 1024) @ r) = Some (c, r)"
proof -
  let ?d = "c - 65536"
  have d: "?d div 1024 mod 1024 = ?d div 1024" "?d div 1024 < 1024" "?d mod 1024 < 1024"
    using assms by auto
  then have "hex4_val (hex4 (56320 + ?d mod 1024) @ r) = Some (56320 + ?d mod 1024, r)"
    by (intro hex4_roundtrip) simp
  moreover have "65536 + ?d div 1024 * 1024 + ?d mod 1024 = c" using assms(1) by simp
  ultimately show ?thesis using d
    by (simp add: u_val_def hex4_roundtrip high_surrogate_def low_surrogate_def u_escape_def)
qed

lemma json_char_escapes:
  "json_char a 34 = [92, 34]" "json_char a 92 = [92, 92]" "json_char a 10 = [92, 110]"
  "json_char a 13 = [92, 114]" "json_char a 9 = [92, 116]" "json_char a 12 = [92, 102]"
  "json_char a 8 = [92, 98]"
  by (simp_all add: json_char_def)

lemma scan_string_roundtrip:
  assumes "encodable s" and "length (concat (map (json_char a) s)) < n"
  shows "scan_string n (concat (map (json_char a) s) @ 34 # rest) = Some (s, rest)"
  using assms
proof (induction s arbitrary: n)
  case Nil
  then show ?case by (cases n) auto
next
  case (Cons c s)
  obtain m where n: "n = Suc m" using Cons.prems(2) by (cases n) auto
  let ?t = "concat (map (json_char a) s) @ 34 # rest"
  have c: "c < 1114112" "\<not> (55296 \<le> c \<and> c \<le> 57343)" and enc: "encodable s"
    using Cons.prems(1) by (auto simp: encodable_def)
  have "json_char a c \<noteq> []" by (simp add: json_char_def u_escape_def)
  then have "length (concat (map (json_char a) s)) < m" using Cons.prems(2) n
    by (cases "json_char a c") auto
  from Cons.IH [OF enc this] have IH: "scan_string m ?t = Some (s, rest)" .
  have "c = 34 \<or> c = 92 \<or> c \<in> {10, 13, 9, 12, 8}
    \<or> (json_char a c = u_escape c \<and> c < 65536 \<and> c \<noteq> 34 \<and> c \<noteq> 92)
    \<or> (65536 \<le> c \<and> json_char a c = u_escape (55296 + (c - 65536) div 1024 mod 1024)
          @ u_escape (56320 + (c - 65536) mod 1024))
    \<or> (json_char a c = [c] \<and> c \<noteq> 34 \<and> c \<noteq> 92 \<and> 32 \<le> c)"
    unfolding json_char_def by simp
  then consider "c = 34" | "c = 92" | "c \<in> {10, 13, 9, 12, 8}"
    | "json_char a c = u_escape c" "c < 65536" "c \<noteq> 34" "c \<noteq> 92"
    | "65536 \<le> c" "json_char a c = u_escape (55296 + (c - 65536) div 1024 mod 1024)
          @ u_escape (56320 + (c - 65536) mod 1024)"
    | "json_char a c = [c]" "c \<noteq> 34" "c \<noteq> 92" "32 \<le> c"
    by blast
  then show ?case
  proof cases
    case 4
    then show ?thesis using IH c u_val_escape [of c ?t] n by (simp add: u_escape_def)
  next
    case 5
    then show ?thesis using IH c u_val_pair [of c ?t] n by (simp add: u_escape_def)
  qed (use IH n in \<open>auto simp: json_char_escapes simple_escape_def\<close>)
qed

definition at_delim :: "pystr \<Rightarrow> bool" where
  "at_delim r \<longleftrightarrow> (case r of [] \<Rightarrow> True | c # _ \<Rightarrow> c = 44 \<or> c = 93 \<or> c = 125 \<or> json_ws c)"

lemma digits_delim: "at_delim r \<Longrightarrow> \<forall>c \<in> set ds. is_digit c \<Longrightarrow>
    takeWhile is_digit (ds @ r) = ds \<and> dropWhile is_digit (ds @ r) = r"
  by (cases r) (auto simp: at_delim_def is_digit_def json_ws_def)

lemma nat_dec_lead: "n \<noteq> 0 \<Longrightarrow> hd (nat_dec n) \<noteq> 48"
proof (induction n rule: nat_dec.induct)
  case (1 n)
  then show ?case by (subst nat_dec.simps) auto
qed

lemma int_part_dec: "at_delim r \<Longrightarrow> int_part (nat_dec n @ r) = Some (nat_dec n, r)"
proof (cases "n = 0")
  case False
  assume "at_delim r"
  moreover obtain c ds where d: "nat_dec n = c # ds" by (cases "nat_dec n") auto
  moreover from d nat_dec_lead [OF False] nat_dec_digits [of n] have "c \<noteq> 48" "is_digit c" by auto
  ultimately show ?thesis using digits_delim [of r "nat_dec n"] nat_dec_digits [of n]
    by (auto simp: int_part_def)
qed (simp add: int_part_def nat_dec.simps)

lemma frac_exp_delim: "at_delim r \<Longrightarrow> frac_part r = ([], r) \<and> exp_part r = ([], r)"
  by (auto simp: at_delim_def json_ws_def frac_part_def exp_part_def Let_def split: list.splits)

lemma scan_number_int:
  assumes r: "at_delim r" and ok: "json_ok (JInt i)"
  shows "scan_number (int_dec i @ r) = Some (JInt i, r)"
proof -
  let ?d = "nat_dec (nat \<bar>i\<bar>)"
  obtain c ds where d: "?d = c # ds" by (cases ?d) auto
  with nat_dec_digits [of "nat \<bar>i\<bar>"] have c: "c \<noteq> 45" by (auto simp: is_digit_def)
  show ?thesis
  proof (cases "i < 0")
    case True
    then have "int_dec i = 45 # ?d" by (simp add: int_dec_def)
    with r ok True show ?thesis
      by (simp add: scan_number_def int_part_dec frac_exp_delim dec_value_nat_dec)
  next
    case False
    then have "int_dec i = ?d" by (simp add: int_dec_def)
    with r ok False int_part_dec [OF r, of "nat \<bar>i\<bar>"] d c dec_value_nat_dec [of "nat \<bar>i\<bar>"] show ?thesis
      by (simp add: scan_number_def frac_exp_delim)
  qed
qed

lemma int_dec_head: "\<exists>c cs. int_dec i = c # cs \<and> (c = 45 \<or> is_digit c)"
  using nat_dec_digits [of "nat i"] by (cases "nat_dec (nat i)") (auto simp: int_dec_def)

lemma literal_int:
  assumes "at_delim r" and "json_ok (JInt i)"
  shows "literal (int_dec i @ r) = Some (JInt i, r)"
proof -
  obtain c cs where c: "int_dec i = c # cs" "c = 45 \<or> is_digit c" using int_dec_head by blast
  then have "\<not> startswith (int_dec i @ r) (str ''null'')" "\<not> startswith (int_dec i @ r) (str ''true'')"
    "\<not> startswith (int_dec i @ r) (str ''false'')"
    by (auto simp: startswith_def py_simps is_digit_def)
  then show ?thesis by (simp add: literal_def scan_number_int [OF assms])
qed

lemma foldl_dict_set:
  "distinct (map fst (d @ kvs)) \<Longrightarrow> foldl (\<lambda>m (k, v). dict_set k v m) d kvs = d @ kvs"
proof (induction kvs arbitrary: d)
  case (Cons kv kvs)
  obtain k v where kv: "kv = (k, v)" by (cases kv)
  with Cons.prems have "dict_set k v d = d @ [(k, v)]"
    by (intro dict_set_absent) (auto simp: map_of_eq_None_iff)
  with Cons kv show ?case by simp
qed simp

section \<open>Layouts\<close>

text \<open>
  \<open>json.dumps\<close> with its separators and indentation: what stands between two elements, after
  a key, and before an element or a closing bracket at a nesting level. No separator at all
  is written for an empty container.
\<close>

record Layout =
  ly_comma :: pystr
  ly_colon :: pystr
  ly_line :: "nat \<Rightarrow> pystr"

fun dumps_in :: "Layout \<Rightarrow> bool \<Rightarrow> nat \<Rightarrow> json \<Rightarrow> pystr" where
  "dumps_in L a n JNull = str ''null''"
| "dumps_in L a n (JBool b) = (if b then str ''true'' else str ''false'')"
| "dumps_in L a n (JInt i) = int_dec i"
| "dumps_in L a n (JFloat t) = t"
| "dumps_in L a n (JStr s) = json_string a s"
| "dumps_in L a n (JList xs) =
     (if xs = [] then str ''[]''
      else 91 # ly_line L (Suc n)
        @ join (ly_comma L @ ly_line L (Suc n)) (map (dumps_in L a (Suc n)) xs) @ ly_line L n @ [93])"
| "dumps_in L a n (JObj kvs) =
     (if kvs = [] then str ''{}''
      else 123 # ly_line L (Suc n)
        @ join (ly_comma L @ ly_line L (Suc n))
            (map (\<lambda>(k, v). json_string a k @ ly_colon L @ dumps_in L a (Suc n) v) kvs) @ ly_line L n @ [125])"

text \<open>\<open>separators=(",", ":")\<close>, the default of \<open>json.dumps\<close>, and \<open>indent=2\<close>\<close>

definition compact :: Layout where
  "compact = \<lparr>ly_comma = [44], ly_colon = [58], ly_line = \<lambda>n. []\<rparr>"

definition spaced :: Layout where
  "spaced = \<lparr>ly_comma = str '', '', ly_colon = str '': '', ly_line = \<lambda>n. []\<rparr>"

definition indented :: Layout where
  "indented = \<lparr>ly_comma = [44], ly_colon = str '': '', ly_line = \<lambda>n. 10 # replicate (2 * n) 32\<rparr>"

lemma sep_by_join: "sep_by c xs = join [c] xs"
  by (induction c xs rule: sep_by.induct) auto

lemma dumps_plain_layout: "dumps_plain a j = dumps_in compact a n j"
proof (induction j arbitrary: n)
  case (JList xs)
  then have e: "map (dumps_plain a) xs = map (dumps_in compact a (Suc n)) xs" by simp
  show ?case unfolding dumps_plain.simps dumps_in.simps e by (simp add: sep_by_join compact_def py_simps)
next
  case (JObj kvs)
  then have e: "map (\<lambda>(k, v). json_string a k @ 58 # dumps_plain a v) kvs
      = map (\<lambda>(k, v). json_string a k @ 58 # dumps_in compact a (Suc n) v) kvs" by auto
  show ?case unfolding dumps_plain.simps dumps_in.simps e by (simp add: sep_by_join compact_def py_simps)
qed simp_all

section \<open>Round trip of a document\<close>

definition all_ws :: "pystr \<Rightarrow> bool" where
  "all_ws w \<longleftrightarrow> (\<forall>c \<in> set w. json_ws c)"

lemma skip_ws_id: "\<not> json_ws c \<Longrightarrow> skip_ws (c # s) = c # s"
  by (simp add: skip_ws_def)

lemma skip_ws_punct [simp]:
  "skip_ws (44 # s) = 44 # s" "skip_ws (58 # s) = 58 # s" "skip_ws (93 # s) = 93 # s"
  "skip_ws (125 # s) = 125 # s" "skip_ws (34 # s) = 34 # s"
  by (simp_all add: skip_ws_def json_ws_def)

lemma skip_ws_all: "all_ws w \<Longrightarrow> skip_ws (w @ s) = skip_ws s"
  by (simp add: skip_ws_def all_ws_def dropWhile_append3)

lemma at_delim_ws: "all_ws w \<Longrightarrow> at_delim s \<Longrightarrow> at_delim (w @ s)"
  by (cases w) (auto simp: at_delim_def all_ws_def)

lemma at_delim_punct [simp]: "at_delim (44 # s)" "at_delim (93 # s)" "at_delim (125 # s)" "at_delim []"
  by (simp_all add: at_delim_def)

lemma dumps_in_head:
  "json_ok j \<Longrightarrow> \<exists>c cs. dumps_in L a n j = c # cs \<and> \<not> json_ws c \<and> c \<noteq> 93 \<and> c \<noteq> 125 \<and> c \<noteq> 65279"
  using int_dec_head by (cases j) (fastforce simp: json_ws_def is_digit_def json_string_def py_simps)+

locale json_layout =
  fixes L :: Layout
  assumes comma: "\<exists>w. ly_comma L = 44 # w \<and> all_ws w"
    and colon: "\<exists>w. ly_colon L = 58 # w \<and> all_ws w"
    and line: "all_ws (ly_line L n)"
begin

lemma skip_ws_dumps: "json_ok j \<Longrightarrow> skip_ws (dumps_in L a n j @ r) = dumps_in L a n j @ r"
  using dumps_in_head [of j L a n] by (auto simp: skip_ws_id)

definition reads_back :: "bool \<Rightarrow> json \<Rightarrow> bool" where
  "reads_back a j \<longleftrightarrow> (\<forall>k n r. at_delim r \<longrightarrow> 2 * length (dumps_in L a k j) + 1 \<le> n \<longrightarrow>
     scan_value n (dumps_in L a k j @ r) = Some (j, r))"

lemma reads_backI:
  "(\<And>k m r. at_delim r \<Longrightarrow> 2 * length (dumps_in L a k j) \<le> m \<Longrightarrow>
      scan_value (Suc m) (dumps_in L a k j @ r) = Some (j, r)) \<Longrightarrow> reads_back a j"
  unfolding reads_back_def by (metis Suc_eq_plus1 Suc_le_D Suc_le_mono)

lemma reads_backD:
  "reads_back a j \<Longrightarrow> at_delim r \<Longrightarrow> 2 * length (dumps_in L a k j) + 1 \<le> n \<Longrightarrow>
     scan_value n (dumps_in L a k j @ r) = Some (j, r)"
  unfolding reads_back_def by blast

lemma scan_items_roundtrip:
  assumes "xs \<noteq> []" and "\<forall>x \<in> set xs. json_ok x \<and> reads_back a x" and "all_ws w"
    and "2 * length (join (ly_comma L @ ly_line L k) (map (dumps_in L a k) xs)) + 2 \<le> n"
  shows "scan_items n (join (ly_comma L @ ly_line L k) (map (dumps_in L a k) xs) @ w @ 93 # r)
     = Some (xs, r)"
  using assms
proof (induction xs arbitrary: n)
  case (Cons x xs)
  obtain m where n: "n = Suc m" using Cons.prems(4) by (cases n) auto
  have x: "reads_back a x" using Cons.prems(2) by simp
  show ?case
  proof (cases xs)
    case Nil
    with Cons.prems n reads_backD [OF x, of "w @ 93 # r" k m]
    have "scan_value m (dumps_in L a k x @ w @ 93 # r) = Some (x, w @ 93 # r)"
      by (simp add: at_delim_ws)
    with Nil n \<open>all_ws w\<close> show ?thesis by (simp add: skip_ws_all)
  next
    case (Cons y ys)
    obtain v where v: "ly_comma L = 44 # v" "all_ws v" using comma by blast
    let ?t = "join (ly_comma L @ ly_line L k) (map (dumps_in L a k) xs) @ w @ 93 # r"
    have t: "join (ly_comma L @ ly_line L k) (map (dumps_in L a k) (x # xs)) @ w @ 93 # r
        = dumps_in L a k x @ 44 # v @ ly_line L k @ ?t"
      using Cons v by simp
    have len: "2 * length (dumps_in L a k x) + 2 * length (join (ly_comma L @ ly_line L k) (map (dumps_in L a k) xs)) + 3 \<le> m"
      using Cons.prems(4) Cons n v by simp
    then have s: "scan_value m (dumps_in L a k x @ 44 # v @ ly_line L k @ ?t) = Some (x, 44 # v @ ly_line L k @ ?t)"
      by (intro reads_backD [OF x]) simp_all
    have "\<exists>q. ?t = dumps_in L a k y @ q" using Cons by (cases ys) auto
    then have ws: "skip_ws (v @ ly_line L k @ ?t) = ?t"
      using skip_ws_dumps [of y a k] Cons.prems(2) Cons v line by (auto simp: skip_ws_all)
    have "scan_items m ?t = Some (xs, r)"
      using Cons.IH [of m] Cons.prems(2,3) Cons len by auto
    with n s ws show ?thesis unfolding t by simp
  qed
qed simp

abbreviation member :: "bool \<Rightarrow> nat \<Rightarrow> pystr \<times> json \<Rightarrow> pystr" where
  "member a k \<equiv> (\<lambda>(key, v). json_string a key @ ly_colon L @ dumps_in L a k v)"

lemma scan_member:
  assumes "encodable key" and "json_ok v" and "reads_back a v" and "at_delim q"
    and "2 * length (member a k (key, v)) \<le> Suc m"
  shows "scan_members (Suc m) (member a k (key, v) @ q) =
      (case skip_ws q of [] \<Rightarrow> None
       | e # r3 \<Rightarrow> if e = 125 then Some ([(key, v)], r3)
           else if e = 44 then map_option (\<lambda>(kvs, q). ((key, v) # kvs, q)) (scan_members m (skip_ws r3))
           else None)"
proof -
  obtain u where u: "ly_colon L = 58 # u" "all_ws u" using colon by blast
  let ?k = "concat (map (json_char a) key)"
  have "length ?k < m" "2 * length (dumps_in L a k v) + 1 \<le> m"
    using assms(5) u by (simp_all add: json_string_def)
  with assms u show ?thesis
    using scan_string_roundtrip [of key a m "58 # u @ dumps_in L a k v @ q"]
      reads_backD [of a v q k m] skip_ws_dumps [of v a k q]
    by (simp add: json_string_def skip_ws_all)
qed

lemma scan_members_roundtrip:
  assumes "kvs \<noteq> []" and "\<forall>(key, v) \<in> set kvs. encodable key \<and> json_ok v \<and> reads_back a v" and "all_ws w"
    and "2 * length (join (ly_comma L @ ly_line L k) (map (member a k) kvs)) + 1 \<le> n"
  shows "scan_members n (join (ly_comma L @ ly_line L k) (map (member a k) kvs) @ w @ 125 # r)
     = Some (kvs, r)"
  using assms
proof (induction kvs arbitrary: n)
  case (Cons kv kvs)
  obtain key v where kv: "kv = (key, v)" by (cases kv)
  obtain m where n: "n = Suc m" using Cons.prems(4) by (cases n) auto
  have ok: "encodable key" "json_ok v" "reads_back a v" using Cons.prems(2) kv by auto
  show ?case
  proof (cases kvs)
    case Nil
    with Cons.prems(3,4) kv n scan_member [OF ok, of "w @ 125 # r" k m] show ?thesis
      by (simp add: at_delim_ws skip_ws_all)
  next
    case (Cons kv' kvs')
    obtain u where u: "ly_comma L = 44 # u" "all_ws u" using comma by blast
    let ?p = "\<lambda>kvs. join (ly_comma L @ ly_line L k) (map (member a k) kvs)"
    let ?t = "?p kvs @ w @ 125 # r"
    have t: "?p (kv # kvs) @ w @ 125 # r = member a k (key, v) @ 44 # u @ ly_line L k @ ?t"
      using Cons kv u by simp
    have len: "2 * length (member a k (key, v)) \<le> Suc m" "2 * length (?p kvs) + 1 \<le> m"
      using Cons.prems(4) Cons kv n u by simp_all
    have "\<exists>q. ?t = 34 # q" using Cons by (cases kvs'; cases kv') (auto simp: json_string_def)
    then have ws: "skip_ws (u @ ly_line L k @ ?t) = ?t"
      using u line by (auto simp: skip_ws_all)
    have "scan_members m ?t = Some (kvs, r)"
      using Cons.IH [of m] Cons.prems(2,3) Cons len by auto
    with scan_member [OF ok, of "44 # u @ ly_line L k @ ?t" k m] len ws n kv
    show ?thesis unfolding t n by simp
  qed
qed simp

lemma reads_back_all: "json_ok j \<Longrightarrow> reads_back a j"
proof (induction j)
  case (JInt i)
  show ?case
  proof (rule reads_backI)
    fix k m and r :: pystr
    assume r: "at_delim r"
    obtain c cs where c: "int_dec i = c # cs" "c = 45 \<or> is_digit c" using int_dec_head by blast
    with literal_int [OF r JInt] show "scan_value (Suc m) (dumps_in L a k (JInt i) @ r) = Some (JInt i, r)"
      by (auto simp: is_digit_def)
  qed
next
  case (JStr s)
  show ?case
  proof (rule reads_backI)
    fix k m and r :: pystr
    assume "2 * length (dumps_in L a k (JStr s)) \<le> m"
    with JStr scan_string_roundtrip [of s a m r]
    show "scan_value (Suc m) (dumps_in L a k (JStr s) @ r) = Some (JStr s, r)"
      by (simp add: json_string_def)
  qed
next
  case (JList xs)
  then have all: "\<forall>x \<in> set xs. json_ok x \<and> reads_back a x" by auto
  show ?case
  proof (rule reads_backI)
    fix k m and r :: pystr
    assume m: "2 * length (dumps_in L a k (JList xs)) \<le> m"
    show "scan_value (Suc m) (dumps_in L a k (JList xs) @ r) = Some (JList xs, r)"
    proof (cases xs)
      case Nil
      then show ?thesis by (simp add: py_simps)
    next
      case (Cons y ys)
      let ?t = "join (ly_comma L @ ly_line L (Suc k)) (map (dumps_in L a (Suc k)) xs) @ ly_line L k @ 93 # r"
      have "\<exists>q. ?t = dumps_in L a (Suc k) y @ q" using Cons by (cases ys) auto
      then obtain c cs where c: "?t = c # cs" "\<not> json_ws c" "c \<noteq> 93"
        using dumps_in_head [of y L a "Suc k"] all Cons by auto
      have "scan_items m ?t = Some (xs, r)"
        using scan_items_roundtrip [of xs a "ly_line L k" "Suc k" m r] all Cons m line by simp
      moreover have "skip_ws (ly_line L (Suc k) @ ?t) = c # cs"
        using c line by (simp add: skip_ws_all skip_ws_id)
      ultimately show ?thesis using c Cons by simp
    qed
  qed
next
  case (JObj kvs)
  then have all: "\<forall>(key, v) \<in> set kvs. encodable key \<and> json_ok v \<and> reads_back a v" by fastforce
  show ?case
  proof (rule reads_backI)
    fix k m and r :: pystr
    assume m: "2 * length (dumps_in L a k (JObj kvs)) \<le> m"
    show "scan_value (Suc m) (dumps_in L a k (JObj kvs) @ r) = Some (JObj kvs, r)"
    proof (cases kvs)
      case Nil
      then show ?thesis by (simp add: py_simps)
    next
      case (Cons kv kvs')
      let ?t = "join (ly_comma L @ ly_line L (Suc k)) (map (member a (Suc k)) kvs) @ ly_line L k @ 125 # r"
      obtain cs where c: "?t = 34 # cs"
        using Cons by (cases kvs'; cases kv) (auto simp: json_string_def)
      have "scan_members m ?t = Some (kvs, r)"
        using scan_members_roundtrip [of kvs a "ly_line L k" "Suc k" m r] all Cons m line by simp
      moreover have "foldl (\<lambda>m (k, v). dict_set k v m) [] kvs = kvs"
        using foldl_dict_set [of "[]" kvs] JObj.prems by simp
      moreover have "skip_ws (ly_line L (Suc k) @ ?t) = 34 # cs"
        using c line by (simp add: skip_ws_all)
      ultimately show ?thesis using c Cons by simp
    qed
  qed
next
  case (JBool b)
  show ?case
    by (rule reads_backI) (simp add: literal_def startswith_def py_simps)
next
  case JNull
  show ?case
    by (rule reads_backI) (simp add: literal_def startswith_def py_simps)
qed simp

lemma loads_dumps_in:
  assumes ok: "json_ok j" and w: "all_ws w"
  shows "loads (dumps_in L a 0 j @ w) = Some j"
proof -
  obtain c cs where c: "dumps_in L a 0 j = c # cs" "c \<noteq> 65279"
    using dumps_in_head [OF ok] by blast
  have "scan_value (Suc (2 * length (dumps_in L a 0 j @ w))) (dumps_in L a 0 j @ w) = Some (j, w)"
    using reads_back_all [OF ok, of a] at_delim_ws [OF w, of "[]"] by (intro reads_backD) simp_all
  moreover have "skip_ws w = []" using skip_ws_all [OF w, of "[]"] by (simp add: skip_ws_def)
  ultimately show ?thesis using c skip_ws_dumps [OF ok, of a 0 w] by (simp add: loads_def)
qed

end

interpretation cl: json_layout compact
  by unfold_locales (auto simp: compact_def all_ws_def)

interpretation sl: json_layout spaced
  by unfold_locales (auto simp: spaced_def all_ws_def json_ws_def py_simps)

interpretation il: json_layout indented
  by unfold_locales (auto simp: indented_def all_ws_def json_ws_def py_simps)

lemma json_ok_sorted: "json_ok j \<Longrightarrow> json_ok (json_sorted j)"
proof (induction j)
  case (JObj kvs)
  let ?kvs = "map (\<lambda>(k, v). (k, json_sorted v)) kvs"
  have "mset (map fst (sort_key fst ?kvs)) = mset (map fst ?kvs)" by (simp only: mset_map mset_sort)
  moreover have "map fst ?kvs = map fst kvs" by (simp add: comp_def case_prod_beta)
  ultimately have "distinct (map fst (sort_key fst ?kvs)) \<longleftrightarrow> distinct (map fst kvs)"
    by (metis mset_eq_imp_distinct_iff)
  with JObj.prems have "distinct (map fst (sort_key fst ?kvs))" by simp
  moreover have "encodable k \<and> json_ok v" if "(k, v) \<in> set ?kvs" for k v
  proof -
    from that obtain w where "(k, w) \<in> set kvs" "v = json_sorted w" by auto
    with JObj.prems JObj.IH [of "(k, w)" w] show ?thesis by auto
  qed
  ultimately show ?case by (auto simp del: set_map)
qed auto

lemma loads_dumps:
  assumes "json_ok j"
  shows "loads (dumps a j) = Some (json_sorted j)"
  using cl.loads_dumps_in [OF json_ok_sorted [OF assms], of "[]" a]
  by (simp add: dumps_def dumps_plain_layout [of a _ 0] all_ws_def)

end
