(* ===== verification/WikiSecurity.thy ===== *)
theory WikiSecurity
  imports WikiDomain JsonParse
begin

text \<open>
  The HMAC session tokens of \<open>src/app/wiki/security.py\<close>: what the signer issues and what it
  accepts, down to the bytes of the token. The random CSRF token is an argument of
  \<open>issue\<close>. A payload that some other holder of the secret wrote may hold values that this
  signer never writes; how Python prints or truncates those is the record \<open>Foreign\<close>.
\<close>

section \<open>Base 64\<close>

text \<open>The URL-safe alphabet, and the encoding with its padding.\<close>

definition b64_char :: "nat \<Rightarrow> nat" where
  "b64_char n =
     (if n < 26 then 65 + n else if n < 52 then 71 + n else if n < 62 then n - 4
      else if n = 62 then 45 else 95)"

fun b64_encode :: "bytes \<Rightarrow> pystr" where
  "b64_encode [] = []"
| "b64_encode [a] = [b64_char (unat a div 4), b64_char (unat a mod 4 * 16), 61, 61]"
| "b64_encode [a, b] = [b64_char (unat a div 4), b64_char (unat a mod 4 * 16 + unat b div 16),
     b64_char (unat b mod 16 * 4), 61]"
| "b64_encode (a # b # c # s) =
     b64_char (unat a div 4) # b64_char (unat a mod 4 * 16 + unat b div 16)
       # b64_char (unat b mod 16 * 4 + unat c div 64) # b64_char (unat c mod 64) # b64_encode s"

definition b64 :: "bytes \<Rightarrow> pystr" where
  "b64 value = rev (dropWhile (\<lambda>c. c = 61) (rev (b64_encode value)))"

text \<open>
  The decoder of \<open>binascii\<close>, not strict: it skips characters outside the alphabet, stops at
  the padding, and fails when a group is incomplete at the end.
\<close>

definition b64_val :: "nat \<Rightarrow> nat option" where
  "b64_val c =
     (if 65 \<le> c \<and> c \<le> 90 then Some (c - 65) else if 97 \<le> c \<and> c \<le> 122 then Some (c - 71)
      else if 48 \<le> c \<and> c \<le> 57 then Some (c + 4)
      else if c = 43 then Some 62 else if c = 47 then Some 63 else None)"

fun a2b :: "nat \<Rightarrow> nat \<Rightarrow> nat \<Rightarrow> pystr \<Rightarrow> bytes option" where
  "a2b quad_pos leftchar pads [] = (if quad_pos = 0 then Some [] else None)"
| "a2b quad_pos leftchar pads (c # cs) =
     (if c = 61 then
        (if 2 \<le> quad_pos then (if 4 \<le> quad_pos + (pads + 1) then Some []
                               else a2b quad_pos leftchar (pads + 1) cs)
         else a2b quad_pos leftchar pads cs)
      else case b64_val c of
        None \<Rightarrow> a2b quad_pos leftchar pads cs
      | Some v \<Rightarrow>
          (if quad_pos = 0 then a2b 1 v 0 cs
           else if quad_pos = 1
           then map_option ((#) (of_nat (leftchar * 4 + v div 16))) (a2b 2 (v mod 16) 0 cs)
           else if quad_pos = 2
           then map_option ((#) (of_nat (leftchar * 16 + v div 4))) (a2b 3 (v mod 4) 0 cs)
           else map_option ((#) (of_nat (leftchar * 64 + v))) (a2b 0 0 0 cs)))"

definition url_translate :: "pystr \<Rightarrow> pystr" where
  "url_translate s = map (\<lambda>c. if c = 45 then 43 else if c = 95 then 47 else c) s"

definition is_ascii :: "pystr \<Rightarrow> bool" where
  "is_ascii s \<longleftrightarrow> (\<forall>c \<in> set s. c < 128)"

definition unb64 :: "pystr \<Rightarrow> wiki_exn + bytes" where
  "unb64 value =
     (if \<not> is_ascii value
      then Inl (PyValueError (str ''string argument should contain only ASCII characters''))
      else case a2b 0 0 0 (url_translate (value @ replicate ((4 - length value mod 4) mod 4) 61)) of
        None \<Rightarrow> Inl (PyValueError (str ''Incorrect padding''))
      | Some bs \<Rightarrow> Inr bs)"

section \<open>Identities\<close>

record SessionIdentity =
  si_actor_id :: pystr
  si_display_name :: pystr
  si_actor_kind :: pystr
  si_agent_url :: "pystr option"
  si_scopes :: "pystr set"
  si_csrf_token :: pystr
  si_expires_at :: datetime

definition public_scopes :: "pystr list" where
  "public_scopes = [str ''wiki:edit'', str ''wiki:read'', str ''wiki:report'', str ''wiki:submit'']"

text \<open>\<open>int(d.timestamp())\<close>\<close>

definition to_seconds :: "datetime \<Rightarrow> int" where
  "to_seconds d = (if 0 \<le> d then d div 1000000 else - ((- d) div 1000000))"

text \<open>\<open>datetime.fromtimestamp(n, tz=UTC)\<close> for a time after 1970\<close>

definition from_timestamp :: "int \<Rightarrow> wiki_exn + datetime" where
  "from_timestamp n =
     (if n < 253402300800 then Inr (n * 1000000)
      else if n < 67768036191676800 then Inl (PyValueError (str ''year is out of range''))
      else Inl PyOverflowError)"

text \<open>\<open>secrets.compare_digest\<close> on strings, which refuses characters outside ASCII\<close>

definition compare_digest :: "pystr \<Rightarrow> pystr \<Rightarrow> wiki_exn + bool" where
  "compare_digest a b =
     (if is_ascii a \<and> is_ascii b then Inr (a = b)
      else Inl (PyTypeError (str ''comparing strings with non-ASCII characters is not supported'')))"

section \<open>The signer\<close>

record Signer =
  sg_secret :: bytes
  sg_ttl :: int

definition new_signer :: "bytes \<Rightarrow> int \<Rightarrow> wiki_exn + Signer" where
  "new_signer secret ttl =
     (if length secret < 32
      then Inl (PyValueError (str ''wiki session secret must be at least 32 bytes''))
      else Inr \<lparr>sg_secret = secret, sg_ttl = ttl\<rparr>)"

definition sign :: "Signer \<Rightarrow> pystr \<Rightarrow> pystr" where
  "sign sg encoded = b64 (hmac_sha256 (sg_secret sg) (map of_nat encoded))"

definition session_payload :: "SessionIdentity \<Rightarrow> datetime \<Rightarrow> json" where
  "session_payload ident now = JObj
     [(str ''v'', JInt 1), (str ''actor_id'', JStr (si_actor_id ident)),
      (str ''display_name'', JStr (si_display_name ident)),
      (str ''actor_kind'', JStr (si_actor_kind ident)),
      (str ''agent_url'', case si_agent_url ident of None \<Rightarrow> JNull | Some u \<Rightarrow> JStr u),
      (str ''scopes'', JList (map JStr public_scopes)),
      (str ''csrf'', JStr (si_csrf_token ident)),
      (str ''iat'', JInt (to_seconds now)),
      (str ''exp'', JInt (to_seconds (si_expires_at ident)))]"

definition issue ::
  "Signer \<Rightarrow> pystr \<Rightarrow> pystr \<Rightarrow> pystr \<Rightarrow> pystr option \<Rightarrow> pystr \<Rightarrow> datetime \<Rightarrow> pystr \<times> SessionIdentity" where
  "issue sg actor display kind agent csrf now =
     (let ident = \<lparr>si_actor_id = actor, si_display_name = display, si_actor_kind = kind,
                   si_agent_url = agent, si_scopes = set public_scopes, si_csrf_token = csrf,
                   si_expires_at = now + sg_ttl sg\<rparr>;
          encoded = b64 (map of_nat (dumps True (session_payload ident now)))
      in (encoded @ 46 # sign sg encoded, ident))"

section \<open>Verification\<close>

record Foreign =
  fo_int :: "json \<Rightarrow> wiki_exn + int"
  fo_str :: "json \<Rightarrow> pystr"
  fo_is_one :: "pystr \<Rightarrow> bool"
  fo_is_zero :: "pystr \<Rightarrow> bool"
  fo_decode :: "bytes \<Rightarrow> wiki_exn + pystr"

definition py_int :: "Foreign \<Rightarrow> json \<Rightarrow> wiki_exn + int" where
  "py_int F j = (case j of JInt i \<Rightarrow> Inr i | JBool b \<Rightarrow> Inr (if b then 1 else 0)
     | JStr _ \<Rightarrow> fo_int F j | JFloat _ \<Rightarrow> fo_int F j
     | _ \<Rightarrow> Inl (PyTypeError (str ''int() argument must be a string or a number'')))"

definition py_str :: "Foreign \<Rightarrow> json \<Rightarrow> pystr" where
  "py_str F j = (case j of JStr s \<Rightarrow> s | JInt i \<Rightarrow> int_dec i | JNull \<Rightarrow> str ''None''
     | JBool b \<Rightarrow> if b then str ''True'' else str ''False'' | _ \<Rightarrow> fo_str F j)"

definition py_truthy :: "Foreign \<Rightarrow> json \<Rightarrow> bool" where
  "py_truthy F j = (case j of JNull \<Rightarrow> False | JBool b \<Rightarrow> b | JInt i \<Rightarrow> i \<noteq> 0
     | JFloat t \<Rightarrow> \<not> fo_is_zero F t | JStr s \<Rightarrow> s \<noteq> [] | JList xs \<Rightarrow> xs \<noteq> [] | JObj kvs \<Rightarrow> kvs \<noteq> [])"

definition is_version_1 :: "Foreign \<Rightarrow> json option \<Rightarrow> bool" where
  "is_version_1 F j = (case j of Some (JInt i) \<Rightarrow> i = 1 | Some (JBool b) \<Rightarrow> b
     | Some (JFloat t) \<Rightarrow> fo_is_one F t | _ \<Rightarrow> False)"

definition py_iter :: "json \<Rightarrow> wiki_exn + json list" where
  "py_iter j = (case j of JList xs \<Rightarrow> Inr xs | JStr s \<Rightarrow> Inr (map (\<lambda>c. JStr [c]) s)
     | JObj kvs \<Rightarrow> Inr (map (JStr \<circ> fst) kvs) | _ \<Rightarrow> Inl (PyTypeError (str ''object is not iterable'')))"

text \<open>\<open>json.loads\<close> of bytes: ASCII without a zero byte is UTF-8, anything else is decoded by \<open>F\<close>.\<close>

definition loads_bytes :: "Foreign \<Rightarrow> bytes \<Rightarrow> wiki_exn + json" where
  "loads_bytes F bs =
     bind_res (if \<forall>b \<in> set bs. 0 < b \<and> b < 128 then Inr (map unat bs) else fo_decode F bs) (\<lambda>s.
     case loads s of
       None \<Rightarrow> Inl (PyValueError (str ''JSONDecodeError''))
     | Some j \<Rightarrow> Inr j)"

definition item :: "(pystr, json) pydict \<Rightarrow> pystr \<Rightarrow> wiki_exn + json" where
  "item d k = (case dict_get d k of None \<Rightarrow> Inl (PyKeyError k) | Some v \<Rightarrow> Inr v)"

definition get_default :: "(pystr, json) pydict \<Rightarrow> pystr \<Rightarrow> json \<Rightarrow> json" where
  "get_default d k v = (case dict_get d k of None \<Rightarrow> v | Some w \<Rightarrow> w)"

definition read_payload ::
  "Foreign \<Rightarrow> datetime \<Rightarrow> (pystr, json) pydict \<Rightarrow> wiki_exn + SessionIdentity" where
  "read_payload F now d =
     (if \<not> is_version_1 F (dict_get d (str ''v''))
      then Inl (PyValueError (str ''expired or unsupported token''))
      else
     bind_res (item d (str ''exp'')) (\<lambda>ex. bind_res (py_int F ex) (\<lambda>n.
     if n \<le> to_seconds now then Inl (PyValueError (str ''expired or unsupported token''))
     else
     bind_res (item d (str ''scopes'')) (\<lambda>sc. bind_res (py_iter sc) (\<lambda>items.
     let granted = set (map (py_str F) items) in
     if granted = {} \<or> \<not> granted \<subseteq> set public_scopes
     then Inl (PyValueError (str ''invalid scopes''))
     else
     bind_res (item d (str ''actor_id'')) (\<lambda>actor.
     bind_res (item d (str ''csrf'')) (\<lambda>csrf.
     bind_res (from_timestamp n) (\<lambda>expires.
     Inr \<lparr>si_actor_id = py_str F actor,
          si_display_name = py_str F (get_default d (str ''display_name'') (JStr (str ''Anonymous''))),
          si_actor_kind = py_str F (get_default d (str ''actor_kind'') (JStr (str ''human''))),
          si_agent_url = (case dict_get d (str ''agent_url'') of
                            None \<Rightarrow> None
                          | Some u \<Rightarrow> if py_truthy F u then Some (py_str F u) else None),
          si_scopes = granted, si_csrf_token = py_str F csrf, si_expires_at = expires\<rparr>))))))))"

definition verify_body :: "Signer \<Rightarrow> Foreign \<Rightarrow> pystr \<Rightarrow> datetime \<Rightarrow> wiki_exn + SessionIdentity" where
  "verify_body sg F token now =
     (if 46 \<notin> set token then Inl (PyValueError (str ''not enough values to unpack''))
      else let encoded = takeWhile (\<lambda>c. c \<noteq> 46) token; signature = tl (dropWhile (\<lambda>c. c \<noteq> 46) token) in
      if \<not> is_ascii encoded then Inl PyUnicodeEncodeError
      else
      bind_res (compare_digest signature (sign sg encoded)) (\<lambda>same.
      if \<not> same then Inl (PyValueError (str ''signature mismatch''))
      else
      bind_res (unb64 encoded) (\<lambda>bs. bind_res (loads_bytes F bs) (\<lambda>payload.
      case payload of
        JObj d \<Rightarrow> read_payload F now d
      | _ \<Rightarrow> Inl (PyAttributeError (str ''get''))))))"

definition invalid_session :: wiki_exn where
  "invalid_session = WikiError (str ''invalid_session'') (str ''invalid or expired wiki session'') 401"

text \<open>The exceptions the \<open>except\<close> clause names, with the subclasses of \<open>ValueError\<close>.\<close>

definition session_caught :: "wiki_exn \<Rightarrow> bool" where
  "session_caught x = (case x of PyKeyError _ \<Rightarrow> True | PyTypeError _ \<Rightarrow> True | PyValueError _ \<Rightarrow> True
     | PyUnicodeEncodeError \<Rightarrow> True | PyUnicodeDecodeError \<Rightarrow> True | _ \<Rightarrow> False)"

definition verify :: "Signer \<Rightarrow> Foreign \<Rightarrow> pystr \<Rightarrow> datetime \<Rightarrow> wiki_exn + SessionIdentity" where
  "verify sg F token now =
     (case verify_body sg F token now of
        Inl x \<Rightarrow> if session_caught x then Inl invalid_session else Inl x
      | Inr ident \<Rightarrow> Inr ident)"

section \<open>Encoding and decoding\<close>

definition url_char :: "nat \<Rightarrow> nat" where
  "url_char c = (if c = 45 then 43 else if c = 95 then 47 else c)"

lemma b64_char_char: "n < 64 \<Longrightarrow> b64_char n < 128 \<and> b64_char n \<noteq> 46 \<and> b64_char n \<noteq> 61 \<and> b64_char n \<noteq> 0"
  by (auto simp: b64_char_def)

lemma b64_char_val:
  assumes "n < 64"
  shows "url_char (b64_char n) \<noteq> 61" and "b64_val (url_char (b64_char n)) = Some n"
proof -
  consider "n < 26" | "26 \<le> n \<and> n < 52" | "52 \<le> n \<and> n < 62" | "n = 62" | "n = 63"
    using assms by fastforce
  then have "url_char (b64_char n) \<noteq> 61 \<and> b64_val (url_char (b64_char n)) = Some n"
    by cases (auto simp: b64_char_def b64_val_def url_char_def)
  then show "url_char (b64_char n) \<noteq> 61" and "b64_val (url_char (b64_char n)) = Some n" by auto
qed

lemma strip_end_append:
  "xs = [] \<or> \<not> P (last xs) \<Longrightarrow> rev (dropWhile P (rev (xs @ ys))) = xs @ rev (dropWhile P (rev ys))"
  by (cases xs rule: rev_cases) (auto simp: dropWhile_append dropWhile_eq_Nil_conv)

lemma byte_split: "unat (a :: byte) div 4 < 64" "unat (a :: byte) mod 4 * 16 + unat (b :: byte) div 16 < 64"
  "unat b mod 16 * 4 + unat (c :: byte) div 64 < 64" "unat c mod 64 < 64" "unat a mod 4 * 16 < 64"
  "unat b mod 16 * 4 < 64"
  using unat_byte_lt [of a] unat_byte_lt [of b] unat_byte_lt [of c] by auto

lemma b64_simps:
  "b64 [] = []"
  "b64 [a] = [b64_char (unat a div 4), b64_char (unat a mod 4 * 16)]"
  "b64 [a, b] = [b64_char (unat a div 4), b64_char (unat a mod 4 * 16 + unat b div 16),
     b64_char (unat b mod 16 * 4)]"
  "b64 (a # b # c # s) =
     [b64_char (unat a div 4), b64_char (unat a mod 4 * 16 + unat b div 16),
      b64_char (unat b mod 16 * 4 + unat c div 64), b64_char (unat c mod 64)] @ b64 s"
proof -
  have n: "b64_char (unat a mod 4 * 16) \<noteq> 61" "b64_char (unat b mod 16 * 4) \<noteq> 61"
    "b64_char (unat c mod 64) \<noteq> 61"
    using b64_char_char byte_split by blast+
  then show "b64 [a] = [b64_char (unat a div 4), b64_char (unat a mod 4 * 16)]"
    and "b64 [a, b] = [b64_char (unat a div 4), b64_char (unat a mod 4 * 16 + unat b div 16),
     b64_char (unat b mod 16 * 4)]"
    by (simp_all add: b64_def)
  let ?xs = "[b64_char (unat a div 4), b64_char (unat a mod 4 * 16 + unat b div 16),
      b64_char (unat b mod 16 * 4 + unat c div 64), b64_char (unat c mod 64)]"
  have "b64_encode (a # b # c # s) = ?xs @ b64_encode s" by simp
  with n(3) strip_end_append [of ?xs "\<lambda>c. c = 61" "b64_encode s"]
  show "b64 (a # b # c # s) = ?xs @ b64 s" unfolding b64_def by (metis last.simps list.distinct(1))
qed (simp add: b64_def)

lemma b64_set: "x \<in> set (b64 bs) \<Longrightarrow> x < 128 \<and> x \<noteq> 46"
proof (induction bs rule: b64_encode.induct)
  case (2 a)
  then show ?case using b64_char_char byte_split(1) [of a] byte_split(5) [of a]
    by (auto simp: b64_simps)
next
  case (3 a b)
  then show ?case using b64_char_char byte_split(1) [of a] byte_split(2) [of a b] byte_split(6) [of b]
    by (auto simp: b64_simps)
next
  case (4 a b c s)
  then show ?case using b64_char_char byte_split(1) [of a] byte_split(2) [of a b] byte_split(3) [of b c]
      byte_split(4) [of c] by (auto simp: b64_simps)
qed (simp add: b64_simps)

lemma a2b_roundtrip:
  "a2b 0 0 0 (map url_char (b64 bs @ replicate ((4 - length (b64 bs) mod 4) mod 4) 61)) = Some bs"
proof (induction bs rule: b64_encode.induct)
  case (2 a)
  have "replicate 2 (61 :: nat) = [61, 61]" by (simp add: numeral_2_eq_2)
  moreover have "unat a div 4 * 4 + unat a mod 4 = unat a" by simp
  ultimately show ?case using b64_char_val [OF byte_split(1) [of a]] b64_char_val [OF byte_split(5) [of a]]
    by (simp add: b64_simps url_char_def [of 61])
next
  case (3 a b)
  have a: "unat a div 4 * 4 + unat a mod 4 = unat a" and b: "unat b div 16 * 16 + unat b mod 16 = unat b"
    by simp_all
  have "(unat a mod 4 * 16 + unat b div 16) div 16 = unat a mod 4"
    "(unat a mod 4 * 16 + unat b div 16) mod 16 = unat b div 16"
    using unat_byte_lt [of b] by auto
  then show ?case using b64_char_val [OF byte_split(1) [of a]] b64_char_val [OF byte_split(2) [of a b]]
      b64_char_val [OF byte_split(6) [of b]] a b
    by (simp add: b64_simps url_char_def [of 61])
next
  case (4 a b c s)
  have a: "unat a div 4 * 4 + unat a mod 4 = unat a" and b: "unat b div 16 * 16 + unat b mod 16 = unat b"
    and c: "unat c div 64 * 64 + unat c mod 64 = unat c"
    by simp_all
  have "(unat a mod 4 * 16 + unat b div 16) div 16 = unat a mod 4"
    "(unat a mod 4 * 16 + unat b div 16) mod 16 = unat b div 16"
    "(unat b mod 16 * 4 + unat c div 64) div 4 = unat b mod 16"
    "(unat b mod 16 * 4 + unat c div 64) mod 4 = unat c div 64"
    using unat_byte_lt [of b] unat_byte_lt [of c] by auto
  moreover have "length (b64 (a # b # c # s)) mod 4 = length (b64 s) mod 4" by (simp add: b64_simps)
  ultimately show ?case using b64_char_val [OF byte_split(1) [of a]]
      b64_char_val [OF byte_split(2) [of a b]] b64_char_val [OF byte_split(3) [of b c]]
      b64_char_val [OF byte_split(4) [of c]] a b c 4
    by (simp add: b64_simps)
qed (simp add: b64_simps)

lemma unb64_b64: "unb64 (b64 bs) = Inr bs"
proof -
  have "is_ascii (b64 bs)" by (auto simp: is_ascii_def dest: b64_set)
  moreover have "url_translate = map url_char" by (auto simp: url_translate_def url_char_def)
  ultimately show ?thesis using a2b_roundtrip [of bs] by (simp add: unb64_def)
qed

section \<open>What the signer issued, it accepts\<close>

lemma length_nat_dec: "0 < k \<Longrightarrow> n < 10 ^ k \<Longrightarrow> length (nat_dec n) \<le> k"
proof (induction n arbitrary: k rule: nat_dec.induct)
  case (1 n)
  show ?case
  proof (cases "n < 10")
    case True
    with 1 show ?thesis by (subst nat_dec.simps) simp
  next
    case False
    obtain l where k: "k = Suc l" using 1(2) by (cases k) auto
    have "0 < l" using False 1(3) k by (cases l) auto
    moreover have "n div 10 < 10 ^ l" using 1(3) k by (simp add: less_mult_imp_div_less mult.commute)
    ultimately have "length (nat_dec (n div 10)) \<le> l" using 1(1) False by simp
    with False k show ?thesis by (subst nat_dec.simps) simp
  qed
qed

lemma seconds_digits:
  "0 \<le> d \<Longrightarrow> d < 253402300800 * 1000000 \<Longrightarrow> json_ok (JInt (to_seconds d))"
proof -
  assume d: "0 \<le> d" "d < 253402300800 * 1000000"
  then have "0 \<le> to_seconds d" "to_seconds d < 10 ^ 12" by (auto simp: to_seconds_def)
  then have "nat \<bar>to_seconds d\<bar> < 10 ^ 12" by auto
  from length_nat_dec [OF _ this] show ?thesis by simp
qed

lemma json_string_ascii: "encodable s \<Longrightarrow> x \<in> set (json_string True s) \<Longrightarrow> 0 < x \<and> x < 128"
proof -
  have h: "n < 16 \<Longrightarrow> 0 < hex_digit n \<and> hex_digit n < 128" for n by (simp add: hex_digit_def)
  assume "x \<in> set (json_string True s)"
  then consider "x = 34" | c where "c \<in> set s" "x \<in> set (json_char True c)"
    by (auto simp: json_string_def)
  then show ?thesis
    by cases (auto simp: json_char_def u_escape_def hex4_def h split: if_splits)
qed

lemma dumps_plain_ascii: "json_ok j \<Longrightarrow> x \<in> set (dumps_plain True j) \<Longrightarrow> 0 < x \<and> x < 128"
proof (induction j)
  case (JInt i)
  then show ?case using nat_dec_digits by (auto simp: int_dec_def is_digit_def split: if_splits) force+
next
  case (JStr s)
  then show ?case using json_string_ascii by simp
next
  case (JList xs)
  then show ?case by (fastforce dest: sep_by_set)
next
  case (JObj kvs)
  then show ?case using json_string_ascii by (fastforce dest: sep_by_set)
qed (auto simp: py_simps split: if_splits)

lemma ascii_bytes:
  assumes "\<forall>x \<in> set s. 0 < x \<and> x < 128"
  shows "map unat (map of_nat s :: bytes) = s" and "\<forall>b \<in> set (map of_nat s :: bytes). 0 < b \<and> b < 128"
proof -
  have "unat (of_nat x :: byte) = x" if "x \<in> set s" for x
  proof -
    from assms that have "x < 256" by auto
    then show ?thesis by (simp add: unat_of_nat)
  qed
  then show "map unat (map of_nat s :: bytes) = s" by (simp add: map_idI)
  show "\<forall>b \<in> set (map of_nat s :: bytes). 0 < b \<and> b < 128"
    using assms by (auto simp: word_less_nat_alt unat_of_nat)
qed

lemma dict_get_sort:
  assumes "distinct (map fst kvs)"
  shows "dict_get (sort_key fst kvs) k = dict_get kvs k"
proof -
  have "mset (map fst (sort_key fst kvs)) = mset (map fst kvs)" by (simp only: mset_map mset_sort)
  then have "distinct (map fst (sort_key fst kvs))" using assms mset_eq_imp_distinct_iff by blast
  then have "dict_get (sort_key fst kvs) = dict_get kvs"
    using assms by (intro map_of_inject_set [THEN iffD2]) simp_all
  then show ?thesis by simp
qed

lemma issue_verify:
  assumes enc: "encodable actor" "encodable display" "encodable kind" "encodable csrf"
    and agent: "agent \<noteq> Some []" "\<forall>u. agent = Some u \<longrightarrow> encodable u"
    and time: "0 \<le> now" "0 \<le> sg_ttl sg" "now + sg_ttl sg < 253402300800 * 1000000"
    and live: "to_seconds now' < to_seconds (now + sg_ttl sg)"
    and issued: "issue sg actor display kind agent csrf now = (token, ident)"
  shows "verify sg F token now' =
    Inr (ident\<lparr>si_expires_at := to_seconds (si_expires_at ident) * 1000000\<rparr>)"
proof -
  let ?j = "session_payload ident now"
  let ?bytes = "map of_nat (dumps True ?j) :: bytes"
  have ident: "ident = \<lparr>si_actor_id = actor, si_display_name = display, si_actor_kind = kind,
      si_agent_url = agent, si_scopes = set public_scopes, si_csrf_token = csrf,
      si_expires_at = now + sg_ttl sg\<rparr>"
    and token: "token = b64 ?bytes @ 46 # sign sg (b64 ?bytes)"
    using issued by (auto simp: issue_def Let_def)
  have dot: "46 \<notin> set (b64 ?bytes)" by (auto dest: b64_set)
  then have split: "takeWhile (\<lambda>c. c \<noteq> 46) token = b64 ?bytes"
    "tl (dropWhile (\<lambda>c. c \<noteq> 46) token) = sign sg (b64 ?bytes)"
    using token by (auto simp: takeWhile_append takeWhile_eq_all_conv dropWhile_append)
  have ascii: "is_ascii (b64 x)" for x by (auto simp: is_ascii_def dest: b64_set)
  have scopes: "\<forall>s \<in> set public_scopes. encodable s"
    by (simp add: public_scopes_def encodable_def py_simps)
  have keys: "encodable (str ''v'')" "encodable (str ''actor_id'')" "encodable (str ''display_name'')"
    "encodable (str ''actor_kind'')" "encodable (str ''agent_url'')" "encodable (str ''scopes'')"
    "encodable (str ''csrf'')" "encodable (str ''iat'')" "encodable (str ''exp'')"
    by (simp_all add: encodable_def py_simps)
  have one: "json_ok (JInt 1)" by (simp add: nat_dec.simps)
  have ok: "json_ok ?j" unfolding session_payload_def
    using enc agent scopes keys one seconds_digits [of now] seconds_digits [of "now + sg_ttl sg"] time
    by (auto simp: ident split: option.splits simp del: json_ok.simps(1))
  then have "\<forall>x \<in> set (dumps True ?j). 0 < x \<and> x < 128"
    using dumps_plain_ascii [OF json_ok_sorted [OF ok]] by (simp add: dumps_def)
  from ascii_bytes [OF this] loads_dumps [OF ok, of True]
  have loads: "loads_bytes F ?bytes = Inr (json_sorted ?j)" by (simp add: loads_bytes_def)
  define kvs where "kvs =
      [(str ''v'', JInt 1), (str ''actor_id'', JStr actor), (str ''display_name'', JStr display),
       (str ''actor_kind'', JStr kind), (str ''agent_url'', case agent of None \<Rightarrow> JNull | Some u \<Rightarrow> JStr u),
       (str ''scopes'', JList (map JStr public_scopes)), (str ''csrf'', JStr csrf),
       (str ''iat'', JInt (to_seconds now)), (str ''exp'', JInt (to_seconds (now + sg_ttl sg)))]"
  have sorted: "map (\<lambda>(k, v). (k, json_sorted v)) kvs = kvs"
    by (simp add: kvs_def comp_def split: option.splits)
  define d where "d = sort_key fst kvs"
  have "?j = JObj kvs" by (simp add: session_payload_def kvs_def ident)
  with sorted have d: "json_sorted ?j = JObj d" by (simp add: d_def)
  have "distinct (map fst kvs)" by (simp add: kvs_def)
  from dict_get_sort [OF this] have get: "dict_get d k = dict_get kvs k" for k by (simp add: d_def)
  have scope_strs: "py_str F ` JStr ` set public_scopes = set public_scopes"
    by (force simp: py_str_def)
  have got: "dict_get d (str ''v'') = Some (JInt 1)" "dict_get d (str ''actor_id'') = Some (JStr actor)"
    "dict_get d (str ''display_name'') = Some (JStr display)"
    "dict_get d (str ''actor_kind'') = Some (JStr kind)"
    "dict_get d (str ''agent_url'') = Some (case agent of None \<Rightarrow> JNull | Some u \<Rightarrow> JStr u)"
    "dict_get d (str ''scopes'') = Some (JList (map JStr public_scopes))"
    "dict_get d (str ''csrf'') = Some (JStr csrf)"
    "dict_get d (str ''exp'') = Some (JInt (to_seconds (now + sg_ttl sg)))"
    by (simp_all add: get kvs_def)
  have url: "(if py_truthy F (case agent of None \<Rightarrow> JNull | Some u \<Rightarrow> JStr u)
      then Some (py_str F (case agent of None \<Rightarrow> JNull | Some u \<Rightarrow> JStr u)) else None) = agent"
    using agent by (auto simp: py_truthy_def py_str_def split: option.splits)
  have exp: "from_timestamp (to_seconds (now + sg_ttl sg)) = Inr (to_seconds (now + sg_ttl sg) * 1000000)"
    using time by (simp add: from_timestamp_def to_seconds_def)
  have js: "py_str F (JStr x) = x" for x by (simp add: py_str_def)
  have "public_scopes \<noteq> []" by (simp add: public_scopes_def)
  then have "read_payload F now' d =
      Inr (ident\<lparr>si_expires_at := to_seconds (si_expires_at ident) * 1000000\<rparr>)"
    using live by (simp add: read_payload_def is_version_1_def item_def got get_default_def py_int_def
        py_iter_def scope_strs url exp js ident Let_def)
  then have "verify_body sg F token now' =
      Inr (ident\<lparr>si_expires_at := to_seconds (si_expires_at ident) * 1000000\<rparr>)"
    using token split ascii by (simp add: verify_body_def Let_def compare_digest_def sign_def unb64_b64 loads d)
  then show ?thesis by (simp add: verify_def)
qed

text \<open>C15: Sessions round-trip. A token the signer issues verifies, at any later time before its expiry,
  to the identity it was issued for, with the expiry cut to whole seconds.\<close>

theorem token_roundtrip:
  assumes "encodable actor" and "encodable display" and "encodable kind" and "encodable csrf"
    and "agent \<noteq> Some []" and "\<forall>u. agent = Some u \<longrightarrow> encodable u"
    and "0 \<le> now" and "0 \<le> sg_ttl sg" and "now + sg_ttl sg < 253402300800 * 1000000"
    and "to_seconds now' < to_seconds (now + sg_ttl sg)"
    and "issue sg actor display kind agent csrf now = (token, ident)"
  shows "verify sg F token now' =
    Inr (ident\<lparr>si_expires_at := to_seconds (si_expires_at ident) * 1000000\<rparr>)"
  using assms by (rule issue_verify)

definition demo_signer :: Signer where
  "demo_signer = \<lparr>sg_secret = replicate 32 7, sg_ttl = 43200 * 1000000\<rparr>"

definition demo_identity :: SessionIdentity where
  "demo_identity = \<lparr>si_actor_id = str ''anonymous:1'', si_display_name = [233, 128512],
     si_actor_kind = str ''human'', si_agent_url = None, si_scopes = set public_scopes,
     si_csrf_token = str ''csrf'', si_expires_at = 43200 * 1000000 + 5\<rparr>"

definition demo_token :: pystr where
  "demo_token = fst (issue demo_signer (str ''anonymous:1'') [233, 128512] (str ''human'') None (str ''csrf'') 5)"

lemma demo_issue: "issue demo_signer (str ''anonymous:1'') [233, 128512] (str ''human'') None (str ''csrf'') 5
    = (demo_token, demo_identity)"
  by (simp add: demo_token_def issue_def demo_identity_def demo_signer_def Let_def)

lemma demo_encodable: "encodable (str ''anonymous:1'')" "encodable [233, 128512]"
  "encodable (str ''human'')" "encodable (str ''csrf'')"
  by (simp_all add: encodable_def py_simps)

definition demo_foreign :: Foreign where
  "demo_foreign = \<lparr>fo_int = \<lambda>_. Inl (PyValueError []), fo_str = \<lambda>_. [], fo_is_one = \<lambda>_. False,
     fo_is_zero = \<lambda>_. False, fo_decode = \<lambda>_. Inl PyUnicodeDecodeError\<rparr>"

theorem token_roundtrip_witness:
  "verify demo_signer demo_foreign demo_token 7 = Inr (demo_identity\<lparr>si_expires_at := 43200 * 1000000\<rparr>)"
  using token_roundtrip [OF demo_encodable _ _ _ _ _ _ demo_issue, of 7 demo_foreign]
  by (simp add: demo_signer_def to_seconds_def demo_identity_def)

lemma case_obj_Inr:
  "(case j of JObj d \<Rightarrow> f d | _ \<Rightarrow> Inl x) = Inr y \<longleftrightarrow> (\<exists>d. j = JObj d \<and> f d = Inr y)"
  by (cases j) auto

text \<open>C14: Sessions cannot be forged or extended. Whatever token is presented, an identity comes out only
  if the part after the first dot is the HMAC of the part before it under the signer's secret,
  the expiry lies in the future, and the scopes are some of the public ones, so no session
  ever carries the moderation scope; every malformed token that is not signed is answered
  with \<open>invalid_session\<close>.\<close>

theorem session_authentic:
  "(\<forall>ident. verify sg F token now = Inr ident \<longrightarrow>
      (\<exists>encoded. token = encoded @ 46 # sign sg encoded \<and> 46 \<notin> set encoded)
    \<and> si_scopes ident \<noteq> {} \<and> si_scopes ident \<subseteq> set public_scopes
    \<and> str ''wiki:moderate'' \<notin> si_scopes ident
    \<and> (to_seconds now + 1) * 1000000 \<le> si_expires_at ident)
   \<and> ((\<nexists>encoded. token = encoded @ 46 # sign sg encoded \<and> 46 \<notin> set encoded)
      \<longrightarrow> verify sg F token now = Inl invalid_session)"
proof (intro conjI allI impI)
  let ?e = "takeWhile (\<lambda>c. c \<noteq> 46) token" and ?s = "tl (dropWhile (\<lambda>c. c \<noteq> 46) token)"
  have token: "token = ?e @ 46 # ?s \<and> 46 \<notin> set ?e" if "46 \<in> set token"
  proof -
    from that have "dropWhile (\<lambda>c. c \<noteq> 46) token \<noteq> []" by (simp add: dropWhile_eq_Nil_conv)
    then obtain c r where r: "dropWhile (\<lambda>c. c \<noteq> 46) token = c # r" by (meson neq_Nil_conv)
    then have "c = 46" using dropWhile_eq_Cons_conv [of "\<lambda>c. c \<noteq> 46" token c r] by simp
    moreover have "?e @ dropWhile (\<lambda>c. c \<noteq> 46) token = token" by (rule takeWhile_dropWhile_id)
    ultimately show ?thesis using r by (auto dest: set_takeWhileD)
  qed
  {
    fix ident assume "verify sg F token now = Inr ident"
    then have body: "verify_body sg F token now = Inr ident"
      by (auto simp: verify_def split: sum.splits if_splits)
    then obtain d where dot: "46 \<in> set token" and "?s = sign sg ?e"
      and d: "read_payload F now d = Inr ident"
      by (auto simp: verify_body_def Let_def res_simps compare_digest_def case_obj_Inr split: if_splits)
    with token show "\<exists>encoded. token = encoded @ 46 # sign sg encoded \<and> 46 \<notin> set encoded" by metis
    from d show "si_scopes ident \<noteq> {}" and sub: "si_scopes ident \<subseteq> set public_scopes"
      and "(to_seconds now + 1) * 1000000 \<le> si_expires_at ident"
      by (auto simp: read_payload_def res_simps Let_def from_timestamp_def split: if_splits)
    from sub show "str ''wiki:moderate'' \<notin> si_scopes ident" by (auto simp: public_scopes_def)
  }
  assume none: "\<nexists>encoded. token = encoded @ 46 # sign sg encoded \<and> 46 \<notin> set encoded"
  have "\<exists>x. verify_body sg F token now = Inl x \<and> session_caught x"
  proof (cases "46 \<in> set token")
    case True
    with token none have "?s \<noteq> sign sg ?e" by metis
    with True show ?thesis
      by (auto simp: verify_body_def Let_def compare_digest_def session_caught_def)
  qed (simp add: verify_body_def session_caught_def)
  then show "verify sg F token now = Inl invalid_session" by (auto simp: verify_def)
qed

theorem session_authentic_witness:
  "\<exists>encoded. demo_token = encoded @ 46 # sign demo_signer encoded \<and> 46 \<notin> set encoded"
proof -
  have "verify demo_signer demo_foreign demo_token 7 = Inr (demo_identity\<lparr>si_expires_at := 43200 * 1000000\<rparr>)"
    using issue_verify [OF demo_encodable _ _ _ _ _ _ demo_issue, of 7 demo_foreign]
    by (simp add: demo_signer_def to_seconds_def demo_identity_def)
  then show ?thesis using session_authentic [of demo_signer demo_foreign demo_token 7] by blast
qed

end
