(* ===== verification/WikiModels.thy ===== *)
theory WikiModels
  imports WikiStore WikiSecurity
begin

text \<open>
  The request and response models of \<open>src/app/routers/wiki.py\<close>: what each request body must
  look like, field by field, and what the responses are built from. A body is the parsed JSON
  object. \<open>None\<close> of a reader is a validation error (status 422). Parsing and printing of URLs
  and Markdown rendering are third-party and arguments.
\<close>

type_synonym fields = "(pystr, json) pydict"

section \<open>Reading a field\<close>

definition forbid_extra :: "pystr list \<Rightarrow> fields \<Rightarrow> bool" where
  "forbid_extra allowed d \<longleftrightarrow> set (dict_keys d) \<subseteq> set allowed"

definition check_str :: "nat \<Rightarrow> nat \<Rightarrow> json \<Rightarrow> pystr option" where
  "check_str lo hi j = (case j of
     JStr s \<Rightarrow> if lo \<le> length s \<and> length s \<le> hi then Some s else None
   | _ \<Rightarrow> None)"

definition req_str :: "nat \<Rightarrow> nat \<Rightarrow> fields \<Rightarrow> pystr \<Rightarrow> pystr option" where
  "req_str lo hi d k = Option.bind (dict_get d k) (check_str lo hi)"

definition dflt_str :: "pystr \<Rightarrow> nat \<Rightarrow> nat \<Rightarrow> fields \<Rightarrow> pystr \<Rightarrow> pystr option" where
  "dflt_str v lo hi d k = (case dict_get d k of None \<Rightarrow> Some v | Some j \<Rightarrow> check_str lo hi j)"

definition opt_field :: "(json \<Rightarrow> 'a option) \<Rightarrow> fields \<Rightarrow> pystr \<Rightarrow> 'a option option" where
  "opt_field read d k = (case dict_get d k of
     None \<Rightarrow> Some None
   | Some j \<Rightarrow> if j = JNull then Some None else map_option Some (read j))"

text \<open>The shared validators: a stripped text that is not blank, a bounded UTF-8 size, a digest.\<close>

definition non_blank :: "pystr \<Rightarrow> pystr option" where
  "non_blank value = (if strip value = [] then None else Some (strip value))"

definition bounded_content :: "pystr \<Rightarrow> pystr option" where
  "bounded_content value = (case utf8_encode value of
     None \<Rightarrow> None
   | Some bs \<Rightarrow> if 400000 < length bs then None else Some value)"

definition hex_digest64 :: "json \<Rightarrow> pystr option" where
  "hex_digest64 j = (case j of
     JStr s \<Rightarrow> if length s = 64 \<and> list_all is_hex_char s then Some s else None
   | _ \<Rightarrow> None)"

section \<open>Requests\<close>

record SessionRequest =
  sq_display_name :: pystr
  sq_actor_kind :: pystr
  sq_agent_url :: "pystr option"

definition default_session_request :: SessionRequest where
  "default_session_request =
     \<lparr>sq_display_name = str ''Anonymous'', sq_actor_kind = str ''human'', sq_agent_url = None\<rparr>"

definition actor_kind :: "json \<Rightarrow> pystr option" where
  "actor_kind j = (case j of
     JStr s \<Rightarrow> if s \<in> {str ''human'', str ''agent''} then Some s else None
   | _ \<Rightarrow> None)"

definition session_request :: "(pystr \<Rightarrow> pystr option) \<Rightarrow> fields \<Rightarrow> SessionRequest option" where
  "session_request http_url d =
     (if \<not> forbid_extra [str ''display_name'', str ''actor_kind'', str ''agent_url''] d then None
      else
      Option.bind (case dict_get d (str ''display_name'') of
          None \<Rightarrow> Some (str ''Anonymous'')
        | Some j \<Rightarrow> Option.bind (check_str 1 80 j) non_blank) (\<lambda>name.
      Option.bind (case dict_get d (str ''actor_kind'') of
          None \<Rightarrow> Some (str ''human'')
        | Some j \<Rightarrow> actor_kind j) (\<lambda>kind.
      Option.bind (opt_field (\<lambda>j. case j of JStr s \<Rightarrow> http_url s | _ \<Rightarrow> None) d (str ''agent_url'')) (\<lambda>url.
      Some \<lparr>sq_display_name = name, sq_actor_kind = kind, sq_agent_url = url\<rparr>))))"

record CreatePageRequest =
  cr_slug :: pystr
  cr_title :: pystr
  cr_content :: pystr
  cr_edit_summary :: pystr

definition create_page_request :: "fields \<Rightarrow> CreatePageRequest option" where
  "create_page_request d =
     (if \<not> forbid_extra [str ''slug'', str ''title'', str ''content'', str ''edit_summary''] d then None
      else
      Option.bind (req_str 1 (80 * 3) d (str ''slug'')) (\<lambda>sl.
      Option.bind (Option.bind (req_str 1 200 d (str ''title'')) non_blank) (\<lambda>ti.
      Option.bind (Option.bind (req_str 1 100000 d (str ''content'')) bounded_content) (\<lambda>co.
      Option.bind (dflt_str [] 0 500 d (str ''edit_summary'')) (\<lambda>su.
      Some \<lparr>cr_slug = sl, cr_title = ti, cr_content = co, cr_edit_summary = su\<rparr>)))))"

record EditPageRequest =
  eq_expected_head :: pystr
  eq_title :: "pystr option"
  eq_content :: pystr
  eq_edit_summary :: pystr

definition edit_page_request :: "fields \<Rightarrow> EditPageRequest option" where
  "edit_page_request d =
     (if \<not> forbid_extra [str ''expected_head_revision_id'', str ''title'', str ''content'',
            str ''edit_summary''] d then None
      else
      Option.bind (req_str 1 128 d (str ''expected_head_revision_id'')) (\<lambda>hd.
      Option.bind (opt_field (\<lambda>j. Option.bind (check_str 1 200 j) non_blank) d (str ''title'')) (\<lambda>ti.
      Option.bind (Option.bind (req_str 1 100000 d (str ''content'')) bounded_content) (\<lambda>co.
      Option.bind (dflt_str [] 0 500 d (str ''edit_summary'')) (\<lambda>su.
      Some \<lparr>eq_expected_head = hd, eq_title = ti, eq_content = co, eq_edit_summary = su\<rparr>)))))"

record SubmitReviewRequest =
  sb_revision_id :: "pystr option"
  sb_content_hash :: "pystr option"
  sb_note :: pystr

definition submit_review_request :: "fields \<Rightarrow> SubmitReviewRequest option" where
  "submit_review_request d =
     (if \<not> forbid_extra [str ''revision_id'', str ''content_hash'', str ''note''] d then None
      else
      Option.bind (opt_field (check_str 1 128) d (str ''revision_id'')) (\<lambda>rid.
      Option.bind (opt_field hex_digest64 d (str ''content_hash'')) (\<lambda>ha.
      Option.bind (dflt_str [] 0 2000 d (str ''note'')) (\<lambda>nt.
      Some \<lparr>sb_revision_id = rid, sb_content_hash = ha, sb_note = nt\<rparr>))))"

definition report_request :: "fields \<Rightarrow> pystr option" where
  "report_request d =
     (if \<not> forbid_extra [str ''reason''] d then None
      else Option.bind (req_str 1 2000 d (str ''reason'')) non_blank)"

record ModerationRequest =
  mq_expected_head :: pystr
  mq_content_hash :: pystr
  mq_text :: pystr

definition quarantine_request :: "fields \<Rightarrow> ModerationRequest option" where
  "quarantine_request d =
     (if \<not> forbid_extra [str ''expected_head_revision_id'', str ''content_hash'', str ''reason''] d
      then None else
      Option.bind (req_str 1 128 d (str ''expected_head_revision_id'')) (\<lambda>hd.
      Option.bind (Option.bind (dict_get d (str ''content_hash'')) hex_digest64) (\<lambda>ha.
      Option.bind (Option.bind (req_str 1 2000 d (str ''reason'')) non_blank) (\<lambda>re.
      Some \<lparr>mq_expected_head = hd, mq_content_hash = ha, mq_text = re\<rparr>))))"

definition release_request :: "fields \<Rightarrow> ModerationRequest option" where
  "release_request d =
     (if \<not> forbid_extra [str ''expected_head_revision_id'', str ''content_hash'', str ''note''] d
      then None else
      Option.bind (req_str 1 128 d (str ''expected_head_revision_id'')) (\<lambda>hd.
      Option.bind (Option.bind (dict_get d (str ''content_hash'')) hex_digest64) (\<lambda>ha.
      Option.bind (dflt_str [] 0 2000 d (str ''note'')) (\<lambda>nt.
      Some \<lparr>mq_expected_head = hd, mq_content_hash = ha, mq_text = nt\<rparr>))))"

section \<open>Responses\<close>

text \<open>A value outside the \<open>Literal\<close> of its field raises \<open>ValidationError\<close>, a \<open>ValueError\<close>.\<close>

definition one_of :: "pystr list \<Rightarrow> pystr \<Rightarrow> wiki_exn + pystr" where
  "one_of allowed value =
     (if value \<in> set allowed then Inr value else Inl (PyValueError (str ''literal_error'')))"

record SessionResponse =
  sr_actor_id :: pystr
  sr_display_name :: pystr
  sr_actor_kind :: pystr
  sr_agent_url :: "pystr option"
  sr_access_token :: "pystr option"
  sr_bearer_token :: "pystr option"
  sr_csrf_token :: pystr
  sr_scopes :: "pystr list"
  sr_expires_at :: datetime

record PageResponse =
  pp_page_id :: pystr
  pp_slug :: pystr
  pp_title :: pystr
  pp_content :: pystr
  pp_sanitized_html :: pystr
  pp_head_revision_id :: pystr
  pp_content_hash :: pystr
  pp_stream_version :: int
  pp_authority :: pystr
  pp_review_status :: pystr
  pp_canonical :: bool
  pp_created_at :: datetime
  pp_updated_at :: datetime

definition page_response :: "(pystr \<Rightarrow> pystr) \<Rightarrow> PageState \<Rightarrow> wiki_exn + PageResponse" where
  "page_response render page =
     bind_res (one_of [str ''unreviewed'', str ''submitted''] (ps_review_status page)) (\<lambda>rs.
     Inr \<lparr>pp_page_id = ps_page_id page, pp_slug = ps_slug page, pp_title = ps_title page,
          pp_content = ps_content page, pp_sanitized_html = render (ps_content page),
          pp_head_revision_id = ps_head_revision_id page, pp_content_hash = ps_content_hash page,
          pp_stream_version = ps_stream_version page, pp_authority = str ''community'',
          pp_review_status = rs, pp_canonical = False, pp_created_at = ps_created_at page,
          pp_updated_at = ps_updated_at page\<rparr>)"

record PageSummaryResponse =
  sm_page_id :: pystr
  sm_slug :: pystr
  sm_title :: pystr
  sm_head_revision_id :: pystr
  sm_content_hash :: pystr
  sm_stream_version :: int
  sm_authority :: pystr
  sm_review_status :: pystr
  sm_canonical :: bool
  sm_created_at :: datetime
  sm_updated_at :: datetime

definition page_summary_response :: "PageState \<Rightarrow> wiki_exn + PageSummaryResponse" where
  "page_summary_response page =
     bind_res (one_of [str ''unreviewed'', str ''submitted''] (ps_review_status page)) (\<lambda>rs.
     Inr \<lparr>sm_page_id = ps_page_id page, sm_slug = ps_slug page, sm_title = ps_title page,
          sm_head_revision_id = ps_head_revision_id page, sm_content_hash = ps_content_hash page,
          sm_stream_version = ps_stream_version page, sm_authority = str ''community'',
          sm_review_status = rs, sm_canonical = False, sm_created_at = ps_created_at page,
          sm_updated_at = ps_updated_at page\<rparr>)"

record CommandResponse =
  cm_command_id :: pystr
  cm_page_id :: pystr
  cm_stream_version :: int
  cm_event_ids :: "pystr list"
  cm_replayed :: bool
  cm_authority :: pystr

definition command_response :: "CommandReceipt \<Rightarrow> CommandResponse" where
  "command_response r = \<lparr>cm_command_id = rc_command_id r, cm_page_id = rc_page_id r,
     cm_stream_version = rc_stream_version r, cm_event_ids = rc_event_ids r,
     cm_replayed = rc_replayed r, cm_authority = str ''community''\<rparr>"

record EventResponse =
  er_event_index :: int
  er_event_id :: pystr
  er_event_type :: pystr
  er_actor_id :: pystr
  er_occurred_at :: datetime
  er_schema_version :: int
  er_data :: event_data
  er_slug :: "pystr option"
  er_title :: "pystr option"
  er_revision_id :: "pystr option"
  er_parent_revision_id :: "pystr option"
  er_content_hash :: "pystr option"
  er_edit_summary :: "pystr option"
  er_committed_at :: "datetime option"

definition public_keys :: "pystr list" where
  "public_keys = [str ''slug'', str ''title'', str ''revision_id'', str ''parent_revision_id'',
     str ''content_hash'', str ''edit_summary'', str ''summary'', str ''authority'',
     str ''review_status'']"

definition public_data :: "event_data \<Rightarrow> event_data" where
  "public_data d = concat (map (\<lambda>k. case dict_get d k of None \<Rightarrow> [] | Some v \<Rightarrow> [(k, v)]) public_keys)"

definition event_response :: "StoredEvent \<Rightarrow> EventResponse" where
  "event_response se =
     (let event = se_event se; d = ev_data event in
      \<lparr>er_event_index = se_index se, er_event_id = ev_event_id event,
       er_event_type = ev_event_type event, er_actor_id = ev_actor_id event,
       er_occurred_at = ev_occurred_at event, er_schema_version = ev_schema_version event,
       er_data = public_data d, er_slug = dict_get d (str ''slug''),
       er_title = dict_get d (str ''title''), er_revision_id = dict_get d (str ''revision_id''),
       er_parent_revision_id = dict_get d (str ''parent_revision_id''),
       er_content_hash = dict_get d (str ''content_hash''),
       er_edit_summary = (case dict_get d (str ''edit_summary'') of
                            Some v \<Rightarrow> Some v
                          | None \<Rightarrow> dict_get d (str ''summary'')),
       er_committed_at = (if ev_event_type event \<in> {str ''page_created'', str ''revision_committed''}
                          then Some (ev_occurred_at event) else None)\<rparr>)"

record DiffResponse =
  df_page_id :: pystr
  df_slug :: pystr
  df_from_revision_id :: pystr
  df_to_revision_id :: pystr
  df_unified_diff :: pystr

record ModerationPageResponse =
  mp_page_id :: pystr
  mp_slug :: pystr
  mp_title :: pystr
  mp_content :: pystr
  mp_head_revision_id :: pystr
  mp_content_hash :: pystr
  mp_head_actor_id :: pystr
  mp_stream_version :: int
  mp_moderation_status :: pystr
  mp_updated_at :: datetime

definition moderation_page_response :: "PageState \<Rightarrow> wiki_exn + ModerationPageResponse" where
  "moderation_page_response page =
     bind_res (one_of [str ''visible'', str ''quarantined''] (ps_moderation_status page)) (\<lambda>ms.
     Inr \<lparr>mp_page_id = ps_page_id page, mp_slug = ps_slug page, mp_title = ps_title page,
          mp_content = ps_content page, mp_head_revision_id = ps_head_revision_id page,
          mp_content_hash = ps_content_hash page, mp_head_actor_id = ps_head_actor_id page,
          mp_stream_version = ps_stream_version page, mp_moderation_status = ms,
          mp_updated_at = ps_updated_at page\<rparr>)"

record ModerationReportResponse =
  mr_effect_id :: pystr
  mr_event_id :: pystr
  mr_status :: pystr
  mr_attempts :: int
  mr_created_at :: datetime
  mr_payload :: event_data

definition moderation_report_response :: "OutboxRecord \<Rightarrow> ModerationReportResponse" where
  "moderation_report_response r = \<lparr>mr_effect_id = ef_effect_id (ob_effect r),
     mr_event_id = ef_event_id (ob_effect r), mr_status = ob_status r, mr_attempts = ob_attempts r,
     mr_created_at = ob_created_at r, mr_payload = ef_payload (ob_effect r)\<rparr>"

end
