(* ===== verification/Handler.thy ===== *)
theory Handler
  imports WikiDomain
begin

text \<open>
  What the HTTP routers share: a handler is a function from the state of the service to a
  response or an error and the state after it, so that effects before an error are kept. The
  errors are the \<open>HTTPException\<close> with its detail, a request body or parameter that does not
  validate (422), and an exception that no handler catches (500).
\<close>

text \<open>What a handler reads of a request; header names are in lower case, as the server hands them over.\<close>

record Request =
  rq_headers :: "(pystr, pystr) pydict"
  rq_cookies :: "(pystr, pystr) pydict"
  rq_host :: "pystr option"

definition header :: "Request \<Rightarrow> string \<Rightarrow> pystr option" where
  "header rq name = dict_get (rq_headers rq) (str name)"

definition or_empty :: "pystr option \<Rightarrow> pystr" where
  "or_empty s = (case s of None \<Rightarrow> [] | Some t \<Rightarrow> t)"

datatype http_exn =
    HttpError (he_status: int) (he_code: pystr) (he_message: pystr)
  | Invalid
  | Unhandled wiki_exn

type_synonym ('s, 'a) handler = "'s \<Rightarrow> (http_exn + 'a) \<times> 's"

definition hret :: "'a \<Rightarrow> ('s, 'a) handler" where
  "hret x s = (Inr x, s)"

definition hfail :: "http_exn \<Rightarrow> ('s, 'a) handler" where
  "hfail e s = (Inl e, s)"

definition hlift :: "http_exn + 'a \<Rightarrow> ('s, 'a) handler" where
  "hlift r s = (r, s)"

definition hbind :: "('s, 'a) handler \<Rightarrow> ('a \<Rightarrow> ('s, 'b) handler) \<Rightarrow> ('s, 'b) handler" where
  "hbind m f s = (case m s of (Inl e, s') \<Rightarrow> (Inl e, s') | (Inr x, s') \<Rightarrow> f x s')"

text \<open>\<open>_http_error\<close>: a \<open>WikiError\<close> becomes the response it names, anything else stays uncaught.\<close>

definition http_error :: "wiki_exn \<Rightarrow> http_exn" where
  "http_error x = (case x of WikiError code msg status \<Rightarrow> HttpError status code msg | _ \<Rightarrow> Unhandled x)"

definition wiki_http :: "wiki_exn + 'a \<Rightarrow> http_exn + 'a" where
  "wiki_http r = (case r of Inl x \<Rightarrow> Inl (http_error x) | Inr a \<Rightarrow> Inr a)"

lemma hbind_Inr [res_simps]: "hbind m f s = (Inr y, s') \<longleftrightarrow> (\<exists>x t. m s = (Inr x, t) \<and> f x t = (Inr y, s'))"
  by (auto simp: hbind_def split: prod.splits sum.splits)

lemma hret_eq [res_simps]: "hret x s = (r, s') \<longleftrightarrow> r = Inr x \<and> s' = s"
  by (auto simp: hret_def)

lemma hfail_eq [res_simps]: "hfail e s = (r, s') \<longleftrightarrow> r = Inl e \<and> s' = s"
  by (auto simp: hfail_def)

lemma hlift_eq [res_simps]: "hlift a s = (r, s') \<longleftrightarrow> a = r \<and> s' = s"
  by (auto simp: hlift_def)

lemma wiki_http_Inr [res_simps]: "wiki_http r = Inr x \<longleftrightarrow> r = Inr x"
  by (auto simp: wiki_http_def split: sum.splits)

text \<open>
  A handler keeps a part of the state when every way through it leaves that part alone.
\<close>

definition keeps :: "('s \<Rightarrow> 'v) \<Rightarrow> ('s, 'a) handler \<Rightarrow> bool" where
  "keeps view m \<longleftrightarrow> (\<forall>s. view (snd (m s)) = view s)"

named_theorems keeps_intros

lemma keeps_ret [keeps_intros]: "keeps v (hret x)" and keeps_fail [keeps_intros]: "keeps v (hfail e)"
  and keeps_lift [keeps_intros]: "keeps v (hlift r)"
  by (simp_all add: keeps_def hret_def hfail_def hlift_def)

lemma keeps_bind [keeps_intros]: "keeps v m \<Longrightarrow> (\<And>x. keeps v (f x)) \<Longrightarrow> keeps v (hbind m f)"
  by (auto simp: keeps_def hbind_def split: prod.splits sum.splits) (metis snd_conv)+

lemma keeps_ret_state [keeps_intros]: "keeps v (\<lambda>s. hret (g s) s)"
  and keeps_lift_state [keeps_intros]: "keeps v (\<lambda>s. hlift (g' s) s)"
  and keeps_if [keeps_intros]: "keeps v m \<Longrightarrow> keeps v n \<Longrightarrow> keeps v (if b then m else n)"
  and keeps_option [keeps_intros]: "keeps v m \<Longrightarrow> (\<And>x. keeps v (f x)) \<Longrightarrow>
    keeps v (case y of None \<Rightarrow> m | Some x \<Rightarrow> f x)"
  and keeps_prod [keeps_intros]: "(\<And>a b. keeps v (h a b)) \<Longrightarrow> keeps v (case q of (a, b) \<Rightarrow> h a b)"
  by (auto simp: keeps_def hret_def hlift_def split: option.split prod.split)

lemma keepsD: "keeps v m \<Longrightarrow> m s = (r, s') \<Longrightarrow> v s' = v s"
  by (metis keeps_def snd_conv)

end
