(* ===== verification/TtlCache.thy ===== *)
theory TtlCache
  imports Prelude
begin

text \<open>
  The bounded TTL cache (\<open>src/app/cache.py\<close>) and the circuit breaker (\<open>src/app/breaker.py\<close>).
  Times are readings of the monotonic clock as integers. The cache's methods are functions on
  its two ordered dictionaries, front first; \<open>get_or_set\<close> awaits twice (for the key's lock and
  for the producer), so its callers are tasks of a step relation that interleaves them there.
\<close>

section \<open>The circuit breaker\<close>

record Breaker =
  br_cooldown :: int
  br_retry_after :: int

definition new_breaker :: "int \<Rightarrow> Breaker" where
  "new_breaker cooldown = \<lparr>br_cooldown = cooldown, br_retry_after = 0\<rparr>"

definition is_open :: "int \<Rightarrow> Breaker \<Rightarrow> bool" where
  "is_open now b \<longleftrightarrow> now < br_retry_after b"

definition trip :: "int \<Rightarrow> Breaker \<Rightarrow> Breaker" where
  "trip now b = b\<lparr>br_retry_after := now + br_cooldown b\<rparr>"

definition reset_breaker :: "Breaker \<Rightarrow> Breaker" where
  "reset_breaker b = b\<lparr>br_retry_after := 0\<rparr>"

text \<open>What a dependency does to its breaker over time.\<close>

datatype BreakerEvent = Failed int | Succeeded int

fun breaker_run :: "BreakerEvent list \<Rightarrow> Breaker \<Rightarrow> Breaker" where
  "breaker_run [] b = b"
| "breaker_run (Failed t # es) b = breaker_run es (trip t b)"
| "breaker_run (Succeeded t # es) b = breaker_run es (reset_breaker b)"

lemma breaker_run_append: "breaker_run (xs @ ys) b = breaker_run ys (breaker_run xs b)"
  by (induction xs b rule: breaker_run.induct) auto

lemma breaker_run_cooldown [simp]: "br_cooldown (breaker_run es b) = br_cooldown b"
  by (induction es b rule: breaker_run.induct) (auto simp: trip_def reset_breaker_def)

section \<open>The cache\<close>

record 'v Cache =
  ca_ttl :: int
  ca_max :: nat
  ca_store :: "(pystr, int \<times> 'v) pydict"
  ca_locks :: "(pystr, nat) pydict"
  ca_next_lock :: nat

definition new_cache :: "int \<Rightarrow> int \<Rightarrow> 'v Cache" where
  "new_cache ttl max_entries =
     \<lparr>ca_ttl = ttl, ca_max = nat (max 1 max_entries), ca_store = [], ca_locks = [], ca_next_lock = 0\<rparr>"

definition dict_pop :: "'k \<Rightarrow> ('k, 'v) pydict \<Rightarrow> ('k, 'v) pydict" where
  "dict_pop k d = filter (\<lambda>p. fst p \<noteq> k) d"

text \<open>\<open>OrderedDict.move_to_end\<close>\<close>

definition move_to_end :: "'k \<Rightarrow> ('k, 'v) pydict \<Rightarrow> ('k, 'v) pydict" where
  "move_to_end k d = (case dict_get d k of None \<Rightarrow> d | Some v \<Rightarrow> dict_pop k d @ [(k, v)])"

definition cache_fresh :: "int \<Rightarrow> pystr \<Rightarrow> 'v Cache \<Rightarrow> 'v option \<times> 'v Cache" where
  "cache_fresh now key c =
     (case dict_get (ca_store c) key of
        None \<Rightarrow> (None, c)
      | Some (ts, v) \<Rightarrow>
          (if now - ts < ca_ttl c then (Some v, c\<lparr>ca_store := move_to_end key (ca_store c)\<rparr>)
           else (None, c\<lparr>ca_store := dict_pop key (ca_store c)\<rparr>)))"

text \<open>\<open>popitem(last=False)\<close> until at most \<open>m\<close> are left: the most recent ones stay.\<close>

definition keep_last :: "nat \<Rightarrow> 'a list \<Rightarrow> 'a list" where
  "keep_last m xs = drop (length xs - m) xs"

definition lock_for :: "pystr \<Rightarrow> 'v Cache \<Rightarrow> nat \<times> 'v Cache" where
  "lock_for key c =
     (case dict_get (ca_locks c) key of
        Some l \<Rightarrow> (l, c\<lparr>ca_locks := keep_last (ca_max c) (move_to_end key (ca_locks c))\<rparr>)
      | None \<Rightarrow> (ca_next_lock c,
          c\<lparr>ca_locks := keep_last (ca_max c)
                (move_to_end key (dict_set key (ca_next_lock c) (ca_locks c))),
            ca_next_lock := ca_next_lock c + 1\<rparr>))"

fun evict_loop ::
  "nat \<Rightarrow> (pystr, int \<times> 'v) pydict \<Rightarrow> (pystr, nat) pydict
   \<Rightarrow> (pystr, int \<times> 'v) pydict \<times> (pystr, nat) pydict" where
  "evict_loop m [] locks = ([], locks)"
| "evict_loop m ((k, e) # store) locks =
     (if m < length ((k, e) # store) then evict_loop m store (dict_pop k locks)
      else ((k, e) # store, locks))"

definition evict :: "'v Cache \<Rightarrow> 'v Cache" where
  "evict c = (case evict_loop (ca_max c) (ca_store c) (ca_locks c) of
     (store, locks) \<Rightarrow> c\<lparr>ca_store := store, ca_locks := locks\<rparr>)"

definition cache_put :: "int \<Rightarrow> pystr \<Rightarrow> 'v \<Rightarrow> 'v Cache \<Rightarrow> 'v Cache" where
  "cache_put now key v c = evict (c\<lparr>ca_store := move_to_end key (dict_set key (now, v) (ca_store c))\<rparr>)"

definition cache_clear :: "'v Cache \<Rightarrow> 'v Cache" where
  "cache_clear c = c\<lparr>ca_store := [], ca_locks := []\<rparr>"

section \<open>\<open>get_or_set\<close> of one caller\<close>

text \<open>
  \<open>get_or_set\<close> when no other caller is at work, on a state \<open>'s\<close> of the client: a hit, or the producer under the lock of the key;
  a producer that raises stores nothing. \<open>start\<close> and \<open>stop\<close> are the clock before and after the producer.
\<close>

definition get_or_set ::
  "int \<Rightarrow> int \<Rightarrow> pystr \<Rightarrow> ('s \<Rightarrow> ('e + 'v) \<times> 's) \<Rightarrow> 'v Cache \<Rightarrow> 's \<Rightarrow> ('e + 'v) \<times> 'v Cache \<times> 's" where
  "get_or_set start stop key producer ca c =
     (if ca_ttl ca \<le> 0 then (case producer c of (r, c') \<Rightarrow> (r, ca, c'))
      else case cache_fresh start key ca of
        (Some v, ca') \<Rightarrow> (Inr v, ca', c)
      | (None, ca') \<Rightarrow>
          (let ca'' = snd (lock_for key ca') in
           case producer c of
             (Inr v, c') \<Rightarrow> (Inr v, cache_put stop key v ca'', c')
           | (Inl x, c') \<Rightarrow> (Inl x, ca'', c')))"

section \<open>\<open>get_or_set\<close> as interleaved tasks\<close>

text \<open>
  A caller is bypassing the cache (\<open>ttl <= 0\<close>), waiting for a lock, awaiting its producer
  while holding the lock, or done. A raising producer releases the lock and stores nothing.
\<close>

datatype 'v Task =
    Bypass pystr
  | Waiting pystr nat
  | Producing pystr nat
  | Returned pystr 'v
  | Raised pystr

record 'v System =
  sy_cache :: "'v Cache"
  sy_tasks :: "(nat, 'v Task) pydict"

definition call :: "nat \<Rightarrow> int \<Rightarrow> pystr \<Rightarrow> 'v System \<Rightarrow> 'v System" where
  "call t now key s =
     (if ca_ttl (sy_cache s) \<le> 0 then s\<lparr>sy_tasks := dict_set t (Bypass key) (sy_tasks s)\<rparr>
      else case cache_fresh now key (sy_cache s) of
        (Some v, c) \<Rightarrow> s\<lparr>sy_cache := c, sy_tasks := dict_set t (Returned key v) (sy_tasks s)\<rparr>
      | (None, c) \<Rightarrow>
          (case lock_for key c of
             (l, c') \<Rightarrow> s\<lparr>sy_cache := c', sy_tasks := dict_set t (Waiting key l) (sy_tasks s)\<rparr>))"

definition lock_free :: "nat \<Rightarrow> 'v System \<Rightarrow> bool" where
  "lock_free l s \<longleftrightarrow> (\<forall>(t, k) \<in> set (sy_tasks s). case k of Producing key l' \<Rightarrow> l' \<noteq> l | _ \<Rightarrow> True)"

definition acquire :: "nat \<Rightarrow> int \<Rightarrow> 'v System \<Rightarrow> 'v System" where
  "acquire t now s =
     (case dict_get (sy_tasks s) t of
        Some (Waiting key l) \<Rightarrow>
          (if lock_free l s
           then (case cache_fresh now key (sy_cache s) of
                   (Some v, c) \<Rightarrow> s\<lparr>sy_cache := c, sy_tasks := dict_set t (Returned key v) (sy_tasks s)\<rparr>
                 | (None, c) \<Rightarrow> s\<lparr>sy_cache := c, sy_tasks := dict_set t (Producing key l) (sy_tasks s)\<rparr>)
           else s)
      | _ \<Rightarrow> s)"

definition produced :: "nat \<Rightarrow> int \<Rightarrow> 'v option \<Rightarrow> 'v System \<Rightarrow> 'v System" where
  "produced t now result s =
     (case (dict_get (sy_tasks s) t, result) of
        (Some (Producing key l), Some v) \<Rightarrow>
          s\<lparr>sy_cache := cache_put now key v (sy_cache s),
            sy_tasks := dict_set t (Returned key v) (sy_tasks s)\<rparr>
      | (Some (Producing key l), None) \<Rightarrow> s\<lparr>sy_tasks := dict_set t (Raised key) (sy_tasks s)\<rparr>
      | (Some (Bypass key), Some v) \<Rightarrow> s\<lparr>sy_tasks := dict_set t (Returned key v) (sy_tasks s)\<rparr>
      | (Some (Bypass key), None) \<Rightarrow> s\<lparr>sy_tasks := dict_set t (Raised key) (sy_tasks s)\<rparr>
      | _ \<Rightarrow> s)"

inductive cache_reachable :: "int \<Rightarrow> int \<Rightarrow> 'v System \<Rightarrow> bool" for ttl max_entries where
  new: "cache_reachable ttl max_entries \<lparr>sy_cache = new_cache ttl max_entries, sy_tasks = []\<rparr>"
| call: "cache_reachable ttl max_entries s \<Longrightarrow> dict_get (sy_tasks s) t = None \<Longrightarrow>
    cache_reachable ttl max_entries (call t now key s)"
| acquire: "cache_reachable ttl max_entries s \<Longrightarrow> cache_reachable ttl max_entries (acquire t now s)"
| produced: "cache_reachable ttl max_entries s \<Longrightarrow>
    cache_reachable ttl max_entries (produced t now result s)"
| clear: "cache_reachable ttl max_entries s \<Longrightarrow>
    cache_reachable ttl max_entries (s\<lparr>sy_cache := cache_clear (sy_cache s)\<rparr>)"

section \<open>The ordered dictionaries stay bounded\<close>

lemma dict_pop_get: "dict_get (dict_pop k d) k' = (if k' = k then None else dict_get d k')"
  by (induction d) (auto simp: dict_pop_def)

definition keyset :: "('k, 'v) pydict \<Rightarrow> 'k set" where
  "keyset d = fst ` set d"

lemma keyset_Nil [simp]: "keyset [] = {}"
  by (simp add: keyset_def)

lemma keyset_append [simp]: "keyset (d @ e) = keyset d \<union> keyset e"
  by (auto simp: keyset_def)

lemma keyset_single [simp]: "keyset [(k, v)] = {k}"
  by (simp add: keyset_def)

lemma keyset_set [simp]: "keyset (dict_set k v d) = insert k (keyset d)"
  by (induction d) (auto simp: keyset_def)

lemma keyset_pop [simp]: "keyset (dict_pop k d) = keyset d - {k}"
  by (auto simp: dict_pop_def keyset_def)

lemma keyset_get: "k \<in> keyset d \<longleftrightarrow> dict_get d k \<noteq> None"
  by (simp add: keyset_def map_of_eq_None_iff)

lemma dict_wf_append_one: "dict_wf d \<Longrightarrow> k \<notin> keyset d \<Longrightarrow> dict_wf (d @ [(k, v)])"
  by (simp add: dict_wf_def keyset_def)

lemma dict_wf_pop [simp]: "dict_wf d \<Longrightarrow> dict_wf (dict_pop k d)"
  by (auto simp: dict_wf_def dict_pop_def distinct_map_filter)

lemma length_dict_pop: "length (dict_pop k d) \<le> length d"
  by (simp add: dict_pop_def)

lemma length_dict_pop_in: "dict_get d k = Some v \<Longrightarrow> length (dict_pop k d) < length d"
proof -
  assume "dict_get d k = Some v"
  then have "(k, v) \<in> set d" by (rule map_of_SomeD)
  then show ?thesis using length_filter_less [of "(k, v)" d "\<lambda>p. fst p \<noteq> k"] by (simp add: dict_pop_def)
qed

lemma move_to_end_get [simp]: "dict_get (move_to_end k d) k' = dict_get d k'"
  by (auto simp: move_to_end_def map_add_def dict_pop_get split: option.splits)

lemma keyset_move_to_end [simp]: "keyset (move_to_end k d) = keyset d"
  using keyset_get [of k d] by (auto simp: move_to_end_def split: option.splits)

lemma dict_wf_move_to_end [simp]: "dict_wf d \<Longrightarrow> dict_wf (move_to_end k d)"
  by (auto simp: move_to_end_def dict_wf_append_one split: option.splits)

lemma length_move_to_end: "length (move_to_end k d) \<le> length d"
  using length_dict_pop_in [of d k] by (auto simp: move_to_end_def split: option.splits)

lemma length_keep_last: "length (keep_last m xs) = min m (length xs)"
  by (simp add: keep_last_def)

lemma keep_last_same: "length xs \<le> m \<Longrightarrow> keep_last m xs = xs"
  by (simp add: keep_last_def)

lemma dict_wf_keep_last [simp]: "dict_wf d \<Longrightarrow> dict_wf (keep_last m d)"
  by (simp add: dict_wf_def keep_last_def drop_map [symmetric])

lemma keep_last_get:
  "dict_wf d \<Longrightarrow> dict_get (keep_last m d) k = Some v \<Longrightarrow> dict_get d k = Some v"
  by (auto simp: dict_wf_get_iff [of d] keep_last_def dest!: map_of_SomeD dest: in_set_dropD)

lemma keep_last_last: "m \<noteq> 0 \<Longrightarrow> dict_wf (d @ [(k, v)]) \<Longrightarrow> dict_get (keep_last m (d @ [(k, v)])) k = Some v"
proof -
  assume "m \<noteq> 0" and wf: "dict_wf (d @ [(k, v)])"
  then have "(k, v) \<in> set (keep_last m (d @ [(k, v)]))" by (simp add: keep_last_def)
  with wf show ?thesis by (simp add: dict_wf_get_iff)
qed

lemma evict_loop_eq:
  "evict_loop m store locks = (keep_last m store,
     fold dict_pop (map fst (take (length store - m) store)) locks)"
proof (induction m store locks rule: evict_loop.induct)
  case (2 m k e store locks)
  then show ?case
    by (cases "m \<le> length store") (auto simp: keep_last_def Suc_diff_le)
qed (simp add: keep_last_def)

lemma fold_dict_pop_get:
  "dict_get (fold dict_pop ks d) k = (if k \<in> set ks then None else dict_get d k)"
  by (induction ks arbitrary: d) (auto simp: dict_pop_get)

lemma fold_dict_pop_wf: "dict_wf d \<Longrightarrow> dict_wf (fold dict_pop ks d)"
  by (induction ks arbitrary: d) auto

lemma fold_dict_pop_length: "length (fold dict_pop ks d) \<le> length d"
proof (induction ks arbitrary: d)
  case (Cons k ks)
  from Cons [of "dict_pop k d"] length_dict_pop [of k d] show ?case by simp
qed simp

definition cache_ok :: "'v Cache \<Rightarrow> bool" where
  "cache_ok c \<longleftrightarrow> 1 \<le> ca_max c \<and> dict_wf (ca_store c) \<and> dict_wf (ca_locks c)
     \<and> length (ca_store c) \<le> ca_max c \<and> length (ca_locks c) \<le> ca_max c"

lemma cache_ok_new: "cache_ok (new_cache ttl n)"
  by (simp add: cache_ok_def new_cache_def)

lemma cache_fresh_ok: "cache_ok c \<Longrightarrow> cache_ok (snd (cache_fresh now key c))"
  using length_move_to_end [of key "ca_store c"] length_dict_pop [of key "ca_store c"]
  by (auto simp: cache_ok_def cache_fresh_def split: option.splits)

lemma lock_for_ok: "cache_ok c \<Longrightarrow> cache_ok (snd (lock_for key c))"
  by (auto simp: cache_ok_def lock_for_def length_keep_last split: option.splits)

lemma cache_put_fields:
  "ca_store (cache_put now key v c) = keep_last (ca_max c) (move_to_end key (dict_set key (now, v) (ca_store c)))"
  "ca_max (cache_put now key v c) = ca_max c" "ca_ttl (cache_put now key v c) = ca_ttl c"
  "ca_locks (cache_put now key v c) = fold dict_pop (map fst (take
      (length (move_to_end key (dict_set key (now, v) (ca_store c))) - ca_max c)
      (move_to_end key (dict_set key (now, v) (ca_store c))))) (ca_locks c)"
  by (simp_all add: cache_put_def evict_def evict_loop_eq)

lemma cache_put_ok: "cache_ok c \<Longrightarrow> cache_ok (cache_put now key v c)"
  using fold_dict_pop_length [of _ "ca_locks c"]
  by (auto simp: cache_ok_def cache_put_fields length_keep_last fold_dict_pop_wf
      intro: order_trans)

lemma move_to_end_last: "\<exists>d'. move_to_end key (dict_set key v d) = d' @ [(key, v)]"
  by (auto simp: move_to_end_def)

lemmas cache_oks = cache_ok_new cache_fresh_ok lock_for_ok cache_put_ok

lemma cache_ok_call:
  assumes "cache_ok (sy_cache s)"
  shows "cache_ok (sy_cache (call t now key s))"
proof -
  obtain h c where f: "cache_fresh now key (sy_cache s) = (h, c)" by force
  obtain l c' where l: "lock_for key c = (l, c')" by force
  from f l cache_fresh_ok [OF assms, of now key] lock_for_ok [of c key] assms show ?thesis
    by (auto simp: call_def split: option.splits)
qed

lemma cache_ok_acquire:
  assumes "cache_ok (sy_cache s)"
  shows "cache_ok (sy_cache (acquire t now s))"
proof -
  have "cache_ok c" if "cache_fresh now key (sy_cache s) = (h, c)" for key h c
    using cache_fresh_ok [OF assms, of now key] that by simp
  with assms show ?thesis
    by (auto simp: acquire_def split: option.splits Task.splits prod.splits)
qed

lemma cache_ok_produced: "cache_ok (sy_cache s) \<Longrightarrow> cache_ok (sy_cache (produced t now r s))"
  by (auto simp: produced_def cache_put_ok split: option.splits Task.splits)

lemma cache_reachable_ok: "cache_reachable ttl n s \<Longrightarrow> cache_ok (sy_cache s) \<and> dict_wf (sy_tasks s)"
proof (induction rule: cache_reachable.induct)
  case new
  show ?case by (simp add: cache_ok_new)
next
  case (call s t now key)
  then show ?case by (auto simp: cache_ok_call) (auto simp: call_def split: prod.splits option.splits)
next
  case (acquire s t now)
  then show ?case
    by (auto simp: cache_ok_acquire) (auto simp: acquire_def split: prod.splits option.splits Task.splits)
next
  case (produced s t now r)
  then show ?case
    by (auto simp: cache_ok_produced) (auto simp: produced_def split: option.splits Task.splits)
next
  case (clear s)
  then show ?case by (auto simp: cache_ok_def cache_clear_def)
qed

section \<open>Single flight\<close>

text \<open>
  Runs whose keys all lie in a set that fits the bound, and that clear the cache at most while no
  caller holds or awaits a lock. The service itself never calls \<open>clear\<close>.
\<close>

definition no_lock_used :: "'v System \<Rightarrow> bool" where
  "no_lock_used s \<longleftrightarrow> (\<forall>(t, k) \<in> set (sy_tasks s).
     case k of Producing key l \<Rightarrow> False | Waiting key l \<Rightarrow> False | _ \<Rightarrow> True)"

inductive sf_reachable :: "int \<Rightarrow> int \<Rightarrow> pystr set \<Rightarrow> 'v System \<Rightarrow> bool" for ttl max_entries K where
  new: "sf_reachable ttl max_entries K \<lparr>sy_cache = new_cache ttl max_entries, sy_tasks = []\<rparr>"
| call: "sf_reachable ttl max_entries K s \<Longrightarrow> dict_get (sy_tasks s) t = None \<Longrightarrow> key \<in> K \<Longrightarrow>
    sf_reachable ttl max_entries K (call t now key s)"
| acquire: "sf_reachable ttl max_entries K s \<Longrightarrow> sf_reachable ttl max_entries K (acquire t now s)"
| produced: "sf_reachable ttl max_entries K s \<Longrightarrow>
    sf_reachable ttl max_entries K (produced t now result s)"
| clear: "sf_reachable ttl max_entries K s \<Longrightarrow> no_lock_used s \<Longrightarrow>
    sf_reachable ttl max_entries K (s\<lparr>sy_cache := cache_clear (sy_cache s)\<rparr>)"

text \<open>The caller awaits the producer of the key, whether or not it holds a lock.\<close>

definition awaits_producer :: "'v System \<Rightarrow> nat \<Rightarrow> pystr \<Rightarrow> bool" where
  "awaits_producer s t key \<longleftrightarrow> (case dict_get (sy_tasks s) t of
     Some (Producing k l) \<Rightarrow> k = key | Some (Bypass k) \<Rightarrow> k = key | _ \<Rightarrow> False)"

definition producing :: "'v System \<Rightarrow> nat \<Rightarrow> pystr \<Rightarrow> nat \<Rightarrow> bool" where
  "producing s t key l \<longleftrightarrow> dict_get (sy_tasks s) t = Some (Producing key l)"

definition uses_lock :: "'v System \<Rightarrow> nat \<Rightarrow> pystr \<Rightarrow> nat \<Rightarrow> bool" where
  "uses_lock s t key l \<longleftrightarrow> dict_get (sy_tasks s) t \<in> {Some (Waiting key l), Some (Producing key l)}"

definition sf_inv :: "pystr set \<Rightarrow> 'v System \<Rightarrow> bool" where
  "sf_inv K s \<longleftrightarrow> cache_ok (sy_cache s) \<and> dict_wf (sy_tasks s) \<and> card K \<le> ca_max (sy_cache s)
     \<and> keyset (ca_locks (sy_cache s)) \<subseteq> K \<and> keyset (ca_store (sy_cache s)) \<subseteq> K
     \<and> (\<forall>t key l. uses_lock s t key l \<longrightarrow> key \<in> K \<and> dict_get (ca_locks (sy_cache s)) key = Some l)
     \<and> (\<forall>t t' key key' l. producing s t key l \<longrightarrow> producing s t' key' l \<longrightarrow> t = t')"

lemma length_wf_keys: "dict_wf d \<Longrightarrow> finite K \<Longrightarrow> keyset d \<subseteq> K \<Longrightarrow> length d \<le> card K"
  using distinct_card [of "map fst d"] card_mono [of K "keyset d"] by (simp add: dict_wf_def keyset_def)

lemma lock_free_iff:
  "dict_wf (sy_tasks s) \<Longrightarrow> lock_free l s \<longleftrightarrow> (\<forall>t key. \<not> producing s t key l)"
  by (fastforce simp: lock_free_def producing_def dict_wf_get_iff split: Task.splits)

lemma cache_fresh_keys:
  "cache_fresh now key c = (h, c') \<Longrightarrow> ca_locks c' = ca_locks c \<and> ca_max c' = ca_max c
    \<and> keyset (ca_store c') \<subseteq> keyset (ca_store c)"
  by (auto simp: cache_fresh_def split: option.splits if_splits)

text \<open>While all keys fit, a lock once handed out for a key stays the key's lock.\<close>

lemma lock_for_fits:
  assumes ok: "cache_ok c" and K: "finite K" "card K \<le> ca_max c" "key \<in> K"
    and keys: "keyset (ca_locks c) \<subseteq> K" and l: "lock_for key c = (l, c')"
  shows "ca_store c' = ca_store c \<and> ca_max c' = ca_max c \<and> keyset (ca_locks c') \<subseteq> K
    \<and> dict_get (ca_locks c') k = (if k = key then Some l else dict_get (ca_locks c) k)
    \<and> (\<forall>l'. dict_get (ca_locks c) key = Some l' \<longrightarrow> l' = l)"
proof (cases "dict_get (ca_locks c) key")
  case (Some l')
  let ?d = "move_to_end key (ca_locks c)"
  have "dict_wf ?d" "keyset ?d \<subseteq> K" using ok keys by (auto simp: cache_ok_def)
  with K have "length ?d \<le> ca_max c" using length_wf_keys [of ?d K] by simp
  with Some l keys show ?thesis by (auto simp: lock_for_def keep_last_same)
next
  case None
  let ?d = "move_to_end key (dict_set key (ca_next_lock c) (ca_locks c))"
  have "dict_wf ?d" "keyset ?d \<subseteq> K"
    using ok keys K(3) by (auto simp: cache_ok_def)
  with K have "length ?d \<le> ca_max c" using length_wf_keys [of ?d K] by simp
  with None l keys K(3) show ?thesis
    by (auto simp: lock_for_def keep_last_same)
qed

lemma cache_put_fits:
  assumes ok: "cache_ok c" and K: "finite K" "card K \<le> ca_max c" "key \<in> K"
    and keys: "keyset (ca_store c) \<subseteq> K"
  shows "ca_locks (cache_put now key v c) = ca_locks c
    \<and> keyset (ca_store (cache_put now key v c)) \<subseteq> K"
proof -
  let ?d = "move_to_end key (dict_set key (now, v) (ca_store c))"
  have "dict_wf ?d" "keyset ?d \<subseteq> K"
    using ok keys K(3) by (auto simp: cache_ok_def)
  moreover with K have "length ?d \<le> ca_max c" using length_wf_keys [of ?d K] by simp
  ultimately show ?thesis by (simp add: cache_put_fields keep_last_same)
qed

lemma sf_inv_call:
  assumes inv: "sf_inv K s" and K: "finite K" "key \<in> K" and new: "dict_get (sy_tasks s) t = None"
  shows "sf_inv K (call t now key s)"
proof -
  let ?c = "sy_cache s"
  obtain h c1 where f: "cache_fresh now key ?c = (h, c1)" by force
  obtain l c2 where l: "lock_for key c1 = (l, c2)" by force
  note ok = inv [unfolded sf_inv_def]
  have c1: "cache_ok c1" using cache_fresh_ok [of ?c now key] ok f by simp
  have c2: "cache_ok c2" using lock_for_ok [OF c1, of key] l by simp
  note k1 = cache_fresh_keys [OF f]
  have k2: "ca_store c2 = ca_store c1 \<and> ca_max c2 = ca_max c1 \<and> keyset (ca_locks c2) \<subseteq> K
    \<and> (\<forall>k. dict_get (ca_locks c2) k = (if k = key then Some l else dict_get (ca_locks c1) k))
    \<and> (\<forall>l'. dict_get (ca_locks c1) key = Some l' \<longrightarrow> l' = l)"
    using lock_for_fits [OF c1 K(1) _ K(2) _ l] k1 ok by simp
  show ?thesis
    using ok new f l c1 c2 k1 k2 K
    by (auto simp: call_def sf_inv_def uses_lock_def producing_def split: option.splits)
qed

lemma sf_inv_acquire:
  assumes inv: "sf_inv K s"
  shows "sf_inv K (acquire t now s)"
proof (cases "dict_get (sy_tasks s) t")
  case (Some task)
  note ok = inv [unfolded sf_inv_def]
  show ?thesis
  proof (cases task)
    case (Waiting key l)
    obtain h c1 where f: "cache_fresh now key (sy_cache s) = (h, c1)" by force
    note k1 = cache_fresh_keys [OF f]
    have c1: "cache_ok c1" using cache_fresh_ok [of "sy_cache s" now key] ok f by simp
    have free: "lock_free l s \<longleftrightarrow> (\<forall>t key. \<not> producing s t key l)" using lock_free_iff ok by blast
    show ?thesis
      using ok Some Waiting f k1 c1 free
      by (auto simp: acquire_def sf_inv_def uses_lock_def producing_def split: option.splits)
  qed (use inv Some in \<open>auto simp: acquire_def\<close>)
qed (use inv in \<open>simp add: acquire_def\<close>)

lemma sf_inv_produced:
  assumes inv: "sf_inv K s" and K: "finite K"
  shows "sf_inv K (produced t now r s)"
proof (cases "dict_get (sy_tasks s) t")
  case (Some task)
  note ok = inv [unfolded sf_inv_def]
  show ?thesis
  proof (cases task)
    case (Producing key l)
    with ok Some have "key \<in> K" by (auto simp: uses_lock_def)
    with cache_put_fits [of "sy_cache s" K key now] cache_put_ok [of "sy_cache s" now key] ok K Some Producing
    show ?thesis
      by (cases r) (auto simp: produced_def sf_inv_def uses_lock_def producing_def cache_put_fields(2))
  next
    case (Bypass key)
    with ok Some show ?thesis
      by (cases r) (auto simp: produced_def sf_inv_def uses_lock_def producing_def)
  qed (use inv Some in \<open>auto simp: produced_def\<close>)
qed (use inv in \<open>simp add: produced_def\<close>)

lemma no_lock_used_uses: "dict_wf (sy_tasks s) \<Longrightarrow> no_lock_used s \<Longrightarrow> \<not> uses_lock s t key l"
  by (fastforce simp: no_lock_used_def uses_lock_def dict_wf_get_iff)

lemma sf_inv_clear: "sf_inv K s \<Longrightarrow> no_lock_used s \<Longrightarrow> sf_inv K (s\<lparr>sy_cache := cache_clear (sy_cache s)\<rparr>)"
  using no_lock_used_uses [of s]
  by (auto simp: sf_inv_def cache_clear_def cache_ok_def uses_lock_def producing_def)

lemma sf_reachable_inv:
  assumes "finite K" and "card K \<le> nat (max 1 max_entries)"
  shows "sf_reachable ttl max_entries K s \<Longrightarrow> sf_inv K s"
proof (induction rule: sf_reachable.induct)
  case new
  show ?case using assms
    by (simp add: sf_inv_def cache_ok_new uses_lock_def producing_def) (simp add: new_cache_def)
qed (use assms in \<open>auto intro: sf_inv_call sf_inv_acquire sf_inv_produced sf_inv_clear\<close>)

lemma cache_fresh_ttl: "cache_fresh now key c = (h, c') \<Longrightarrow> ca_ttl c' = ca_ttl c"
  by (auto simp: cache_fresh_def split: option.splits if_splits)

lemma lock_for_ttl: "lock_for key c = (l, c') \<Longrightarrow> ca_ttl c' = ca_ttl c"
  by (auto simp: lock_for_def split: option.splits)

lemmas ttl_kept = cache_fresh_ttl lock_for_ttl cache_put_fields(3)

text \<open>With a positive \<open>ttl\<close> no caller goes past the lock.\<close>

lemma sf_no_bypass:
  assumes "0 < ttl"
  shows "sf_reachable ttl max_entries K s \<Longrightarrow>
    ca_ttl (sy_cache s) = ttl \<and> (\<forall>t key. dict_get (sy_tasks s) t \<noteq> Some (Bypass key))"
proof (induction rule: sf_reachable.induct)
  case (call s t key now)
  with assms show ?case by (auto simp: call_def ttl_kept split: prod.splits option.splits)
next
  case (acquire s t now)
  then show ?case by (auto simp: acquire_def ttl_kept split: prod.splits option.splits Task.splits)
next
  case (produced s t now r)
  then show ?case by (auto simp: produced_def ttl_kept split: option.splits Task.splits)
qed (simp_all add: new_cache_def cache_clear_def)

section \<open>Properties\<close>

text \<open>A value put into the cache is what the key reads, for exactly \<open>ttl\<close>; putting another key
  changes no other key's value but may evict it; and neither ordered dictionary ever holds
  more than \<open>max_entries\<close>.\<close>

theorem ttl_cache_lookup:
  assumes "cache_reachable ttl max_entries s"
  shows "fst (cache_fresh now' key (cache_put now key v (sy_cache s)))
      = (if now' - now < ca_ttl (sy_cache s) then Some v else None)
    \<and> (k \<noteq> key \<longrightarrow> fst (cache_fresh now' k (cache_put now key v (sy_cache s)))
        \<in> {None, fst (cache_fresh now' k (sy_cache s))})
    \<and> length (ca_store (sy_cache s)) \<le> ca_max (sy_cache s)
    \<and> length (ca_locks (sy_cache s)) \<le> ca_max (sy_cache s)"
proof -
  let ?c = "sy_cache s"
  let ?d = "move_to_end key (dict_set key (now, v) (ca_store ?c))"
  from cache_reachable_ok [OF assms] have ok: "cache_ok ?c" by simp
  then have wf: "dict_wf ?d" by (simp add: cache_ok_def)
  obtain d' where d: "?d = d' @ [(key, now, v)]" using move_to_end_last by metis
  with wf ok keep_last_last [of "ca_max ?c" d' key "(now, v)"]
  have own: "dict_get (ca_store (cache_put now key v ?c)) key = Some (now, v)"
    by (simp add: cache_put_fields cache_ok_def)
  have other: "dict_get (ca_store (cache_put now key v ?c)) k \<in> {None, dict_get (ca_store ?c) k}" if "k \<noteq> key"
  proof (cases "dict_get (ca_store (cache_put now key v ?c)) k")
    case (Some e)
    with keep_last_get [OF wf] that show ?thesis by (fastforce simp: cache_put_fields)
  qed simp
  have "fst (cache_fresh now' k (cache_put now key v ?c)) \<in> {None, fst (cache_fresh now' k ?c)}"
    if "k \<noteq> key"
  proof (cases "dict_get (ca_store (cache_put now key v ?c)) k")
    case (Some e)
    with other [OF that] have "dict_get (ca_store ?c) k = Some e" by auto
    with Some show ?thesis by (cases e) (simp add: cache_fresh_def cache_put_fields(3))
  qed (simp add: cache_fresh_def)
  with own ok show ?thesis
    by (auto simp: cache_fresh_def [of now' key] cache_put_fields(3) cache_ok_def)
qed

theorem ttl_cache_lookup_witness:
  "fst (cache_fresh 12 (str ''k'') (cache_put 10 (str ''k'') (7 :: nat) (new_cache 5 2))) = Some 7
    \<and> fst (cache_fresh 15 (str ''k'') (cache_put 10 (str ''k'') (7 :: nat) (new_cache 5 2))) = None"
  using ttl_cache_lookup [OF cache_reachable.new [of 5 2], where now' = 12 and key = "str ''k''" and now = 10 and v = "7 :: nat"]
    ttl_cache_lookup [OF cache_reachable.new [of 5 2], where now' = 15 and key = "str ''k''" and now = 10 and v = "7 :: nat"]
  by (simp add: new_cache_def)

text \<open>C12: Single flight. With a positive \<open>ttl\<close>, while the keys in use fit into \<open>max_entries\<close> and the cache is
  cleared at most while no caller uses a lock, at most one caller at a time awaits the producer
  of a key, with a lock or without. (With \<open>ttl <= 0\<close> every caller runs the producer by itself.)\<close>

theorem cache_single_flight:
  assumes "0 < ttl" and "sf_reachable ttl max_entries K s"
    and "finite K" and "card K \<le> nat (max 1 max_entries)"
    and "awaits_producer s t key" and "awaits_producer s t' key"
  shows "t = t'"
proof -
  note inv = sf_reachable_inv [OF assms(3,4,2), unfolded sf_inv_def]
  have "\<exists>l. producing s t key l" if "awaits_producer s t key" for t
    using that sf_no_bypass [OF assms(1,2)]
    by (auto simp: awaits_producer_def producing_def split: option.splits Task.splits)
  with assms(5,6) obtain l l' where p: "producing s t key l" "producing s t' key l'" by blast
  then have "uses_lock s t key l" "uses_lock s t' key l'" by (simp_all add: uses_lock_def producing_def)
  with inv have "l = l'" by (metis option.inject)
  with inv p show ?thesis by blast
qed

text \<open>Two callers of one key, then one of a second key, in a cache for one entry.\<close>

definition flood :: "nat System" where
  "flood = acquire 3 2 (call 3 2 (str ''a'') (call 2 1 (str ''b'')
     (acquire 1 0 (call 1 0 (str ''a'') \<lparr>sy_cache = new_cache 60 1, sy_tasks = []\<rparr>))))"

lemma flood_eval:
  "dict_get (sy_tasks flood) 1 = Some (Producing (str ''a'') 0)"
  "dict_get (sy_tasks flood) 3 = Some (Producing (str ''a'') 2)"
  by (simp_all add: flood_def call_def acquire_def new_cache_def cache_fresh_def lock_for_def
      keep_last_def move_to_end_def dict_pop_def lock_free_def)

lemmas flight_eval = call_def acquire_def new_cache_def cache_fresh_def lock_for_def
    keep_last_def move_to_end_def dict_pop_def lock_free_def awaits_producer_def

theorem cache_single_flight_witness:
  "awaits_producer (acquire 2 1 (call 2 1 (str ''a'') (acquire 1 0 (call 1 0 (str ''a'')
     (\<lparr>sy_cache = new_cache 60 1, sy_tasks = []\<rparr> :: nat System))))) 1 (str ''a'')
   \<and> \<not> awaits_producer (acquire 2 1 (call 2 1 (str ''a'') (acquire 1 0 (call 1 0 (str ''a'')
     (\<lparr>sy_cache = new_cache 60 1, sy_tasks = []\<rparr> :: nat System))))) 2 (str ''a'')"
proof -
  let ?s = "acquire 2 1 (call 2 1 (str ''a'') (acquire 1 0 (call 1 0 (str ''a'')
     (\<lparr>sy_cache = new_cache 60 1, sy_tasks = []\<rparr> :: nat System))))"
  have r: "sf_reachable 60 1 {str ''a''} ?s"
    by (intro sf_reachable.intros) (simp_all add: flight_eval)
  have "awaits_producer ?s 1 (str ''a'')" by (simp add: flight_eval)
  with cache_single_flight [OF _ r _ _ this, of 2] show ?thesis by auto
qed

text \<open>With \<open>ttl = 0\<close> two callers of one key run their producers side by side.\<close>

theorem cache_bypass_doubles:
  "\<exists>s :: nat System. cache_reachable 0 1 s \<and> awaits_producer s 1 (str ''a'') \<and> awaits_producer s 2 (str ''a'')"
proof -
  let ?s = "call 2 1 (str ''a'') (call 1 0 (str ''a'') (\<lparr>sy_cache = new_cache 0 1, sy_tasks = []\<rparr> :: nat System))"
  have "cache_reachable 0 1 ?s" by (intro cache_reachable.intros) (simp_all add: flight_eval)
  moreover have "awaits_producer ?s 1 (str ''a'') \<and> awaits_producer ?s 2 (str ''a'')" by (simp add: flight_eval)
  ultimately show ?thesis by blast
qed

text \<open>Past the bound it is not: a call for one more key drops the lock of a key whose producer is
  still running, so that the next caller of that key gets a new lock and runs a second
  producer beside the first.\<close>

theorem cache_flood_doubles:
  "\<exists>s :: nat System. cache_reachable 60 1 s
    \<and> dict_get (sy_tasks s) 1 = Some (Producing (str ''a'') 0)
    \<and> dict_get (sy_tasks s) 3 = Some (Producing (str ''a'') 2)"
proof -
  have "cache_reachable 60 1 flood" unfolding flood_def
    by (intro cache_reachable.intros) (simp_all add: call_def acquire_def new_cache_def cache_fresh_def
        lock_for_def keep_last_def move_to_end_def dict_pop_def lock_free_def)
  with flood_eval show ?thesis by blast
qed

text \<open>A breaker is open exactly for \<open>cooldown\<close> after the last failure, unless a success came
  after it; once the cooldown is over every call passes, not just one, until one fails.\<close>

theorem breaker_open_iff:
  assumes "0 \<le> now"
  shows "is_open now (breaker_run es (new_breaker cooldown)) \<longleftrightarrow>
    (case rev es of Failed t # _ \<Rightarrow> now < t + cooldown | _ \<Rightarrow> False)"
proof (cases es rule: rev_cases)
  case Nil
  with assms show ?thesis by (simp add: is_open_def new_breaker_def)
next
  case (snoc es' e)
  have "br_cooldown (breaker_run es' (new_breaker cooldown)) = cooldown" by (simp add: new_breaker_def)
  with snoc assms show ?thesis
    by (cases e) (auto simp: breaker_run_append is_open_def trip_def reset_breaker_def)
qed

theorem breaker_open_iff_witness:
  "is_open 129 (breaker_run [Succeeded 50, Failed 100] (new_breaker 30))
    \<and> \<not> is_open 130 (breaker_run [Succeeded 50, Failed 100] (new_breaker 30))"
  using breaker_open_iff [of 129 "[Succeeded 50, Failed 100]" 30]
    breaker_open_iff [of 130 "[Succeeded 50, Failed 100]" 30] by simp

end
