(* ===== verification/Throttle.thy ===== *)
theory Throttle
  imports TtlCache PyText
begin

text \<open>
  Rate limiting (\<open>src/app/ratelimit.py\<close>) and the client key it counts by
  (\<open>src/app/netutil.py\<close>): the in-process sliding window, the Redis sorted-set window shared
  by several replicas, and the limiter that falls back from the second to the first, or
  refuses, behind a circuit breaker. Clock readings are integers; what the Redis server and
  the network answer is an argument.
\<close>

section \<open>The in-process window\<close>

record Window =
  sw_max_events :: int
  sw_window :: int
  sw_hits :: "(pystr, int list) pydict"

definition new_window :: "int \<Rightarrow> int \<Rightarrow> Window" where
  "new_window max_events window = \<lparr>sw_max_events = max_events, sw_window = window, sw_hits = []\<rparr>"

definition sw_queue :: "pystr \<Rightarrow> Window \<Rightarrow> int list" where
  "sw_queue key w = (case dict_get (sw_hits w) key of None \<Rightarrow> [] | Some q \<Rightarrow> q)"

definition sw_allow :: "pystr \<Rightarrow> int \<Rightarrow> Window \<Rightarrow> bool \<times> Window" where
  "sw_allow key now w =
     (let q = dropWhile (\<lambda>t. t < now - sw_window w) (sw_queue key w) in
      if sw_max_events w \<le> int (length q)
      then (False, w\<lparr>sw_hits := dict_set key q (sw_hits w)\<rparr>)
      else (True, w\<lparr>sw_hits := dict_set key (q @ [now]) (sw_hits w)\<rparr>))"

definition sw_reset :: "Window \<Rightarrow> Window" where
  "sw_reset w = w\<lparr>sw_hits := []\<rparr>"

text \<open>A sequence of requests, each a key and a time, with the times allowed per key.\<close>

fun sw_run :: "(pystr \<times> int) list \<Rightarrow> Window \<Rightarrow> Window" where
  "sw_run [] w = w"
| "sw_run ((key, now) # rs) w = sw_run rs (snd (sw_allow key now w))"

fun sw_allowed :: "pystr \<Rightarrow> (pystr \<times> int) list \<Rightarrow> Window \<Rightarrow> int list" where
  "sw_allowed k [] w = []"
| "sw_allowed k ((key, now) # rs) w =
     (if fst (sw_allow key now w) \<and> key = k then [now] else [])
       @ sw_allowed k rs (snd (sw_allow key now w))"

section \<open>The Redis window\<close>

text \<open>
  The sorted set of one key, as members with scores. \<open>redis_pipe\<close> is the \<open>MULTI\<close>/\<open>EXEC\<close>
  pipeline (one atomic step of the server) and gives the cardinality; a member over the
  limit is removed by a later command. Expiry only drops a key whose members are all older
  than the window.
\<close>

type_synonym Zset = "(pystr, int) pydict"

definition redis_pipe :: "int \<Rightarrow> pystr \<Rightarrow> int \<Rightarrow> Zset \<Rightarrow> nat \<times> Zset" where
  "redis_pipe window member now z =
     (let z' = dict_set member now (filter (\<lambda>(_, score). \<not> (0 \<le> score \<and> score \<le> now - window)) z)
      in (length z', z'))"

definition redis_zrem :: "pystr \<Rightarrow> Zset \<Rightarrow> Zset" where
  "redis_zrem member z = filter (\<lambda>p. fst p \<noteq> member) z"

text \<open>
  Replicas interleave: between a replica's pipeline and its removal of a denied member,
  others run theirs. \<open>zr_denied\<close> are the members still to be removed, \<open>zr_accepted\<close> the
  times of the accepted requests.
\<close>

record RedisRun =
  zr_set :: Zset
  zr_denied :: "pystr set"
  zr_used :: "pystr set"
  zr_accepted :: "int list"
  zr_now :: int

inductive redis_step :: "int \<Rightarrow> int \<Rightarrow> RedisRun \<Rightarrow> RedisRun \<Rightarrow> bool" for max_events window where
  accept: "redis_pipe window member now (zr_set s) = (n, z) \<Longrightarrow> zr_now s \<le> now \<Longrightarrow> 0 < now \<Longrightarrow>
    member \<notin> zr_used s \<Longrightarrow> \<not> max_events < int n \<Longrightarrow>
    redis_step max_events window s (s\<lparr>zr_set := z, zr_used := insert member (zr_used s),
      zr_accepted := zr_accepted s @ [now], zr_now := now\<rparr>)"
| deny: "redis_pipe window member now (zr_set s) = (n, z) \<Longrightarrow> zr_now s \<le> now \<Longrightarrow> 0 < now \<Longrightarrow>
    member \<notin> zr_used s \<Longrightarrow> max_events < int n \<Longrightarrow>
    redis_step max_events window s (s\<lparr>zr_set := z, zr_used := insert member (zr_used s),
      zr_denied := insert member (zr_denied s), zr_now := now\<rparr>)"
| undo: "member \<in> zr_denied s \<Longrightarrow>
    redis_step max_events window s (s\<lparr>zr_set := redis_zrem member (zr_set s),
      zr_denied := zr_denied s - {member}\<rparr>)"

inductive redis_reachable :: "int \<Rightarrow> int \<Rightarrow> RedisRun \<Rightarrow> bool" for max_events window where
  init: "redis_reachable max_events window
    \<lparr>zr_set = [], zr_denied = {}, zr_used = {}, zr_accepted = [], zr_now = 0\<rparr>"
| step: "redis_reachable max_events window s \<Longrightarrow> redis_step max_events window s s' \<Longrightarrow>
    redis_reachable max_events window s'"

section \<open>The limiter with fallback\<close>

datatype limiter_exn = RateLimitUnavailable

datatype RedisAnswer = Answer bool | RedisFailure

record Limiter =
  li_mem :: Window
  li_redis_url :: pystr
  li_fail_closed :: bool
  li_connected :: bool
  li_breaker :: Breaker

definition new_limiter :: "int \<Rightarrow> int \<Rightarrow> pystr \<Rightarrow> bool \<Rightarrow> Limiter" where
  "new_limiter max_events window redis_url fail_closed =
     \<lparr>li_mem = new_window max_events window, li_redis_url = redis_url, li_fail_closed = fail_closed,
      li_connected = False, li_breaker = new_breaker 30\<rparr>"

definition discard_redis :: "int \<Rightarrow> Limiter \<Rightarrow> Limiter" where
  "discard_redis now li = li\<lparr>li_breaker := trip now (li_breaker li), li_connected := False\<rparr>"

text \<open>\<open>_get_redis\<close>; \<open>ping\<close> is whether a new connection answered in time.\<close>

definition get_redis :: "int \<Rightarrow> bool \<Rightarrow> Limiter \<Rightarrow> bool \<times> Limiter" where
  "get_redis now ping li =
     (if li_redis_url li = [] \<or> is_open now (li_breaker li) then (False, li)
      else if li_connected li then (True, li)
      else if ping then (True, li\<lparr>li_connected := True\<rparr>)
      else (False, discard_redis now li))"

definition mem_verdict :: "pystr \<Rightarrow> int \<Rightarrow> Limiter \<Rightarrow> (limiter_exn + bool) \<times> Limiter" where
  "mem_verdict key now li =
     (if li_fail_closed li then (Inl RateLimitUnavailable, li)
      else (case sw_allow key now (li_mem li) of (ok, w) \<Rightarrow> (Inr ok, li\<lparr>li_mem := w\<rparr>)))"

definition limiter_allow ::
  "pystr \<Rightarrow> int \<Rightarrow> bool \<Rightarrow> RedisAnswer \<Rightarrow> Limiter \<Rightarrow> (limiter_exn + bool) \<times> Limiter" where
  "limiter_allow key now ping answer li =
     (case get_redis now ping li of
        (False, li1) \<Rightarrow> mem_verdict key now li1
      | (True, li1) \<Rightarrow>
          (case answer of
             Answer b \<Rightarrow> (Inr b, li1\<lparr>li_breaker := reset_breaker (li_breaker li1)\<rparr>)
           | RedisFailure \<Rightarrow> mem_verdict key now (discard_redis now li1)))"

definition limiter_ready :: "int \<Rightarrow> bool \<Rightarrow> bool \<Rightarrow> Limiter \<Rightarrow> bool \<times> Limiter" where
  "limiter_ready now ping ping_again li =
     (if li_redis_url li = [] then (\<not> li_fail_closed li, li)
      else case get_redis now ping li of
        (False, li1) \<Rightarrow> (False, li1)
      | (True, li1) \<Rightarrow>
          (if ping_again then (True, li1\<lparr>li_breaker := reset_breaker (li_breaker li1)\<rparr>)
           else (False, discard_redis now li1)))"

section \<open>The client key\<close>

text \<open>Header names are in lower case, as the server hands them over.\<close>

definition client_key :: "bool \<Rightarrow> (pystr, pystr) pydict \<Rightarrow> pystr option \<Rightarrow> pystr" where
  "client_key trust_proxy headers host =
     (let peer = (case host of None \<Rightarrow> str ''unknown'' | Some h \<Rightarrow> h) in
      if trust_proxy
      then (case dict_get headers (str ''cf-connecting-ip'') of
              Some cf \<Rightarrow> if cf \<noteq> [] then strip cf
                 else (case dict_get headers (str ''x-forwarded-for'') of
                         Some fwd \<Rightarrow> if fwd \<noteq> [] then strip (last (split_on 44 fwd)) else peer
                       | None \<Rightarrow> peer)
            | None \<Rightarrow>
                (case dict_get headers (str ''x-forwarded-for'') of
                   Some fwd \<Rightarrow> if fwd \<noteq> [] then strip (last (split_on 44 fwd)) else peer
                 | None \<Rightarrow> peer))
      else peer)"

text \<open>What a client puts in front of the proxy's own entry does not matter.\<close>

lemma client_key_spoof:
  assumes "44 \<notin> set ip" and "dict_get headers (str ''cf-connecting-ip'') = None"
    and "dict_get headers (str ''x-forwarded-for'') = Some (spoofed @ 44 # ip)"
  shows "client_key True headers host = strip ip"
proof -
  have "last (split_on 44 (spoofed @ 44 # ip)) = ip"
  proof (induction spoofed)
    case (Cons c cs)
    have "split_on 44 (cs @ 44 # ip) \<noteq> []" by (rule split_on_ne)
    moreover have "tl (split_on 44 (cs @ 44 # ip)) \<noteq> []"
      by (induction cs) (auto simp: split_on_single [OF assms(1)] split: list.splits)
    ultimately show ?case using Cons by (auto split: list.splits)
  qed (simp add: split_on_single [OF assms(1)])
  with assms(2,3) show ?thesis by (simp add: client_key_def Let_def)
qed

section \<open>The windows are right\<close>

lemma sw_queue_allow:
  "sw_queue k (snd (sw_allow key now w)) =
     (if k = key then dropWhile (\<lambda>t. t < now - sw_window w) (sw_queue key w)
        @ (if fst (sw_allow key now w) then [now] else []) else sw_queue k w)"
  "sw_window (snd (sw_allow key now w)) = sw_window w"
  "sw_max_events (snd (sw_allow key now w)) = sw_max_events w"
  by (auto simp: sw_allow_def sw_queue_def Let_def)

lemma dropWhile_sorted:
  "sorted xs \<Longrightarrow> dropWhile (\<lambda>t. t < c) xs = filter (\<lambda>t. c \<le> t) xs"
proof (induction xs)
  case (Cons x xs)
  then show ?case
    by (cases "x < c") (auto simp: filter_id_conv intro!: filter_True [symmetric])
qed simp

text \<open>
  The queue of a key is the part of its allowed times that some cutoff, not later than the
  last one, keeps.
\<close>

definition window_inv :: "int \<Rightarrow> int \<Rightarrow> int list \<Rightarrow> int list \<Rightarrow> bool" where
  "window_inv window now allowed q \<longleftrightarrow> sorted allowed \<and> (\<forall>a \<in> set allowed. a \<le> now)
     \<and> (\<exists>c \<le> now - window. q = filter (\<lambda>a. c \<le> a) allowed)"

lemma window_inv_drop:
  assumes "window_inv window now allowed q" and "now \<le> now'" and "window = w"
  shows "dropWhile (\<lambda>t. t < now' - w) q = filter (\<lambda>a. now' - w \<le> a) allowed"
    and "window_inv window now' allowed (filter (\<lambda>a. now' - w \<le> a) allowed)"
proof -
  from assms obtain c where c: "c \<le> now - window" "q = filter (\<lambda>a. c \<le> a) allowed" "sorted allowed"
    and le: "\<forall>a \<in> set allowed. a \<le> now" by (auto simp: window_inv_def)
  from c(3) have "sorted q" by (simp add: c(2) sorted_filter [of id, simplified])
  then have "dropWhile (\<lambda>t. t < now' - w) q = filter (\<lambda>a. now' - w \<le> a) q" by (rule dropWhile_sorted)
  also have "\<dots> = filter (\<lambda>a. now' - w \<le> a) allowed"
    using c assms(2,3) by (auto intro!: filter_cong)
  finally show "dropWhile (\<lambda>t. t < now' - w) q = filter (\<lambda>a. now' - w \<le> a) allowed" .
  show "window_inv window now' allowed (filter (\<lambda>a. now' - w \<le> a) allowed)"
    using c le assms(2,3) by (fastforce simp: window_inv_def)
qed

lemma window_inv_mono: "window_inv window now allowed q \<Longrightarrow> now \<le> now' \<Longrightarrow> window_inv window now' allowed q"
  unfolding window_inv_def by (elim conjE exE, intro conjI exI) auto

definition run_inv :: "(pystr \<Rightarrow> int list) \<Rightarrow> int \<Rightarrow> Window \<Rightarrow> bool" where
  "run_inv allowed now w \<longleftrightarrow> (\<forall>k. window_inv (sw_window w) now (allowed k) (sw_queue k w))"

lemma run_inv_step:
  assumes inv: "run_inv allowed now w" and le: "now \<le> now'" and W: "0 \<le> sw_window w"
  shows "run_inv (\<lambda>k. allowed k @ (if fst (sw_allow key now' w) \<and> key = k then [now'] else []))
      now' (snd (sw_allow key now' w))"
    and "fst (sw_allow key now' w) \<longleftrightarrow>
      int (length (filter (\<lambda>a. now' - sw_window w \<le> a) (allowed key))) < sw_max_events w"
proof -
  note d = window_inv_drop [OF _ le refl, of "sw_window w" "allowed key" "sw_queue key w"]
  from inv have k: "window_inv (sw_window w) now (allowed k) (sw_queue k w)" for k
    by (simp add: run_inv_def)
  show "fst (sw_allow key now' w) \<longleftrightarrow>
      int (length (filter (\<lambda>a. now' - sw_window w \<le> a) (allowed key))) < sw_max_events w"
    using d(1) [OF k] by (auto simp: sw_allow_def Let_def)
  have "window_inv (sw_window w) now' (allowed j @ (if fst (sw_allow key now' w) \<and> key = j then [now'] else []))
      (sw_queue j (snd (sw_allow key now' w)))" for j
  proof (cases "j = key")
    case True
    have le': "\<forall>a \<in> set (allowed key). a \<le> now'" "sorted (allowed key)"
      using k [of key] le by (auto simp: window_inv_def)
    show ?thesis
      using True d(1) [OF k] le' W
      by (auto simp: sw_queue_allow window_inv_def sorted_append intro!: exI [of _ "now' - sw_window w"])
  next
    case False
    with window_inv_mono [OF k [of j] le] show ?thesis by (simp add: sw_queue_allow)
  qed
  then show "run_inv (\<lambda>k. allowed k @ (if fst (sw_allow key now' w) \<and> key = k then [now'] else []))
      now' (snd (sw_allow key now' w))" by (simp add: run_inv_def sw_queue_allow)
qed

lemma sw_run_inv:
  assumes "run_inv allowed now w" and "0 \<le> sw_window w"
    and "sorted (map snd rs)" and "\<forall>r \<in> set rs. now \<le> snd r"
  shows "run_inv (\<lambda>k. allowed k @ sw_allowed k rs w) (fold (\<lambda>r _. snd r) rs now) (sw_run rs w)
    \<and> sw_window (sw_run rs w) = sw_window w \<and> sw_max_events (sw_run rs w) = sw_max_events w"
  using assms
proof (induction rs arbitrary: allowed now w)
  case (Cons r rs)
  obtain key t where r: "r = (key, t)" by (cases r)
  from Cons.prems r have le: "now \<le> t" by simp
  note step = run_inv_step(1) [OF Cons.prems(1) le Cons.prems(2), of key]
  from Cons.IH [OF step] Cons.prems r show ?case by (simp add: sw_queue_allow)
qed simp

lemma length_filter_mono:
  "(\<And>x. x \<in> set xs \<Longrightarrow> P x \<Longrightarrow> Q x) \<Longrightarrow> length (filter P xs) \<le> length (filter Q xs)"
  by (induction xs) auto

text \<open>In any span of one window's length at most \<open>max_events\<close> of the times were allowed.\<close>

definition window_bound :: "int \<Rightarrow> int \<Rightarrow> int list \<Rightarrow> bool" where
  "window_bound max_events window allowed \<longleftrightarrow>
     (\<forall>t. int (length (filter (\<lambda>a. t - window \<le> a \<and> a \<le> t) allowed)) \<le> max 0 max_events)"

lemma window_bound_snoc:
  assumes "window_bound m window allowed" and "\<forall>a \<in> set allowed. a \<le> now"
    and "int (length (filter (\<lambda>a. now - window \<le> a) allowed)) < m"
  shows "window_bound m window (allowed @ [now])"
  unfolding window_bound_def
proof
  fix t
  show "int (length (filter (\<lambda>a. t - window \<le> a \<and> a \<le> t) (allowed @ [now]))) \<le> max 0 m"
  proof (cases "now \<le> t")
    case True
    have "length (filter (\<lambda>a. t - window \<le> a \<and> a \<le> t) allowed)
        \<le> length (filter (\<lambda>a. now - window \<le> a) allowed)"
      using True by (intro length_filter_mono) auto
    with assms(3) show ?thesis by auto
  next
    case False
    with assms(1) show ?thesis by (simp add: window_bound_def)
  qed
qed

lemma sw_allowed_bound:
  assumes "run_inv allowed now w" and "0 \<le> sw_window w" and "sorted (map snd rs)"
    and "\<forall>r \<in> set rs. now \<le> snd r" and "\<forall>k. window_bound (sw_max_events w) (sw_window w) (allowed k)"
  shows "window_bound (sw_max_events w) (sw_window w) (allowed k @ sw_allowed k rs w)"
  using assms
proof (induction rs arbitrary: allowed now w)
  case (Cons r rs)
  obtain key t where r: "r = (key, t)" by (cases r)
  from Cons.prems r have le: "now \<le> t" by simp
  note step = run_inv_step [OF Cons.prems(1) le Cons.prems(2), of key]
  have b: "window_bound (sw_max_events w) (sw_window w)
      (allowed k @ (if fst (sw_allow key t w) \<and> key = k then [t] else []))" for k
  proof (cases "fst (sw_allow key t w) \<and> key = k")
    case True
    have "\<forall>a \<in> set (allowed k). a \<le> t" using Cons.prems(1) le by (fastforce simp: run_inv_def window_inv_def)
    with True step(2) Cons.prems(5) show ?thesis by (auto intro: window_bound_snoc)
  next
    case False
    then show ?thesis using Cons.prems(5) by auto
  qed
  show ?case using Cons.IH [OF step(1)] Cons.prems r b by (simp add: sw_queue_allow)
qed simp

lemma run_inv_new: "run_inv (\<lambda>_. []) now (new_window m window)"
  by (auto simp: run_inv_def window_inv_def new_window_def sw_queue_def)

section \<open>The shared window is right\<close>

definition zset_inv :: "int \<Rightarrow> int \<Rightarrow> RedisRun \<Rightarrow> bool" where
  "zset_inv max_events window s \<longleftrightarrow>
     dict_wf (zr_set s) \<and> (\<forall>(m, a) \<in> set (zr_set s). 0 < a) \<and> fst ` set (zr_set s) \<subseteq> zr_used s \<and> zr_denied s \<subseteq> zr_used s
   \<and> sorted (zr_accepted s) \<and> (\<forall>a \<in> set (zr_accepted s). a \<le> zr_now s) \<and> 0 \<le> zr_now s
   \<and> filter (\<lambda>a. zr_now s - window < a) (zr_accepted s)
       = map snd (filter (\<lambda>(m, a). zr_now s - window < a \<and> m \<notin> zr_denied s) (zr_set s))
   \<and> (\<forall>t. int (length (filter (\<lambda>a. t - window < a \<and> a \<le> t) (zr_accepted s))) \<le> max 0 max_events)"

lemma zset_pipe:
  assumes inv: "zset_inv max_events window s" and W: "0 < window"
    and p: "redis_pipe window member now (zr_set s) = (n, z)" and le: "zr_now s \<le> now" "0 < now"
    and new: "member \<notin> zr_used s"
  shows "z = filter (\<lambda>(m, a). now - window < a) (zr_set s) @ [(member, now)] \<and> dict_wf z
    \<and> n = length (filter (\<lambda>(m, a). now - window < a) (zr_set s)) + 1"
proof -
  let ?f = "filter (\<lambda>(_, score). \<not> (0 \<le> score \<and> score \<le> now - window)) (zr_set s)"
  have f: "?f = filter (\<lambda>(m, a). now - window < a) (zr_set s)"
    using inv by (auto simp: zset_inv_def intro!: filter_cong)
  have wf: "dict_wf ?f" using inv by (auto simp: zset_inv_def dict_wf_def distinct_map_filter)
  have nk: "member \<notin> fst ` set ?f" using inv new by (auto simp: zset_inv_def)
  then have "dict_get ?f member = None" by (simp add: map_of_eq_None_iff)
  then have z: "z = ?f @ [(member, now)]" and n: "n = length z"
    using p dict_set_absent [of ?f member now] by (auto simp: redis_pipe_def Let_def)
  have "dict_wf (?f @ [(member, now)])" using wf nk by (simp add: dict_wf_def)
  with z n f show ?thesis by simp
qed

text \<open>At a later time, the accepted times still in the window are the members not denied.\<close>

lemma zset_recent:
  assumes "zset_inv max_events window s" and "zr_now s \<le> now"
  shows "filter (\<lambda>a. now - window < a) (zr_accepted s)
    = map snd (filter (\<lambda>(m, a). now - window < a \<and> m \<notin> zr_denied s) (zr_set s))"
proof -
  note i = assms(1) [unfolded zset_inv_def]
  have "filter (\<lambda>a. now - window < a) (zr_accepted s)
      = filter (\<lambda>a. now - window < a) (filter (\<lambda>a. zr_now s - window < a) (zr_accepted s))"
    using assms(2) by (auto intro!: filter_cong)
  also have "\<dots> = filter (\<lambda>a. now - window < a)
      (map snd (filter (\<lambda>(m, a). zr_now s - window < a \<and> m \<notin> zr_denied s) (zr_set s)))"
    using i by simp
  also have "\<dots> = map snd (filter (\<lambda>(m, a). now - window < a \<and> m \<notin> zr_denied s) (zr_set s))"
    using assms(2) by (auto simp: filter_map intro!: arg_cong [where f = "map snd"] filter_cong)
  finally show ?thesis .
qed

lemma zset_inv_step:
  assumes inv: "zset_inv max_events window s" and W: "0 < window"
    and step: "redis_step max_events window s s'"
  shows "zset_inv max_events window s'"
  using step
proof cases
  case (accept member now n z)
  note pipe = zset_pipe [OF inv W accept(2,3,4,5)]
  note i = inv [unfolded zset_inv_def]
  note acc = zset_recent [OF inv accept(3)]
  let ?A = "zr_accepted s"
  have md: "member \<notin> zr_denied s" using i accept(5) by auto
  have "length (filter (\<lambda>(m, a). now - window < a \<and> m \<notin> zr_denied s) (zr_set s))
      \<le> length (filter (\<lambda>(m, a). now - window < a) (zr_set s))"
    by (rule length_filter_mono) auto
  with acc pipe accept(6) have cnt: "int (length (filter (\<lambda>a. now - window < a) ?A)) + 1 \<le> max_events"
    by simp
  have bound: "int (length (filter (\<lambda>a. t - window < a \<and> a \<le> t) (?A @ [now]))) \<le> max 0 max_events" for t
  proof (cases "now \<le> t")
    case True
    have "length (filter (\<lambda>a. t - window < a \<and> a \<le> t) ?A) \<le> length (filter (\<lambda>a. now - window < a) ?A)"
      using True by (intro length_filter_mono) auto
    with cnt show ?thesis by auto
  next
    case False
    with i show ?thesis by simp
  qed
  have "filter (\<lambda>a. now - window < a) (?A @ [now])
      = map snd (filter (\<lambda>(m, a). now - window < a \<and> m \<notin> zr_denied s) z)"
    using acc pipe md W by (auto intro!: arg_cong [where f = "map snd"] filter_cong)
  moreover have "sorted (?A @ [now])" "\<forall>a \<in> set (?A @ [now]). a \<le> now"
    using i accept(3) by (auto simp: sorted_append)
  ultimately show ?thesis
    using i accept(1,4) pipe bound by (auto simp: zset_inv_def)
next
  case (deny member now n z)
  note pipe = zset_pipe [OF inv W deny(2,3,4,5)]
  note i = inv [unfolded zset_inv_def]
  have "filter (\<lambda>a. now - window < a) (zr_accepted s)
      = map snd (filter (\<lambda>(m, a). now - window < a \<and> m \<notin> insert member (zr_denied s)) z)"
    using zset_recent [OF inv deny(3)] pipe i deny(5)
    by (auto intro!: arg_cong [where f = "map snd"] filter_cong)
  moreover have "\<forall>a \<in> set (zr_accepted s). a \<le> now" using i deny(3) by auto
  ultimately show ?thesis
    using i deny(1,4) pipe by (auto simp: zset_inv_def)
next
  case (undo member)
  note i = inv [unfolded zset_inv_def]
  have "filter (\<lambda>(m, a). zr_now s - window < a \<and> m \<notin> zr_denied s - {member}) (redis_zrem member (zr_set s))
      = filter (\<lambda>(m, a). zr_now s - window < a \<and> m \<notin> zr_denied s) (zr_set s)"
    using undo(2) by (auto simp: redis_zrem_def intro!: filter_cong)
  moreover have "dict_wf (redis_zrem member (zr_set s))"
    using i by (auto simp: redis_zrem_def dict_wf_def distinct_map_filter)
  ultimately show ?thesis
    using i undo(1) by (auto simp: zset_inv_def redis_zrem_def)
qed

lemma redis_reachable_inv:
  assumes "0 < window"
  shows "redis_reachable max_events window s \<Longrightarrow> zset_inv max_events window s"
proof (induction rule: redis_reachable.induct)
  case init
  show ?case by (simp add: zset_inv_def)
qed (auto intro: zset_inv_step [OF _ assms])

section \<open>Properties\<close>

text \<open>C13: The in-process window is exact: after any requests in the order of their times, a request
  is allowed precisely when fewer than \<open>max_events\<close> requests of its key were allowed within
  the last \<open>window_seconds\<close>; so no span of that length ever holds more allowed requests of a
  key than \<open>max_events\<close>, and keys do not affect each other.\<close>

theorem sliding_window_exact:
  fixes max_events window now :: int
  assumes "0 \<le> window" and "sorted (map snd (rs @ [(key, now)]))"
  defines "w \<equiv> sw_run rs (new_window max_events window)"
    and "allowed \<equiv> sw_allowed key rs (new_window max_events window)"
  shows "(fst (sw_allow key now w) \<longleftrightarrow> int (length (filter (\<lambda>a. now - window \<le> a) allowed)) < max_events)
    \<and> (\<forall>t. int (length (filter (\<lambda>a. t - window \<le> a \<and> a \<le> t) allowed)) \<le> max 0 max_events)"
proof -
  let ?w0 = "new_window max_events window" and ?t0 = "hd (map snd (rs @ [(key, now)]))"
  have rs: "sorted (map snd rs)" "\<forall>r \<in> set rs. ?t0 \<le> snd r"
    using assms(2) by (cases rs; auto simp: sorted_append)+
  have wf: "sw_window ?w0 = window" "sw_max_events ?w0 = max_events" by (simp_all add: new_window_def)
  have last: "fold (\<lambda>r _. snd r) rs ?t0 \<le> now"
    using assms(2) by (cases rs rule: rev_cases) (auto simp: sorted_append)
  from sw_run_inv [OF run_inv_new [of ?t0 max_events window] _ rs] assms(1) wf
  have inv: "run_inv (\<lambda>k. sw_allowed k rs ?w0) (fold (\<lambda>r _. snd r) rs ?t0) w"
    and ww: "sw_window w = window" "sw_max_events w = max_events" by (simp_all add: w_def)
  have "window_bound max_events window allowed"
    using sw_allowed_bound [OF run_inv_new [of ?t0 max_events window] _ rs, of key] assms(1) wf
    by (simp add: allowed_def window_bound_def)
  with run_inv_step(2) [OF inv last, of key] ww assms(1) show ?thesis
    by (simp add: allowed_def window_bound_def)
qed

theorem sliding_window_exact_witness:
  "\<not> fst (sw_allow (str ''a'') 10 (sw_run [(str ''a'', 0), (str ''b'', 5), (str ''a'', 9)] (new_window 2 10)))
    \<and> fst (sw_allow (str ''a'') 11 (sw_run [(str ''a'', 0), (str ''b'', 5), (str ''a'', 9)] (new_window 2 10)))"
proof -
  have a: "sw_allowed (str ''a'') [(str ''a'', 0), (str ''b'', 5), (str ''a'', 9)] (new_window 2 10) = [0, 9]"
    by (simp add: sw_allow_def sw_queue_def new_window_def Let_def)
  show ?thesis
    using sliding_window_exact [of 10 "[(str ''a'', 0), (str ''b'', 5), (str ''a'', 9)]" "str ''a''" 10 2]
      sliding_window_exact [of 10 "[(str ''a'', 0), (str ''b'', 5), (str ''a'', 9)]" "str ''a''" 11 2]
    by (simp add: a del: sw_allowed.simps sw_run.simps)
qed

text \<open>The Redis window holds across replicas: whatever way their pipelines and their removals of
  denied members interleave, at most \<open>max_events\<close> requests of a key are accepted in any span
  of one window.\<close>

theorem redis_window_bound:
  assumes "redis_reachable max_events window s" and "0 < window"
  shows "int (length (filter (\<lambda>a. t - window < a \<and> a \<le> t) (zr_accepted s))) \<le> max 0 max_events"
  using redis_reachable_inv [OF assms(2,1)] by (simp add: zset_inv_def)

theorem redis_window_bound_witness:
  "\<exists>s. redis_reachable 1 10 s \<and> zr_accepted s = [5]
    \<and> int (length (filter (\<lambda>a. 15 - 10 < a \<and> a \<le> 15) (zr_accepted s))) \<le> max 0 1"
proof -
  let ?init = "\<lparr>zr_set = [], zr_denied = {}, zr_used = {}, zr_accepted = [], zr_now = 0\<rparr>"
  let ?one = "?init\<lparr>zr_set := [(str ''m'', 5)], zr_used := {str ''m''}, zr_accepted := [5], zr_now := 5\<rparr>"
  have "redis_step 1 10 ?init (?init\<lparr>zr_set := [(str ''m'', 5)], zr_used := insert (str ''m'') (zr_used ?init),
      zr_accepted := zr_accepted ?init @ [5], zr_now := 5\<rparr>)"
    by (rule redis_step.accept [where n = 1 and s = ?init]) (simp_all add: redis_pipe_def)
  then have "redis_step 1 10 ?init ?one" by simp
  then have r: "redis_reachable 1 10 ?one" by (rule redis_reachable.step [OF redis_reachable.init])
  from redis_window_bound [OF r, of 15] r show ?thesis by (intro exI [of _ ?one]) simp
qed

text \<open>A fail-closed limiter never answers without Redis, and any other limiter always answers: by
  Redis while it replies, and otherwise by its own window. After a failure neither connects
  nor asks again until the breaker's cooldown is over.\<close>

theorem limiter_degrades:
  "case limiter_allow key now ping answer li of (result, li') \<Rightarrow>
     (case result of
        Inl _ \<Rightarrow> li_fail_closed li
      | Inr ok \<Rightarrow>
          (fst (get_redis now ping li) \<and> answer = Answer ok)
          \<or> (\<not> li_fail_closed li \<and> ok = fst (sw_allow key now (li_mem li))
              \<and> li_mem li' = snd (sw_allow key now (li_mem li))))
   \<and> ((fst (get_redis now ping li) \<and> answer = RedisFailure) \<longrightarrow>
        \<not> li_connected li' \<and> (\<forall>later. later < now + br_cooldown (li_breaker li) \<longrightarrow>
          (\<forall>p a. limiter_allow key later p a li' = mem_verdict key later li')))"
  by (auto simp: limiter_allow_def mem_verdict_def get_redis_def discard_redis_def trip_def is_open_def
      reset_breaker_def split: RedisAnswer.splits prod.splits if_splits)

theorem limiter_degrades_witness:
  "\<exists>li'. limiter_allow (str ''k'') 100 True RedisFailure (new_limiter 5 60 (str ''redis'') True)
      = (Inl RateLimitUnavailable, li')
    \<and> limiter_allow (str ''k'') 110 True (Answer True) li' = (Inl RateLimitUnavailable, li')"
proof -
  let ?li = "new_limiter 5 60 (str ''redis'') True"
  have c: "fst (get_redis 100 True ?li)" by (simp add: get_redis_def new_limiter_def new_breaker_def is_open_def)
  obtain r li' where x: "limiter_allow (str ''k'') 100 True RedisFailure ?li = (r, li')" by force
  then have r: "r = Inl RateLimitUnavailable \<and> li_fail_closed li'"
    by (auto simp: limiter_allow_def get_redis_def new_limiter_def new_breaker_def is_open_def
        mem_verdict_def discard_redis_def)
  have "limiter_allow (str ''k'') 110 True (Answer True) li' = mem_verdict (str ''k'') 110 li'"
    using limiter_degrades [where key = "str ''k''" and now = 100 and ping = True
        and answer = RedisFailure and li = ?li] x c
    by (simp add: new_limiter_def new_breaker_def)
  with x r show ?thesis by (auto simp: mem_verdict_def)
qed

end
