(* ===== verification/Uuid5.thy ===== *)
theory Uuid5
  imports PyText
begin

unbundle bit_operations_syntax

text \<open>
  Name-based identifiers: \<open>uuid.uuid5(uuid.NAMESPACE_URL, name)\<close> with SHA-1, from which
  \<open>src/app/routers/wiki.py\<close> derives page, revision and report ids, and the fact that the text
  of an identifier is read back unchanged.
\<close>

section \<open>SHA-1\<close>

definition rotl32 :: "nat \<Rightarrow> word32 \<Rightarrow> word32" where
  "rotl32 n x = push_bit n x OR drop_bit (32 - n) x"

fun sha1_schedule :: "nat \<Rightarrow> word32 list \<Rightarrow> word32 list" where
  "sha1_schedule 0 w = w"
| "sha1_schedule (Suc n) w =
     (let t = length w in
      sha1_schedule n
        (w @ [rotl32 1 (w ! (t - 3) XOR w ! (t - 8) XOR w ! (t - 14) XOR w ! (t - 16))]))"

definition sha1_f :: "nat \<Rightarrow> word32 \<Rightarrow> word32 \<Rightarrow> word32 \<Rightarrow> word32" where
  "sha1_f t b c d =
     (if t < 20 then (b AND c) OR (NOT b AND d)
      else if t < 40 then b XOR c XOR d
      else if t < 60 then (b AND c) OR (b AND d) OR (c AND d)
      else b XOR c XOR d)"

definition sha1_k :: "nat \<Rightarrow> word32" where
  "sha1_k t = (if t < 20 then 1518500249 else if t < 40 then 1859775393
     else if t < 60 then 2400959708 else 3395469782)"

fun sha1_round :: "word32 list \<Rightarrow> nat \<times> word32 \<Rightarrow> word32 list" where
  "sha1_round [a, b, c, d, e] (t, w) =
     [rotl32 5 a + sha1_f t b c d + e + sha1_k t + w, a, rotl32 30 b, c, d]"
| "sha1_round s _ = s"

definition sha1_block :: "word32 list \<Rightarrow> bytes \<Rightarrow> word32 list" where
  "sha1_block h blk =
     map2 (+) h (foldl sha1_round h (zip [0..<80] (sha1_schedule 64 (sha_words blk))))"

function sha1_blocks :: "word32 list \<Rightarrow> bytes \<Rightarrow> word32 list" where
  "sha1_blocks h m = (if m = [] then h else sha1_blocks (sha1_block h (take 64 m)) (drop 64 m))"
  by pat_completeness auto
termination
  by (relation "measure (\<lambda>(h, m). length m)") auto

declare sha1_blocks.simps [simp del]

definition sha1 :: "bytes \<Rightarrow> bytes" where
  "sha1 m = concat (map word_bytes
     (sha1_blocks [1732584193, 4023233417, 2562383102, 271733878, 3285377520] (sha_pad m)))"

section \<open>Identifiers\<close>

definition namespace_url :: bytes where
  "namespace_url = [107, 167, 184, 17, 157, 173, 17, 209, 128, 180, 0, 192, 79, 212, 48, 200]"

text \<open>\<open>UUID(bytes=..., version=5)\<close>: four bits hold the version, two the variant.\<close>

definition set_version :: "nat \<Rightarrow> 128 word \<Rightarrow> 128 word" where
  "set_version v n =
     (let n1 = (n AND NOT (push_bit 48 0xc000)) OR push_bit 48 0x8000
      in (n1 AND NOT (push_bit 64 0xf000)) OR push_bit 76 (of_nat v))"

definition uuid5 :: "bytes \<Rightarrow> pystr" where
  "uuid5 name = uuid_str (uint (set_version 5
     (foldl (\<lambda>a b. 256 * a + ucast b) 0 (take 16 (sha1 (namespace_url @ name))))))"

section \<open>The text of an identifier is read back\<close>

lemma strip_by_none: "\<forall>c \<in> set s. \<not> P c \<Longrightarrow> strip_by P s = s"
proof -
  assume s: "\<forall>c \<in> set s. \<not> P c"
  have keep: "dropWhile P t = t" if "set t \<subseteq> set s" for t
    using s that by (cases t) auto
  show ?thesis using keep [of s] keep [of "rev s"] by (simp add: strip_by_def)
qed

lemma remove_all_none: "p \<noteq> [] \<Longrightarrow> hd p \<notin> set s \<Longrightarrow> remove_all p s = s"
  by (induction s) (auto simp: startswith_def neq_Nil_conv)

lemma remove_all_char: "remove_all [c] s = filter (\<lambda>x. x \<noteq> c) s"
  by (induction s) (auto simp: startswith_def)

lemma hex_run_digits:
  "\<forall>d \<in> set ds. d < 16 \<Longrightarrow>
     hex_run acc (map hex_digit ds) = Some (foldl (\<lambda>a d. 16 * a + int d) acc ds)"
proof (induction ds arbitrary: acc)
  case (Cons d ds)
  then have "hex_val (hex_digit d) = Some (int d)" by (auto simp: hex_val_def hex_digit_def)
  with Cons show ?case by simp
qed simp

definition nibbles :: "int \<Rightarrow> nat list" where
  "nibbles n = map (\<lambda>i. nat (n div 16 ^ (31 - i) mod 16)) [0..<32]"

lemma nibbles_fold:
  assumes "0 \<le> n" "n < 16 ^ 32"
  shows "foldl (\<lambda>a d. 16 * a + int d) 0 (nibbles n) = n"
proof -
  have "foldl (\<lambda>a d. 16 * a + int d) 0 (map (\<lambda>i. nat (n div 16 ^ (31 - i) mod 16)) [0..<k])
      = n div 16 ^ (32 - k)" if "k \<le> 32" for k
    using that
  proof (induction k)
    case 0
    then show ?case using assms by simp
  next
    case (Suc k)
    then have k: "32 - k = Suc (31 - k)" by simp
    have "n div 16 ^ (31 - k) = 16 * (n div 16 ^ (31 - k) div 16) + n div 16 ^ (31 - k) mod 16"
      by simp
    moreover have "n div 16 ^ (31 - k) div 16 = n div 16 ^ (32 - k)"
      by (simp add: k zdiv_zmult2_eq [symmetric] mult.commute)
    ultimately show ?case using Suc by simp
  qed
  from this [of 32] show ?thesis by (simp add: nibbles_def)
qed

lemma uuid_digits_nibbles: "uuid_digits n = map hex_digit (nibbles n)"
  by (simp add: uuid_digits_def nibbles_def comp_def)

lemma nibbles_small: "\<forall>d \<in> set (nibbles n). d < 16"
  by (auto simp: nibbles_def)

lemma uuid_canon_str:
  assumes "0 \<le> n" "n < 16 ^ 32"
  shows "uuid_canon (uuid_str n) = Some (uuid_str n)"
proof -
  let ?h = "uuid_digits n"
  have len: "length ?h = 32" by (simp add: uuid_digits_def)
  have hex: "\<forall>c \<in> set ?h. is_hex_char c"
    using nibbles_small [of n] by (auto simp: uuid_digits_nibbles intro: hex_digit_hex)
  let ?s = "uuid_str n"
  have parts: "set ?s \<subseteq> insert 45 (set ?h)"
    by (auto simp: uuid_str_def Let_def dest: in_set_takeD in_set_dropD)
  then have chars: "c \<in> set ?s \<Longrightarrow> c = 45 \<or> is_hex_char c" for c using hex by auto
  have "remove_all (str ''urn:'') ?s = ?s" "remove_all (str ''uuid:'') ?s = ?s"
    by (intro remove_all_none; use chars [of 117] in \<open>auto simp: py_simps is_hex_char_def\<close>)+
  moreover have "strip_by (\<lambda>c. c \<in> {123, 125}) ?s = ?s"
    by (intro strip_by_none) (use chars [of 123] chars [of 125] in \<open>auto simp: is_hex_char_def\<close>)
  moreover have "filter (\<lambda>x. x \<noteq> 45) ?s = ?h"
  proof -
    have keep: "filter (\<lambda>x. x \<noteq> 45) (take a (drop b ?h)) = take a (drop b ?h)" for a b
      using hex by (intro filter_True) (auto simp: is_hex_char_def dest!: in_set_takeD in_set_dropD)
    have "?h = take 8 (drop 0 ?h) @ take 4 (drop 8 ?h) @ take 4 (drop 12 ?h) @ take 4 (drop 16 ?h)
        @ take 12 (drop 20 ?h)"
      using len by (intro nth_equalityI) (auto simp: nth_append)
    moreover have "filter (\<lambda>x. x \<noteq> 45) ?s = take 8 (drop 0 ?h) @ take 4 (drop 8 ?h)
        @ take 4 (drop 12 ?h) @ take 4 (drop 16 ?h) @ take 12 (drop 20 ?h)"
      using keep [of 8 0] keep [of 4 8] keep [of 4 12] keep [of 4 16] keep [of 12 20] len
      by (simp add: uuid_str_def Let_def)
    ultimately show ?thesis by simp
  qed
  moreover have "int16 ?h = Some n"
  proof -
    obtain a t where "?h = a # t" using len by (cases ?h) auto
    moreover then obtain b cs where "t = b # cs" using len by (cases t) auto
    ultimately have h: "?h = a # b # cs" by simp
    from h hex have ab: "is_hex_char a" "is_hex_char b" by auto
    then have pre: "take 1 ?h \<noteq> [45]" "take 1 ?h \<noteq> [43]" "take 2 ?h \<notin> {str ''0x'', str ''0X''}"
      using h by (auto simp: is_hex_char_def py_simps)
    have "strip ?h = ?h" unfolding strip_def
      by (intro strip_by_none) (use hex in \<open>auto simp: is_hex_char_def py_space_def\<close>)
    moreover have "hex_digits ?h = Some n"
    proof -
      obtain d ds where n: "nibbles n = d # ds" using h uuid_digits_nibbles [of n] by (cases "nibbles n") auto
      have d: "hex_val (hex_digit d) = Some (int d)"
        using nibbles_small [of n] n by (auto simp: hex_val_def hex_digit_def)
      have "hex_run (int d) (map hex_digit ds) = Some (foldl (\<lambda>a d. 16 * a + int d) (int d) ds)"
        using nibbles_small [of n] n by (intro hex_run_digits) auto
      then show ?thesis using nibbles_fold [OF assms] n d by (simp add: hex_digits_def uuid_digits_nibbles)
    qed
    ultimately show ?thesis using pre by (simp add: int16_def hex_unsigned_def Let_def)
  qed
  ultimately show ?thesis using assms len by (simp add: uuid_canon_def remove_all_char)
qed

lemma uuid5_canonical: "uuid_canon (uuid5 name) = Some (uuid5 name)"
proof -
  have "0 \<le> uint w \<and> uint w < 16 ^ 32" for w :: "128 word"
    using unsigned_less [where 'a = int and w = w] by simp
  then show ?thesis unfolding uuid5_def by (intro uuid_canon_str) auto
qed

end
