(* ===== verification/WikiMemory.thy ===== *)
theory WikiMemory
  imports WikiStore
begin

text \<open>
  The in-memory wiki adapter, \<open>src/app/wiki/memory.py\<close>. Each operation holds the store's
  lock and awaits nothing, so it is one atomic step from the store to a result and the next
  store. The case folding of \<open>str.casefold\<close> is an argument of \<open>list_pages\<close>.
\<close>

record MemStore =
  ms_pages :: "(pystr, PageState) pydict"
  ms_slug_to_id :: "(pystr, pystr) pydict"
  ms_events :: "(pystr, StoredEvent list) pydict"
  ms_receipts :: "(pystr, CommandReceipt) pydict"
  ms_outbox :: "(pystr, OutboxRecord) pydict"

definition mem_init :: MemStore where
  "mem_init = \<lparr>ms_pages = [], ms_slug_to_id = [], ms_events = [], ms_receipts = [], ms_outbox = []\<rparr>"

section \<open>Executing a command\<close>

text \<open>The loop over the decided events: fold the state, number the events.\<close>

fun apply_events ::
  "int \<Rightarrow> PageState option \<Rightarrow> WikiEvent list \<Rightarrow> wiki_exn + PageState option \<times> StoredEvent list" where
  "apply_events n st [] = Inr (st, [])"
| "apply_events n st (e # es) =
     bind_res (evolve st e) (\<lambda>s.
     bind_res (apply_events (n + 1) (Some s) es) (\<lambda>(st', stored).
       Inr (st', \<lparr>se_index = n + 1, se_event = e\<rparr> # stored)))"

definition put_effects ::
  "datetime \<Rightarrow> OutboxEffect list \<Rightarrow> (pystr, OutboxRecord) pydict \<Rightarrow> (pystr, OutboxRecord) pydict" where
  "put_effects now effects outbox =
     foldl (\<lambda>ob f. dict_set (ef_effect_id f)
        \<lparr>ob_effect = f, ob_status = str ''pending'', ob_created_at = now, ob_attempts = 0,
         ob_delivered_at = None\<rparr> ob) outbox effects"

definition commit_decision ::
  "WikiCommand \<Rightarrow> pystr \<Rightarrow> PageState option \<Rightarrow> Decision \<Rightarrow> MemStore
   \<Rightarrow> (wiki_exn + CommandReceipt) \<times> MemStore" where
  "commit_decision cmd fingerprint state decision st =
     (let existing = (case dict_get (ms_events st) (page_id cmd) of None \<Rightarrow> [] | Some es \<Rightarrow> es)
      in case apply_events (int (length existing)) state (dc_events decision) of
           Inl x \<Rightarrow> (Inl x, st)
         | Inr (None, _) \<Rightarrow> (Inl (PyRuntimeError (str ''accepted command produced no state'')), st)
         | Inr (Some next_state, stored) \<Rightarrow>
             (let receipt = \<lparr>rc_command_id = command_id cmd, rc_fingerprint = fingerprint,
                    rc_page_id = page_id cmd, rc_stream_version = ps_stream_version next_state,
                    rc_event_ids = map ev_event_id (dc_events decision), rc_replayed = False\<rparr>
              in (Inr receipt,
                  st\<lparr>ms_slug_to_id := (if is_CreatePage cmd
                        then dict_set (slug cmd) (page_id cmd) (ms_slug_to_id st)
                        else ms_slug_to_id st),
                     ms_pages := dict_set (page_id cmd) next_state (ms_pages st),
                     ms_events := dict_set (page_id cmd) (existing @ stored) (ms_events st),
                     ms_outbox := put_effects (occurred_at cmd) (dc_effects decision) (ms_outbox st),
                     ms_receipts := dict_set (command_id cmd) receipt (ms_receipts st)\<rparr>)))"

definition mem_execute :: "WikiCommand \<Rightarrow> MemStore \<Rightarrow> (wiki_exn + CommandReceipt) \<times> MemStore" where
  "mem_execute cmd st =
     (case intent_fingerprint cmd of Inl x \<Rightarrow> (Inl x, st)
      | Inr fingerprint \<Rightarrow>
        (case dict_get (ms_receipts st) (command_id cmd) of
           Some prior \<Rightarrow>
             (if rc_fingerprint prior \<noteq> fingerprint then (Inl idempotency_conflict, st)
              else (Inr (prior\<lparr>rc_replayed := True\<rparr>), st))
         | None \<Rightarrow>
             (if is_CreatePage cmd \<and> dict_get (ms_slug_to_id st) (slug cmd) \<noteq> None
              then (Inl slug_taken, st)
              else
                (let state = (if is_CreatePage cmd then None
                              else dict_get (ms_pages st) (page_id cmd))
                 in case decide state cmd of
                      Inl x \<Rightarrow> (Inl x, st)
                    | Inr decision \<Rightarrow> commit_decision cmd fingerprint state decision st))))"

section \<open>Reading\<close>

definition mem_get_page_by_slug :: "pystr \<Rightarrow> bool \<Rightarrow> MemStore \<Rightarrow> PageState option" where
  "mem_get_page_by_slug sl include_quarantined st =
     (case (case dict_get (ms_slug_to_id st) sl of
              None \<Rightarrow> None
            | Some pid \<Rightarrow> if pid \<noteq> [] then dict_get (ms_pages st) pid else None) of
        None \<Rightarrow> None
      | Some page \<Rightarrow>
          if ps_moderation_status page = str ''quarantined'' \<and> \<not> include_quarantined
          then None else Some page)"

definition mem_list_pages ::
  "(pystr \<Rightarrow> pystr) \<Rightarrow> pystr option \<Rightarrow> nat \<Rightarrow> nat \<Rightarrow> MemStore \<Rightarrow> PageState list" where
  "mem_list_pages casefold query limit offset st =
     (let pages = filter (\<lambda>p. ps_moderation_status p = str ''visible'') (dict_values (ms_pages st));
          pages = (case query of
             None \<Rightarrow> pages
           | Some q \<Rightarrow>
               (if q = [] then pages
                else filter (\<lambda>p. contains (casefold q) (casefold (ps_slug p))
                               \<or> contains (casefold q) (casefold (ps_title p))) pages))
      in page_slice offset limit (sort_desc (\<lambda>p. (ps_updated_at p, ps_page_id p)) pages))"

definition mem_history :: "pystr \<Rightarrow> nat \<Rightarrow> nat \<Rightarrow> MemStore \<Rightarrow> StoredEvent list" where
  "mem_history pid limit offset st =
     (case dict_get (ms_pages st) pid of
        None \<Rightarrow> []
      | Some page \<Rightarrow>
          if ps_moderation_status page = str ''quarantined'' then []
          else page_slice offset limit
                 (filter (\<lambda>i. revision_event (se_event i))
                    (rev (case dict_get (ms_events st) pid of None \<Rightarrow> [] | Some es \<Rightarrow> es))))"

definition mem_recent_changes :: "nat \<Rightarrow> nat \<Rightarrow> MemStore \<Rightarrow> StoredEvent list" where
  "mem_recent_changes limit offset st =
     (let visible_ids = map fst (filter (\<lambda>(_, p). ps_moderation_status p = str ''visible'')
                                   (ms_pages st));
          events = concat (map (\<lambda>(pid, stream). if pid \<in> set visible_ids then stream else [])
                             (ms_events st));
          events = filter (\<lambda>i. revision_event (se_event i)) events
      in page_slice offset limit
           (sort_desc (\<lambda>i. (ev_occurred_at (se_event i), ev_event_id (se_event i))) events))"

definition mem_get_revision :: "pystr \<Rightarrow> pystr \<Rightarrow> MemStore \<Rightarrow> wiki_exn + Revision option" where
  "mem_get_revision pid rid st =
     (case dict_get (ms_pages st) pid of
        None \<Rightarrow> Inr None
      | Some page \<Rightarrow>
          if ps_moderation_status page = str ''quarantined'' then Inr None
          else (case find (\<lambda>i. revision_event (se_event i)
                     \<and> dict_get (ev_data (se_event i)) (str ''revision_id'') = Some rid)
                     (case dict_get (ms_events st) pid of None \<Rightarrow> [] | Some es \<Rightarrow> es) of
                  None \<Rightarrow> Inr None
                | Some i \<Rightarrow> bind_res (revision_of_event rid (se_event i)) (\<lambda>r. Inr (Some r))))"

section \<open>The outbox\<close>

definition mem_pending_outbox :: "nat \<Rightarrow> pystr option \<Rightarrow> MemStore \<Rightarrow> OutboxRecord list" where
  "mem_pending_outbox limit effect_type st =
     take limit (filter (\<lambda>r. ob_status r = str ''pending''
                    \<and> (effect_type = None \<or> effect_type = Some (ef_effect_type (ob_effect r))))
                   (dict_values (ms_outbox st)))"

definition mem_resolve_outbox ::
  "pystr \<Rightarrow> pystr \<Rightarrow> datetime \<Rightarrow> MemStore \<Rightarrow> bool \<times> MemStore" where
  "mem_resolve_outbox eid etype resolved_at st =
     (case dict_get (ms_outbox st) eid of
        None \<Rightarrow> (False, st)
      | Some record \<Rightarrow>
          if ef_effect_type (ob_effect record) \<noteq> etype then (False, st)
          else if ob_status record = str ''delivered'' then (True, st)
          else if ob_status record \<notin> {str ''pending'', str ''failed''} then (False, st)
          else (True, st\<lparr>ms_outbox := dict_set eid
                  (record\<lparr>ob_status := str ''delivered'', ob_delivered_at := Some resolved_at\<rparr>)
                  (ms_outbox st)\<rparr>))"

section \<open>The store invariant\<close>

definition page_entry_ok :: "MemStore \<Rightarrow> pystr \<Rightarrow> PageState \<Rightarrow> bool" where
  "page_entry_ok st pid p \<longleftrightarrow> ps_page_id p = pid \<and> page_ok p
     \<and> dict_get (ms_slug_to_id st) (ps_slug p) = Some pid
     \<and> (\<exists>es. dict_get (ms_events st) pid = Some es \<and> stream_ok p es
          \<and> (\<forall>i \<in> set es. ev_page_id (se_event i) = pid))"

definition receipt_ok :: "MemStore \<Rightarrow> pystr \<Rightarrow> CommandReceipt \<Rightarrow> bool" where
  "receipt_ok st cid r \<longleftrightarrow> rc_command_id r = cid \<and> \<not> rc_replayed r
     \<and> (\<exists>es. dict_get (ms_events st) (rc_page_id r) = Some es
          \<and> 1 \<le> rc_stream_version r \<and> rc_stream_version r \<le> int (length es)
          \<and> rc_event_ids r = [ev_event_id (se_event (es ! nat (rc_stream_version r - 1)))])"

definition mem_inv :: "MemStore \<Rightarrow> bool" where
  "mem_inv st \<longleftrightarrow> dict_wf (ms_pages st) \<and> dict_wf (ms_events st)
     \<and> (\<forall>pid p. dict_get (ms_pages st) pid = Some p \<longrightarrow> page_entry_ok st pid p)
     \<and> (\<forall>pid. dict_get (ms_pages st) pid = None \<longrightarrow> dict_get (ms_events st) pid = None)
     \<and> (\<forall>sl pid. dict_get (ms_slug_to_id st) sl = Some pid \<longrightarrow>
          (\<exists>p. dict_get (ms_pages st) pid = Some p \<and> ps_slug p = sl))
     \<and> (\<forall>cid r. dict_get (ms_receipts st) cid = Some r \<longrightarrow> receipt_ok st cid r)"

text \<open>
  What a caller owes the store: a page is created under an id that no stored page has,
  unless the command is a retry. (\<open>create_page\<close> of the router derives the id from the
  command id.)
\<close>

definition mem_allowed :: "MemStore \<Rightarrow> WikiCommand \<Rightarrow> bool" where
  "mem_allowed st cmd \<longleftrightarrow> (is_CreatePage cmd \<and> dict_get (ms_receipts st) (command_id cmd) = None
     \<longrightarrow> dict_get (ms_pages st) (page_id cmd) = None)"

definition stored_stream :: "MemStore \<Rightarrow> pystr \<Rightarrow> StoredEvent list" where
  "stored_stream st pid = (case dict_get (ms_events st) pid of None \<Rightarrow> [] | Some es \<Rightarrow> es)"

definition command_state :: "MemStore \<Rightarrow> WikiCommand \<Rightarrow> PageState option" where
  "command_state st cmd =
     (if is_CreatePage cmd then None else dict_get (ms_pages st) (page_id cmd))"

lemma mem_inv_init: "mem_inv mem_init"
  by (simp add: mem_inv_def mem_init_def)

lemma mem_inv_page:
  "mem_inv st \<Longrightarrow> dict_get (ms_pages st) pid = Some p \<Longrightarrow> page_entry_ok st pid p"
  by (simp add: mem_inv_def)

lemma mem_inv_no_page:
  "mem_inv st \<Longrightarrow> dict_get (ms_pages st) pid = None \<Longrightarrow> dict_get (ms_events st) pid = None"
  by (simp add: mem_inv_def)

lemma mem_inv_slug:
  "mem_inv st \<Longrightarrow> dict_get (ms_slug_to_id st) sl = Some pid \<Longrightarrow>
    \<exists>p. dict_get (ms_pages st) pid = Some p \<and> ps_slug p = sl"
  by (simp add: mem_inv_def)

lemma mem_inv_receipt:
  "mem_inv st \<Longrightarrow> dict_get (ms_receipts st) cid = Some r \<Longrightarrow> receipt_ok st cid r"
  by (simp add: mem_inv_def)

text \<open>The state a command is decided on matches the stream stored under its page id.\<close>

lemma command_state_stream:
  assumes inv: "mem_inv st" and "mem_allowed st cmd"
    and "dict_get (ms_receipts st) (command_id cmd) = None"
  shows "replay (map se_event (stored_stream st (page_id cmd))) = Inr (command_state st cmd)
    \<and> (case command_state st cmd of None \<Rightarrow> 0 | Some s \<Rightarrow> ps_stream_version s)
        = int (length (stored_stream st (page_id cmd)))
    \<and> (\<forall>s. command_state st cmd = Some s \<longrightarrow> page_ok s \<and> ps_page_id s = page_id cmd)
    \<and> map se_index (stored_stream st (page_id cmd))
        = map int [1..<Suc (length (stored_stream st (page_id cmd)))]
    \<and> (\<forall>i \<in> set (stored_stream st (page_id cmd)). ev_page_id (se_event i) = page_id cmd)"
proof (cases "dict_get (ms_pages st) (page_id cmd)")
  case None
  with mem_inv_no_page [OF inv None] show ?thesis
    by (simp add: command_state_def stored_stream_def replay_def)
next
  case (Some p)
  with assms have "\<not> is_CreatePage cmd" by (auto simp: mem_allowed_def)
  with Some mem_inv_page [OF inv Some] show ?thesis
    by (auto simp: command_state_def stored_stream_def page_entry_ok_def stream_ok_def)
qed

text \<open>What an executed command did: it was a retry, or its event was appended.\<close>

definition appended ::
  "WikiCommand \<Rightarrow> MemStore \<Rightarrow> Decision \<Rightarrow> WikiEvent \<Rightarrow> PageState \<Rightarrow> CommandReceipt \<Rightarrow> MemStore \<Rightarrow> bool" where
  "appended cmd st d e s' r st' \<longleftrightarrow>
     dict_get (ms_receipts st) (command_id cmd) = None
   \<and> (is_CreatePage cmd \<longrightarrow> dict_get (ms_slug_to_id st) (slug cmd) = None)
   \<and> decide (command_state st cmd) cmd = Inr d \<and> dc_events d = [e]
   \<and> evolve (command_state st cmd) e = Inr s'
   \<and> rc_command_id r = command_id cmd \<and> rc_page_id r = page_id cmd
   \<and> rc_stream_version r = ps_stream_version s' \<and> rc_event_ids r = [ev_event_id e]
   \<and> \<not> rc_replayed r
   \<and> st' = st\<lparr>ms_slug_to_id := (if is_CreatePage cmd
                  then dict_set (slug cmd) (page_id cmd) (ms_slug_to_id st) else ms_slug_to_id st),
              ms_pages := dict_set (page_id cmd) s' (ms_pages st),
              ms_events := dict_set (page_id cmd) (stored_stream st (page_id cmd)
                  @ [\<lparr>se_index = int (length (stored_stream st (page_id cmd))) + 1, se_event = e\<rparr>])
                  (ms_events st),
              ms_outbox := put_effects (occurred_at cmd) (dc_effects d) (ms_outbox st),
              ms_receipts := dict_set (command_id cmd) r (ms_receipts st)\<rparr>"

lemma commit_decision_Inr:
  assumes "commit_decision cmd fp state d st = (Inr r, st')" and one: "dc_events d = [e]"
  shows "\<exists>s'. evolve state e = Inr s'
   \<and> r = \<lparr>rc_command_id = command_id cmd, rc_fingerprint = fp,
          rc_page_id = page_id cmd, rc_stream_version = ps_stream_version s',
          rc_event_ids = [ev_event_id e], rc_replayed = False\<rparr>
   \<and> st' = st\<lparr>ms_slug_to_id := (if is_CreatePage cmd
                  then dict_set (slug cmd) (page_id cmd) (ms_slug_to_id st) else ms_slug_to_id st),
              ms_pages := dict_set (page_id cmd) s' (ms_pages st),
              ms_events := dict_set (page_id cmd) (stored_stream st (page_id cmd)
                  @ [\<lparr>se_index = int (length (stored_stream st (page_id cmd))) + 1, se_event = e\<rparr>])
                  (ms_events st),
              ms_outbox := put_effects (occurred_at cmd) (dc_effects d) (ms_outbox st),
              ms_receipts := dict_set (command_id cmd) r (ms_receipts st)\<rparr>"
  using assms
  by (cases "evolve state e") (auto simp: commit_decision_def Let_def stored_stream_def)

lemma commit_decision_Inl:
  "fst (commit_decision cmd fp state d st) = Inl x \<Longrightarrow> snd (commit_decision cmd fp state d st) = st"
  by (auto simp: commit_decision_def Let_def split: sum.splits prod.splits option.splits)

lemma mem_execute_Inr:
  assumes "mem_execute cmd st = (Inr r, st')"
  obtains (retry) prior where "dict_get (ms_receipts st) (command_id cmd) = Some prior"
      "intent_fingerprint cmd = Inr (rc_fingerprint prior)" "r = prior\<lparr>rc_replayed := True\<rparr>" "st' = st"
    | (accepted) d e s' where "appended cmd st d e s' r st'"
      "intent_fingerprint cmd = Inr (rc_fingerprint r)"
proof -
  from assms obtain fp where fp: "intent_fingerprint cmd = Inr fp"
    by (auto simp: mem_execute_def split: sum.splits)
  show thesis
  proof (cases "dict_get (ms_receipts st) (command_id cmd)")
    case (Some prior)
    with assms fp retry [of prior] show thesis
      by (auto simp: mem_execute_def split: if_splits)
  next
    case None
    with assms fp obtain d where slug: "is_CreatePage cmd \<longrightarrow> dict_get (ms_slug_to_id st) (slug cmd) = None"
      and d: "decide (command_state st cmd) cmd = Inr d"
      and c: "commit_decision cmd fp (command_state st cmd) d st = (Inr r, st')"
      by (auto simp: mem_execute_def command_state_def Let_def split: if_splits sum.splits)
    from decide_one_event [OF d] obtain e where e: "dc_events d = [e]" by blast
    from commit_decision_Inr [OF c e] obtain s' where "appended cmd st d e s' r st'" "rc_fingerprint r = fp"
      using None slug d e by (auto simp: appended_def)
    with fp accepted show thesis by blast
  qed
qed

lemma mem_execute_appends:
  assumes "dict_get (ms_receipts st) (command_id cmd) = None"
    and "is_CreatePage cmd \<longrightarrow> dict_get (ms_slug_to_id st) (slug cmd) = None"
    and "decide (command_state st cmd) cmd = Inr d" and "dc_events d = [e]"
    and "evolve (command_state st cmd) e = Inr s'" and "intent_fingerprint cmd = Inr fp"
  shows "\<exists>r. appended cmd st d e s' r (snd (mem_execute cmd st)) \<and> fst (mem_execute cmd st) = Inr r"
proof -
  have x: "mem_execute cmd st = commit_decision cmd fp (command_state st cmd) d st"
    using assms by (auto simp: mem_execute_def command_state_def Let_def)
  obtain r st' where "commit_decision cmd fp (command_state st cmd) d st = (Inr r, st')"
    using assms(4,5) by (auto simp: commit_decision_def Let_def)
  with commit_decision_Inr [OF this assms(4)] x assms show ?thesis by (auto simp: appended_def)
qed

lemma mem_execute_Inl: "fst (mem_execute cmd st) = Inl x \<Longrightarrow> snd (mem_execute cmd st) = st"
  by (auto simp: mem_execute_def Let_def commit_decision_Inl
      split: sum.splits option.splits if_splits dest: commit_decision_Inl)

text \<open>An accepted command never fails to fold: the kernel's contract gives the next state.\<close>

lemma appended_next:
  assumes inv: "mem_inv st" and ok: "mem_allowed st cmd" and a: "appended cmd st d e s' r st'"
  shows "stream_ok s' (stored_stream st (page_id cmd)
      @ [\<lparr>se_index = int (length (stored_stream st (page_id cmd))) + 1, se_event = e\<rparr>])
    \<and> page_ok s' \<and> ps_page_id s' = page_id cmd
    \<and> (\<forall>i \<in> set (stored_stream st (page_id cmd)). ev_page_id (se_event i) = page_id cmd)
    \<and> ev_page_id e = page_id cmd
    \<and> (if is_CreatePage cmd then ps_slug s' = slug cmd
       else \<exists>s. command_state st cmd = Some s \<and> ps_slug s' = ps_slug s)"
proof -
  let ?es = "stored_stream st (page_id cmd)"
  from a have fresh: "dict_get (ms_receipts st) (command_id cmd) = None"
    and d: "decide (command_state st cmd) cmd = Inr d" and e: "dc_events d = [e]"
    and s': "evolve (command_state st cmd) e = Inr s'" by (auto simp: appended_def)
  note cs = command_state_stream [OF inv ok fresh]
  then have st: "case command_state st cmd of None \<Rightarrow> ?es = [] | Some s \<Rightarrow> page_ok s \<and> stream_ok s ?es"
    by (auto simp: stream_ok_def split: option.splits)
  have "version_of (command_state st cmd) = int (length ?es)" using cs by (simp add: version_of_def)
  with stream_step [OF st d e s']
  have "stream_ok s' (?es @ [\<lparr>se_index = int (length ?es) + 1, se_event = e\<rparr>])" "page_ok s'" by auto
  moreover have "ps_page_id s' = page_id cmd \<and> (if is_CreatePage cmd then ps_slug s' = slug cmd
       else \<exists>s. command_state st cmd = Some s \<and> ps_slug s' = ps_slug s)"
  proof (cases "is_CreatePage cmd")
    case True
    from decide_create_Inr [OF d True] True e s' show ?thesis by (auto simp: command_state_def)
  next
    case False
    with d obtain s where s: "command_state st cmd = Some s"
      by (cases "command_state st cmd") (auto dest: decide_None_Inr)
    with s' evolve_frame [of s e s'] cs False show ?thesis by auto
  qed
  moreover have "ev_page_id e = page_id cmd" using decide_event_ids [OF d] e by simp
  ultimately show ?thesis using cs by blast
qed

lemma appended_inv:
  assumes inv: "mem_inv st" and ok: "mem_allowed st cmd" and a: "appended cmd st d e s' r st'"
  shows "mem_inv st'"
proof -
  let ?pid = "page_id cmd"
  let ?new = "stored_stream st ?pid
      @ [\<lparr>se_index = int (length (stored_stream st ?pid)) + 1, se_event = e\<rparr>]"
  note next_ok = appended_next [OF inv ok a]
  note a' = a [unfolded appended_def]
  have pages: "ms_pages st' = dict_set ?pid s' (ms_pages st)"
    and events: "ms_events st' = dict_set ?pid ?new (ms_events st)"
    and slugs: "ms_slug_to_id st' = (if is_CreatePage cmd
        then dict_set (slug cmd) ?pid (ms_slug_to_id st) else ms_slug_to_id st)"
    and receipts: "ms_receipts st' = dict_set (command_id cmd) r (ms_receipts st)"
    using a' by auto
  have old: "dict_get (ms_pages st) ?pid = Some p \<Longrightarrow> \<not> is_CreatePage cmd \<and> ps_slug s' = ps_slug p" for p
    using a' ok next_ok by (auto simp: mem_allowed_def command_state_def split: if_splits)
  have slug_s': "dict_get (ms_slug_to_id st') (ps_slug s') = Some ?pid"
  proof (cases "is_CreatePage cmd")
    case True
    with next_ok slugs show ?thesis by simp
  next
    case False
    with next_ok obtain s where "dict_get (ms_pages st) ?pid = Some s" "ps_slug s' = ps_slug s"
      by (auto simp: command_state_def)
    with mem_inv_page [OF inv] slugs False show ?thesis by (auto simp: page_entry_ok_def)
  qed
  have "page_entry_ok st' pid p" if "dict_get (ms_pages st') pid = Some p" for pid p
  proof (cases "pid = ?pid")
    case True
    with that pages next_ok slug_s' events show ?thesis by (simp add: page_entry_ok_def)
  next
    case False
    with that pages have p: "dict_get (ms_pages st) pid = Some p" by simp
    from mem_inv_page [OF inv p] False events slugs a' show ?thesis
      by (auto simp: page_entry_ok_def)
  qed
  moreover have "dict_get (ms_pages st') pid = None \<longrightarrow> dict_get (ms_events st') pid = None" for pid
    using pages events mem_inv_no_page [OF inv, of pid] by auto
  moreover have "\<exists>p. dict_get (ms_pages st') pid = Some p \<and> ps_slug p = sl"
    if "dict_get (ms_slug_to_id st') sl = Some pid" for sl pid
  proof (cases "pid = ?pid")
    case True
    with that slugs have "is_CreatePage cmd \<and> sl = slug cmd
        \<or> dict_get (ms_slug_to_id st) sl = Some ?pid" by (auto split: if_splits)
    with True pages next_ok old mem_inv_slug [OF inv, of sl ?pid] show ?thesis by auto
  next
    case False
    with that slugs have "dict_get (ms_slug_to_id st) sl = Some pid" by (auto split: if_splits)
    from mem_inv_slug [OF inv this] False pages show ?thesis by auto
  qed
  moreover have "receipt_ok st' cid q" if "dict_get (ms_receipts st') cid = Some q" for cid q
  proof (cases "cid = command_id cmd")
    case True
    with that receipts have "q = r" by simp
    with True a' next_ok events show ?thesis
      by (auto simp: receipt_ok_def stream_ok_def nth_append)
  next
    case False
    with that receipts have q: "dict_get (ms_receipts st) cid = Some q" by simp
    from mem_inv_receipt [OF inv q] events show ?thesis
      by (auto simp: receipt_ok_def stored_stream_def nth_append)
  qed
  ultimately show ?thesis
    using inv pages events by (auto simp: mem_inv_def)
qed

lemma mem_inv_execute:
  assumes "mem_inv st" and "mem_allowed st cmd"
  shows "mem_inv (snd (mem_execute cmd st))"
proof (cases "mem_execute cmd st")
  case (Pair res st')
  show ?thesis
  proof (cases res)
    case (Inl x)
    with Pair mem_execute_Inl [of cmd st x] assms show ?thesis by simp
  next
    case (Inr r)
    with Pair have "mem_execute cmd st = (Inr r, st')" by simp
    then show ?thesis
      by (cases rule: mem_execute_Inr) (use assms Pair in \<open>auto dest: appended_inv\<close>)
  qed
qed

lemma mem_inv_resolve: "mem_inv st \<Longrightarrow> mem_inv (snd (mem_resolve_outbox eid etype t st))"
  by (auto simp: mem_resolve_outbox_def mem_inv_def page_entry_ok_def receipt_ok_def
      split: option.splits)

section \<open>The adapter satisfies the store contract\<close>

lemma mem_hidden:
  assumes inv: "mem_inv st" and g: "mem_get_page_by_slug sl False st = Some p"
  shows "ps_slug p = sl \<and> ps_moderation_status p = str ''visible''"
proof -
  from g obtain pid where pid: "dict_get (ms_slug_to_id st) sl = Some pid"
    "dict_get (ms_pages st) pid = Some p" "ps_moderation_status p \<noteq> str ''quarantined''"
    by (auto simp: mem_get_page_by_slug_def split: option.splits if_splits)
  from mem_inv_slug [OF inv pid(1)] mem_inv_page [OF inv pid(2)] pid show ?thesis
    by (auto simp: page_entry_ok_def page_ok_def)
qed

interpretation ms: wiki_store mem_execute mem_get_page_by_slug
  "\<lambda>s :: MemStore. dict_get (ms_receipts s)" mem_inv mem_allowed
proof unfold_locales
  fix s c assume "mem_inv s" "mem_allowed s c"
  then show "mem_inv (snd (mem_execute c s))" by (rule mem_inv_execute)
next
  fix s c x assume "fst (mem_execute c s) = Inl x"
  then show "snd (mem_execute c s) = s" by (rule mem_execute_Inl)
next
  fix s c r assume inv: "mem_inv s" and "mem_allowed s c" and "fst (mem_execute c s) = Inr r"
  then have "mem_execute c s = (Inr r, snd (mem_execute c s))" by (simp add: prod_eq_iff)
  then show "intent_fingerprint c = Inr (rc_fingerprint r)
      \<and> dict_get (ms_receipts (snd (mem_execute c s))) (command_id c) = Some (r\<lparr>rc_replayed := False\<rparr>)"
  proof (cases rule: mem_execute_Inr)
    case (retry prior)
    with mem_inv_receipt [OF inv retry(1)] show ?thesis by (simp add: receipt_ok_def)
  next
    case (accepted d e s')
    then show ?thesis by (simp add: appended_def)
  qed
next
  fix s :: MemStore and i r c assume r: "dict_get (ms_receipts s) i = Some r"
  show "dict_get (ms_receipts (snd (mem_execute c s))) i = Some r"
  proof (cases "fst (mem_execute c s)")
    case (Inl x)
    with r show ?thesis by (simp add: mem_execute_Inl)
  next
    case (Inr q)
    then have "mem_execute c s = (Inr q, snd (mem_execute c s))" by (simp add: prod_eq_iff)
    then show ?thesis
      by (cases rule: mem_execute_Inr) (use r in \<open>auto simp: appended_def\<close>)
  qed
next
  fix s :: MemStore and c r assume "dict_get (ms_receipts s) (command_id c) = Some r"
    and "intent_fingerprint c = Inr (rc_fingerprint r)"
  then show "mem_execute c s = (Inr (r\<lparr>rc_replayed := True\<rparr>), s)" by (simp add: mem_execute_def)
next
  fix s :: MemStore and c r fp assume "dict_get (ms_receipts s) (command_id c) = Some r"
    and "intent_fingerprint c = Inr fp" "fp \<noteq> rc_fingerprint r"
  then show "mem_execute c s = (Inl idempotency_conflict, s)" by (simp add: mem_execute_def)
next
  fix s sl p assume "mem_inv s" "mem_get_page_by_slug sl False s = Some p"
  then show "ps_slug p = sl \<and> ps_moderation_status p = str ''visible''" by (rule mem_hidden)
qed

section \<open>Reachable stores\<close>

text \<open>
  The stores an application reaches: starting empty, by executing commands (a creation under
  a fresh page id, or a retry) and by resolving outbox records.
\<close>

inductive mem_reachable :: "MemStore \<Rightarrow> bool" where
  start: "mem_reachable mem_init"
| execute: "mem_reachable st \<Longrightarrow> mem_allowed st cmd \<Longrightarrow> mem_reachable (snd (mem_execute cmd st))"
| resolve: "mem_reachable st \<Longrightarrow> mem_reachable (snd (mem_resolve_outbox eid etype t st))"

lemma mem_reachable_inv: "mem_reachable st \<Longrightarrow> mem_inv st"
  by (induction rule: mem_reachable.induct) (auto intro: mem_inv_init mem_inv_execute mem_inv_resolve)

section \<open>A concrete store\<close>

definition demo_store :: MemStore where
  "demo_store = snd (mem_execute demo_create mem_init)"

lemma demo_fingerprint:
  "intent_fingerprint demo_create = Inr (projr (intent_fingerprint demo_create))"
  "intent_fingerprint demo_edit = Inr (projr (intent_fingerprint demo_edit))"
proof -
  have "\<exists>fp. intent_fingerprint demo_create = Inr fp"
    by (rule intent_fingerprint_ok) (simp add: demo_create_def command_intent_def)
  then show "intent_fingerprint demo_create = Inr (projr (intent_fingerprint demo_create))" by auto
  have "\<exists>fp. intent_fingerprint demo_edit = Inr fp"
    by (rule intent_fingerprint_ok) (simp add: demo_edit_def command_intent_def)
  then show "intent_fingerprint demo_edit = Inr (projr (intent_fingerprint demo_edit))" by auto
qed

lemma demo_create_accepted:
  "\<exists>d e. decide None demo_create = Inr d \<and> dc_events d = [e] \<and> evolve None e = Inr demo_page
     \<and> fst (mem_execute demo_create mem_init)
        = Inr \<lparr>rc_command_id = str ''cmd:1'',
             rc_fingerprint = projr (intent_fingerprint demo_create), rc_page_id = str ''page-1'',
             rc_stream_version = 1, rc_event_ids = [str ''rev-1''], rc_replayed = False\<rparr>
     \<and> ms_pages demo_store = [(str ''page-1'', demo_page)]
     \<and> ms_slug_to_id demo_store = [(str ''hello'', str ''page-1'')]
     \<and> ms_events demo_store = [(str ''page-1'', [\<lparr>se_index = 1, se_event = e\<rparr>])]
     \<and> ms_outbox demo_store = []
     \<and> (\<forall>cid. cid \<noteq> str ''cmd:1'' \<longrightarrow> dict_get (ms_receipts demo_store) cid = None)"
proof -
  have "\<exists>d. decide None demo_create = Inr d"
    using demo_digest [of "''First''"]
    by (simp add: decide_defs) (metis bind_res.simps(2))
  then obtain d where d: "decide None demo_create = Inr d" ..
  from decide_create_Inr [OF d] demo_digest [of "''First''"]
  obtain e where e: "dc_events d = [e]" "evolve None e = Inr demo_page" "dc_effects d = []"
    by (auto simp: demo_page_def)
  have eid: "ev_event_id e = str ''rev-1''"
    using d e(1) by (auto simp: decide_defs res_simps)
  have "mem_execute demo_create mem_init
      = commit_decision demo_create (projr (intent_fingerprint demo_create)) None d mem_init"
  proof -
    obtain fp where "intent_fingerprint demo_create = Inr fp" using demo_fingerprint(1) by metis
    with d show ?thesis by (simp add: mem_execute_def mem_init_def)
  qed
  then show ?thesis using d e eid
    by (intro exI [of _ d] exI [of _ e])
      (simp add: commit_decision_def Let_def mem_init_def demo_store_def demo_page_def put_effects_def)
qed

lemma demo_store_reachable: "mem_reachable demo_store"
  unfolding demo_store_def
  by (rule mem_reachable.execute [OF mem_reachable.start]) (simp add: mem_allowed_def mem_init_def)


end
