(* ===== verification/WikiPostgres.thy ===== *)
theory WikiPostgres
  imports WikiStore PyText
begin

text \<open>
  The PostgreSQL wiki adapter, \<open>src/app/wiki/postgres.py\<close>, on the tables its migrations
  create (\<open>src/migrations/wiki\<close>). A table is the list of its rows and a statement is the
  function its SQL text denotes, with the keys, checks and the deferred foreign key of the
  migrations; a violated constraint is a \<open>DbError\<close> with the constraint's name. A row of
  \<open>wiki_pages\<close> has the columns of \<open>PageState\<close> and a row of \<open>wiki_events\<close> those of
  \<open>StoredEvent\<close>; a \<open>jsonb\<close> column holds the dictionary itself. The database's \<open>lower\<close> and
  its collation are arguments of the queries that use them.
\<close>

section \<open>Tables\<close>

record PgReceipt =
  pr_command_id :: pystr
  pr_fingerprint :: pystr
  pr_page_id :: pystr
  pr_stream_version :: int
  pr_event_ids :: "pystr list"
  pr_created_at :: datetime

record PgOutbox =
  po_effect :: OutboxEffect
  po_status :: pystr
  po_attempts :: int
  po_next_attempt_at :: "datetime option"
  po_created_at :: datetime
  po_delivered_at :: "datetime option"

record PgDb =
  pg_pages :: "PageState list"
  pg_events :: "StoredEvent list"
  pg_receipts :: "PgReceipt list"
  pg_outbox :: "PgOutbox list"

definition pg_empty :: PgDb where
  "pg_empty = \<lparr>pg_pages = [], pg_events = [], pg_receipts = [], pg_outbox = []\<rparr>"

text \<open>A text value reaches the database encoded as UTF-8 and without the character 0.\<close>

definition pg_text :: "pystr \<Rightarrow> bool" where
  "pg_text s \<longleftrightarrow> encodable s \<and> 0 \<notin> set s"

definition pg_json :: "event_data \<Rightarrow> bool" where
  "pg_json d \<longleftrightarrow> (\<forall>(k, v) \<in> set d. pg_text k \<and> pg_text v)"

definition bad_text :: wiki_exn where
  "bad_text = DbError (str ''invalid text'')"

definition bad_uuid :: wiki_exn where
  "bad_uuid = PyValueError (str ''badly formed hexadecimal UUID string'')"

definition as_uuid :: "pystr \<Rightarrow> wiki_exn + pystr" where
  "as_uuid s = (case uuid_canon s of None \<Rightarrow> Inl bad_uuid | Some u \<Rightarrow> Inr u)"

text \<open>The check constraints of \<open>wiki_pages\<close>.\<close>

definition page_checks :: "PageState \<Rightarrow> wiki_exn + unit" where
  "page_checks p =
     (if \<not> 0 < ps_stream_version p then Inl (DbError (str ''wiki_pages_stream_version_check''))
      else if ps_authority p \<noteq> str ''community'' then Inl (DbError (str ''wiki_pages_authority_check''))
      else if ps_review_status p \<notin> {str ''unreviewed'', str ''submitted''}
      then Inl (DbError (str ''wiki_pages_review_status_check''))
      else if ps_moderation_status p \<notin> {str ''visible'', str ''quarantined''}
      then Inl (DbError (str ''wiki_pages_moderation_status_check''))
      else if \<not> (1 \<le> length (ps_title p) \<and> length (ps_title p) \<le> 200)
      then Inl (DbError (str ''wiki_pages_title_size''))
      else if \<not> (1 \<le> length (ps_content p) \<and> length (ps_content p) \<le> 100000)
      then Inl (DbError (str ''wiki_pages_content_size''))
      else Inr ())"

section \<open>The statements of a command\<close>

definition select_receipt :: "pystr \<Rightarrow> PgDb \<Rightarrow> PgReceipt option" where
  "select_receipt cid db = find (\<lambda>r. pr_command_id r = cid) (pg_receipts db)"

definition select_page_by_slug :: "pystr \<Rightarrow> PgDb \<Rightarrow> PageState option" where
  "select_page_by_slug sl db = find (\<lambda>p. ps_slug p = sl) (pg_pages db)"

definition select_page :: "pystr \<Rightarrow> PgDb \<Rightarrow> PageState option" where
  "select_page pid db = find (\<lambda>p. ps_page_id p = pid) (pg_pages db)"

definition page_from_row :: "PageState \<Rightarrow> PageState" where
  "page_from_row row = row\<lparr>ps_authority := str ''community''\<rparr>"

definition insert_event :: "int \<Rightarrow> WikiEvent \<Rightarrow> PgDb \<Rightarrow> wiki_exn + PgDb" where
  "insert_event index e db =
     bind_res (as_uuid (ev_page_id e)) (\<lambda>pid.
     if \<not> (pg_text (ev_event_id e) \<and> pg_text (ev_command_id e) \<and> pg_text (ev_event_type e)
           \<and> pg_text (ev_actor_id e) \<and> pg_json (ev_data e))
     then Inl bad_text
     else if \<not> 0 < index then Inl (DbError (str ''wiki_events_event_index_check''))
     else if ev_schema_version e \<noteq> 1 then Inl (DbError (str ''wiki_events_schema_version_check''))
     else if \<exists>r \<in> set (pg_events db). ev_page_id (se_event r) = pid \<and> se_index r = index
     then Inl (DbError (str ''wiki_events_pkey''))
     else if \<exists>r \<in> set (pg_events db). ev_event_id (se_event r) = ev_event_id e
     then Inl (DbError (str ''wiki_events_event_id_key''))
     else Inr (db\<lparr>pg_events := pg_events db @
            [\<lparr>se_index = index, se_event = e\<lparr>ev_page_id := pid\<rparr>\<rparr>]\<rparr>))"

definition page_texts :: "PageState \<Rightarrow> bool" where
  "page_texts p \<longleftrightarrow> pg_text (ps_slug p) \<and> pg_text (ps_title p) \<and> pg_text (ps_content p)
     \<and> pg_text (ps_content_hash p) \<and> pg_text (ps_head_actor_id p)"

definition insert_page :: "PageState \<Rightarrow> PgDb \<Rightarrow> wiki_exn + PgDb" where
  "insert_page p db =
     bind_res (as_uuid (ps_page_id p)) (\<lambda>pid.
     bind_res (as_uuid (ps_head_revision_id p)) (\<lambda>rid.
     if \<not> page_texts p then Inl bad_text
     else let row = p\<lparr>ps_page_id := pid, ps_head_revision_id := rid,
                      ps_authority := str ''community''\<rparr>
     in bind_res (page_checks row) (\<lambda>_.
     if \<exists>r \<in> set (pg_pages db). ps_page_id r = pid then Inl (DbError (str ''wiki_pages_pkey''))
     else if \<exists>r \<in> set (pg_pages db). ps_slug r = ps_slug p
     then Inl (DbError (str ''wiki_pages_slug_key''))
     else Inr (db\<lparr>pg_pages := pg_pages db @ [row]\<rparr>))))"

text \<open>The \<open>UPDATE\<close> sets these columns and leaves slug, authority and creation time.\<close>

definition updated_row :: "PageState \<Rightarrow> pystr \<Rightarrow> PageState \<Rightarrow> PageState" where
  "updated_row p rid row = row\<lparr>ps_title := ps_title p, ps_content := ps_content p,
     ps_head_revision_id := rid, ps_content_hash := ps_content_hash p,
     ps_head_actor_id := ps_head_actor_id p, ps_stream_version := ps_stream_version p,
     ps_review_status := ps_review_status p, ps_moderation_status := ps_moderation_status p,
     ps_updated_at := ps_updated_at p\<rparr>"

definition update_page :: "PageState \<Rightarrow> int \<Rightarrow> PgDb \<Rightarrow> wiki_exn + nat \<times> PgDb" where
  "update_page p expected_version db =
     bind_res (as_uuid (ps_page_id p)) (\<lambda>pid.
     bind_res (as_uuid (ps_head_revision_id p)) (\<lambda>rid.
     if \<not> page_texts p then Inl bad_text
     else let hit = (\<lambda>row. ps_page_id row = pid \<and> ps_stream_version row = expected_version)
     in bind_res (map_res (\<lambda>row. page_checks (updated_row p rid row)) (filter hit (pg_pages db))) (\<lambda>_.
     Inr (length (filter hit (pg_pages db)),
          db\<lparr>pg_pages := map (\<lambda>row. if hit row then updated_row p rid row else row) (pg_pages db)\<rparr>))))"

definition insert_outbox :: "datetime \<Rightarrow> OutboxEffect \<Rightarrow> PgDb \<Rightarrow> wiki_exn + PgDb" where
  "insert_outbox now f db =
     (if \<not> (pg_text (ef_effect_id f) \<and> pg_text (ef_event_id f) \<and> pg_text (ef_effect_type f)
           \<and> pg_json (ef_payload f))
      then Inl bad_text
      else if ef_effect_type f \<notin> {str ''review_requested'', str ''moderation_report_requested''}
      then Inl (DbError (str ''wiki_outbox_effect_type_check''))
      else if \<exists>r \<in> set (pg_outbox db). ef_effect_id (po_effect r) = ef_effect_id f then Inr db
      else Inr (db\<lparr>pg_outbox := pg_outbox db @
             [\<lparr>po_effect = f, po_status = str ''pending'', po_attempts = 0,
               po_next_attempt_at = None, po_created_at = now, po_delivered_at = None\<rparr>]\<rparr>))"

definition insert_receipt :: "PgReceipt \<Rightarrow> PgDb \<Rightarrow> wiki_exn + PgDb" where
  "insert_receipt r db =
     (if \<not> pg_text (pr_command_id r) then Inl bad_text
      else if \<exists>q \<in> set (pg_receipts db). pr_command_id q = pr_command_id r
      then Inl (DbError (str ''wiki_command_receipts_pkey''))
      else Inr (db\<lparr>pg_receipts := pg_receipts db @ [r]\<rparr>))"

text \<open>
  A transaction: an exception rolls back every statement of its body, and so does an event
  it inserted for a page that does not exist at the end (the deferred foreign key).
\<close>

definition new_events_have_pages :: "PgDb \<Rightarrow> PgDb \<Rightarrow> bool" where
  "new_events_have_pages db db' \<longleftrightarrow>
     (\<forall>r \<in> set (drop (length (pg_events db)) (pg_events db')).
        \<exists>p \<in> set (pg_pages db'). ps_page_id p = ev_page_id (se_event r))"

definition transaction :: "(PgDb \<Rightarrow> wiki_exn + 'a \<times> PgDb) \<Rightarrow> PgDb \<Rightarrow> (wiki_exn + 'a) \<times> PgDb" where
  "transaction body db =
     (case body db of
        Inl x \<Rightarrow> (Inl x, db)
      | Inr (r, db') \<Rightarrow>
          (if new_events_have_pages db db' then (Inr r, db')
           else (Inl (DbError (str ''wiki_events_page_id_fkey'')), db)))"

section \<open>Executing a command\<close>

text \<open>
  What the reading half of \<open>execute\<close> finds under the advisory lock on the command id: the
  receipt of an earlier run, or the state to decide on.
\<close>

datatype prepared = Replayed CommandReceipt | Undecided "PageState option"

definition receipt_of_row :: "bool \<Rightarrow> PgReceipt \<Rightarrow> CommandReceipt" where
  "receipt_of_row replayed r = \<lparr>rc_command_id = pr_command_id r, rc_fingerprint = pr_fingerprint r,
     rc_page_id = pr_page_id r, rc_stream_version = pr_stream_version r,
     rc_event_ids = pr_event_ids r, rc_replayed = replayed\<rparr>"

definition pg_prepare :: "WikiCommand \<Rightarrow> pystr \<Rightarrow> PgDb \<Rightarrow> wiki_exn + prepared" where
  "pg_prepare cmd fingerprint db =
     (if \<not> pg_text (command_id cmd) then Inl bad_text
      else case select_receipt (command_id cmd) db of
        Some prior \<Rightarrow>
          (if pr_fingerprint prior \<noteq> fingerprint then Inl idempotency_conflict
           else Inr (Replayed (receipt_of_row True prior)))
      | None \<Rightarrow>
          (if is_CreatePage cmd
           then (if \<not> pg_text (slug cmd) then Inl bad_text
                 else if select_page_by_slug (slug cmd) db \<noteq> None then Inl slug_taken
                 else Inr (Undecided None))
           else bind_res (as_uuid (page_id cmd)) (\<lambda>pid.
                  Inr (Undecided (map_option page_from_row (select_page pid db))))))"

fun pg_apply_events ::
  "int \<Rightarrow> PageState option \<Rightarrow> WikiEvent list \<Rightarrow> PgDb \<Rightarrow> wiki_exn + PageState option \<times> PgDb" where
  "pg_apply_events n st [] db = Inr (st, db)"
| "pg_apply_events n st (e # es) db =
     bind_res (insert_event (n + 1) e db) (\<lambda>db'.
     bind_res (evolve st e) (\<lambda>s. pg_apply_events (n + 1) (Some s) es db'))"

definition pg_store_page :: "WikiCommand \<Rightarrow> PageState \<Rightarrow> int \<Rightarrow> PgDb \<Rightarrow> wiki_exn + PgDb" where
  "pg_store_page cmd next_state expected_version db =
     (if is_CreatePage cmd
      then (case insert_page next_state db of
              Inl x \<Rightarrow> if x = DbError (str ''wiki_pages_slug_key'') then Inl slug_taken else Inl x
            | Inr db' \<Rightarrow> Inr db')
      else bind_res (update_page next_state expected_version db) (\<lambda>(count, db').
        if count \<noteq> 1
        then Inl (WikiError (str ''stream_conflict'') (str ''the page stream changed concurrently'') 409)
        else Inr db'))"

fun pg_store_effects :: "datetime \<Rightarrow> OutboxEffect list \<Rightarrow> PgDb \<Rightarrow> wiki_exn + PgDb" where
  "pg_store_effects now [] db = Inr db"
| "pg_store_effects now (f # fs) db = bind_res (insert_outbox now f db) (pg_store_effects now fs)"

definition pg_apply ::
  "WikiCommand \<Rightarrow> pystr \<Rightarrow> PageState option \<Rightarrow> PgDb \<Rightarrow> wiki_exn + CommandReceipt \<times> PgDb" where
  "pg_apply cmd fingerprint state db =
     (let expected_version = (case state of None \<Rightarrow> 0 | Some s \<Rightarrow> ps_stream_version s)
      in bind_res (decide state cmd) (\<lambda>decision.
         bind_res (pg_apply_events expected_version state (dc_events decision) db) (\<lambda>(next_state, db1).
         case next_state of
           None \<Rightarrow> Inl (PyRuntimeError (str ''accepted command produced no state''))
         | Some s \<Rightarrow>
             bind_res (pg_store_page cmd s expected_version db1) (\<lambda>db2.
             bind_res (pg_store_effects (occurred_at cmd) (dc_effects decision) db2) (\<lambda>db3.
             bind_res (as_uuid (page_id cmd)) (\<lambda>pid.
             bind_res (insert_receipt \<lparr>pr_command_id = command_id cmd, pr_fingerprint = fingerprint,
                 pr_page_id = pid, pr_stream_version = ps_stream_version s,
                 pr_event_ids = map ev_event_id (dc_events decision),
                 pr_created_at = occurred_at cmd\<rparr> db3) (\<lambda>db4.
             Inr (\<lparr>rc_command_id = command_id cmd, rc_fingerprint = fingerprint,
                   rc_page_id = page_id cmd, rc_stream_version = ps_stream_version s,
                   rc_event_ids = map ev_event_id (dc_events decision), rc_replayed = False\<rparr>, db4))))))))"

definition pg_body :: "WikiCommand \<Rightarrow> pystr \<Rightarrow> PgDb \<Rightarrow> wiki_exn + CommandReceipt \<times> PgDb" where
  "pg_body cmd fingerprint db =
     bind_res (pg_prepare cmd fingerprint db) (\<lambda>found.
       case found of
         Replayed r \<Rightarrow> Inr (r, db)
       | Undecided state \<Rightarrow> pg_apply cmd fingerprint state db)"

definition pg_execute :: "WikiCommand \<Rightarrow> PgDb \<Rightarrow> (wiki_exn + CommandReceipt) \<times> PgDb" where
  "pg_execute cmd db =
     (case intent_fingerprint cmd of
        Inl x \<Rightarrow> (Inl x, db)
      | Inr fingerprint \<Rightarrow> transaction (pg_body cmd fingerprint) db)"

section \<open>Queries\<close>

definition pg_get_page_by_slug :: "pystr \<Rightarrow> bool \<Rightarrow> PgDb \<Rightarrow> PageState option" where
  "pg_get_page_by_slug sl include_quarantined db =
     map_option page_from_row (find (\<lambda>p. ps_slug p = sl
       \<and> (include_quarantined \<or> ps_moderation_status p = str ''visible'')) (pg_pages db))"

definition pg_list_pages ::
  "(pystr \<Rightarrow> pystr) \<Rightarrow> pystr option \<Rightarrow> nat \<Rightarrow> nat \<Rightarrow> PgDb \<Rightarrow> PageState list" where
  "pg_list_pages low query limit offset db =
     map page_from_row (page_slice offset limit
       (sort_desc (\<lambda>p. (ps_updated_at p, ps_page_id p))
         (filter (\<lambda>p. ps_moderation_status p = str ''visible''
              \<and> (query \<noteq> None \<and> query \<noteq> Some [] \<longrightarrow>
                   ilike_around low (the query) (ps_slug p)
                   \<or> ilike_around low (the query) (ps_title p))) (pg_pages db))))"

definition page_visible :: "PgDb \<Rightarrow> pystr \<Rightarrow> bool" where
  "page_visible db pid \<longleftrightarrow>
     (\<exists>p \<in> set (pg_pages db). ps_page_id p = pid \<and> ps_moderation_status p = str ''visible'')"

definition pg_history :: "pystr \<Rightarrow> nat \<Rightarrow> nat \<Rightarrow> PgDb \<Rightarrow> wiki_exn + StoredEvent list" where
  "pg_history pid limit offset db =
     bind_res (as_uuid pid) (\<lambda>u.
       Inr (page_slice offset limit (sort_desc se_index
         (filter (\<lambda>r. ev_page_id (se_event r) = u \<and> page_visible db u \<and> revision_event (se_event r))
            (pg_events db)))))"

definition pg_recent_changes :: "(pystr \<Rightarrow> pystr) \<Rightarrow> nat \<Rightarrow> nat \<Rightarrow> PgDb \<Rightarrow> StoredEvent list" where
  "pg_recent_changes coll limit offset db =
     page_slice offset limit
       (sort_desc (\<lambda>r. (ev_occurred_at (se_event r), coll (ev_event_id (se_event r))))
         (filter (\<lambda>r. page_visible db (ev_page_id (se_event r)) \<and> revision_event (se_event r))
            (pg_events db)))"

definition pg_get_revision :: "pystr \<Rightarrow> pystr \<Rightarrow> PgDb \<Rightarrow> wiki_exn + Revision option" where
  "pg_get_revision pid rid db =
     bind_res (as_uuid pid) (\<lambda>u.
     case find (\<lambda>r. ev_page_id (se_event r) = u \<and> page_visible db u \<and> revision_event (se_event r)
            \<and> dict_get (ev_data (se_event r)) (str ''revision_id'') = Some rid) (pg_events db) of
       None \<Rightarrow> Inr None
     | Some r \<Rightarrow> bind_res (revision_of_event rid (se_event r)) (\<lambda>v. Inr (Some v)))"

definition pg_pending_outbox ::
  "(pystr \<Rightarrow> pystr) \<Rightarrow> datetime \<Rightarrow> nat \<Rightarrow> pystr option \<Rightarrow> PgDb \<Rightarrow> OutboxRecord list" where
  "pg_pending_outbox coll now limit effect_type db =
     map (\<lambda>r. \<lparr>ob_effect = po_effect r, ob_status = po_status r, ob_created_at = po_created_at r,
               ob_attempts = po_attempts r, ob_delivered_at = None\<rparr>)
       (take limit (sort_key (\<lambda>r. (po_created_at r, coll (ef_effect_id (po_effect r))))
         (filter (\<lambda>r. po_status r \<in> {str ''pending'', str ''failed''}
              \<and> (case po_next_attempt_at r of None \<Rightarrow> True | Some t \<Rightarrow> t \<le> now)
              \<and> (effect_type = None \<or> Some (ef_effect_type (po_effect r)) = effect_type))
           (pg_outbox db))))"

definition resolvable :: "pystr \<Rightarrow> pystr \<Rightarrow> PgOutbox \<Rightarrow> bool" where
  "resolvable eid etype r \<longleftrightarrow> ef_effect_id (po_effect r) = eid \<and> ef_effect_type (po_effect r) = etype
     \<and> po_status r \<in> {str ''pending'', str ''failed'', str ''delivered''}"

definition pg_resolve_outbox :: "pystr \<Rightarrow> pystr \<Rightarrow> datetime \<Rightarrow> PgDb \<Rightarrow> bool \<times> PgDb" where
  "pg_resolve_outbox eid etype resolved_at db =
     (length (filter (resolvable eid etype) (pg_outbox db)) = 1,
      db\<lparr>pg_outbox := map (\<lambda>r. if resolvable eid etype r
            then r\<lparr>po_status := str ''delivered'',
                   po_delivered_at := (case po_delivered_at r of None \<Rightarrow> Some resolved_at | Some t \<Rightarrow> Some t)\<rparr>
            else r) (pg_outbox db)\<rparr>)"

end
