(* ===== verification/WikiApi.thy ===== *)
theory WikiApi
  imports WikiModels Handler Throttle Uuid5 WikiMemory WikiPostgres
begin

text \<open>
  The public wiki API and the operator surface, \<open>src/app/routers/wiki.py\<close>, over any store of
  the \<open>WikiStore\<close> protocol (\<open>src/app/wiki/store.py\<close>). The state of the service is the store
  and the limiters. One request carries the two clock readings a handler may take, the random
  values it draws, and what Redis answers for each limiter key.
\<close>

section \<open>The runtime\<close>

record 's WikiStore =
  ws_execute :: "WikiCommand \<Rightarrow> 's \<Rightarrow> (wiki_exn + CommandReceipt) \<times> 's"
  ws_by_slug :: "pystr \<Rightarrow> bool \<Rightarrow> 's \<Rightarrow> PageState option"
  ws_list :: "pystr option \<Rightarrow> nat \<Rightarrow> nat \<Rightarrow> 's \<Rightarrow> PageState list"
  ws_history :: "pystr \<Rightarrow> nat \<Rightarrow> nat \<Rightarrow> 's \<Rightarrow> wiki_exn + StoredEvent list"
  ws_recent :: "nat \<Rightarrow> nat \<Rightarrow> 's \<Rightarrow> StoredEvent list"
  ws_revision :: "pystr \<Rightarrow> pystr \<Rightarrow> 's \<Rightarrow> wiki_exn + Revision option"
  ws_pending :: "nat \<Rightarrow> pystr option \<Rightarrow> 's \<Rightarrow> OutboxRecord list"
  ws_resolve :: "pystr \<Rightarrow> pystr \<Rightarrow> datetime \<Rightarrow> 's \<Rightarrow> bool \<times> 's"

record 's Service =
  sv_store :: 's
  sv_session :: "Limiter option"
  sv_mutation :: "Limiter option"
  sv_read :: "Limiter option"

record Env =
  en_now :: datetime
  en_later :: datetime
  en_mono :: int
  en_redis :: "pystr \<Rightarrow> bool \<times> RedisAnswer"
  en_uuid4 :: pystr
  en_csrf :: pystr

record Libs =
  lb_nfkc :: "pystr \<Rightarrow> pystr"
  lb_casefold :: "pystr \<Rightarrow> pystr"
  lb_isalnum :: "nat \<Rightarrow> bool"
  lb_render :: "pystr \<Rightarrow> pystr"
  lb_http_url :: "pystr \<Rightarrow> pystr option"
  lb_unified_diff :: "pystr \<Rightarrow> pystr \<Rightarrow> pystr \<Rightarrow> pystr \<Rightarrow> pystr"
  lb_foreign :: Foreign

record Runtime =
  rt_signer :: Signer
  rt_writes_enabled :: bool
  rt_secure_cookie :: bool
  rt_allowed_origins :: "pystr set"
  rt_moderation_key :: pystr
  rt_moderator_actor :: "(Request \<Rightarrow> pystr) option"
  rt_trust_proxy :: bool
  rt_libs :: Libs

section \<open>Slugs and identifiers\<close>

text \<open>\<open>re.sub(p, "-", s)\<close> for a run of characters\<close>

fun dash_runs :: "(nat \<Rightarrow> bool) \<Rightarrow> bool \<Rightarrow> pystr \<Rightarrow> pystr" where
  "dash_runs p inside [] = []"
| "dash_runs p inside (c # cs) =
     (if p c then (if inside then dash_runs p True cs else 45 # dash_runs p True cs)
      else c # dash_runs p False cs)"

definition reserved_slugs :: "pystr list" where
  "reserved_slugs = [str ''api'', str ''authority'', str ''canonical'', str ''history'',
     str ''recent-changes'', str ''session'']"

definition normalize_slug :: "Libs \<Rightarrow> pystr \<Rightarrow> wiki_exn + pystr" where
  "normalize_slug L value =
     (let s1 = lb_casefold L (strip (lb_nfkc L value));
          s2 = dash_runs (\<lambda>c. py_space c \<or> c = 95) False s1;
          s3 = filter (\<lambda>c. lb_isalnum L c \<or> c = 45) s2;
          s4 = strip_by (\<lambda>c. c = 45) (dash_runs (\<lambda>c. c = 45) False s3)
      in if s4 = [] \<or> 80 < length s4
         then Inl (WikiError (str ''invalid_slug'') (str ''slug must normalize to 1..80 characters'') 422)
         else if s4 \<in> set reserved_slugs
         then Inl (WikiError (str ''reserved_slug'') (str ''slug is reserved'') 422)
         else Inr s4)"

definition mk_command_id :: "Env \<Rightarrow> pystr \<Rightarrow> pystr option \<Rightarrow> wiki_exn + pystr" where
  "mk_command_id env actor key =
     (case key of
        None \<Rightarrow> Inr (str ''cmd:'' @ en_uuid4 env)
      | Some k \<Rightarrow>
          (if k = [] then Inr (str ''cmd:'' @ en_uuid4 env)
           else if 200 < length k
           then Inl (WikiError (str ''invalid_idempotency_key'') (str ''Idempotency-Key is too long'') 422)
           else case utf8_encode (actor @ 0 # k) of
             None \<Rightarrow> Inl PyUnicodeEncodeError
           | Some bs \<Rightarrow> Inr (str ''idem:'' @ hexdigest (sha256 bs))))"

text \<open>A command id is ASCII, so its bytes are its characters.\<close>

definition stable_id :: "pystr \<Rightarrow> pystr \<Rightarrow> pystr" where
  "stable_id cid purpose = uuid5 (map of_nat (str ''metahumotonic-wiki:'' @ cid @ 58 # purpose))"

section \<open>Guards\<close>

definition require_writes :: "Runtime \<Rightarrow> ('s, unit) handler" where
  "require_writes rt =
     (if rt_writes_enabled rt then hret ()
      else hfail (HttpError 503 (str ''wiki_writes_disabled'') (str ''community wiki writes are disabled'')))"

definition validate_origin :: "Runtime \<Rightarrow> Request \<Rightarrow> bool \<Rightarrow> ('s, unit) handler" where
  "validate_origin rt rq required =
     (let origin = or_empty (header rq ''origin'') in
      if origin = []
      then (if required
            then hfail (HttpError 403 (str ''origin_required'') (str ''Origin header is required''))
            else hret ())
      else if origin \<notin> rt_allowed_origins rt
      then hfail (HttpError 403 (str ''origin_forbidden'') (str ''request origin is not allowed''))
      else hret ())"

fun enforce_keys :: "Env \<Rightarrow> pystr \<Rightarrow> pystr list \<Rightarrow> Limiter \<Rightarrow> (http_exn + unit) \<times> Limiter" where
  "enforce_keys env msg [] li = (Inr (), li)"
| "enforce_keys env msg (key # keys) li =
     (case limiter_allow key (en_mono env) (fst (en_redis env key)) (snd (en_redis env key)) li of
        (Inl _, li') \<Rightarrow>
          (Inl (HttpError 503 (str ''rate_limit_unavailable'') (str ''wiki rate limiter is unavailable'')), li')
      | (Inr ok, li') \<Rightarrow>
          (if ok then enforce_keys env msg keys li'
           else (Inl (HttpError 429 (str ''rate_limited'') msg), li')))"

definition on_limiter ::
  "('s Service \<Rightarrow> Limiter option) \<Rightarrow> (Limiter option \<Rightarrow> 's Service \<Rightarrow> 's Service)
   \<Rightarrow> Env \<Rightarrow> pystr \<Rightarrow> pystr list \<Rightarrow> ('s Service, unit) handler" where
  "on_limiter get put env msg keys sv =
     (case get sv of
        None \<Rightarrow> (Inr (), sv)
      | Some li \<Rightarrow> (case enforce_keys env msg keys li of (r, li') \<Rightarrow> (r, put (Some li') sv)))"

definition request_rate :: pystr where
  "request_rate = str ''wiki request rate exceeded''"

definition limit_session :: "Env \<Rightarrow> pystr list \<Rightarrow> ('s Service, unit) handler" where
  "limit_session env = on_limiter sv_session (\<lambda>l sv. sv\<lparr>sv_session := l\<rparr>) env request_rate"

definition limit_mutation :: "Env \<Rightarrow> pystr \<Rightarrow> pystr list \<Rightarrow> ('s Service, unit) handler" where
  "limit_mutation env msg = on_limiter sv_mutation (\<lambda>l sv. sv\<lparr>sv_mutation := l\<rparr>) env msg"

definition limit_read :: "Env \<Rightarrow> pystr list \<Rightarrow> ('s Service, unit) handler" where
  "limit_read env = on_limiter sv_read (\<lambda>l sv. sv\<lparr>sv_read := l\<rparr>) env request_rate"

definition request_key :: "Runtime \<Rightarrow> Request \<Rightarrow> pystr" where
  "request_key rt rq = client_key (rt_trust_proxy rt) (rq_headers rq) (rq_host rq)"

definition cookie_name :: pystr where
  "cookie_name = str ''mhb_wiki_session''"

text \<open>
  Header values are decoded as Latin-1, where only the ASCII letters matter for the prefix.
\<close>

definition bearer_token :: "Request \<Rightarrow> pystr" where
  "bearer_token rq =
     (let authorization = or_empty (header rq ''authorization'') in
      if startswith (map lower_ascii authorization) (str ''bearer '')
      then strip (drop 7 authorization) else [])"

definition check_csrf :: "Request \<Rightarrow> SessionIdentity \<Rightarrow> wiki_exn + unit" where
  "check_csrf rq ident =
     bind_res (compare_digest (or_empty (header rq ''x-csrf-token'')) (si_csrf_token ident)) (\<lambda>same.
     if same then Inr ()
     else Inl (WikiError (str ''csrf_failed'') (str ''valid X-CSRF-Token header is required'') 403))"

definition identity_for ::
  "Runtime \<Rightarrow> Env \<Rightarrow> Request \<Rightarrow> pystr \<Rightarrow> ('s Service, SessionIdentity) handler" where
  "identity_for rt env rq required_scope =
     hbind (require_writes rt) (\<lambda>_.
     let bearer = bearer_token rq;
         token = (if bearer \<noteq> [] then bearer else or_empty (dict_get (rq_cookies rq) cookie_name))
     in if token = []
        then hfail (HttpError 401 (str ''session_required'') (str ''wiki session is required''))
        else
     hbind (hlift (wiki_http (verify (rt_signer rt) (lb_foreign (rt_libs rt)) token (en_now env)))) (\<lambda>ident.
     if required_scope \<notin> si_scopes ident
     then hfail (HttpError 403 (str ''insufficient_scope'') (str ''required scope: '' @ required_scope))
     else
     hbind (if bearer \<noteq> [] then validate_origin rt rq False
            else hbind (validate_origin rt rq True) (\<lambda>_. hlift (wiki_http (check_csrf rq ident)))) (\<lambda>_.
     hbind (limit_mutation env request_rate
              [str ''wiki:mutation:actor:'' @ si_actor_id ident,
               str ''wiki:mutation:ip:'' @ request_key rt rq]) (\<lambda>_.
     hret ident))))"

definition enforce_read :: "Runtime \<Rightarrow> Env \<Rightarrow> Request \<Rightarrow> string \<Rightarrow> ('s Service, unit) handler" where
  "enforce_read rt env rq surface =
     limit_read env [str ''wiki:read:'' @ str surface @ str '':ip:'' @ request_key rt rq]"

definition page_or_404 ::
  "Runtime \<Rightarrow> 's WikiStore \<Rightarrow> bool \<Rightarrow> pystr \<Rightarrow> ('s Service, PageState) handler" where
  "page_or_404 rt ws include_quarantined sl =
     hbind (hlift (wiki_http (normalize_slug (rt_libs rt) sl))) (\<lambda>normalized. \<lambda>sv.
     case ws_by_slug ws normalized include_quarantined (sv_store sv) of
       None \<Rightarrow> hfail (HttpError 404 (str ''page_not_found'') (str ''the page does not exist'')) sv
     | Some page \<Rightarrow> hret page sv)"

definition execute :: "'s WikiStore \<Rightarrow> WikiCommand \<Rightarrow> ('s Service, CommandResponse) handler" where
  "execute ws cmd sv =
     (case ws_execute ws cmd (sv_store sv) of
        (r, st) \<Rightarrow> (case r of
                     Inl x \<Rightarrow> Inl (http_error x)
                   | Inr receipt \<Rightarrow> Inr (command_response receipt), sv\<lparr>sv_store := st\<rparr>))"

section \<open>Public endpoints\<close>

record IndexResponse =
  ix_writes_enabled :: bool

text \<open>The cookie a new session sets, and the response headers, beside the body.\<close>

record Cookie =
  ck_name :: pystr
  ck_value :: pystr
  ck_max_age :: int
  ck_httponly :: bool
  ck_secure :: bool
  ck_samesite :: pystr
  ck_path :: pystr

datatype Reply =
    IndexReply IndexResponse
  | SessionReply SessionResponse Cookie
  | PagesReply "PageSummaryResponse list" int int "pystr option"
  | PageReply PageResponse
  | CommandReply int CommandResponse
  | EventsReply "EventResponse list" int int
  | DiffReply DiffResponse

definition index :: "Runtime \<Rightarrow> Env \<Rightarrow> Request \<Rightarrow> ('s Service, Reply) handler" where
  "index rt env rq =
     hbind (enforce_read rt env rq ''index'') (\<lambda>_.
     hret (IndexReply \<lparr>ix_writes_enabled = rt_writes_enabled rt\<rparr>))"

definition issue_session ::
  "Runtime \<Rightarrow> Env \<Rightarrow> Request \<Rightarrow> fields option \<Rightarrow> ('s Service, Reply) handler" where
  "issue_session rt env rq raw =
     (case (case raw of None \<Rightarrow> Some default_session_request
            | Some d \<Rightarrow> session_request (lb_http_url (rt_libs rt)) d) of
        None \<Rightarrow> hfail Invalid
      | Some body \<Rightarrow>
     hbind (require_writes rt) (\<lambda>_.
     hbind (validate_origin rt rq False) (\<lambda>_.
     hbind (limit_session env [str ''wiki:session:ip:'' @ request_key rt rq]) (\<lambda>_.
     let (token, ident) = issue (rt_signer rt) (str ''anonymous:'' @ en_uuid4 env)
            (sq_display_name body) (sq_actor_kind body) (sq_agent_url body) (en_csrf env) (en_now env);
         exposed = (if or_empty (header rq ''origin'') \<noteq> [] then None else Some token)
     in hret (SessionReply
          \<lparr>sr_actor_id = si_actor_id ident, sr_display_name = si_display_name ident,
           sr_actor_kind = si_actor_kind ident, sr_agent_url = si_agent_url ident,
           sr_access_token = exposed, sr_bearer_token = exposed,
           sr_csrf_token = si_csrf_token ident, sr_scopes = public_scopes,
           sr_expires_at = si_expires_at ident\<rparr>
          \<lparr>ck_name = cookie_name, ck_value = token,
           ck_max_age = max 0 (to_seconds (si_expires_at ident - en_later env)),
           ck_httponly = True, ck_secure = rt_secure_cookie rt, ck_samesite = str ''lax'',
           ck_path = str ''/api/wiki/v1''\<rparr>)))))"

definition page_window :: "int \<Rightarrow> int \<Rightarrow> bool" where
  "page_window limit offset \<longleftrightarrow> 1 \<le> limit \<and> limit \<le> 100 \<and> 0 \<le> offset \<and> offset \<le> 10000"

definition list_pages ::
  "Runtime \<Rightarrow> 's WikiStore \<Rightarrow> Env \<Rightarrow> Request \<Rightarrow> pystr option \<Rightarrow> int \<Rightarrow> int \<Rightarrow> ('s Service, Reply) handler" where
  "list_pages rt ws env rq q limit offset =
     (if \<not> page_window limit offset \<or> 200 < length (or_empty q) then hfail Invalid else
     hbind (enforce_read rt env rq ''pages'') (\<lambda>_. \<lambda>sv.
     hlift (wiki_http (bind_res
       (map_res page_summary_response (ws_list ws q (nat limit) (nat offset) (sv_store sv))) (\<lambda>items.
       Inr (PagesReply items limit offset q)))) sv))"

definition create_page ::
  "Runtime \<Rightarrow> 's WikiStore \<Rightarrow> Env \<Rightarrow> Request \<Rightarrow> fields \<Rightarrow> ('s Service, Reply) handler" where
  "create_page rt ws env rq raw =
     (case create_page_request raw of None \<Rightarrow> hfail Invalid | Some body \<Rightarrow>
     hbind (identity_for rt env rq (str ''wiki:edit'')) (\<lambda>ident.
     hbind (hlift (wiki_http (mk_command_id env (si_actor_id ident) (header rq ''idempotency-key'')))) (\<lambda>cid.
     hbind (hlift (wiki_http (normalize_slug (rt_libs rt) (cr_slug body)))) (\<lambda>sl.
     hbind (execute ws (CreatePage cid (si_actor_id ident) (si_scopes ident) (en_later env)
         (stable_id cid (str ''page'')) (stable_id cid (str ''revision'')) sl (cr_title body)
         (cr_content body) (cr_edit_summary body))) (\<lambda>r.
     hret (CommandReply 201 r))))))"

definition recent_changes ::
  "Runtime \<Rightarrow> 's WikiStore \<Rightarrow> Env \<Rightarrow> Request \<Rightarrow> int \<Rightarrow> int \<Rightarrow> ('s Service, Reply) handler" where
  "recent_changes rt ws env rq limit offset =
     (if \<not> page_window limit offset then hfail Invalid else
     hbind (enforce_read rt env rq ''recent'') (\<lambda>_. \<lambda>sv.
     hret (EventsReply (map event_response (ws_recent ws (nat limit) (nat offset) (sv_store sv)))
       limit offset) sv))"

definition get_page ::
  "Runtime \<Rightarrow> 's WikiStore \<Rightarrow> Env \<Rightarrow> Request \<Rightarrow> pystr \<Rightarrow> ('s Service, Reply) handler" where
  "get_page rt ws env rq sl =
     hbind (enforce_read rt env rq ''page'') (\<lambda>_.
     hbind (page_or_404 rt ws False sl) (\<lambda>page.
     hbind (hlift (wiki_http (page_response (lb_render (rt_libs rt)) page))) (\<lambda>r.
     hret (PageReply r))))"

text \<open>Both the \<open>POST .../revisions\<close> and the \<open>PUT\<close> route.\<close>

definition edit_page ::
  "Runtime \<Rightarrow> 's WikiStore \<Rightarrow> Env \<Rightarrow> Request \<Rightarrow> pystr \<Rightarrow> fields \<Rightarrow> ('s Service, Reply) handler" where
  "edit_page rt ws env rq sl raw =
     (case edit_page_request raw of None \<Rightarrow> hfail Invalid | Some body \<Rightarrow>
     hbind (identity_for rt env rq (str ''wiki:edit'')) (\<lambda>ident.
     hbind (page_or_404 rt ws False sl) (\<lambda>page.
     hbind (hlift (wiki_http (mk_command_id env (si_actor_id ident) (header rq ''idempotency-key'')))) (\<lambda>cid.
     hbind (execute ws (EditPage cid (si_actor_id ident) (si_scopes ident) (en_later env)
         (ps_page_id page) (stable_id cid (str ''revision'')) (eq_expected_head body)
         (case eq_title body of Some t \<Rightarrow> t | None \<Rightarrow> ps_title page)
         (eq_content body) (eq_edit_summary body))) (\<lambda>r.
     hret (CommandReply 200 r))))))"

definition history ::
  "Runtime \<Rightarrow> 's WikiStore \<Rightarrow> Env \<Rightarrow> Request \<Rightarrow> pystr \<Rightarrow> int \<Rightarrow> int \<Rightarrow> ('s Service, Reply) handler" where
  "history rt ws env rq sl limit offset =
     (if \<not> page_window limit offset then hfail Invalid else
     hbind (enforce_read rt env rq ''history'') (\<lambda>_.
     hbind (page_or_404 rt ws False sl) (\<lambda>page. \<lambda>sv.
     hlift (wiki_http (bind_res (ws_history ws (ps_page_id page) (nat limit) (nat offset) (sv_store sv)) (\<lambda>es.
       Inr (EventsReply (map event_response es) limit offset)))) sv)))"

definition diff ::
  "Runtime \<Rightarrow> 's WikiStore \<Rightarrow> Env \<Rightarrow> Request \<Rightarrow> pystr \<Rightarrow> pystr \<Rightarrow> pystr \<Rightarrow> ('s Service, Reply) handler" where
  "diff rt ws env rq sl old new =
     (if \<not> (1 \<le> length old \<and> length old \<le> 128 \<and> 1 \<le> length new \<and> length new \<le> 128)
      then hfail Invalid else
     hbind (enforce_read rt env rq ''diff'') (\<lambda>_.
     hbind (page_or_404 rt ws False sl) (\<lambda>page. \<lambda>sv.
     hlift (wiki_http (
       bind_res (ws_revision ws (ps_page_id page) old (sv_store sv)) (\<lambda>before.
       bind_res (ws_revision ws (ps_page_id page) new (sv_store sv)) (\<lambda>after.
       case (before, after) of
         (Some b, Some a) \<Rightarrow> Inr (DiffReply \<lparr>df_page_id = ps_page_id page, df_slug = ps_slug page,
             df_from_revision_id = old, df_to_revision_id = new,
             df_unified_diff = lb_unified_diff (rt_libs rt) (rv_content b) (rv_content a) old new\<rparr>)
       | _ \<Rightarrow> Inl (WikiError (str ''revision_not_found'')
                    (str ''one or more revisions do not exist'') 404))))) sv)))"

definition or_else :: "pystr option \<Rightarrow> pystr \<Rightarrow> pystr" where
  "or_else s t = (case s of None \<Rightarrow> t | Some u \<Rightarrow> if u = [] then t else u)"

definition submit_review ::
  "Runtime \<Rightarrow> 's WikiStore \<Rightarrow> Env \<Rightarrow> Request \<Rightarrow> pystr \<Rightarrow> fields \<Rightarrow> ('s Service, Reply) handler" where
  "submit_review rt ws env rq sl raw =
     (case submit_review_request raw of None \<Rightarrow> hfail Invalid | Some body \<Rightarrow>
     hbind (identity_for rt env rq (str ''wiki:submit'')) (\<lambda>ident.
     hbind (page_or_404 rt ws False sl) (\<lambda>page.
     hbind (hlift (wiki_http (mk_command_id env (si_actor_id ident) (header rq ''idempotency-key'')))) (\<lambda>cid.
     hbind (execute ws (SubmitReview cid (si_actor_id ident) (si_scopes ident) (en_later env)
         (ps_page_id page) (stable_id cid (str ''submission''))
         (or_else (sb_revision_id body) (ps_head_revision_id page))
         (or_else (sb_content_hash body) (ps_content_hash page)) (sb_note body))) (\<lambda>r.
     hret (CommandReply 202 r))))))"

definition report_page ::
  "Runtime \<Rightarrow> 's WikiStore \<Rightarrow> Env \<Rightarrow> Request \<Rightarrow> pystr \<Rightarrow> fields \<Rightarrow> ('s Service, Reply) handler" where
  "report_page rt ws env rq sl raw =
     (case report_request raw of None \<Rightarrow> hfail Invalid | Some why \<Rightarrow>
     hbind (identity_for rt env rq (str ''wiki:report'')) (\<lambda>ident.
     hbind (page_or_404 rt ws False sl) (\<lambda>page.
     hbind (hlift (wiki_http (mk_command_id env (si_actor_id ident) (header rq ''idempotency-key'')))) (\<lambda>cid.
     hbind (execute ws (ReportPage cid (si_actor_id ident) (si_scopes ident) (en_later env)
         (ps_page_id page) (stable_id cid (str ''report'')) why)) (\<lambda>r.
     hret (CommandReply 202 r))))))"

text \<open>The routes of the public API.\<close>

datatype Call =
    GetIndex
  | PostSession "fields option"
  | GetPages "pystr option" int int
  | PostPage fields
  | GetRecent int int
  | GetPage pystr
  | PostRevision pystr fields
  | GetHistory pystr int int
  | GetDiff pystr pystr pystr
  | PostSubmit pystr fields
  | PostReport pystr fields

fun respond :: "Runtime \<Rightarrow> 's WikiStore \<Rightarrow> Env \<Rightarrow> Request \<Rightarrow> Call \<Rightarrow> ('s Service, Reply) handler" where
  "respond rt ws env rq GetIndex = index rt env rq"
| "respond rt ws env rq (PostSession d) = issue_session rt env rq d"
| "respond rt ws env rq (GetPages q l k) = list_pages rt ws env rq q l k"
| "respond rt ws env rq (PostPage d) = create_page rt ws env rq d"
| "respond rt ws env rq (GetRecent l k) = recent_changes rt ws env rq l k"
| "respond rt ws env rq (GetPage sl) = get_page rt ws env rq sl"
| "respond rt ws env rq (PostRevision sl d) = edit_page rt ws env rq sl d"
| "respond rt ws env rq (GetHistory sl l k) = history rt ws env rq sl l k"
| "respond rt ws env rq (GetDiff sl a b) = diff rt ws env rq sl a b"
| "respond rt ws env rq (PostSubmit sl d) = submit_review rt ws env rq sl d"
| "respond rt ws env rq (PostReport sl d) = report_page rt ws env rq sl d"

section \<open>The operator surface\<close>

definition moderator_for :: "Runtime \<Rightarrow> Env \<Rightarrow> Request \<Rightarrow> ('s Service, pystr) handler" where
  "moderator_for rt env rq =
     (if \<not> rt_writes_enabled rt \<or> rt_moderation_key rt = [] \<or> rt_moderator_actor rt = None
      then hfail (HttpError 503 (str ''moderation_disabled'') (str ''wiki moderation is not configured''))
      else
     hbind (hlift (wiki_http (compare_digest (or_empty (header rq ''x-wiki-moderator-key''))
              (rt_moderation_key rt)))) (\<lambda>same.
     if \<not> same
     then hfail (HttpError 403 (str ''moderator_auth_failed'') (str ''valid moderator credentials are required''))
     else let actor = strip (the (rt_moderator_actor rt) rq) in
     if actor = []
     then hfail (HttpError 503 (str ''moderator_identity_unavailable'')
                   (str ''moderator identity could not be derived''))
     else
     hbind (limit_mutation env (str ''wiki moderation rate exceeded'')
              [str ''wiki:moderation:actor:'' @ actor,
               str ''wiki:moderation:ip:'' @ request_key rt rq]) (\<lambda>_.
     hret actor)))"

datatype OperatorReply =
    ReportsReply "ModerationReportResponse list" int
  | ResolvedReply pystr
  | OperatorPageReply ModerationPageResponse
  | ModeratedReply CommandResponse

definition reports :: "Runtime \<Rightarrow> 's WikiStore \<Rightarrow> Env \<Rightarrow> Request \<Rightarrow> int \<Rightarrow> ('s Service, OperatorReply) handler" where
  "reports rt ws env rq limit =
     (if \<not> (1 \<le> limit \<and> limit \<le> 100) then hfail Invalid else
     hbind (moderator_for rt env rq) (\<lambda>_. \<lambda>sv.
     hret (ReportsReply (map moderation_report_response
       (ws_pending ws (nat limit) (Some (str ''moderation_report_requested'')) (sv_store sv))) limit) sv))"

definition resolve_report ::
  "Runtime \<Rightarrow> 's WikiStore \<Rightarrow> Env \<Rightarrow> Request \<Rightarrow> pystr \<Rightarrow> ('s Service, OperatorReply) handler" where
  "resolve_report rt ws env rq eid =
     hbind (moderator_for rt env rq) (\<lambda>_. \<lambda>sv.
     case ws_resolve ws eid (str ''moderation_report_requested'') (en_later env) (sv_store sv) of
       (resolved, st) \<Rightarrow>
         (if \<not> resolved
          then hfail (HttpError 404 (str ''report_not_found'') (str ''the moderation report does not exist''))
          else hret (ResolvedReply eid)) (sv\<lparr>sv_store := st\<rparr>))"

definition get_operator_page ::
  "Runtime \<Rightarrow> 's WikiStore \<Rightarrow> Env \<Rightarrow> Request \<Rightarrow> pystr \<Rightarrow> ('s Service, OperatorReply) handler" where
  "get_operator_page rt ws env rq sl =
     hbind (moderator_for rt env rq) (\<lambda>_.
     hbind (page_or_404 rt ws True sl) (\<lambda>page.
     hbind (hlift (wiki_http (moderation_page_response page))) (\<lambda>r.
     hret (OperatorPageReply r))))"

definition moderation_command ::
  "Runtime \<Rightarrow> 's WikiStore \<Rightarrow> Env \<Rightarrow> Request \<Rightarrow> pystr \<Rightarrow> bool \<Rightarrow> ModerationRequest
   \<Rightarrow> ('s Service, OperatorReply) handler" where
  "moderation_command rt ws env rq sl quarantine body =
     hbind (moderator_for rt env rq) (\<lambda>actor.
     hbind (page_or_404 rt ws True sl) (\<lambda>page.
     hbind (hlift (wiki_http (mk_command_id env actor (header rq ''idempotency-key'')))) (\<lambda>cid.
     hbind (execute ws
       ((if quarantine then QuarantinePage else ReleasePage) cid actor {str ''wiki:moderate''}
          (en_later env) (ps_page_id page) (stable_id cid (str ''moderation''))
          (mq_expected_head body) (mq_content_hash body) (mq_text body))) (\<lambda>r.
     hret (ModeratedReply r)))))"

definition quarantine_page ::
  "Runtime \<Rightarrow> 's WikiStore \<Rightarrow> Env \<Rightarrow> Request \<Rightarrow> pystr \<Rightarrow> fields \<Rightarrow> ('s Service, OperatorReply) handler" where
  "quarantine_page rt ws env rq sl raw =
     (case quarantine_request raw of None \<Rightarrow> hfail Invalid
      | Some body \<Rightarrow> moderation_command rt ws env rq sl True body)"

definition release_page ::
  "Runtime \<Rightarrow> 's WikiStore \<Rightarrow> Env \<Rightarrow> Request \<Rightarrow> pystr \<Rightarrow> fields \<Rightarrow> ('s Service, OperatorReply) handler" where
  "release_page rt ws env rq sl raw =
     (case release_request raw of None \<Rightarrow> hfail Invalid
      | Some body \<Rightarrow> moderation_command rt ws env rq sl False body)"

section \<open>The stores of the program\<close>

definition memory_ops :: "(pystr \<Rightarrow> pystr) \<Rightarrow> MemStore WikiStore" where
  "memory_ops casefold = \<lparr>
     ws_execute = mem_execute,
     ws_by_slug = mem_get_page_by_slug,
     ws_list = mem_list_pages casefold,
     ws_history = (\<lambda>pid limit offset st. Inr (mem_history pid limit offset st)),
     ws_recent = mem_recent_changes,
     ws_revision = mem_get_revision,
     ws_pending = mem_pending_outbox,
     ws_resolve = mem_resolve_outbox\<rparr>"

definition postgres_ops ::
  "(pystr \<Rightarrow> pystr) \<Rightarrow> (pystr \<Rightarrow> pystr) \<Rightarrow> datetime \<Rightarrow> PgDb WikiStore" where
  "postgres_ops low coll now = \<lparr>
     ws_execute = pg_execute,
     ws_by_slug = pg_get_page_by_slug,
     ws_list = pg_list_pages low,
     ws_history = pg_history,
     ws_recent = pg_recent_changes coll,
     ws_revision = pg_get_revision,
     ws_pending = pg_pending_outbox coll now,
     ws_resolve = pg_resolve_outbox\<rparr>"

end
