(* ===== verification/WikiPostgresProps.thy ===== *)
theory WikiPostgresProps
  imports WikiPostgres
begin

text \<open>
  The PostgreSQL adapter is correct: its tables keep their keys, its page rows are the
  replays of their events, it satisfies the contract of a store, and running the two halves
  of a command on different committed states is running it on the later one.
\<close>

section \<open>What each statement did\<close>

lemma as_uuid_Inr [res_simps]: "as_uuid s = Inr u \<longleftrightarrow> uuid_canon s = Some u"
  by (auto simp: as_uuid_def split: option.splits)

definition event_fits :: "int \<Rightarrow> WikiEvent \<Rightarrow> pystr \<Rightarrow> PgDb \<Rightarrow> bool" where
  "event_fits i e pid db \<longleftrightarrow> uuid_canon (ev_page_id e) = Some pid \<and> 0 < i
     \<and> pg_text (ev_event_id e) \<and> pg_text (ev_command_id e) \<and> pg_text (ev_event_type e)
     \<and> pg_text (ev_actor_id e) \<and> pg_json (ev_data e) \<and> ev_schema_version e = 1
     \<and> (\<forall>r \<in> set (pg_events db). \<not> (ev_page_id (se_event r) = pid \<and> se_index r = i))
     \<and> (\<forall>r \<in> set (pg_events db). ev_event_id (se_event r) \<noteq> ev_event_id e)"

lemma insert_event_Inr:
  "insert_event i e db = Inr db' \<longleftrightarrow>
     (\<exists>pid. event_fits i e pid db \<and> db' = db\<lparr>pg_events := pg_events db @
        [\<lparr>se_index = i, se_event = e\<lparr>ev_page_id := pid\<rparr>\<rparr>]\<rparr>)"
  by (cases "uuid_canon (ev_page_id e)")
    (auto simp: insert_event_def as_uuid_def event_fits_def split: if_splits)

definition row_of :: "pystr \<Rightarrow> pystr \<Rightarrow> PageState \<Rightarrow> PageState" where
  "row_of pid rid p = p\<lparr>ps_page_id := pid, ps_head_revision_id := rid,
     ps_authority := str ''community''\<rparr>"

definition page_fits :: "PageState \<Rightarrow> pystr \<Rightarrow> pystr \<Rightarrow> PgDb \<Rightarrow> bool" where
  "page_fits p pid rid db \<longleftrightarrow> uuid_canon (ps_page_id p) = Some pid
     \<and> uuid_canon (ps_head_revision_id p) = Some rid \<and> page_texts p
     \<and> page_checks (row_of pid rid p) = Inr ()
     \<and> (\<forall>r \<in> set (pg_pages db). ps_page_id r \<noteq> pid \<and> ps_slug r \<noteq> ps_slug p)"

lemma insert_page_Inr:
  "insert_page p db = Inr db' \<longleftrightarrow> (\<exists>pid rid. page_fits p pid rid db
     \<and> db' = db\<lparr>pg_pages := pg_pages db @ [row_of pid rid p]\<rparr>)"
  by (cases "uuid_canon (ps_page_id p)"; cases "uuid_canon (ps_head_revision_id p)")
    (auto simp: insert_page_def as_uuid_def page_fits_def row_of_def res_simps Let_def split: if_splits)

lemma update_page_Inr:
  "update_page p n db = Inr (k, db') \<longleftrightarrow> (\<exists>pid rid. uuid_canon (ps_page_id p) = Some pid
     \<and> uuid_canon (ps_head_revision_id p) = Some rid \<and> page_texts p
     \<and> (\<forall>row \<in> set (pg_pages db). ps_page_id row = pid \<and> ps_stream_version row = n \<longrightarrow>
          page_checks (updated_row p rid row) = Inr ())
     \<and> k = length (filter (\<lambda>row. ps_page_id row = pid \<and> ps_stream_version row = n) (pg_pages db))
     \<and> db' = db\<lparr>pg_pages := map (\<lambda>row. if ps_page_id row = pid \<and> ps_stream_version row = n
                 then updated_row p rid row else row) (pg_pages db)\<rparr>)"
proof -
  have unit: "(\<exists>us. map_res f rows = Inr us) \<longleftrightarrow> (\<forall>row \<in> set rows. f row = Inr ())"
    for f :: "PageState \<Rightarrow> wiki_exn + unit" and rows
    by (induction rows) (auto simp: res_simps)
  have const: "bind_res r (\<lambda>_. Inr x) = Inr y \<longleftrightarrow> (\<exists>u. r = Inr u) \<and> x = y"
    for r :: "wiki_exn + unit list" and x y :: "nat \<times> PgDb"
    by (auto simp: bind_res_Inr)
  show ?thesis
    by (cases "uuid_canon (ps_page_id p)"; cases "uuid_canon (ps_head_revision_id p)"; cases "page_texts p")
      (auto simp: update_page_def as_uuid_def const unit Let_def)
qed

lemma insert_receipt_Inr:
  "insert_receipt r db = Inr db' \<longleftrightarrow> pg_text (pr_command_id r)
     \<and> (\<forall>q \<in> set (pg_receipts db). pr_command_id q \<noteq> pr_command_id r)
     \<and> db' = db\<lparr>pg_receipts := pg_receipts db @ [r]\<rparr>"
  by (auto simp: insert_receipt_def split: if_splits)

text \<open>The effects only touch the outbox, where they keep the keys apart.\<close>

definition outbox_key :: "PgOutbox \<Rightarrow> pystr" where
  "outbox_key r = ef_effect_id (po_effect r)"

lemma insert_outbox_Inr:
  "insert_outbox now f db = Inr db' \<Longrightarrow>
    (\<exists>ob. db' = db\<lparr>pg_outbox := ob\<rparr> \<and> (distinct (map outbox_key (pg_outbox db)) \<longrightarrow> distinct (map outbox_key ob))
       \<and> set (pg_outbox db) \<subseteq> set ob \<and> (\<exists>r \<in> set ob. outbox_key r = ef_effect_id f))"
  by (cases "\<exists>r \<in> set (pg_outbox db). ef_effect_id (po_effect r) = ef_effect_id f")
    (auto simp: insert_outbox_def outbox_key_def split: if_splits
      intro!: exI [of _ "pg_outbox db'"], metis+)

lemma pg_store_effects_Inr:
  "pg_store_effects now fs db = Inr db' \<Longrightarrow>
    \<exists>ob. db' = db\<lparr>pg_outbox := ob\<rparr>
      \<and> (distinct (map outbox_key (pg_outbox db)) \<longrightarrow> distinct (map outbox_key ob))
      \<and> set (pg_outbox db) \<subseteq> set ob \<and> (\<forall>f \<in> set fs. \<exists>r \<in> set ob. outbox_key r = ef_effect_id f)"
proof (induction fs arbitrary: db)
  case Nil
  then show ?case by (intro exI [of _ "pg_outbox db"]) simp
next
  case (Cons f fs)
  then obtain db1 where db1: "insert_outbox now f db = Inr db1" "pg_store_effects now fs db1 = Inr db'"
    by (auto simp: res_simps)
  from insert_outbox_Inr [OF db1(1)] Cons.IH [OF db1(2)] show ?case by fastforce
qed

text \<open>What a committed command did: the decided event appended, the page row written, receipt kept.\<close>

record Committed =
  cm_decision :: Decision
  cm_event :: WikiEvent
  cm_next :: PageState
  cm_page_id :: pystr
  cm_revision_id :: pystr

definition applied ::
  "WikiCommand \<Rightarrow> pystr \<Rightarrow> PageState option \<Rightarrow> PgDb \<Rightarrow> Committed \<Rightarrow> CommandReceipt \<Rightarrow> PgDb \<Rightarrow> bool" where
  "applied cmd fp st db c r db' \<longleftrightarrow>
     decide st cmd = Inr (cm_decision c) \<and> dc_events (cm_decision c) = [cm_event c]
   \<and> evolve st (cm_event c) = Inr (cm_next c)
   \<and> uuid_canon (page_id cmd) = Some (cm_page_id c)
   \<and> uuid_canon (ps_head_revision_id (cm_next c)) = Some (cm_revision_id c)
   \<and> event_fits (version_of st + 1) (cm_event c) (cm_page_id c) db
   \<and> pg_events db' = pg_events db @ [\<lparr>se_index = version_of st + 1,
        se_event = (cm_event c)\<lparr>ev_page_id := cm_page_id c\<rparr>\<rparr>]
   \<and> (if is_CreatePage cmd
      then page_fits (cm_next c) (cm_page_id c) (cm_revision_id c) db
         \<and> pg_pages db' = pg_pages db @ [row_of (cm_page_id c) (cm_revision_id c) (cm_next c)]
      else (\<forall>row \<in> set (pg_pages db). ps_page_id row = cm_page_id c \<and> ps_stream_version row = version_of st
             \<longrightarrow> page_checks (updated_row (cm_next c) (cm_revision_id c) row) = Inr ())
         \<and> length (filter (\<lambda>row. ps_page_id row = cm_page_id c
                \<and> ps_stream_version row = version_of st) (pg_pages db)) = 1
         \<and> pg_pages db' = map (\<lambda>row. if ps_page_id row = cm_page_id c
                \<and> ps_stream_version row = version_of st
              then updated_row (cm_next c) (cm_revision_id c) row else row) (pg_pages db))
   \<and> (\<forall>q \<in> set (pg_receipts db). pr_command_id q \<noteq> command_id cmd)
   \<and> pg_receipts db' = pg_receipts db @ [\<lparr>pr_command_id = command_id cmd, pr_fingerprint = fp,
        pr_page_id = cm_page_id c, pr_stream_version = ps_stream_version (cm_next c),
        pr_event_ids = [ev_event_id (cm_event c)], pr_created_at = occurred_at cmd\<rparr>]
   \<and> (distinct (map outbox_key (pg_outbox db)) \<longrightarrow> distinct (map outbox_key (pg_outbox db')))
   \<and> set (pg_outbox db) \<subseteq> set (pg_outbox db')
   \<and> (\<forall>f \<in> set (dc_effects (cm_decision c)). \<exists>q \<in> set (pg_outbox db'). outbox_key q = ef_effect_id f)
   \<and> r = \<lparr>rc_command_id = command_id cmd, rc_fingerprint = fp, rc_page_id = page_id cmd,
          rc_stream_version = ps_stream_version (cm_next c),
          rc_event_ids = [ev_event_id (cm_event c)], rc_replayed = False\<rparr>"

lemma evolve_page_id:
  assumes "decide st cmd = Inr d" and "e \<in> set (dc_events d)" and "evolve st e = Inr s"
  shows "ps_page_id s = (case st of None \<Rightarrow> page_id cmd | Some s0 \<Rightarrow> ps_page_id s0)"
proof (cases st)
  case None
  with assms decide_event_ids [OF assms(1)] show ?thesis
    by (auto simp: evolve_defs res_simps split: if_splits)
next
  case (Some s0)
  with assms evolve_frame show ?thesis by auto
qed

lemma pg_apply_Inr:
  assumes "pg_apply cmd fp st db = Inr (r, db')"
    and st: "\<forall>s. st = Some s \<longrightarrow> uuid_canon (ps_page_id s) = uuid_canon (page_id cmd)"
  shows "\<exists>c. applied cmd fp st db c r db'"
proof -
  from assms(1) obtain d st' db1 where d: "decide st cmd = Inr d"
    and ev: "pg_apply_events (version_of st) st (dc_events d) db = Inr (st', db1)"
    by (auto simp: pg_apply_def Let_def res_simps version_of_def)
  from decide_one_event [OF d] obtain e where e: "dc_events d = [e]" by blast
  from ev e obtain s' pid where s': "evolve st e = Inr s'" "st' = Some s'"
    and fits: "event_fits (version_of st + 1) e pid db"
    and db1: "db1 = db\<lparr>pg_events := pg_events db @ [\<lparr>se_index = version_of st + 1,
        se_event = e\<lparr>ev_page_id := pid\<rparr>\<rparr>]\<rparr>"
    by (auto simp: bind_res_Inr insert_event_Inr)
  from assms(1) d ev s' e obtain db2 db3 pid' where
    db2: "pg_store_page cmd s' (version_of st) db1 = Inr db2"
    and db3: "pg_store_effects (occurred_at cmd) (dc_effects d) db2 = Inr db3"
    and pid': "uuid_canon (page_id cmd) = Some pid'"
    and db4: "insert_receipt \<lparr>pr_command_id = command_id cmd, pr_fingerprint = fp, pr_page_id = pid',
        pr_stream_version = ps_stream_version s', pr_event_ids = [ev_event_id e],
        pr_created_at = occurred_at cmd\<rparr> db3 = Inr db'"
    and r: "r = \<lparr>rc_command_id = command_id cmd, rc_fingerprint = fp, rc_page_id = page_id cmd,
          rc_stream_version = ps_stream_version s', rc_event_ids = [ev_event_id e], rc_replayed = False\<rparr>"
    by (auto simp: pg_apply_def Let_def bind_res_Inr version_of_def as_uuid_Inr)
  have pid: "pid' = pid" using fits pid' decide_event_ids [OF d] e by (simp add: event_fits_def)
  have sid: "uuid_canon (ps_page_id s') = Some pid"
    using evolve_page_id [OF d _ s'(1)] e st pid' pid by (auto split: option.splits)
  let ?c = "\<lambda>rid. \<lparr>cm_decision = d, cm_event = e, cm_next = s', cm_page_id = pid, cm_revision_id = rid\<rparr>"
  from pg_store_effects_Inr [OF db3] obtain ob where ob: "db3 = db2\<lparr>pg_outbox := ob\<rparr>"
    "distinct (map outbox_key (pg_outbox db2)) \<longrightarrow> distinct (map outbox_key ob)"
    "set (pg_outbox db2) \<subseteq> set ob" "\<forall>f \<in> set (dc_effects d). \<exists>q \<in> set ob. outbox_key q = ef_effect_id f"
    by blast
  show ?thesis
  proof (cases "is_CreatePage cmd")
    case True
    with db2 obtain rid where "page_fits s' pid rid db1"
      "db2 = db1\<lparr>pg_pages := pg_pages db1 @ [row_of pid rid s']\<rparr>"
      using sid by (auto simp: pg_store_page_def insert_page_Inr page_fits_def split: sum.splits if_splits)
    with True d e s' fits db1 db4 ob r pid pid' show ?thesis
      by (intro exI [of _ "?c rid"]) (simp add: applied_def insert_receipt_Inr page_fits_def)
  next
    case False
    with db2 obtain k where k: "update_page s' (version_of st) db1 = Inr (k, db2)" "k = 1"
      by (auto simp: pg_store_page_def bind_res_Inr split: if_splits)
    from k(1) sid obtain rid where "uuid_canon (ps_head_revision_id s') = Some rid"
      "\<forall>row \<in> set (pg_pages db1). ps_page_id row = pid \<and> ps_stream_version row = version_of st \<longrightarrow>
          page_checks (updated_row s' rid row) = Inr ()"
      "k = length (filter (\<lambda>row. ps_page_id row = pid \<and> ps_stream_version row = version_of st) (pg_pages db1))"
      "db2 = db1\<lparr>pg_pages := map (\<lambda>row. if ps_page_id row = pid \<and> ps_stream_version row = version_of st
                 then updated_row s' rid row else row) (pg_pages db1)\<rparr>"
      unfolding update_page_Inr by auto
    with False d e s' fits db1 db4 ob r pid pid' k(2) show ?thesis
      by (intro exI [of _ "?c rid"]) (simp add: applied_def insert_receipt_Inr)
  qed
qed

section \<open>The table invariant\<close>

definition pg_stream :: "PgDb \<Rightarrow> pystr \<Rightarrow> StoredEvent list" where
  "pg_stream db pid = filter (\<lambda>r. ev_page_id (se_event r) = pid) (pg_events db)"

definition row_ok :: "PgDb \<Rightarrow> PageState \<Rightarrow> bool" where
  "row_ok db p \<longleftrightarrow> page_ok p \<and> stream_ok p (pg_stream db (ps_page_id p))
     \<and> uuid_canon (ps_page_id p) = Some (ps_page_id p)
     \<and> uuid_canon (ps_head_revision_id p) = Some (ps_head_revision_id p)"

definition pg_inv :: "PgDb \<Rightarrow> bool" where
  "pg_inv db \<longleftrightarrow> distinct (map ps_page_id (pg_pages db)) \<and> distinct (map ps_slug (pg_pages db))
     \<and> (\<forall>p \<in> set (pg_pages db). row_ok db p)
     \<and> (\<forall>r \<in> set (pg_events db). \<exists>p \<in> set (pg_pages db). ps_page_id p = ev_page_id (se_event r))
     \<and> distinct (map (\<lambda>r. ev_event_id (se_event r)) (pg_events db))
     \<and> distinct (map pr_command_id (pg_receipts db))
     \<and> distinct (map outbox_key (pg_outbox db))"

text \<open>Commands whose ids are written in canonical form, as the router makes them.\<close>

definition canonical :: "WikiCommand \<Rightarrow> bool" where
  "canonical cmd \<longleftrightarrow> uuid_canon (page_id cmd) = Some (page_id cmd)
     \<and> (is_CreatePage cmd \<or> is_EditPage cmd \<longrightarrow> uuid_canon (revision_id cmd) = Some (revision_id cmd))"

lemma distinct_find:
  assumes "distinct (map k xs)" and "x \<in> set xs"
  shows "find (\<lambda>y. k y = k x) xs = Some x" and "filter (\<lambda>y. k y = k x) xs = [x]"
  using assms by (induction xs) (auto simp: image_iff filter_empty_conv)

lemma distinct_keyD:
  "distinct (map k xs) \<Longrightarrow> x \<in> set xs \<Longrightarrow> y \<in> set xs \<Longrightarrow> k x = k y \<Longrightarrow> x = y"
  by (auto simp: distinct_map dest: inj_onD)

lemma select_page_row:
  "select_page pid db = Some p \<Longrightarrow> p \<in> set (pg_pages db) \<and> ps_page_id p = pid"
  by (auto simp: select_page_def find_Some_iff)

lemma page_ok_row: "page_ok p \<Longrightarrow> page_from_row p = p"
  by (cases p) (simp add: page_ok_def page_from_row_def)

lemma evolve_head:
  assumes "decide st cmd = Inr d" and "dc_events d = [e]" and "evolve st e = Inr s"
  shows "ps_head_revision_id s = (if is_CreatePage cmd \<or> is_EditPage cmd then revision_id cmd
     else ps_head_revision_id (the st))"
proof (cases st)
  case None
  with assms decide_None_Inr [of cmd d] decide_create_Inr [of st cmd d] show ?thesis by auto
next
  case (Some s0)
  note d = assms(1) [unfolded Some]
  consider "is_CreatePage cmd" | "is_EditPage cmd" | "is_SubmitReview cmd" | "is_ReportPage cmd"
    | "is_QuarantinePage cmd \<or> is_ReleasePage cmd" by (cases cmd) auto
  then show ?thesis
  proof cases
    case 1
    with decide_create_Inr [OF d] show ?thesis by simp
  next
    case 2
    with decide_edit_Inr [OF d] assms Some show ?thesis by auto
  next
    case 3
    with decide_submit_Inr [OF d 3] assms Some show ?thesis by (cases cmd) auto
  next
    case 4
    with decide_report_Inr [OF d 4] assms Some show ?thesis by (cases cmd) auto
  next
    case 5
    with decide_moderation_Inr [OF d 5] assms Some show ?thesis by (cases cmd) auto
  qed
qed

text \<open>What a command did, from \<open>execute\<close>'s view: a retry, or an applied decision.\<close>

definition selected_state :: "WikiCommand \<Rightarrow> PgDb \<Rightarrow> PageState option" where
  "selected_state cmd db = (if is_CreatePage cmd then None
     else map_option page_from_row (select_page (the (uuid_canon (page_id cmd))) db))"

lemma pg_execute_Inr:
  assumes "pg_execute cmd db = (Inr r, db')" and can: "uuid_canon (page_id cmd) = Some (page_id cmd)"
  obtains (retry) prior where "select_receipt (command_id cmd) db = Some prior" "pg_text (command_id cmd)"
      "intent_fingerprint cmd = Inr (pr_fingerprint prior)" "r = receipt_of_row True prior" "db' = db"
    | (applied) fp c where "intent_fingerprint cmd = Inr fp" "pg_text (command_id cmd)"
      "select_receipt (command_id cmd) db = None"
      "applied cmd fp (selected_state cmd db) db c r db'" "new_events_have_pages db db'"
proof -
  from assms(1) obtain fp where fp: "intent_fingerprint cmd = Inr fp"
    by (auto simp: pg_execute_def split: sum.splits)
  with assms(1) have body: "pg_body cmd fp db = Inr (r, db')" and fk: "new_events_have_pages db db'"
    by (auto simp: pg_execute_def transaction_def split: sum.splits if_splits)
  show thesis
  proof (cases "select_receipt (command_id cmd) db")
    case (Some prior)
    with body fp retry [of prior] show thesis
      by (auto simp: pg_body_def pg_prepare_def split: if_splits)
  next
    case None
    with body can have ptext: "pg_text (command_id cmd)"
      and ap: "pg_apply cmd fp (selected_state cmd db) db = Inr (r, db')"
      by (auto simp: pg_body_def pg_prepare_def selected_state_def res_simps split: if_splits)
    have "\<forall>s. selected_state cmd db = Some s \<longrightarrow> uuid_canon (ps_page_id s) = uuid_canon (page_id cmd)"
      using can by (auto simp: selected_state_def page_from_row_def dest!: select_page_row split: if_splits)
    from pg_apply_Inr [OF ap this] fp None fk ptext show thesis
      by (auto intro: applied)
  qed
qed

lemma pg_execute_Inl: "fst (pg_execute cmd db) = Inl x \<Longrightarrow> snd (pg_execute cmd db) = db"
  by (auto simp: pg_execute_def transaction_def split: sum.splits if_splits)


lemma row_of_same:
  "page_ok p \<Longrightarrow> row_of (ps_page_id p) (ps_head_revision_id p) p = p"
  by (cases p) (simp add: page_ok_def row_of_def)

lemma updated_row_same:
  assumes "evolve (Some s) e = Inr s'" and "page_ok s" and "page_ok s'"
  shows "updated_row s' (ps_head_revision_id s') s = s'"
  using evolve_frame [OF assms(1)] assms(2,3)
  by (cases s; cases s') (simp add: page_ok_def updated_row_def)

text \<open>Under the invariant an applied command is the kernel's step on one page row.\<close>

lemma applied_step:
  assumes inv: "pg_inv db" and can: "canonical cmd"
    and ap: "applied cmd fp (selected_state cmd db) db c r db'"
  shows "cm_page_id c = page_id cmd \<and> ps_page_id (cm_next c) = page_id cmd
    \<and> page_ok (cm_next c) \<and> uuid_canon (ps_head_revision_id (cm_next c)) = Some (ps_head_revision_id (cm_next c))
    \<and> stream_ok (cm_next c) (pg_stream db (page_id cmd)
         @ [\<lparr>se_index = version_of (selected_state cmd db) + 1, se_event = cm_event c\<rparr>])
    \<and> ev_page_id (cm_event c) = page_id cmd
    \<and> pg_events db' = pg_events db
         @ [\<lparr>se_index = version_of (selected_state cmd db) + 1, se_event = cm_event c\<rparr>]
    \<and> (if is_CreatePage cmd
       then (\<forall>p \<in> set (pg_pages db). ps_page_id p \<noteq> page_id cmd \<and> ps_slug p \<noteq> ps_slug (cm_next c))
         \<and> pg_pages db' = pg_pages db @ [cm_next c]
       else \<exists>s \<in> set (pg_pages db). selected_state cmd db = Some s \<and> ps_page_id s = page_id cmd
         \<and> ps_slug (cm_next c) = ps_slug s
         \<and> pg_pages db' = map (\<lambda>p. if ps_page_id p = page_id cmd then cm_next c else p) (pg_pages db))"
proof -
  let ?st = "selected_state cmd db" and ?s' = "cm_next c" and ?e = "cm_event c" and ?pid = "page_id cmd"
  have d: "decide ?st cmd = Inr (cm_decision c)" "dc_events (cm_decision c) = [?e]"
    and s': "evolve ?st ?e = Inr ?s'" and pid: "cm_page_id c = ?pid"
    and rid: "uuid_canon (ps_head_revision_id ?s') = Some (cm_revision_id c)"
    using ap can by (auto simp: applied_def canonical_def)
  have epid: "ev_page_id ?e = ?pid" using decide_event_ids [OF d(1)] d(2) by simp
  then have eid: "?e\<lparr>ev_page_id := ?pid\<rparr> = ?e" by (cases ?e) simp
  have old: "s \<in> set (pg_pages db) \<and> ps_page_id s = ?pid \<and> row_ok db s \<and> \<not> is_CreatePage cmd"
    if st: "?st = Some s" for s
  proof -
    from st obtain row where nc: "\<not> is_CreatePage cmd" and row: "select_page ?pid db = Some row"
      "s = page_from_row row"
      using can by (auto simp: selected_state_def canonical_def split: if_splits)
    with select_page_row [OF row(1)] inv have "row_ok db row" by (auto simp: pg_inv_def)
    with row nc select_page_row [OF row(1)] page_ok_row [of row] show ?thesis by (simp add: row_ok_def)
  qed
  have head: "uuid_canon (ps_head_revision_id ?s') = Some (ps_head_revision_id ?s')"
  proof (cases "is_CreatePage cmd \<or> is_EditPage cmd")
    case True
    with evolve_head [OF d s'] can show ?thesis by (auto simp: canonical_def)
  next
    case False
    with d(1) obtain s where s: "?st = Some s" by (cases ?st) (auto dest: decide_None_Inr)
    with evolve_head [OF d s'] False old [OF s] show ?thesis by (simp add: row_ok_def)
  qed
  have stream: "case ?st of None \<Rightarrow> pg_stream db ?pid = [] | Some s \<Rightarrow> page_ok s \<and> stream_ok s (pg_stream db ?pid)"
  proof (cases ?st)
    case None
    with d(1) have cr: "is_CreatePage cmd" by (auto dest: decide_None_Inr)
    with ap pid have "\<forall>p \<in> set (pg_pages db). ps_page_id p \<noteq> ?pid"
      by (auto simp: applied_def page_fits_def)
    with inv have "\<forall>r \<in> set (pg_events db). ev_page_id (se_event r) \<noteq> ?pid"
      by (fastforce simp: pg_inv_def)
    with None show ?thesis by (simp add: pg_stream_def filter_empty_conv)
  next
    case (Some s)
    with old [OF Some] show ?thesis by (auto simp: row_ok_def)
  qed
  note step = stream_step [OF stream d s']
  have spid: "ps_page_id ?s' = ?pid"
    using evolve_page_id [OF d(1) _ s'] d(2) old by (cases ?st) auto
  have evs: "pg_events db' = pg_events db @ [\<lparr>se_index = version_of ?st + 1, se_event = ?e\<rparr>]"
    using ap pid eid by (simp add: applied_def)
  have rid': "cm_revision_id c = ps_head_revision_id ?s'" using rid head by simp
  have pages: "if is_CreatePage cmd
       then (\<forall>p \<in> set (pg_pages db). ps_page_id p \<noteq> ?pid \<and> ps_slug p \<noteq> ps_slug ?s')
         \<and> pg_pages db' = pg_pages db @ [?s']
       else \<exists>s \<in> set (pg_pages db). ?st = Some s \<and> ps_page_id s = ?pid \<and> ps_slug ?s' = ps_slug s
         \<and> pg_pages db' = map (\<lambda>p. if ps_page_id p = ?pid then ?s' else p) (pg_pages db)"
  proof (cases "is_CreatePage cmd")
    case True
    with ap pid rid' row_of_same [of ?s'] step spid show ?thesis by (auto simp: applied_def page_fits_def)
  next
    case False
    with d(1) obtain s where s: "?st = Some s" by (cases ?st) (auto dest: decide_None_Inr)
    note os = old [OF s]
    have only: "row = s" if "row \<in> set (pg_pages db)" "ps_page_id row = ?pid" for row
      using distinct_keyD [of ps_page_id "pg_pages db" row s] inv that os by (simp add: pg_inv_def)
    have "updated_row ?s' (ps_head_revision_id ?s') s = ?s'"
      using updated_row_same [of s ?e ?s'] s' s os step by (simp add: row_ok_def)
    moreover have "version_of ?st = ps_stream_version s" using s by (simp add: version_of_def)
    ultimately have "pg_pages db' = map (\<lambda>p. if ps_page_id p = ?pid then ?s' else p) (pg_pages db)"
      using ap False pid rid' only by (auto simp: applied_def)
    moreover have "ps_slug ?s' = ps_slug s" using evolve_frame [of s ?e ?s'] s' s by simp
    ultimately show ?thesis using False s os by auto
  qed
  show ?thesis using pid spid step head epid evs pages by blast
qed


lemma pg_stream_append:
  "pg_events db' = pg_events db @ [x] \<Longrightarrow> pg_stream db' pid =
     (if pid = ev_page_id (se_event x) then pg_stream db pid @ [x] else pg_stream db pid)"
  by (simp add: pg_stream_def)

lemma applied_inv:
  assumes inv: "pg_inv db" and can: "canonical cmd"
    and ap: "applied cmd fp (selected_state cmd db) db c r db'"
  shows "pg_inv db'"
proof -
  let ?s' = "cm_next c" and ?pid = "page_id cmd"
  let ?x = "\<lparr>se_index = version_of (selected_state cmd db) + 1, se_event = cm_event c\<rparr>"
  note st = applied_step [OF inv can ap]
  note inv' = inv [unfolded pg_inv_def]
  have evs: "pg_events db' = pg_events db @ [?x]" and ex: "ev_page_id (se_event ?x) = ?pid"
    using st by simp_all
  note stream = pg_stream_append [OF evs, unfolded ex]
  have new: "row_ok db' ?s'"
    using st stream can by (auto simp: row_ok_def canonical_def)
  have other: "row_ok db' p" if "p \<in> set (pg_pages db)" "ps_page_id p \<noteq> ?pid" for p
    using inv' that stream by (auto simp: row_ok_def)
  have pages: "distinct (map ps_page_id (pg_pages db')) \<and> distinct (map ps_slug (pg_pages db'))
    \<and> (\<forall>p \<in> set (pg_pages db'). row_ok db' p)
    \<and> ps_page_id ` set (pg_pages db') = insert ?pid (ps_page_id ` set (pg_pages db))"
  proof (cases "is_CreatePage cmd")
    case True
    with st have p: "pg_pages db' = pg_pages db @ [?s']" "ps_page_id ?s' = ?pid"
      "\<forall>p \<in> set (pg_pages db). ps_page_id p \<noteq> ?pid \<and> ps_slug p \<noteq> ps_slug ?s'" by auto
    with inv' new other show ?thesis by auto
  next
    case False
    let ?f = "\<lambda>p. if ps_page_id p = ?pid then ?s' else p"
    from st False obtain s where p: "pg_pages db' = map ?f (pg_pages db)" "ps_page_id ?s' = ?pid"
      "s \<in> set (pg_pages db)" "ps_page_id s = ?pid" "ps_slug ?s' = ps_slug s" by auto
    have only: "row = s" if "row \<in> set (pg_pages db)" "ps_page_id row = ?pid" for row
      using distinct_keyD [of ps_page_id "pg_pages db" row s] inv' that p by simp
    have "ps_slug (?f q) = ps_slug q" if "q \<in> set (pg_pages db)" for q
      using only [OF that] p(5) by auto
    moreover have "ps_page_id (?f q) = ps_page_id q" for q using p(2) by simp
    ultimately have "map ps_page_id (pg_pages db') = map ps_page_id (pg_pages db)"
      "map ps_slug (pg_pages db') = map ps_slug (pg_pages db)"
      by (simp_all add: p(1))
    moreover from this(1) have "ps_page_id ` set (pg_pages db') = ps_page_id ` set (pg_pages db)"
      by (metis set_map)
    moreover from p(3,4) have "?pid \<in> ps_page_id ` set (pg_pages db)" by (simp add: image_iff) metis
    moreover have "\<forall>q \<in> set (pg_pages db'). row_ok db' q"
      using new other by (auto simp: p(1))
    ultimately show ?thesis using inv' by (simp add: insert_absorb)
  qed
  have "\<forall>q \<in> set (pg_events db'). \<exists>p \<in> set (pg_pages db'). ps_page_id p = ev_page_id (se_event q)"
  proof
    fix q assume "q \<in> set (pg_events db')"
    with evs ex inv' have "ev_page_id (se_event q) \<in> insert ?pid (ps_page_id ` set (pg_pages db))"
      by force
    with pages show "\<exists>p \<in> set (pg_pages db'). ps_page_id p = ev_page_id (se_event q)"
      by (metis (no_types, lifting) imageE)
  qed
  moreover have "distinct (map (\<lambda>r. ev_event_id (se_event r)) (pg_events db'))"
    using inv' evs ap by (auto simp: applied_def event_fits_def image_iff)
  moreover have "distinct (map pr_command_id (pg_receipts db'))"
    using inv' ap by (auto simp: applied_def image_iff)
  moreover have "distinct (map outbox_key (pg_outbox db'))"
    using inv' ap by (auto simp: applied_def)
  ultimately show ?thesis using pages by (simp add: pg_inv_def)
qed

lemma pg_inv_execute:
  assumes inv: "pg_inv db" and can: "canonical cmd"
  shows "pg_inv (snd (pg_execute cmd db))"
proof (cases "fst (pg_execute cmd db)")
  case (Inl x)
  with inv show ?thesis by (simp add: pg_execute_Inl)
next
  case (Inr r)
  then have "pg_execute cmd db = (Inr r, snd (pg_execute cmd db))" by (simp add: prod_eq_iff)
  moreover from can have "uuid_canon (page_id cmd) = Some (page_id cmd)" by (simp add: canonical_def)
  ultimately show ?thesis
    by (cases rule: pg_execute_Inr) (use inv can in \<open>auto intro: applied_inv\<close>)
qed

lemma pg_inv_empty: "pg_inv pg_empty"
  by (simp add: pg_inv_def pg_empty_def)

lemma pg_inv_resolve:
  assumes inv: "pg_inv db"
  shows "pg_inv (snd (pg_resolve_outbox eid etype t db))"
proof -
  let ?db' = "snd (pg_resolve_outbox eid etype t db)"
  have "map outbox_key (pg_outbox ?db') = map outbox_key (pg_outbox db)"
    by (auto simp: pg_resolve_outbox_def outbox_key_def)
  moreover have "pg_pages ?db' = pg_pages db" "pg_events ?db' = pg_events db"
    "pg_receipts ?db' = pg_receipts db" by (simp_all add: pg_resolve_outbox_def)
  ultimately show ?thesis
    using inv by (simp add: pg_inv_def row_ok_def pg_stream_def)
qed

text \<open>The databases the application reaches.\<close>

inductive pg_reachable :: "PgDb \<Rightarrow> bool" where
  empty: "pg_reachable pg_empty"
| execute: "pg_reachable db \<Longrightarrow> canonical cmd \<Longrightarrow> pg_reachable (snd (pg_execute cmd db))"
| resolve: "pg_reachable db \<Longrightarrow> pg_reachable (snd (pg_resolve_outbox eid etype t db))"

lemma pg_reachable_inv: "pg_reachable db \<Longrightarrow> pg_inv db"
  by (induction rule: pg_reachable.induct) (auto intro: pg_inv_empty pg_inv_execute pg_inv_resolve)

section \<open>The adapter satisfies the store contract\<close>

definition pg_receipt :: "PgDb \<Rightarrow> pystr \<Rightarrow> CommandReceipt option" where
  "pg_receipt db cid = (if pg_text cid then map_option (receipt_of_row False) (select_receipt cid db) else None)"

text \<open>Receipts are only ever added.\<close>

lemma pg_apply_events_receipts:
  "pg_apply_events n st es db = Inr (st', db') \<Longrightarrow> pg_receipts db' = pg_receipts db"
  by (induction n st es db rule: pg_apply_events.induct)
    (auto simp: bind_res_Inr insert_event_Inr)

lemma pg_store_page_receipts:
  "pg_store_page cmd s n db = Inr db' \<Longrightarrow> pg_receipts db' = pg_receipts db"
  by (auto simp: pg_store_page_def bind_res_Inr update_page_Inr insert_page_Inr
      split: if_splits sum.splits)

lemma pg_apply_receipts:
  assumes "pg_apply cmd fp st db = Inr (r, db')"
  shows "\<exists>x. pg_receipts db' = pg_receipts db @ [x] \<and> (\<forall>q \<in> set (pg_receipts db). pr_command_id q \<noteq> pr_command_id x)"
proof -
  from assms obtain d s db1 where d: "decide st cmd = Inr d"
    and db1: "pg_apply_events (version_of st) st (dc_events d) db = Inr (Some s, db1)"
    by (auto simp: pg_apply_def Let_def bind_res_Inr version_of_def split: option.splits)
  with assms obtain db2 db3 x where db2: "pg_store_page cmd s (version_of st) db1 = Inr db2"
    and db3: "pg_store_effects (occurred_at cmd) (dc_effects d) db2 = Inr db3"
    and db4: "insert_receipt x db3 = Inr db'"
    by (auto simp: pg_apply_def Let_def bind_res_Inr version_of_def)
  from pg_apply_events_receipts [OF db1] pg_store_page_receipts [OF db2] pg_store_effects_Inr [OF db3] db4
  show ?thesis by (auto simp: insert_receipt_Inr)
qed

lemma pg_receipt_kept:
  assumes r: "pg_receipt db i = Some r"
  shows "pg_receipt (snd (pg_execute cmd db)) i = Some r"
proof -
  have "\<exists>xs. pg_receipts (snd (pg_execute cmd db)) = pg_receipts db @ xs"
  proof (cases "fst (pg_execute cmd db)")
    case (Inr q)
    then obtain fp db' where "pg_body cmd fp db = Inr (q, db')" "snd (pg_execute cmd db) = db'"
      by (auto simp: pg_execute_def transaction_def split: sum.splits if_splits)
    then obtain found where found: "(case found of Replayed r \<Rightarrow> Inr (r, db)
        | Undecided state \<Rightarrow> pg_apply cmd fp state db) = Inr (q, db')"
      and s: "snd (pg_execute cmd db) = db'"
      by (auto simp: pg_body_def bind_res_Inr)
    then show ?thesis
    proof (cases found)
      case (Undecided st)
      with found pg_apply_receipts [of cmd fp st db q db'] s show ?thesis by auto
    qed simp
  qed (simp add: pg_execute_Inl)
  then obtain xs where "pg_receipts (snd (pg_execute cmd db)) = pg_receipts db @ xs" ..
  with r show ?thesis
    by (auto simp: pg_receipt_def select_receipt_def find_append split: if_splits)
qed

interpretation pg: wiki_store pg_execute pg_get_page_by_slug pg_receipt pg_inv "\<lambda>_. canonical"
proof unfold_locales
  fix db c assume "pg_inv db" "canonical c"
  then show "pg_inv (snd (pg_execute c db))" by (rule pg_inv_execute)
next
  fix db c x assume "fst (pg_execute c db) = Inl x"
  then show "snd (pg_execute c db) = db" by (rule pg_execute_Inl)
next
  fix db c r assume inv: "pg_inv db" and can: "canonical c" and "fst (pg_execute c db) = Inr r"
  then have "pg_execute c db = (Inr r, snd (pg_execute c db))" by (simp add: prod_eq_iff)
  moreover from can have "uuid_canon (page_id c) = Some (page_id c)" by (simp add: canonical_def)
  ultimately show "intent_fingerprint c = Inr (rc_fingerprint r)
      \<and> pg_receipt (snd (pg_execute c db)) (command_id c) = Some (r\<lparr>rc_replayed := False\<rparr>)"
  proof (cases rule: pg_execute_Inr)
    case (retry prior)
    then show ?thesis by (simp add: receipt_of_row_def pg_receipt_def)
  next
    case (applied fp cm)
    with applied_step [OF inv can applied(4)] show ?thesis
      by (auto simp: applied_def pg_receipt_def select_receipt_def find_append receipt_of_row_def)
  qed
next
  fix db i r c assume "pg_receipt db i = Some r"
  then show "pg_receipt (snd (pg_execute c db)) i = Some r" by (rule pg_receipt_kept)
next
  fix db c r assume "pg_receipt db (command_id c) = Some r"
    and "intent_fingerprint c = Inr (rc_fingerprint r)"
  then show "pg_execute c db = (Inr (r\<lparr>rc_replayed := True\<rparr>), db)"
    by (auto simp: pg_receipt_def pg_execute_def transaction_def pg_body_def pg_prepare_def
        receipt_of_row_def new_events_have_pages_def split: if_splits)
next
  fix db c r fp assume "pg_receipt db (command_id c) = Some r"
    and "intent_fingerprint c = Inr fp" "fp \<noteq> rc_fingerprint r"
  then show "pg_execute c db = (Inl idempotency_conflict, db)"
    by (auto simp: pg_receipt_def pg_execute_def transaction_def pg_body_def pg_prepare_def
        receipt_of_row_def split: if_splits)
next
  fix db sl p assume "pg_inv db" "pg_get_page_by_slug sl False db = Some p"
  then show "ps_slug p = sl \<and> ps_moderation_status p = str ''visible''"
    by (auto simp: pg_get_page_by_slug_def find_Some_iff page_from_row_def)
qed


end
