(* ===== verification/WikiMemoryProps.thy ===== *)
theory WikiMemoryProps
  imports WikiMemory
begin

text \<open>
  What the in-memory adapter guarantees of every store an application reaches: streams that
  replay, receipts that make retries harmless, revisions that never change, quarantined pages
  that no public read shows, listings that page without gaps, and outbox records that are
  delivered once.
\<close>

lemma stored_stream_set:
  "ms_events st' = dict_set p es (ms_events st) \<Longrightarrow>
    stored_stream st' pid = (if pid = p then es else stored_stream st pid)"
  by (simp add: stored_stream_def)

text \<open>What an executed command leaves in each table.\<close>

lemma appended_fields:
  assumes "appended cmd st d e s' r st'"
  shows "ms_pages st' = dict_set (page_id cmd) s' (ms_pages st)"
    and "stored_stream st' pid = (if pid = page_id cmd then stored_stream st pid
        @ [\<lparr>se_index = int (length (stored_stream st pid)) + 1, se_event = e\<rparr>] else stored_stream st pid)"
    and "ms_outbox st' = put_effects (occurred_at cmd) (dc_effects d) (ms_outbox st)"
    and "ms_receipts st' = dict_set (command_id cmd) r (ms_receipts st)"
proof -
  from assms have "ms_events st' = dict_set (page_id cmd) (stored_stream st (page_id cmd)
      @ [\<lparr>se_index = int (length (stored_stream st (page_id cmd))) + 1, se_event = e\<rparr>]) (ms_events st)"
    by (simp add: appended_def)
  then show "stored_stream st' pid = (if pid = page_id cmd then stored_stream st pid
      @ [\<lparr>se_index = int (length (stored_stream st pid)) + 1, se_event = e\<rparr>] else stored_stream st pid)"
    by (simp add: stored_stream_set)
qed (use assms in \<open>simp_all add: appended_def\<close>)

section \<open>Revisions in a stream\<close>

text \<open>The event of an accepted creation or edit carries the revision it made.\<close>

lemma decide_revision_event:
  assumes "decide st cmd = Inr d" and "is_CreatePage cmd \<or> is_EditPage cmd" and "dc_events d = [e]"
  shows "revision_event e \<and> dict_get (ev_data e) (str ''revision_id'') = Some (revision_id cmd)
    \<and> (\<exists>h. content_digest (content cmd) = Inr h
        \<and> revision_of_event (revision_id cmd) e = Inr \<lparr>rv_revision_id = revision_id cmd,
             rv_title = title cmd, rv_content = content cmd, rv_content_hash = h,
             rv_occurred_at = occurred_at cmd, rv_actor_id = actor_id cmd\<rparr>)"
  using assms
  by (cases cmd) (auto simp: decide_defs res_simps revision_event_def revision_of_event_def
      data_item_def split: if_splits option.splits)

definition revision_match :: "pystr \<Rightarrow> StoredEvent \<Rightarrow> bool" where
  "revision_match rid i \<longleftrightarrow> revision_event (se_event i)
     \<and> dict_get (ev_data (se_event i)) (str ''revision_id'') = Some rid"

lemma mem_get_revision_stream:
  "mem_get_revision pid rid st =
     (case dict_get (ms_pages st) pid of
        None \<Rightarrow> Inr None
      | Some p \<Rightarrow>
          if ps_moderation_status p = str ''quarantined'' then Inr None
          else (case find (revision_match rid) (stored_stream st pid) of
                  None \<Rightarrow> Inr None
                | Some i \<Rightarrow> bind_res (revision_of_event rid (se_event i)) (\<lambda>r. Inr (Some r))))"
proof -
  have "revision_match rid = (\<lambda>i. revision_event (se_event i)
      \<and> dict_get (ev_data (se_event i)) (str ''revision_id'') = Some rid)"
    by (simp add: fun_eq_iff revision_match_def)
  then show ?thesis by (simp add: mem_get_revision_def stored_stream_def split: option.splits)
qed

text \<open>An executed command leaves every stream as it was or longer.\<close>

lemma mem_execute_stream:
  assumes "mem_execute cmd st = (res, st')"
  obtains new where "stored_stream st' pid = stored_stream st pid @ new"
proof (cases res)
  case (Inl x)
  with mem_execute_Inl [of cmd st x] assms that [of "[]"] show thesis by simp
next
  case (Inr r)
  with assms have "mem_execute cmd st = (Inr r, st')" by simp
  then show thesis
  proof (cases rule: mem_execute_Inr)
    case (retry prior)
    with that [of "[]"] show thesis by simp
  next
    case (accepted d e s')
    with that appended_fields(2) [OF accepted(1), of pid] show thesis
      by (cases "pid = page_id cmd") auto
  qed
qed

lemma mem_execute_keeps_page:
  assumes "mem_execute cmd st = (res, st')" and "dict_get (ms_pages st) pid = Some p"
  shows "\<exists>p'. dict_get (ms_pages st') pid = Some p'"
proof (cases res)
  case (Inl x)
  with mem_execute_Inl [of cmd st x] assms show ?thesis by simp
next
  case (Inr r)
  with assms(1) have "mem_execute cmd st = (Inr r, st')" by simp
  then show ?thesis by (cases rule: mem_execute_Inr) (use assms(2) in \<open>auto simp: appended_def\<close>)
qed

text \<open>Running a list of commands, whether each is accepted or refused.\<close>

abbreviation mem_run :: "WikiCommand list \<Rightarrow> MemStore \<Rightarrow> MemStore" where
  "mem_run cmds st \<equiv> foldl (\<lambda>t c. snd (mem_execute c t)) st cmds"

lemma mem_run_grows:
  assumes "dict_get (ms_pages st) pid = Some p"
  shows "\<exists>p' new. dict_get (ms_pages (mem_run cmds st)) pid = Some p'
    \<and> stored_stream (mem_run cmds st) pid = stored_stream st pid @ new"
  using assms
proof (induction cmds arbitrary: st p)
  case (Cons cmd cmds)
  obtain res st' where x: "mem_execute cmd st = (res, st')" by force
  from mem_execute_keeps_page [OF x Cons.prems] obtain q where "dict_get (ms_pages st') pid = Some q" ..
  from Cons.IH [OF this] obtain p' new where
    p': "dict_get (ms_pages (mem_run cmds st')) pid = Some p'"
      "stored_stream (mem_run cmds st') pid = stored_stream st' pid @ new" by blast
  obtain new' where "stored_stream st' pid = stored_stream st pid @ new'"
    using mem_execute_stream [OF x] by blast
  with p' x show ?case by simp
qed auto

section \<open>The outbox\<close>

text \<open>Records are stored under the id of their effect.\<close>

definition outbox_keyed :: "(pystr, OutboxRecord) pydict \<Rightarrow> bool" where
  "outbox_keyed ob \<longleftrightarrow> dict_wf ob
     \<and> (\<forall>eid r. dict_get ob eid = Some r \<longrightarrow> ef_effect_id (ob_effect r) = eid)"

abbreviation outbox_ok :: "MemStore \<Rightarrow> bool" where
  "outbox_ok st \<equiv> outbox_keyed (ms_outbox st)"

lemma outbox_keyed_set:
  "outbox_keyed ob \<Longrightarrow> ef_effect_id (ob_effect r) = eid \<Longrightarrow> outbox_keyed (dict_set eid r ob)"
  by (simp add: outbox_keyed_def)

lemma outbox_keyed_put_effects: "outbox_keyed ob \<Longrightarrow> outbox_keyed (put_effects t fs ob)"
  unfolding put_effects_def by (induction fs arbitrary: ob) (simp_all add: outbox_keyed_set)

lemma outbox_ok_resolve:
  assumes "outbox_ok st"
  shows "outbox_ok (snd (mem_resolve_outbox eid etype t st))"
proof (cases "dict_get (ms_outbox st) eid")
  case (Some q)
  with assms have "ef_effect_id (ob_effect q) = eid" by (simp add: outbox_keyed_def)
  with assms Some show ?thesis by (simp add: mem_resolve_outbox_def outbox_keyed_set)
qed (use assms in \<open>simp add: mem_resolve_outbox_def\<close>)

lemma outbox_ok_execute:
  assumes ok: "outbox_ok st"
  shows "outbox_ok (snd (mem_execute cmd st))"
proof (cases "fst (mem_execute cmd st)")
  case (Inr r)
  then have "mem_execute cmd st = (Inr r, snd (mem_execute cmd st))" by (simp add: prod_eq_iff)
  then show ?thesis
  proof (cases rule: mem_execute_Inr)
    case (accepted d e s')
    with ok show ?thesis by (simp add: appended_fields(3) outbox_keyed_put_effects)
  qed (use ok in simp)
qed (use ok in \<open>simp add: mem_execute_Inl\<close>)

lemma mem_reachable_outbox: "mem_reachable st \<Longrightarrow> outbox_ok st"
proof (induction rule: mem_reachable.induct)
  case start
  show ?case by (simp add: outbox_keyed_def mem_init_def)
qed (rule outbox_ok_execute outbox_ok_resolve, assumption)+

lemma mem_pending_get:
  assumes "outbox_ok st" and "r \<in> set (mem_pending_outbox limit et st)"
  shows "dict_get (ms_outbox st) (ef_effect_id (ob_effect r)) = Some r \<and> ob_status r = str ''pending''"
proof -
  from assms(2) have "r \<in> set (dict_values (ms_outbox st))" and "ob_status r = str ''pending''"
    by (auto simp: mem_pending_outbox_def dest: in_set_takeD)
  with assms(1) show ?thesis by (auto simp: outbox_keyed_def dict_values_get)
qed

section \<open>Reads\<close>

definition page_matches :: "(pystr \<Rightarrow> pystr) \<Rightarrow> pystr option \<Rightarrow> PageState \<Rightarrow> bool" where
  "page_matches cf query p \<longleftrightarrow> ps_moderation_status p = str ''visible''
     \<and> (query = None \<or> query = Some [] \<or> contains (cf (the query)) (cf (ps_slug p))
        \<or> contains (cf (the query)) (cf (ps_title p)))"

lemma mem_list_pages_eq:
  "mem_list_pages cf query limit offset st = page_slice offset limit
     (sort_desc (\<lambda>p. (ps_updated_at p, ps_page_id p))
        (filter (page_matches cf query) (dict_values (ms_pages st))))"
  by (cases query) (auto simp: mem_list_pages_def page_matches_def [abs_def] Let_def
      intro!: arg_cong [where f = "page_slice offset limit"] filter_cong
        arg_cong [where f = "sort_desc (\<lambda>p. (ps_updated_at p, ps_page_id p))"])

lemma mem_recent_pages:
  assumes inv: "mem_inv st" and i: "i \<in> set (mem_recent_changes limit offset st)"
  shows "revision_event (se_event i) \<and> (\<exists>p. dict_get (ms_pages st) (ev_page_id (se_event i)) = Some p
    \<and> ps_moderation_status p = str ''visible'' \<and> i \<in> set (stored_stream st (ev_page_id (se_event i))))"
proof -
  from inv have wf: "dict_wf (ms_pages st)" "dict_wf (ms_events st)" by (auto simp: mem_inv_def)
  let ?vis = "map fst (filter (\<lambda>(_, p). ps_moderation_status p = str ''visible'') (ms_pages st))"
  from i have "i \<in> set (concat (map (\<lambda>(pid, stream). if pid \<in> set ?vis then stream else []) (ms_events st)))"
    and rev: "revision_event (se_event i)"
    by (auto simp: mem_recent_changes_def Let_def dest!: set_page_slice [THEN subsetD])
  then obtain pid es where e: "(pid, es) \<in> set (ms_events st)" "i \<in> set es" "pid \<in> set ?vis"
    by (auto simp only: set_concat set_map image_iff Union_iff split: if_splits prod.splits) (force split: if_splits)+
  then obtain p where p: "(pid, p) \<in> set (ms_pages st)" "ps_moderation_status p = str ''visible''"
    by auto
  from wf e p have g: "dict_get (ms_events st) pid = Some es" "dict_get (ms_pages st) pid = Some p"
    by (simp_all add: dict_wf_get_iff)
  from mem_inv_page [OF inv g(2)] g(1) e(2) have "ev_page_id (se_event i) = pid"
    by (auto simp: page_entry_ok_def)
  with g e p rev show ?thesis by (auto simp: stored_stream_def)
qed

lemma demo_page_get: "dict_get (ms_pages demo_store) (str ''page-1'') = Some demo_page"
  using demo_create_accepted by auto

text \<open>The demo store after its page was quarantined.\<close>

definition demo_hidden_store :: MemStore where
  "demo_hidden_store = snd (mem_execute demo_quarantine demo_store)"

lemma demo_hidden_facts:
  "mem_reachable demo_hidden_store"
  "dict_get (ms_pages demo_hidden_store) (str ''page-1'') = Some demo_hidden_page"
  "ms_pages demo_hidden_store = [(str ''page-1'', demo_hidden_page)]"
proof -
  show "mem_reachable demo_hidden_store" unfolding demo_hidden_store_def
    by (rule mem_reachable.execute [OF demo_store_reachable])
      (simp add: mem_allowed_def demo_quarantine_def)
  have cs: "command_state demo_store demo_quarantine = Some demo_page"
    using demo_create_accepted by (auto simp: command_state_def demo_quarantine_def)
  have "\<exists>d. decide (Some demo_page) demo_quarantine = Inr d"
    by (simp add: decide_defs demo_quarantine_def demo_page_def)
  then obtain d where d: "decide (Some demo_page) demo_quarantine = Inr d" ..
  then have ev: "dc_events d = [hd (dc_events d)]"
    "evolve (Some demo_page) (hd (dc_events d)) = Inr demo_hidden_page"
    using decide_moderation_Inr [OF d]
    by (auto simp: demo_quarantine_def demo_hidden_page_def demo_page_def)
  have "encodable (ps_content_hash demo_page)"
    using content_digest_encodable [of "str ''First''"] demo_digest [of "''First''"]
    by (simp add: demo_page_def)
  then obtain fp where fp: "intent_fingerprint demo_quarantine = Inr fp"
    using intent_fingerprint_ok [of demo_quarantine] by (auto simp: demo_quarantine_def command_intent_def)
  have fresh: "dict_get (ms_receipts demo_store) (command_id demo_quarantine) = None"
    "is_CreatePage demo_quarantine \<longrightarrow> dict_get (ms_slug_to_id demo_store) (slug demo_quarantine) = None"
    using demo_create_accepted by (auto simp: demo_quarantine_def)
  from mem_execute_appends [OF fresh _ ev(1) _ fp, of demo_hidden_page] cs d ev(2)
  obtain r where r: "appended demo_quarantine demo_store d (hd (dc_events d)) demo_hidden_page r demo_hidden_store"
    unfolding demo_hidden_store_def by auto
  have "ms_pages demo_hidden_store = dict_set (page_id demo_quarantine) demo_hidden_page (ms_pages demo_store)"
    by (rule appended_fields(1) [OF r])
  then have "ms_pages demo_hidden_store = dict_set (str ''page-1'') demo_hidden_page (ms_pages demo_store)"
    by (simp add: demo_quarantine_def)
  moreover have "ms_pages demo_store = [(str ''page-1'', demo_page)]" using demo_create_accepted by auto
  ultimately show p: "ms_pages demo_hidden_store = [(str ''page-1'', demo_hidden_page)]" by simp
  then show "dict_get (ms_pages demo_hidden_store) (str ''page-1'') = Some demo_hidden_page" by simp
qed

text \<open>A review submission on the demo store, with its pending effect.\<close>

lemma demo_submitted:
  "\<exists>ob. dict_get (ms_outbox (snd (mem_execute demo_submit demo_store))) (str ''review:sub-1'') = Some ob
    \<and> ob_status ob = str ''pending'' \<and> ef_effect_type (ob_effect ob) = str ''review_requested''"
proof -
  have s: "is_SubmitReview demo_submit" by (simp add: demo_submit_def)
  have cs: "command_state demo_store demo_submit = Some demo_page"
    using demo_create_accepted by (auto simp: command_state_def demo_submit_def)
  have "\<exists>d. decide (Some demo_page) demo_submit = Inr d"
    by (simp add: decide_defs demo_submit_def demo_page_def Let_def)
  then obtain d where d: "decide (Some demo_page) demo_submit = Inr d" ..
  from decide_submit_Inr [OF d s] obtain f s' where f: "dc_events d = [hd (dc_events d)]" "dc_effects d = [f]"
    "ef_effect_id f = str ''review:'' @ submission_id demo_submit" "ef_effect_type f = str ''review_requested''"
    "evolve (Some demo_page) (hd (dc_events d)) = Inr s'" by metis
  have "encodable (ps_content_hash demo_page)"
    using content_digest_encodable [of "str ''First''"] demo_digest [of "''First''"]
    by (simp add: demo_page_def)
  then obtain fp where fp: "intent_fingerprint demo_submit = Inr fp"
    using intent_fingerprint_ok [of demo_submit] by (auto simp: demo_submit_def command_intent_def)
  have fresh: "dict_get (ms_receipts demo_store) (command_id demo_submit) = None"
    "is_CreatePage demo_submit \<longrightarrow> dict_get (ms_slug_to_id demo_store) (slug demo_submit) = None"
    using demo_create_accepted by (auto simp: demo_submit_def)
  from mem_execute_appends [OF fresh _ f(1) _ fp, of s'] cs d f(5)
  obtain r where "appended demo_submit demo_store d (hd (dc_events d)) s' r (snd (mem_execute demo_submit demo_store))"
    by auto
  from appended_fields(3) [OF this] f show ?thesis
    by (simp add: put_effects_def demo_submit_def str_append [symmetric])
qed

text \<open>A creation that reuses the page id under another slug.\<close>

definition demo_recreate :: WikiCommand where
  "demo_recreate = CreatePage (str ''cmd:9'') (str ''anonymous:c'') {str ''wiki:edit''} 9000
     (str ''page-1'') (str ''rev-9'') (str ''other'') (str ''Other'') (str ''Other'') (str '''')"

lemma reachable_stream:
  assumes "mem_reachable st" and "dict_get (ms_pages st) pid = Some p"
  shows "replay (map se_event (stored_stream st pid)) = Inr (Some p)"
  using mem_inv_page [OF mem_reachable_inv [OF assms(1)] assms(2)]
  by (auto simp: page_entry_ok_def stream_ok_def stored_stream_def)

section \<open>Properties\<close>

text \<open>C2: In every reachable store each page is the replay of its own event stream, whose
  indices count 1, 2, ... up to the page's version; its hash is the digest of its content and
  its slug leads back to it. Reachable means through commands that create a page under an id no
  page has, which the router sees to by deriving ids from command ids; the service does not check it.\<close>

theorem reachable_pages_replay:
  assumes "mem_reachable st" and "dict_get (ms_pages st) pid = Some p"
  shows "\<exists>es. dict_get (ms_events st) pid = Some es \<and> replay (map se_event es) = Inr (Some p)
    \<and> map se_index es = map int [1..<Suc (length es)] \<and> ps_stream_version p = int (length es)
    \<and> ps_page_id p = pid \<and> content_digest (ps_content p) = Inr (ps_content_hash p)
    \<and> mem_get_page_by_slug (ps_slug p) True st = (if pid = [] then None else Some p)"
proof -
  from mem_inv_page [OF mem_reachable_inv [OF assms(1)] assms(2)]
  have ok: "page_entry_ok st pid p" .
  then show ?thesis using assms(2)
    by (auto simp: page_entry_ok_def stream_ok_def page_ok_def mem_get_page_by_slug_def)
qed

theorem reachable_pages_replay_witness:
  "\<exists>es. dict_get (ms_events demo_store) (str ''page-1'') = Some es
    \<and> replay (map se_event es) = Inr (Some demo_page) \<and> int (length es) = 1"
  using reachable_pages_replay [OF demo_store_reachable demo_page_get]
  by (auto simp: demo_page_def)

text \<open>A command id is used once. When a command was accepted and a later one, after any
  commands in between, carries its id, the store does not change: the same intent gets the
  first receipt back marked as replayed, any other intent gets \<open>idempotency_conflict\<close>.\<close>

theorem mem_command_id_once:
  assumes "mem_reachable st" and "mem_allowed st c" and "fst (mem_execute c st) = Inr r"
    and "command_id c' = command_id c" and "intent_fingerprint c' = Inr fp"
  shows "mem_execute c' (mem_run cs (snd (mem_execute c st)))
    = (if intent_fingerprint c = Inr fp then Inr (r\<lparr>rc_replayed := True\<rparr>) else Inl idempotency_conflict,
       mem_run cs (snd (mem_execute c st)))"
  using ms.retry_replays [OF mem_reachable_inv [OF assms(1)] assms(2,3,4), of cs] assms(5)
    ms.reuse_conflicts [OF mem_reachable_inv [OF assms(1)] assms(2,3,4,5), of cs]
  by auto

theorem mem_command_id_once_witness:
  "\<exists>r. mem_execute demo_create (snd (mem_execute demo_edit demo_store)) =
    (Inr (r\<lparr>rc_replayed := True\<rparr>), snd (mem_execute demo_edit demo_store))"
proof -
  obtain r where r: "fst (mem_execute demo_create mem_init) = Inr r"
    using demo_create_accepted by metis
  from mem_command_id_once [OF mem_reachable.start _ r refl demo_fingerprint(1), of "[demo_edit]"]
    demo_fingerprint(1) show ?thesis by (auto simp: demo_store_def mem_allowed_def mem_init_def)
qed

text \<open>C4: While a page is quarantined no public read shows any of it: not the page by its slug, not
  a listing, its history, one of its revisions or a recent change.\<close>

theorem mem_quarantine_hides:
  assumes "mem_reachable st" and "dict_get (ms_pages st) pid = Some p"
    and "ps_moderation_status p = str ''quarantined''"
  shows "mem_get_page_by_slug (ps_slug p) False st = None
    \<and> mem_history pid limit offset st = [] \<and> mem_get_revision pid rid st = Inr None
    \<and> (\<forall>q \<in> set (mem_list_pages cf query limit offset st). ps_page_id q \<noteq> pid)
    \<and> (\<forall>i \<in> set (mem_recent_changes limit offset st). ev_page_id (se_event i) \<noteq> pid)"
proof -
  note inv = mem_reachable_inv [OF assms(1)]
  have list: "ps_page_id q \<noteq> pid" if "q \<in> set (mem_list_pages cf query limit offset st)" for q
  proof
    assume "ps_page_id q = pid"
    from that have "q \<in> set (dict_values (ms_pages st))" and v: "ps_moderation_status q = str ''visible''"
      by (auto simp: mem_list_pages_eq page_matches_def dest!: set_page_slice [THEN subsetD])
    with inv obtain k where k: "dict_get (ms_pages st) k = Some q"
      by (auto simp: mem_inv_def dict_values_get)
    with mem_inv_page [OF inv k] \<open>ps_page_id q = pid\<close> assms(2,3) v show False
      by (auto simp: page_entry_ok_def)
  qed
  have recent: "ev_page_id (se_event i) \<noteq> pid" if "i \<in> set (mem_recent_changes limit offset st)" for i
    using mem_recent_pages [OF inv that] assms(2,3) by auto
  from mem_inv_page [OF inv assms(2)] assms(2,3) have "mem_get_page_by_slug (ps_slug p) False st = None"
    by (auto simp: page_entry_ok_def mem_get_page_by_slug_def)
  with list recent assms(2,3) show ?thesis by (simp add: mem_history_def mem_get_revision_def)
qed

theorem mem_quarantine_hides_witness:
  "mem_get_page_by_slug (str ''hello'') False demo_hidden_store = None
    \<and> mem_get_revision (str ''page-1'') (str ''rev-1'') demo_hidden_store = Inr None
    \<and> mem_list_pages id None 10 0 demo_hidden_store = []"
proof -
  note hides = mem_quarantine_hides [OF demo_hidden_facts(1,2)]
  have "q \<notin> set (mem_list_pages id None 10 0 demo_hidden_store)" for q
  proof
    assume q: "q \<in> set (mem_list_pages id None 10 0 demo_hidden_store)"
    then have "q \<in> set (dict_values (ms_pages demo_hidden_store))"
      by (auto simp: mem_list_pages_eq dest!: set_page_slice [THEN subsetD])
    with demo_hidden_facts(3) have "q = demo_hidden_page" by (simp add: dict_values_def)
    then have "ps_page_id q = str ''page-1''" by (simp add: demo_hidden_page_def demo_page_def)
    moreover have "ps_moderation_status demo_hidden_page = str ''quarantined''"
      by (simp add: demo_hidden_page_def)
    ultimately show False using hides q by blast
  qed
  then have "mem_list_pages id None 10 0 demo_hidden_store = []" by (metis last_in_set)
  moreover have "ps_slug demo_hidden_page = str ''hello''"
    and "ps_moderation_status demo_hidden_page = str ''quarantined''"
    by (simp_all add: demo_hidden_page_def demo_page_def)
  ultimately show ?thesis using hides by auto
qed

text \<open>Listings page without gaps or repeats: the pages of a listing, cut at any limits and put
  together, are the one listing of all visible pages that match the query, each exactly
  once, the latest update first.\<close>

theorem mem_listing_pages:
  assumes "mem_reachable st"
  shows "mem_list_pages cf query n 0 st @ mem_list_pages cf query m n st = mem_list_pages cf query (n + m) 0 st
    \<and> sorted_wrt (\<lambda>p q. (ps_updated_at q, ps_page_id q) \<le> (ps_updated_at p, ps_page_id p))
        (mem_list_pages cf query n k st)
    \<and> distinct (mem_list_pages cf query n k st)
    \<and> (length (ms_pages st) \<le> n \<longrightarrow> set (mem_list_pages cf query n 0 st)
        = {p. (\<exists>pid. dict_get (ms_pages st) pid = Some p) \<and> page_matches cf query p})"
proof -
  note inv = mem_reachable_inv [OF assms]
  let ?ps = "filter (page_matches cf query) (dict_values (ms_pages st))"
  let ?all = "sort_desc (\<lambda>p. (ps_updated_at p, ps_page_id p)) ?ps"
  have wf: "dict_wf (ms_pages st)" using inv by (simp add: mem_inv_def)
  have "map ps_page_id (dict_values (ms_pages st)) = map fst (ms_pages st)"
    using inv wf by (auto simp: dict_values_def mem_inv_def page_entry_ok_def dict_wf_get_iff)
  then have "distinct (dict_values (ms_pages st))"
    using wf by (metis dict_wf_def distinct_map)
  then have "distinct ?all" by (metis distinct_filter mset_eq_imp_distinct_iff mset_sort_desc)
  then have d: "distinct (mem_list_pages cf query n k st)"
    by (simp add: mem_list_pages_eq page_slice_def)
  have "length ?ps \<le> length (ms_pages st)"
    using length_filter_le [of _ "dict_values (ms_pages st)"] by (simp add: dict_values_def)
  then have "set (page_slice 0 n ?all) = set ?ps" if "length (ms_pages st) \<le> n"
    using that by (simp add: page_slice_def)
  with wf have s: "length (ms_pages st) \<le> n \<longrightarrow> set (mem_list_pages cf query n 0 st)
        = {p. (\<exists>pid. dict_get (ms_pages st) pid = Some p) \<and> page_matches cf query p}"
    by (auto simp: mem_list_pages_eq dict_values_get)
  show ?thesis
    using d s sorted_wrt_page_slice [OF sorted_sort_desc [of "\<lambda>p. (ps_updated_at p, ps_page_id p)" ?ps]]
    by (simp only: mem_list_pages_eq page_slice_append simp_thms)
qed

theorem mem_listing_pages_witness:
  "set (mem_list_pages id None 1 0 demo_store) = {demo_page}"
proof -
  have p: "ms_pages demo_store = [(str ''page-1'', demo_page)]" using demo_create_accepted by auto
  with mem_listing_pages [OF demo_store_reachable, of id None 1 0 0] show ?thesis
    by (auto simp: page_matches_def demo_page_def)
qed

text \<open>A committed revision can be read back: after an accepted creation or edit with a new
  revision id, reading that revision gives the title and content of the command with the
  digest of the content, its author and its time.\<close>

theorem mem_revision_roundtrip:
  assumes "mem_reachable st" and "mem_allowed st cmd" and "is_CreatePage cmd \<or> is_EditPage cmd"
    and "dict_get (ms_receipts st) (command_id cmd) = None"
    and "mem_execute cmd st = (Inr r, st')"
    and "find (revision_match (revision_id cmd)) (stored_stream st (page_id cmd)) = None"
  shows "\<exists>h. content_digest (content cmd) = Inr h
    \<and> mem_get_revision (page_id cmd) (revision_id cmd) st' = Inr (Some \<lparr>rv_revision_id = revision_id cmd,
        rv_title = title cmd, rv_content = content cmd, rv_content_hash = h,
        rv_occurred_at = occurred_at cmd, rv_actor_id = actor_id cmd\<rparr>)"
  using assms(5)
proof (cases rule: mem_execute_Inr)
  case (retry prior)
  with assms(4) show ?thesis by simp
next
  case (accepted d e s')
  then have d: "decide (command_state st cmd) cmd = Inr d" and e: "dc_events d = [e]"
    and s': "evolve (command_state st cmd) e = Inr s'" by (auto simp: appended_def)
  note rev = decide_revision_event [OF d assms(3) e]
  have "ps_moderation_status s' = str ''visible''"
    using assms(3) d e s' decide_create_Inr [OF d]
    by (cases "command_state st cmd") (auto dest: decide_edit_Inr decide_None_Inr)
  with rev assms(6) appended_fields [OF accepted(1)] show ?thesis
    by (auto simp: mem_get_revision_stream find_append revision_match_def)
qed

theorem mem_revision_roundtrip_witness:
  "\<exists>h. content_digest (str ''First'') = Inr h
    \<and> mem_get_revision (str ''page-1'') (str ''rev-1'') demo_store = Inr (Some
        \<lparr>rv_revision_id = str ''rev-1'', rv_title = str ''Hello'', rv_content = str ''First'',
         rv_content_hash = h, rv_occurred_at = 1000, rv_actor_id = str ''anonymous:a''\<rparr>)"
proof -
  obtain r where "mem_execute demo_create mem_init = (Inr r, demo_store)"
    using demo_create_accepted unfolding demo_store_def by (metis prod.collapse)
  from mem_revision_roundtrip [OF mem_reachable.start _ _ _ this] show ?thesis
    by (simp add: mem_allowed_def mem_init_def stored_stream_def)
qed

text \<open>Revisions are immutable. Once a revision of a page can be read, after any further commands
  it reads the same, title, content, hash, author and time, unless the page is quarantined
  at that moment; a release makes it readable again unchanged.\<close>

theorem mem_revision_immutable:
  assumes "mem_get_revision pid rid st = Inr (Some r)"
  shows "\<exists>p. dict_get (ms_pages (mem_run cmds st)) pid = Some p
    \<and> mem_get_revision pid rid (mem_run cmds st) =
        Inr (if ps_moderation_status p = str ''quarantined'' then None else Some r)"
proof -
  from assms obtain p i where p: "dict_get (ms_pages st) pid = Some p"
    and i: "find (revision_match rid) (stored_stream st pid) = Some i"
    and r: "revision_of_event rid (se_event i) = Inr r"
    by (auto simp: mem_get_revision_stream res_simps split: option.splits if_splits)
  from mem_run_grows [OF p, of cmds] obtain p' new where
    "dict_get (ms_pages (mem_run cmds st)) pid = Some p'"
    "stored_stream (mem_run cmds st) pid = stored_stream st pid @ new" by blast
  with i r show ?thesis by (auto simp: mem_get_revision_stream find_append)
qed

theorem mem_revision_immutable_witness:
  "\<exists>p r. dict_get (ms_pages (mem_run [demo_edit, demo_quarantine] demo_store)) (str ''page-1'') = Some p
    \<and> rv_content r = str ''First''
    \<and> mem_get_revision (str ''page-1'') (str ''rev-1'') (mem_run [demo_edit, demo_quarantine] demo_store) =
        Inr (if ps_moderation_status p = str ''quarantined'' then None else Some r)"
proof -
  obtain d e where d: "decide None demo_create = Inr d" "dc_events d = [e]"
    and es: "ms_events demo_store = [(str ''page-1'', [\<lparr>se_index = 1, se_event = e\<rparr>])]"
    and ps: "ms_pages demo_store = [(str ''page-1'', demo_page)]"
    using demo_create_accepted by blast
  have "ps_moderation_status demo_page = str ''visible''" by (simp add: demo_page_def)
  with decide_revision_event [OF d(1) _ d(2)] es ps obtain r where
    "mem_get_revision (str ''page-1'') (str ''rev-1'') demo_store = Inr (Some r)"
    "rv_content r = str ''First''"
    by (auto simp: mem_get_revision_stream stored_stream_def revision_match_def)
  with mem_revision_immutable [of "str ''page-1''" "str ''rev-1''" demo_store r "[demo_edit, demo_quarantine]"]
  show ?thesis by auto
qed

text \<open>Effects are delivered once. In a reachable store, resolving a waiting effect with its own
  type succeeds, stamps it and takes it out of the pending list; resolving it again succeeds
  and changes nothing; with another type it is refused and changes nothing.\<close>

theorem mem_outbox_delivered_once:
  assumes "mem_reachable st" and "dict_get (ms_outbox st) eid = Some ob"
    and "ob_status ob = str ''pending''"
    and "mem_resolve_outbox eid (ef_effect_type (ob_effect ob)) t st = (ok, st')"
  shows "ok \<and> (\<forall>r \<in> set (mem_pending_outbox limit et st'). ef_effect_id (ob_effect r) \<noteq> eid)
    \<and> dict_get (ms_outbox st') eid = Some (ob\<lparr>ob_status := str ''delivered'', ob_delivered_at := Some t\<rparr>)
    \<and> mem_resolve_outbox eid (ef_effect_type (ob_effect ob)) t2 st' = (True, st')
    \<and> (\<forall>other. other \<noteq> ef_effect_type (ob_effect ob) \<longrightarrow>
         mem_resolve_outbox eid other t2 st = (False, st))"
proof -
  from assms have st': "ok" "st' = st\<lparr>ms_outbox := dict_set eid
      (ob\<lparr>ob_status := str ''delivered'', ob_delivered_at := Some t\<rparr>) (ms_outbox st)\<rparr>"
    by (auto simp: mem_resolve_outbox_def)
  have "outbox_ok st'" using outbox_ok_resolve [OF mem_reachable_outbox [OF assms(1)]] assms(4)
    by (metis snd_conv)
  then have "ef_effect_id (ob_effect r) \<noteq> eid" if "r \<in> set (mem_pending_outbox limit et st')" for r
    using mem_pending_get [OF _ that] st' by (auto split: if_splits)
  with st' assms show ?thesis by (auto simp: mem_resolve_outbox_def)
qed

theorem mem_outbox_delivered_once_witness:
  "\<exists>ob st'. dict_get (ms_outbox (snd (mem_execute demo_submit demo_store))) (str ''review:sub-1'') = Some ob
    \<and> mem_resolve_outbox (str ''review:sub-1'') (str ''review_requested'') 6000
        (snd (mem_execute demo_submit demo_store)) = (True, st')
    \<and> mem_resolve_outbox (str ''review:sub-1'') (str ''review_requested'') 7000 st' = (True, st')"
proof -
  let ?st = "snd (mem_execute demo_submit demo_store)"
  have reach: "mem_reachable ?st"
    by (rule mem_reachable.execute [OF demo_store_reachable]) (simp add: mem_allowed_def demo_submit_def)
  from demo_submitted obtain ob where r: "dict_get (ms_outbox ?st) (str ''review:sub-1'') = Some ob"
    "ob_status ob = str ''pending''" "ef_effect_type (ob_effect ob) = str ''review_requested''"
    by blast
  obtain ok st' where x: "mem_resolve_outbox (str ''review:sub-1'')
      (ef_effect_type (ob_effect ob)) 6000 ?st = (ok, st')" by force
  from mem_outbox_delivered_once [OF reach r(1,2) x, of _ _ 7000] r x show ?thesis by auto
qed

text \<open>The \<open>page_exists\<close> guard never runs: a creation is always decided on no state. A creation
  that reuses the id of an existing page under a free slug is accepted, replaces the page
  with version 1, and leaves a stream that no longer replays, so it is on the caller to
  derive a new page id for every creation.\<close>

theorem mem_create_overwrites:
  assumes "mem_reachable st" and "is_CreatePage cmd"
    and "dict_get (ms_pages st) (page_id cmd) = Some p"
    and "dict_get (ms_receipts st) (command_id cmd) = None"
    and "dict_get (ms_slug_to_id st) (slug cmd) = None"
    and "str ''wiki:edit'' \<in> scopes cmd" and "encodable (content cmd)"
    and "intent_fingerprint cmd = Inr fp"
  shows "\<exists>r st' q. mem_execute cmd st = (Inr r, st') \<and> rc_stream_version r = 1
    \<and> dict_get (ms_pages st') (page_id cmd) = Some q \<and> ps_content q = content cmd
    \<and> (\<exists>x. replay (map se_event (stored_stream st' (page_id cmd))) = Inl x)"
proof -
  have cs: "command_state st cmd = None" using assms(2) by (simp add: command_state_def)
  from assms(2,6,7) content_digest_ok_iff [of "content cmd"] obtain d where d: "decide None cmd = Inr d"
    by (auto simp: decide_defs)
  from decide_create_Inr [OF d assms(2)] obtain s' where e: "dc_events d = [hd (dc_events d)]"
    "evolve None (hd (dc_events d)) = Inr s'" "ps_content s' = content cmd" "ps_stream_version s' = 1"
    by auto
  from mem_execute_appends [OF assms(4) _ _ e(1) _ assms(8), of s'] assms(5) cs d e(2)
  obtain r where a: "appended cmd st d (hd (dc_events d)) s' r (snd (mem_execute cmd st))"
    "fst (mem_execute cmd st) = Inr r" by auto
  have type: "ev_event_type (hd (dc_events d)) = str ''page_created''"
    using d assms(2) by (auto simp: decide_defs res_simps)
  from reachable_stream [OF assms(1,3)] type appended_fields(2) [OF a(1), of "page_id cmd"]
  have "\<exists>x. replay (map se_event (stored_stream (snd (mem_execute cmd st)) (page_id cmd))) = Inl x"
    by (simp add: replay_def fold_res_append evolve_def)
  with a e appended_fields(1) [OF a(1)] show ?thesis
    by (intro exI [of _ r] exI [of _ "snd (mem_execute cmd st)"] exI [of _ s'])
      (auto simp: prod_eq_iff appended_def)
qed

theorem mem_create_overwrites_witness:
  "\<exists>r st' q. mem_execute demo_recreate demo_store = (Inr r, st')
    \<and> dict_get (ms_pages st') (str ''page-1'') = Some q \<and> ps_content q = str ''Other''
    \<and> (\<exists>x. replay (map se_event (stored_stream st' (str ''page-1''))) = Inl x)"
proof -
  have "\<exists>fp. intent_fingerprint demo_recreate = Inr fp"
    by (rule intent_fingerprint_ok) (simp add: demo_recreate_def command_intent_def)
  then obtain fp where fp: "intent_fingerprint demo_recreate = Inr fp" ..
  from mem_create_overwrites [OF demo_store_reachable _ _ _ _ _ _ fp, of demo_page]
    demo_create_accepted show ?thesis by (auto simp: demo_recreate_def)
qed

end
