(* ===== verification/WikiAgree.thy ===== *)
theory WikiAgree
  imports WikiPostgresProps WikiMemoryProps
begin

text \<open>
  The properties of the PostgreSQL adapter that span its statements, and its agreement with
  the in-memory adapter.
\<close>

section \<open>A concrete database\<close>

lemma pg_text_str [simp]: "pg_text (str s) \<longleftrightarrow> CHR 0x00 \<notin> set s"
proof -
  have z: "of_char c = (0 :: nat) \<longleftrightarrow> c = CHR 0x00" for c :: char
    using injD [OF inj_of_char_nat, of c "CHR 0x00"] by auto
  have "0 \<in> set (str s) \<longleftrightarrow> CHR 0x00 \<in> set s"
    by (auto simp: str_def image_iff z)
  then show ?thesis by (simp add: pg_text_def)
qed

lemma pg_text_digest: "content_digest c = Inr h \<Longrightarrow> pg_text h"
  using content_digest_encodable [of c h] content_digest_shape [of c h]
  by (auto simp: pg_text_def is_hex_char_def)

definition demo_pg_create :: WikiCommand where
  "demo_pg_create = CreatePage (str ''cmd:1'') (str ''anonymous:a'') {str ''wiki:edit''} 1000
     (str ''00000000-0000-4000-8000-000000000001'') (str ''00000000-0000-4000-8000-000000000002'')
     (str ''hello'') (str ''Hello'') (str ''First'') (str ''first draft'')"

lemma demo_pg_create_sel [simp]:
  "is_CreatePage demo_pg_create" "command_id demo_pg_create = str ''cmd:1''"
  "actor_id demo_pg_create = str ''anonymous:a''" "scopes demo_pg_create = {str ''wiki:edit''}"
  "occurred_at demo_pg_create = 1000"
  "page_id demo_pg_create = str ''00000000-0000-4000-8000-000000000001''"
  "revision_id demo_pg_create = str ''00000000-0000-4000-8000-000000000002''"
  "slug demo_pg_create = str ''hello''" "title demo_pg_create = str ''Hello''"
  "content demo_pg_create = str ''First''" "summary demo_pg_create = str ''first draft''"
  by (simp_all add: demo_pg_create_def)

lemmas uuid_eval = uuid_canon_def uuid_str_def uuid_digits_def int16_def hex_unsigned_def
  hex_digits_def hex_val_def hex_digit_def startswith_def strip_def strip_by_def py_space_def
  py_simps upt_rec Let_def

lemma demo_uuids [simp]:
  "uuid_canon (str ''00000000-0000-4000-8000-000000000001'') = Some (str ''00000000-0000-4000-8000-000000000001'')"
  "uuid_canon (str ''00000000-0000-4000-8000-000000000002'') = Some (str ''00000000-0000-4000-8000-000000000002'')"
  by (simp_all add: uuid_eval)

lemma demo_pg_canonical: "canonical demo_pg_create"
  by (simp add: canonical_def)

definition demo_pg_page :: PageState where
  "demo_pg_page = \<lparr>ps_page_id = str ''00000000-0000-4000-8000-000000000001'', ps_slug = str ''hello'',
     ps_title = str ''Hello'', ps_content = str ''First'',
     ps_head_revision_id = str ''00000000-0000-4000-8000-000000000002'',
     ps_content_hash = projr (content_digest (str ''First'')),
     ps_head_actor_id = str ''anonymous:a'', ps_stream_version = 1,
     ps_review_status = str ''unreviewed'', ps_moderation_status = str ''visible'',
     ps_created_at = 1000, ps_updated_at = 1000, ps_authority = str ''community''\<rparr>"

definition demo_db :: PgDb where
  "demo_db = snd (pg_execute demo_pg_create pg_empty)"

lemma demo_db_created:
  "\<exists>r. pg_execute demo_pg_create pg_empty = (Inr r, demo_db)"
  "pg_pages demo_db = [demo_pg_page]"
proof -
  obtain h where h: "content_digest (str ''First'') = Inr h" using demo_digest by blast
  have "\<exists>fp. intent_fingerprint demo_pg_create = Inr fp"
    by (rule intent_fingerprint_ok) (simp add: demo_pg_create_def command_intent_def)
  then obtain fp where fp: "intent_fingerprint demo_pg_create = Inr fp" ..
  have ht: "pg_text h" using pg_text_digest [OF h] .
  have "\<exists>r db'. pg_execute demo_pg_create pg_empty = (Inr r, db') \<and> pg_pages db' = [demo_pg_page]"
    using h ht
    by (simp add: pg_execute_def fp transaction_def pg_body_def pg_prepare_def pg_apply_def decide_defs
        pg_empty_def select_receipt_def select_page_by_slug_def insert_event_def as_uuid_def
        pg_json_def evolve_rules pg_store_page_def insert_page_def page_texts_def page_checks_def
        insert_receipt_def new_events_have_pages_def demo_pg_page_def Let_def)
  then show "\<exists>r. pg_execute demo_pg_create pg_empty = (Inr r, demo_db)"
    "pg_pages demo_db = [demo_pg_page]" by (auto simp: demo_db_def)
qed

lemma demo_db_reachable: "pg_reachable demo_db"
  unfolding demo_db_def by (rule pg_reachable.execute [OF pg_reachable.empty demo_pg_canonical])

lemma applied_slug:
  assumes "applied cmd fp st db c r db'" and cr: "is_CreatePage cmd"
  shows "st = None \<and> ps_slug (cm_next c) = slug cmd"
proof -
  from assms(1) have d: "decide st cmd = Inr (cm_decision c)"
    and e: "dc_events (cm_decision c) = [cm_event c]" "evolve st (cm_event c) = Inr (cm_next c)"
    by (simp_all add: applied_def)
  from decide_create_Inr [OF d cr] e show ?thesis by auto
qed

section \<open>Two halves of a command\<close>

text \<open>A successful creation found no page under its slug when it wrote.\<close>

lemma pg_apply_create_slug:
  assumes "pg_apply cmd fp None db = Inr (r, db')" and "is_CreatePage cmd"
  shows "select_page_by_slug (slug cmd) db = None"
proof -
  from pg_apply_Inr [OF assms(1)] obtain c where c: "applied cmd fp None db c r db'" by auto
  with assms(2) have "ps_slug (cm_next c) = slug cmd" by (simp add: applied_slug)
  with c assms(2) show ?thesis
    by (auto simp: applied_def page_fits_def select_page_by_slug_def find_None_iff)
qed

section \<open>The memory adapter follows the database\<close>

definition mem_of_pg :: "MemStore \<Rightarrow> PgDb \<Rightarrow> bool" where
  "mem_of_pg m db \<longleftrightarrow>
     (\<forall>pid. dict_get (ms_pages m) pid = select_page pid db)
   \<and> (\<forall>sl. dict_get (ms_slug_to_id m) sl = map_option ps_page_id (select_page_by_slug sl db))
   \<and> (\<forall>pid. stored_stream m pid = pg_stream db pid)
   \<and> (\<forall>i. dict_get (ms_receipts m) i = map_option (receipt_of_row False) (select_receipt i db))"

lemma find_map_keyed:
  "(\<And>x. x \<in> set xs \<Longrightarrow> k (f x) = k x) \<Longrightarrow>
    find (\<lambda>x. k x = a) (map f xs) = map_option f (find (\<lambda>x. k x = a) xs)"
  by (induction xs) auto

text \<open>The page table after an applied command, by id and by slug.\<close>

lemma applied_lookups:
  assumes inv: "pg_inv db" and can: "canonical cmd"
    and ap: "applied cmd fp (selected_state cmd db) db c r db'"
  shows "select_page pid db' = (if pid = page_id cmd then Some (cm_next c) else select_page pid db)"
    and "map_option ps_page_id (select_page_by_slug sl db') =
      (if is_CreatePage cmd \<and> sl = slug cmd then Some (page_id cmd)
       else map_option ps_page_id (select_page_by_slug sl db))"
proof -
  let ?s' = "cm_next c" and ?pid = "page_id cmd"
  note st = applied_step [OF inv can ap]
  have both: "select_page pid db' = (if pid = ?pid then Some ?s' else select_page pid db)
    \<and> map_option ps_page_id (select_page_by_slug sl db') =
      (if is_CreatePage cmd \<and> sl = slug cmd then Some ?pid
       else map_option ps_page_id (select_page_by_slug sl db))"
  proof (cases "is_CreatePage cmd")
    case True
    with applied_slug [OF ap] have sl: "ps_slug ?s' = slug cmd" by simp
    from True st have p: "pg_pages db' = pg_pages db @ [?s']" "ps_page_id ?s' = ?pid"
      and new: "\<forall>p \<in> set (pg_pages db). ps_page_id p \<noteq> ?pid \<and> ps_slug p \<noteq> slug cmd"
      using sl by auto
    from new have "select_page ?pid db = None" "select_page_by_slug (slug cmd) db = None"
      by (auto simp: select_page_def select_page_by_slug_def find_None_iff)
    with p sl True show ?thesis
      by (auto simp: select_page_def select_page_by_slug_def find_append split: option.splits)
  next
    case False
    let ?f = "\<lambda>p. if ps_page_id p = ?pid then ?s' else p"
    from st False obtain s where p: "pg_pages db' = map ?f (pg_pages db)" "ps_page_id ?s' = ?pid"
      "s \<in> set (pg_pages db)" "ps_page_id s = ?pid" "ps_slug ?s' = ps_slug s" by auto
    have only: "row = s" if "row \<in> set (pg_pages db)" "ps_page_id row = ?pid" for row
      using distinct_keyD [of ps_page_id "pg_pages db" row s] inv that p by (simp add: pg_inv_def)
    have "ps_slug (?f q) = ps_slug q" if "q \<in> set (pg_pages db)" for q
      using only [OF that] p(5) by auto
    then have "select_page_by_slug sl db' = map_option ?f (select_page_by_slug sl db)"
      by (simp add: select_page_by_slug_def p(1) find_map_keyed)
    moreover have f: "ps_page_id (?f q) = ps_page_id q" for q using p(2) by simp
    ultimately have "map_option ps_page_id (select_page_by_slug sl db')
        = map_option ps_page_id (select_page_by_slug sl db)"
      by (cases "select_page_by_slug sl db") auto
    moreover have "select_page pid db' = map_option ?f (select_page pid db)"
      by (simp add: select_page_def p(1) find_map_keyed f)
    moreover have "select_page ?pid db \<noteq> None"
      using p(3,4) by (auto simp: select_page_def find_None_iff)
    ultimately show ?thesis
      using False select_page_row [of pid db] by (cases "select_page pid db") auto
  qed
  then show "select_page pid db' = (if pid = page_id cmd then Some (cm_next c) else select_page pid db)"
    and "map_option ps_page_id (select_page_by_slug sl db') =
      (if is_CreatePage cmd \<and> sl = slug cmd then Some (page_id cmd)
       else map_option ps_page_id (select_page_by_slug sl db))" by blast+
qed

lemma applied_version: "applied cmd fp st db c r db' \<Longrightarrow> ps_stream_version (cm_next c) = version_of st + 1"
proof (cases st)
  case None
  assume "applied cmd fp st db c r db'"
  with None decide_None_Inr [of cmd "cm_decision c"] decide_create_Inr [of None cmd "cm_decision c"]
  show ?thesis by (auto simp: applied_def version_of_def)
next
  case (Some s)
  assume "applied cmd fp st db c r db'"
  with Some evolve_frame [of s "cm_event c" "cm_next c"] show ?thesis
    by (simp add: applied_def version_of_def)
qed

lemma pg_state_in_memory:
  assumes "mem_of_pg m db" and "pg_inv db" and "canonical cmd"
  shows "command_state m cmd = selected_state cmd db"
proof -
  have "page_from_row row = row" if "select_page (page_id cmd) db = Some row" for row
    using that assms(2) select_page_row [OF that] by (auto simp: pg_inv_def row_ok_def intro: page_ok_row)
  then show ?thesis using assms(1,3)
    by (cases "select_page (page_id cmd) db")
      (auto simp: command_state_def selected_state_def mem_of_pg_def canonical_def)
qed

lemma memory_follows_applied:
  assumes rel: "mem_of_pg m db" and inv: "pg_inv db" and can: "canonical cmd"
    and fp: "intent_fingerprint cmd = Inr fp"
    and ap: "applied cmd fp (selected_state cmd db) db c r db'"
  shows "\<exists>m'. mem_execute cmd m = (Inr r, m') \<and> mem_of_pg m' db'"
proof -
  let ?st = "selected_state cmd db" and ?e = "cm_event c" and ?s' = "cm_next c"
  note step = applied_step [OF inv can ap] and look = applied_lookups [OF inv can ap]
  have cs: "command_state m cmd = ?st" by (rule pg_state_in_memory [OF rel inv can])
  have d: "decide ?st cmd = Inr (cm_decision c)" "dc_events (cm_decision c) = [?e]"
    "evolve ?st ?e = Inr ?s'" using ap by (simp_all add: applied_def)
  have nr: "dict_get (ms_receipts m) (command_id cmd) = None"
    using rel ap by (auto simp: mem_of_pg_def applied_def select_receipt_def find_None_iff)
  have ns: "is_CreatePage cmd \<longrightarrow> dict_get (ms_slug_to_id m) (slug cmd) = None"
  proof
    assume cr: "is_CreatePage cmd"
    with applied_slug [OF ap] have "ps_slug ?s' = slug cmd" by simp
    with step cr rel show "dict_get (ms_slug_to_id m) (slug cmd) = None"
      by (auto simp: mem_of_pg_def select_page_by_slug_def find_None_iff)
  qed
  from mem_execute_appends [OF nr ns _ d(2) _ fp, of ?s'] cs d obtain q where
    q: "appended cmd m (cm_decision c) ?e ?s' q (snd (mem_execute cmd m))"
    "fst (mem_execute cmd m) = Inr q" by auto
  let ?m' = "snd (mem_execute cmd m)"
  have "rc_fingerprint q = fp"
  proof -
    have "mem_execute cmd m = (Inr q, ?m')" using q(2) by (simp add: prod_eq_iff)
    then show ?thesis by (cases rule: mem_execute_Inr) (use nr fp in auto)
  qed
  with q(1) ap have qr: "q = r" by (cases q) (auto simp: appended_def applied_def)
  have ver: "version_of ?st = int (length (stored_stream m (page_id cmd)))"
    using step applied_version [OF ap] rel by (auto simp: stream_ok_def mem_of_pg_def)
  have x: "pg_events db' = pg_events db @ [\<lparr>se_index = version_of ?st + 1, se_event = ?e\<rparr>]"
    "ev_page_id ?e = page_id cmd" using step by blast+
  have str: "stored_stream ?m' pid = pg_stream db' pid" for pid
    using appended_fields(2) [OF q(1), of pid] pg_stream_append [OF x(1), of pid] rel ver x(2)
    by (simp add: mem_of_pg_def)
  have "dict_get (ms_receipts ?m') i = map_option (receipt_of_row False) (select_receipt i db')" for i
    using appended_fields(4) [OF q(1)] qr ap rel step nr
    by (auto simp: applied_def mem_of_pg_def select_receipt_def find_append receipt_of_row_def
        split: option.splits)
  moreover have "dict_get (ms_slug_to_id ?m') sl = map_option ps_page_id (select_page_by_slug sl db')" for sl
    using q(1) rel look(2) [of sl] by (auto simp: appended_def mem_of_pg_def)
  moreover have "dict_get (ms_pages ?m') pid = select_page pid db'" for pid
    using appended_fields(1) [OF q(1)] rel look(1) [of pid] by (simp add: mem_of_pg_def)
  ultimately have "mem_of_pg ?m' db'" using str by (simp add: mem_of_pg_def)
  with q(2) qr show ?thesis by (metis prod.collapse)
qed

section \<open>Properties\<close>

text \<open>Events are numbered within the streams of the pages, so \<open>(page_id, event_index)\<close> is a key.\<close>

lemma distinct_by_filter:
  assumes "\<And>k. k \<in> f ` set xs \<Longrightarrow> distinct (map g (filter (\<lambda>x. f x = k) xs))"
  shows "distinct (map (\<lambda>x. (f x, g x)) xs)"
  using assms
proof (induction xs)
  case (Cons x xs)
  have "distinct (map g (filter (\<lambda>y. f y = k) xs))" if "k \<in> f ` set xs" for k
    using Cons.prems [of k] that by (auto split: if_splits)
  then have "distinct (map (\<lambda>y. (f y, g y)) xs)" by (rule Cons.IH)
  moreover have "(f x, g x) \<notin> (\<lambda>y. (f y, g y)) ` set xs"
    using Cons.prems [of "f x"] by (auto simp: image_iff)
  ultimately show ?case by simp
qed simp

lemma pg_event_keys:
  assumes "pg_inv db"
  shows "distinct (map (\<lambda>r. (ev_page_id (se_event r), se_index r)) (pg_events db))"
proof (rule distinct_by_filter)
  fix k assume "k \<in> (\<lambda>r. ev_page_id (se_event r)) ` set (pg_events db)"
  with assms obtain p where p: "p \<in> set (pg_pages db)" "ps_page_id p = k" by (force simp: pg_inv_def)
  with assms have "map se_index (pg_stream db k) = map int [1..<Suc (nat (ps_stream_version p))]"
    by (auto simp: pg_inv_def row_ok_def stream_ok_def)
  then show "distinct (map se_index (filter (\<lambda>r. ev_page_id (se_event r) = k) (pg_events db)))"
    unfolding pg_stream_def [symmetric] by (simp add: distinct_map)
qed

definition pg_keys_hold :: "PgDb \<Rightarrow> bool" where
  "pg_keys_hold db \<longleftrightarrow> distinct (map ps_page_id (pg_pages db)) \<and> distinct (map ps_slug (pg_pages db))
     \<and> distinct (map (\<lambda>r. (ev_page_id (se_event r), se_index r)) (pg_events db))
     \<and> distinct (map (\<lambda>r. ev_event_id (se_event r)) (pg_events db))
     \<and> distinct (map pr_command_id (pg_receipts db))
     \<and> distinct (map (\<lambda>r. ef_effect_id (po_effect r)) (pg_outbox db))
     \<and> set (map (\<lambda>r. ev_page_id (se_event r)) (pg_events db)) \<subseteq> set (map ps_page_id (pg_pages db))"

text \<open>C8: In every database that commands with identifiers in canonical form (which is how the router
  makes them) and resolutions of the outbox lead to, each row of \<open>wiki_pages\<close> is the replay of its
  rows in \<open>wiki_events\<close>, numbered from 1 to the row's version, its hash is the digest of its
  content, and its id and its slug find it; and the keys of all four tables hold: page ids and
  slugs, event positions and event ids, command ids of receipts, effect ids of the outbox, and
  every event has its page. Unlike in memory this needs no fresh page ids from the caller, since
  the keys refuse a second creation of a page.\<close>

theorem pg_rows_replay:
  assumes "pg_reachable db"
  shows "pg_keys_hold db
    \<and> (\<forall>p \<in> set (pg_pages db). replay (map se_event (pg_stream db (ps_page_id p))) = Inr (Some p)
      \<and> map se_index (pg_stream db (ps_page_id p)) = map int [1..<Suc (nat (ps_stream_version p))]
      \<and> content_digest (ps_content p) = Inr (ps_content_hash p)
      \<and> select_page (ps_page_id p) db = Some p \<and> select_page_by_slug (ps_slug p) db = Some p)"
proof -
  note pg = pg_reachable_inv [OF assms]
  note inv = pg [unfolded pg_inv_def]
  have "outbox_key = (\<lambda>r. ef_effect_id (po_effect r))" by (simp add: fun_eq_iff outbox_key_def)
  moreover have "ev_page_id (se_event r) \<in> ps_page_id ` set (pg_pages db)" if "r \<in> set (pg_events db)" for r
    using inv that by force
  ultimately have "pg_keys_hold db"
    using inv pg_event_keys [OF pg] by (auto simp: pg_keys_hold_def)
  then show ?thesis
    using inv distinct_find(1) [of ps_page_id "pg_pages db"] distinct_find(1) [of ps_slug "pg_pages db"]
    by (auto simp: row_ok_def stream_ok_def page_ok_def select_page_def select_page_by_slug_def)
qed

theorem pg_rows_replay_witness:
  "pg_keys_hold demo_db \<and> replay (map se_event (pg_stream demo_db (ps_page_id demo_pg_page))) = Inr (Some demo_pg_page)"
  using pg_rows_replay [OF demo_db_reachable] demo_db_created(2) by auto

text \<open>C9: Commands are serialisable. The reading half of \<open>execute\<close> may see an older committed state
  than the writing half; as long as the advisory lock keeps the command id unused and the
  row lock keeps the page's row, the transaction ends in the database, and with the success,
  that running the whole command on the later state gives. In particular of two creations
  that both found a slug free, the later one to write changes nothing.\<close>

theorem pg_serializable:
  assumes "intent_fingerprint cmd = Inr fp"
    and "pg_prepare cmd fp db0 = Inr (Undecided st)"
    and "select_receipt (command_id cmd) db = None"
    and "\<not> is_CreatePage cmd \<Longrightarrow>
      select_page (the (uuid_canon (page_id cmd))) db = select_page (the (uuid_canon (page_id cmd))) db0"
  shows "snd (transaction (pg_apply cmd fp st) db) = snd (pg_execute cmd db)
    \<and> (\<forall>r. fst (transaction (pg_apply cmd fp st) db) = Inr r \<longleftrightarrow> fst (pg_execute cmd db) = Inr r)"
proof -
  from assms(2) have txt_ok: "pg_text (command_id cmd)"
    and cr: "is_CreatePage cmd \<Longrightarrow> pg_text (slug cmd) \<and> st = None"
    and nc: "\<not> is_CreatePage cmd \<Longrightarrow> uuid_canon (page_id cmd) \<noteq> None
      \<and> st = map_option page_from_row (select_page (the (uuid_canon (page_id cmd))) db0)"
    by (auto simp: pg_prepare_def res_simps split: if_splits option.splits)
  show ?thesis
  proof (cases "is_CreatePage cmd \<and> select_page_by_slug (slug cmd) db \<noteq> None")
    case True
    then have ex: "pg_execute cmd db = (Inl slug_taken, db)"
      using assms(1,3) txt_ok cr by (simp add: pg_execute_def transaction_def pg_body_def pg_prepare_def)
    have "pg_apply cmd fp st db \<noteq> Inr x" for x
      using pg_apply_create_slug [of cmd fp db "fst x" "snd x"] True cr by auto
    then obtain y where "pg_apply cmd fp st db = Inl y" by (cases "pg_apply cmd fp st db") auto
    with ex show ?thesis by (simp add: transaction_def)
  next
    case False
    have "pg_prepare cmd fp db = Inr (Undecided st)"
      using False assms(3,4) txt_ok cr nc
      by (cases "is_CreatePage cmd") (auto simp: pg_prepare_def as_uuid_def)
    then show ?thesis using assms(1) by (simp add: pg_execute_def transaction_def pg_body_def)
  qed
qed

theorem pg_serializable_witness:
  "snd (transaction (pg_apply demo_pg_create (projr (intent_fingerprint demo_pg_create)) None) pg_empty) = demo_db"
proof -
  have "\<exists>fp. intent_fingerprint demo_pg_create = Inr fp"
    by (rule intent_fingerprint_ok) (simp add: demo_pg_create_def command_intent_def)
  then have fp: "intent_fingerprint demo_pg_create = Inr (projr (intent_fingerprint demo_pg_create))" by auto
  have p: "pg_prepare demo_pg_create (projr (intent_fingerprint demo_pg_create)) pg_empty = Inr (Undecided None)"
    by (simp add: pg_prepare_def pg_empty_def select_receipt_def select_page_by_slug_def)
  from pg_serializable [OF fp p, of pg_empty] show ?thesis
    by (simp add: demo_db_def pg_empty_def select_receipt_def)
qed

text \<open>C10: The two adapters agree: whatever command the database accepts, the in-memory adapter
  accepts with the same receipt when it holds the same pages, slugs, streams and receipts,
  and it holds the same ones afterwards.\<close>

theorem memory_follows_postgres:
  assumes "mem_of_pg m db" and "pg_reachable db" and "canonical cmd"
    and "pg_execute cmd db = (Inr r, db')"
  shows "\<exists>m'. mem_execute cmd m = (Inr r, m') \<and> mem_of_pg m' db'"
proof -
  note inv = pg_reachable_inv [OF assms(2)]
  from assms(3) have can: "uuid_canon (page_id cmd) = Some (page_id cmd)" by (simp add: canonical_def)
  from assms(4) can show ?thesis
  proof (cases rule: pg_execute_Inr)
    case (retry prior)
    with assms(1) show ?thesis
      by (auto simp: mem_execute_def mem_of_pg_def receipt_of_row_def)
  next
    case (applied fp c)
    with memory_follows_applied [OF assms(1) inv assms(3)] show ?thesis by blast
  qed
qed

theorem memory_follows_postgres_witness:
  "\<exists>r m'. mem_execute demo_pg_create mem_init = (Inr r, m') \<and> mem_of_pg m' demo_db"
proof -
  obtain r where r: "pg_execute demo_pg_create pg_empty = (Inr r, demo_db)"
    using demo_db_created(1) by blast
  have "mem_of_pg mem_init pg_empty"
    by (simp add: mem_of_pg_def mem_init_def pg_empty_def select_page_def select_page_by_slug_def
        select_receipt_def stored_stream_def pg_stream_def)
  from memory_follows_postgres [OF this pg_reachable.empty demo_pg_canonical r] show ?thesis by blast
qed

text \<open>A search for plain text lists exactly the visible pages whose slug or title contains it,
  as in memory; but the query goes into the \<open>ILIKE\<close> pattern unescaped, so that a search for an
  underscore lists every visible page.\<close>

theorem pg_search_pattern:
  assumes "pg_reachable db"
  shows "(q \<noteq> [] \<and> plain_pattern (low q) \<longrightarrow>
      set (pg_list_pages low (Some q) (length (pg_pages db)) 0 db)
        = {p \<in> set (pg_pages db). page_matches low (Some q) p})
    \<and> (low [95] = [95] \<and> (\<forall>t. low t = [] \<longleftrightarrow> t = []) \<and> (\<forall>p \<in> set (pg_pages db). ps_title p \<noteq> []) \<longrightarrow>
      set (pg_list_pages low (Some [95]) (length (pg_pages db)) 0 db)
        = {p \<in> set (pg_pages db). ps_moderation_status p = str ''visible''})"
proof -
  have row: "page_from_row p = p" if "p \<in> set (pg_pages db)" for p
    using pg_reachable_inv [OF assms] that by (auto simp: pg_inv_def row_ok_def intro: page_ok_row)
  have all: "set (pg_list_pages low (Some q) (length (pg_pages db)) 0 db)
      = {p \<in> set (pg_pages db). ps_moderation_status p = str ''visible''
          \<and> (q \<noteq> [] \<longrightarrow> ilike_around low q (ps_slug p) \<or> ilike_around low q (ps_title p))}" for q
  proof -
    let ?m = "\<lambda>p. ps_moderation_status p = str ''visible''
          \<and> (q \<noteq> [] \<longrightarrow> ilike_around low q (ps_slug p) \<or> ilike_around low q (ps_title p))"
    have "page_slice 0 (length (pg_pages db)) (sort_desc (\<lambda>p. (ps_updated_at p, ps_page_id p)) (filter ?m (pg_pages db)))
        = sort_desc (\<lambda>p. (ps_updated_at p, ps_page_id p)) (filter ?m (pg_pages db))"
      by (simp add: page_slice_def)
    then have "pg_list_pages low (Some q) (length (pg_pages db)) 0 db
        = map page_from_row (sort_desc (\<lambda>p. (ps_updated_at p, ps_page_id p)) (filter ?m (pg_pages db)))"
      by (simp add: pg_list_pages_def)
    then show ?thesis using row by (auto simp: image_iff)
  qed
  have under: "ilike_around low [95] t" if u: "low [95] = [95]" and ne: "low t \<noteq> []" for t
  proof -
    obtain c cs where "low t = c # cs" using ne by (cases "low t") auto
    with u show ?thesis by (cases cs) (auto simp: ilike_around_def like_any)
  qed
  show ?thesis
    using under by (auto simp: all page_matches_def ilike_around_def like_around)
qed

theorem pg_search_pattern_witness:
  "set (pg_list_pages id (Some (str ''ell'')) 1 0 demo_db) = {demo_pg_page}
    \<and> set (pg_list_pages id (Some [95]) 1 0 demo_db) = {demo_pg_page}"
proof -
  note all = pg_search_pattern [OF demo_db_reachable, of "str ''ell''" id, unfolded demo_db_created(2)]
  have q: "plain_pattern (str ''ell'')" by (simp add: plain_pattern_def py_simps)
  have c: "contains (str ''ell'') (str ''Hello'')" by (simp add: startswith_def py_simps)
  have m: "page_matches id (Some (str ''ell'')) demo_pg_page"
    using c by (simp add: page_matches_def demo_pg_page_def)
  have v: "ps_moderation_status demo_pg_page = str ''visible''" "ps_title demo_pg_page \<noteq> []"
    by (simp_all add: demo_pg_page_def)
  from all q m have "set (pg_list_pages id (Some (str ''ell'')) 1 0 demo_db) = {demo_pg_page}" by auto
  moreover from all v have "set (pg_list_pages id (Some [95]) 1 0 demo_db) = {demo_pg_page}" by auto
  ultimately show ?thesis ..
qed

end
