(* ===== verification/WikiApiProps.thy ===== *)
theory WikiApiProps
  imports WikiApi WikiAgree
begin

text \<open>
  What the wiki API promises over its stores: the slugs it accepts, that only an authenticated
  session changes the store, that a retried request is answered with the first result, and
  that a quarantined page is gone from every public read.
\<close>

section \<open>Slugs\<close>

lemma dash_runs_set: "x \<in> set (dash_runs p b s) \<Longrightarrow> x = 45 \<or> (x \<in> set s \<and> \<not> p x)"
  by (induction p b s rule: dash_runs.induct) (auto split: if_splits)

fun single_dashes :: "pystr \<Rightarrow> bool" where
  "single_dashes (a # b # s) \<longleftrightarrow> \<not> (a = 45 \<and> b = 45) \<and> single_dashes (b # s)"
| "single_dashes s \<longleftrightarrow> True"

lemma dash_runs_single:
  "single_dashes (dash_runs (\<lambda>c. c = 45) b s)
    \<and> (b \<longrightarrow> (case dash_runs (\<lambda>c. c = 45) b s of [] \<Rightarrow> True | c # _ \<Rightarrow> c \<noteq> 45))"
proof (induction s arbitrary: b)
  case (Cons c s)
  show ?case
    using Cons [of True] Cons [of False]
    by (cases "dash_runs (\<lambda>c. c = 45) True s"; cases "dash_runs (\<lambda>c. c = 45) False s") auto
qed simp

lemma single_dashes_append: "single_dashes (xs @ ys) \<Longrightarrow> single_dashes xs \<and> single_dashes ys"
proof (induction xs)
  case (Cons x xs)
  then show ?case by (cases xs; cases ys) auto
qed simp

lemma strip_by_part: "\<exists>a b. s = a @ strip_by p s @ b"
proof -
  let ?d = "dropWhile p s"
  have "s = takeWhile p s @ ?d" by simp
  moreover have "?d = strip_by p s @ rev (takeWhile p (rev ?d))"
    by (metis rev_append rev_rev_ident strip_by_def takeWhile_dropWhile_id)
  ultimately show ?thesis by metis
qed

lemma single_dashes_id: "single_dashes s \<Longrightarrow> (b \<longrightarrow> (case s of [] \<Rightarrow> True | c # _ \<Rightarrow> c \<noteq> 45)) \<Longrightarrow>
    dash_runs (\<lambda>c. c = 45) b s = s"
proof (induction s arbitrary: b)
  case (Cons c s)
  then show ?case by (cases s) auto
qed simp

lemma dash_runs_id: "\<forall>c \<in> set s. \<not> p c \<Longrightarrow> dash_runs p b s = s"
  by (induction p b s rule: dash_runs.induct) auto

text \<open>Slugs are legal and stable. What \<open>normalize_slug\<close> accepts has between 1 and 80 characters, each
  alphanumeric or a dash, without a dash at either end or two in a row, and is not reserved;
  and when Unicode normalisation and case folding leave it alone, it normalises to itself, so
  the page it names is found again.\<close>

theorem slug_legal:
  assumes "normalize_slug L v = Inr s"
  shows "1 \<le> length s \<and> length s \<le> 80 \<and> (\<forall>c \<in> set s. lb_isalnum L c \<or> c = 45)
    \<and> hd s \<noteq> 45 \<and> last s \<noteq> 45 \<and> single_dashes s \<and> s \<notin> set reserved_slugs
    \<and> (lb_nfkc L s = s \<and> lb_casefold L s = s
        \<and> (\<forall>c \<in> set s. lb_isalnum L c \<longrightarrow> \<not> py_space c \<and> c \<noteq> 95)
        \<longrightarrow> normalize_slug L s = Inr s)"
proof -
  define t where "t = dash_runs (\<lambda>c. c = 45) False (filter (\<lambda>c. lb_isalnum L c \<or> c = 45)
      (dash_runs (\<lambda>c. py_space c \<or> c = 95) False (lb_casefold L (strip (lb_nfkc L v)))))"
  have s: "s = strip_by (\<lambda>c. c = 45) t" and ne: "s \<noteq> []" and len: "length s \<le> 80"
    and res: "s \<notin> set reserved_slugs"
    using assms by (auto simp: normalize_slug_def Let_def t_def split: if_splits)
  have chars: "\<forall>c \<in> set s. lb_isalnum L c \<or> c = 45"
    using set_strip_by [of "\<lambda>c. c = 45" t] by (auto simp: s t_def dest!: subsetD dash_runs_set)
  have "single_dashes t" using dash_runs_single [of False] by (simp add: t_def)
  moreover obtain a b where "t = a @ s @ b" using strip_by_part [of t] s by metis
  ultimately have single: "single_dashes s" using single_dashes_append by metis
  have ends: "hd s \<noteq> 45" "last s \<noteq> 45" using strip_by_ends [of "\<lambda>c. c = 45" t] ne s by auto
  have "normalize_slug L s = Inr s"
    if stable: "lb_nfkc L s = s" "lb_casefold L s = s"
      and alnum: "\<forall>c \<in> set s. lb_isalnum L c \<longrightarrow> \<not> py_space c \<and> c \<noteq> 95"
  proof -
    have "\<not> py_space 45" by (simp add: py_space_def)
    with chars alnum have plain: "\<forall>c \<in> set s. \<not> (py_space c \<or> c = 95)" by force
    then have "strip s = s" unfolding strip_def by (intro strip_by_none) auto
    moreover have "dash_runs (\<lambda>c. py_space c \<or> c = 95) False s = s" using plain by (intro dash_runs_id)
    moreover have "filter (\<lambda>c. lb_isalnum L c \<or> c = 45) s = s" using chars by (simp add: filter_id_conv)
    moreover have "dash_runs (\<lambda>c. c = 45) False s = s" using single by (intro single_dashes_id) auto
    moreover have "strip_by (\<lambda>c. c = 45) s = s" using s strip_by_idem by metis
    ultimately show ?thesis using stable ne len res by (simp add: normalize_slug_def)
  qed
  with ne len chars ends single res show ?thesis by (cases s) auto
qed

text \<open>Libraries for the concrete runs: ASCII, and the composition of one Hangul syllable.\<close>

fun compose_ga :: "pystr \<Rightarrow> pystr" where
  "compose_ga (a # b # s) = (if a = 4352 \<and> b = 4449 then 44032 # compose_ga s else a # compose_ga (b # s))"
| "compose_ga s = s"

definition demo_libs :: Libs where
  "demo_libs = \<lparr>lb_nfkc = compose_ga, lb_casefold = map lower_ascii,
     lb_isalnum = (\<lambda>c. is_digit c \<or> (65 \<le> c \<and> c \<le> 90) \<or> (97 \<le> c \<and> c \<le> 122)
        \<or> c \<in> {4352, 4449, 44032}),
     lb_render = (\<lambda>s. s), lb_http_url = (\<lambda>u. Some u), lb_unified_diff = (\<lambda>a b c d. []),
     lb_foreign = demo_foreign\<rparr>"

lemmas slug_eval = normalize_slug_def demo_libs_def Let_def strip_def strip_by_def py_space_def
  lower_ascii_def is_upper_ascii_def is_digit_def reserved_slugs_def py_simps

lemma demo_slug: "normalize_slug demo_libs (str ''My  Page'') = Inr (str ''my-page'')"
  by (simp add: slug_eval)

theorem slug_legal_witness: "normalize_slug demo_libs (str ''my-page'') = Inr (str ''my-page'')"
  using slug_legal [OF demo_slug]
  by (simp add: demo_libs_def lower_ascii_def is_upper_ascii_def py_simps py_space_def is_digit_def)

text \<open>
  Removing a character after the Unicode normalisation can bring two characters together that
  a second normalisation composes, so the slug a page is stored under is not the one a later
  request for it is normalised to.
\<close>

lemma slug_not_stable:
  "normalize_slug demo_libs [4352, 33, 4449] = Inr [4352, 4449]
   \<and> normalize_slug demo_libs [4352, 4449] = Inr [44032]"
  by (simp add: slug_eval)

section \<open>Who may change the store\<close>

text \<open>
  The request carries a session for this identity: a bearer token whose browser origin, if it
  names one, is allowed; or else the session cookie together with an allowed origin and the
  session's CSRF token.
\<close>

definition authorised :: "Runtime \<Rightarrow> Env \<Rightarrow> Request \<Rightarrow> pystr \<Rightarrow> SessionIdentity \<Rightarrow> bool" where
  "authorised rt env rq scope ident \<longleftrightarrow>
     rt_writes_enabled rt \<and> scope \<in> si_scopes ident
     \<and> (\<exists>token. token \<noteq> [] \<and> verify (rt_signer rt) (lb_foreign (rt_libs rt)) token (en_now env) = Inr ident
        \<and> (token = bearer_token rq \<and> or_empty (header rq ''origin'') \<in> insert [] (rt_allowed_origins rt)
           \<or> bearer_token rq = [] \<and> dict_get (rq_cookies rq) cookie_name = Some token
             \<and> or_empty (header rq ''origin'') \<in> rt_allowed_origins rt - {[]}
             \<and> or_empty (header rq ''x-csrf-token'') = si_csrf_token ident))"

lemma keeps_limiter:
  "(\<And>l sv. sv_store (put l sv) = sv_store sv) \<Longrightarrow> keeps sv_store (on_limiter get put env msg keys)"
  by (auto simp: keeps_def on_limiter_def split: option.splits prod.splits)

lemma keeps_page [keeps_intros]: "keeps sv_store (page_or_404 rt ws q sl)"
  by (auto simp: page_or_404_def keeps_def hret_def hfail_def hbind_def hlift_def
      split: option.splits sum.splits)

lemma keeps_guards [keeps_intros]:
  "keeps sv_store (limit_session env keys)" "keeps sv_store (limit_mutation env msg keys)"
  "keeps sv_store (limit_read env keys)" "keeps sv_store (enforce_read rt env rq surface)"
  unfolding limit_session_def limit_mutation_def limit_read_def enforce_read_def
  by (auto intro!: keeps_limiter)

lemma keeps_checks [keeps_intros]:
  "keeps sv_store (require_writes rt)" "keeps sv_store (validate_origin rt rq b)"
  unfolding require_writes_def validate_origin_def Let_def by (intro keeps_intros)+

lemma keeps_identity [keeps_intros]: "keeps sv_store (identity_for rt env rq scope)"
  unfolding identity_for_def Let_def by (intro keeps_intros)

lemma identity_authorised:
  assumes "identity_for rt env rq scope sv = (Inr ident, sv')"
  shows "authorised rt env rq scope ident"
  using assms
  by (auto simp: identity_for_def authorised_def Let_def res_simps require_writes_def
      validate_origin_def check_csrf_def compare_digest_def or_empty_def eq_commute [of "Inr _" "wiki_http _"] split: if_splits option.splits)

text \<open>A handler only executes commands for which \<open>A\<close> holds, at most one of them.\<close>

definition only_executes :: "'s WikiStore \<Rightarrow> (WikiCommand \<Rightarrow> bool) \<Rightarrow> ('s Service, 'a) handler \<Rightarrow> bool" where
  "only_executes ws A m \<longleftrightarrow> (\<forall>s. sv_store (snd (m s)) = sv_store s
     \<or> (\<exists>cmd. A cmd \<and> sv_store (snd (m s)) = snd (ws_execute ws cmd (sv_store s))))"

lemma only_keeps: "keeps sv_store m \<Longrightarrow> only_executes ws A m"
  by (simp add: only_executes_def keeps_def)

lemma only_bind:
  assumes "keeps sv_store m" and "\<And>x s t. m s = (Inr x, t) \<Longrightarrow> only_executes ws A (f x)"
  shows "only_executes ws A (hbind m f)"
  unfolding only_executes_def
proof
  fix s
  obtain r t where m: "m s = (r, t)" by (cases "m s")
  have st: "sv_store t = sv_store s" using keepsD [OF assms(1) m] .
  show "sv_store (snd (hbind m f s)) = sv_store s
     \<or> (\<exists>cmd. A cmd \<and> sv_store (snd (hbind m f s)) = snd (ws_execute ws cmd (sv_store s)))"
  proof (cases r)
    case (Inl e)
    with m st show ?thesis by (simp add: hbind_def)
  next
    case (Inr x)
    from assms(2) [OF m [unfolded Inr]] have "sv_store (snd (f x t)) = sv_store t
        \<or> (\<exists>cmd. A cmd \<and> sv_store (snd (f x t)) = snd (ws_execute ws cmd (sv_store t)))"
      unfolding only_executes_def by blast
    with m Inr st show ?thesis by (simp add: hbind_def)
  qed
qed

lemma only_execute:
  assumes "A cmd" and "\<And>x. keeps sv_store (k x)"
  shows "only_executes ws A (hbind (execute ws cmd) k)"
proof -
  have "sv_store (snd (hbind (execute ws cmd) k s)) = snd (ws_execute ws cmd (sv_store s))" for s
  proof -
    obtain r t where e: "execute ws cmd s = (r, t)" by (cases "execute ws cmd s")
    then have "sv_store t = snd (ws_execute ws cmd (sv_store s))"
      by (auto simp: execute_def split: prod.splits)
    moreover have "sv_store (snd (hbind (execute ws cmd) k s)) = sv_store t"
      using e assms(2) by (cases r) (auto simp: hbind_def keeps_def)
    ultimately show ?thesis by simp
  qed
  with assms(1) show ?thesis unfolding only_executes_def by blast
qed

text \<open>The scope that a command of the public API asks for; moderation has none there.\<close>

fun public_scope :: "WikiCommand \<Rightarrow> pystr option" where
  "public_scope (CreatePage _ _ _ _ _ _ _ _ _ _) = Some (str ''wiki:edit'')"
| "public_scope (EditPage _ _ _ _ _ _ _ _ _ _) = Some (str ''wiki:edit'')"
| "public_scope (SubmitReview _ _ _ _ _ _ _ _ _) = Some (str ''wiki:submit'')"
| "public_scope (ReportPage _ _ _ _ _ _ _) = Some (str ''wiki:report'')"
| "public_scope _ = None"

definition for_session :: "Runtime \<Rightarrow> Env \<Rightarrow> Request \<Rightarrow> WikiCommand \<Rightarrow> bool" where
  "for_session rt env rq cmd \<longleftrightarrow>
     (\<exists>scope ident. public_scope cmd = Some scope \<and> authorised rt env rq scope ident
        \<and> actor_id cmd = si_actor_id ident
        \<and> scopes cmd = si_scopes ident \<and> occurred_at cmd = en_later env)
     \<and> \<not> is_QuarantinePage cmd \<and> \<not> is_ReleasePage cmd"

lemma for_sessionI:
  "authorised rt env rq scope ident \<Longrightarrow> public_scope cmd = Some scope \<Longrightarrow> actor_id cmd = si_actor_id ident \<Longrightarrow>
   scopes cmd = si_scopes ident \<Longrightarrow> occurred_at cmd = en_later env \<Longrightarrow>
   \<not> is_QuarantinePage cmd \<Longrightarrow> \<not> is_ReleasePage cmd \<Longrightarrow> for_session rt env rq cmd"
  by (auto simp: for_session_def)

lemma only_mutations:
  "only_executes ws (for_session rt env rq) (create_page rt ws env rq d)"
  "only_executes ws (for_session rt env rq) (edit_page rt ws env rq sl d)"
  "only_executes ws (for_session rt env rq) (submit_review rt ws env rq sl d)"
  "only_executes ws (for_session rt env rq) (report_page rt ws env rq sl d)"
  unfolding create_page_def edit_page_def submit_review_def report_page_def
  by (auto split: option.split intro!: only_keeps [OF keeps_fail] only_bind only_execute
      intro: keeps_intros for_sessionI dest!: identity_authorised)

lemma reads_keep:
  "keeps sv_store (index rt env rq)" "keeps sv_store (issue_session rt env rq d')"
  "keeps sv_store (list_pages rt ws env rq q l k)" "keeps sv_store (recent_changes rt ws env rq l k)"
  "keeps sv_store (get_page rt ws env rq sl)" "keeps sv_store (history rt ws env rq sl l k)"
  "keeps sv_store (diff rt ws env rq sl x y)"
  unfolding index_def issue_session_def list_pages_def recent_changes_def get_page_def history_def
    diff_def Let_def
  by (intro keeps_intros)+

text \<open>C16: Only a session changes the store. Whatever public endpoint is called with whatever input, the
  store is left as it was, or one command was executed on it, and then writes are enabled, the
  request carried a token the signer accepts with the scope of the command (edit for creations and
  edits, submit, report), by bearer or by cookie with an allowed origin and the CSRF token, and the
  command runs under that session's actor and scopes at the server's time; it is never a
  moderation command.\<close>

theorem public_writes_authorised:
  assumes "respond rt ws env rq rc sv = (r, sv')" and "sv_store sv' \<noteq> sv_store sv"
  shows "\<exists>cmd. sv_store sv' = snd (ws_execute ws cmd (sv_store sv)) \<and> for_session rt env rq cmd"
proof -
  have "only_executes ws (for_session rt env rq) (respond rt ws env rq rc)"
    by (cases rc) (simp_all add: only_mutations only_keeps reads_keep)
  then have "sv_store (snd (respond rt ws env rq rc sv)) = sv_store sv
     \<or> (\<exists>cmd. for_session rt env rq cmd
          \<and> sv_store (snd (respond rt ws env rq rc sv)) = snd (ws_execute ws cmd (sv_store sv)))"
    unfolding only_executes_def by blast
  with assms show ?thesis by auto
qed

section \<open>Retried requests\<close>

lemma execute_Inr [res_simps]:
  "execute ws cmd sv = (Inr r, sv') \<longleftrightarrow> (\<exists>receipt st. ws_execute ws cmd (sv_store sv) = (Inr receipt, st)
     \<and> r = command_response receipt \<and> sv' = sv\<lparr>sv_store := st\<rparr>)"
  by (auto simp: execute_def split: prod.splits sum.splits)

lemma create_page_Inr:
  "create_page rt ws env rq raw sv = (Inr rep, sv') \<longleftrightarrow>
     (\<exists>body ident t cid sl receipt st. create_page_request raw = Some body
        \<and> identity_for rt env rq (str ''wiki:edit'') sv = (Inr ident, t)
        \<and> mk_command_id env (si_actor_id ident) (header rq ''idempotency-key'') = Inr cid
        \<and> normalize_slug (rt_libs rt) (cr_slug body) = Inr sl
        \<and> ws_execute ws (CreatePage cid (si_actor_id ident) (si_scopes ident) (en_later env)
            (stable_id cid (str ''page'')) (stable_id cid (str ''revision'')) sl (cr_title body)
            (cr_content body) (cr_edit_summary body)) (sv_store t) = (Inr receipt, st)
        \<and> rep = CommandReply 201 (command_response receipt) \<and> sv' = t\<lparr>sv_store := st\<rparr>)"
  by (auto simp: create_page_def res_simps eq_commute [of "Inr _" "wiki_http _"] split: option.splits)

lemma stable_canonical [simp]: "uuid_canon (stable_id cid purpose) = Some (stable_id cid purpose)"
  by (simp add: stable_id_def uuid5_canonical)

lemma keyed_command_id: "key \<noteq> [] \<Longrightarrow> mk_command_id env actor (Some key) = mk_command_id env' actor (Some key)"
  by (simp add: mk_command_id_def)

text \<open>C17: A retried creation is answered once. On PostgreSQL, a client that repeats a creation with the
  same idempotency key and body, in a session of the same actor, whatever was executed since,
  gets the first answer again, marked as replayed, and the database does not change.\<close>

theorem create_retry_replays:
  assumes db: "pg_reachable (sv_store sv)"
    and first: "create_page rt (postgres_ops low coll now) env rq raw sv = (Inr (CommandReply 201 resp), sv1)"
    and ident: "identity_for rt env rq (str ''wiki:edit'') sv = (Inr ident, sv0)"
    and key: "header rq ''idempotency-key'' = Some key" "key \<noteq> []"
    and since: "sv_store sv2 = foldl (\<lambda>t c. snd (pg_execute c t)) (sv_store sv1) cs"
    and again: "identity_for rt env2 rq2 (str ''wiki:edit'') sv2 = (Inr ident2, sv3)"
    and same: "si_actor_id ident2 = si_actor_id ident" "header rq2 ''idempotency-key'' = Some key"
  shows "create_page rt (postgres_ops low coll now2) env2 rq2 raw sv2
      = (Inr (CommandReply 201 (resp\<lparr>cm_replayed := True\<rparr>)), sv3)
    \<and> sv_store sv3 = sv_store sv2"
proof -
  from first [unfolded create_page_Inr] ident key(1) obtain body cid sl receipt st where
    body: "create_page_request raw = Some body"
    and cid: "mk_command_id env (si_actor_id ident) (Some key) = Inr cid"
    and sl: "normalize_slug (rt_libs rt) (cr_slug body) = Inr sl"
    and ex: "pg_execute (CreatePage cid (si_actor_id ident) (si_scopes ident) (en_later env)
            (stable_id cid (str ''page'')) (stable_id cid (str ''revision'')) sl (cr_title body)
            (cr_content body) (cr_edit_summary body)) (sv_store sv0) = (Inr receipt, st)"
    and resp: "resp = command_response receipt" and sv1: "sv1 = sv0\<lparr>sv_store := st\<rparr>"
    by (auto simp: postgres_ops_def)
  let ?cmd = "\<lambda>i e. CreatePage cid (si_actor_id i) (si_scopes i) (en_later e)
      (stable_id cid (str ''page'')) (stable_id cid (str ''revision'')) sl (cr_title body)
      (cr_content body) (cr_edit_summary body)"
  have sv0: "sv_store sv0 = sv_store sv" using keepsD [OF keeps_identity ident] .
  have sv3: "sv_store sv3 = sv_store sv2" using keepsD [OF keeps_identity again] .
  have inv: "pg_inv (sv_store sv)" using db by (rule pg_reachable_inv)
  have can: "canonical (?cmd ident env)" by (simp add: canonical_def)
  have intent: "intent_fingerprint (?cmd ident2 env2) = intent_fingerprint (?cmd ident env)"
    by (simp add: intent_fingerprint_def command_intent_def same)
  have ok: "fst (pg_execute (?cmd ident env) (sv_store sv)) = Inr receipt" using ex sv0 by simp
  have "pg_execute (?cmd ident2 env2) (sv_store sv3) = (Inr (receipt\<lparr>rc_replayed := True\<rparr>), sv_store sv3)"
    using pg.retry_replays [OF inv can ok _ intent, of cs] ex sv0 sv1 sv3 since by simp
  moreover have "mk_command_id env2 (si_actor_id ident2) (Some key) = Inr cid"
    using cid keyed_command_id [OF key(2)] same by metis
  ultimately show ?thesis
    using body sl again same(2) resp sv3
    by (auto simp: create_page_Inr postgres_ops_def command_response_def)
qed

section \<open>A concrete request\<close>

definition demo_runtime :: Runtime where
  "demo_runtime = \<lparr>rt_signer = demo_signer, rt_writes_enabled = True, rt_secure_cookie = True,
     rt_allowed_origins = {str ''https://site''}, rt_moderation_key = str ''key'',
     rt_moderator_actor = Some (\<lambda>_. str ''moderator''), rt_trust_proxy = False, rt_libs = demo_libs\<rparr>"

definition demo_request :: Request where
  "demo_request = \<lparr>rq_headers = [(str ''origin'', str ''https://site''),
       (str ''x-csrf-token'', str ''csrf''), (str ''idempotency-key'', str ''k1'')],
     rq_cookies = [(cookie_name, demo_token)], rq_host = Some (str ''10.0.0.1'')\<rparr>"

definition demo_env :: Env where
  "demo_env = \<lparr>en_now = 7, en_later = 8, en_mono = 1, en_redis = (\<lambda>_. (False, RedisFailure)),
     en_uuid4 = [], en_csrf = []\<rparr>"

definition demo_service :: "'s \<Rightarrow> 's Service" where
  "demo_service st = \<lparr>sv_store = st, sv_session = None, sv_mutation = None, sv_read = None\<rparr>"

lemma demo_service_simps [simp]: "sv_store (demo_service st) = st"
  "(demo_service st)\<lparr>sv_store := t\<rparr> = demo_service t"
  "demo_service st = demo_service t \<longleftrightarrow> st = t"
  by (simp_all add: demo_service_def)

definition demo_body :: fields where
  "demo_body = [(str ''slug'', JStr (str ''My  Page'')), (str ''title'', JStr (str ''Title'')),
     (str ''content'', JStr (str ''Text''))]"

definition demo_seen :: SessionIdentity where
  "demo_seen = demo_identity\<lparr>si_expires_at := 43200 * 1000000\<rparr>"

lemma demo_verified: "verify demo_signer demo_foreign demo_token 7 = Inr demo_seen"
  using issue_verify [OF demo_encodable _ _ _ _ _ _ demo_issue, of 7 demo_foreign]
  by (simp add: demo_signer_def to_seconds_def demo_identity_def demo_seen_def)

lemma demo_token_ne: "demo_token \<noteq> []"
  using demo_issue by (auto simp: issue_def Let_def)

lemma demo_request_identity:
  "identity_for demo_runtime demo_env demo_request (str ''wiki:edit'') (demo_service st)
     = (Inr demo_seen, demo_service st)"
  using demo_token_ne
  by (simp add: identity_for_def demo_runtime_def demo_request_def demo_env_def demo_service_def
      hbind_def hret_def hlift_def require_writes_def bearer_token_def header_def or_empty_def
      cookie_name_def wiki_http_def demo_verified demo_libs_def demo_seen_def demo_identity_def
      validate_origin_def check_csrf_def compare_digest_def is_ascii_def limit_mutation_def
      on_limiter_def public_scopes_def Let_def startswith_def py_simps)

lemma demo_body_read: "create_page_request demo_body = Some \<lparr>cr_slug = str ''My  Page'',
    cr_title = str ''Title'', cr_content = str ''Text'', cr_edit_summary = []\<rparr>"
proof -
  have "utf8_encode (str ''Text'') = Some [84, 101, 120, 116]"
    by (simp add: utf8_char_def py_simps)
  then show ?thesis
    by (simp add: create_page_request_def demo_body_def forbid_extra_def dict_keys_def req_str_def
        check_str_def dflt_str_def non_blank_def bounded_content_def strip_def strip_by_def
        py_space_def py_simps)
qed

lemma pg_text_hex: "\<forall>c \<in> set s. is_hex_char c \<or> c \<in> {45, 58} \<or> 97 \<le> c \<and> c \<le> 122 \<Longrightarrow> pg_text s"
  by (auto simp: pg_text_def encodable_def is_hex_char_def)

lemma uuid_str_chars: "\<forall>c \<in> set (uuid_str n). is_hex_char c \<or> c = 45"
proof -
  have "set (uuid_str n) \<subseteq> insert 45 (set (uuid_digits n))"
    by (auto simp: uuid_str_def Let_def dest: in_set_takeD in_set_dropD)
  moreover have "\<forall>c \<in> set (uuid_digits n). is_hex_char c"
    using nibbles_small [of n] by (auto simp: uuid_digits_nibbles intro: hex_digit_hex)
  ultimately show ?thesis by auto
qed

lemma pg_text_uuid [simp]: "pg_text (stable_id cid purpose)"
  by (rule pg_text_hex) (use uuid_str_chars in \<open>auto simp: stable_id_def uuid5_def\<close>)

lemma pg_text_keyed:
  "mk_command_id env actor (Some key) = Inr cid \<Longrightarrow> key \<noteq> [] \<Longrightarrow> pg_text cid"
  using hexdigest_hex
  by (intro pg_text_hex) (auto simp: mk_command_id_def py_simps split: if_splits option.splits)

text \<open>A creation whose texts the database can store is accepted on the empty database.\<close>

lemma pg_create_ok:
  assumes "cmd = CreatePage cid a sc t (stable_id cid p) (stable_id cid q) sl ti co su"
    and "str ''wiki:edit'' \<in> sc" and texts: "pg_text cid" "pg_text a" "pg_text sl" "pg_text ti"
      "pg_text co" "pg_text su"
    and sizes: "1 \<le> length ti" "length ti \<le> 200" "1 \<le> length co" "length co \<le> 100000"
  shows "\<exists>r db. pg_execute cmd pg_empty = (Inr r, db) \<and> pg_pages db \<noteq> []"
proof -
  have enc: "encodable x" if "pg_text x" for x using that by (simp add: pg_text_def)
  have "encodable co" using texts enc by blast
  then obtain h where h: "content_digest co = Inr h" using content_digest_ok_iff by blast
  have ht: "pg_text h" using pg_text_digest [OF h] .
  have "\<exists>fp. intent_fingerprint cmd = Inr fp"
    by (rule intent_fingerprint_ok) (use assms enc in \<open>auto simp: command_intent_def\<close>)
  then obtain fp where fp: "intent_fingerprint cmd = Inr fp" ..
  have sel: "is_CreatePage cmd" "command_id cmd = cid" "actor_id cmd = a" "scopes cmd = sc"
    "occurred_at cmd = t" "page_id cmd = stable_id cid p" "revision_id cmd = stable_id cid q"
    "slug cmd = sl" "title cmd = ti" "content cmd = co" "summary cmd = su"
    using assms(1) by simp_all
  show ?thesis
    using h ht texts sizes assms(2)
    by (simp add: pg_execute_def fp transaction_def pg_body_def pg_prepare_def pg_apply_def decide_defs
        pg_empty_def select_receipt_def select_page_by_slug_def insert_event_def as_uuid_def
        pg_json_def evolve_rules pg_store_page_def insert_page_def page_texts_def page_checks_def
        insert_receipt_def new_events_have_pages_def Let_def sel)
qed

lemma demo_first:
  "\<exists>resp db. create_page demo_runtime (postgres_ops id id 0) demo_env demo_request demo_body (demo_service pg_empty)
      = (Inr (CommandReply 201 resp), demo_service db) \<and> db \<noteq> pg_empty"
proof -
  have key: "header demo_request ''idempotency-key'' = Some (str ''k1'')"
    by (simp add: header_def demo_request_def)
  obtain cid where cid: "mk_command_id demo_env (si_actor_id demo_seen) (Some (str ''k1'')) = Inr cid"
    by (simp add: mk_command_id_def demo_seen_def demo_identity_def utf8_char_def py_simps)
  have sl: "normalize_slug (rt_libs demo_runtime) (str ''My  Page'') = Inr (str ''my-page'')"
    by (simp add: demo_runtime_def demo_slug)
  have sc: "str ''wiki:edit'' \<in> si_scopes demo_seen"
    by (simp add: demo_seen_def demo_identity_def public_scopes_def)
  have "pg_text cid" "pg_text (si_actor_id demo_seen)" "pg_text []"
    using pg_text_keyed [OF cid] by (simp_all add: demo_seen_def demo_identity_def pg_text_def encodable_def py_simps)
  then obtain r db where "pg_execute (CreatePage cid (si_actor_id demo_seen) (si_scopes demo_seen)
      (en_later demo_env) (stable_id cid (str ''page'')) (stable_id cid (str ''revision''))
      (str ''my-page'') (str ''Title'') (str ''Text'') []) pg_empty = (Inr r, db)" and ne: "pg_pages db \<noteq> []"
    using pg_create_ok [OF refl sc, of cid "si_actor_id demo_seen" "str ''my-page''" "str ''Title''"
        "str ''Text''" "[]" "en_later demo_env" "str ''page''" "str ''revision''"] by auto
  then have "create_page demo_runtime (postgres_ops id id 0) demo_env demo_request demo_body (demo_service pg_empty)
      = (Inr (CommandReply 201 (command_response r)), demo_service db)"
    using cid sl by (auto simp: create_page_Inr demo_body_read demo_request_identity key postgres_ops_def)
  moreover have "db \<noteq> pg_empty" using ne by (auto simp: pg_empty_def)
  ultimately show ?thesis by blast
qed

theorem public_writes_authorised_witness:
  "\<exists>cmd. for_session demo_runtime demo_env demo_request cmd \<and> snd (pg_execute cmd pg_empty) \<noteq> pg_empty"
proof -
  obtain resp db where first: "create_page demo_runtime (postgres_ops id id 0) demo_env demo_request demo_body
      (demo_service pg_empty) = (Inr (CommandReply 201 resp), demo_service db)" "db \<noteq> pg_empty"
    using demo_first by blast
  then have "respond demo_runtime (postgres_ops id id 0) demo_env demo_request (PostPage demo_body)
      (demo_service pg_empty) = (Inr (CommandReply 201 resp), demo_service db)" by simp
  from public_writes_authorised [OF this] first(2) obtain cmd where
    "db = snd (pg_execute cmd pg_empty)" "for_session demo_runtime demo_env demo_request cmd"
    by (auto simp: postgres_ops_def)
  with first(2) show ?thesis by blast
qed

theorem create_retry_replays_witness:
  "\<exists>resp sv. create_page demo_runtime (postgres_ops id id 0) demo_env demo_request demo_body sv
     = (Inr (CommandReply 201 (resp\<lparr>cm_replayed := True\<rparr>)), sv)"
proof -
  obtain resp db where first: "create_page demo_runtime (postgres_ops id id 0) demo_env demo_request demo_body
      (demo_service pg_empty) = (Inr (CommandReply 201 resp), demo_service db)"
    using demo_first by blast
  have key: "header demo_request ''idempotency-key'' = Some (str ''k1'')"
    by (simp add: header_def demo_request_def)
  have "pg_reachable (sv_store (demo_service pg_empty))"
    by (simp add: pg_reachable.empty)
  from create_retry_replays [OF this first demo_request_identity key _ _ demo_request_identity refl key,
      of db "[]"]
  show ?thesis by auto
qed

end
