(* ===== verification/WikiModeration.thy ===== *)
theory WikiModeration
  imports WikiApiProps
begin

text \<open>
  The operator surface on PostgreSQL: what a quarantine through the API hides.
\<close>

section \<open>Moderation\<close>

text \<open>The page a successful, not replayed quarantine leaves behind is the only one with its id or slug.\<close>

lemma pg_quarantined:
  assumes inv: "pg_inv db" and q: "is_QuarantinePage cmd" and can: "canonical cmd"
    and ex: "pg_execute cmd db = (Inr r, db')" and new: "\<not> rc_replayed r"
  shows "\<exists>p s. p \<in> set (pg_pages db) \<and> ps_page_id p = page_id cmd
    \<and> s \<in> set (pg_pages db') \<and> ps_page_id s = page_id cmd \<and> ps_slug s = ps_slug p
    \<and> ps_moderation_status s = str ''quarantined'' \<and> pg_inv db'"
proof -
  have nc: "\<not> is_CreatePage cmd" using q by (cases cmd) auto
  from can have "uuid_canon (page_id cmd) = Some (page_id cmd)" by (simp add: canonical_def)
  with ex show ?thesis
  proof (cases rule: pg_execute_Inr)
    case (retry prior)
    with new show ?thesis by (simp add: receipt_of_row_def)
  next
    case (applied fp c)
    from applied_step [OF inv can applied(4)] nc obtain p where
      p: "p \<in> set (pg_pages db)" "selected_state cmd db = Some p" "ps_page_id p = page_id cmd"
      and slug: "ps_slug (cm_next c) = ps_slug p"
      and pages: "pg_pages db' = map (\<lambda>row. if ps_page_id row = page_id cmd then cm_next c else row) (pg_pages db)"
      and id: "ps_page_id (cm_next c) = page_id cmd" by auto
    from applied(4) p(2) have d: "decide (Some p) cmd = Inr (cm_decision c)"
      "dc_events (cm_decision c) = [cm_event c]" "evolve (Some p) (cm_event c) = Inr (cm_next c)"
      by (simp_all add: applied_def)
    from decide_moderation_Inr [OF d(1)] q d(2,3)
    have "ps_moderation_status (cm_next c) = str ''quarantined''" by auto
    moreover have "cm_next c \<in> set (pg_pages db')" using p pages by auto
    moreover have "pg_inv db'" using pg_inv_execute [OF inv can] ex by simp
    ultimately show ?thesis using p slug id by blast
  qed
qed

lemma pg_execute_page_id:
  assumes "pg_execute cmd db = (Inr r, db')" and "\<not> rc_replayed r" and "canonical cmd"
  shows "rc_page_id r = page_id cmd"
proof -
  from assms(3) have "uuid_canon (page_id cmd) = Some (page_id cmd)" by (simp add: canonical_def)
  with assms(1) show ?thesis
    by (cases rule: pg_execute_Inr) (use assms(2) in \<open>auto simp: receipt_of_row_def applied_def\<close>)
qed

lemma pg_listed:
  assumes "p \<in> set (pg_list_pages low query limit offset db)"
  shows "\<exists>row \<in> set (pg_pages db). p = page_from_row row \<and> ps_moderation_status row = str ''visible''"
proof -
  from assms obtain row where row: "p = page_from_row row" and "row \<in> set (page_slice offset limit
      (sort_desc (\<lambda>p. (ps_updated_at p, ps_page_id p))
        (filter (\<lambda>p. ps_moderation_status p = str ''visible'' \<and> (query \<noteq> None \<and> query \<noteq> Some [] \<longrightarrow>
           ilike_around low (the query) (ps_slug p) \<or> ilike_around low (the query) (ps_title p)))
          (pg_pages db))))"
    unfolding pg_list_pages_def set_map by blast
  from subsetD [OF set_page_slice this(2)] row show ?thesis by auto
qed

text \<open>A quarantined row is hidden from every read of the adapter.\<close>

lemma pg_hidden:
  assumes inv: "pg_inv db" and s: "s \<in> set (pg_pages db)"
    and q: "ps_moderation_status s = str ''quarantined''"
  shows "pg_get_page_by_slug (ps_slug s) False db = None"
    and "p \<in> set (pg_list_pages low query limit offset db) \<Longrightarrow> ps_page_id p \<noteq> ps_page_id s"
    and "i \<in> set (pg_recent_changes coll limit offset db) \<Longrightarrow> ev_page_id (se_event i) \<noteq> ps_page_id s"
proof -
  have same: "p = s" if "p \<in> set (pg_pages db)" "ps_slug p = ps_slug s \<or> ps_page_id p = ps_page_id s" for p
    using inv that s by (auto simp: pg_inv_def distinct_map dest: inj_onD)
  show "pg_get_page_by_slug (ps_slug s) False db = None"
    using q by (auto simp: pg_get_page_by_slug_def find_None_iff dest!: same)
  show "ps_page_id p \<noteq> ps_page_id s" if listed: "p \<in> set (pg_list_pages low query limit offset db)"
  proof -
    obtain row where row: "row \<in> set (pg_pages db)" "p = page_from_row row"
      "ps_moderation_status row = str ''visible''"
      using pg_listed [OF listed] by blast
    with same [of row] q show ?thesis by (auto simp: page_from_row_def)
  qed
  show "ev_page_id (se_event i) \<noteq> ps_page_id s" if "i \<in> set (pg_recent_changes coll limit offset db)"
  proof -
    from that have "page_visible db (ev_page_id (se_event i))"
      by (auto simp: pg_recent_changes_def dest!: set_page_slice [THEN subsetD])
    with q show ?thesis by (auto simp: page_visible_def dest: same)
  qed
qed

lemma keeps_moderator [keeps_intros]: "keeps sv_store (moderator_for rt env rq)"
  unfolding moderator_for_def Let_def by (intro keeps_intros)

lemma page_or_404_Inr [res_simps]:
  "page_or_404 rt ws q sl sv = (Inr page, sv') \<longleftrightarrow> (\<exists>n. normalize_slug (rt_libs rt) sl = Inr n
     \<and> ws_by_slug ws n q (sv_store sv) = Some page \<and> sv' = sv)"
  by (auto simp: page_or_404_def res_simps eq_commute [of "Inr _" "wiki_http _"] split: option.splits)

lemma quarantine_page_Inr:
  "quarantine_page rt ws env rq sl raw sv = (Inr rep, sv') \<longleftrightarrow>
     (\<exists>body actor t n page cid receipt st. quarantine_request raw = Some body
        \<and> moderator_for rt env rq sv = (Inr actor, t)
        \<and> normalize_slug (rt_libs rt) sl = Inr n \<and> ws_by_slug ws n True (sv_store t) = Some page
        \<and> mk_command_id env actor (header rq ''idempotency-key'') = Inr cid
        \<and> ws_execute ws (QuarantinePage cid actor {str ''wiki:moderate''} (en_later env) (ps_page_id page)
            (stable_id cid (str ''moderation'')) (mq_expected_head body) (mq_content_hash body)
            (mq_text body)) (sv_store t) = (Inr receipt, st)
        \<and> rep = ModeratedReply (command_response receipt) \<and> sv' = t\<lparr>sv_store := st\<rparr>)"
  by (auto simp: quarantine_page_def moderation_command_def res_simps
      eq_commute [of "Inr _" "wiki_http _"] split: option.splits)

text \<open>Moderation takes effect at once. When the operator endpoint has quarantined the page at a slug
  on PostgreSQL, the request carried the moderation key, the next public request for that slug
  ends in 404 before it reads any content, and no public listing or recent change shows the page.\<close>

theorem quarantine_hides_page:
  assumes "pg_reachable (sv_store sv)"
    and "quarantine_page rt (postgres_ops low coll now) env rq sl raw sv = (Inr (ModeratedReply resp), sv')"
    and "\<not> cm_replayed resp"
  shows "or_empty (header rq ''x-wiki-moderator-key'') = rt_moderation_key rt \<and> rt_moderation_key rt \<noteq> []
    \<and> page_or_404 rt (postgres_ops low coll now) False sl sv'
        = (Inl (HttpError 404 (str ''page_not_found'') (str ''the page does not exist'')), sv')
    \<and> (\<forall>p \<in> set (pg_list_pages low query limit offset (sv_store sv')). ps_page_id p \<noteq> CommandResponse.cm_page_id resp)
    \<and> (\<forall>i \<in> set (pg_recent_changes coll limit offset (sv_store sv')). ev_page_id (se_event i) \<noteq> CommandResponse.cm_page_id resp)"
proof -
  let ?ops = "postgres_ops low coll now"
  from assms(2) [unfolded quarantine_page_Inr] obtain body actor sv1 n page cid receipt db' where
    "quarantine_request raw = Some body" and mod: "moderator_for rt env rq sv = (Inr actor, sv1)"
    and n: "normalize_slug (rt_libs rt) sl = Inr n"
    and f: "ws_by_slug ?ops n True (sv_store sv1) = Some page"
      "ws_execute ?ops (QuarantinePage cid actor {str ''wiki:moderate''} (en_later env) (ps_page_id page)
          (stable_id cid (str ''moderation'')) (mq_expected_head body) (mq_content_hash body)
          (mq_text body)) (sv_store sv1) = (Inr receipt, db')"
      "ModeratedReply resp = ModeratedReply (command_response receipt)"
    and sv': "sv' = sv1\<lparr>sv_store := db'\<rparr>"
    by blast
  let ?cmd = "QuarantinePage cid actor {str ''wiki:moderate''} (en_later env) (ps_page_id page)
        (stable_id cid (str ''moderation'')) (mq_expected_head body) (mq_content_hash body) (mq_text body)"
  from f have page: "pg_get_page_by_slug n True (sv_store sv1) = Some page"
    and ex: "pg_execute ?cmd (sv_store sv1) = (Inr receipt, db')"
    and resp: "resp = command_response receipt"
    by (simp_all add: postgres_ops_def)
  have sv1: "sv_store sv1 = sv_store sv" using keepsD [OF keeps_moderator mod] .
  have inv: "pg_inv (sv_store sv)" using assms(1) by (rule pg_reachable_inv)
  from page sv1 obtain row where
    found: "find (\<lambda>p. ps_slug p = n) (pg_pages (sv_store sv)) = Some row" and "page = page_from_row row"
    by (auto simp: pg_get_page_by_slug_def)
  then have row: "row \<in> set (pg_pages (sv_store sv))" "ps_slug row = n" "ps_page_id page = ps_page_id row"
    by (auto simp: find_Some_iff page_from_row_def)
  have can: "canonical ?cmd" using inv row by (auto simp: pg_inv_def row_ok_def canonical_def)
  from pg_quarantined [OF inv _ can] ex sv1 assms(3) resp obtain p s where
    p: "p \<in> set (pg_pages (sv_store sv))" "ps_page_id p = ps_page_id page"
    and s: "s \<in> set (pg_pages db')" "ps_page_id s = ps_page_id page" "ps_slug s = ps_slug p"
      "ps_moderation_status s = str ''quarantined''" and inv': "pg_inv db'"
    by (auto simp: command_response_def)
  have "p = row" using inv p row by (auto simp: pg_inv_def distinct_map dest: inj_onD)
  then have "ps_slug s = n" using s row by simp
  moreover have "CommandResponse.cm_page_id resp = ps_page_id s"
  proof -
    have "rc_page_id receipt = ps_page_id page"
      using pg_execute_page_id [OF ex _ can] assms(3) resp by (simp add: command_response_def)
    with resp s(2) show ?thesis by (simp add: command_response_def)
  qed
  moreover note pg_hidden [OF inv' s(1,4)]
  moreover have "or_empty (header rq ''x-wiki-moderator-key'') = rt_moderation_key rt \<and> rt_moderation_key rt \<noteq> []"
    using mod by (auto simp: moderator_for_def res_simps compare_digest_def Let_def
        eq_commute [of "Inr _" "wiki_http _"] split: if_splits)
  ultimately show ?thesis using n sv'
    by (auto simp: page_or_404_def hbind_def hlift_def hfail_def wiki_http_def postgres_ops_def)
qed

text \<open>A database with one page, for a revision id that differs from the id of the moderation event.\<close>

definition one_create :: "pystr \<Rightarrow> WikiCommand" where
  "one_create rid = CreatePage (str ''cmd:1'') (str ''anonymous:a'') {str ''wiki:edit''} 1000
     (str ''00000000-0000-4000-8000-000000000001'') rid (str ''hello'') (str ''Hello'') (str ''First'') []"

definition one_page :: "pystr \<Rightarrow> PageState" where
  "one_page rid = demo_pg_page\<lparr>ps_head_revision_id := rid\<rparr>"

lemma one_created:
  assumes "uuid_canon rid = Some rid" and "pg_text rid"
  shows "\<exists>r db e. pg_execute (one_create rid) pg_empty = (Inr r, db) \<and> pg_pages db = [one_page rid]
    \<and> pg_events db = [e] \<and> ev_event_id (se_event e) = rid \<and> se_index e = 1 \<and> pg_outbox db = []
    \<and> (\<exists>q. pg_receipts db = [q] \<and> pr_command_id q = str ''cmd:1'')"
proof -
  obtain h where h: "content_digest (str ''First'') = Inr h" using demo_digest by blast
  have ht: "pg_text h" using pg_text_digest [OF h] .
  have "\<exists>fp. intent_fingerprint (one_create rid) = Inr fp"
    by (rule intent_fingerprint_ok) (use assms in \<open>auto simp: one_create_def command_intent_def pg_text_def\<close>)
  then obtain fp where fp: "intent_fingerprint (one_create rid) = Inr fp" ..
  have sel: "is_CreatePage (one_create rid)" "command_id (one_create rid) = str ''cmd:1''"
    "actor_id (one_create rid) = str ''anonymous:a''" "scopes (one_create rid) = {str ''wiki:edit''}"
    "occurred_at (one_create rid) = 1000"
    "page_id (one_create rid) = str ''00000000-0000-4000-8000-000000000001''"
    "revision_id (one_create rid) = rid" "slug (one_create rid) = str ''hello''"
    "title (one_create rid) = str ''Hello''" "content (one_create rid) = str ''First''"
    "summary (one_create rid) = []"
    by (simp_all add: one_create_def)
  have "pg_text []" by (simp add: pg_text_def encodable_def)
  with h ht assms show ?thesis
    by (simp add: pg_execute_def fp transaction_def pg_body_def pg_prepare_def pg_apply_def decide_defs
        pg_empty_def select_receipt_def select_page_by_slug_def insert_event_def as_uuid_def
        pg_json_def evolve_rules pg_store_page_def insert_page_def page_texts_def page_checks_def
        insert_receipt_def new_events_have_pages_def one_page_def demo_pg_page_def Let_def sel)
qed

definition operator_request :: Request where
  "operator_request = \<lparr>rq_headers = [(str ''x-wiki-moderator-key'', str ''key'')], rq_cookies = [],
     rq_host = None\<rparr>"

definition quarantine_body :: "pystr \<Rightarrow> fields" where
  "quarantine_body rid = [(str ''expected_head_revision_id'', JStr rid),
     (str ''content_hash'', JStr (projr (content_digest (str ''First'')))), (str ''reason'', JStr (str ''spam''))]"

lemma quarantine_body_read:
  assumes "length rid = 36"
  shows "quarantine_request (quarantine_body rid) = Some \<lparr>mq_expected_head = rid,
     mq_content_hash = projr (content_digest (str ''First'')), mq_text = str ''spam''\<rparr>"
proof -
  obtain h where h: "content_digest (str ''First'') = Inr h" using demo_digest by blast
  with content_digest_shape [OF h] assms show ?thesis
    by (simp add: quarantine_request_def quarantine_body_def forbid_extra_def dict_keys_def req_str_def
        check_str_def hex_digest64_def list_all_iff non_blank_def strip_def strip_by_def py_space_def py_simps)
qed

lemma hello_slug: "normalize_slug demo_libs (str ''hello'') = Inr (str ''hello'')"
  by (simp add: slug_eval)

lemma demo_quarantined:
  "\<exists>rid sv resp sv'. pg_reachable (sv_store sv) \<and> \<not> cm_replayed resp
    \<and> quarantine_page demo_runtime (postgres_ops id id 0) demo_env operator_request (str ''hello'')
        (quarantine_body rid) sv = (Inr (ModeratedReply resp), sv')"
proof -
  define sid where "sid = stable_id (str ''cmd:'') (str ''moderation'')"
  define rid where "rid = (if sid = str ''00000000-0000-4000-8000-000000000001''
      then str ''00000000-0000-4000-8000-000000000002'' else str ''00000000-0000-4000-8000-000000000001'')"
  have rid: "rid \<noteq> sid" "uuid_canon rid = Some rid" "pg_text rid" "length rid = 36"
    by (auto simp: rid_def)
  obtain r db e where db: "pg_execute (one_create rid) pg_empty = (Inr r, db)" "pg_pages db = [one_page rid]"
    "pg_events db = [e]" "ev_event_id (se_event e) = rid" "se_index e = 1" "pg_outbox db = []"
    and receipts: "\<exists>q. pg_receipts db = [q] \<and> pr_command_id q = str ''cmd:1''"
    using one_created [OF rid(2,3)] by blast
  have "canonical (one_create rid)" using rid by (simp add: canonical_def one_create_def)
  from pg_reachable.execute [OF pg_reachable.empty this] db(1) have reach: "pg_reachable db" by simp
  obtain h where h: "content_digest (str ''First'') = Inr h" using demo_digest by blast
  have ht: "pg_text h" using pg_text_digest [OF h] .
  let ?cmd = "QuarantinePage (str ''cmd:'') (str ''moderator'') {str ''wiki:moderate''} 8
      (str ''00000000-0000-4000-8000-000000000001'') sid rid h (str ''spam'')"
  have "\<exists>fp. intent_fingerprint ?cmd = Inr fp"
    by (rule intent_fingerprint_ok) (use rid ht in \<open>auto simp: command_intent_def pg_text_def\<close>)
  then obtain fp where fp: "intent_fingerprint ?cmd = Inr fp" ..
  have sid: "pg_text sid" by (simp add: sid_def)
  have "\<exists>q db'. pg_execute ?cmd db = (Inr q, db') \<and> \<not> rc_replayed q"
    using h ht db(2-6) receipts rid sid
    by (auto simp: pg_execute_def fp transaction_def pg_body_def pg_prepare_def pg_apply_def decide_defs
        select_receipt_def select_page_def page_from_row_def insert_event_def as_uuid_def
        pg_json_def evolve_rules pg_store_page_def update_page_def page_texts_def page_checks_def
        updated_row_def insert_receipt_def new_events_have_pages_def one_page_def demo_pg_page_def Let_def)
  then obtain q db' where q: "pg_execute ?cmd db = (Inr q, db')" "\<not> rc_replayed q" by blast
  have mod: "moderator_for demo_runtime demo_env operator_request (demo_service db)
      = (Inr (str ''moderator''), demo_service db)"
    by (simp add: moderator_for_def demo_runtime_def operator_request_def demo_service_def hbind_def
        hlift_def hret_def header_def or_empty_def compare_digest_def is_ascii_def wiki_http_def
        limit_mutation_def on_limiter_def strip_def strip_by_def py_space_def Let_def py_simps)
  have page: "pg_get_page_by_slug (str ''hello'') True db = Some (one_page rid)"
    using db(2) by (simp add: pg_get_page_by_slug_def one_page_def demo_pg_page_def page_from_row_def)
  have "mk_command_id demo_env (str ''moderator'') (header operator_request ''idempotency-key'') = Inr (str ''cmd:'')"
    by (simp add: mk_command_id_def header_def operator_request_def demo_env_def)
  then have "quarantine_page demo_runtime (postgres_ops id id 0) demo_env operator_request (str ''hello'')
        (quarantine_body rid) (demo_service db) = (Inr (ModeratedReply (command_response q)), demo_service db')"
    using mod page q(1) h quarantine_body_read [OF rid(4)] hello_slug
    by (auto simp: quarantine_page_Inr demo_runtime_def postgres_ops_def sid_def one_page_def demo_pg_page_def
        demo_env_def)
  with reach q(2) show ?thesis by (intro exI [of _ rid] exI [of _ "demo_service db"])
      (auto simp: command_response_def)
qed

theorem quarantine_hides_page_witness:
  "\<exists>sv. page_or_404 demo_runtime (postgres_ops id id 0) False (str ''hello'') sv
    = (Inl (HttpError 404 (str ''page_not_found'') (str ''the page does not exist'')), sv)"
proof -
  obtain rid sv resp sv' where "pg_reachable (sv_store sv)" "\<not> cm_replayed resp"
    "quarantine_page demo_runtime (postgres_ops id id 0) demo_env operator_request (str ''hello'')
        (quarantine_body rid) sv = (Inr (ModeratedReply resp), sv')"
    using demo_quarantined by blast
  from quarantine_hides_page [OF this(1,3,2)] show ?thesis by blast
qed

end
