(* ===== verification/WikiHttp.thy ===== *)
theory WikiHttp
  imports Json PyText
begin

text \<open>
  The HTTP boundary guards of the wiki, \<open>src/app/wiki/http.py\<close>: the body limit and the
  crawler headers. The wrapped ASGI application is not of this module; it is a tree of what
  it does next: await a message (or the exception the receive callable raises), send one,
  return, or raise. A client is the list of the messages it sends. The Unicode upper case of
  a method name is an argument.
\<close>

section \<open>Applications\<close>

datatype exn = RequestBodyTooLarge | AppExn pystr

datatype Inbound = HttpRequest bytes bool | Disconnect

datatype Outbound = ResponseStart int "(bytes \<times> bytes) list" | ResponseBody bytes bool

datatype App =
    Receive "exn + Inbound \<Rightarrow> App"
  | Send Outbound App
  | Return
  | Raise exn

datatype Outcome = Returned | Raised exn | Blocked

record Scope =
  sc_type :: pystr
  sc_path :: pystr
  sc_method :: pystr
  sc_headers :: "(bytes \<times> bytes) list"

text \<open>An application against a client: what it sends and how it ends.\<close>

primrec run :: "App \<Rightarrow> Inbound list \<Rightarrow> Outbound list \<times> Outcome" where
  "run (Receive k) = (\<lambda>ms. case ms of [] \<Rightarrow> ([], Blocked) | m # ms \<Rightarrow> run (k (Inr m)) ms)"
| "run (Send m a) = (\<lambda>ms. case run a ms of (out, oc) \<Rightarrow> (m # out, oc))"
| "run Return = (\<lambda>ms. ([], Returned))"
| "run (Raise x) = (\<lambda>ms. ([], Raised x))"

section \<open>Header values\<close>

definition ascii_bytes :: "pystr \<Rightarrow> bytes" where
  "ascii_bytes s = map of_nat s"

definition lower_bytes :: "bytes \<Rightarrow> bytes" where
  "lower_bytes bs = map (\<lambda>b. if 65 \<le> b \<and> b \<le> 90 then b + 32 else b) bs"

text \<open>
  \<open>int\<close> of a byte string: white space around it, a sign, decimal digits with single
  underscores between them, at most 4300 of them. The second number counts the digits.
\<close>

definition bytes_space :: "byte \<Rightarrow> bool" where
  "bytes_space b \<longleftrightarrow> b = 32 \<or> (9 \<le> b \<and> b \<le> 13)"

definition digit_of :: "byte \<Rightarrow> nat option" where
  "digit_of b = (if 48 \<le> b \<and> b \<le> 57 then Some (unat b - 48) else None)"

fun digit_run :: "nat \<Rightarrow> nat \<Rightarrow> bytes \<Rightarrow> (nat \<times> nat) option" where
  "digit_run acc n [] = Some (acc, n)"
| "digit_run acc n (b # bs) =
     (case digit_of b of
        Some d \<Rightarrow> digit_run (10 * acc + d) (n + 1) bs
      | None \<Rightarrow>
          (if b \<noteq> 95 then None
           else case bs of
             [] \<Rightarrow> None
           | c # cs \<Rightarrow> (case digit_of c of None \<Rightarrow> None
                        | Some d \<Rightarrow> digit_run (10 * acc + d) (n + 1) cs)))"

definition unsigned_int :: "bytes \<Rightarrow> nat option" where
  "unsigned_int bs = (case bs of [] \<Rightarrow> None | b # cs \<Rightarrow>
     (case digit_of b of
        None \<Rightarrow> None
      | Some d \<Rightarrow> (case digit_run d 1 cs of
                    None \<Rightarrow> None
                  | Some (v, n) \<Rightarrow> if 4300 < n then None else Some v)))"

definition int_of_bytes :: "bytes \<Rightarrow> int option" where
  "int_of_bytes bs =
     (let t = rev (dropWhile bytes_space (rev (dropWhile bytes_space bs))) in
      case t of
        [] \<Rightarrow> None
      | b # r \<Rightarrow>
          (if b = 45 then map_option (\<lambda>n. - int n) (unsigned_int r)
           else if b = 43 then map_option int (unsigned_int r)
           else map_option int (unsigned_int t)))"

section \<open>The body limit\<close>

definition guarded :: "(pystr \<Rightarrow> pystr) \<Rightarrow> Scope \<Rightarrow> bool" where
  "guarded upper sc \<longleftrightarrow>
     \<not> (sc_type sc \<noteq> str ''http''
        \<or> \<not> (startswith (sc_path sc) (str ''/api/wiki/v1/'')
             \<or> startswith (sc_path sc) (str ''/internal/wiki/moderation/''))
        \<or> upper (sc_method sc) \<in> {str ''GET'', str ''HEAD'', str ''OPTIONS''})"

definition header_value :: "Scope \<Rightarrow> bytes \<Rightarrow> bytes option" where
  "header_value sc name =
     dict_get (foldl (\<lambda>d (k, v). dict_set (lower_bytes k) v d) [] (sc_headers sc)) name"

definition reject :: "int \<Rightarrow> pystr \<Rightarrow> Outbound list" where
  "reject status code =
     (let body = ascii_bytes (map (\<lambda>c. if c = 96 then 34 else c) (str ''{`detail`:{`code`:`'') @ code
            @ map (\<lambda>c. if c = 96 then 34 else c)
                (str ''`,`message`:`wiki request body exceeds the configured limit`}}''))
      in [ResponseStart status
            [(ascii_bytes (str ''content-type''), ascii_bytes (str ''application/json'')),
             (ascii_bytes (str ''content-length''), ascii_bytes (nat_dec (length body))),
             (ascii_bytes (str ''cache-control''), ascii_bytes (str ''no-store''))],
          ResponseBody body False])"

text \<open>
  The wrapped application with \<open>limited_receive\<close> and \<open>buffered_send\<close>: the messages it heard,
  the responses it buffered, its end.
\<close>

primrec run_limited ::
  "App \<Rightarrow> nat \<Rightarrow> nat \<Rightarrow> Inbound list \<Rightarrow> Inbound list \<times> Outbound list \<times> Outcome" where
  "run_limited (Receive k) = (\<lambda>limit consumed ms.
     case ms of
       [] \<Rightarrow> ([], [], Blocked)
     | m # ms \<Rightarrow>
         (case m of
            HttpRequest body mb \<Rightarrow>
              (let consumed' = consumed + length body in
               if limit < consumed' then run_limited (k (Inl RequestBodyTooLarge)) limit consumed' ms
               else (case run_limited (k (Inr m)) limit consumed' ms of
                       (heard, out, oc) \<Rightarrow> (m # heard, out, oc)))
          | Disconnect \<Rightarrow>
              (case run_limited (k (Inr m)) limit consumed ms of
                 (heard, out, oc) \<Rightarrow> (m # heard, out, oc))))"
| "run_limited (Send m a) = (\<lambda>limit consumed ms.
     case run_limited a limit consumed ms of (heard, out, oc) \<Rightarrow> (heard, m # out, oc))"
| "run_limited Return = (\<lambda>limit consumed ms. ([], [], Returned))"
| "run_limited (Raise x) = (\<lambda>limit consumed ms. ([], [], Raised x))"

record Call =
  cl_heard :: "Inbound list"
  cl_sent :: "Outbound list"
  cl_end :: Outcome

definition limited_call :: "nat \<Rightarrow> App \<Rightarrow> Inbound list \<Rightarrow> Call" where
  "limited_call max_bytes app ms =
     (case run_limited app max_bytes 0 ms of
        (heard, buffered, oc) \<Rightarrow>
          (case oc of
             Raised x \<Rightarrow>
               (if x = RequestBodyTooLarge
                then \<lparr>cl_heard = heard, cl_sent = reject 413 (str ''request_body_too_large''),
                      cl_end = Returned\<rparr>
                else \<lparr>cl_heard = heard, cl_sent = [], cl_end = oc\<rparr>)
           | Returned \<Rightarrow> \<lparr>cl_heard = heard, cl_sent = buffered, cl_end = Returned\<rparr>
           | Blocked \<Rightarrow> \<lparr>cl_heard = heard, cl_sent = [], cl_end = Blocked\<rparr>))"

text \<open>What a call outside the guard hears is what the client sends it.\<close>

primrec heard_by :: "App \<Rightarrow> Inbound list \<Rightarrow> Inbound list" where
  "heard_by (Receive k) = (\<lambda>ms. case ms of [] \<Rightarrow> [] | m # ms \<Rightarrow> m # heard_by (k (Inr m)) ms)"
| "heard_by (Send m a) = heard_by a"
| "heard_by Return = (\<lambda>ms. [])"
| "heard_by (Raise x) = (\<lambda>ms. [])"

definition body_limit :: "(pystr \<Rightarrow> pystr) \<Rightarrow> nat \<Rightarrow> Scope \<Rightarrow> App \<Rightarrow> Inbound list \<Rightarrow> Call" where
  "body_limit upper max_bytes sc app ms =
     (if \<not> guarded upper sc
      then (case run app ms of (out, oc) \<Rightarrow>
              \<lparr>cl_heard = heard_by app ms, cl_sent = out, cl_end = oc\<rparr>)
      else case header_value sc (ascii_bytes (str ''content-length'')) of
        None \<Rightarrow> limited_call max_bytes app ms
      | Some raw \<Rightarrow>
          (if raw = [] then limited_call max_bytes app ms
           else case int_of_bytes raw of
             None \<Rightarrow> \<lparr>cl_heard = [], cl_sent = reject 400 (str ''invalid_content_length''),
                     cl_end = Returned\<rparr>
           | Some n \<Rightarrow>
               (if int max_bytes < n
                then \<lparr>cl_heard = [], cl_sent = reject 413 (str ''request_body_too_large''),
                      cl_end = Returned\<rparr>
                else limited_call max_bytes app ms)))"

text \<open>The constructor refuses a limit below one.\<close>

definition new_body_limit :: "int \<Rightarrow> pystr + nat" where
  "new_body_limit max_bytes =
     (if max_bytes < 1 then Inl (str ''max_bytes must be positive'') else Inr (nat max_bytes))"

section \<open>The crawler headers\<close>

definition robots_protected :: "Scope \<Rightarrow> bool" where
  "robots_protected sc \<longleftrightarrow> sc_type sc = str ''http''
     \<and> (sc_path sc \<in> {str ''/api/wiki'', str ''/internal/wiki/moderation''}
        \<or> startswith (sc_path sc) (str ''/api/wiki/'')
        \<or> startswith (sc_path sc) (str ''/internal/wiki/moderation/''))"

definition noindex :: "Outbound \<Rightarrow> Outbound" where
  "noindex m =
     (case m of
        ResponseStart status headers \<Rightarrow> ResponseStart status
          (filter (\<lambda>(key, _). lower_bytes key \<notin>
              {ascii_bytes (str ''x-robots-tag''), ascii_bytes (str ''cache-control'')}) headers
           @ [(ascii_bytes (str ''x-robots-tag''), ascii_bytes (str ''noindex, nofollow, noarchive'')),
              (ascii_bytes (str ''cache-control''), ascii_bytes (str ''no-store''))])
      | _ \<Rightarrow> m)"

primrec noindex_app :: "App \<Rightarrow> App" where
  "noindex_app (Receive k) = Receive (\<lambda>r. noindex_app (k r))"
| "noindex_app (Send m a) = Send (noindex m) (noindex_app a)"
| "noindex_app Return = Return"
| "noindex_app (Raise x) = Raise x"

definition robots :: "Scope \<Rightarrow> App \<Rightarrow> App" where
  "robots sc app = (if robots_protected sc then noindex_app app else app)"

section \<open>The limit holds\<close>

primrec body_size :: "Inbound \<Rightarrow> nat" where
  "body_size (HttpRequest body mb) = length body"
| "body_size Disconnect = 0"

definition total :: "Inbound list \<Rightarrow> nat" where
  "total ms = sum_list (map body_size ms)"

lemma run_limited_bound:
  "run_limited app limit consumed ms = (heard, out, oc) \<Longrightarrow>
     total heard \<le> limit - consumed"
proof (induction app arbitrary: consumed ms heard out oc)
  case (Receive k)
  show ?case
  proof (cases ms)
    case (Cons m ms')
    show ?thesis
    proof (cases m)
      case (HttpRequest body mb)
      show ?thesis
      proof (cases "limit < consumed + length body")
        case True
        with Receive.prems Cons HttpRequest
        have "run_limited (k (Inl RequestBodyTooLarge)) limit (consumed + length body) ms' = (heard, out, oc)"
          by simp
        from Receive.IH [OF rangeI this] True show ?thesis by simp
      next
        case False
        with Receive.prems Cons HttpRequest obtain h where
          h: "run_limited (k (Inr m)) limit (consumed + length body) ms' = (h, out, oc)" "heard = m # h"
          by (auto split: prod.splits)
        from Receive.IH [OF rangeI h(1)] False h(2) HttpRequest show ?thesis
          by (auto simp: total_def)
      qed
    next
      case Disconnect
      with Receive.prems Cons obtain h where
        h: "run_limited (k (Inr m)) limit consumed ms' = (h, out, oc)" "heard = m # h"
        by (auto split: prod.splits)
      from Receive.IH [OF rangeI h(1)] h(2) Disconnect show ?thesis by (auto simp: total_def)
    qed
  qed (use Receive.prems in \<open>auto simp: total_def\<close>)
qed (auto simp: total_def split: prod.splits)

text \<open>A client that stays within the limit is served as if there were no limit.\<close>

lemma run_limited_within:
  "consumed + total ms \<le> limit \<Longrightarrow>
     run_limited app limit consumed ms = (heard_by app ms, run app ms)"
proof (induction app arbitrary: consumed ms)
  case (Receive k)
  show ?case
  proof (cases ms)
    case (Cons m ms')
    show ?thesis
    proof (cases m)
      case (HttpRequest body mb)
      with Receive.prems Cons have "consumed + length body + total ms' \<le> limit"
        by (simp add: total_def)
      from Receive.IH [OF rangeI this] Receive.prems Cons HttpRequest show ?thesis
        by (simp add: total_def split: prod.splits)
    next
      case Disconnect
      with Receive.prems Cons have "consumed + total ms' \<le> limit" by (simp add: total_def)
      from Receive.IH [OF rangeI this] Cons Disconnect show ?thesis
        by (simp split: prod.splits)
    qed
  qed simp
qed (auto split: prod.splits)

text \<open>An application is transparent when it passes the exception of its receive callable on.\<close>

primrec transparent :: "App \<Rightarrow> bool" where
  "transparent (Receive k) \<longleftrightarrow> k (Inl RequestBodyTooLarge) = Raise RequestBodyTooLarge
     \<and> (\<forall>m. transparent (k (Inr m)))"
| "transparent (Send m a) \<longleftrightarrow> transparent a"
| "transparent Return \<longleftrightarrow> True"
| "transparent (Raise x) \<longleftrightarrow> True"

text \<open>What the declared length comes to: none (absent or empty), not a number, or a number.\<close>

datatype declared = Undeclared | Invalid | Length int

definition declared_length :: "Scope \<Rightarrow> declared" where
  "declared_length sc =
     (case header_value sc (ascii_bytes (str ''content-length'')) of
        None \<Rightarrow> Undeclared
      | Some raw \<Rightarrow> if raw = [] then Undeclared
                    else (case int_of_bytes raw of None \<Rightarrow> Invalid | Some n \<Rightarrow> Length n))"

definition acceptable :: "nat \<Rightarrow> declared \<Rightarrow> bool" where
  "acceptable limit d \<longleftrightarrow> (case d of Undeclared \<Rightarrow> True | Invalid \<Rightarrow> False | Length n \<Rightarrow> n \<le> int limit)"

lemma body_limit_cases:
  "guarded upper sc \<Longrightarrow> body_limit upper limit sc app ms =
     (case declared_length sc of
        Undeclared \<Rightarrow> limited_call limit app ms
      | Invalid \<Rightarrow> \<lparr>cl_heard = [], cl_sent = reject 400 (str ''invalid_content_length''), cl_end = Returned\<rparr>
      | Length n \<Rightarrow>
          if int limit < n
          then \<lparr>cl_heard = [], cl_sent = reject 413 (str ''request_body_too_large''), cl_end = Returned\<rparr>
          else limited_call limit app ms)"
  by (simp add: body_limit_def declared_length_def split: option.splits)

lemma body_limit_acceptable:
  "guarded upper sc \<Longrightarrow> acceptable limit (declared_length sc) \<Longrightarrow>
     body_limit upper limit sc app ms = limited_call limit app ms"
  by (simp add: body_limit_cases acceptable_def split: declared.splits)

text \<open>C18: The body limit holds. Whatever a client sends to a mutating wiki path, in one message or in
  chunks and with or without a declared length, the application behind the guard hears at most
  \<open>max_bytes\<close> of body. A declared length over the limit is answered with 413 and one that is no
  number with 400, before the application hears anything. With no declared length or one within
  the limit, nothing of what the application sends leaves before it has returned: while it waits
  for more of the body, or when it ends in an exception, the client gets nothing, and when it
  passes on the exception for too large a body, the 413 alone; and a client whose body stays
  within the limit gets exactly what the unguarded application sends.\<close>

theorem body_limit_enforced:
  assumes "guarded upper sc"
  shows "total (cl_heard (body_limit upper limit sc app ms)) \<le> limit
    \<and> cl_end (body_limit upper limit sc app ms) \<noteq> Raised RequestBodyTooLarge
    \<and> (declared_length sc = Invalid \<longrightarrow> body_limit upper limit sc app ms =
          \<lparr>cl_heard = [], cl_sent = reject 400 (str ''invalid_content_length''), cl_end = Returned\<rparr>)
    \<and> (\<forall>n. declared_length sc = Length n \<and> int limit < n \<longrightarrow> body_limit upper limit sc app ms =
          \<lparr>cl_heard = [], cl_sent = reject 413 (str ''request_body_too_large''), cl_end = Returned\<rparr>)
    \<and> (acceptable limit (declared_length sc) \<longrightarrow>
        (\<exists>heard buffered oc. run_limited app limit 0 ms = (heard, buffered, oc)
          \<and> cl_heard (body_limit upper limit sc app ms) = heard
          \<and> cl_sent (body_limit upper limit sc app ms) =
              (if oc = Returned then buffered
               else if oc = Raised RequestBodyTooLarge then reject 413 (str ''request_body_too_large'')
               else [])))
    \<and> (acceptable limit (declared_length sc) \<and> total ms \<le> limit
        \<and> snd (run app ms) \<noteq> Raised RequestBodyTooLarge \<longrightarrow>
        body_limit upper limit sc app ms =
          \<lparr>cl_heard = heard_by app ms,
           cl_sent = (if snd (run app ms) = Returned then fst (run app ms) else []),
           cl_end = snd (run app ms)\<rparr>)"
proof -
  obtain heard out oc where r: "run_limited app limit 0 ms = (heard, out, oc)" by (metis prod_cases3)
  have "total heard \<le> limit" using run_limited_bound [OF r] by simp
  then have lim: "total (cl_heard (limited_call limit app ms)) \<le> limit"
    "cl_end (limited_call limit app ms) \<noteq> Raised RequestBodyTooLarge"
    by (auto simp: limited_call_def r split: Outcome.splits)
  then have "total (cl_heard (body_limit upper limit sc app ms)) \<le> limit"
    "cl_end (body_limit upper limit sc app ms) \<noteq> Raised RequestBodyTooLarge"
    using assms by (auto simp: body_limit_cases total_def split: declared.splits)
  moreover have "cl_heard (limited_call limit app ms) = heard
      \<and> cl_sent (limited_call limit app ms) =
          (if oc = Returned then out
           else if oc = Raised RequestBodyTooLarge then reject 413 (str ''request_body_too_large'') else [])"
    by (simp add: limited_call_def r split: Outcome.splits)
  moreover have "limited_call limit app ms =
      \<lparr>cl_heard = heard_by app ms,
       cl_sent = (if snd (run app ms) = Returned then fst (run app ms) else []),
       cl_end = snd (run app ms)\<rparr>"
    if "total ms \<le> limit" "snd (run app ms) \<noteq> Raised RequestBodyTooLarge"
    using that run_limited_within [of 0 ms limit app]
    by (cases "run app ms") (auto simp: limited_call_def split: Outcome.splits)
  ultimately show ?thesis
    using assms r by (auto simp: body_limit_acceptable) (simp_all add: body_limit_cases)
qed

definition demo_scope :: Scope where
  "demo_scope = \<lparr>sc_type = str ''http'', sc_path = str ''/api/wiki/v1/pages'', sc_method = str ''POST'',
     sc_headers = []\<rparr>"

text \<open>An application that reads two messages and answers 200.\<close>

definition demo_app :: App where
  "demo_app = Receive (\<lambda>a. case a of Inl x \<Rightarrow> Raise x | Inr _ \<Rightarrow>
     Receive (\<lambda>b. case b of Inl x \<Rightarrow> Raise x | Inr _ \<Rightarrow> Send (ResponseStart 200 []) Return))"

lemma demo_guarded: "guarded (\<lambda>s. s) demo_scope"
  by (simp add: guarded_def demo_scope_def startswith_def py_simps)

text \<open>The same request with a declared length.\<close>

definition demo_declared :: Scope where
  "demo_declared = demo_scope\<lparr>sc_headers := [(ascii_bytes (str ''Content-Length''), ascii_bytes (str ''3''))]\<rparr>"

lemma demo_declared_length:
  "guarded (\<lambda>s. s) demo_declared" "declared_length demo_declared = Length 3"
  by (simp_all add: guarded_def demo_declared_def demo_scope_def startswith_def declared_length_def
      header_value_def lower_bytes_def ascii_bytes_def py_simps int_of_bytes_def bytes_space_def
      unsigned_int_def digit_of_def word_le_nat_alt)

theorem body_limit_enforced_witness:
  "body_limit (\<lambda>s. s) 4 demo_declared demo_app [HttpRequest [1, 2] True, HttpRequest [3] False] =
     \<lparr>cl_heard = [HttpRequest [1, 2] True, HttpRequest [3] False],
      cl_sent = [ResponseStart 200 []], cl_end = Returned\<rparr>
   \<and> cl_sent (body_limit (\<lambda>s. s) 2 demo_declared demo_app []) = reject 413 (str ''request_body_too_large'')"
  using body_limit_enforced [OF demo_declared_length(1), of 4 demo_app "[HttpRequest [1, 2] True, HttpRequest [3] False]"]
    body_limit_enforced [OF demo_declared_length(1), of 2 demo_app "[]"]
  by (simp add: demo_declared_length(2) acceptable_def demo_app_def total_def)

text \<open>A chunked body over the limit. When the application passes the exception of its receive
  callable on, as the ASGI contract asks, a client that exceeds the limit while the application
  reads is answered with 413 alone, and none of what the application had buffered is sent.\<close>

theorem chunked_overflow_rejected:
  assumes "guarded upper sc" and "header_value sc (ascii_bytes (str ''content-length'')) = None"
    and "transparent app" and "limit < total (heard_by app ms)"
  shows "cl_sent (body_limit upper limit sc app ms) = reject 413 (str ''request_body_too_large'')
    \<and> cl_end (body_limit upper limit sc app ms) = Returned"
proof -
  have over: "snd (snd (run_limited app limit c ms)) = Raised RequestBodyTooLarge"
    if "transparent app" "c \<le> limit" "limit < c + total (heard_by app ms)" for c
    using that
  proof (induction app arbitrary: c ms)
    case (Receive k)
    show ?case
    proof (cases ms)
      case (Cons m ms')
      show ?thesis
      proof (cases "limit < c + body_size m")
        case True
        with Receive.prems Cons show ?thesis by (cases m) auto
      next
        case False
        with Receive.prems Cons have "limit < (c + body_size m) + total (heard_by (k (Inr m)) ms')"
          by (simp add: total_def)
        with Receive.IH [of "k (Inr m)" "c + body_size m" ms'] Receive.prems False Cons show ?thesis
          by (cases m) (auto split: prod.splits)
      qed
    qed (use Receive.prems in \<open>simp add: total_def\<close>)
  next
    case (Send m a)
    from Send.IH [of c ms] Send.prems show ?case by (cases "run_limited a limit c ms") simp
  qed (simp_all add: total_def)
  from over [OF assms(3), of 0] assms(4)
  have "snd (snd (run_limited app limit 0 ms)) = Raised RequestBodyTooLarge" by simp
  with assms(1,2) show ?thesis
    by (auto simp: body_limit_def limited_call_def split: prod.splits)
qed

theorem chunked_overflow_rejected_witness:
  "cl_sent (body_limit (\<lambda>s. s) 4 demo_scope demo_app [HttpRequest [1, 2, 3] True, HttpRequest [4, 5] False])
     = reject 413 (str ''request_body_too_large'')"
  using chunked_overflow_rejected [OF demo_guarded, of demo_app 4
      "[HttpRequest [1, 2, 3] True, HttpRequest [4, 5] False]"]
  by (simp add: demo_app_def header_value_def demo_scope_def total_def)

section \<open>Crawlers and caches are kept out\<close>

lemma run_noindex: "run (noindex_app app) ms = (map noindex (fst (run app ms)), snd (run app ms))"
  by (induction app arbitrary: ms) (auto split: list.splits prod.splits)

definition values_of :: "bytes \<Rightarrow> (bytes \<times> bytes) list \<Rightarrow> bytes list" where
  "values_of name headers = map snd (filter (\<lambda>(key, _). lower_bytes key = name) headers)"

text \<open>
  Every response start from a protected path carries exactly one robots header and one cache
  header, with these values whatever the application set, and the other headers unchanged.
\<close>

lemma robots_headers:
  assumes "robots_protected sc" and "ResponseStart status headers \<in> set (fst (run (robots sc app) ms))"
  shows "values_of (ascii_bytes (str ''x-robots-tag'')) headers
        = [ascii_bytes (str ''noindex, nofollow, noarchive'')]
    \<and> values_of (ascii_bytes (str ''cache-control'')) headers = [ascii_bytes (str ''no-store'')]
    \<and> (\<exists>hs. ResponseStart status hs \<in> set (fst (run app ms)) \<and> (\<forall>name.
        name \<notin> {ascii_bytes (str ''x-robots-tag''), ascii_bytes (str ''cache-control'')} \<longrightarrow>
        values_of name headers = values_of name hs))"
proof -
  let ?x = "ascii_bytes (str ''x-robots-tag'')" and ?c = "ascii_bytes (str ''cache-control'')"
  let ?keep = "\<lambda>(key, _ :: bytes). lower_bytes key \<notin> {?x, ?c}"
  have low: "lower_bytes ?x = ?x" "lower_bytes ?c = ?c" "?x \<noteq> ?c"
    by (simp_all add: lower_bytes_def ascii_bytes_def py_simps word_le_nat_alt)
  from assms obtain m where m: "m \<in> set (fst (run app ms))"
    and r: "noindex m = ResponseStart status headers"
    by (auto simp: robots_def run_noindex)
  from r obtain hs where "m = ResponseStart status hs" and headers: "headers = filter ?keep hs
      @ [(?x, ascii_bytes (str ''noindex, nofollow, noarchive'')), (?c, ascii_bytes (str ''no-store''))]"
    by (cases m) (auto simp: noindex_def)
  with m have hs: "ResponseStart status hs \<in> set (fst (run app ms))" by simp
  have none: "values_of n (filter ?keep hs) = (if n \<in> {?x, ?c} then [] else values_of n hs)" for n
    by (induction hs) (auto simp: values_of_def)
  have app: "values_of n (a @ b) = values_of n a @ values_of n b" for n a b
    by (simp add: values_of_def)
  have "values_of n [(?x, v), (?c, w)] = (if n = ?x then [v] else if n = ?c then [w] else [])" for n v w
    using low by (auto simp: values_of_def)
  with hs headers none app low(3) show ?thesis by (auto simp: app)
qed

end
