(* ===== verification/WikiSchema.thy ===== *)
theory WikiSchema
  imports WikiPostgres
begin

text \<open>
  Schema migrations and the readiness check of the PostgreSQL adapter
  (\<open>ensure_schema\<close>, \<open>ping\<close> and \<open>_schema_is_current\<close> of \<open>src/app/wiki/postgres.py\<close>): the
  packaged migration files, the catalog the runtime requires, and the comparison of the two
  with what the database reports. The database's own execution of a statement and its
  catalog views are arguments.
\<close>

section \<open>The required catalog\<close>

text \<open>SQL text with apostrophes, each written as a backquote.\<close>

definition sql :: "string \<Rightarrow> pystr" where
  "sql s = map (\<lambda>c. if c = 96 then 39 else c) (str s)"

text \<open>Of a column: its type, whether it is \<open>NOT NULL\<close>, its default expression.\<close>

type_synonym ColumnSpec = "pystr \<times> bool \<times> pystr option"

text \<open>Of a constraint: table, type, deferrable, initially deferred, validated, definition.\<close>

type_synonym ConstraintSpec = "pystr \<times> pystr \<times> bool \<times> bool \<times> bool \<times> pystr"

text \<open>Of an index: table, unique, valid, ready, definition, predicate.\<close>

type_synonym IndexSpec = "pystr \<times> bool \<times> bool \<times> bool \<times> pystr \<times> pystr option"

definition wiki_schema_migrations_columns :: "(pystr, ColumnSpec) pydict" where
  "wiki_schema_migrations_columns = [
     (str ''version'', str ''text'', True, None),
     (str ''checksum'', str ''character(64)'', True, None),
     (str ''applied_at'', str ''timestamp with time zone'', True, Some (str ''now()''))]"

definition wiki_pages_columns :: "(pystr, ColumnSpec) pydict" where
  "wiki_pages_columns = [
     (str ''page_id'', str ''uuid'', True, None),
     (str ''slug'', str ''text'', True, None),
     (str ''title'', str ''text'', True, None),
     (str ''content'', str ''text'', True, None),
     (str ''head_revision_id'', str ''uuid'', True, None),
     (str ''content_hash'', str ''character(64)'', True, None),
     (str ''head_actor_id'', str ''text'', True, None),
     (str ''stream_version'', str ''bigint'', True, None),
     (str ''authority'', str ''text'', True, Some (sql ''`community`::text'')),
     (str ''review_status'', str ''text'', True, Some (sql ''`unreviewed`::text'')),
     (str ''moderation_status'', str ''text'', True, Some (sql ''`visible`::text'')),
     (str ''created_at'', str ''timestamp with time zone'', True, None),
     (str ''updated_at'', str ''timestamp with time zone'', True, None)]"

definition wiki_events_columns :: "(pystr, ColumnSpec) pydict" where
  "wiki_events_columns = [
     (str ''page_id'', str ''uuid'', True, None),
     (str ''event_index'', str ''bigint'', True, None),
     (str ''event_id'', str ''text'', True, None),
     (str ''command_id'', str ''text'', True, None),
     (str ''event_type'', str ''text'', True, None),
     (str ''schema_version'', str ''integer'', True, None),
     (str ''occurred_at'', str ''timestamp with time zone'', True, None),
     (str ''actor_id'', str ''text'', True, None),
     (str ''data'', str ''jsonb'', True, None)]"

definition wiki_command_receipts_columns :: "(pystr, ColumnSpec) pydict" where
  "wiki_command_receipts_columns = [
     (str ''command_id'', str ''text'', True, None),
     (str ''fingerprint'', str ''character(64)'', True, None),
     (str ''page_id'', str ''uuid'', True, None),
     (str ''stream_version'', str ''bigint'', True, None),
     (str ''event_ids'', str ''jsonb'', True, None),
     (str ''created_at'', str ''timestamp with time zone'', True, None)]"

definition wiki_outbox_columns :: "(pystr, ColumnSpec) pydict" where
  "wiki_outbox_columns = [
     (str ''effect_id'', str ''text'', True, None),
     (str ''event_id'', str ''text'', True, None),
     (str ''effect_type'', str ''text'', True, None),
     (str ''payload'', str ''jsonb'', True, None),
     (str ''status'', str ''text'', True, Some (sql ''`pending`::text'')),
     (str ''attempts'', str ''integer'', True, Some (str ''0'')),
     (str ''next_attempt_at'', str ''timestamp with time zone'', False, None),
     (str ''created_at'', str ''timestamp with time zone'', True, None),
     (str ''delivered_at'', str ''timestamp with time zone'', False, None)]"

definition required_columns :: "(pystr, (pystr, ColumnSpec) pydict) pydict" where
  "required_columns = [
     (str ''wiki_schema_migrations'', wiki_schema_migrations_columns),
     (str ''wiki_pages'', wiki_pages_columns),
     (str ''wiki_events'', wiki_events_columns),
     (str ''wiki_command_receipts'', wiki_command_receipts_columns),
     (str ''wiki_outbox'', wiki_outbox_columns)]"

definition wiki_schema_migrations_constraints :: "(pystr, ConstraintSpec) pydict" where
  "wiki_schema_migrations_constraints = [
     (str ''wiki_schema_migrations_pkey'', str ''wiki_schema_migrations'', str ''p'', False, False, True,
        str ''PRIMARY KEY (version)'')]"

definition wiki_pages_constraints :: "(pystr, ConstraintSpec) pydict" where
  "wiki_pages_constraints = [
     (str ''wiki_pages_pkey'', str ''wiki_pages'', str ''p'', False, False, True,
        str ''PRIMARY KEY (page_id)''),
     (str ''wiki_pages_slug_key'', str ''wiki_pages'', str ''u'', False, False, True,
        str ''UNIQUE (slug)''),
     (str ''wiki_pages_stream_version_check'', str ''wiki_pages'', str ''c'', False, False, True,
        str ''CHECK (stream_version > 0)''),
     (str ''wiki_pages_authority_check'', str ''wiki_pages'', str ''c'', False, False, True,
        sql ''CHECK (authority = `community`::text)''),
     (str ''wiki_pages_review_status_check'', str ''wiki_pages'', str ''c'', False, False, True,
        sql ''CHECK (review_status = ANY (ARRAY[`unreviewed`::text, `submitted`::text]))''),
     (str ''wiki_pages_moderation_status_check'', str ''wiki_pages'', str ''c'', False, False, True,
        sql ''CHECK (moderation_status = ANY (ARRAY[`visible`::text, `quarantined`::text]))''),
     (str ''wiki_pages_title_size'', str ''wiki_pages'', str ''c'', False, False, True,
        str ''CHECK (char_length(title) >= 1 AND char_length(title) <= 200)''),
     (str ''wiki_pages_content_size'', str ''wiki_pages'', str ''c'', False, False, True,
        str ''CHECK (char_length(content) >= 1 AND char_length(content) <= 100000)'')]"

definition wiki_events_constraints :: "(pystr, ConstraintSpec) pydict" where
  "wiki_events_constraints = [
     (str ''wiki_events_pkey'', str ''wiki_events'', str ''p'', False, False, True,
        str ''PRIMARY KEY (page_id, event_index)''),
     (str ''wiki_events_event_id_key'', str ''wiki_events'', str ''u'', False, False, True,
        str ''UNIQUE (event_id)''),
     (str ''wiki_events_event_index_check'', str ''wiki_events'', str ''c'', False, False, True,
        str ''CHECK (event_index > 0)''),
     (str ''wiki_events_schema_version_check'', str ''wiki_events'', str ''c'', False, False, True,
        str ''CHECK (schema_version = 1)''),
     (str ''wiki_events_page_id_fkey'', str ''wiki_events'', str ''f'', True, True, True,
        str ''FOREIGN KEY (page_id) REFERENCES wiki_pages(page_id) DEFERRABLE INITIALLY DEFERRED'')]"

definition wiki_command_receipts_constraints :: "(pystr, ConstraintSpec) pydict" where
  "wiki_command_receipts_constraints = [
     (str ''wiki_command_receipts_pkey'', str ''wiki_command_receipts'', str ''p'', False, False, True,
        str ''PRIMARY KEY (command_id)'')]"

definition wiki_outbox_constraints :: "(pystr, ConstraintSpec) pydict" where
  "wiki_outbox_constraints = [
     (str ''wiki_outbox_pkey'', str ''wiki_outbox'', str ''p'', False, False, True,
        str ''PRIMARY KEY (effect_id)''),
     (str ''wiki_outbox_effect_type_check'', str ''wiki_outbox'', str ''c'', False, False, True,
        sql ''CHECK (effect_type = ANY (ARRAY[`review_requested`::text, `moderation_report_requested`::text]))''),
     (str ''wiki_outbox_status_check'', str ''wiki_outbox'', str ''c'', False, False, True,
        sql ''CHECK (status = ANY (ARRAY[`pending`::text, `processing`::text, `delivered`::text, `failed`::text]))''),
     (str ''wiki_outbox_attempts_check'', str ''wiki_outbox'', str ''c'', False, False, True,
        str ''CHECK (attempts >= 0)'')]"

definition required_constraints :: "(pystr, ConstraintSpec) pydict" where
  "required_constraints = wiki_schema_migrations_constraints @ wiki_pages_constraints @ wiki_events_constraints @ wiki_command_receipts_constraints @ wiki_outbox_constraints"

definition required_indexes :: "(pystr, IndexSpec) pydict" where
  "required_indexes = [
     (str ''wiki_events_recent_idx'', str ''wiki_events'', False, True, True,
        str ''CREATE INDEX wiki_events_recent_idx ON wiki_events USING btree (occurred_at DESC, event_id DESC)'',
        None),
     (str ''wiki_events_revision_idx'', str ''wiki_events'', False, True, True,
        sql ''CREATE INDEX wiki_events_revision_idx ON wiki_events USING btree (page_id, ((data ->> `revision_id`::text))) WHERE (event_type = ANY (ARRAY[`page_created`::text, `revision_committed`::text]))'',
        Some (sql ''(event_type = ANY (ARRAY[`page_created`::text, `revision_committed`::text]))'')),
     (str ''wiki_outbox_delivery_idx'', str ''wiki_outbox'', False, True, True,
        sql ''CREATE INDEX wiki_outbox_delivery_idx ON wiki_outbox USING btree (status, COALESCE(next_attempt_at, created_at), created_at) WHERE (status = ANY (ARRAY[`pending`::text, `failed`::text]))'',
        Some (sql ''(status = ANY (ARRAY[`pending`::text, `failed`::text]))'')),
     (str ''wiki_pages_public_updated_idx'', str ''wiki_pages'', False, True, True,
        sql ''CREATE INDEX wiki_pages_public_updated_idx ON wiki_pages USING btree (updated_at DESC, page_id DESC) WHERE (moderation_status = `visible`::text)'',
        Some (sql ''(moderation_status = `visible`::text)''))]"

section \<open>The catalog a database reports\<close>

text \<open>
  The rows of the catalog queries for the current schema; the values that are passed through
  \<open>str(...)\<close> and \<open>bool(...)\<close> already have those types.
\<close>

record ColumnRow =
  cl_table :: pystr
  cl_column :: pystr
  cl_type :: pystr
  cl_not_null :: bool
  cl_default :: "pystr option"

record ConstraintRow =
  cn_table :: pystr
  cn_name :: pystr
  cn_type :: pystr
  cn_deferrable :: bool
  cn_deferred :: bool
  cn_validated :: bool
  cn_definition :: pystr

record IndexRow =
  ix_table :: pystr
  ix_name :: pystr
  ix_unique :: bool
  ix_valid :: bool
  ix_ready :: bool
  ix_definition :: pystr
  ix_predicate :: "pystr option"

record Catalog =
  ct_columns :: "ColumnRow list"
  ct_constraints :: "ConstraintRow list"
  ct_indexes :: "IndexRow list"

text \<open>\<open>d == e\<close> on dictionaries: the same keys with equal values, in any order.\<close>

definition dict_eq :: "('v \<Rightarrow> 'v \<Rightarrow> bool) \<Rightarrow> ('k, 'v) pydict \<Rightarrow> ('k, 'v) pydict \<Rightarrow> bool" where
  "dict_eq eq d e \<longleftrightarrow>
     (\<forall>k \<in> set (dict_keys d) \<union> set (dict_keys e).
        case (dict_get d k, dict_get e k) of (Some v, Some w) \<Rightarrow> eq v w | _ \<Rightarrow> False)"

definition normalize_sql_definition :: "pystr \<Rightarrow> pystr" where
  "normalize_sql_definition value = join [32] (split_ws value)"

definition actual_columns :: "ColumnRow list \<Rightarrow> (pystr, (pystr, ColumnSpec) pydict) pydict" where
  "actual_columns rows = foldl (\<lambda>d r. dict_set (cl_table r)
      (dict_set (cl_column r) (cl_type r, cl_not_null r, cl_default r)
         (case dict_get d (cl_table r) of None \<Rightarrow> [] | Some cols \<Rightarrow> cols)) d)
     [] (filter (\<lambda>r. cl_table r \<in> set (dict_keys required_columns)) rows)"

definition actual_constraints :: "ConstraintRow list \<Rightarrow> (pystr, ConstraintSpec) pydict" where
  "actual_constraints rows = foldl (\<lambda>d r. dict_set (cn_name r)
      (cn_table r, cn_type r, cn_deferrable r, cn_deferred r, cn_validated r,
       normalize_sql_definition (cn_definition r)) d)
     [] (filter (\<lambda>r. cn_table r \<in> set (dict_keys required_columns) \<and> cn_type r \<noteq> str ''n'') rows)"

definition actual_indexes :: "IndexRow list \<Rightarrow> (pystr, IndexSpec) pydict" where
  "actual_indexes rows = foldl (\<lambda>d r. dict_set (ix_name r)
      (ix_table r, ix_unique r, ix_valid r, ix_ready r, normalize_sql_definition (ix_definition r),
       map_option normalize_sql_definition (ix_predicate r)) d)
     [] (filter (\<lambda>r. ix_name r \<in> set (dict_keys required_indexes)) rows)"

section \<open>Migrations\<close>

text \<open>A migration: its version (the file's stem), the SHA-256 of the file, its SQL text.\<close>

type_synonym MigrationSpec = "pystr \<times> pystr \<times> pystr"

text \<open>The glob \<open>[0-9][0-9][0-9]_*.sql\<close>\<close>

definition migration_name :: "pystr \<Rightarrow> bool" where
  "migration_name n \<longleftrightarrow> 8 \<le> length n \<and> list_all is_digit (take 3 n) \<and> n ! 3 = 95
     \<and> endswith n (str ''.sql'')"

definition migration_specs :: "(pystr \<times> bytes) list \<Rightarrow> wiki_exn + MigrationSpec list" where
  "migration_specs files =
     map_res (\<lambda>(name, contents).
         case utf8_decode contents of
           None \<Rightarrow> Inl PyUnicodeDecodeError
         | Some text \<Rightarrow> Inr (take (length name - 4) name, hexdigest (sha256 contents), text))
       (sort_key fst (filter (\<lambda>(name, _). migration_name name) files))"

text \<open>
  The database: its tables, which statements change, and the rows of
  \<open>wiki_schema_migrations\<close>, whose checksum is missing for a row of a pre-release checkout.
\<close>

record 'd SchemaDb =
  sd_tables :: 'd
  sd_applied :: "(pystr \<times> pystr option) list"

datatype Statement = CreateMigrationsTable | AddChecksumColumn | MigrationSql pystr

definition schema_is_current ::
  "('d \<Rightarrow> Catalog option) \<Rightarrow> MigrationSpec list \<Rightarrow> 'd SchemaDb \<Rightarrow> bool" where
  "schema_is_current catalog migrations db =
     (case catalog (sd_tables db) of
        None \<Rightarrow> False
      | Some ct \<Rightarrow>
          dict_eq (dict_eq (=)) (actual_columns (ct_columns ct)) required_columns
        \<and> dict_eq (=) (actual_constraints (ct_constraints ct)) required_constraints
        \<and> dict_eq (=) (actual_indexes (ct_indexes ct)) required_indexes
        \<and> dict_eq (=)
            (foldl (\<lambda>d (v, c). dict_set v (case c of None \<Rightarrow> [] | Some s \<Rightarrow> s) d) [] (sd_applied db))
            (foldl (\<lambda>d (v, c, _). dict_set v c d) [] migrations))"

text \<open>The loop over the migrations, inside the transaction.\<close>

fun apply_migrations ::
  "(Statement \<Rightarrow> 'd \<Rightarrow> wiki_exn + 'd) \<Rightarrow> MigrationSpec list \<Rightarrow> 'd SchemaDb \<Rightarrow> wiki_exn + 'd SchemaDb" where
  "apply_migrations run [] db = Inr db"
| "apply_migrations run ((version, checksum, text) # ms) db =
     (case map_of (sd_applied db) version of
        Some applied \<Rightarrow>
          (if (case applied of None \<Rightarrow> [] | Some s \<Rightarrow> s) \<noteq> checksum
           then Inl (PyRuntimeError (str ''wiki migration checksum mismatch: '' @ version))
           else apply_migrations run ms db)
      | None \<Rightarrow>
          bind_res (run (MigrationSql text) (sd_tables db)) (\<lambda>d.
          apply_migrations run ms
            (db\<lparr>sd_tables := d, sd_applied := sd_applied db @ [(version, Some checksum)]\<rparr>)))"

definition ensure_schema_body ::
  "(Statement \<Rightarrow> 'd \<Rightarrow> wiki_exn + 'd) \<Rightarrow> ('d \<Rightarrow> Catalog option) \<Rightarrow> MigrationSpec list
   \<Rightarrow> 'd SchemaDb \<Rightarrow> wiki_exn + 'd SchemaDb" where
  "ensure_schema_body run catalog migrations db =
     bind_res (run CreateMigrationsTable (sd_tables db)) (\<lambda>d1.
     bind_res (run AddChecksumColumn d1) (\<lambda>d2.
     bind_res (apply_migrations run migrations (db\<lparr>sd_tables := d2\<rparr>)) (\<lambda>db'.
     if \<not> schema_is_current catalog migrations db'
     then Inl (PyRuntimeError (str ''wiki PostgreSQL schema does not match the runtime contract''))
     else Inr db')))"

definition ensure_schema ::
  "(Statement \<Rightarrow> 'd \<Rightarrow> wiki_exn + 'd) \<Rightarrow> ('d \<Rightarrow> Catalog option) \<Rightarrow> (pystr \<times> bytes) list
   \<Rightarrow> 'd SchemaDb \<Rightarrow> (wiki_exn + unit) \<times> 'd SchemaDb" where
  "ensure_schema run catalog files db =
     (case migration_specs files of
        Inl x \<Rightarrow> (Inl x, db)
      | Inr [] \<Rightarrow> (Inl (PyRuntimeError (str ''no wiki migrations found'')), db)
      | Inr migrations \<Rightarrow>
          (case ensure_schema_body run catalog migrations db of
             Inl x \<Rightarrow> (Inl x, db)
           | Inr db' \<Rightarrow> (Inr (), db')))"

definition pg_ping ::
  "('d \<Rightarrow> Catalog option) \<Rightarrow> (pystr \<times> bytes) list \<Rightarrow> 'd SchemaDb \<Rightarrow> wiki_exn + bool" where
  "pg_ping catalog files db =
     bind_res (migration_specs files) (\<lambda>migrations.
       Inr (migrations \<noteq> [] \<and> schema_is_current catalog migrations db))"

section \<open>Fail-closed startup\<close>

lemma apply_migrations_keeps:
  "apply_migrations run ms db = Inr db' \<Longrightarrow> \<exists>xs. sd_applied db' = sd_applied db @ xs"
proof (induction ms arbitrary: db)
  case (Cons m ms)
  obtain v c t where m: "m = (v, c, t)" by (cases m)
  with Cons show ?case
    by (cases "map_of (sd_applied db) v") (fastforce simp: res_simps split: if_splits)+
qed simp

text \<open>Each version ends up recorded with the checksum of its packaged file.\<close>

lemma apply_migrations_recorded:
  "apply_migrations run ms db = Inr db' \<Longrightarrow> (v, c, t) \<in> set ms \<Longrightarrow>
    \<exists>a. map_of (sd_applied db') v = Some a \<and> (case a of None \<Rightarrow> [] | Some s \<Rightarrow> s) = c"
proof (induction ms arbitrary: db)
  case (Cons m ms)
  obtain v' c' t' where m: "m = (v', c', t')" by (cases m)
  show ?case
  proof (cases "map_of (sd_applied db) v'")
    case None
    with Cons.prems m obtain d where rest: "apply_migrations run ms
        (db\<lparr>sd_tables := d, sd_applied := sd_applied db @ [(v', Some c')]\<rparr>) = Inr db'"
      by (auto simp: res_simps)
    from apply_migrations_keeps [OF rest] None have "map_of (sd_applied db') v' = Some (Some c')"
      by (auto simp: map_add_def)
    with Cons.IH [OF rest] Cons.prems m show ?thesis by auto
  next
    case (Some a)
    with Cons.prems m have rest: "apply_migrations run ms db = Inr db'"
      and c: "(case a of None \<Rightarrow> [] | Some s \<Rightarrow> s) = c'" by (auto split: if_splits)
    from apply_migrations_keeps [OF rest] Some have "map_of (sd_applied db') v' = Some a"
      by (auto simp: map_add_def)
    with Cons.IH [OF rest] Cons.prems m c show ?thesis by auto
  qed
qed simp

text \<open>C11: Startup fails closed. When \<open>ensure_schema\<close> returns, every packaged migration is recorded
  under its version with the SHA-256 of its file, and the catalog is exactly the required
  one; when it raises, for a checksum that does not match, a failing statement or a catalog
  that differs, the transaction left the database as it was.\<close>

theorem ensure_schema_fails_closed:
  "case ensure_schema run catalog files db of
     (Inl x, db') \<Rightarrow> db' = db
   | (Inr _, db') \<Rightarrow> \<exists>ms. migration_specs files = Inr ms \<and> ms \<noteq> []
       \<and> schema_is_current catalog ms db' \<and> pg_ping catalog files db' = Inr True
       \<and> (\<forall>(v, c, t) \<in> set ms. \<exists>a. map_of (sd_applied db') v = Some a
            \<and> (case a of None \<Rightarrow> [] | Some s \<Rightarrow> s) = c)"
proof -
  show ?thesis
  proof (cases "fst (ensure_schema run catalog files db)")
    case (Inl x)
    then show ?thesis by (auto simp: ensure_schema_def split: sum.splits list.splits)
  next
    case (Inr u)
    then obtain ms db' where ms: "migration_specs files = Inr ms" "ms \<noteq> []"
      and body: "ensure_schema_body run catalog ms db = Inr db'"
      and res: "ensure_schema run catalog files db = (Inr (), db')"
      by (auto simp: ensure_schema_def split: sum.splits list.splits)
    from body obtain d2 where ap: "apply_migrations run ms (db\<lparr>sd_tables := d2\<rparr>) = Inr db'"
      and cur: "schema_is_current catalog ms db'"
      by (auto simp: ensure_schema_body_def res_simps split: if_splits)
    with ms res apply_migrations_recorded [OF ap] show ?thesis
      by (auto simp: pg_ping_def)
  qed
qed

text \<open>A database whose catalog reports nothing: the first start is rolled back.\<close>

theorem ensure_schema_fails_closed_witness:
  "snd (ensure_schema (\<lambda>_ d. Inr (d + 1)) (\<lambda>_ :: nat. None) [(str ''001_a.sql'', [])]
      \<lparr>sd_tables = 0, sd_applied = []\<rparr>) = \<lparr>sd_tables = 0, sd_applied = []\<rparr>"
proof -
  let ?run = "\<lambda>_ d. Inr (d + 1) :: wiki_exn + nat"
  let ?db = "\<lparr>sd_tables = 0, sd_applied = []\<rparr> :: nat SchemaDb"
  let ?cat = "\<lambda>_ :: nat. None :: Catalog option"
  let ?r = "ensure_schema ?run ?cat [(str ''001_a.sql'', [])] ?db"
  have all: "case ?r of (Inl x, db') \<Rightarrow> db' = ?db
      | (Inr _, db') \<Rightarrow> \<exists>ms. migration_specs [(str ''001_a.sql'', [])] = Inr ms \<and> ms \<noteq> []
          \<and> schema_is_current ?cat ms db' \<and> pg_ping ?cat [(str ''001_a.sql'', [])] db' = Inr True
          \<and> (\<forall>(v, c, t) \<in> set ms. \<exists>a. map_of (sd_applied db') v = Some a
               \<and> (case a of None \<Rightarrow> [] | Some s \<Rightarrow> s) = c)"
    by (rule ensure_schema_fails_closed)
  obtain res db' where r: "?r = (res, db')" by fastforce
  show ?thesis
  proof (cases res)
    case (Inl x)
    with all r show ?thesis by simp
  next
    case (Inr u)
    with all r have "\<exists>ms. schema_is_current ?cat ms db'" by auto
    then show ?thesis by (simp add: schema_is_current_def)
  qed
qed

text \<open>A migration that was edited after it was applied, or applied without a checksum, stops the
  startup: nothing is executed past the two bookkeeping statements and nothing is kept.\<close>

theorem edited_migration_stops_startup:
  assumes "migration_specs files = Inr ms" and "(v, c, t) \<in> set ms"
    and "map_of (sd_applied db) v = Some a" and "(case a of None \<Rightarrow> [] | Some s \<Rightarrow> s) \<noteq> c"
  shows "\<exists>x. ensure_schema run catalog files db = (Inl x, db)"
proof (cases "fst (ensure_schema run catalog files db)")
  case (Inl x)
  then show ?thesis by (auto simp: ensure_schema_def split: sum.splits list.splits)
next
  case (Inr u)
  with assms(1) obtain db' where body: "ensure_schema_body run catalog ms db = Inr db'"
    by (auto simp: ensure_schema_def split: sum.splits list.splits)
  then obtain d2 where ap: "apply_migrations run ms (db\<lparr>sd_tables := d2\<rparr>) = Inr db'"
    by (auto simp: ensure_schema_body_def res_simps split: if_splits)
  from apply_migrations_keeps [OF ap] assms(3) have "map_of (sd_applied db') v = Some a"
    by (auto simp: map_add_def)
  with apply_migrations_recorded [OF ap assms(2)] assms(4) show ?thesis by auto
qed

theorem edited_migration_stops_startup_witness:
  "\<exists>x. ensure_schema (\<lambda>_ d. Inr d) (\<lambda>_ :: unit. None) [(str ''001_a.sql'', [])]
      \<lparr>sd_tables = (), sd_applied = [(str ''001_a'', None)]\<rparr>
    = (Inl x, \<lparr>sd_tables = (), sd_applied = [(str ''001_a'', None)]\<rparr>)"
proof -
  have ms: "migration_specs [(str ''001_a.sql'', [])] = Inr [(str ''001_a'', hexdigest (sha256 []), [])]"
    by (simp add: migration_specs_def migration_name_def is_digit_def endswith_def py_simps)
  have "length (hexdigest (sha256 [])) = 64" by simp
  then have "hexdigest (sha256 []) \<noteq> []" by (metis list.size(3) zero_neq_numeral)
  then show ?thesis
    by (intro edited_migration_stops_startup [OF ms, of "str ''001_a''" "hexdigest (sha256 [])" "[]" _ None])
      simp_all
qed

end
