(* ===== verification/Feedback.thy ===== *)
theory Feedback
  imports WikiModels Handler Throttle
begin

text \<open>
  Feedback: the request contract (\<open>src/app/contracts.py\<close>), the challenge check
  (\<open>src/app/turnstile.py\<close>), the store with its MongoDB collection and its bounded memory
  fallback (\<open>src/app/store.py\<close>), and the public intake and private operator inbox
  (\<open>src/app/routers/feedback.py\<close>). MongoDB is the list of its documents; a call on it works,
  fails without effect, or takes effect and is lost on the way back. What the challenge
  service answers is an argument.
\<close>

section \<open>Contracts\<close>

definition control_free :: "nat set \<Rightarrow> pystr \<Rightarrow> bool" where
  "control_free allowed s \<longleftrightarrow> (\<forall>c \<in> set s. \<not> (c < 32 \<and> c \<notin> allowed))"

definition line_breaks :: "nat set" where
  "line_breaks = {10, 13, 9}"

record FeedbackRequest =
  fq_type :: pystr
  fq_subject :: pystr
  fq_body :: pystr
  fq_email :: pystr
  fq_source_path :: pystr
  fq_contact_consent :: bool
  fq_honeypot :: pystr
  fq_turnstile_token :: pystr

definition feedback_types :: "pystr list" where
  "feedback_types = [str ''general'', str ''bug'', str ''feature'', str ''thesis'', str ''compute'',
     str ''collaboration'']"

definition single_line :: "pystr \<Rightarrow> pystr option" where
  "single_line v = (if control_free {} v then Some (strip v) else None)"

definition valid_subject :: "pystr \<Rightarrow> pystr option" where
  "valid_subject v = Option.bind (single_line v) (\<lambda>s. if s = [] then None else Some s)"

definition valid_email :: "pystr \<Rightarrow> pystr option" where
  "valid_email v = Option.bind (single_line v) (\<lambda>s. let value = strip s in
     if value \<noteq> [] \<and> (64 \<notin> set value \<or> hd value = 64 \<or> last value = 64) then None else Some value)"

definition valid_source_path :: "pystr \<Rightarrow> pystr option" where
  "valid_source_path v = Option.bind (single_line v) (\<lambda>s.
     let value = (if strip s = [] then str ''/'' else strip s) in
     if \<not> startswith value (str ''/'') \<or> startswith value (str ''//'') then None else Some value)"

definition valid_body :: "pystr \<Rightarrow> pystr option" where
  "valid_body v = (if \<not> control_free line_breaks v then None
     else if strip v = [] then None else Some (strip v))"

text \<open>A \<open>bool\<close> field in lax mode\<close>

definition lax_bool :: "Foreign \<Rightarrow> json \<Rightarrow> bool option" where
  "lax_bool F j = (case j of
       JBool b \<Rightarrow> Some b
     | JInt i \<Rightarrow> if i = 1 then Some True else if i = 0 then Some False else None
     | JFloat t \<Rightarrow> if fo_is_one F t then Some True else if fo_is_zero F t then Some False else None
     | JStr s \<Rightarrow>
         (let low = map lower_ascii s in
          if low \<in> {str ''1'', str ''on'', str ''t'', str ''true'', str ''y'', str ''yes''} then Some True
          else if low \<in> {str ''0'', str ''off'', str ''f'', str ''false'', str ''n'', str ''no''}
          then Some False else None)
     | _ \<Rightarrow> None)"

definition dflt_with :: "'a \<Rightarrow> (json \<Rightarrow> 'a option) \<Rightarrow> fields \<Rightarrow> pystr \<Rightarrow> 'a option" where
  "dflt_with v read d k = (case dict_get d k of None \<Rightarrow> Some v | Some j \<Rightarrow> read j)"

definition literal_str :: "pystr list \<Rightarrow> json \<Rightarrow> pystr option" where
  "literal_str allowed j = (case j of JStr s \<Rightarrow> if s \<in> set allowed then Some s else None | _ \<Rightarrow> None)"

definition feedback_request :: "Foreign \<Rightarrow> fields \<Rightarrow> FeedbackRequest option" where
  "feedback_request F d =
     Option.bind (dflt_with (str ''general'') (literal_str feedback_types) d (str ''type'')) (\<lambda>ty.
     Option.bind (Option.bind (req_str 1 255 d (str ''subject'')) valid_subject) (\<lambda>su.
     Option.bind (Option.bind (req_str 1 5000 d (str ''body'')) valid_body) (\<lambda>bo.
     Option.bind (dflt_with [] (\<lambda>j. Option.bind (check_str 0 255 j) valid_email) d (str ''email'')) (\<lambda>em.
     Option.bind (dflt_with (str ''/'') (\<lambda>j. Option.bind (check_str 0 500 j) valid_source_path) d
         (str ''source_path'')) (\<lambda>sp.
     Option.bind (dflt_with False (lax_bool F) d (str ''contact_consent'')) (\<lambda>cc.
     Option.bind (dflt_str [] 0 255 d (str ''honeypot'')) (\<lambda>ho.
     Option.bind (dflt_str [] 0 4096 d (str ''turnstile_token'')) (\<lambda>tt.
     if em \<noteq> [] \<and> \<not> cc then None
     else Some \<lparr>fq_type = ty, fq_subject = su, fq_body = bo, fq_email = em, fq_source_path = sp,
                fq_contact_consent = cc, fq_honeypot = ho, fq_turnstile_token = tt\<rparr>))))))))"

definition triage_request :: "fields \<Rightarrow> (pystr \<times> pystr) option" where
  "triage_request d =
     Option.bind (Option.bind (dict_get d (str ''status''))
        (literal_str [str ''reviewed'', str ''archived'', str ''spam''])) (\<lambda>st.
     Option.bind (dflt_with [] (\<lambda>j. Option.bind (check_str 0 1000 j) (\<lambda>v.
        if control_free line_breaks v then Some (strip v) else None)) d (str ''operator_note'')) (\<lambda>no.
     Some (st, no)))"

section \<open>The challenge\<close>

record TurnstileSettings =
  ts_secret :: pystr
  ts_hostname :: pystr
  ts_action :: pystr
  ts_fail_open :: bool

datatype TurnstileAnswer = Unreachable | NotJson | Answered json

definition verify_turnstile ::
  "Foreign \<Rightarrow> TurnstileSettings \<Rightarrow> pystr \<Rightarrow> TurnstileAnswer \<Rightarrow> wiki_exn + bool" where
  "verify_turnstile F ts token answer =
     (if ts_secret ts = [] then Inr True
      else if token = [] then Inr False
      else case answer of
        Unreachable \<Rightarrow> Inr (ts_fail_open ts)
      | NotJson \<Rightarrow> Inr False
      | Answered (JObj d) \<Rightarrow>
          Inr (py_truthy F (get_default d (str ''success'') JNull)
             \<and> (ts_hostname ts \<noteq> [] \<longrightarrow> dict_get d (str ''hostname'') = Some (JStr (ts_hostname ts)))
             \<and> (ts_action ts \<noteq> [] \<longrightarrow> dict_get d (str ''action'') = Some (JStr (ts_action ts))))
      | Answered _ \<Rightarrow> Inl (PyAttributeError (str ''get'')))"

section \<open>The store\<close>

record FeedbackDoc =
  fd_id :: pystr
  fd_created_at :: datetime
  fd_type :: pystr
  fd_subject :: pystr
  fd_body :: pystr
  fd_email :: pystr
  fd_source_path :: pystr
  fd_contact_consent :: bool
  fd_status :: "pystr option"
  fd_operator_note :: "pystr option"
  fd_reviewed_at :: "datetime option"

record FeedbackSettings =
  fe_mongo_uri :: pystr
  fe_require_durable :: bool
  fe_ttl_days :: int
  fe_admin_key :: pystr
  fe_turnstile :: TurnstileSettings

record FeedbackStore =
  fs_connected :: bool
  fs_memory :: "FeedbackDoc list"
  fs_breaker :: Breaker
  fs_mongo :: "FeedbackDoc list"
  fs_trace :: "(pystr \<times> pystr) list"

definition new_feedback_store :: "FeedbackDoc list \<Rightarrow> FeedbackStore" where
  "new_feedback_store docs = \<lparr>fs_connected = False, fs_memory = [], fs_breaker = new_breaker 30,
     fs_mongo = docs, fs_trace = []\<rparr>"

datatype MongoCall = Works | Fails | Lost

record Clock =
  ck_now :: datetime
  ck_mono :: int
  ck_init :: bool

definition get_collection ::
  "FeedbackSettings \<Rightarrow> Clock \<Rightarrow> FeedbackStore \<Rightarrow> bool \<times> FeedbackStore" where
  "get_collection fe ck fs =
     (if fe_mongo_uri fe = [] \<or> is_open (ck_mono ck) (fs_breaker fs) then (False, fs)
      else if fs_connected fs then (True, fs)
      else if ck_init ck then (True, fs\<lparr>fs_connected := True\<rparr>)
      else (False, fs\<lparr>fs_breaker := trip (ck_mono ck) (fs_breaker fs)\<rparr>))"

definition drop_collection :: "Clock \<Rightarrow> FeedbackStore \<Rightarrow> FeedbackStore" where
  "drop_collection ck fs = fs\<lparr>fs_breaker := trip (ck_mono ck) (fs_breaker fs), fs_connected := False\<rparr>"

definition emit :: "string \<Rightarrow> pystr \<Rightarrow> FeedbackStore \<Rightarrow> FeedbackStore" where
  "emit event cid fs = fs\<lparr>fs_trace := fs_trace fs @ [(str event, cid)]\<rparr>"

text \<open>\<open>deque(maxlen=5000).append\<close> drops the oldest.\<close>

definition memory_append :: "FeedbackDoc \<Rightarrow> FeedbackStore \<Rightarrow> FeedbackStore" where
  "memory_append r fs = fs\<lparr>fs_memory :=
     (let m = fs_memory fs @ [r] in drop (length m - 5000) m)\<rparr>"

text \<open>An insertion under an identifier in use fails on the key of the collection.\<close>

definition save_result ::
  "FeedbackSettings \<Rightarrow> Clock \<Rightarrow> MongoCall \<Rightarrow> pystr \<Rightarrow> (pystr \<Rightarrow> datetime \<Rightarrow> FeedbackDoc)
   \<Rightarrow> FeedbackStore \<Rightarrow> (pystr \<times> bool) \<times> FeedbackStore" where
  "save_result fe ck mc rid doc fs =
     (let record' = doc rid (ck_now ck); fs1 = emit ''feedback_received'' rid fs in
      case get_collection fe ck fs1 of
        (True, fs2) \<Rightarrow>
          (let done = (if rid \<in> fd_id ` set (fs_mongo fs2) then Fails else mc);
               fs3 = (if done = Fails then fs2 else fs2\<lparr>fs_mongo := fs_mongo fs2 @ [record']\<rparr>) in
           if done = Works
           then ((rid, True), emit ''feedback_durably_stored'' rid
                   (fs3\<lparr>fs_breaker := reset_breaker (fs_breaker fs3)\<rparr>))
           else ((rid, False), emit ''feedback_stored_in_memory'' rid
                   (memory_append record' (drop_collection ck fs3))))
      | (False, fs2) \<Rightarrow>
          ((rid, False), emit ''feedback_stored_in_memory'' rid (memory_append record' fs2)))"

datatype feedback_exn = FeedbackStoreUnavailable pystr | FeedbackKeyError

text \<open>The inbox projection leaves out network identifiers, which the documents here do not have.\<close>

definition recent ::
  "FeedbackSettings \<Rightarrow> Clock \<Rightarrow> MongoCall \<Rightarrow> int \<Rightarrow> FeedbackStore
   \<Rightarrow> (feedback_exn + FeedbackDoc list) \<times> FeedbackStore" where
  "recent fe ck mc limit fs =
     (let n = nat (max 1 (min limit 100)) in
      case get_collection fe ck fs of
        (True, fs1) \<Rightarrow>
          (if mc = Works then (Inr (take n (sort_desc fd_created_at (fs_mongo fs1))), fs1)
           else let fs2 = drop_collection ck fs1 in
           if fe_require_durable fe
           then (Inl (FeedbackStoreUnavailable (str ''mongo feedback read failed'')), fs2)
           else (Inr (take n (rev (fs_memory fs2))), fs2))
      | (False, fs1) \<Rightarrow>
          (if fe_require_durable fe
           then (Inl (FeedbackStoreUnavailable (str ''durable feedback store unavailable'')), fs1)
           else (Inr (take n (rev (fs_memory fs1))), fs1)))"

definition allowed_from :: "pystr \<Rightarrow> feedback_exn + pystr list" where
  "allowed_from status =
     (if status = str ''reviewed'' then Inr [str ''new'']
      else if status = str ''archived'' \<or> status = str ''spam'' then Inr [str ''new'', str ''reviewed'']
      else Inl FeedbackKeyError)"

definition triaged :: "pystr \<Rightarrow> pystr \<Rightarrow> datetime \<Rightarrow> FeedbackDoc \<Rightarrow> FeedbackDoc" where
  "triaged status note now r = r\<lparr>fd_status := Some status, fd_operator_note := Some note,
     fd_reviewed_at := Some now\<rparr>"

text \<open>The filter of the update, and the first match it changes.\<close>

definition state_filter :: "pystr list \<Rightarrow> pystr \<Rightarrow> FeedbackDoc \<Rightarrow> bool" where
  "state_filter allowed rid r \<longleftrightarrow> fd_id r = rid
     \<and> (case fd_status r of Some s \<Rightarrow> s \<in> set allowed | None \<Rightarrow> str ''new'' \<in> set allowed)"

fun update_one :: "('a \<Rightarrow> bool) \<Rightarrow> ('a \<Rightarrow> 'a) \<Rightarrow> 'a list \<Rightarrow> nat \<times> 'a list" where
  "update_one p f [] = (0, [])"
| "update_one p f (x # xs) =
     (if p x then (1, f x # xs) else (case update_one p f xs of (n, ys) \<Rightarrow> (n, x # ys)))"

text \<open>The loop over the reversed memory stops at the first record with the identifier.\<close>

definition doc_status :: "FeedbackDoc \<Rightarrow> pystr" where
  "doc_status r = (case fd_status r of None \<Rightarrow> str ''new'' | Some s \<Rightarrow> s)"

fun triage_loop ::
  "pystr list \<Rightarrow> pystr \<Rightarrow> (FeedbackDoc \<Rightarrow> FeedbackDoc) \<Rightarrow> FeedbackDoc list \<Rightarrow> FeedbackDoc option \<times> FeedbackDoc list" where
  "triage_loop allowed rid f [] = (None, [])"
| "triage_loop allowed rid f (r # rs) =
     (if fd_id r \<noteq> rid then (case triage_loop allowed rid f rs of (x, rs') \<Rightarrow> (x, r # rs'))
      else if doc_status r \<notin> set allowed then (None, r # rs)
      else (Some (f r), f r # rs))"

definition memory_triage ::
  "pystr list \<Rightarrow> pystr \<Rightarrow> pystr \<Rightarrow> pystr \<Rightarrow> datetime \<Rightarrow> FeedbackDoc list \<Rightarrow> FeedbackDoc option \<times> FeedbackDoc list" where
  "memory_triage allowed rid status note now m =
     (case triage_loop allowed rid (triaged status note now) (rev m) of (x, rs) \<Rightarrow> (x, rev rs))"

definition triage ::
  "FeedbackSettings \<Rightarrow> Clock \<Rightarrow> MongoCall \<Rightarrow> bool \<Rightarrow> pystr \<Rightarrow> pystr \<Rightarrow> pystr \<Rightarrow> FeedbackStore
   \<Rightarrow> (feedback_exn + FeedbackDoc option) \<times> FeedbackStore" where
  "triage fe ck mc reread rid status note fs =
     (case allowed_from status of
        Inl x \<Rightarrow> (Inl x, fs)
      | Inr allowed \<Rightarrow>
          (let in_memory = (\<lambda>fs. case memory_triage allowed rid status note (ck_now ck) (fs_memory fs) of
                 (r, m) \<Rightarrow> (Inr r, fs\<lparr>fs_memory := m\<rparr>));
               failed = (\<lambda>fs. let fs' = drop_collection ck fs in
                 if fe_require_durable fe
                 then (Inl (FeedbackStoreUnavailable (str ''mongo feedback update failed'')), fs')
                 else in_memory fs')
           in case get_collection fe ck fs of
                (True, fs1) \<Rightarrow>
                  (if mc = Fails then failed fs1
                   else case update_one (state_filter allowed rid) (triaged status note (ck_now ck))
                          (fs_mongo fs1) of
                     (matched, docs) \<Rightarrow>
                       (let fs2 = fs1\<lparr>fs_mongo := docs\<rparr> in
                        if mc = Lost then failed fs2
                        else if matched = 0 then (Inr None, fs2)
                        else if \<not> reread then failed fs2
                        else (Inr (find (\<lambda>r. fd_id r = rid) docs), fs2)))
              | (False, fs1) \<Rightarrow>
                  (if fe_require_durable fe
                   then (Inl (FeedbackStoreUnavailable (str ''durable feedback store unavailable'')), fs1)
                   else in_memory fs1)))"

fun delete_first :: "('a \<Rightarrow> bool) \<Rightarrow> 'a list \<Rightarrow> 'a list" where
  "delete_first p [] = []"
| "delete_first p (x # xs) = (if p x then xs else x # delete_first p xs)"

definition delete ::
  "FeedbackSettings \<Rightarrow> Clock \<Rightarrow> MongoCall \<Rightarrow> pystr \<Rightarrow> FeedbackStore
   \<Rightarrow> (feedback_exn + bool) \<times> FeedbackStore" where
  "delete fe ck mc rid fs =
     (let mine = (\<lambda>r. fd_id r = rid);
          in_memory = (\<lambda>fs. if \<exists>r \<in> set (fs_memory fs). mine r
            then (Inr True, emit ''feedback_deleted'' rid (fs\<lparr>fs_memory := delete_first mine (fs_memory fs)\<rparr>))
            else (Inr False, fs))
      in case get_collection fe ck fs of
           (True, fs1) \<Rightarrow>
             (let hit = (\<exists>r \<in> set (fs_mongo fs1). mine r);
                  fs2 = (if mc = Fails then fs1 else fs1\<lparr>fs_mongo := delete_first mine (fs_mongo fs1)\<rparr>)
              in if mc = Works
                 then (if hit then (Inr True, emit ''feedback_deleted'' rid fs2) else (Inr False, fs2))
                 else let fs3 = drop_collection ck fs2 in
                 if fe_require_durable fe
                 then (Inl (FeedbackStoreUnavailable (str ''mongo feedback delete failed'')), fs3)
                 else in_memory fs3)
         | (False, fs1) \<Rightarrow>
             (if fe_require_durable fe
              then (Inl (FeedbackStoreUnavailable (str ''durable feedback store unavailable'')), fs1)
              else in_memory fs1))"

section \<open>The TTL index\<close>

text \<open>An index: its name, its key pattern, its expiry.\<close>

record MongoIndex =
  mi_name :: pystr
  mi_key :: "(pystr \<times> int) list"
  mi_expire :: "int option"

datatype IndexStep = DropIndex pystr | CreateIndex int

definition index_plan :: "int \<Rightarrow> MongoIndex list \<Rightarrow> IndexStep list" where
  "index_plan days indexes =
     (if days \<le> 0 then []
      else let ttl = days * 86400 in
      case find (\<lambda>i. mi_key i = [(str ''created_at'', 1)]) indexes of
        None \<Rightarrow> [CreateIndex ttl]
      | Some i \<Rightarrow> if mi_expire i = Some ttl then [] else [DropIndex (mi_name i), CreateIndex ttl])"

section \<open>The endpoints\<close>

record FeedbackService =
  fv_store :: FeedbackStore
  fv_limiter :: Limiter

record FeedbackEnv =
  fx_clock :: Clock
  fx_redis :: "bool \<times> RedisAnswer"
  fx_answer :: TurnstileAnswer
  fx_call :: MongoCall
  fx_reread :: bool
  fx_uuid :: pystr

record FeedbackResponse =
  fr_id :: "pystr option"
  fr_status :: pystr

record FeedbackRecord =
  fi_id :: pystr
  fi_created_at :: datetime
  fi_type :: pystr
  fi_subject :: pystr
  fi_body :: pystr
  fi_email :: pystr
  fi_source_path :: pystr
  fi_contact_consent :: bool
  fi_status :: pystr
  fi_operator_note :: pystr
  fi_reviewed_at :: "datetime option"

text \<open>A refusal carries its status, its reason and whether it says \<open>retryable\<close>.\<close>

datatype FeedbackReply =
    Taken FeedbackResponse
  | Refused int pystr bool
  | Inbox "FeedbackRecord list" nat
  | Triaged FeedbackRecord
  | NoContent

definition new_feedback_limiter :: "int \<Rightarrow> int \<Rightarrow> pystr \<Rightarrow> Limiter" where
  "new_feedback_limiter max_per_window window redis_url = new_limiter max_per_window window redis_url False"

definition doc_of :: "FeedbackRequest \<Rightarrow> pystr \<Rightarrow> datetime \<Rightarrow> FeedbackDoc" where
  "doc_of p rid now =
     \<lparr>fd_id = rid, fd_created_at = now, fd_type = fq_type p, fd_subject = fq_subject p,
      fd_body = fq_body p, fd_email = fq_email p, fd_source_path = fq_source_path p,
      fd_contact_consent = fq_contact_consent p, fd_status = Some (str ''new''),
      fd_operator_note = None, fd_reviewed_at = None\<rparr>"

definition take_feedback ::
  "FeedbackSettings \<Rightarrow> FeedbackEnv \<Rightarrow> FeedbackRequest \<Rightarrow> (FeedbackService, FeedbackReply) handler" where
  "take_feedback fe ev p sv =
     (case save_result fe (fx_clock ev) (fx_call ev) (fx_uuid ev) (doc_of p) (fv_store sv) of
        ((rid, durable), fs) \<Rightarrow>
          (Inr (if fe_require_durable fe \<and> \<not> durable
                then Refused 503 (str ''storage_unavailable'') True
                else Taken \<lparr>fr_id = Some rid,
                            fr_status = (if durable then str ''stored'' else str ''accepted'')\<rparr>),
           sv\<lparr>fv_store := fs\<rparr>))"

definition post_feedback ::
  "Foreign \<Rightarrow> FeedbackSettings \<Rightarrow> bool \<Rightarrow> FeedbackEnv \<Rightarrow> Request \<Rightarrow> fields
   \<Rightarrow> (FeedbackService, FeedbackReply) handler" where
  "post_feedback F fe trust_proxy ev rq raw =
     (case feedback_request F raw of None \<Rightarrow> hfail Invalid | Some p \<Rightarrow>
      if fq_honeypot p \<noteq> [] then hret (Taken \<lparr>fr_id = None, fr_status = str ''accepted''\<rparr>)
      else (\<lambda>sv.
        case limiter_allow (client_key trust_proxy (rq_headers rq) (rq_host rq)) (ck_mono (fx_clock ev))
               (fst (fx_redis ev)) (snd (fx_redis ev)) (fv_limiter sv) of
          (Inl _, li) \<Rightarrow> hfail (Unhandled (PyRuntimeError [])) (sv\<lparr>fv_limiter := li\<rparr>)
        | (Inr False, li) \<Rightarrow> hret (Refused 429 (str ''rate_limited'') False) (sv\<lparr>fv_limiter := li\<rparr>)
        | (Inr True, li) \<Rightarrow>
            hbind (hlift (wiki_http (verify_turnstile F (fe_turnstile fe) (fq_turnstile_token p)
                (fx_answer ev)))) (\<lambda>human.
            if \<not> human then hret (Refused 403 (str ''challenge_failed'') False)
            else take_feedback fe ev p) (sv\<lparr>fv_limiter := li\<rparr>)))"

definition http_detail :: "int \<Rightarrow> string \<Rightarrow> http_exn" where
  "http_detail status detail = HttpError status [] (str detail)"

definition require_admin :: "FeedbackSettings \<Rightarrow> Request \<Rightarrow> (FeedbackService, unit) handler" where
  "require_admin fe rq =
     (if fe_admin_key fe = [] then hfail (http_detail 503 ''feedback inbox disabled'')
      else let supplied = or_empty (header rq ''x-api-key'') in
      if supplied = [] then hfail (http_detail 401 ''invalid feedback inbox key'')
      else hbind (hlift (wiki_http (compare_digest supplied (fe_admin_key fe)))) (\<lambda>same.
      if same then hret () else hfail (http_detail 401 ''invalid feedback inbox key'')))"

text \<open>A type or status outside the model's literals is a \<open>ValidationError\<close>, a \<open>ValueError\<close>.\<close>

definition feedback_states :: "pystr list" where
  "feedback_states = [str ''new'', str ''reviewed'', str ''archived'', str ''spam'']"

definition record_from_doc :: "FeedbackDoc \<Rightarrow> wiki_exn + FeedbackRecord" where
  "record_from_doc r =
     (if fd_type r \<notin> set feedback_types \<or> doc_status r \<notin> set feedback_states
      then Inl (PyValueError (str ''FeedbackRecord''))
      else Inr \<lparr>fi_id = fd_id r, fi_created_at = fd_created_at r, fi_type = fd_type r,
        fi_subject = fd_subject r, fi_body = fd_body r, fi_email = fd_email r,
        fi_source_path = fd_source_path r, fi_contact_consent = fd_contact_consent r,
        fi_status = doc_status r, fi_operator_note = or_empty (fd_operator_note r),
        fi_reviewed_at = fd_reviewed_at r\<rparr>)"

text \<open>An operation of the store in a handler: an unavailable store is a 503 with its message.\<close>

definition on_store ::
  "(FeedbackStore \<Rightarrow> (feedback_exn + 'a) \<times> FeedbackStore) \<Rightarrow> (FeedbackService, 'a) handler" where
  "on_store f sv = (case f (fv_store sv) of (r, fs) \<Rightarrow>
     (case r of
        Inl (FeedbackStoreUnavailable m) \<Rightarrow> Inl (HttpError 503 [] m)
      | Inl FeedbackKeyError \<Rightarrow> Inl (Unhandled (PyKeyError []))
      | Inr a \<Rightarrow> Inr a, sv\<lparr>fv_store := fs\<rparr>))"

definition record_id_ok :: "pystr \<Rightarrow> bool" where
  "record_id_ok rid \<longleftrightarrow> length rid = 32 \<and> (\<forall>c \<in> set rid. is_hex_char c)"

definition get_feedback_inbox ::
  "FeedbackSettings \<Rightarrow> FeedbackEnv \<Rightarrow> Request \<Rightarrow> int \<Rightarrow> (FeedbackService, FeedbackReply) handler" where
  "get_feedback_inbox fe ev rq limit =
     (if limit < 1 \<or> 100 < limit then hfail Invalid else
      hbind (require_admin fe rq) (\<lambda>_.
      hbind (on_store (recent fe (fx_clock ev) (fx_call ev) limit)) (\<lambda>records.
      hbind (hlift (wiki_http (map_res record_from_doc records))) (\<lambda>items.
      hret (Inbox items (length items))))))"

definition triage_feedback ::
  "FeedbackSettings \<Rightarrow> FeedbackEnv \<Rightarrow> Request \<Rightarrow> pystr \<Rightarrow> fields \<Rightarrow> (FeedbackService, FeedbackReply) handler" where
  "triage_feedback fe ev rq rid raw =
     (case triage_request raw of None \<Rightarrow> hfail Invalid | Some (status, operator_note) \<Rightarrow>
      hbind (require_admin fe rq) (\<lambda>_.
      if \<not> record_id_ok rid then hfail (http_detail 404 ''feedback not found'')
      else
      hbind (on_store (triage fe (fx_clock ev) (fx_call ev) (fx_reread ev) rid status operator_note)) (\<lambda>r.
      case r of
        None \<Rightarrow> hfail (http_detail 409 ''feedback not found or transition is not allowed'')
      | Some d \<Rightarrow> hbind (hlift (wiki_http (record_from_doc d))) (\<lambda>i. hret (Triaged i)))))"

definition delete_feedback ::
  "FeedbackSettings \<Rightarrow> FeedbackEnv \<Rightarrow> Request \<Rightarrow> pystr \<Rightarrow> (FeedbackService, FeedbackReply) handler" where
  "delete_feedback fe ev rq rid =
     hbind (require_admin fe rq) (\<lambda>_.
     if \<not> record_id_ok rid then hfail (http_detail 404 ''feedback not found'')
     else
     hbind (on_store (delete fe (fx_clock ev) (fx_call ev) rid)) (\<lambda>deleted.
     if deleted then hret NoContent else hfail (http_detail 404 ''feedback not found'')))"

end
