(* ===== verification/FeedbackProps.thy ===== *)
theory FeedbackProps
  imports Feedback
begin

text \<open>
  What the feedback store promises: an acknowledgement as stored means the document is in
  MongoDB, the fallback stays bounded, and triage moves a document only along the review
  lifecycle, whichever calls fail.
\<close>

section \<open>Saving\<close>

lemma get_collection_keeps:
  assumes "get_collection fe ck fs = (up, fs')"
  shows "fs_mongo fs' = fs_mongo fs" and "fs_memory fs' = fs_memory fs" and "fs_trace fs' = fs_trace fs"
  using assms by (auto simp: get_collection_def split: if_splits)

lemma drop_collection_keeps [simp]:
  "fs_mongo (drop_collection ck fs) = fs_mongo fs" "fs_memory (drop_collection ck fs) = fs_memory fs"
  "fs_trace (drop_collection ck fs) = fs_trace fs"
  by (simp_all add: drop_collection_def)

lemma emit_keeps [simp]:
  "fs_mongo (emit e c fs) = fs_mongo fs" "fs_memory (emit e c fs) = fs_memory fs"
  "fs_trace (emit e c fs) = fs_trace fs @ [(str e, c)]"
  by (simp_all add: emit_def)

lemma memory_append_keeps [simp]:
  "fs_mongo (memory_append r fs) = fs_mongo fs" "fs_trace (memory_append r fs) = fs_trace fs"
  by (simp_all add: memory_append_def)

lemma memory_append_bound: "length (fs_memory (memory_append r fs)) \<le> 5000"
  by (simp add: memory_append_def Let_def)

lemma memory_append_last: "r \<in> set (fs_memory (memory_append r fs))"
  by (simp add: memory_append_def Let_def)

definition saved_event :: "bool \<Rightarrow> string" where
  "saved_event durable = (if durable then ''feedback_durably_stored'' else ''feedback_stored_in_memory'')"

lemma save_result_outcome:
  assumes "save_result fe ck mc rid doc fs = ((rid', durable), fs')"
  shows "rid' = rid"
    and "fs_trace fs' = fs_trace fs @ [(str ''feedback_received'', rid), (str (saved_event durable), rid)]"
    and "durable \<Longrightarrow> fs_mongo fs' = fs_mongo fs @ [doc rid (ck_now ck)] \<and> rid \<notin> fd_id ` set (fs_mongo fs)
      \<and> fs_memory fs' = fs_memory fs"
    and "\<not> durable \<Longrightarrow> doc rid (ck_now ck) \<in> set (fs_memory fs') \<and> length (fs_memory fs') \<le> 5000"
    and "\<not> durable \<Longrightarrow> fs_mongo fs' = fs_mongo fs \<or>
      (fs_mongo fs' = fs_mongo fs @ [doc rid (ck_now ck)] \<and> rid \<notin> fd_id ` set (fs_mongo fs))"
proof -
  obtain up fs2 where g: "get_collection fe ck (emit ''feedback_received'' rid fs) = (up, fs2)"
    by fastforce
  note k = get_collection_keeps [OF g, simplified]
  note d = assms [unfolded save_result_def Let_def g]
  show "rid' = rid" using d by (auto split: if_splits bool.splits)
  show "fs_trace fs' = fs_trace fs @ [(str ''feedback_received'', rid), (str (saved_event durable), rid)]"
    using d k by (auto simp: saved_event_def split: if_splits bool.splits)
  show "durable \<Longrightarrow> fs_mongo fs' = fs_mongo fs @ [doc rid (ck_now ck)] \<and> rid \<notin> fd_id ` set (fs_mongo fs)
      \<and> fs_memory fs' = fs_memory fs"
    using d k by (auto split: if_splits bool.splits)
  show "\<not> durable \<Longrightarrow> doc rid (ck_now ck) \<in> set (fs_memory fs') \<and> length (fs_memory fs') \<le> 5000"
    using d by (auto simp: memory_append_last memory_append_bound split: if_splits bool.splits)
  show "\<not> durable \<Longrightarrow> fs_mongo fs' = fs_mongo fs \<or>
      (fs_mongo fs' = fs_mongo fs @ [doc rid (ck_now ck)] \<and> rid \<notin> fd_id ` set (fs_mongo fs))"
    using d k by (auto split: if_splits bool.splits)
qed

text \<open>A reply with an identifier went through \<open>take_feedback\<close>, with the limiter's part done before.\<close>

lemma post_feedback_taken:
  assumes "post_feedback F fe trust_proxy ev rq raw sv = (Inr (Taken r), sv')"
  obtains p where "feedback_request F raw = Some p" and "fq_honeypot p \<noteq> []" and "fr_id r = None" and "sv' = sv"
  | p li where "feedback_request F raw = Some p" and "fq_honeypot p = []"
      and "take_feedback fe ev p (sv\<lparr>fv_limiter := li\<rparr>) = (Inr (Taken r), sv')"
  using assms
  by (fastforce simp: post_feedback_def hfail_def hret_def hbind_def hlift_def
      split: option.splits if_splits prod.splits sum.splits bool.splits)

text \<open>C19: Feedback is never green and blind. When the intake answers 200, either the honeypot was filled
  and nothing at all happened, or the reply carries the new identifier and its status is honest:
  "stored" exactly when the document, with the submitted fields and the state "new", has just been
  added to MongoDB under a fresh identifier and the trace ends with the durable event; "accepted"
  when it is in the bounded memory fallback, which a service that requires durability never says.\<close>

theorem feedback_never_green_and_blind:
  assumes "post_feedback F fe trust_proxy ev rq raw sv = (Inr (Taken r), sv')"
  shows "\<exists>p. feedback_request F raw = Some p \<and>
    (case fr_id r of
       None \<Rightarrow> fq_honeypot p \<noteq> [] \<and> sv' = sv
     | Some rid \<Rightarrow>
         fq_honeypot p = [] \<and> rid = fx_uuid ev \<and>
         (let d = doc_of p rid (ck_now (fx_clock ev)); fs = fv_store sv; fs' = fv_store sv' in
          if fr_status r = str ''stored''
          then fs_mongo fs' = fs_mongo fs @ [d] \<and> rid \<notin> fd_id ` set (fs_mongo fs)
            \<and> fs_trace fs' = fs_trace fs @ [(str ''feedback_received'', rid), (str ''feedback_durably_stored'', rid)]
          else \<not> fe_require_durable fe \<and> d \<in> set (fs_memory fs') \<and> length (fs_memory fs') \<le> 5000
            \<and> fs_trace fs' = fs_trace fs @ [(str ''feedback_received'', rid), (str ''feedback_stored_in_memory'', rid)]))"
  using assms
proof (cases rule: post_feedback_taken)
  case (2 p li)
  obtain rid durable fs' where s: "save_result fe (fx_clock ev) (fx_call ev) (fx_uuid ev) (doc_of p) (fv_store sv)
      = ((rid, durable), fs')" by (metis surj_pair)
  with 2(3) have r: "r = \<lparr>fr_id = Some rid, fr_status = (if durable then str ''stored'' else str ''accepted'')\<rparr>"
    and sv': "fv_store sv' = fs'" and dur: "fe_require_durable fe \<longrightarrow> durable"
    by (auto simp: take_feedback_def split: if_splits)
  from save_result_outcome [OF s] r sv' dur 2(1,2) show ?thesis
    by (auto simp: saved_event_def Let_def)
qed auto

section \<open>The review lifecycle\<close>

lemma update_one_list:
  "update_one p f xs = (n, ys) \<Longrightarrow>
     (n = 0 \<and> ys = xs \<and> (\<forall>x \<in> set xs. \<not> p x))
   \<or> (n = 1 \<and> (\<exists>us x vs. xs = us @ x # vs \<and> p x \<and> ys = us @ f x # vs \<and> (\<forall>u \<in> set us. \<not> p u)))"
proof (induction p f xs arbitrary: n ys rule: update_one.induct)
  case (2 p f x xs)
  show ?case
  proof (cases "p x")
    case True
    with 2(2) show ?thesis by (auto intro!: exI [of _ "[]"])
  next
    case False
    obtain m zs where u: "update_one p f xs = (m, zs)" by fastforce
    from 2(1) [OF False u] 2(2) False u show ?thesis
      by (auto simp: Cons_eq_append_conv) (metis append_Cons set_ConsD)+
  qed
qed simp

text \<open>One document before and after: unchanged, or moved from an allowed state with only its review changed.\<close>

definition moved :: "FeedbackDoc \<Rightarrow> FeedbackDoc \<Rightarrow> bool" where
  "moved r r' \<longleftrightarrow> r' = r \<or> (\<exists>status note now allowed. allowed_from status = Inr allowed
     \<and> doc_status r \<in> set allowed \<and> r' = triaged status note now r)"

lemma moved_refl [simp]: "moved r r"
  by (simp add: moved_def)

lemma moved_triaged:
  "allowed_from status = Inr allowed \<Longrightarrow> doc_status r \<in> set allowed \<Longrightarrow> moved r (triaged status note now r)"
  unfolding moved_def by blast

lemma moved_list_refl [simp]: "list_all2 moved xs xs"
  by (simp add: list.rel_refl)

lemma moved_id: "moved r r' \<Longrightarrow> fd_id r' = fd_id r"
  by (auto simp: moved_def triaged_def)

lemma moved_list_ids: "list_all2 moved xs ys \<Longrightarrow> map fd_id ys = map fd_id xs"
  by (induction rule: list_all2_induct) (auto simp: moved_id)

lemma update_one_moved:
  assumes "update_one p (triaged status note now) xs = (n, ys)" and "allowed_from status = Inr allowed"
    and "\<And>x. x \<in> set xs \<Longrightarrow> p x \<Longrightarrow> doc_status x \<in> set allowed"
  shows "list_all2 moved xs ys"
  using update_one_list [OF assms(1)] assms(2,3)
  by (auto simp: moved_def list_all2_append intro!: list_all2_appendI) blast+

lemma state_filter_allowed: "state_filter allowed rid r \<Longrightarrow> doc_status r \<in> set allowed"
  by (auto simp: state_filter_def doc_status_def split: option.splits)


lemma triage_loop_moved:
  "triage_loop allowed rid (triaged status note now) rs = (x, rs') \<Longrightarrow> allowed_from status = Inr allowed \<Longrightarrow>
     list_all2 moved rs rs'"
proof (induction rs arbitrary: rs')
  case (Cons r rs)
  then show ?case
    by (auto simp: moved_triaged split: if_splits prod.splits)
qed simp

lemma memory_triage_moved:
  "memory_triage allowed rid status note now m = (x, m') \<Longrightarrow> allowed_from status = Inr allowed \<Longrightarrow>
     list_all2 moved m m'"
  by (auto simp: memory_triage_def list_all2_rev1 dest: triage_loop_moved split: prod.splits)

lemma triage_moved:
  assumes "triage fe ck mc reread rid status note fs = (r, fs')"
  shows "list_all2 moved (fs_mongo fs) (fs_mongo fs')" and "list_all2 moved (fs_memory fs) (fs_memory fs')"
proof -
  have "list_all2 moved (fs_mongo fs) (fs_mongo fs') \<and> list_all2 moved (fs_memory fs) (fs_memory fs')"
  proof (cases "allowed_from status")
    case (Inr allowed)
    obtain up fs1 where g: "get_collection fe ck fs = (up, fs1)" by fastforce
    obtain x m where mem: "memory_triage allowed rid status note (ck_now ck) (fs_memory fs) = (x, m)" by fastforce
    obtain n docs where up1: "update_one (state_filter allowed rid) (triaged status note (ck_now ck)) (fs_mongo fs)
        = (n, docs)" by fastforce
    have moved_docs: "list_all2 moved (fs_mongo fs) docs"
      using update_one_moved [OF up1 Inr] state_filter_allowed by blast
    show ?thesis
      using assms memory_triage_moved [OF mem Inr] moved_docs get_collection_keeps [OF g] mem up1
      by (auto simp: triage_def Inr g Let_def split: if_splits bool.splits)
  qed (use assms in \<open>simp add: triage_def\<close>)
  then show "list_all2 moved (fs_mongo fs) (fs_mongo fs')" and "list_all2 moved (fs_memory fs) (fs_memory fs')"
    by simp_all
qed

lemma delete_first_subset: "set (delete_first p xs) \<subseteq> set xs"
  by (induction p xs rule: delete_first.induct) auto

lemma delete_first_ids: "distinct (map g xs) \<Longrightarrow> distinct (map g (delete_first p xs))"
proof (induction p xs rule: delete_first.induct)
  case (2 p x xs)
  with delete_first_subset [of p xs] show ?case by auto
qed simp

lemma length_delete_first: "length (delete_first p xs) \<le> length xs"
  by (induction p xs rule: delete_first.induct) auto

lemma delete_parts:
  assumes "delete fe ck mc rid fs = (r, fs')"
  shows "fs_mongo fs' = fs_mongo fs \<or> fs_mongo fs' = delete_first (\<lambda>r. fd_id r = rid) (fs_mongo fs)"
    and "fs_memory fs' = fs_memory fs \<or> fs_memory fs' = delete_first (\<lambda>r. fd_id r = rid) (fs_memory fs)"
proof -
  obtain up fs1 where g: "get_collection fe ck fs = (up, fs1)" by fastforce
  note d = assms [unfolded delete_def Let_def g] and k = get_collection_keeps [OF g]
  show "fs_mongo fs' = fs_mongo fs \<or> fs_mongo fs' = delete_first (\<lambda>r. fd_id r = rid) (fs_mongo fs)"
    using d k by (auto split: if_splits bool.splits)
  show "fs_memory fs' = fs_memory fs \<or> fs_memory fs' = delete_first (\<lambda>r. fd_id r = rid) (fs_memory fs)"
    using d k by (auto split: if_splits bool.splits)
qed

lemma recent_keeps:
  assumes "recent fe ck mc limit fs = (r, fs')"
  shows "fs_mongo fs' = fs_mongo fs" and "fs_memory fs' = fs_memory fs"
proof -
  obtain up fs1 where g: "get_collection fe ck fs = (up, fs1)" by fastforce
  note d = assms [unfolded recent_def Let_def g] and k = get_collection_keeps [OF g]
  show "fs_mongo fs' = fs_mongo fs" and "fs_memory fs' = fs_memory fs"
    using d k by (auto split: if_splits bool.splits)
qed

text \<open>
  The store under any sequence of its operations, with any clock and any failures. The identifier
  of a new record is a \<open>uuid4\<close>, which is not one that the fallback holds.
\<close>

inductive fb_step :: "FeedbackSettings \<Rightarrow> FeedbackStore \<Rightarrow> FeedbackStore \<Rightarrow> bool" for fe where
  save: "save_result fe ck mc rid (doc_of p) fs = (r, fs') \<Longrightarrow> rid \<notin> fd_id ` set (fs_memory fs) \<Longrightarrow>
    fb_step fe fs fs'"
| recent: "recent fe ck mc limit fs = (r, fs') \<Longrightarrow> fb_step fe fs fs'"
| triage: "triage fe ck mc reread rid status note fs = (r, fs') \<Longrightarrow> fb_step fe fs fs'"
| delete: "delete fe ck mc rid fs = (r, fs') \<Longrightarrow> fb_step fe fs fs'"

inductive fb_reachable :: "FeedbackSettings \<Rightarrow> FeedbackDoc list \<Rightarrow> FeedbackStore \<Rightarrow> bool" for fe docs where
  start: "fb_reachable fe docs (new_feedback_store docs)"
| step: "fb_reachable fe docs fs \<Longrightarrow> fb_step fe fs fs' \<Longrightarrow> fb_reachable fe docs fs'"

lemma memory_append_length:
  "length (fs_memory fs) \<le> 5000 \<Longrightarrow> length (fs_memory (memory_append r fs)) \<le> 5000"
  by (rule memory_append_bound)

lemma memory_append_ids:
  assumes "distinct (map fd_id (fs_memory fs))" and "fd_id r \<notin> fd_id ` set (fs_memory fs)"
  shows "distinct (map fd_id (fs_memory (memory_append r fs)))"
proof -
  have "distinct (map fd_id (fs_memory fs @ [r]))" using assms by simp
  then have "distinct (drop n (map fd_id (fs_memory fs @ [r])))" for n by (rule distinct_drop)
  then have "distinct (map fd_id (drop n (fs_memory fs @ [r])))" for n by (simp only: drop_map)
  moreover have "fs_memory (memory_append r fs) = drop (length (fs_memory fs @ [r]) - 5000) (fs_memory fs @ [r])"
    by (simp add: memory_append_def Let_def)
  ultimately show ?thesis by (simp only:)
qed

lemma save_memory:
  assumes "save_result fe ck mc rid doc fs = (r, fs')"
  shows "fs_memory fs' = fs_memory fs \<or> fs_memory fs' = fs_memory (memory_append (doc rid (ck_now ck)) fs)"
proof -
  obtain up fs2 where g: "get_collection fe ck (emit ''feedback_received'' rid fs) = (up, fs2)"
    by fastforce
  note k = get_collection_keeps [OF g, simplified]
  show ?thesis
    using assms k by (auto simp: save_result_def Let_def g memory_append_def split: if_splits bool.splits)
qed

lemma save_mongo:
  assumes "save_result fe ck mc rid doc fs = (r, fs')"
  shows "fs_mongo fs' = fs_mongo fs \<or>
      (fs_mongo fs' = fs_mongo fs @ [doc rid (ck_now ck)] \<and> rid \<notin> fd_id ` set (fs_mongo fs))"
proof -
  obtain rid' durable where "r = (rid', durable)" by (cases r)
  with assms save_result_outcome(3,5) [of fe ck mc rid doc fs rid' durable fs'] show ?thesis
    by (cases durable) auto
qed

text \<open>Both halves of the store have identifiers as keys, and the fallback is bounded.\<close>

definition fb_ok :: "FeedbackStore \<Rightarrow> bool" where
  "fb_ok fs \<longleftrightarrow> distinct (map fd_id (fs_mongo fs)) \<and> distinct (map fd_id (fs_memory fs))
     \<and> length (fs_memory fs) \<le> 5000"

lemma fb_step_ok:
  assumes "fb_step fe fs fs'" and "fb_ok fs"
  shows "fb_ok fs'"
  using assms
proof cases
  case (save ck mc rid p r)
  have "fd_id (doc_of p rid (ck_now ck)) = rid" by (simp add: doc_of_def)
  with save_mongo [OF save(1)] save_memory [OF save(1)] assms(2) save(2)
    memory_append_ids [of fs "doc_of p rid (ck_now ck)"] memory_append_bound [of "doc_of p rid (ck_now ck)" fs]
  show ?thesis unfolding fb_ok_def by auto
next
  case (recent ck mc limit r)
  with recent_keeps [OF recent] assms(2) show ?thesis by (simp add: fb_ok_def)
next
  case (triage ck mc reread rid status nt r)
  with triage_moved [OF triage] assms(2) show ?thesis
    by (simp add: fb_ok_def moved_list_ids list_all2_lengthD [symmetric])
next
  case (delete ck mc rid r)
  with delete_parts [OF delete] assms(2) length_delete_first [of "\<lambda>r. fd_id r = rid" "fs_memory fs"]
  show ?thesis by (auto simp: fb_ok_def delete_first_ids)
qed

lemma fb_reachable_ok: "fb_reachable fe docs fs \<Longrightarrow> distinct (map fd_id docs) \<Longrightarrow> fb_ok fs"
proof (induction rule: fb_reachable.induct)
  case (step fs fs')
  then show ?case using fb_step_ok by blast
qed (simp add: new_feedback_store_def fb_ok_def)

text \<open>What one step may do to the documents of MongoDB, and to the records of the fallback.\<close>

definition lifecycle :: "FeedbackDoc list \<Rightarrow> FeedbackDoc list \<Rightarrow> bool" where
  "lifecycle docs docs' \<longleftrightarrow> (\<forall>r' \<in> set docs'.
     (\<exists>r \<in> set docs. fd_id r' = fd_id r \<and> moved r r')
     \<or> (fd_id r' \<notin> fd_id ` set docs \<and> doc_status r' = str ''new''))"

lemma lifecycle_refl: "lifecycle docs docs"
  by (auto simp: lifecycle_def)

lemma lifecycle_moved: "list_all2 moved docs docs' \<Longrightarrow> lifecycle docs docs'"
  unfolding lifecycle_def
proof
  fix r' assume "list_all2 moved docs docs'" and "r' \<in> set docs'"
  then obtain r where "r \<in> set docs" and "moved r r'" by (metis in_set_conv_nth list_all2_conv_all_nth)
  then show "(\<exists>r \<in> set docs. fd_id r' = fd_id r \<and> moved r r')
      \<or> (fd_id r' \<notin> fd_id ` set docs \<and> doc_status r' = str ''new'')"
    using moved_id by blast
qed

lemma lifecycle_subset: "set docs' \<subseteq> set docs \<Longrightarrow> lifecycle docs docs'"
  unfolding lifecycle_def by (metis moved_refl subsetD)

lemma lifecycle_new:
  "set docs' \<subseteq> insert r (set docs) \<Longrightarrow> doc_status r = str ''new'' \<Longrightarrow> fd_id r \<notin> fd_id ` set docs \<Longrightarrow>
     lifecycle docs docs'"
  unfolding lifecycle_def by (metis insertE moved_refl subsetD)

lemma memory_append_subset: "set (fs_memory (memory_append r fs)) \<subseteq> insert r (set (fs_memory fs))"
  using set_drop_subset [of "length (fs_memory fs @ [r]) - 5000" "fs_memory fs @ [r]"]
  by (auto simp: memory_append_def Let_def)

lemma fb_step_lifecycle:
  assumes "fb_step fe fs fs'"
  shows "lifecycle (fs_mongo fs) (fs_mongo fs') \<and> lifecycle (fs_memory fs) (fs_memory fs')"
  using assms
proof cases
  case (save ck mc rid p r)
  let ?d = "doc_of p rid (ck_now ck)"
  have d: "doc_status ?d = str ''new''" "fd_id ?d = rid" by (simp_all add: doc_of_def doc_status_def)
  have "lifecycle docs (docs @ [?d])" if "rid \<notin> fd_id ` set docs" for docs
    using that d by (intro lifecycle_new [of _ ?d]) auto
  with save_mongo [OF save(1)] have "lifecycle (fs_mongo fs) (fs_mongo fs')"
    by (auto intro: lifecycle_refl)
  moreover have "lifecycle (fs_memory fs) (fs_memory (memory_append ?d fs))"
    using save(2) d by (intro lifecycle_new [OF memory_append_subset]) simp_all
  with save_memory [OF save(1)] have "lifecycle (fs_memory fs) (fs_memory fs')"
    by (auto intro: lifecycle_refl)
  ultimately show ?thesis ..
next
  case (recent ck mc limit r)
  with recent_keeps [OF recent] show ?thesis by (simp add: lifecycle_refl)
next
  case (triage ck mc reread rid status nt r)
  with triage_moved [OF triage] show ?thesis by (simp add: lifecycle_moved)
next
  case (delete ck mc rid r)
  with delete_parts [OF delete] delete_first_subset [of "\<lambda>r. fd_id r = rid"]
  show ?thesis by (metis lifecycle_refl lifecycle_subset)
qed

lemma moved_terminal: "moved r r' \<Longrightarrow> doc_status r \<in> {str ''archived'', str ''spam''} \<Longrightarrow> r' = r"
  by (auto simp: moved_def allowed_from_def split: if_splits)

text \<open>An archived document or one marked as spam does not change, all others move as above.\<close>

definition reviewed_only :: "FeedbackDoc list \<Rightarrow> FeedbackDoc list \<Rightarrow> bool" where
  "reviewed_only docs docs' \<longleftrightarrow> distinct (map fd_id docs')
     \<and> (\<forall>r' \<in> set docs'. fd_id r' \<notin> fd_id ` set docs \<longrightarrow> doc_status r' = str ''new'')
     \<and> (\<forall>r \<in> set docs. \<forall>r' \<in> set docs'. fd_id r' = fd_id r \<longrightarrow>
          moved r r' \<and> (doc_status r \<in> {str ''archived'', str ''spam''} \<longrightarrow> r' = r))"

lemma lifecycle_reviewed_only:
  assumes "lifecycle docs docs'" and "distinct (map fd_id docs)" and "distinct (map fd_id docs')"
  shows "reviewed_only docs docs'"
  unfolding reviewed_only_def
proof (intro conjI ballI impI)
  show "distinct (map fd_id docs')" by (rule assms(3))
  note l = assms(1) [unfolded lifecycle_def]
  show "doc_status r' = str ''new''" if "r' \<in> set docs'" and "fd_id r' \<notin> fd_id ` set docs" for r'
    using l that by blast
  fix r r' assume r: "r \<in> set docs" "r' \<in> set docs'" "fd_id r' = fd_id r"
  with l obtain r0 where r0: "r0 \<in> set docs" "fd_id r' = fd_id r0" "moved r0 r'" by fastforce
  with assms(2) r have "r0 = r" by (auto simp: distinct_map dest: inj_onD)
  with r0 show "moved r r'" by simp
  then show "r' = r" if "doc_status r \<in> {str ''archived'', str ''spam''}" using that by (rule moved_terminal)
qed

text \<open>C20: The review lifecycle, in MongoDB and in the memory fallback alike. Whatever operations ran
  before, with whatever failures of MongoDB, identifiers stay unique in each of the two and the
  fallback stays within 5000 records; and one more operation only adds a new document in state
  "new", removes documents, or moves a document along an allowed transition with nothing but its
  review fields changed, so an archived or spam document never changes again. (New identifiers
  are random and taken to be none that the fallback already holds; MongoDB refuses those it
  holds.)\<close>

theorem feedback_lifecycle:
  assumes "fb_reachable fe docs fs" and "distinct (map fd_id docs)" and "fb_step fe fs fs'"
  shows "length (fs_memory fs') \<le> 5000
    \<and> reviewed_only (fs_mongo fs) (fs_mongo fs') \<and> reviewed_only (fs_memory fs) (fs_memory fs')"
proof -
  have ok: "fb_ok fs" by (rule fb_reachable_ok [OF assms(1,2)])
  from fb_step_ok [OF assms(3) ok] ok fb_step_lifecycle [OF assms(3)] show ?thesis
    by (simp add: fb_ok_def lifecycle_reviewed_only)
qed

section \<open>Concrete runs\<close>

definition demo_feedback_settings :: FeedbackSettings where
  "demo_feedback_settings = \<lparr>fe_mongo_uri = str ''m'', fe_require_durable = True, fe_ttl_days = 365,
     fe_admin_key = str ''k'',
     fe_turnstile = \<lparr>ts_secret = [], ts_hostname = [], ts_action = [], ts_fail_open = False\<rparr>\<rparr>"

definition demo_clock :: Clock where
  "demo_clock = \<lparr>ck_now = 5, ck_mono = 1, ck_init = True\<rparr>"

definition demo_feedback_service :: FeedbackService where
  "demo_feedback_service = \<lparr>fv_store = new_feedback_store [], fv_limiter = new_feedback_limiter 5 60 []\<rparr>"

definition demo_feedback_env :: FeedbackEnv where
  "demo_feedback_env = \<lparr>fx_clock = demo_clock, fx_redis = (False, RedisFailure), fx_answer = Unreachable,
     fx_call = Works, fx_reread = True, fx_uuid = str ''u''\<rparr>"

definition demo_feedback :: fields where
  "demo_feedback = [(str ''subject'', JStr (str ''Hi'')), (str ''body'', JStr (str ''Text''))]"

definition demo_caller :: Request where
  "demo_caller = \<lparr>rq_headers = [], rq_cookies = [], rq_host = Some (str ''h'')\<rparr>"

lemma demo_feedback_read: "feedback_request demo_foreign demo_feedback = Some
  \<lparr>fq_type = str ''general'', fq_subject = str ''Hi'', fq_body = str ''Text'', fq_email = [],
   fq_source_path = str ''/'', fq_contact_consent = False, fq_honeypot = [], fq_turnstile_token = []\<rparr>"
  by (simp add: feedback_request_def demo_feedback_def dflt_with_def req_str_def check_str_def
      dflt_str_def valid_subject_def single_line_def valid_body_def control_free_def line_breaks_def
      strip_def strip_by_def py_space_def py_simps)

theorem feedback_never_green_and_blind_witness:
  "map fd_id (fs_mongo (fv_store (snd (post_feedback demo_foreign demo_feedback_settings False
     demo_feedback_env demo_caller demo_feedback demo_feedback_service)))) = [str ''u'']"
proof -
  obtain sv' where p: "post_feedback demo_foreign demo_feedback_settings False demo_feedback_env demo_caller
      demo_feedback demo_feedback_service
      = (Inr (Taken \<lparr>fr_id = Some (str ''u''), fr_status = str ''stored''\<rparr>), sv')"
    by (simp add: post_feedback_def demo_feedback_read demo_caller_def demo_feedback_service_def
        demo_feedback_env_def demo_clock_def demo_feedback_settings_def new_feedback_limiter_def
        new_limiter_def limiter_allow_def get_redis_def mem_verdict_def sw_allow_def sw_queue_def
        new_window_def verify_turnstile_def hbind_def hlift_def wiki_http_def take_feedback_def
        save_result_def get_collection_def new_feedback_store_def is_open_def new_breaker_def
        emit_def client_key_def Let_def)
  from feedback_never_green_and_blind [OF p] p show ?thesis
    by (auto simp: demo_feedback_service_def new_feedback_store_def doc_of_def Let_def)
qed

definition demo_doc :: "pystr \<Rightarrow> FeedbackDoc" where
  "demo_doc status = \<lparr>fd_id = str ''u'', fd_created_at = 0, fd_type = str ''bug'', fd_subject = str ''s'',
     fd_body = str ''b'', fd_email = [], fd_source_path = str ''/'', fd_contact_consent = False,
     fd_status = Some status, fd_operator_note = None, fd_reviewed_at = None\<rparr>"

theorem feedback_lifecycle_witness:
  "fs_mongo (snd (triage demo_feedback_settings demo_clock Works True (str ''u'') (str ''reviewed'') []
     (new_feedback_store [demo_doc (str ''archived'')]))) = [demo_doc (str ''archived'')]"
proof -
  let ?fs = "new_feedback_store [demo_doc (str ''archived'')]"
  obtain r fs' where t: "triage demo_feedback_settings demo_clock Works True (str ''u'') (str ''reviewed'') [] ?fs
      = (r, fs')" by fastforce
  note th = feedback_lifecycle [OF fb_reachable.start _ fb_step.triage [OF t]]
  have "map fd_id (fs_mongo fs') = [str ''u'']"
    using moved_list_ids [OF triage_moved(1) [OF t]] by (simp add: new_feedback_store_def demo_doc_def)
  with th t show ?thesis
    by (auto simp: reviewed_only_def new_feedback_store_def demo_doc_def doc_status_def)
qed

end
