(* ===== verification/Ontology.thy ===== *)
theory Ontology
  imports Handler WikiSecurity
begin

text \<open>
  The contract of the ontology snapshot, \<open>src/app/ontology.py\<close>: the allowed and required
  fields of every record, the private material that may not occur, the cardinalities, the
  invariants of the roster and the topology of the relationships, as the validator checks them,
  in its order. A snapshot is the parsed JSON document. An error carries the words of its message
  and the path, without the \<open>repr\<close> of what was found. Case folding is an argument.
\<close>

section \<open>The public contract\<close>

definition SCHEMA_VERSION :: "pystr" where
  "SCHEMA_VERSION = str ''metahumotonic-public-graph/v1''"

definition PROJECTION_ID :: "pystr" where
  "PROJECTION_ID = str ''metahumotonic-public-graph-v1-2026-08-30''"

definition RELEASE_STATE :: "pystr" where
  "RELEASE_STATE = str ''ACTIVE_INTERNAL_CONFLICT_AWARE''"

definition PUBLICATION_STATUS :: "pystr" where
  "PUBLICATION_STATUS = str ''INTERNAL_ONLY''"

definition COLLECTION_KINDS :: "(pystr \<times> pystr) list" where
  "COLLECTION_KINDS = [
     (str ''axioms'', str ''axiom''),
     (str ''apostles'', str ''apostle''),
     (str ''legion_commanders'', str ''legion_commander''),
     (str ''omc_commanders'', str ''omc_commander''),
     (str ''phases'', str ''phase''),
     (str ''structural_patterns'', str ''structural_pattern'')]"

definition EXPECTED_CARDINALITIES :: "(pystr \<times> nat) list" where
  "EXPECTED_CARDINALITIES = [
     (str ''axioms'', 12),
     (str ''apostles'', 12),
     (str ''legion_commanders'', 7),
     (str ''omc_commanders'', 6),
     (str ''phases'', 2),
     (str ''structural_patterns'', 4)]"

definition OMC_COMMANDERS :: "pystr list" where
  "OMC_COMMANDERS = [str ''333'', str ''CHU'', str ''CRL'', str ''engineboy'', str ''orrr'', str ''HSWM'']"

definition axioms_allowed :: "pystr list" where
  "axioms_allowed = [str ''binding_state'', str ''body_policy'', str ''canonical_name'', str ''content_authority'',
     str ''definition'', str ''identity_authority'', str ''position'', str ''public_id'',
     str ''status'']"

definition apostles_allowed :: "pystr list" where
  "apostles_allowed = [str ''body_policy'', str ''candidates'', str ''entity'', str ''position'', str ''public_id'',
     str ''selection_state'', str ''structural_group'']"

definition legion_commanders_allowed :: "pystr list" where
  "legion_commanders_allowed = [str ''aliases'', str ''binding_state'', str ''canonical_name'', str ''identity_rule'',
     str ''position'', str ''public_id'', str ''status'', str ''verb'']"

definition omc_commanders_allowed :: "pystr list" where
  "omc_commanders_allowed = [str ''binding_state'', str ''canonical_name'', str ''public_id'', str ''scope_note'',
     str ''status'']"

definition phases_allowed :: "pystr list" where
  "phases_allowed = [str ''binding_state'', str ''body_policy'', str ''canonical_name'', str ''content_authority'',
     str ''public_id'', str ''status'']"

definition structural_patterns_allowed :: "pystr list" where
  "structural_patterns_allowed = [str ''binding_state'', str ''body_policy'', str ''canonical_name'', str ''public_id'',
     str ''status'']"

definition collection_allowed_keys :: "pystr \<Rightarrow> pystr list" where
  "collection_allowed_keys name =
     (if name = str ''axioms'' then axioms_allowed
      else if name = str ''apostles'' then apostles_allowed
      else if name = str ''legion_commanders'' then legion_commanders_allowed
      else if name = str ''omc_commanders'' then omc_commanders_allowed
      else if name = str ''phases'' then phases_allowed
      else if name = str ''structural_patterns'' then structural_patterns_allowed
      else [])"

definition collection_required_keys :: "pystr \<Rightarrow> pystr list" where
  "collection_required_keys name =
     (if name = str ''axioms'' then axioms_allowed
      else if name = str ''apostles'' then [str ''entity'', str ''position'', str ''public_id'', str ''selection_state'',
     str ''structural_group'']
      else if name = str ''legion_commanders'' then [str ''binding_state'', str ''canonical_name'', str ''position'', str ''public_id'',
     str ''status'', str ''verb'']
      else if name = str ''omc_commanders'' then [str ''binding_state'', str ''canonical_name'', str ''public_id'', str ''status'']
      else if name = str ''phases'' then phases_allowed
      else if name = str ''structural_patterns'' then structural_patterns_allowed
      else [])"

definition apostle_entity_allowed :: "pystr list" where
  "apostle_entity_allowed = [str ''aliases'', str ''binding_state'', str ''body_policy'', str ''canonical_abbreviation'',
     str ''canonical_name'', str ''content_authority'', str ''identity_authority'']"

definition apostle_entity_required :: "pystr list" where
  "apostle_entity_required = filter (\<lambda>k. k \<noteq> str ''canonical_abbreviation'') apostle_entity_allowed"

definition candidate_keys :: "pystr list" where
  "candidate_keys = [str ''authority'', str ''binding_state'', str ''candidate_id'', str ''canonical_name'',
     str ''default_servable'']"

definition relationship_keys :: "pystr list" where
  "relationship_keys = [str ''authority'', str ''from_public_id'', str ''predicate'', str ''relationship_id'',
     str ''status'', str ''to_public_id'']"

definition conflict_allowed :: "pystr list" where
  "conflict_allowed = [str ''conflict_id'', str ''detail'', str ''expected'', str ''observed'',
     str ''selected_candidate'', str ''severity'', str ''status'', str ''subject_public_id'',
     str ''subject_scope'']"

definition conflict_required :: "pystr list" where
  "conflict_required = [str ''conflict_id'', str ''detail'', str ''severity'', str ''status'']"

definition forbidden_keys :: "pystr list" where
  "forbidden_keys = [str ''cypher'', str ''exact_text'', str ''kg_label'', str ''kg_labels'', str ''kg_uid'',
     str ''raw_cypher'', str ''source_file'', str ''source_path'', str ''source_paths'',
     str ''stable_ref'', str ''stable_refs'', str ''user_request_sha256'',
     str ''user_utterance'', str ''verification_path'', str ''verification_paths'']"

definition forbidden_markers :: "pystr list" where
  "forbidden_markers = [str ''/home/'', str ''/users/'', str ''bolt://'', str ''file://'', str ''neo4j://'',
     str ''sym:'']"

definition EXPECTED_RELATIONSHIPS :: nat where
  "EXPECTED_RELATIONSHIPS = 15"

definition EXPECTED_CONFLICTS :: nat where
  "EXPECTED_CONFLICTS = 8"

text \<open>\<open>^mtg1-[a-f0-9]{16}$\<close> and \<open>^[a-f0-9]{64}$\<close> with \<open>fullmatch\<close>\<close>

definition PUBLIC_ID_RE :: "pystr \<Rightarrow> bool" where
  "PUBLIC_ID_RE s \<longleftrightarrow> startswith s (str ''mtg1-'') \<and> length s = 21 \<and> list_all is_hex_char (drop 5 s)"

definition SHA256_RE :: "pystr \<Rightarrow> bool" where
  "SHA256_RE s \<longleftrightarrow> length s = 64 \<and> list_all is_hex_char s"

section \<open>Errors\<close>

text \<open>\<open>OntologyCursorError\<close> is a \<open>ValueError\<close>; the last constructor is any other exception.\<close>

datatype onto_exn =
    OntologyProjectionError pystr pystr
  | OntologyCursorError pystr
  | OntologyConflictPending "(pystr, json) pydict"
  | OntologyValueError pystr
  | OntologyOther wiki_exn

definition demand :: "bool \<Rightarrow> 'e \<Rightarrow> 'e + unit" where
  "demand b e = (if b then Inr () else Inl e)"

definition projection_error :: "string \<Rightarrow> pystr \<Rightarrow> onto_exn" where
  "projection_error msg path = OntologyProjectionError (str msg) path"

text \<open>\<open>d.get(k)\<close>\<close>

definition get :: "(pystr, json) pydict \<Rightarrow> string \<Rightarrow> json" where
  "get d k = get_default d (str k) JNull"

definition subscript :: "(pystr, json) pydict \<Rightarrow> string \<Rightarrow> onto_exn + json" where
  "subscript d k = (case dict_get d (str k) of None \<Rightarrow> Inl (OntologyOther (PyKeyError (str k))) | Some v \<Rightarrow> Inr v)"

definition index_path :: "pystr \<Rightarrow> nat \<Rightarrow> pystr" where
  "index_path path i = path @ 91 # nat_dec i @ [93]"

definition field_path :: "pystr \<Rightarrow> pystr \<Rightarrow> pystr" where
  "field_path path k = path @ 46 # k"

section \<open>Private material\<close>

fun no_private :: "(pystr \<Rightarrow> pystr) \<Rightarrow> pystr \<Rightarrow> json \<Rightarrow> onto_exn + unit"
  and no_private_fields :: "(pystr \<Rightarrow> pystr) \<Rightarrow> pystr \<Rightarrow> (pystr \<times> json) list \<Rightarrow> onto_exn + unit"
  and no_private_items :: "(pystr \<Rightarrow> pystr) \<Rightarrow> pystr \<Rightarrow> nat \<Rightarrow> json list \<Rightarrow> onto_exn + unit" where
  "no_private casefold path (JObj kvs) = no_private_fields casefold path kvs"
| "no_private casefold path (JList xs) = no_private_items casefold path 0 xs"
| "no_private casefold path (JStr s) =
     demand (\<not> (\<exists>m \<in> set forbidden_markers. contains m (casefold s)))
       (projection_error ''snapshot contains forbidden private string marker'' path)"
| "no_private casefold path JNull = Inr ()"
| "no_private casefold path (JBool b) = Inr ()"
| "no_private casefold path (JInt i) = Inr ()"
| "no_private casefold path (JFloat t) = Inr ()"
| "no_private_fields casefold path [] = Inr ()"
| "no_private_fields casefold path ((k, v) # kvs) =
     (if casefold k \<in> set forbidden_keys
      then Inl (projection_error ''snapshot contains forbidden private field'' path)
      else if endswith (casefold k) (str ''sha256'') \<and> casefold k \<noteq> str ''content_sha256''
      then Inl (projection_error ''snapshot contains forbidden digest field'' path)
      else bind_res (no_private casefold (field_path path k) v) (\<lambda>_. no_private_fields casefold path kvs))"
| "no_private_items casefold path i [] = Inr ()"
| "no_private_items casefold path i (x # xs) =
     bind_res (no_private casefold (index_path path i) x) (\<lambda>_. no_private_items casefold path (Suc i) xs)"

section \<open>Shapes\<close>

definition require_mapping :: "json \<Rightarrow> pystr \<Rightarrow> onto_exn + (pystr, json) pydict" where
  "require_mapping j path = (case j of JObj d \<Rightarrow> Inr d | _ \<Rightarrow> Inl (projection_error ''expected object'' path))"

definition require_list :: "json \<Rightarrow> pystr \<Rightarrow> onto_exn + json list" where
  "require_list j path = (case j of JList xs \<Rightarrow> Inr xs | _ \<Rightarrow> Inl (projection_error ''expected array'' path))"

definition is_text :: "json \<Rightarrow> bool" where
  "is_text j = (case j of JStr s \<Rightarrow> strip s \<noteq> [] | _ \<Rightarrow> False)"

definition require_text :: "json \<Rightarrow> pystr \<Rightarrow> onto_exn + pystr" where
  "require_text j path = (case j of
     JStr s \<Rightarrow> if strip s \<noteq> [] then Inr s else Inl (projection_error ''expected non-empty text'' path)
   | _ \<Rightarrow> Inl (projection_error ''expected non-empty text'' path))"

definition validate_keys ::
  "(pystr, json) pydict \<Rightarrow> pystr list \<Rightarrow> pystr list \<Rightarrow> pystr \<Rightarrow> onto_exn + unit" where
  "validate_keys d allowed required path =
     (if \<not> set (dict_keys d) \<subseteq> set allowed
      then Inl (projection_error ''unexpected public DTO field(s)'' path)
      else demand (set required \<subseteq> set (dict_keys d))
             (projection_error ''missing public DTO field(s)'' path))"

definition validate_aliases :: "json \<Rightarrow> pystr \<Rightarrow> onto_exn + unit" where
  "validate_aliases j path =
     bind_res (require_list j path) (\<lambda>aliases.
     bind_res (demand (list_all is_text aliases)
       (projection_error ''aliases must contain only non-empty text'' path)) (\<lambda>_.
     demand (distinct aliases) (projection_error ''aliases must be unique'' path)))"

fun each_at :: "(pystr \<Rightarrow> 'a \<Rightarrow> 'e + unit) \<Rightarrow> pystr \<Rightarrow> nat \<Rightarrow> 'a list \<Rightarrow> 'e + unit" where
  "each_at f path i [] = Inr ()"
| "each_at f path i (x # xs) = bind_res (f (index_path path i) x) (\<lambda>_. each_at f path (Suc i) xs)"

definition validate_texts :: "(pystr, json) pydict \<Rightarrow> pystr \<Rightarrow> pystr list \<Rightarrow> onto_exn + unit" where
  "validate_texts d path ks =
     bind_res (map_res (\<lambda>k. require_text (get_default d k JNull) (field_path path k)) ks) (\<lambda>_. Inr ())"

definition validate_candidate :: "pystr \<Rightarrow> json \<Rightarrow> onto_exn + unit" where
  "validate_candidate path raw =
     bind_res (require_mapping raw path) (\<lambda>candidate.
     bind_res (validate_keys candidate candidate_keys candidate_keys path) (\<lambda>_.
     validate_texts candidate path (filter (\<lambda>k. k \<noteq> str ''default_servable'') candidate_keys)))"

definition validate_entity :: "pystr \<Rightarrow> json \<Rightarrow> onto_exn + unit" where
  "validate_entity path j =
     (if j = JNull then Inr () else
     bind_res (require_mapping j path) (\<lambda>entity.
     bind_res (validate_keys entity apostle_entity_allowed apostle_entity_required path) (\<lambda>_.
     bind_res (require_text (get entity ''canonical_name'') (field_path path (str ''canonical_name''))) (\<lambda>_.
     validate_aliases (get entity ''aliases'') (field_path path (str ''aliases''))))))"

definition validate_apostle :: "pystr \<Rightarrow> (pystr, json) pydict \<Rightarrow> onto_exn + unit" where
  "validate_apostle path r =
     bind_res (validate_entity (field_path path (str ''entity'')) (get r ''entity'')) (\<lambda>_.
     case dict_get r (str ''candidates'') of
       None \<Rightarrow> Inr ()
     | Some j \<Rightarrow>
         (let p = field_path path (str ''candidates'') in
          bind_res (require_list j p) (\<lambda>cs. each_at validate_candidate p 0 cs)))"

text \<open>One record of a collection; \<open>seen\<close> are the identifiers of the records before it.\<close>

definition validate_record ::
  "pystr \<Rightarrow> pystr \<Rightarrow> pystr list \<Rightarrow> json \<Rightarrow> onto_exn + (pystr list \<times> (pystr, json) pydict)" where
  "validate_record name path seen raw =
     bind_res (require_mapping raw path) (\<lambda>r.
     bind_res (validate_keys r (collection_allowed_keys name) (collection_required_keys name) path) (\<lambda>_.
     bind_res (require_text (get r ''public_id'') (field_path path (str ''public_id''))) (\<lambda>pid.
     bind_res (demand (PUBLIC_ID_RE pid) (projection_error ''invalid opaque public ID in collection'' name)) (\<lambda>_.
     bind_res (demand (pid \<notin> set seen) (projection_error ''duplicate ontology public ID'' [])) (\<lambda>_.
     bind_res (if name = str ''apostles'' then Inr ()
               else bind_res (require_text (get r ''canonical_name'')
                                (field_path path (str ''canonical_name''))) (\<lambda>_. Inr ())) (\<lambda>_.
     bind_res (case dict_get r (str ''aliases'') of None \<Rightarrow> Inr ()
               | Some j \<Rightarrow> validate_aliases j (field_path path (str ''aliases''))) (\<lambda>_.
     bind_res (if name = str ''apostles'' then validate_apostle path r else Inr ()) (\<lambda>_.
     Inr (pid # seen, r)))))))))"

fun validate_records ::
  "pystr \<Rightarrow> pystr \<Rightarrow> nat \<Rightarrow> pystr list \<Rightarrow> json list
   \<Rightarrow> onto_exn + (pystr list \<times> (pystr, json) pydict list)" where
  "validate_records name path i seen [] = Inr (seen, [])"
| "validate_records name path i seen (x # xs) =
     bind_res (validate_record name (index_path path i) seen x) (\<lambda>(seen', r).
     bind_res (validate_records name path (Suc i) seen' xs) (\<lambda>(seen'', rs). Inr (seen'', r # rs)))"

type_synonym Collections = "(pystr \<times> (pystr, json) pydict list) list"

fun validate_collections ::
  "(pystr, json) pydict \<Rightarrow> pystr list \<Rightarrow> (pystr \<times> nat) list \<Rightarrow> onto_exn + (pystr list \<times> Collections)" where
  "validate_collections cs seen [] = Inr (seen, [])"
| "validate_collections cs seen ((name, n) # rest) =
     (let path = str ''$.data.collections.'' @ name in
     bind_res (require_list (get_default cs name JNull) path) (\<lambda>records.
     bind_res (demand (length records = n) (projection_error ''ontology cardinality mismatch'' name)) (\<lambda>_.
     bind_res (validate_records name path 0 seen records) (\<lambda>(seen', rs).
     bind_res (validate_collections cs seen' rest) (\<lambda>(seen'', rss). Inr (seen'', (name, rs) # rss))))))"

definition collection :: "Collections \<Rightarrow> string \<Rightarrow> (pystr, json) pydict list" where
  "collection cs name = (case dict_get cs (str name) of None \<Rightarrow> [] | Some rs \<Rightarrow> rs)"

section \<open>Invariants of the roster\<close>

definition int_position :: "(pystr, json) pydict \<Rightarrow> int option" where
  "int_position r = (case get r ''position'' of JInt i \<Rightarrow> Some i | _ \<Rightarrow> None)"

text \<open>Integers that are, sorted, one to \<open>n\<close>\<close>

definition positions_ok :: "int \<Rightarrow> (pystr, json) pydict list \<Rightarrow> bool" where
  "positions_ok n rs \<longleftrightarrow> (\<forall>r \<in> set rs. int_position r \<noteq> None)
     \<and> sort (map (\<lambda>r. the (int_position r)) rs) = [1..n]"

definition is_mapping :: "json \<Rightarrow> bool" where
  "is_mapping j = (case j of JObj _ \<Rightarrow> True | _ \<Rightarrow> False)"

definition has_key :: "(pystr, json) pydict \<Rightarrow> string \<Rightarrow> bool" where
  "has_key d k \<longleftrightarrow> dict_get d (str k) \<noteq> None"

definition has_text :: "(pystr, json) pydict \<Rightarrow> string \<Rightarrow> pystr \<Rightarrow> bool" where
  "has_text d k s \<longleftrightarrow> get d k = JStr s"

definition roster_error :: "string \<Rightarrow> onto_exn" where
  "roster_error msg = projection_error msg []"

definition selected_slot :: "(pystr, json) pydict \<Rightarrow> onto_exn + unit" where
  "selected_slot r =
     (if int_position r = Some 9 then Inr ()
      else if \<not> has_text r ''selection_state'' (str ''SELECTED'')
      then Inl (roster_error ''only apostle slot 9 may be conflict-pending; every other slot must be SELECTED'')
      else if \<not> is_mapping (get r ''entity'')
      then Inl (roster_error ''selected apostle slots must contain an entity'')
      else demand (\<not> has_key r ''candidates'')
             (roster_error ''selected apostle slots must not include candidates''))"

definition at_position :: "int \<Rightarrow> (pystr, json) pydict list \<Rightarrow> onto_exn + (pystr, json) pydict" where
  "at_position n rs = (case find (\<lambda>r. int_position r = Some n) rs of
     None \<Rightarrow> Inl (OntologyOther (PyRuntimeError (str ''StopIteration''))) | Some r \<Rightarrow> Inr r)"

definition name_cloud :: pystr where
  "name_cloud = [51077, 52404, 50868, 54665, 44396, 47492]"

definition name_jesus :: pystr where
  "name_jesus = [50696, 49688]"

definition name_aten :: pystr where
  "name_aten = [44160, 51008, 32, 53468, 50577, 49888, 32, 50500, 53584]"

definition name_void :: pystr where
  "name_void = [44277, 54728, 51652, 46041, 51088]"

definition slot8_ok :: "(pystr, json) pydict list \<Rightarrow> onto_exn + unit" where
  "slot8_ok apostles =
     bind_res (at_position 8 apostles) (\<lambda>slot8.
     bind_res (require_mapping (get slot8 ''entity'') (str ''apostle slot 8 entity'')) (\<lambda>e.
     bind_res (demand (has_text e ''canonical_name'' name_cloud) (roster_error ''apostle slot 8 name'')) (\<lambda>_.
     bind_res (demand (has_text e ''canonical_abbreviation'' (str ''OMC''))
       (roster_error ''OMC must be the canonical abbreviation'')) (\<lambda>_.
     demand (case get e ''aliases'' of
         JList xs \<Rightarrow> JStr (str ''OMC'') \<in> set xs \<and> JStr (str ''OM'') \<notin> set xs | _ \<Rightarrow> False)
       (roster_error ''OMC aliases violate the OM exclusion rule'')))))"

definition as_mapping :: "json \<Rightarrow> onto_exn + (pystr, json) pydict" where
  "as_mapping j = (case j of JObj d \<Rightarrow> Inr d | _ \<Rightarrow> Inl (OntologyOther (PyAttributeError (str ''get''))))"

definition slot9_ok :: "(pystr, json) pydict list \<Rightarrow> onto_exn + unit" where
  "slot9_ok apostles =
     bind_res (at_position 9 apostles) (\<lambda>slot9.
     bind_res (demand (has_text slot9 ''selection_state'' (str ''CONFLICT_PENDING''))
       (roster_error ''apostle slot 9 must remain conflict-pending'')) (\<lambda>_.
     bind_res (demand (get slot9 ''entity'' = JNull \<and> has_text slot9 ''body_policy'' (str ''NO_DEFAULT''))
       (roster_error ''apostle slot 9 must not select a default entity'')) (\<lambda>_.
     bind_res (require_list (get slot9 ''candidates'') (str ''apostle slot 9 candidates'')) (\<lambda>raw.
     bind_res (demand (length raw = 2) (roster_error ''apostle slot 9 must have exactly two candidates'')) (\<lambda>_.
     bind_res (map_res as_mapping raw) (\<lambda>cs.
     bind_res (demand (distinct (map (\<lambda>c. get c ''candidate_id'') cs))
       (roster_error ''apostle slot 9 candidate IDs must be unique'')) (\<lambda>_.
     bind_res (demand (distinct (map (\<lambda>c. get c ''canonical_name'') cs))
       (roster_error ''apostle slot 9 candidate names must be unique'')) (\<lambda>_.
     bind_res (demand (set (map (\<lambda>c. get c ''canonical_name'') cs) = {JStr name_jesus, JStr name_aten})
       (roster_error ''apostle slot 9 candidate set mismatch'')) (\<lambda>_.
     demand (\<forall>c \<in> set cs. get c ''default_servable'' = JBool False)
       (roster_error ''apostle slot 9 candidates must not be default-served''))))))))))"

definition harness_ok :: "(pystr, json) pydict list \<Rightarrow> onto_exn + unit" where
  "harness_ok commanders =
     (let harness = filter (\<lambda>r. has_text r ''canonical_name'' (str ''Harness'')) commanders in
      if length harness \<noteq> 1 \<or> \<not> has_text (hd harness) ''identity_rule'' (str ''ONE_ENTITY_ONE_SLOT'')
      then Inl (roster_error ''Harness/Hades must occupy one commander slot'')
      else if \<exists>r \<in> set commanders. has_text r ''canonical_name'' (str ''Hades'')
      then Inl (roster_error ''Hades must not be a second commander entity'')
      else demand (case get (hd harness) ''aliases'' of JList xs \<Rightarrow> JStr (str ''Hades'') \<in> set xs | _ \<Rightarrow> False)
             (roster_error ''Harness must preserve Hades as an alias''))"

definition omc_ok :: "(pystr \<Rightarrow> pystr) \<Rightarrow> (pystr, json) pydict list \<Rightarrow> onto_exn + unit" where
  "omc_ok casefold commanders =
     bind_res (demand (set (map (\<lambda>r. get r ''canonical_name'') commanders) = JStr ` set OMC_COMMANDERS)
       (roster_error ''OMC commander roster mismatch'')) (\<lambda>_.
     case find (\<lambda>r. has_text r ''canonical_name'' (str ''HSWM'')) commanders of
       None \<Rightarrow> Inl (OntologyOther (PyRuntimeError (str ''StopIteration'')))
     | Some hswm \<Rightarrow>
         demand (case get hswm ''scope_note'' of
             JStr s \<Rightarrow> contains (str ''implementation'') (casefold s) \<and> contains (str ''not a claim'') (casefold s)
           | _ \<Rightarrow> False)
           (roster_error ''HSWM must be scoped as identity, not implementation completeness''))"

definition validate_domain_invariants :: "(pystr \<Rightarrow> pystr) \<Rightarrow> Collections \<Rightarrow> onto_exn + unit" where
  "validate_domain_invariants casefold cs =
     (let apostles = collection cs ''apostles'' in
     bind_res (demand (\<forall>r \<in> set apostles. int_position r \<noteq> None)
       (roster_error ''apostle positions must be integers'')) (\<lambda>_.
     bind_res (demand (positions_ok 12 apostles)
       (roster_error ''apostle positions must be exactly 1 through 12'')) (\<lambda>_.
     bind_res (map_res selected_slot apostles) (\<lambda>_.
     bind_res (demand (positions_ok 12 (collection cs ''axioms''))
       (roster_error ''axiom positions must be exactly 1 through 12'')) (\<lambda>_.
     bind_res (demand (positions_ok 7 (collection cs ''legion_commanders''))
       (roster_error ''legion commander positions must be exactly 1 through 7'')) (\<lambda>_.
     bind_res (slot8_ok apostles) (\<lambda>_.
     bind_res (slot9_ok apostles) (\<lambda>_.
     bind_res (harness_ok (collection cs ''legion_commanders'')) (\<lambda>_.
     omc_ok casefold (collection cs ''omc_commanders''))))))))))"

section \<open>Relationships and conflicts\<close>

type_synonym Edge = "(pystr, json) pydict"

definition with_predicate :: "string \<Rightarrow> Edge list \<Rightarrow> Edge list" where
  "with_predicate p es = filter (\<lambda>e. has_text e ''predicate'' (str p)) es"

definition star_topology ::
  "Edge list \<Rightarrow> nat \<Rightarrow> json \<Rightarrow> json set \<Rightarrow> string \<Rightarrow> bool" where
  "star_topology edges n source targets authority \<longleftrightarrow>
     length edges = n \<and> set (map (\<lambda>e. get e ''from_public_id'') edges) = {source}
     \<and> set (map (\<lambda>e. get e ''to_public_id'') edges) = targets
     \<and> (\<forall>e \<in> set edges. has_text e ''authority'' (str authority) \<and> has_text e ''status'' (str ''ACTIVE''))"

definition phase_policy :: "json \<Rightarrow> (string \<times> string) option" where
  "phase_policy name =
     (if name = JStr name_void then Some (''USER_PRIMARY'', ''PROJECTED_FROM_USER_SOURCE'')
      else if name = JStr name_aten then Some (''PROJECT_CANON'', ''PROJECTED_FROM_PROJECT_CANON'')
      else None)"

text \<open>Of two edges with one source the later one is in the dictionary.\<close>

definition phase_edge_ok :: "Edge list \<Rightarrow> json \<Rightarrow> (pystr, json) pydict \<Rightarrow> bool" where
  "phase_edge_ok edges target phase \<longleftrightarrow>
     (case find (\<lambda>e. get e ''from_public_id'' = get phase ''public_id'') (rev edges) of
        None \<Rightarrow> False
      | Some e \<Rightarrow>
          (case phase_policy (get phase ''canonical_name'') of
             None \<Rightarrow> False
           | Some (authority, status) \<Rightarrow> get e ''to_public_id'' = target
               \<and> has_text e ''authority'' (str authority) \<and> has_text e ''status'' (str status)))"

definition validate_relationship_invariants :: "Collections \<Rightarrow> Edge list \<Rightarrow> onto_exn + unit" where
  "validate_relationship_invariants cs edges =
     (let apostles = collection cs ''apostles''; ids = (\<lambda>name. set (map (\<lambda>r. get r ''public_id'') (collection cs name)))
      in
     bind_res (demand (set (map (\<lambda>e. get e ''predicate'') edges)
         = {JStr (str ''COMMANDS_LEGION''), JStr (str ''HAS_DIRECT_COMMANDER''), JStr (str ''PHASE_OF'')})
       (roster_error ''ontology relationship predicate set mismatch'')) (\<lambda>_.
     bind_res (at_position 4 apostles) (\<lambda>a4.
     bind_res (demand (star_topology (with_predicate ''COMMANDS_LEGION'' edges) 7 (get a4 ''public_id'')
         (ids ''legion_commanders'') ''PROJECT_CANON_WITH_USER_VERDICT'')
       (roster_error ''apostle 4 to legion commander topology mismatch'')) (\<lambda>_.
     bind_res (at_position 8 apostles) (\<lambda>a8.
     bind_res (demand (star_topology (with_predicate ''HAS_DIRECT_COMMANDER'' edges) 6 (get a8 ''public_id'')
         (ids ''omc_commanders'') ''USER_PRIMARY'')
       (roster_error ''OMC to direct commander topology mismatch'')) (\<lambda>_.
     bind_res (at_position 10 apostles) (\<lambda>a10.
     let phase_edges = with_predicate ''PHASE_OF'' edges in
     bind_res (demand (length phase_edges = 2) (roster_error ''phase topology cardinality mismatch'')) (\<lambda>_.
     bind_res (demand (card (set (map (\<lambda>e. get e ''from_public_id'') phase_edges)) = 2)
       (roster_error ''phase topology has duplicate source'')) (\<lambda>_.
     demand (\<forall>p \<in> set (collection cs ''phases''). phase_edge_ok phase_edges (get a10 ''public_id'') p)
       (roster_error ''phase to apostle 10 topology mismatch''))))))))))"

text \<open>\<open>x in ids\<close> for a set of strings: a list or an object is not hashable.\<close>

definition in_ids :: "json \<Rightarrow> pystr list \<Rightarrow> onto_exn + bool" where
  "in_ids j ids = (case j of
     JStr s \<Rightarrow> Inr (s \<in> set ids)
   | JList _ \<Rightarrow> Inl (OntologyOther (PyTypeError (str ''unhashable type'')))
   | JObj _ \<Rightarrow> Inl (OntologyOther (PyTypeError (str ''unhashable type'')))
   | _ \<Rightarrow> Inr False)"

definition validate_relationship ::
  "pystr list \<Rightarrow> pystr list \<Rightarrow> pystr \<Rightarrow> json \<Rightarrow> onto_exn + (pystr list \<times> Edge)" where
  "validate_relationship public_ids seen path raw =
     bind_res (require_mapping raw path) (\<lambda>e.
     bind_res (validate_keys e relationship_keys relationship_keys path) (\<lambda>_.
     bind_res (require_text (get e ''relationship_id'') (field_path path (str ''relationship_id''))) (\<lambda>rid.
     bind_res (demand (rid \<notin> set seen) (roster_error ''duplicate ontology relationship ID'')) (\<lambda>_.
     bind_res (validate_texts e path [str ''predicate'', str ''authority'', str ''status'']) (\<lambda>_.
     bind_res (in_ids (get e ''from_public_id'') public_ids) (\<lambda>a.
     bind_res (demand a (roster_error ''ontology relationship has unknown from_public_id'')) (\<lambda>_.
     bind_res (in_ids (get e ''to_public_id'') public_ids) (\<lambda>b.
     bind_res (demand b (roster_error ''ontology relationship has unknown to_public_id'')) (\<lambda>_.
     Inr (rid # seen, e))))))))))"

definition validate_conflict ::
  "pystr list \<Rightarrow> pystr list \<Rightarrow> pystr \<Rightarrow> json \<Rightarrow> onto_exn + (pystr list \<times> (pystr, json) pydict)" where
  "validate_conflict public_ids seen path raw =
     bind_res (require_mapping raw path) (\<lambda>c.
     bind_res (validate_keys c conflict_allowed conflict_required path) (\<lambda>_.
     bind_res (require_text (get c ''conflict_id'') (field_path path (str ''conflict_id''))) (\<lambda>cid.
     bind_res (demand (cid \<notin> set seen) (roster_error ''duplicate ontology conflict ID'')) (\<lambda>_.
     bind_res (validate_texts c path [str ''detail'', str ''severity'', str ''status'']) (\<lambda>_.
     bind_res (demand (has_key c ''subject_public_id'' \<noteq> has_key c ''subject_scope'')
       (roster_error ''ontology conflict must have exactly one subject reference'')) (\<lambda>_.
     bind_res (if get c ''subject_public_id'' = JNull then Inr True
               else in_ids (get c ''subject_public_id'') public_ids) (\<lambda>known.
     bind_res (demand known (roster_error ''ontology conflict has unknown subject'')) (\<lambda>_.
     Inr (cid # seen, c)))))))))"

fun validate_all ::
  "(pystr list \<Rightarrow> pystr \<Rightarrow> json \<Rightarrow> onto_exn + (pystr list \<times> (pystr, json) pydict))
   \<Rightarrow> pystr \<Rightarrow> nat \<Rightarrow> pystr list \<Rightarrow> json list \<Rightarrow> onto_exn + (pystr, json) pydict list" where
  "validate_all f path i seen [] = Inr []"
| "validate_all f path i seen (x # xs) =
     bind_res (f seen (index_path path i) x) (\<lambda>(seen', r).
     bind_res (validate_all f path (Suc i) seen' xs) (\<lambda>rs. Inr (r # rs)))"

section \<open>The snapshot\<close>

definition expected_meta :: "pystr \<Rightarrow> (pystr, json) pydict" where
  "expected_meta content_sha256 =
     [(str ''schema_version'', JStr SCHEMA_VERSION), (str ''projection_id'', JStr PROJECTION_ID),
      (str ''release_state'', JStr RELEASE_STATE), (str ''publication_status'', JStr PUBLICATION_STATUS),
      (str ''content_sha256'', JStr content_sha256)]"

definition same_dict :: "('k, 'v) pydict \<Rightarrow> ('k, 'v) pydict \<Rightarrow> bool" where
  "same_dict d e \<longleftrightarrow> set (dict_keys d) = set (dict_keys e) \<and> (\<forall>k \<in> set (dict_keys d). dict_get d k = dict_get e k)"

text \<open>What validation looked at: the metadata, the collections, the relationships, the conflicts.\<close>

record Snapshot =
  sn_meta :: "(pystr, json) pydict"
  sn_collections :: Collections
  sn_relationships :: "Edge list"
  sn_conflicts :: "(pystr, json) pydict list"

definition validate_snapshot :: "(pystr \<Rightarrow> pystr) \<Rightarrow> json \<Rightarrow> pystr \<Rightarrow> onto_exn + Snapshot" where
  "validate_snapshot casefold snapshot expected_content_sha256 =
     bind_res (require_mapping snapshot (str ''$'')) (\<lambda>root.
     bind_res (no_private casefold (str ''$'') snapshot) (\<lambda>_.
     bind_res (demand (set (dict_keys root) = {str ''meta'', str ''data''})
       (roster_error ''snapshot root must contain only meta and data'')) (\<lambda>_.
     bind_res (require_mapping (get root ''meta'') (str ''$.meta'')) (\<lambda>meta.
     bind_res (demand (same_dict meta (expected_meta expected_content_sha256))
       (roster_error ''ontology projection metadata mismatch'')) (\<lambda>_.
     bind_res (demand (SHA256_RE expected_content_sha256)
       (roster_error ''ontology content SHA-256 is invalid'')) (\<lambda>_.
     bind_res (require_mapping (get root ''data'') (str ''$.data'')) (\<lambda>data.
     bind_res (demand (set (dict_keys data) = {str ''collections'', str ''relationships'', str ''conflicts''})
       (roster_error ''snapshot data shape mismatch'')) (\<lambda>_.
     bind_res (require_mapping (get data ''collections'') (str ''$.data.collections'')) (\<lambda>cs.
     bind_res (demand (set (dict_keys cs) = set (map fst EXPECTED_CARDINALITIES))
       (roster_error ''ontology collection set mismatch'')) (\<lambda>_.
     bind_res (validate_collections cs [] EXPECTED_CARDINALITIES) (\<lambda>(public_ids, records).
     bind_res (validate_domain_invariants casefold records) (\<lambda>_.
     bind_res (require_list (get data ''relationships'') (str ''$.data.relationships'')) (\<lambda>rels.
     bind_res (demand (length rels = EXPECTED_RELATIONSHIPS)
       (roster_error ''ontology relationship cardinality mismatch'')) (\<lambda>_.
     bind_res (validate_all (validate_relationship public_ids) (str ''$.data.relationships'') 0 [] rels) (\<lambda>edges.
     bind_res (validate_relationship_invariants records edges) (\<lambda>_.
     bind_res (require_list (get data ''conflicts'') (str ''$.data.conflicts'')) (\<lambda>confs.
     bind_res (demand (length confs = EXPECTED_CONFLICTS)
       (roster_error ''ontology conflict cardinality mismatch'')) (\<lambda>_.
     bind_res (validate_all (validate_conflict public_ids) (str ''$.data.conflicts'') 0 [] confs) (\<lambda>conflicts.
     Inr \<lparr>sn_meta = meta, sn_collections = records, sn_relationships = edges,
          sn_conflicts = conflicts\<rparr>)))))))))))))))))))"

end
