(* ===== verification/OntologyView.thy ===== *)
theory OntologyView
  imports Ontology
begin

text \<open>
  The read model of \<open>src/app/ontology.py\<close>: the projection built from a validated snapshot, its
  lookups, the signed pagination cursors, loading the file and the process-wide runtime. Copies
  that protect the projection from its callers (\<open>deepcopy\<close>, the JSON clone) are the values
  themselves. NFKC and case folding are arguments.
\<close>

section \<open>The projection\<close>

type_synonym Node = "(pystr, json) pydict"

record OntologyProjection =
  op_meta :: "(pystr, json) pydict"
  op_content_sha256 :: pystr
  op_cursor_key :: bytes
  op_collections :: Collections
  op_relationships :: "Edge list"
  op_conflicts :: "(pystr, json) pydict list"
  op_nodes :: "(pystr, Node) pydict"

text \<open>The key order of a copy is that of the allowed fields, which Python leaves open; the
  collections are in the order of the contract, where Python keeps that of the document.\<close>

definition copy_allowed :: "(pystr, json) pydict \<Rightarrow> pystr list \<Rightarrow> (pystr, json) pydict" where
  "copy_allowed d allowed = concat (map (\<lambda>k. case dict_get d k of None \<Rightarrow> [] | Some v \<Rightarrow> [(k, v)]) allowed)"

definition copy_json :: "pystr list \<Rightarrow> json \<Rightarrow> json" where
  "copy_json allowed j = (case j of JObj d \<Rightarrow> JObj (copy_allowed d allowed) | _ \<Rightarrow> JNull)"

definition public_record :: "pystr \<Rightarrow> (pystr, json) pydict \<Rightarrow> (pystr, json) pydict" where
  "public_record name r =
     (let r1 = copy_allowed r (collection_allowed_keys name) in
      if name \<noteq> str ''apostles'' then r1
      else let r2 = dict_set (str ''entity'') (copy_json apostle_entity_allowed (get r ''entity'')) r1 in
      case dict_get r (str ''candidates'') of
        None \<Rightarrow> r2
      | Some j \<Rightarrow> dict_set (str ''candidates'')
          (JList (case j of JList cs \<Rightarrow> map (copy_json candidate_keys) cs | _ \<Rightarrow> [])) r2)"

definition kind_of :: "pystr \<Rightarrow> pystr" where
  "kind_of name = (case dict_get COLLECTION_KINDS name of None \<Rightarrow> [] | Some k \<Rightarrow> k)"

definition with_kind :: "pystr \<Rightarrow> (pystr, json) pydict \<Rightarrow> Node" where
  "with_kind name r = (str ''kind'', JStr (kind_of name)) # r"

text \<open>The text of a field that validation has made one\<close>

definition text_of :: "(pystr, json) pydict \<Rightarrow> string \<Rightarrow> pystr" where
  "text_of d k = (case get d k of JStr s \<Rightarrow> s | _ \<Rightarrow> [])"

definition cursor_label :: bytes where
  "cursor_label = map of_nat (str ''metahumotonic-ontology-cursor'' @ [0])"

definition build_nodes :: "Collections \<Rightarrow> (pystr, Node) pydict" where
  "build_nodes cs = foldl (\<lambda>m (name, rs). foldl (\<lambda>m r. dict_set (text_of r ''public_id'') (with_kind name r) m) m rs) [] cs"

definition new_projection :: "Snapshot \<Rightarrow> bytes \<Rightarrow> onto_exn + OntologyProjection" where
  "new_projection sn cursor_secret =
     (if length cursor_secret < 32
      then Inl (roster_error ''ontology cursor secret must be at least 32 bytes'')
      else let cs = map (\<lambda>(name, rs). (name, map (public_record name) rs)) (sn_collections sn) in
      Inr \<lparr>op_meta = sn_meta sn, op_content_sha256 = text_of (sn_meta sn) ''content_sha256'',
        op_cursor_key = sha256 (cursor_label @ cursor_secret), op_collections = cs,
        op_relationships = map (\<lambda>e. copy_allowed e relationship_keys) (sn_relationships sn),
        op_conflicts = map (\<lambda>c. copy_allowed c conflict_allowed) (sn_conflicts sn),
        op_nodes = build_nodes cs\<rparr>)"

text \<open>What reading the file gave: nothing there, an \<open>OSError\<close>, or its bytes.\<close>

datatype FileRead = NoFile | ReadError | Contents bytes

definition load ::
  "(pystr \<Rightarrow> pystr) \<Rightarrow> FileRead \<Rightarrow> pystr \<Rightarrow> pystr \<Rightarrow> bytes \<Rightarrow> onto_exn + OntologyProjection" where
  "load casefold file expected_file_sha256 expected_content_sha256 cursor_secret =
     (if \<not> SHA256_RE expected_file_sha256 then Inl (roster_error ''ontology snapshot SHA-256 is invalid'')
      else if \<not> SHA256_RE expected_content_sha256
      then Inl (roster_error ''ontology content SHA-256 is invalid'')
      else case file of
        NoFile \<Rightarrow> Inl (roster_error ''ontology snapshot file is unavailable'')
      | ReadError \<Rightarrow> Inl (roster_error ''ontology snapshot file is unreadable'')
      | Contents raw \<Rightarrow>
          (if hexdigest (sha256 raw) \<noteq> expected_file_sha256
           then Inl (roster_error ''ontology snapshot byte digest mismatch'')
           else case Option.bind (utf8_decode raw) loads of
             None \<Rightarrow> Inl (roster_error ''ontology snapshot is not valid UTF-8 JSON'')
           | Some snapshot \<Rightarrow>
               bind_res (validate_snapshot casefold snapshot expected_content_sha256) (\<lambda>sn.
               new_projection sn cursor_secret)))"

definition params_obj :: "(string \<times> json) list \<Rightarrow> json" where
  "params_obj ps = JObj (map (\<lambda>(k, v). (str k, v)) ps)"

definition opt_str :: "pystr option \<Rightarrow> json" where
  "opt_str s = (case s of None \<Rightarrow> JNull | Some t \<Rightarrow> JStr t)"

definition etag_for :: "OntologyProjection \<Rightarrow> string \<Rightarrow> json \<Rightarrow> pystr" where
  "etag_for op resource params =
     34 # hexdigest (sha256 (map of_nat (op_content_sha256 op @ 0 #
            dumps True (JObj [(str ''resource'', JStr (str resource)), (str ''params'', params)])))) @ [34]"

section \<open>Names and summaries\<close>

text \<open>\<open>[item for item in aliases if isinstance(item, str)]\<close>\<close>

definition strings_of :: "json \<Rightarrow> pystr list" where
  "strings_of j = (case j of
     JList xs \<Rightarrow> concat (map (\<lambda>x. case x of JStr s \<Rightarrow> [s] | _ \<Rightarrow> []) xs)
   | JStr s \<Rightarrow> map (\<lambda>c. [c]) s
   | JObj d \<Rightarrow> dict_keys d
   | _ \<Rightarrow> [])"

definition is_kind :: "string \<Rightarrow> Node \<Rightarrow> bool" where
  "is_kind k node \<longleftrightarrow> has_text node ''kind'' (str k)"

definition pending :: "Node \<Rightarrow> bool" where
  "pending node \<longleftrightarrow> is_kind ''apostle'' node \<and> has_text node ''selection_state'' (str ''CONFLICT_PENDING'')"

definition name_open :: pystr where
  "name_open = [48120, 44208]"

definition display_identity :: "Node \<Rightarrow> pystr \<times> pystr list" where
  "display_identity node =
     (let read = (\<lambda>d. (text_of d ''canonical_name'', strings_of (get_default d (str ''aliases'') (JList []))))
      in if is_kind ''apostle'' node
         then (case get node ''entity'' of JObj e \<Rightarrow> read e | _ \<Rightarrow> (name_open, []))
         else read node)"

definition copy_keys :: "string list \<Rightarrow> (pystr, json) pydict \<Rightarrow> Node \<Rightarrow> Node" where
  "copy_keys ks d s = foldl (\<lambda>s k. case dict_get d (str k) of None \<Rightarrow> s | Some v \<Rightarrow> dict_set (str k) v s) s ks"

definition summary :: "Node \<Rightarrow> Node" where
  "summary node =
     (let (name, aliases) = display_identity node;
          s1 = copy_keys [''position'', ''status'', ''binding_state'', ''selection_state'', ''structural_group'']
                 node
                 [(str ''public_id'', get node ''public_id''), (str ''kind'', get node ''kind''),
                  (str ''canonical_name'', JStr name), (str ''aliases'', JList (map JStr aliases))]
      in if \<not> is_kind ''apostle'' node then s1
         else case get node ''entity'' of
           JObj e \<Rightarrow> copy_keys [''binding_state'', ''body_policy'', ''content_authority'', ''identity_authority''] e s1
         | _ \<Rightarrow>
             (if has_text node ''selection_state'' (str ''CONFLICT_PENDING'')
              then dict_set (str ''body_policy'') (get node ''body_policy'')
                     (dict_set (str ''default_servable'') (JBool False)
                       (dict_set (str ''candidate_count'')
                         (JInt (int (case get node ''candidates'' of JList cs \<Rightarrow> length cs | _ \<Rightarrow> 0))) s1))
              else s1))"

definition get_node :: "OntologyProjection \<Rightarrow> pystr \<Rightarrow> onto_exn + Node option" where
  "get_node op public_id =
     (case dict_get (op_nodes op) public_id of
        None \<Rightarrow> Inr None
      | Some node \<Rightarrow> if pending node then Inl (OntologyConflictPending node) else Inr (Some node))"

definition conflict_payload :: "Node \<Rightarrow> json" where
  "conflict_payload r = params_obj
     [(''public_id'', get r ''public_id''), (''kind'', JStr (str ''apostle'')), (''position'', get r ''position''),
      (''selection_state'', get r ''selection_state''), (''body_policy'', get r ''body_policy''),
      (''default_servable'', JBool False), (''candidates'', get_default r (str ''candidates'') (JList []))]"

section \<open>Cursors\<close>

text \<open>
  The strict decoder of \<open>binascii\<close>: nothing outside the alphabet, no padding at the front,
  nothing after a complete padding and nothing but padding after the first padding character.
\<close>

fun a2b_strict :: "nat \<Rightarrow> nat \<Rightarrow> nat \<Rightarrow> bool \<Rightarrow> pystr \<Rightarrow> bytes option" where
  "a2b_strict quad_pos leftchar pads padded [] = (if quad_pos = 0 then Some [] else None)"
| "a2b_strict quad_pos leftchar pads padded (c # cs) =
     (if c = 61 then
        (if 2 \<le> quad_pos
         then (if 4 \<le> quad_pos + (pads + 1) then (if cs = [] then Some [] else None)
               else a2b_strict quad_pos leftchar (pads + 1) True cs)
         else a2b_strict quad_pos leftchar pads True cs)
      else case b64_val c of
        None \<Rightarrow> None
      | Some v \<Rightarrow>
          (if padded then None
           else if quad_pos = 0 then a2b_strict 1 v 0 False cs
           else if quad_pos = 1
           then map_option ((#) (of_nat (leftchar * 4 + v div 16))) (a2b_strict 2 (v mod 16) 0 False cs)
           else if quad_pos = 2
           then map_option ((#) (of_nat (leftchar * 16 + v div 4))) (a2b_strict 3 (v mod 4) 0 False cs)
           else map_option ((#) (of_nat (leftchar * 64 + v))) (a2b_strict 0 0 0 False cs)))"

definition b64decode :: "pystr \<Rightarrow> onto_exn + bytes" where
  "b64decode value =
     (let padded = value @ replicate ((4 - length value mod 4) mod 4) 61 in
      if \<not> is_ascii value \<or> take 1 padded = [61] then Inl (OntologyCursorError (str ''invalid cursor encoding''))
      else case a2b_strict 0 0 0 False (url_translate padded) of
        None \<Rightarrow> Inl (OntologyCursorError (str ''invalid cursor encoding''))
      | Some bs \<Rightarrow> Inr bs)"

definition encode_cursor :: "OntologyProjection \<Rightarrow> json \<Rightarrow> pystr" where
  "encode_cursor op payload =
     (let raw = map of_nat (dumps True payload) in b64 raw @ 46 # b64 (hmac_sha256 (op_cursor_key op) raw))"

definition decode_cursor :: "OntologyProjection \<Rightarrow> pystr \<Rightarrow> onto_exn + (pystr, json) pydict" where
  "decode_cursor op cursor =
     (if 4096 < length cursor \<or> length (filter (\<lambda>c. c = 46) cursor) \<noteq> 1
      then Inl (OntologyCursorError (str ''invalid cursor''))
      else
      bind_res (b64decode (takeWhile (\<lambda>c. c \<noteq> 46) cursor)) (\<lambda>raw.
      bind_res (b64decode (tl (dropWhile (\<lambda>c. c \<noteq> 46) cursor))) (\<lambda>signature.
      if signature \<noteq> hmac_sha256 (op_cursor_key op) raw
      then Inl (OntologyCursorError (str ''invalid cursor signature''))
      else case Option.bind (utf8_decode raw) loads of
        Some (JObj payload) \<Rightarrow> Inr payload
      | _ \<Rightarrow> Inl (OntologyCursorError (str ''invalid cursor payload'')))))"

text \<open>
  Python's \<open>==\<close> on JSON values: \<open>True\<close> is 1, a float is compared by value, objects and their
  order. \<open>feq\<close> says whether a literal with a fraction denotes an integer.
\<close>

definition num_eq :: "(pystr \<Rightarrow> int \<Rightarrow> bool) \<Rightarrow> json \<Rightarrow> int \<Rightarrow> bool" where
  "num_eq feq j i = (case j of JInt k \<Rightarrow> k = i | JBool b \<Rightarrow> (if b then 1 else 0) = i | JFloat t \<Rightarrow> feq t i | _ \<Rightarrow> False)"

definition params_eq :: "json \<Rightarrow> json \<Rightarrow> bool" where
  "params_eq j expected = (case (j, expected) of (JObj d, JObj e) \<Rightarrow> same_dict d e | _ \<Rightarrow> False)"

record Page =
  pg_items :: "json list"
  pg_next_cursor :: "pystr option"

definition cursor_payload :: "OntologyProjection \<Rightarrow> string \<Rightarrow> json \<Rightarrow> int \<Rightarrow> nat \<Rightarrow> json" where
  "cursor_payload op route params limit offset = params_obj
     [(''v'', JInt 1), (''content_sha256'', JStr (op_content_sha256 op)), (''route'', JStr (str route)),
      (''params'', params), (''limit'', JInt limit), (''offset'', JInt (int offset))]"

definition cursor_offset ::
  "(pystr \<Rightarrow> int \<Rightarrow> bool) \<Rightarrow> OntologyProjection \<Rightarrow> string \<Rightarrow> json \<Rightarrow> int \<Rightarrow> nat \<Rightarrow> pystr \<Rightarrow> onto_exn + nat" where
  "cursor_offset feq op route params limit found cursor =
     bind_res (decode_cursor op cursor) (\<lambda>p.
     if \<not> (num_eq feq (get p ''v'') 1 \<and> has_text p ''content_sha256'' (op_content_sha256 op)
           \<and> has_text p ''route'' (str route) \<and> params_eq (get p ''params'') params
           \<and> num_eq feq (get p ''limit'') limit)
     then Inl (OntologyCursorError (str ''cursor does not match this request''))
     else case get p ''offset'' of
       JInt offset \<Rightarrow>
         (if offset < 0 then Inl (OntologyCursorError (str ''cursor offset is invalid''))
          else if int found < offset then Inl (OntologyCursorError (str ''cursor is outside the result set''))
          else Inr (nat offset))
     | _ \<Rightarrow> Inl (OntologyCursorError (str ''cursor offset is invalid'')))"

definition page_of ::
  "(pystr \<Rightarrow> int \<Rightarrow> bool) \<Rightarrow> OntologyProjection \<Rightarrow> json list \<Rightarrow> string \<Rightarrow> json \<Rightarrow> nat \<Rightarrow> pystr option
   \<Rightarrow> onto_exn + Page" where
  "page_of feq op items route params limit cursor =
     bind_res (case cursor of None \<Rightarrow> Inr 0
               | Some c \<Rightarrow> if c = [] then Inr 0
                   else cursor_offset feq op route params (int limit) (length items) c) (\<lambda>offset.
     let selected = page_slice offset limit items; next_offset = offset + length selected in
     Inr \<lparr>pg_items = selected,
          pg_next_cursor = (if next_offset < length items
            then Some (encode_cursor op (cursor_payload op route params (int limit) next_offset)) else None)\<rparr>)"

section \<open>Searches\<close>

definition normalized :: "(pystr \<Rightarrow> pystr) \<Rightarrow> (pystr \<Rightarrow> pystr) \<Rightarrow> pystr \<Rightarrow> pystr" where
  "normalized nfkc casefold s = strip (casefold (nfkc s))"

definition score :: "pystr \<Rightarrow> pystr list \<Rightarrow> nat option" where
  "score q terms =
     (if q \<in> set terms then Some 0
      else if \<exists>t \<in> set terms. startswith t q then Some 1
      else if \<exists>t \<in> set terms. contains q t then Some 2
      else None)"

definition search_match ::
  "(pystr \<Rightarrow> pystr) \<Rightarrow> (pystr \<Rightarrow> pystr) \<Rightarrow> pystr \<Rightarrow> pystr option \<Rightarrow> Node \<Rightarrow> (nat \<times> pystr \<times> json) list" where
  "search_match nfkc casefold q kind node =
     (if (case kind of None \<Rightarrow> False | Some k \<Rightarrow> \<not> has_text node ''kind'' k) then []
      else if pending node then []
      else if q = str ''om'' \<and> is_kind ''apostle'' node \<and> get node ''position'' = JInt 8 then []
      else case display_identity node of (name, aliases) \<Rightarrow>
        (case score q (map (normalized nfkc casefold) (filter (\<lambda>t. t \<noteq> []) (name # aliases))) of
           None \<Rightarrow> [] | Some s \<Rightarrow> [(s, text_of node ''public_id'', JObj (summary node))]))"

definition search_hits ::
  "(pystr \<Rightarrow> pystr) \<Rightarrow> (pystr \<Rightarrow> pystr) \<Rightarrow> OntologyProjection \<Rightarrow> pystr \<Rightarrow> pystr option \<Rightarrow> json list" where
  "search_hits nfkc casefold op q kind =
     map (\<lambda>(_, _, s). s) (sort_key (\<lambda>(s, pid, _). (s, pid))
       (concat (map (search_match nfkc casefold q kind) (dict_values (op_nodes op)))))"

definition search ::
  "(pystr \<Rightarrow> pystr) \<Rightarrow> (pystr \<Rightarrow> pystr) \<Rightarrow> (pystr \<Rightarrow> int \<Rightarrow> bool) \<Rightarrow> OntologyProjection \<Rightarrow> pystr \<Rightarrow> pystr option
   \<Rightarrow> nat \<Rightarrow> pystr option \<Rightarrow> onto_exn + Page" where
  "search nfkc casefold feq op query kind limit cursor =
     (let q = normalized nfkc casefold query in
      page_of feq op (search_hits nfkc casefold op q kind) ''search''
        (params_obj [(''q'', JStr q), (''kind'', opt_str kind)]) limit cursor)"

definition filter_ok :: "pystr option \<Rightarrow> (pystr, json) pydict \<Rightarrow> string \<Rightarrow> bool" where
  "filter_ok wanted d k = (case wanted of None \<Rightarrow> True | Some s \<Rightarrow> has_text d k s)"

definition conflict_hits ::
  "OntologyProjection \<Rightarrow> pystr option \<Rightarrow> pystr option \<Rightarrow> pystr option \<Rightarrow> json list" where
  "conflict_hits op subject severity status =
     map JObj (sort_key (\<lambda>c. (text_of c ''severity'', text_of c ''status'', text_of c ''conflict_id''))
       (filter (\<lambda>c. filter_ok subject c ''subject_public_id'' \<and> filter_ok severity c ''severity''
          \<and> filter_ok status c ''status'') (op_conflicts op)))"

definition conflicts_page ::
  "(pystr \<Rightarrow> int \<Rightarrow> bool) \<Rightarrow> OntologyProjection \<Rightarrow> pystr option \<Rightarrow> pystr option \<Rightarrow> pystr option \<Rightarrow> nat
   \<Rightarrow> pystr option \<Rightarrow> onto_exn + Page" where
  "conflicts_page feq op subject severity status limit cursor =
     page_of feq op (conflict_hits op subject severity status) ''conflicts''
       (params_obj [(''subject_public_id'', opt_str subject), (''severity'', opt_str severity),
          (''status'', opt_str status)]) limit cursor"

text \<open>The direction of an edge at a node and the other end; an edge to itself counts as outgoing.\<close>

definition edge_at :: "pystr \<Rightarrow> pystr \<Rightarrow> Edge \<Rightarrow> (string \<times> pystr) option" where
  "edge_at direction pid e =
     (if direction \<in> {str ''out'', str ''both''} \<and> has_text e ''from_public_id'' pid
      then Some (''out'', text_of e ''to_public_id'')
      else if direction \<in> {str ''in'', str ''both''} \<and> has_text e ''to_public_id'' pid
      then Some (''in'', text_of e ''from_public_id'')
      else None)"

definition neighbor_entry ::
  "OntologyProjection \<Rightarrow> Edge \<Rightarrow> string \<times> pystr \<Rightarrow> onto_exn + ((pystr \<times> pystr \<times> pystr) \<times> json)" where
  "neighbor_entry op e at =
     (case dict_get (op_nodes op) (snd at) of
        None \<Rightarrow> Inl (OntologyOther (PyKeyError (snd at)))
      | Some node \<Rightarrow> Inr ((text_of e ''predicate'', text_of e ''relationship_id'', str (fst at)),
          params_obj [(''direction'', JStr (str (fst at))), (''relationship'', JObj e),
                      (''node'', JObj (summary node))]))"

fun neighbor_entries ::
  "OntologyProjection \<Rightarrow> pystr \<Rightarrow> pystr \<Rightarrow> pystr option \<Rightarrow> Edge list
   \<Rightarrow> onto_exn + ((pystr \<times> pystr \<times> pystr) \<times> json) list" where
  "neighbor_entries op pid direction predicate [] = Inr []"
| "neighbor_entries op pid direction predicate (e # es) =
     (case edge_at direction pid e of
        None \<Rightarrow> neighbor_entries op pid direction predicate es
      | Some at \<Rightarrow>
          (if \<not> filter_ok predicate e ''predicate'' then neighbor_entries op pid direction predicate es
           else bind_res (neighbor_entry op e at) (\<lambda>x.
                bind_res (neighbor_entries op pid direction predicate es) (\<lambda>xs. Inr (x # xs)))))"

definition neighbors ::
  "(pystr \<Rightarrow> int \<Rightarrow> bool) \<Rightarrow> OntologyProjection \<Rightarrow> pystr \<Rightarrow> pystr \<Rightarrow> pystr option \<Rightarrow> nat \<Rightarrow> pystr option
   \<Rightarrow> onto_exn + Page option" where
  "neighbors feq op pid direction predicate limit cursor =
     (if dict_get (op_nodes op) pid = None then Inr None
      else bind_res (neighbor_entries op pid direction predicate (op_relationships op)) (\<lambda>xs.
      bind_res (page_of feq op (map snd (sort_key fst xs)) ''neighbors''
        (params_obj [(''public_id'', JStr pid), (''direction'', JStr direction), (''predicate'', opt_str predicate)])
        limit cursor) (\<lambda>page. Inr (Some page))))"

section \<open>Documents\<close>

definition schema_document :: "OntologyProjection \<Rightarrow> json" where
  "schema_document op = params_obj
     [(''schema_version'', JStr SCHEMA_VERSION), (''projection_id'', JStr PROJECTION_ID),
      (''public_id_pattern'', JStr (str ''^mtg1-[a-f0-9]{16}$'')),
      (''digest_semantics'', params_obj
         [(''content_sha256'', JStr (str ''OPERATOR_PINNED_SOURCE_MANIFEST_CANONICAL_DIGEST'')),
          (''snapshot_bytes'', JStr (str ''PINNED_SEPARATELY_AT_STARTUP''))]),
      (''collection_kinds'', JObj (map (\<lambda>(k, v). (k, JStr v)) COLLECTION_KINDS)),
      (''predicates'', JList (map JStr (sort (remdups (map (\<lambda>e. text_of e ''predicate'') (op_relationships op)))))),
      (''conflict_policy'', params_obj
         [(''apostle_slot_9'', JStr (str ''CONFLICT_PENDING'')), (''default_servable'', JBool False),
          (''node_status'', JInt 409)]),
      (''identity_rules'', params_obj
         [(''omc_abbreviation'', JStr (str ''OMC'')), (''om_is_current_alias'', JBool False),
          (''harness_hades'', JStr (str ''ONE_ENTITY_ONE_SLOT'')),
          (''hswm_scope'', JStr (str ''IDENTITY_ONLY_NOT_IMPLEMENTATION_COMPLETENESS''))])]"

definition release_document :: "OntologyProjection \<Rightarrow> json" where
  "release_document op =
     JObj (dict_set (str ''conflicts'') (JList (map JObj (op_conflicts op)))
       (dict_set (str ''collections'') (JObj (map (\<lambda>(name, rs).
            (name, JList (map (\<lambda>r. JObj (summary (with_kind name r))) rs))) (op_collections op)))
         (dict_set (str ''counts'') (params_obj
            [(''collections'', JObj (map (\<lambda>(name, rs). (name, JInt (int (length rs)))) (op_collections op))),
             (''relationships'', JInt (int (length (op_relationships op)))),
             (''conflicts'', JInt (int (length (op_conflicts op))))])
           (op_meta op))))"

section \<open>The runtime\<close>

record OntologyRuntime =
  or_enabled :: bool
  or_ready :: bool
  or_projection :: "OntologyProjection option"
  or_internal_key :: pystr

definition reset_runtime :: OntologyRuntime where
  "reset_runtime = \<lparr>or_enabled = False, or_ready = False, or_projection = None, or_internal_key = []\<rparr>"

record OntologySettings =
  os_enabled :: bool
  os_snapshot_path :: pystr
  os_snapshot_sha256 :: pystr
  os_content_sha256 :: pystr
  os_internal_key :: pystr

text \<open>
  \<open>configure\<close> resets first, so a failure leaves the runtime off; \<open>read\<close> is the file system.
\<close>

definition configure ::
  "(pystr \<Rightarrow> pystr) \<Rightarrow> (pystr \<Rightarrow> FileRead) \<Rightarrow> OntologySettings \<Rightarrow> (wiki_exn + unit) \<times> OntologyRuntime" where
  "configure casefold read os =
     (if \<not> os_enabled os then (Inr (), reset_runtime)
      else case utf8_encode (os_internal_key os) of
        None \<Rightarrow> (Inl PyUnicodeEncodeError, reset_runtime)
      | Some key \<Rightarrow>
          (if length key < 32
           then (Inl (PyRuntimeError (str ''MHB_ONTOLOGY_INTERNAL_KEY must be at least 32 bytes'')), reset_runtime)
           else if os_snapshot_path os = []
           then (Inl (PyRuntimeError
                  (str ''MHB_ONTOLOGY_SNAPSHOT_PATH is required when ontology is enabled'')), reset_runtime)
           else case load casefold (read (os_snapshot_path os)) (os_snapshot_sha256 os)
                  (os_content_sha256 os) key of
             Inl (OntologyProjectionError msg path) \<Rightarrow>
               (Inl (PyRuntimeError (str ''ontology snapshot validation failed: '' @ msg)), reset_runtime)
           | Inl (OntologyOther x) \<Rightarrow> (Inl x, reset_runtime)
           | Inl _ \<Rightarrow> (Inl (PyRuntimeError []), reset_runtime)
           | Inr op \<Rightarrow> (Inr (), \<lparr>or_enabled = True, or_ready = True, or_projection = Some op,
                                 or_internal_key = os_internal_key os\<rparr>)))"

definition authorized :: "OntologyRuntime \<Rightarrow> pystr option \<Rightarrow> wiki_exn + bool" where
  "authorized rt supplied = (case supplied of
     None \<Rightarrow> Inr False
   | Some key \<Rightarrow> if key = [] \<or> or_internal_key rt = [] then Inr False
                 else compare_digest key (or_internal_key rt))"

end
