(* ===== verification/OntologyApi.thy ===== *)
theory OntologyApi
  imports OntologyView PyText
begin

text \<open>
  The internal ontology API: \<open>src/app/routers/ontology.py\<close> with the editorial directory of
  \<open>src/app/ontology_web.py\<close>. Every endpoint returns a response with its status, headers and
  JSON body; the exceptions no endpoint catches are the left results. The query string is the
  list of its parameters in order. A response is rendered when it is made, which may raise: a
  body with a number out of range is a \<open>ValueError\<close>, one with a lone surrogate in a text a
  \<open>UnicodeEncodeError\<close>, and both lie outside every \<open>try\<close> of the router.
\<close>

section \<open>Requests and responses\<close>

record OntologyRequest =
  oq_request :: Request
  oq_query :: "(pystr \<times> pystr) list"
  oq_request_id :: "pystr option"

record Response =
  rs_status :: int
  rs_headers :: "(pystr, pystr) pydict"
  rs_body :: "json option"

record Normal =
  nf_nfkc :: "pystr \<Rightarrow> pystr"
  nf_casefold :: "pystr \<Rightarrow> pystr"
  nf_float_eq :: "pystr \<Rightarrow> int \<Rightarrow> bool"

text \<open>
  Whether the literal of a number with a fraction or an exponent denotes a finite float: the value
  \<open>m * 10 ^ e\<close> rounds to infinity from \<open>2 ^ 1024 - 2 ^ 970\<close> on.
\<close>

definition finite_literal :: "pystr \<Rightarrow> bool" where
  "finite_literal t =
     (if t \<in> {str ''NaN'', str ''Infinity'', str ''-Infinity''} then False
      else let s = (if take 1 t = [45] then drop 1 t else t);
               ds = takeWhile is_digit s;
               r = drop (length ds) s;
               fs = (if take 1 r = [46] then takeWhile is_digit (drop 1 r) else []);
               ex = (if take 1 r = [46] then drop (1 + length fs) r else r);
               e = dec_value 0 (dropWhile (\<lambda>c. \<not> is_digit c) ex);
               m = dec_value 0 (ds @ fs);
               bound = (2 ^ 1024 - 2 ^ 970) * 10 ^ length fs
           in if take 1 (drop 1 ex) = [45] then m < bound * 10 ^ e else m * 10 ^ e < bound)"

fun floats_finite :: "json \<Rightarrow> bool" where
  "floats_finite (JFloat t) \<longleftrightarrow> finite_literal t"
| "floats_finite (JList xs) \<longleftrightarrow> list_all floats_finite xs"
| "floats_finite (JObj kvs) \<longleftrightarrow> list_all (\<lambda>p. floats_finite (snd p)) kvs"
| "floats_finite j \<longleftrightarrow> True"

fun texts_encodable :: "json \<Rightarrow> bool" where
  "texts_encodable (JStr s) \<longleftrightarrow> encodable s"
| "texts_encodable (JList xs) \<longleftrightarrow> list_all texts_encodable xs"
| "texts_encodable (JObj kvs) \<longleftrightarrow> list_all (\<lambda>p. encodable (fst p) \<and> texts_encodable (snd p)) kvs"
| "texts_encodable j \<longleftrightarrow> True"

text \<open>
  \<open>JSONResponse\<close>: \<open>json.dumps(content, ensure_ascii=False, allow_nan=False)\<close>, encoded as UTF-8.
  The body is kept as its value.
\<close>

definition json_response :: "int \<Rightarrow> (pystr, pystr) pydict \<Rightarrow> json \<Rightarrow> wiki_exn + Response" where
  "json_response status headers body =
     (if \<not> floats_finite body
      then Inl (PyValueError (str ''Out of range float values are not JSON compliant''))
      else if \<not> texts_encodable body then Inl PyUnicodeEncodeError
      else Inr \<lparr>rs_status = status, rs_headers = headers, rs_body = Some body\<rparr>)"

definition PRIVATE_CACHE :: pystr where
  "PRIVATE_CACHE = str ''private, max-age=60, must-revalidate''"

definition IMMUTABLE_PRIVATE_CACHE :: pystr where
  "IMMUTABLE_PRIVATE_CACHE = str ''private, max-age=31536000, immutable''"

definition request_id :: "OntologyRequest \<Rightarrow> pystr" where
  "request_id rq = (case oq_request_id rq of
     Some v \<Rightarrow> if v \<noteq> [] then v else str ''unavailable'' | None \<Rightarrow> str ''unavailable'')"

definition meta_of :: "OntologyProjection option \<Rightarrow> json" where
  "meta_of p = (case p of
     Some op \<Rightarrow> JObj (op_meta op)
   | None \<Rightarrow> params_obj [(''schema_version'', JStr SCHEMA_VERSION), (''projection_id'', JStr PROJECTION_ID)])"

definition headers_of :: "OntologyProjection option \<Rightarrow> pystr option \<Rightarrow> pystr \<Rightarrow> (pystr, pystr) pydict" where
  "headers_of p etag cache_control =
     [(str ''Cache-Control'', cache_control), (str ''Vary'', str ''X-Ontology-Key'')]
     @ (case p of None \<Rightarrow> [] | Some op \<Rightarrow> [(str ''X-Content-SHA256'', op_content_sha256 op)])
     @ (case etag of None \<Rightarrow> [] | Some e \<Rightarrow> [(str ''ETag'', e)])"

definition error_response ::
  "OntologyRequest \<Rightarrow> int \<Rightarrow> string \<Rightarrow> pystr \<Rightarrow> OntologyProjection option \<Rightarrow> json option
   \<Rightarrow> wiki_exn + Response" where
  "error_response rq status code message p details =
     json_response status (headers_of p None (str ''private, no-store''))
       (params_obj
        [(''error'', JObj ([(str ''code'', JStr (str code)), (str ''message'', JStr message),
                            (str ''request_id'', JStr (request_id rq))]
                           @ (case details of None \<Rightarrow> [] | Some d \<Rightarrow> [(str ''details'', d)]))),
         (''meta'', meta_of p)])"

text \<open>\<open>_authorized_projection\<close>, and the endpoint after it\<close>

definition with_projection ::
  "OntologyRuntime \<Rightarrow> OntologyRequest \<Rightarrow> (OntologyProjection \<Rightarrow> wiki_exn + Response) \<Rightarrow> wiki_exn + Response" where
  "with_projection rt rq endpoint =
     (case or_projection rt of
        None \<Rightarrow> (error_response rq 503 ''ONTOLOGY_UNAVAILABLE''
                  (str ''The internal ontology projection is unavailable.'') None None)
      | Some op \<Rightarrow>
          (if \<not> or_enabled rt \<or> \<not> or_ready rt
           then (error_response rq 503 ''ONTOLOGY_UNAVAILABLE''
                  (str ''The internal ontology projection is unavailable.'') None None)
           else bind_res (authorized rt (header (oq_request rq) ''x-ontology-key'')) (\<lambda>ok.
             if ok then endpoint op
             else (error_response rq 401 ''ONTOLOGY_UNAUTHORIZED''
                    (str ''A valid internal ontology key is required.'') (Some op) None))))"

definition value_error :: "pystr \<Rightarrow> string \<Rightarrow> onto_exn" where
  "value_error name msg = OntologyValueError (name @ str msg)"

definition single_query_value :: "OntologyRequest \<Rightarrow> string \<Rightarrow> onto_exn + pystr option" where
  "single_query_value rq name =
     (case map snd (filter (\<lambda>(k, _). k = str name) (oq_query rq)) of
        [] \<Rightarrow> Inr None
      | [v] \<Rightarrow> if v = [] then Inl (value_error (str name) '' must not be empty'') else Inr (Some v)
      | _ \<Rightarrow> Inl (value_error (str name) '' must be supplied once''))"

definition required_value :: "OntologyRequest \<Rightarrow> string \<Rightarrow> onto_exn + pystr" where
  "required_value rq name =
     bind_res (single_query_value rq name) (\<lambda>v.
     case v of None \<Rightarrow> Inl (value_error (str name) '' is required'') | Some s \<Rightarrow> Inr s)"

text \<open>\<open>int\<close> refuses more than 4300 digits.\<close>

definition limit_of :: "OntologyRequest \<Rightarrow> nat \<Rightarrow> onto_exn + nat" where
  "limit_of rq default_limit =
     bind_res (single_query_value rq ''limit'') (\<lambda>raw.
     case raw of
       None \<Rightarrow> Inr default_limit
     | Some s \<Rightarrow>
         (if \<not> list_all is_digit s then Inl (value_error [] ''limit must be an integer'')
          else if 4300 < length s then Inl (value_error [] ''Exceeds the limit for integer string conversion'')
          else let n = dec_value 0 s in
          if n < 1 \<or> 100 < n then Inl (value_error [] ''limit must be between 1 and 100'') else Inr n))"

text \<open>\<open>^[A-Z][A-Z0-9_]{0,99}$\<close>\<close>

definition ontology_token :: "pystr \<Rightarrow> bool" where
  "ontology_token s \<longleftrightarrow> s \<noteq> [] \<and> length s \<le> 100 \<and> 65 \<le> hd s \<and> hd s \<le> 90
     \<and> list_all (\<lambda>c. (65 \<le> c \<and> c \<le> 90) \<or> is_digit c \<or> c = 95) s"

definition etag_matches :: "OntologyRequest \<Rightarrow> pystr \<Rightarrow> bool" where
  "etag_matches rq etag \<longleftrightarrow> (case header (oq_request rq) ''if-none-match'' of
     None \<Rightarrow> False
   | Some raw \<Rightarrow> raw \<noteq> [] \<and> list_ex (\<lambda>c. let t = strip c in
       t = str ''*'' \<or> (if startswith t (str ''W/'') then strip (drop 2 t) else t) = etag) (split_on 44 raw))"

definition not_modified :: "OntologyProjection \<Rightarrow> pystr \<Rightarrow> pystr \<Rightarrow> Response" where
  "not_modified op etag cache_control =
     \<lparr>rs_status = 304, rs_headers = headers_of (Some op) (Some etag) cache_control, rs_body = None\<rparr>"

definition success :: "OntologyProjection \<Rightarrow> json \<Rightarrow> pystr \<Rightarrow> json option \<Rightarrow> pystr \<Rightarrow> wiki_exn + Response" where
  "success op data etag page cache_control =
     json_response 200 (headers_of (Some op) (Some etag) cache_control)
       (JObj ([(str ''data'', data), (str ''meta'', JObj (op_meta op))]
        @ (case page of None \<Rightarrow> [] | Some p \<Rightarrow> [(str ''page'', p)])))"

text \<open>The end of every endpoint: 304 when the client's tag matches, else the data.\<close>

definition tagged ::
  "OntologyRequest \<Rightarrow> OntologyProjection \<Rightarrow> json \<Rightarrow> pystr \<Rightarrow> json option \<Rightarrow> pystr \<Rightarrow> wiki_exn + Response" where
  "tagged rq op data etag page cache_control =
     (if etag_matches rq etag then Inr (not_modified op etag cache_control)
      else success op data etag page cache_control)"

text \<open>The \<open>except\<close> clause of the paged endpoints: value errors, cursor errors among them.\<close>

definition bad_request ::
  "OntologyRequest \<Rightarrow> OntologyProjection \<Rightarrow> onto_exn + 'a \<Rightarrow> ('a \<Rightarrow> wiki_exn + Response) \<Rightarrow> wiki_exn + Response" where
  "bad_request rq op r k =
     (case r of
        Inr a \<Rightarrow> k a
      | Inl (OntologyValueError m) \<Rightarrow> (error_response rq 400 ''ONTOLOGY_BAD_REQUEST'' m (Some op) None)
      | Inl (OntologyCursorError m) \<Rightarrow> (error_response rq 400 ''ONTOLOGY_BAD_REQUEST'' m (Some op) None)
      | Inl (OntologyOther x) \<Rightarrow> Inl x
      | Inl _ \<Rightarrow> Inl (PyRuntimeError []))"

definition page_info :: "Page \<Rightarrow> json" where
  "page_info p = params_obj [(''next_cursor'', opt_str (pg_next_cursor p))]"

definition jint :: "nat \<Rightarrow> json" where
  "jint n = JInt (int n)"

section \<open>The editorial directory\<close>

definition WEB_ORIGIN :: pystr where
  "WEB_ORIGIN = str ''https://metahumotonic.com''"

definition APOSTLE_WEB_ROUTES :: "(int \<times> pystr option \<times> pystr) list" where
  "APOSTLE_WEB_ROUTES = [
     (1, Some [46356, 47704, 49496, 50892, 52964], str ''dimension-walker''),
     (2, Some (str ''ICE ORCA DRAGON''), str ''ice-orca-dragon''),
     (3, Some [52488, 44277, 46041, 51032, 32, 50857, 49324], str ''superhollow-knight''),
     (4, Some [48708, 54665, 44592, 47592], str ''bhgman''),
     (5, Some [49828, 54168, 51060, 49828, 44152], str ''spacegirl''),
     (6, Some [51064, 47448, 50669, 49324, 55120, 47492, 51032, 44053, 47932], str ''great-river''),
     (7, Some [47532, 53272, 49828, 53944, 51032, 32, 45208, 47924], str ''liquest-tree''),
     (8, Some [51077, 52404, 50868, 54665, 44396, 47492], str ''orbital-cloud''),
     (9, None, str ''jesus''),
     (10, Some [44618, 48148, 51316], str ''gipbajon''),
     (11, Some (str ''HOH''), str ''hoh''),
     (12, Some [47788, 49692], str ''monsoon'')]"

definition web_reference :: "int \<Rightarrow> pystr \<Rightarrow> json" where
  "web_reference position sl = params_obj
     [(''concept_iri'', JStr (WEB_ORIGIN @ str ''/learn/#entity-apostle-'' @ int_dec position)),
      (''page_url'', JStr (WEB_ORIGIN @ str ''/apostles/'' @ sl @ str ''/'')),
      (''wiki_url'', JStr (WEB_ORIGIN @ str ''/wiki/apostles/'' @ sl @ str ''/'')),
      (''graph_url'', JStr (WEB_ORIGIN @ str ''/apostles/graph.jsonld'')),
      (''authority'', JStr (str ''EDITORIAL_SUMMARY'')),
      (''mapping_status'', JStr (if position = 9 then str ''CONFLICT_REFERENCE_ONLY''
                                 else str ''EDITORIAL_REFERENCE'')),
      (''identity_equivalence'', JBool False)]"

text \<open>\<open>Inl None\<close> is the \<open>ValueError\<close> of a mismatch, \<open>Inl (Some x)\<close> any other exception.\<close>

definition web_slot :: "(pystr, json) pydict \<Rightarrow> wiki_exn option + json" where
  "web_slot slot =
     (case int_position slot of
        None \<Rightarrow> Inl (Some (PyKeyError (str ''position'')))
      | Some position \<Rightarrow>
          (case dict_get APOSTLE_WEB_ROUTES position of
             None \<Rightarrow> Inl (Some (PyKeyError (int_dec position)))
           | Some (expected_name, sl) \<Rightarrow>
               (case dict_get slot (str ''entity'') of
                  None \<Rightarrow> Inl (Some (PyKeyError (str ''entity'')))
                | Some entity \<Rightarrow>
                    (if position = 9
                        \<and> (entity \<noteq> JNull \<or> \<not> has_text slot ''selection_state'' (str ''CONFLICT_PENDING''))
                     then Inl None
                     else if position \<noteq> 9 \<and> (case entity of
                            JObj e \<Rightarrow> get e ''canonical_name'' \<noteq> opt_str expected_name | _ \<Rightarrow> True)
                     then Inl None
                     else Inr (JObj (dict_set (str ''web_reference'') (web_reference position sl) slot))))))"

definition apostle_web_directory :: "OntologyProjection \<Rightarrow> wiki_exn option + json" where
  "apostle_web_directory op =
     bind_res (map_res web_slot (sort_key (\<lambda>s. case int_position s of None \<Rightarrow> 0 | Some i \<Rightarrow> i)
        (collection (op_collections op) ''apostles''))) (\<lambda>items.
     Inr (params_obj [(''items'', JList items), (''mapping_version'', JStr (str ''apostle-web-references/v1''))]))"

section \<open>The endpoints\<close>

definition apostles :: "OntologyRuntime \<Rightarrow> OntologyRequest \<Rightarrow> wiki_exn + Response" where
  "apostles rt rq = with_projection rt rq (\<lambda>op.
     case apostle_web_directory op of
       Inl None \<Rightarrow> (error_response rq 503 ''ONTOLOGY_WEB_MAPPING_MISMATCH''
         (str ''The ontology roster requires a reviewed web mapping.'') (Some op) None)
     | Inl (Some x) \<Rightarrow> Inl x
     | Inr data \<Rightarrow> (tagged rq op data (etag_for op ''apostles'' data) None PRIVATE_CACHE))"

definition search_endpoint :: "Normal \<Rightarrow> OntologyRuntime \<Rightarrow> OntologyRequest \<Rightarrow> wiki_exn + Response" where
  "search_endpoint nf rt rq = with_projection rt rq (\<lambda>op.
     bad_request rq op
       (bind_res (required_value rq ''q'') (\<lambda>query.
        let q = strip (nf_nfkc nf query) in
        bind_res (demand (2 \<le> length q \<and> length q \<le> 500)
          (value_error [] ''q must be between 2 and 500 characters'')) (\<lambda>_.
        bind_res (single_query_value rq ''kind'') (\<lambda>kind.
        bind_res (demand (case kind of None \<Rightarrow> True | Some k \<Rightarrow> k \<in> set (dict_values COLLECTION_KINDS))
          (value_error [] ''kind is not a supported ontology kind'')) (\<lambda>_.
        bind_res (limit_of rq 20) (\<lambda>limit.
        bind_res (single_query_value rq ''cursor'') (\<lambda>cursor.
        bind_res (search (nf_nfkc nf) (nf_casefold nf) (nf_float_eq nf) op q kind limit cursor) (\<lambda>page.
        Inr (q, kind, limit, cursor, page)))))))))
       (\<lambda>(q, kind, limit, cursor, page).
        (tagged rq op (params_obj [(''items'', JList (pg_items page))])
          (etag_for op ''search'' (params_obj [(''q'', JStr (nf_casefold nf q)), (''kind'', opt_str kind),
             (''limit'', jint limit), (''cursor'', opt_str cursor)]))
          (Some (page_info page)) PRIVATE_CACHE)))"

definition check_opt :: "(pystr \<Rightarrow> bool) \<Rightarrow> string \<Rightarrow> pystr option \<Rightarrow> onto_exn + unit" where
  "check_opt ok msg v = demand (case v of None \<Rightarrow> True | Some s \<Rightarrow> ok s) (value_error [] msg)"

definition conflicts_endpoint :: "Normal \<Rightarrow> OntologyRuntime \<Rightarrow> OntologyRequest \<Rightarrow> wiki_exn + Response" where
  "conflicts_endpoint nf rt rq = with_projection rt rq (\<lambda>op.
     bad_request rq op
       (bind_res (single_query_value rq ''subject_public_id'') (\<lambda>subject.
        bind_res (check_opt PUBLIC_ID_RE ''subject_public_id must be an opaque ontology public ID'' subject) (\<lambda>_.
        bind_res (single_query_value rq ''severity'') (\<lambda>severity.
        bind_res (check_opt ontology_token ''severity must be an uppercase ontology token'' severity) (\<lambda>_.
        bind_res (single_query_value rq ''status'') (\<lambda>status.
        bind_res (check_opt ontology_token ''status must be an uppercase ontology token'' status) (\<lambda>_.
        bind_res (limit_of rq 20) (\<lambda>limit.
        bind_res (single_query_value rq ''cursor'') (\<lambda>cursor.
        bind_res (conflicts_page (nf_float_eq nf) op subject severity status limit cursor) (\<lambda>page.
        Inr (subject, severity, status, limit, cursor, page)))))))))))
       (\<lambda>(subject, severity, status, limit, cursor, page).
        (tagged rq op (params_obj [(''items'', JList (pg_items page))])
          (etag_for op ''conflicts'' (params_obj [(''subject_public_id'', opt_str subject),
             (''severity'', opt_str severity), (''status'', opt_str status), (''limit'', jint limit),
             (''cursor'', opt_str cursor)]))
          (Some (page_info page)) PRIVATE_CACHE)))"

definition node_not_found :: "OntologyRequest \<Rightarrow> OntologyProjection \<Rightarrow> wiki_exn + Response" where
  "node_not_found rq op =
     error_response rq 404 ''ONTOLOGY_NODE_NOT_FOUND'' (str ''Ontology node not found.'') (Some op) None"

definition node_endpoint :: "OntologyRuntime \<Rightarrow> OntologyRequest \<Rightarrow> pystr \<Rightarrow> wiki_exn + Response" where
  "node_endpoint rt rq pid = with_projection rt rq (\<lambda>op.
     case get_node op pid of
       Inl (OntologyConflictPending r) \<Rightarrow>
         (error_response rq 409 ''CONFLICT_PENDING''
           (str ''This ontology slot has no ratified default entity.'') (Some op) (Some (conflict_payload r)))
     | Inl _ \<Rightarrow> Inl (PyRuntimeError [])
     | Inr None \<Rightarrow> node_not_found rq op
     | Inr (Some found) \<Rightarrow>
         (tagged rq op (JObj found) (etag_for op ''node'' (params_obj [(''public_id'', JStr pid)]))
           None PRIVATE_CACHE))"

definition neighbors_endpoint :: "Normal \<Rightarrow> OntologyRuntime \<Rightarrow> OntologyRequest \<Rightarrow> pystr \<Rightarrow> wiki_exn + Response" where
  "neighbors_endpoint nf rt rq pid = with_projection rt rq (\<lambda>op.
     bad_request rq op
       (bind_res (single_query_value rq ''direction'') (\<lambda>d.
        let direction = (case d of None \<Rightarrow> str ''both'' | Some s \<Rightarrow> s) in
        bind_res (demand (direction \<in> {str ''in'', str ''out'', str ''both''})
          (value_error [] ''direction must be in, out, or both'')) (\<lambda>_.
        bind_res (single_query_value rq ''predicate'') (\<lambda>predicate.
        bind_res (check_opt ontology_token ''predicate must be an uppercase ontology predicate'' predicate) (\<lambda>_.
        bind_res (limit_of rq 50) (\<lambda>limit.
        bind_res (single_query_value rq ''cursor'') (\<lambda>cursor.
        bind_res (neighbors (nf_float_eq nf) op pid direction predicate limit cursor) (\<lambda>page.
        Inr (direction, predicate, limit, cursor, page)))))))))
       (\<lambda>(direction, predicate, limit, cursor, page).
        case page of
          None \<Rightarrow> node_not_found rq op
        | Some p \<Rightarrow>
            (tagged rq op (params_obj [(''node_public_id'', JStr pid), (''items'', JList (pg_items p))])
              (etag_for op ''neighbors'' (params_obj [(''public_id'', JStr pid), (''direction'', JStr direction),
                 (''predicate'', opt_str predicate), (''limit'', jint limit), (''cursor'', opt_str cursor)]))
              (Some (page_info p)) PRIVATE_CACHE)))"

definition schema_endpoint :: "OntologyRuntime \<Rightarrow> OntologyRequest \<Rightarrow> wiki_exn + Response" where
  "schema_endpoint rt rq = with_projection rt rq (\<lambda>op.
     (tagged rq op (schema_document op) (etag_for op ''schema'' (JObj [])) None PRIVATE_CACHE))"

definition release_endpoint :: "OntologyRuntime \<Rightarrow> OntologyRequest \<Rightarrow> pystr \<Rightarrow> wiki_exn + Response" where
  "release_endpoint rt rq projection_id = with_projection rt rq (\<lambda>op.
     if JStr projection_id \<noteq> get (op_meta op) ''projection_id''
     then (error_response rq 404 ''ONTOLOGY_RELEASE_NOT_FOUND'' (str ''Ontology release not found.'')
            (Some op) None)
     else (tagged rq op (release_document op)
       (etag_for op ''release'' (params_obj [(''projection_id'', JStr projection_id)])) None
       IMMUTABLE_PRIVATE_CACHE))"

end
