(* ===== verification/OntologyCursor.thy ===== *)
theory OntologyCursor
  imports OntologyView
begin

text \<open>
  The pagination cursors of the ontology: a cursor the service wrote is read back to the same
  page position, anything else with a good signature was written by the service, and a client
  that follows the cursors sees every item once and then stops.
\<close>

section \<open>The strict decoder reads what was encoded\<close>

lemma a2b_strict_roundtrip:
  "a2b_strict 0 0 0 False (map url_char (b64 bs @ replicate ((4 - length (b64 bs) mod 4) mod 4) 61)) = Some bs"
proof (induction bs rule: b64_encode.induct)
  case (2 a)
  have "replicate 2 (61 :: nat) = [61, 61]" by (simp add: numeral_2_eq_2)
  moreover have "unat a div 4 * 4 + unat a mod 4 = unat a" by simp
  ultimately show ?case using b64_char_val [OF byte_split(1) [of a]] b64_char_val [OF byte_split(5) [of a]]
    by (simp add: b64_simps url_char_def [of 61])
next
  case (3 a b)
  have a: "unat a div 4 * 4 + unat a mod 4 = unat a" and b: "unat b div 16 * 16 + unat b mod 16 = unat b"
    by simp_all
  have "(unat a mod 4 * 16 + unat b div 16) div 16 = unat a mod 4"
    "(unat a mod 4 * 16 + unat b div 16) mod 16 = unat b div 16"
    using unat_byte_lt [of b] by auto
  then show ?case using b64_char_val [OF byte_split(1) [of a]] b64_char_val [OF byte_split(2) [of a b]]
      b64_char_val [OF byte_split(6) [of b]] a b
    by (simp add: b64_simps url_char_def [of 61])
next
  case (4 a b c s)
  have a: "unat a div 4 * 4 + unat a mod 4 = unat a" and b: "unat b div 16 * 16 + unat b mod 16 = unat b"
    and c: "unat c div 64 * 64 + unat c mod 64 = unat c"
    by simp_all
  have "(unat a mod 4 * 16 + unat b div 16) div 16 = unat a mod 4"
    "(unat a mod 4 * 16 + unat b div 16) mod 16 = unat b div 16"
    "(unat b mod 16 * 4 + unat c div 64) div 4 = unat b mod 16"
    "(unat b mod 16 * 4 + unat c div 64) mod 4 = unat c div 64"
    using unat_byte_lt [of b] unat_byte_lt [of c] by auto
  moreover have "length (b64 (a # b # c # s)) mod 4 = length (b64 s) mod 4" by (simp add: b64_simps)
  ultimately show ?case using b64_char_val [OF byte_split(1) [of a]]
      b64_char_val [OF byte_split(2) [of a b]] b64_char_val [OF byte_split(3) [of b c]]
      b64_char_val [OF byte_split(4) [of c]] a b c 4
    by (simp add: b64_simps)
qed (simp add: b64_simps)

lemma b64_no_pad: "x \<in> set (b64 bs) \<Longrightarrow> x \<noteq> 61"
proof (induction bs rule: b64_encode.induct)
  case (2 a)
  then show ?case using b64_char_char byte_split(1) [of a] byte_split(5) [of a] by (auto simp: b64_simps)
next
  case (3 a b)
  then show ?case using b64_char_char byte_split(1) [of a] byte_split(2) [of a b] byte_split(6) [of b]
    by (auto simp: b64_simps)
next
  case (4 a b c s)
  then show ?case using b64_char_char byte_split(1) [of a] byte_split(2) [of a b] byte_split(3) [of b c]
      byte_split(4) [of c] by (auto simp: b64_simps)
qed (simp add: b64_simps)

lemma b64decode_b64: "b64decode (b64 bs) = Inr bs"
proof -
  have "is_ascii (b64 bs)" by (auto simp: is_ascii_def dest: b64_set)
  moreover have "url_translate = map url_char" by (auto simp: url_translate_def url_char_def)
  moreover have "take 1 (b64 bs @ replicate ((4 - length (b64 bs) mod 4) mod 4) 61) \<noteq> [61]"
    using b64_no_pad [of _ bs] by (cases "b64 bs") auto
  ultimately show ?thesis using a2b_strict_roundtrip [of bs] by (simp add: b64decode_def Let_def)
qed

lemma length_b64: "length (b64 bs) = (4 * length bs + 2) div 3"
  by (induction bs rule: b64_encode.induct) (simp_all add: b64_simps)

section \<open>Sorting keys does not change the length\<close>

lemma length_sep_by: "length (sep_by c xs) = sum_list (map length xs) + (length xs - 1)"
  by (induction c xs rule: sep_by.induct) auto

lemma sum_list_sort: "sum_list (map f (sort_key k xs)) = sum_list (map (f :: _ \<Rightarrow> nat) xs)"
  by (metis mset_map mset_sort sum_mset_sum_list)

lemma length_dumps: "length (dumps a j) = length (dumps_plain a j)"
  unfolding dumps_def
proof (induction j)
  case (JList xs)
  then have "map (\<lambda>x. length (dumps_plain a (json_sorted x))) xs = map (\<lambda>x. length (dumps_plain a x)) xs" by simp
  then show ?case by (simp add: length_sep_by comp_def cong: map_cong)
next
  case (JObj kvs)
  let ?f = "\<lambda>p. length (json_string a (fst p) @ 58 # dumps_plain a (snd p))"
  let ?s = "map (\<lambda>(k, v). (k, json_sorted v)) kvs"
  have "length (dumps_plain a (json_sorted (snd p))) = length (dumps_plain a (snd p))" if "p \<in> set kvs" for p
    by (rule JObj [OF that]) (cases p, simp)
  then have m: "map ?f ?s = map ?f kvs" by (simp add: case_prod_beta comp_def)
  have "sum_list (map ?f (sort_key fst ?s)) = sum_list (map ?f kvs)"
    by (simp only: sum_list_sort m)
  moreover have "map length (map (\<lambda>(k, v). json_string a k @ 58 # dumps_plain a v) xs) = map ?f xs" for xs
    by auto
  ultimately show ?case unfolding json_sorted.simps dumps_plain.simps
    by (simp only: length_Cons length_append length_sep_by length_map length_sort list.size)
qed simp_all

section \<open>Reading a cursor back\<close>

lemma ascii_dumps:
  assumes "json_ok j"
  shows "utf8_decode (map of_nat (dumps True j)) = Some (dumps True j)"
proof -
  have "\<forall>c \<in> set (dumps True j). c < 128"
    using dumps_plain_ascii [OF json_ok_sorted [OF assms]] by (simp add: dumps_def)
  from utf8_decode_encode [OF utf8_encode_ascii [OF this]] show ?thesis .
qed

lemma decode_encode_cursor:
  assumes ok: "json_ok payload" and obj: "json_sorted payload = JObj d"
    and fits: "length (encode_cursor op payload) \<le> 4096"
  shows "decode_cursor op (encode_cursor op payload) = Inr d"
proof -
  let ?raw = "map of_nat (dumps True payload) :: bytes" and ?c = "encode_cursor op payload"
  let ?sig = "hmac_sha256 (op_cursor_key op) ?raw"
  have c: "?c = b64 ?raw @ 46 # b64 ?sig" by (simp add: encode_cursor_def Let_def)
  have no: "46 \<notin> set (b64 x)" for x by (auto dest: b64_set)
  have "filter (\<lambda>c. c = 46) (b64 x) = []" for x using no [of x] by (auto simp: filter_empty_conv)
  then have one: "length (filter (\<lambda>c. c = 46) ?c) = 1" by (simp add: c)
  have parts: "takeWhile (\<lambda>c. c \<noteq> 46) ?c = b64 ?raw" "tl (dropWhile (\<lambda>c. c \<noteq> 46) ?c) = b64 ?sig"
    using no by (auto simp: c takeWhile_append takeWhile_eq_all_conv dropWhile_append)
  show ?thesis
    using fits one parts ascii_dumps [OF ok] loads_dumps [OF ok, of True] obj
    by (simp add: decode_cursor_def b64decode_b64)
qed

text \<open>The parameters of the three paged endpoints: texts and nulls under distinct names.\<close>

definition flat :: "json \<Rightarrow> bool" where
  "flat params \<longleftrightarrow> (\<exists>kvs. params = JObj kvs \<and> distinct (map fst kvs)
     \<and> (\<forall>p \<in> set kvs. encodable (fst p) \<and> (snd p = JNull \<or> (\<exists>s. snd p = JStr s \<and> encodable s))))"

lemma flat_ok: "flat params \<Longrightarrow> json_ok params"
  by (fastforce simp: flat_def)

lemma flat_sorted:
  assumes "flat params"
  shows "params_eq (json_sorted params) params"
proof -
  from assms obtain kvs where p: "params = JObj kvs" and d: "distinct (map fst kvs)"
    and v: "\<forall>p \<in> set kvs. snd p = JNull \<or> (\<exists>s. snd p = JStr s)" by (fastforce simp: flat_def)
  have "map (\<lambda>(k, v). (k, json_sorted v)) kvs = kvs" using v by (intro map_idI) fastforce
  then have "json_sorted params = JObj (sort_key fst kvs)" by (simp add: p)
  then show ?thesis
    using p dict_get_sort [OF d] by (simp add: params_eq_def same_dict_def dict_keys_def)
qed

lemma small_int_ok:
  assumes "n < 10 ^ 18"
  shows "json_ok (JInt (int n))"
  using length_nat_dec [OF _ assms] by simp

lemma encodable_ascii: "\<forall>c \<in> set s. c < 128 \<Longrightarrow> encodable s"
  by (auto simp: encodable_def)

lemma sha_encodable: "SHA256_RE s \<Longrightarrow> encodable s"
  by (rule encodable_ascii) (auto simp: SHA256_RE_def list_all_iff is_hex_char_def)

lemma cursor_payload_sorted:
  assumes "SHA256_RE (op_content_sha256 op)" and "flat params" and "limit < 10 ^ 18" and "offset < 10 ^ 18"
  obtains d where "json_sorted (cursor_payload op route params (int limit) offset) = JObj d"
    and "json_ok (cursor_payload op route params (int limit) offset)"
    and "get d ''v'' = JInt 1" and "get d ''content_sha256'' = JStr (op_content_sha256 op)"
    and "get d ''route'' = JStr (str route)" and "get d ''params'' = json_sorted params"
    and "get d ''limit'' = JInt (int limit)" and "get d ''offset'' = JInt (int offset)"
proof -
  define kvs where "kvs = [(str ''v'', JInt 1), (str ''content_sha256'', JStr (op_content_sha256 op)),
      (str ''route'', JStr (str route)), (str ''params'', json_sorted params),
      (str ''limit'', JInt (int limit)), (str ''offset'', JInt (int offset))]"
  have s: "json_sorted (cursor_payload op route params (int limit) offset) = JObj (sort_key fst kvs)"
    by (simp add: cursor_payload_def params_obj_def kvs_def)
  have "distinct (map fst kvs)" by (simp add: kvs_def)
  from dict_get_sort [OF this] have g: "get (sort_key fst kvs) k = get kvs k" for k
    by (simp add: get_def get_default_def)
  have one: "json_ok (JInt 1)" by (simp add: nat_dec.simps)
  have keys: "encodable (str k)" if "k \<in> {''v'', ''content_sha256'', ''route'', ''params'', ''limit'', ''offset''}" for k
    by (simp add: encodable_str)
  have ok: "json_ok (cursor_payload op route params (int limit) offset)"
    using one keys flat_ok [OF assms(2)] sha_encodable [OF assms(1)]
      small_int_ok [OF assms(3)] small_int_ok [OF assms(4)]
    by (simp add: cursor_payload_def params_obj_def encodable_str del: json_ok.simps(1))
  show thesis
    by (rule that [OF s ok]) (simp_all only: g, simp_all add: kvs_def get_def get_default_def)
qed

lemma cursor_roundtrip:
  assumes "SHA256_RE (op_content_sha256 op)" and "flat params" and "limit < 10 ^ 18" and "offset < 10 ^ 18"
    and "offset \<le> n"
    and "length (encode_cursor op (cursor_payload op route params (int limit) offset)) \<le> 4096"
  shows "cursor_offset feq op route params (int limit) n
    (encode_cursor op (cursor_payload op route params (int limit) offset)) = Inr offset"
proof -
  from cursor_payload_sorted [OF assms(1-4), of route] obtain d where d:
    "json_sorted (cursor_payload op route params (int limit) offset) = JObj d"
    "json_ok (cursor_payload op route params (int limit) offset)"
    and g: "get d ''v'' = JInt 1" "get d ''content_sha256'' = JStr (op_content_sha256 op)"
    "get d ''route'' = JStr (str route)" "get d ''params'' = json_sorted params"
    "get d ''limit'' = JInt (int limit)" "get d ''offset'' = JInt (int offset)" .
  with decode_encode_cursor [OF d(2,1) assms(6)] flat_sorted [OF assms(2)] assms(5) show ?thesis
    by (simp add: cursor_offset_def has_text_def num_eq_def)
qed

section \<open>Following the cursors\<close>

text \<open>A client that asks with each next cursor, at most \<open>n\<close> times.\<close>

fun follow :: "nat \<Rightarrow> (pystr option \<Rightarrow> 'e + Page) \<Rightarrow> pystr option \<Rightarrow> json list list option" where
  "follow 0 ask cursor = None"
| "follow (Suc n) ask cursor =
     (case ask cursor of
        Inl _ \<Rightarrow> None
      | Inr page \<Rightarrow>
          (case pg_next_cursor page of
             None \<Rightarrow> Some [pg_items page]
           | Some c \<Rightarrow> map_option ((#) (pg_items page)) (follow n ask (Some c))))"

definition cursors_fit :: "OntologyProjection \<Rightarrow> string \<Rightarrow> json \<Rightarrow> nat \<Rightarrow> nat \<Rightarrow> bool" where
  "cursors_fit op route params limit n \<longleftrightarrow>
     (\<forall>offset < n. length (encode_cursor op (cursor_payload op route params (int limit) offset)) \<le> 4096)"

lemma encode_cursor_ne: "encode_cursor op payload \<noteq> []"
  by (simp add: encode_cursor_def Let_def)

lemma follow_from:
  assumes sha: "SHA256_RE (op_content_sha256 op)" and flat: "flat params"
    and lim: "0 < limit" "limit < 10 ^ 18" and n: "length items < 10 ^ 18"
    and fit: "cursors_fit op route params limit (length items)"
    and start: "cursor_ok = None \<and> offset = 0 \<or>
      cursor_ok = Some (encode_cursor op (cursor_payload op route params (int limit) offset)) \<and> offset < length items"
    and fuel: "length items - offset < m"
  shows "\<exists>pages. follow m (page_of feq op items route params limit) cursor_ok = Some pages
    \<and> concat pages = drop offset items \<and> (\<forall>p \<in> set pages. length p \<le> limit)
    \<and> length pages \<le> Suc ((length items - offset) div limit)"
  using start fuel
proof (induction m arbitrary: offset cursor_ok)
  case (Suc m)
  let ?sel = "page_slice offset limit items" and ?next = "offset + length (page_slice offset limit items)"
  let ?cur = "encode_cursor op (cursor_payload op route params (int limit) ?next)"
  have page: "page_of feq op items route params limit cursor_ok = Inr \<lparr>pg_items = ?sel,
      pg_next_cursor = (if ?next < length items then Some ?cur else None)\<rparr>"
  proof (cases cursor_ok)
    case None
    with Suc.prems(1) show ?thesis by (simp add: page_of_def Let_def)
  next
    case (Some c)
    with Suc.prems(1) have c: "c = encode_cursor op (cursor_payload op route params (int limit) offset)"
      and o: "offset < length items" by auto
    have "cursor_offset feq op route params (int limit) (length items) c = Inr offset"
      unfolding c using sha flat lim(2) _ _ by (rule cursor_roundtrip)
        (use o n fit in \<open>auto simp: cursors_fit_def\<close>)
    with Some c encode_cursor_ne show ?thesis by (simp add: page_of_def Let_def)
  qed
  show ?case
  proof (cases "?next < length items")
    case False
    then have "drop offset items = ?sel" by (auto simp: page_slice_def min_def split: if_splits)
    with False page show ?thesis by (auto simp: length_page_slice)
  next
    case True
    then have l: "length ?sel = limit" by (auto simp: page_slice_def min_def split: if_splits)
    with True Suc.prems lim(1) have "length items - ?next < m" by auto
    from Suc.IH [of "Some ?cur" ?next] True this obtain pages where
      f: "follow m (page_of feq op items route params limit) (Some ?cur) = Some pages"
      "concat pages = drop ?next items" "\<forall>p \<in> set pages. length p \<le> limit"
      "length pages \<le> Suc ((length items - ?next) div limit)" by auto
    have "?sel @ drop ?next items = drop offset items"
      using l by (simp add: page_slice_def) (metis append_take_drop_id drop_drop add.commute)
    moreover have "Suc ((length items - ?next) div limit) \<le> (length items - offset) div limit"
    proof -
      have "(length items - offset) div limit = ((length items - ?next) + limit) div limit"
        using True l by (intro arg_cong [where f = "\<lambda>x. x div limit"]) simp
      then show ?thesis using lim(1) by (simp add: div_add_self2)
    qed
    ultimately show ?thesis using f True page length_page_slice by auto
  qed
qed simp

lemma length_encode_cursor:
  "length (encode_cursor op payload) = (4 * length (dumps_plain True payload) + 2) div 3 + 44"
  by (simp add: encode_cursor_def Let_def length_b64 length_dumps)

lemma json_string_plain: "\<forall>c \<in> set s. 93 \<le> c \<and> c < 126 \<or> 48 \<le> c \<and> c < 58 \<Longrightarrow> length (json_string a s) = length s + 2"
proof -
  assume "\<forall>c \<in> set s. 93 \<le> c \<and> c < 126 \<or> 48 \<le> c \<and> c < 58"
  then have "concat (map (json_char a) s) = s"
    by (induction s) (auto simp: json_char_def)
  then show ?thesis by (simp add: json_string_def)
qed

text \<open>
  How long the parameters may be: with a JSON text of 2800 characters, every cursor the service
  writes for fewer than \<open>10 ^ 18\<close> items is one that it accepts.
\<close>

definition params_fit :: "json \<Rightarrow> bool" where
  "params_fit params \<longleftrightarrow> length (dumps True params) \<le> 2800"

lemma length_small_int: "n < 10 ^ 18 \<Longrightarrow> length (int_dec (int n)) \<le> 18"
  using length_nat_dec [of 18 n] by (simp add: int_dec_def)

lemma sha_plain: "SHA256_RE s \<Longrightarrow> length (json_string a s) = 66"
  by (subst json_string_plain) (auto simp: SHA256_RE_def list_all_iff is_hex_char_def)

lemma cursors_fit_params:
  assumes sha: "SHA256_RE (op_content_sha256 op)" and fit: "params_fit params"
    and route: "route \<in> {''search'', ''conflicts'', ''neighbors''}" and limit: "limit < 10 ^ 18" and n: "n \<le> 10 ^ 18"
  shows "cursors_fit op route params limit n"
  unfolding cursors_fit_def
proof (intro allI impI)
  fix offset assume "offset < n"
  with n have o: "length (int_dec (int offset)) \<le> 18" by (intro length_small_int) simp
  have p: "length (dumps_plain True params) \<le> 2800" using fit by (simp add: params_fit_def length_dumps)
  have one: "length (int_dec 1) = 1" by (simp add: int_dec_def nat_dec.simps)
  have keys: "length (json_string True (str ''v'')) = 3" "length (json_string True (str ''content_sha256'')) = 16"
    "length (json_string True (str ''route'')) = 7" "length (json_string True (str ''params'')) = 8"
    "length (json_string True (str ''limit'')) = 7" "length (json_string True (str ''offset'')) = 8"
    by (simp_all add: json_string_plain py_simps)
  have r: "length (json_string True (str route)) \<le> 11"
    using route by (auto simp: json_string_plain py_simps)
  show "length (encode_cursor op (cursor_payload op route params (int limit) offset)) \<le> 4096"
    using o p r one keys sha_plain [OF sha, of True] length_small_int [OF limit]
    by (simp add: length_encode_cursor cursor_payload_def params_obj_def)
qed

text \<open>C23: Paging terminates and is complete. Over a projection with a well-formed digest and fewer than
  \<open>10 ^ 18\<close> matching items, for a limit from 1 to 100 and request parameters that are texts without
  lone surrogates, or null, and whose JSON text has at most 2800 characters, a client that starts
  without a cursor and keeps asking with the cursor of the last answer gets every item exactly
  once and in order, in pages of at most the limit, and reaches the answer without a cursor after
  at most one request more than the number of full pages; every cursor it is given is accepted
  when it comes back. (Longer parameters, as of a search for several hundred non-ASCII
  characters, can give a cursor of more than 4096 characters, which the service refuses.)\<close>

theorem paging_terminates:
  assumes "SHA256_RE (op_content_sha256 op)" and "flat params" and "params_fit params"
    and "route \<in> {''search'', ''conflicts'', ''neighbors''}"
    and "0 < limit" and "limit \<le> 100" and "length items < 10 ^ 18"
  shows "\<exists>pages. follow (Suc (length items)) (page_of feq op items route params limit) None = Some pages
    \<and> concat pages = items \<and> (\<forall>p \<in> set pages. length p \<le> limit)
    \<and> length pages \<le> Suc (length items div limit)"
proof -
  have l: "limit < 10 ^ 18" using assms(6) by simp
  have "cursors_fit op route params limit (length items)"
    using assms(7) by (intro cursors_fit_params assms(1,3,4) l) simp
  from follow_from [OF assms(1,2,5) l assms(7) this, of None 0 "Suc (length items)" feq] show ?thesis by simp
qed

definition demo_projection :: OntologyProjection where
  "demo_projection = \<lparr>op_meta = [], op_content_sha256 = replicate 64 97, op_cursor_key = [],
     op_collections = [], op_relationships = [], op_conflicts = [], op_nodes = []\<rparr>"

theorem paging_terminates_witness:
  "\<exists>pages. follow 4 (page_of (\<lambda>_ _. False) demo_projection [JInt 1, JInt 2, JInt 3] ''search''
      (params_obj [(''kind'', JNull)]) 2) None = Some pages
    \<and> concat pages = [JInt 1, JInt 2, JInt 3] \<and> length pages \<le> 2"
proof -
  have flat: "flat (params_obj [(''kind'', JNull)])"
    by (simp add: flat_def params_obj_def encodable_str)
  have sha: "SHA256_RE (op_content_sha256 demo_projection)"
    by (simp add: demo_projection_def SHA256_RE_def list_all_iff is_hex_char_def)
  have fit: "params_fit (params_obj [(''kind'', JNull)])"
    by (simp add: params_fit_def length_dumps params_obj_def json_string_plain py_simps)
  from paging_terminates [OF sha flat fit, of "''search''" 2 "[JInt 1, JInt 2, JInt 3]" "\<lambda>_ _. False"]
  obtain pages where "follow (Suc (length [JInt 1, JInt 2, JInt 3])) (page_of (\<lambda>_ _. False) demo_projection
      [JInt 1, JInt 2, JInt 3] ''search'' (params_obj [(''kind'', JNull)]) 2) None = Some pages"
    "concat pages = [JInt 1, JInt 2, JInt 3]" "length pages \<le> Suc (length [JInt 1, JInt 2, JInt 3] div 2)"
    by fastforce
  moreover have "Suc (length [JInt 1, JInt 2, JInt 3]) = 4" "Suc (length [JInt 1, JInt 2, JInt 3] div 2) = 2"
    by simp_all
  ultimately show ?thesis by metis
qed

end
