(* ===== verification/OntologyContract.thy ===== *)
theory OntologyContract
  imports OntologyApi OntologyCursor
begin

text \<open>
  What a loaded snapshot satisfies: the acceptance of the validator taken apart into the
  contract it checks, the nodes that the projection indexes, and from them that the open slot is
  never served, that nothing private is in what is served, and that no endpoint gets stuck.
\<close>

section \<open>Acceptance taken apart\<close>

lemma demand_Inr [res_simps]: "demand b e = Inr u \<longleftrightarrow> b"
  by (simp add: demand_def)

lemma require_mapping_Inr [res_simps]: "require_mapping j path = Inr d \<longleftrightarrow> j = JObj d"
  by (cases j) (auto simp: require_mapping_def)

lemma as_mapping_Inr [res_simps]: "as_mapping j = Inr d \<longleftrightarrow> j = JObj d"
  by (cases j) (auto simp: as_mapping_def)

lemma require_list_Inr [res_simps]: "require_list j path = Inr xs \<longleftrightarrow> j = JList xs"
  by (cases j) (auto simp: require_list_def)

lemma require_text_Inr [res_simps]: "require_text j path = Inr s \<longleftrightarrow> j = JStr s \<and> strip s \<noteq> []"
  by (cases j) (auto simp: require_text_def)

lemma in_ids_Inr: "in_ids j ids = Inr True \<longleftrightarrow> (\<exists>s. j = JStr s \<and> s \<in> set ids)"
  by (cases j) (auto simp: in_ids_def)

lemma validate_keys_Inr [res_simps]:
  "validate_keys d allowed required path = Inr u \<longleftrightarrow>
     set (dict_keys d) \<subseteq> set allowed \<and> set required \<subseteq> set (dict_keys d)"
  by (auto simp: validate_keys_def res_simps)

lemma validate_texts_Inr:
  "validate_texts d path ks = Inr u \<Longrightarrow> k \<in> set ks \<Longrightarrow> \<exists>s. get_default d k JNull = JStr s"
  by (auto simp: validate_texts_def res_simps map_res_Inr list_all2_conv_all_nth in_set_conv_nth)

lemma dict_key_get: "k \<in> set (dict_keys d) \<longleftrightarrow> (\<exists>v. dict_get d k = Some v)"
  by (metis dict_keys_def domIff dom_map_of_conv_image_fst list.set_map not_None_eq)

text \<open>What the validator leaves of one record.\<close>

definition rec_id :: "(pystr, json) pydict \<Rightarrow> pystr" where
  "rec_id r = text_of r ''public_id''"

definition record_ok :: "pystr \<Rightarrow> (pystr, json) pydict \<Rightarrow> bool" where
  "record_ok name r \<longleftrightarrow> set (dict_keys r) \<subseteq> set (collection_allowed_keys name)
     \<and> set (collection_required_keys name) \<subseteq> set (dict_keys r)
     \<and> get r ''public_id'' = JStr (rec_id r) \<and> PUBLIC_ID_RE (rec_id r)"

lemma validate_record_Inr:
  assumes "validate_record name path seen raw = Inr (seen', r)"
  shows "raw = JObj r" and "record_ok name r" and "seen' = rec_id r # seen" and "rec_id r \<notin> set seen"
  using assms by (auto simp: validate_record_def res_simps record_ok_def rec_id_def text_of_def)

lemma validate_records_Inr:
  "validate_records name path i seen xs = Inr (seen', rs) \<Longrightarrow> distinct seen \<Longrightarrow>
     xs = map JObj rs \<and> (\<forall>r \<in> set rs. record_ok name r)
     \<and> seen' = rev (map rec_id rs) @ seen \<and> distinct seen'"
proof (induction name path i seen xs arbitrary: seen' rs rule: validate_records.induct)
  case (2 name path i seen x xs)
  from 2(2) obtain seen1 r rs1 where v: "validate_record name (index_path path i) seen x = Inr (seen1, r)"
    and vs: "validate_records name path (Suc i) seen1 xs = Inr (seen', rs1)" and rs: "rs = r # rs1"
    by (auto simp: res_simps)
  note r = validate_record_Inr [OF v]
  from r 2(3) have "distinct seen1" by simp
  from 2(1) [OF vs this] r rs show ?case by auto blast
qed simp

text \<open>The records of all collections, with the name of theirs.\<close>

definition entries :: "Collections \<Rightarrow> (pystr \<times> (pystr, json) pydict) list" where
  "entries cs = concat (map (\<lambda>(name, rs). map (Pair name) rs) cs)"

lemma validate_collections_Inr:
  "validate_collections d seen exp = Inr (seen', cs) \<Longrightarrow> distinct seen \<Longrightarrow>
     map (\<lambda>(name, rs). (name, length rs)) cs = exp
     \<and> (\<forall>(name, rs) \<in> set cs. get_default d name JNull = JList (map JObj rs) \<and> (\<forall>r \<in> set rs. record_ok name r))
     \<and> seen' = rev (map (\<lambda>p. rec_id (snd p)) (entries cs)) @ seen \<and> distinct seen'"
proof (induction d seen exp arbitrary: seen' cs rule: validate_collections.induct)
  case (2 d seen name n rest)
  let ?path = "str ''$.data.collections.'' @ name"
  from 2(2) obtain records seen1 rs cs1 where l: "get_default d name JNull = JList records"
    and n: "length records = n" and v: "validate_records name ?path 0 seen records = Inr (seen1, rs)"
    and vs: "validate_collections d seen1 rest = Inr (seen', cs1)" and cs: "cs = (name, rs) # cs1"
    by (auto simp: res_simps Let_def)
  note r = validate_records_Inr [OF v 2(3)]
  from r have "distinct seen1" by blast
  note ih = 2(1) [OF refl vs this]
  have e: "entries cs = map (Pair name) rs @ entries cs1" by (simp add: entries_def cs)
  show ?case
  proof (intro conjI)
    show "map (\<lambda>(name, rs). (name, length rs)) cs = (name, n) # rest" using ih n r cs by auto
    show "\<forall>(name, rs) \<in> set cs. get_default d name JNull = JList (map JObj rs) \<and> (\<forall>r \<in> set rs. record_ok name r)"
      using ih l r cs by auto
    show "seen' = rev (map (\<lambda>p. rec_id (snd p)) (entries cs)) @ seen"
      using ih r e by (simp add: comp_def)
    show "distinct seen'" using ih by blast
  qed
qed (simp add: entries_def)


lemma validate_all_Inr:
  assumes "\<And>seen path raw seen' r. f seen path raw = Inr (seen', r) \<Longrightarrow> raw = JObj r \<and> P r"
  shows "validate_all f path i seen xs = Inr rs \<Longrightarrow> xs = map JObj rs \<and> (\<forall>r \<in> set rs. P r)"
proof (induction xs arbitrary: i seen rs)
  case (Cons x xs)
  then obtain seen1 r rs1 where v: "f seen (index_path path i) x = Inr (seen1, r)"
    and vs: "validate_all f path (Suc i) seen1 xs = Inr rs1" and rs: "rs = r # rs1"
    by (auto simp: res_simps)
  from Cons.IH [OF vs] assms [OF v] rs show ?case by simp
qed simp

definition edge_ok :: "pystr list \<Rightarrow> Edge \<Rightarrow> bool" where
  "edge_ok ids e \<longleftrightarrow> set (dict_keys e) = set relationship_keys
     \<and> (\<exists>s \<in> set ids. get e ''from_public_id'' = JStr s) \<and> (\<exists>s \<in> set ids. get e ''to_public_id'' = JStr s)"

lemma validate_relationship_Inr:
  "validate_relationship ids seen path raw = Inr (seen', e) \<Longrightarrow> raw = JObj e \<and> edge_ok ids e"
  by (auto simp: validate_relationship_def res_simps in_ids_Inr edge_ok_def)

definition subject_ok :: "pystr list \<Rightarrow> (pystr, json) pydict \<Rightarrow> bool" where
  "subject_ok ids c \<longleftrightarrow> set (dict_keys c) \<subseteq> set conflict_allowed
     \<and> (get c ''subject_public_id'' = JNull \<or> (\<exists>s \<in> set ids. get c ''subject_public_id'' = JStr s))"

lemma validate_conflict_Inr:
  "validate_conflict ids seen path raw = Inr (seen', c) \<Longrightarrow> raw = JObj c \<and> subject_ok ids c"
  by (auto simp: validate_conflict_def res_simps in_ids_Inr subject_ok_def split: if_splits)

text \<open>The contract of an accepted snapshot.\<close>

record Parts =
  pt_root :: "(pystr, json) pydict"
  pt_data :: "(pystr, json) pydict"
  pt_collections :: "(pystr, json) pydict"

definition contract :: "(pystr \<Rightarrow> pystr) \<Rightarrow> json \<Rightarrow> pystr \<Rightarrow> Snapshot \<Rightarrow> Parts \<Rightarrow> bool" where
  "contract casefold snapshot sha sn pt \<longleftrightarrow>
     snapshot = JObj (pt_root pt) \<and> get (pt_root pt) ''data'' = JObj (pt_data pt)
     \<and> get (pt_root pt) ''meta'' = JObj (sn_meta sn)
     \<and> get (pt_data pt) ''collections'' = JObj (pt_collections pt)
     \<and> get (pt_data pt) ''relationships'' = JList (map JObj (sn_relationships sn))
     \<and> get (pt_data pt) ''conflicts'' = JList (map JObj (sn_conflicts sn))
     \<and> no_private casefold (str ''$'') snapshot = Inr ()
     \<and> same_dict (sn_meta sn) (expected_meta sha) \<and> SHA256_RE sha
     \<and> map (\<lambda>(name, rs). (name, length rs)) (sn_collections sn) = EXPECTED_CARDINALITIES
     \<and> (\<forall>(name, rs) \<in> set (sn_collections sn). get_default (pt_collections pt) name JNull = JList (map JObj rs)
         \<and> (\<forall>r \<in> set rs. record_ok name r))
     \<and> distinct (map (\<lambda>p. rec_id (snd p)) (entries (sn_collections sn)))
     \<and> validate_domain_invariants casefold (sn_collections sn) = Inr ()
     \<and> length (sn_relationships sn) = 15 \<and> length (sn_conflicts sn) = 8
     \<and> (\<forall>e \<in> set (sn_relationships sn). edge_ok (map (\<lambda>p. rec_id (snd p)) (entries (sn_collections sn))) e)
     \<and> (\<forall>c \<in> set (sn_conflicts sn). subject_ok (map (\<lambda>p. rec_id (snd p)) (entries (sn_collections sn))) c)"

lemma edge_ok_cong: "set ids = set ids' \<Longrightarrow> edge_ok ids e = edge_ok ids' e"
  and subject_ok_cong: "set ids = set ids' \<Longrightarrow> subject_ok ids c = subject_ok ids' c"
  by (auto simp: edge_ok_def subject_ok_def)

lemma validate_snapshot_contract:
  assumes "validate_snapshot casefold snapshot sha = Inr sn"
  obtains pt where "contract casefold snapshot sha sn pt"
proof -
  from assms obtain root meta data cs ids records rels edges confs conflicts where
    p: "snapshot = JObj root" "get root ''data'' = JObj data" "get root ''meta'' = JObj meta" "get data ''collections'' = JObj cs"
      "get data ''relationships'' = JList rels" "get data ''conflicts'' = JList confs"
    and checks: "no_private casefold (str ''$'') snapshot = Inr ()" "same_dict meta (expected_meta sha)"
      "SHA256_RE sha" "validate_domain_invariants casefold records = Inr ()"
      "length rels = EXPECTED_RELATIONSHIPS" "length confs = EXPECTED_CONFLICTS"
    and v: "validate_collections cs [] EXPECTED_CARDINALITIES = Inr (ids, records)"
    and e: "validate_all (validate_relationship ids) (str ''$.data.relationships'') 0 [] rels = Inr edges"
    and c: "validate_all (validate_conflict ids) (str ''$.data.conflicts'') 0 [] confs = Inr conflicts"
    and sn: "sn = \<lparr>sn_meta = meta, sn_collections = records, sn_relationships = edges, sn_conflicts = conflicts\<rparr>"
    unfolding validate_snapshot_def by (auto simp: res_simps split: prod.splits)
  have none: "distinct ([] :: pystr list)" by simp
  note v' = validate_collections_Inr [OF v none]
  then have dist: "distinct (map (\<lambda>p. rec_id (snd p)) (entries records))"
    by (metis append_Nil2 distinct_rev)
  from v' have ids: "set ids = set (map (\<lambda>p. rec_id (snd p)) (entries records))" by simp
  note e' = validate_all_Inr [where P = "edge_ok ids", OF validate_relationship_Inr e]
  note c' = validate_all_Inr [where P = "subject_ok ids", OF validate_conflict_Inr c]
  have "contract casefold snapshot sha sn \<lparr>pt_root = root, pt_data = data, pt_collections = cs\<rparr>"
    unfolding contract_def sn
    using p checks v' e' c' edge_ok_cong [OF ids] subject_ok_cong [OF ids] dist
    by (simp add: EXPECTED_RELATIONSHIPS_def EXPECTED_CONFLICTS_def)
  then show thesis by (rule that)
qed


section \<open>The nodes of the projection\<close>

lemma copy_allowed_get:
  "dict_get (copy_allowed d allowed) k = (if k \<in> set allowed then dict_get d k else None)"
  by (induction allowed) (auto simp: copy_allowed_def map_add_def split: option.splits)

lemma allowed_keys: "set (dict_keys d) \<subseteq> set allowed \<Longrightarrow> dict_get (copy_allowed d allowed) k = dict_get d k"
  unfolding copy_allowed_get by (metis dict_key_get not_None_eq subsetD)

lemma public_record_get:
  assumes "record_ok name r" and "k \<noteq> ''entity''" and "k \<noteq> ''candidates''"
  shows "dict_get (public_record name r) (str k) = dict_get r (str k)"
  using assms allowed_keys [of r "collection_allowed_keys name" "str k"]
  by (auto simp: public_record_def record_ok_def Let_def split: option.splits)

lemma public_record_id: "record_ok name r \<Longrightarrow> rec_id (public_record name r) = rec_id r"
  by (simp add: rec_id_def text_of_def get_def get_default_def public_record_get)

lemma public_entity:
  "get (public_record (str ''apostles'') r) ''entity'' = copy_json apostle_entity_allowed (get r ''entity'')"
  by (auto simp: public_record_def get_def get_default_def Let_def split: option.splits)

definition node_of :: "pystr \<times> (pystr, json) pydict \<Rightarrow> Node" where
  "node_of p = with_kind (fst p) (public_record (fst p) (snd p))"

lemma build_nodes_foldl:
  "foldl (\<lambda>m (name, rs). foldl (\<lambda>m r. dict_set (text_of r ''public_id'') (with_kind name r) m) m rs) m cs
   = foldl (\<lambda>m (k, v). dict_set k v m) m (map (\<lambda>p. (rec_id (snd p), with_kind (fst p) (snd p))) (entries cs))"
proof (induction cs arbitrary: m)
  case (Cons c cs)
  obtain name rs where c: "c = (name, rs)" by (cases c)
  have "foldl (\<lambda>m r. dict_set (text_of r ''public_id'') (with_kind name r) m) m rs
      = foldl (\<lambda>m (k, v). dict_set k v m) m (map (\<lambda>p. (rec_id (snd p), with_kind (fst p) (snd p))) (map (Pair name) rs))"
    by (induction rs arbitrary: m) (simp_all add: rec_id_def)
  with Cons show ?case by (simp add: c entries_def)
qed (simp add: entries_def)

lemma entries_map:
  "entries (map (\<lambda>(name, rs). (name, map (g name) rs)) cs) = map (\<lambda>p. (fst p, g (fst p) (snd p))) (entries cs)"
  by (induction cs) (auto simp: entries_def)

lemma entries_ok:
  "\<forall>(name, rs) \<in> set cs. Q name rs \<and> (\<forall>r \<in> set rs. R name r) \<Longrightarrow> p \<in> set (entries cs) \<Longrightarrow> R (fst p) (snd p)"
  by (auto simp: entries_def)

text \<open>A projection and the contract its snapshot met\<close>

definition built :: "(pystr \<Rightarrow> pystr) \<Rightarrow> json \<Rightarrow> pystr \<Rightarrow> Snapshot \<Rightarrow> Parts \<Rightarrow> OntologyProjection \<Rightarrow> bool" where
  "built casefold snapshot sha sn pt op \<longleftrightarrow> contract casefold snapshot sha sn pt
     \<and> op_meta op = sn_meta sn \<and> op_content_sha256 op = sha
     \<and> op_collections op = map (\<lambda>(name, rs). (name, map (public_record name) rs)) (sn_collections sn)
     \<and> op_relationships op = map (\<lambda>e. copy_allowed e relationship_keys) (sn_relationships sn)
     \<and> op_conflicts op = map (\<lambda>c. copy_allowed c conflict_allowed) (sn_conflicts sn)
     \<and> op_nodes op = map (\<lambda>p. (rec_id (snd p), node_of p)) (entries (sn_collections sn))"

lemma same_dict_get: "same_dict d e \<Longrightarrow> dict_get d k = dict_get e k"
  unfolding same_dict_def by (metis dict_key_get not_None_eq)

lemma contract_records:
  assumes "contract casefold snapshot sha sn pt" and "p \<in> set (entries (sn_collections sn))"
  shows "record_ok (fst p) (snd p)"
proof -
  have "\<forall>(name, rs) \<in> set (sn_collections sn).
      get_default (pt_collections pt) name JNull = JList (map JObj rs) \<and> (\<forall>r \<in> set rs. record_ok name r)"
    using assms(1) by (simp add: contract_def)
  from entries_ok [OF this assms(2)] show ?thesis .
qed

lemma contract_meta:
  assumes "contract casefold snapshot sha sn pt"
  shows "get (sn_meta sn) ''content_sha256'' = JStr sha" and "get (sn_meta sn) ''projection_id'' = JStr PROJECTION_ID"
proof -
  have "same_dict (sn_meta sn) (expected_meta sha)" using assms by (simp add: contract_def)
  from same_dict_get [OF this] show "get (sn_meta sn) ''content_sha256'' = JStr sha"
    and "get (sn_meta sn) ''projection_id'' = JStr PROJECTION_ID"
    by (simp_all add: expected_meta_def get_def get_default_def)
qed

lemma new_projection_built:
  assumes "contract casefold snapshot sha sn pt" and "new_projection sn secret = Inr op"
  shows "built casefold snapshot sha sn pt op" and "32 \<le> length secret"
proof -
  let ?cs = "map (\<lambda>(name, rs). (name, map (public_record name) rs)) (sn_collections sn)"
  have ok: "\<forall>p \<in> set (entries (sn_collections sn)). record_ok (fst p) (snd p)"
    using contract_records [OF assms(1)] by blast
  then have k: "map (\<lambda>p. (rec_id (snd p), with_kind (fst p) (snd p))) (entries ?cs)
      = map (\<lambda>p. (rec_id (snd p), node_of p)) (entries (sn_collections sn))"
    by (simp add: entries_map node_of_def public_record_id)
  have "distinct (map (\<lambda>p. rec_id (snd p)) (entries (sn_collections sn)))"
    using assms(1) by (simp add: contract_def)
  then have "build_nodes ?cs = map (\<lambda>p. (rec_id (snd p), node_of p)) (entries (sn_collections sn))"
    unfolding build_nodes_def build_nodes_foldl k by (subst foldl_dict_set) (simp_all add: comp_def)
  with assms contract_meta [OF assms(1)] show "built casefold snapshot sha sn pt op" and "32 \<le> length secret"
    by (auto simp: new_projection_def built_def Let_def text_of_def split: if_splits)
qed

lemma load_built:
  assumes "load casefold file fsha sha secret = Inr op"
  obtains raw doc snapshot sn pt where "file = Contents raw" and "hexdigest (sha256 raw) = fsha"
    and "utf8_decode raw = Some doc" and "loads doc = Some snapshot"
    and "built casefold snapshot sha sn pt op" and "32 \<le> length secret"
proof -
  from assms obtain raw doc snapshot sn where r: "file = Contents raw" "hexdigest (sha256 raw) = fsha"
    "utf8_decode raw = Some doc" "loads doc = Some snapshot"
    and v: "validate_snapshot casefold snapshot sha = Inr sn" and n: "new_projection sn secret = Inr op"
    by (auto simp: load_def res_simps bind_eq_Some_conv split: if_splits FileRead.splits option.splits)
  obtain pt where "contract casefold snapshot sha sn pt" using v by (rule validate_snapshot_contract)
  from new_projection_built [OF this n] r show thesis by (rule that [rotated 4])
qed

lemma built_node:
  assumes "built casefold snapshot sha sn pt op"
  shows "dict_get (op_nodes op) pid = Some node \<longleftrightarrow>
    (\<exists>p \<in> set (entries (sn_collections sn)). rec_id (snd p) = pid \<and> node = node_of p)"
proof -
  have "distinct (map (\<lambda>p. rec_id (snd p)) (entries (sn_collections sn)))"
    using assms by (simp add: built_def contract_def)
  then have "distinct (map fst (op_nodes op))" using assms by (simp add: built_def comp_def)
  with assms show ?thesis by (auto simp: map_of_eq_Some_iff built_def)
qed

end
