(* ===== verification/OntologyProps.thy ===== *)
theory OntologyProps
  imports OntologyContract
begin

text \<open>
  The promises of the ontology service over a loaded snapshot: the open apostle slot is never
  served or found, nothing private is in what is served, and with a loaded projection no
  endpoint ends in an exception.
\<close>

section \<open>The roster\<close>

lemma positions_unique:
  assumes "positions_ok n rs" and "r \<in> set rs" and "r' \<in> set rs" and "int_position r = int_position r'"
  shows "r = r'"
proof -
  have "sort (map (\<lambda>r. the (int_position r)) rs) = [1..n]" using assms(1) by (simp add: positions_ok_def)
  then have "distinct (map (\<lambda>r. the (int_position r)) rs)" by (metis distinct_sort distinct_upto)
  then have "inj_on (\<lambda>r. the (int_position r)) (set rs)" by (simp add: distinct_map)
  from inj_onD [OF this _ assms(2,3)] assms(4) show ?thesis by simp
qed

lemma at_position_Inr: "at_position n rs = Inr r \<Longrightarrow> r \<in> set rs \<and> int_position r = Some n"
  by (auto simp: at_position_def find_Some_iff in_set_conv_nth split: option.splits)

lemma positions_range:
  assumes "positions_ok n rs" and "r \<in> set rs"
  shows "\<exists>i. int_position r = Some i \<and> 1 \<le> i \<and> i \<le> n"
proof -
  have "set (map (\<lambda>r. the (int_position r)) rs) = {1..n}"
    using assms(1) unfolding positions_ok_def by (metis set_sort set_upto)
  with assms(2) have "the (int_position r) \<in> {1..n}" by (metis (no_types, lifting) imageI list.set_map)
  moreover from assms obtain i where "int_position r = Some i" by (auto simp: positions_ok_def)
  ultimately show ?thesis by simp
qed

lemma contract_names:
  assumes "contract casefold snapshot sha sn pt"
  shows "map fst (sn_collections sn) = map fst EXPECTED_CARDINALITIES"
proof -
  have "map (\<lambda>(name, rs). (name, length rs)) (sn_collections sn) = EXPECTED_CARDINALITIES"
    using assms by (simp add: contract_def)
  then have "map fst (map (\<lambda>(name, rs). (name, length rs)) (sn_collections sn)) = map fst EXPECTED_CARDINALITIES"
    by simp
  then show ?thesis by (simp add: comp_def case_prod_beta)
qed

lemma contract_collection:
  assumes "contract casefold snapshot sha sn pt"
  shows "p \<in> set (entries (sn_collections sn)) \<Longrightarrow> fst p = str name \<Longrightarrow> snd p \<in> set (collection (sn_collections sn) name)"
    and "p \<in> set (entries (sn_collections sn)) \<Longrightarrow> fst p \<in> set (map fst EXPECTED_CARDINALITIES)"
    and "r \<in> set (collection (sn_collections sn) name) \<Longrightarrow> (str name, r) \<in> set (entries (sn_collections sn))"
proof -
  have "distinct (map fst EXPECTED_CARDINALITIES)" by (simp add: EXPECTED_CARDINALITIES_def)
  then have d: "distinct (map fst (sn_collections sn))" by (simp only: contract_names [OF assms])
  show "p \<in> set (entries (sn_collections sn)) \<Longrightarrow> fst p = str name \<Longrightarrow> snd p \<in> set (collection (sn_collections sn) name)"
  proof -
    assume "p \<in> set (entries (sn_collections sn))" and n: "fst p = str name"
    then obtain rs where "(str name, rs) \<in> set (sn_collections sn)" and "snd p \<in> set rs"
      by (auto simp: entries_def)
    then show ?thesis by (simp add: collection_def map_of_is_SomeI [OF d])
  qed
  show "p \<in> set (entries (sn_collections sn)) \<Longrightarrow> fst p \<in> set (map fst EXPECTED_CARDINALITIES)"
    unfolding contract_names [OF assms, symmetric] by (force simp: entries_def)
  show "r \<in> set (collection (sn_collections sn) name) \<Longrightarrow> (str name, r) \<in> set (entries (sn_collections sn))"
  proof -
    assume r: "r \<in> set (collection (sn_collections sn) name)"
    then obtain rs where "dict_get (sn_collections sn) (str name) = Some rs" and "r \<in> set rs"
      by (cases "dict_get (sn_collections sn) (str name)") (auto simp: collection_def)
    from map_of_SomeD [OF this(1)] this(2) show ?thesis by (auto simp: entries_def)
  qed
qed

text \<open>The apostles of an accepted snapshot\<close>

lemma roster:
  assumes "contract casefold snapshot sha sn pt"
  defines "aps \<equiv> collection (sn_collections sn) ''apostles''"
  shows "positions_ok 12 aps"
    and "r \<in> set aps \<Longrightarrow> int_position r \<noteq> Some 9 \<Longrightarrow>
      has_text r ''selection_state'' (str ''SELECTED'') \<and> is_mapping (get r ''entity'')"
    and "\<exists>r \<in> set aps. int_position r = Some 9"
    and "r \<in> set aps \<Longrightarrow> int_position r = Some 9 \<Longrightarrow>
      has_text r ''selection_state'' (str ''CONFLICT_PENDING'') \<and> get r ''entity'' = JNull"
proof -
  have v: "validate_domain_invariants casefold (sn_collections sn) = Inr ()"
    using assms(1) by (simp add: contract_def)
  then obtain us where p: "positions_ok 12 aps" and sel: "map_res selected_slot aps = Inr us"
    and s9: "slot9_ok aps = Inr ()"
    by (auto simp: validate_domain_invariants_def Let_def aps_def res_simps)
  show "positions_ok 12 aps" by (rule p)
  from s9 obtain r9 where at: "at_position 9 aps = Inr r9"
    and r9: "has_text r9 ''selection_state'' (str ''CONFLICT_PENDING'')" "get r9 ''entity'' = JNull"
    by (auto simp: slot9_ok_def res_simps)
  from at_position_Inr [OF at] show "\<exists>r \<in> set aps. int_position r = Some 9" by blast
  show "r \<in> set aps \<Longrightarrow> int_position r \<noteq> Some 9 \<Longrightarrow>
      has_text r ''selection_state'' (str ''SELECTED'') \<and> is_mapping (get r ''entity'')"
  proof -
    assume "r \<in> set aps" and n: "int_position r \<noteq> Some 9"
    then obtain u where "selected_slot r = Inr u"
      using sel by (auto simp: map_res_Inr list_all2_conv_all_nth in_set_conv_nth)
    with n show ?thesis by (auto simp: selected_slot_def res_simps split: if_splits)
  qed
  show "r \<in> set aps \<Longrightarrow> int_position r = Some 9 \<Longrightarrow>
      has_text r ''selection_state'' (str ''CONFLICT_PENDING'') \<and> get r ''entity'' = JNull"
    using positions_unique [OF p, of r r9] at_position_Inr [OF at] r9 by metis
qed

section \<open>The nodes\<close>

lemma node_of_get:
  assumes "record_ok (fst p) (snd p)" and "k \<notin> {''entity'', ''candidates'', ''kind''}"
  shows "get (node_of p) k = get (snd p) k"
  using assms by (simp add: node_of_def with_kind_def get_def get_default_def public_record_get)

lemma node_kind:
  "fst p \<in> set (map fst EXPECTED_CARDINALITIES) \<Longrightarrow> is_kind ''apostle'' (node_of p) \<longleftrightarrow> fst p = str ''apostles''"
  by (auto simp: node_of_def with_kind_def is_kind_def has_text_def get_def get_default_def kind_of_def
      EXPECTED_CARDINALITIES_def COLLECTION_KINDS_def)

lemma node_pending:
  assumes c: "contract casefold snapshot sha sn pt" and p: "p \<in> set (entries (sn_collections sn))"
  shows "pending (node_of p) \<longleftrightarrow> fst p = str ''apostles'' \<and> int_position (snd p) = Some 9"
proof -
  note ok = contract_records [OF c p] and names = contract_collection [OF c]
  have "has_text (node_of p) ''selection_state'' s \<longleftrightarrow> has_text (snd p) ''selection_state'' s" for s
    using node_of_get [OF ok, of "''selection_state''"] by (simp add: has_text_def)
  then have "pending (node_of p) \<longleftrightarrow> fst p = str ''apostles''
      \<and> has_text (snd p) ''selection_state'' (str ''CONFLICT_PENDING'')"
    using node_kind [OF names(2) [OF p]] by (simp add: pending_def)
  moreover have "has_text (snd p) ''selection_state'' (str ''CONFLICT_PENDING'') \<longleftrightarrow> int_position (snd p) = Some 9"
    if "fst p = str ''apostles''"
  proof -
    have "snd p \<in> set (collection (sn_collections sn) ''apostles'')" using names(1) [OF p that] .
    with roster(2,4) [OF c] show ?thesis by (fastforce simp: has_text_def)
  qed
  ultimately show ?thesis by blast
qed

lemma open_slot:
  assumes c: "contract casefold snapshot sha sn pt"
  obtains p9 where "p9 \<in> set (entries (sn_collections sn))"
    and "\<And>p. p \<in> set (entries (sn_collections sn)) \<Longrightarrow> pending (node_of p) \<longleftrightarrow> p = p9"
    and "get (snd p9) ''position'' = JInt 9" and "get (snd p9) ''entity'' = JNull" and "fst p9 = str ''apostles''"
proof -
  from roster(3) [OF c] obtain r where r: "r \<in> set (collection (sn_collections sn) ''apostles'')"
    and p9: "int_position r = Some 9" by blast
  show thesis
  proof (rule that [of "(str ''apostles'', r)"])
    show "(str ''apostles'', r) \<in> set (entries (sn_collections sn))" using contract_collection(3) [OF c r] .
    show "pending (node_of p) \<longleftrightarrow> p = (str ''apostles'', r)" if p: "p \<in> set (entries (sn_collections sn))" for p
      unfolding node_pending [OF c p]
      using contract_collection(1) [OF c p] positions_unique [OF roster(1) [OF c] _ r, of "snd p"] p9
      by (cases p) auto
    show "get (snd (str ''apostles'', r)) ''position'' = JInt 9"
      using p9 by (auto simp: int_position_def split: json.splits)
    show "get (snd (str ''apostles'', r)) ''entity'' = JNull" using roster(4) [OF c r p9] by simp
  qed simp
qed


section \<open>Nothing private is served\<close>

fun keys_in :: "json \<Rightarrow> pystr set" where
  "keys_in (JObj kvs) = fst ` set kvs \<union> (\<Union>p \<in> set kvs. keys_in (snd p))"
| "keys_in (JList xs) = (\<Union>x \<in> set xs. keys_in x)"
| "keys_in j = {}"

fun strings_in :: "json \<Rightarrow> pystr set" where
  "strings_in (JObj kvs) = (\<Union>p \<in> set kvs. strings_in (snd p))"
| "strings_in (JList xs) = (\<Union>x \<in> set xs. strings_in x)"
| "strings_in (JStr s) = {s}"
| "strings_in j = {}"

definition key_public :: "(pystr \<Rightarrow> pystr) \<Rightarrow> pystr \<Rightarrow> bool" where
  "key_public casefold k \<longleftrightarrow> casefold k \<notin> set forbidden_keys
     \<and> (endswith (casefold k) (str ''sha256'') \<longrightarrow> casefold k = str ''content_sha256'')"

definition nothing_private :: "(pystr \<Rightarrow> pystr) \<Rightarrow> json \<Rightarrow> bool" where
  "nothing_private casefold j \<longleftrightarrow> (\<forall>k \<in> keys_in j. key_public casefold k)
     \<and> (\<forall>s \<in> strings_in j. \<forall>m \<in> set forbidden_markers. \<not> contains m (casefold s))"

lemma np_obj: "nothing_private cf (JObj kvs) \<longleftrightarrow> (\<forall>p \<in> set kvs. key_public cf (fst p) \<and> nothing_private cf (snd p))"
  by (auto simp: nothing_private_def)

lemma np_list: "nothing_private cf (JList xs) \<longleftrightarrow> (\<forall>x \<in> set xs. nothing_private cf x)"
  by (auto simp: nothing_private_def)

lemma np_null: "nothing_private cf JNull"
  by (simp add: nothing_private_def)

lemma no_private_np:
  "no_private cf path j = Inr () \<Longrightarrow> nothing_private cf j"
  "no_private_fields cf path kvs = Inr () \<Longrightarrow> nothing_private cf (JObj kvs)"
  "no_private_items cf path i xs = Inr () \<Longrightarrow> nothing_private cf (JList xs)"
  by (induction cf path j and cf path kvs and cf path i xs
      rule: no_private_no_private_fields_no_private_items.induct)
    (auto simp: np_obj np_list res_simps key_public_def nothing_private_def [of _ "JStr _"]
      nothing_private_def [of _ JNull] nothing_private_def [of _ "JBool _"] nothing_private_def [of _ "JInt _"]
      nothing_private_def [of _ "JFloat _"] split: if_splits)

lemma np_get: "nothing_private cf (JObj d) \<Longrightarrow> dict_get d k = Some v \<Longrightarrow> key_public cf k \<and> nothing_private cf v"
  by (auto simp: np_obj dest!: map_of_SomeD)

lemma np_get_default: "nothing_private cf (JObj d) \<Longrightarrow> nothing_private cf (get_default d k JNull)"
  by (auto simp: get_default_def np_null dest: np_get split: option.split)

lemma np_copy: "nothing_private cf (JObj d) \<Longrightarrow> nothing_private cf (JObj (copy_allowed d allowed))"
  unfolding np_obj [of cf "copy_allowed d allowed"]
proof
  fix p assume np: "nothing_private cf (JObj d)" and "p \<in> set (copy_allowed d allowed)"
  then have "dict_get d (fst p) = Some (snd p)" by (auto simp: copy_allowed_def split: option.splits)
  with np_get [OF np] show "key_public cf (fst p) \<and> nothing_private cf (snd p)" by blast
qed

lemma np_copy_json: "nothing_private cf j \<Longrightarrow> nothing_private cf (copy_json allowed j)"
  by (cases j) (simp_all add: copy_json_def np_null np_copy)

lemma np_set:
  "nothing_private cf (JObj d) \<Longrightarrow> key_public cf k \<Longrightarrow> nothing_private cf v \<Longrightarrow> nothing_private cf (JObj (dict_set k v d))"
  unfolding np_obj by (auto dest!: subsetD [OF set_dict_set])

lemma np_public_record:
  assumes ok: "record_ok name r" and np: "nothing_private cf (JObj r)"
  shows "nothing_private cf (JObj (public_record name r))"
proof -
  have c: "nothing_private cf (JObj (copy_allowed r a))" for a using np by (rule np_copy)
  show ?thesis
  proof (cases "name = str ''apostles''")
    case True
    with ok have "str ''entity'' \<in> set (dict_keys r)"
      by (auto simp: record_ok_def collection_required_keys_def)
    then obtain e where e: "dict_get r (str ''entity'') = Some e" by (auto simp: dict_key_get)
    from np_get [OF np e] have s: "nothing_private cf (JObj (dict_set (str ''entity'')
        (copy_json apostle_entity_allowed e) (copy_allowed r a)))" for a
      using c np_copy_json by (intro np_set) auto
    have e': "get r ''entity'' = e" using e by (simp add: get_def get_default_def)
    show ?thesis
    proof (cases "dict_get r (str ''candidates'')")
      case None
      with True s e' show ?thesis by (simp add: public_record_def Let_def)
    next
      case (Some j)
      note j = np_get [OF np Some]
      have "nothing_private cf (JList (case j of JList cs \<Rightarrow> map (copy_json candidate_keys) cs | _ \<Rightarrow> []))"
        using j np_copy_json by (cases j) (auto simp: np_list)
      with True s e' Some j show ?thesis by (auto simp: public_record_def Let_def intro: np_set)
    qed
  qed (simp add: public_record_def c)
qed

lemma contract_np:
  assumes c: "contract cf snapshot sha sn pt"
  shows "p \<in> set (entries (sn_collections sn)) \<Longrightarrow> nothing_private cf (JObj (snd p))"
    and "e \<in> set (sn_relationships sn) \<Longrightarrow> nothing_private cf (JObj e)"
    and "x \<in> set (sn_conflicts sn) \<Longrightarrow> nothing_private cf (JObj x)"
proof -
  have np: "nothing_private cf (JObj (pt_root pt))" using c no_private_np(1) by (auto simp: contract_def)
  have data: "nothing_private cf (JObj (pt_data pt))"
    using np_get_default [OF np, of "str ''data''"] c by (simp add: contract_def get_def)
  have r: "nothing_private cf (JList (map JObj (sn_relationships sn)))"
    using np_get_default [OF data, of "str ''relationships''"] c by (simp add: contract_def get_def)
  have x: "nothing_private cf (JList (map JObj (sn_conflicts sn)))"
    using np_get_default [OF data, of "str ''conflicts''"] c by (simp add: contract_def get_def)
  have cs: "nothing_private cf (JObj (pt_collections pt))"
    using np_get_default [OF data, of "str ''collections''"] c by (simp add: contract_def get_def)
  show "e \<in> set (sn_relationships sn) \<Longrightarrow> nothing_private cf (JObj e)"
    and "x \<in> set (sn_conflicts sn) \<Longrightarrow> nothing_private cf (JObj x)"
    using r x by (auto simp: np_list)
  show "nothing_private cf (JObj (snd p))" if p: "p \<in> set (entries (sn_collections sn))"
  proof -
    obtain rs where "(fst p, rs) \<in> set (sn_collections sn)" and r: "snd p \<in> set rs"
      using p by (auto simp: entries_def)
    then have "get_default (pt_collections pt) (fst p) JNull = JList (map JObj rs)"
      using c by (auto simp: contract_def)
    with np_get_default [OF cs, of "fst p"] r show ?thesis by (auto simp: np_list)
  qed
qed

text \<open>C22: A loaded release serves nothing private. Every record of every collection, every relationship
  and every conflict that the projection can hand out is free, at any depth, of the forbidden
  field names, of digest fields other than the content digest, and of strings that contain a
  path, a database address or a graph identifier, up to the case folding of the loader.\<close>

theorem served_nothing_private:
  assumes "load casefold file fsha sha secret = Inr op"
  shows "(\<forall>c \<in> set (op_collections op). \<forall>r \<in> set (snd c). nothing_private casefold (JObj r))
    \<and> (\<forall>e \<in> set (op_relationships op). nothing_private casefold (JObj e))
    \<and> (\<forall>x \<in> set (op_conflicts op). nothing_private casefold (JObj x))"
proof -
  from load_built [OF assms] obtain snapshot sn pt where b: "built casefold snapshot sha sn pt op" by metis
  then have c: "contract casefold snapshot sha sn pt" by (simp add: built_def)
  have "nothing_private casefold (JObj r)" if "c \<in> set (op_collections op)" and "r \<in> set (snd c)" for c r
  proof -
    from that b obtain name rs r0 where "(name, rs) \<in> set (sn_collections sn)" and "r0 \<in> set rs"
      and r: "r = public_record name r0" by (auto simp: built_def)
    then have "(name, r0) \<in> set (entries (sn_collections sn))" by (force simp: entries_def)
    with contract_records [OF c this] contract_np(1) [OF c this] r show ?thesis
      by (auto intro: np_public_record)
  qed
  with b contract_np(2,3) [OF c] show ?thesis by (auto simp: built_def intro: np_copy)
qed

section \<open>The open slot\<close>

lemma search_hit:
  assumes "s \<in> set (search_hits nfkc cf op q kind)"
  obtains pid node where "(pid, node) \<in> set (op_nodes op)" and "s = JObj (summary node)" and "\<not> pending node"
    and "\<not> (q = str ''om'' \<and> is_kind ''apostle'' node \<and> get node ''position'' = JInt 8)"
  using assms
  by (auto simp: search_hits_def search_match_def dict_values_def split: if_splits prod.splits option.splits)

text \<open>C21: The open slot stays open. In every loaded release exactly one identifier, the apostle at
  position 9 with no entity, answers as conflict-pending and every other one never does; no search
  for anything, under any kind, lists it; and a search for "OM" never lists the apostle at
  position 8, whose abbreviation is OMC.\<close>

theorem open_slot_never_served:
  assumes "load casefold file fsha sha secret = Inr op"
  shows "\<exists>pid node. dict_get (op_nodes op) pid = Some node
    \<and> get node ''position'' = JInt 9 \<and> get node ''entity'' = JNull
    \<and> (\<forall>p. (\<exists>r. get_node op p = Inl (OntologyConflictPending r)) \<longleftrightarrow> p = pid)
    \<and> (\<forall>q kind. set (search_hits nfkc cf op q kind)
         \<subseteq> {JObj (summary n) | n p. dict_get (op_nodes op) p = Some n \<and> p \<noteq> pid})
    \<and> (\<forall>kind. set (search_hits nfkc cf op (str ''om'') kind)
         \<subseteq> {JObj (summary n) | n p. dict_get (op_nodes op) p = Some n
              \<and> \<not> (is_kind ''apostle'' n \<and> get n ''position'' = JInt 8)})"
proof -
  from load_built [OF assms] obtain snapshot sn pt where b: "built casefold snapshot sha sn pt op" by metis
  then have c: "contract casefold snapshot sha sn pt" by (simp add: built_def)
  have d: "distinct (map fst (op_nodes op))" using b by (simp add: built_def contract_def comp_def)
  note node = built_node [OF b]
  obtain p9 where p9: "p9 \<in> set (entries (sn_collections sn))"
    and only: "\<And>p. p \<in> set (entries (sn_collections sn)) \<Longrightarrow> pending (node_of p) \<longleftrightarrow> p = p9"
    and pos: "get (snd p9) ''position'' = JInt 9" and ent: "get (snd p9) ''entity'' = JNull"
    and ap: "fst p9 = str ''apostles''"
    using open_slot [OF c] by blast
  let ?pid = "rec_id (snd p9)"
  have at: "dict_get (op_nodes op) ?pid = Some (node_of p9)" using p9 node by blast
  moreover have "get (node_of p9) ''position'' = JInt 9"
    using node_of_get [OF contract_records [OF c p9]] pos by simp
  moreover have "get (node_of p9) ''entity'' = JNull"
    using public_entity [of "snd p9"] ent ap
    by (simp add: node_of_def with_kind_def get_def get_default_def copy_json_def)
  moreover have "(\<exists>r. get_node op p = Inl (OntologyConflictPending r)) \<longleftrightarrow> p = ?pid" for p
  proof
    assume "\<exists>r. get_node op p = Inl (OntologyConflictPending r)"
    then obtain n where n: "dict_get (op_nodes op) p = Some n" and pen: "pending n"
      by (auto simp: get_node_def split: option.splits if_splits)
    from n obtain e where e: "e \<in> set (entries (sn_collections sn))" "rec_id (snd e) = p" "n = node_of e"
      unfolding node by blast
    with only [OF e(1)] pen show "p = ?pid" by simp
  next
    assume "p = ?pid"
    with at only [OF p9] show "\<exists>r. get_node op p = Inl (OntologyConflictPending r)"
      by (simp add: get_node_def)
  qed
  moreover have "set (search_hits nfkc cf op q kind)
      \<subseteq> {JObj (summary n) | n p. dict_get (op_nodes op) p = Some n \<and> p \<noteq> ?pid}" for q kind
  proof
    fix s assume "s \<in> set (search_hits nfkc cf op q kind)"
    then obtain pid n where n: "(pid, n) \<in> set (op_nodes op)" "s = JObj (summary n)" "\<not> pending n"
      by (rule search_hit)
    with d have "dict_get (op_nodes op) pid = Some n" by (simp add: map_of_eq_Some_iff)
    moreover from this at n(3) only [OF p9] have "pid \<noteq> ?pid" by auto
    ultimately show "s \<in> {JObj (summary n) | n p. dict_get (op_nodes op) p = Some n \<and> p \<noteq> ?pid}"
      using n(2) by blast
  qed
  moreover have "set (search_hits nfkc cf op (str ''om'') kind)
      \<subseteq> {JObj (summary n) | n p. dict_get (op_nodes op) p = Some n
              \<and> \<not> (is_kind ''apostle'' n \<and> get n ''position'' = JInt 8)}" for kind
  proof
    fix s assume "s \<in> set (search_hits nfkc cf op (str ''om'') kind)"
    then obtain pid n where n: "(pid, n) \<in> set (op_nodes op)" "s = JObj (summary n)"
      "\<not> (str ''om'' = str ''om'' \<and> is_kind ''apostle'' n \<and> get n ''position'' = JInt 8)"
      by (rule search_hit)
    with d show "s \<in> {JObj (summary n) | n p. dict_get (op_nodes op) p = Some n
              \<and> \<not> (is_kind ''apostle'' n \<and> get n ''position'' = JInt 8)}"
      by (auto simp: map_of_eq_Some_iff)
  qed
  ultimately show ?thesis by blast
qed

end
