(* ===== verification/OntologyRender.thy ===== *)
theory OntologyRender
  imports OntologyProps
begin

text \<open>
  What the ontology API can render: everything it takes from a snapshot whose numbers are finite
  and whose texts have no lone surrogates can be rendered again, through every copy, summary and
  document that an endpoint makes of it.
\<close>

section \<open>Values that can be rendered\<close>

definition renderable :: "json \<Rightarrow> bool" where
  "renderable j \<longleftrightarrow> floats_finite j \<and> texts_encodable j"

lemma rd_obj: "renderable (JObj kvs) \<longleftrightarrow> (\<forall>p \<in> set kvs. encodable (fst p) \<and> renderable (snd p))"
  by (auto simp: renderable_def list_all_iff)

lemma rd_list: "renderable (JList xs) \<longleftrightarrow> (\<forall>x \<in> set xs. renderable x)"
  by (auto simp: renderable_def list_all_iff)

lemma rd_atoms [simp]: "renderable JNull" "renderable (JBool b)" "renderable (JInt i)"
  "renderable (JStr s) \<longleftrightarrow> encodable s"
  by (simp_all add: renderable_def)

lemma rd_params [simp]: "renderable (params_obj ps) \<longleftrightarrow> (\<forall>p \<in> set ps. renderable (snd p))"
  by (auto simp: params_obj_def rd_obj)

lemma json_response_ok [simp]: "is_ok (json_response status headers j) \<longleftrightarrow> renderable j"
  by (auto simp: json_response_def renderable_def)

abbreviation rd_dict :: "(pystr, json) pydict \<Rightarrow> bool" where
  "rd_dict d \<equiv> renderable (JObj d)"

lemma rd_lookup: "rd_dict d \<Longrightarrow> dict_get d k = Some v \<Longrightarrow> encodable k \<and> renderable v"
  unfolding rd_obj by (fastforce dest: map_of_SomeD)

lemma rd_get_default: "rd_dict d \<Longrightarrow> renderable v \<Longrightarrow> renderable (get_default d k v)"
  by (auto simp: get_default_def dest: rd_lookup split: option.split)

lemma rd_get: "rd_dict d \<Longrightarrow> renderable (get d k)"
  by (simp add: get_def rd_get_default)

lemma rd_text_of: "rd_dict d \<Longrightarrow> encodable (text_of d k)"
  using rd_get [of d k] by (auto simp: text_of_def split: json.split)

lemma rd_set: "rd_dict d \<Longrightarrow> encodable k \<Longrightarrow> renderable v \<Longrightarrow> rd_dict (dict_set k v d)"
  unfolding rd_obj by (auto dest!: subsetD [OF set_dict_set])

lemma rd_Cons [simp]: "rd_dict ((k, v) # d) \<longleftrightarrow> encodable k \<and> renderable v \<and> rd_dict d"
  by (simp add: rd_obj)

lemma rd_Nil [simp]: "rd_dict []"
  by (simp add: rd_obj)

lemma rd_copy: "rd_dict d \<Longrightarrow> rd_dict (copy_allowed d allowed)"
  unfolding rd_obj [of "copy_allowed d allowed"]
  by (auto simp: copy_allowed_def dest: rd_lookup [OF _ sym] split: option.splits)

lemma rd_copy_json: "renderable j \<Longrightarrow> renderable (copy_json allowed j)"
  by (cases j) (simp_all add: copy_json_def rd_copy)

lemma rd_copy_keys: "rd_dict d \<Longrightarrow> rd_dict s \<Longrightarrow> rd_dict (copy_keys ks d s)"
proof (induction ks arbitrary: s)
  case (Cons k ks)
  have step: "copy_keys (k # ks) d s = copy_keys ks d (case dict_get d (str k) of
      None \<Rightarrow> s | Some v \<Rightarrow> dict_set (str k) v s)" by (simp add: copy_keys_def)
  show ?case
    unfolding step by (rule Cons.IH [OF Cons.prems(1)])
      (use Cons.prems in \<open>auto intro!: rd_set dest: rd_lookup split: option.split\<close>)
qed (simp add: copy_keys_def)

lemma rd_strings: "renderable j \<Longrightarrow> s \<in> set (strings_of j) \<Longrightarrow> encodable s"
  by (cases j) (auto simp: strings_of_def rd_list rd_obj dict_keys_def encodable_def split: json.splits)

section \<open>Records, nodes, summaries\<close>

lemma rd_public_record:
  assumes "rd_dict r"
  shows "rd_dict (public_record name r)"
proof -
  have "renderable (JList (case j of JList cs \<Rightarrow> map (copy_json candidate_keys) cs | _ \<Rightarrow> []))" if "renderable j" for j
    using that by (cases j) (auto simp: rd_list rd_copy_json)
  with assms show ?thesis
    by (auto simp: public_record_def Let_def intro!: rd_set rd_copy rd_copy_json rd_get dest: rd_lookup split: option.split)
qed

lemma rd_kind_of [simp]: "encodable (kind_of name)"
  by (auto simp: kind_of_def COLLECTION_KINDS_def)

lemma rd_with_kind: "rd_dict r \<Longrightarrow> rd_dict (with_kind name r)"
  by (simp add: with_kind_def)

lemma rd_display:
  assumes "rd_dict node" and "display_identity node = (name, aliases)"
  shows "encodable name" and "\<forall>a \<in> set aliases. encodable a"
proof -
  have dict: "encodable (text_of d ''canonical_name'')"
    "\<forall>a \<in> set (strings_of (get_default d (str ''aliases'') (JList []))). encodable a" if "rd_dict d" for d
    using rd_text_of [OF that] rd_strings [OF rd_get_default [OF that, of "JList []" "str ''aliases''"]]
    by (simp_all add: rd_list)
  have name: "encodable name_open" by (simp add: name_open_def encodable_def)
  have "encodable name \<and> (\<forall>a \<in> set aliases. encodable a)"
    using assms dict [OF assms(1)] dict rd_get [OF assms(1), of "''entity''"] name
    by (auto simp: display_identity_def Let_def split: if_splits json.splits)
  then show "encodable name" and "\<forall>a \<in> set aliases. encodable a" by auto
qed

lemma rd_summary:
  assumes "rd_dict node"
  shows "rd_dict (summary node)"
proof -
  obtain name aliases where d: "display_identity node = (name, aliases)" by fastforce
  note g = rd_get [OF assms]
  let ?s1 = "copy_keys [''position'', ''status'', ''binding_state'', ''selection_state'', ''structural_group''] node
      [(str ''public_id'', get node ''public_id''), (str ''kind'', get node ''kind''),
       (str ''canonical_name'', JStr name), (str ''aliases'', JList (map JStr aliases))]"
  have s1: "rd_dict ?s1"
    using rd_display [OF assms d] g by (intro rd_copy_keys [OF assms]) (auto simp: rd_list)
  have open_slot: "rd_dict (dict_set (str ''body_policy'') (get node ''body_policy'')
      (dict_set (str ''default_servable'') (JBool False) (dict_set (str ''candidate_count'') (JInt n) ?s1)))" for n
    by (intro rd_set s1 g) simp_all
  have "rd_dict (copy_keys ks e ?s1)" if "get node ''entity'' = JObj e" for ks e
    using g [of "''entity''"] that by (intro rd_copy_keys [OF _ s1]) simp
  then show ?thesis
    using s1 open_slot by (cases "get node ''entity''") (simp_all add: summary_def d Let_def)
qed

lemma rd_conflict_payload: "rd_dict r \<Longrightarrow> renderable (conflict_payload r)"
  by (simp add: conflict_payload_def rd_get rd_get_default rd_list)

section \<open>A projection that can be rendered\<close>

definition rd_projection :: "OntologyProjection \<Rightarrow> bool" where
  "rd_projection op \<longleftrightarrow> rd_dict (op_meta op)
     \<and> (\<forall>(name, rs) \<in> set (op_collections op). encodable name \<and> (\<forall>r \<in> set rs. rd_dict r))
     \<and> (\<forall>e \<in> set (op_relationships op). rd_dict e) \<and> (\<forall>c \<in> set (op_conflicts op). rd_dict c)
     \<and> (\<forall>p \<in> set (op_nodes op). encodable (fst p) \<and> rd_dict (snd p))"

lemma contract_rd:
  assumes c: "contract cf snapshot sha sn pt" and rd: "renderable snapshot"
  shows "rd_dict (sn_meta sn)" and "p \<in> set (entries (sn_collections sn)) \<Longrightarrow> rd_dict (snd p)"
    and "e \<in> set (sn_relationships sn) \<Longrightarrow> rd_dict e" and "x \<in> set (sn_conflicts sn) \<Longrightarrow> rd_dict x"
proof -
  have root: "rd_dict (pt_root pt)" using c rd by (simp add: contract_def)
  show "rd_dict (sn_meta sn)" using rd_get [OF root, of "''meta''"] c by (simp add: contract_def)
  have data: "rd_dict (pt_data pt)" using rd_get [OF root, of "''data''"] c by (simp add: contract_def)
  have cs: "rd_dict (pt_collections pt)" using rd_get [OF data, of "''collections''"] c by (simp add: contract_def)
  show "e \<in> set (sn_relationships sn) \<Longrightarrow> rd_dict e" and "x \<in> set (sn_conflicts sn) \<Longrightarrow> rd_dict x"
    using rd_get [OF data, of "''relationships''"] rd_get [OF data, of "''conflicts''"] c
    by (auto simp: contract_def rd_list)
  show "rd_dict (snd p)" if p: "p \<in> set (entries (sn_collections sn))"
  proof -
    obtain rs where "(fst p, rs) \<in> set (sn_collections sn)" and r: "snd p \<in> set rs"
      using p by (auto simp: entries_def)
    then have "get_default (pt_collections pt) (fst p) JNull = JList (map JObj rs)"
      using c by (auto simp: contract_def)
    with rd_get_default [OF cs rd_atoms(1), of "fst p"] r show ?thesis by (auto simp: rd_list)
  qed
qed

lemma built_rd:
  assumes b: "built cf snapshot sha sn pt op" and rd: "renderable snapshot"
  shows "rd_projection op"
proof -
  have c: "contract cf snapshot sha sn pt" using b by (simp add: built_def)
  note parts = contract_rd [OF c rd]
  have names: "\<forall>(name, rs) \<in> set (sn_collections sn). encodable name"
  proof -
    have "\<forall>n \<in> set (map fst EXPECTED_CARDINALITIES). encodable n" by (simp add: EXPECTED_CARDINALITIES_def)
    then have "\<forall>n \<in> set (map fst (sn_collections sn)). encodable n" by (simp only: contract_names [OF c])
    then show ?thesis by auto
  qed
  have recs: "rd_dict r" if "(name, rs) \<in> set (sn_collections sn)" "r \<in> set rs" for name rs r
    using parts(2) [of "(name, r)"] that by (force simp: entries_def)
  have node: "rd_dict (node_of p) \<and> encodable (rec_id (snd p))" if "p \<in> set (entries (sn_collections sn))" for p
    using parts(2) [OF that] by (simp add: node_of_def rd_with_kind rd_public_record rec_id_def rd_text_of)
  show ?thesis
    using b parts(1,3,4) names recs node
    by (auto simp: rd_projection_def built_def rd_public_record rd_copy)
qed

text \<open>What the endpoints make of it.\<close>

lemma rd_search:
  assumes "rd_projection op" and "j \<in> set (search_hits nfkc cf op q kind)"
  shows "renderable j"
  using assms(2)
proof (rule search_hit)
  fix pid node assume "(pid, node) \<in> set (op_nodes op)" and "j = JObj (summary node)"
  with assms(1) show ?thesis by (fastforce simp: rd_projection_def intro: rd_summary)
qed

lemma rd_conflict_hits: "rd_projection op \<Longrightarrow> j \<in> set (conflict_hits op s v t) \<Longrightarrow> renderable j"
  by (auto simp: conflict_hits_def rd_projection_def)

lemma rd_neighbor_entries:
  assumes "rd_projection op" and "set es \<subseteq> set (op_relationships op)"
    and "neighbor_entries op pid direction predicate es = Inr xs"
  shows "\<forall>x \<in> set xs. renderable (snd x)"
  using assms(2,3)
proof (induction es arbitrary: xs)
  case (Cons e es)
  have e: "rd_dict e" using Cons.prems(1) assms(1) by (simp add: rd_projection_def)
  have "renderable (snd x)" if "neighbor_entry op e at = Inr x" for at x
    using that e assms(1)
    by (auto simp: neighbor_entry_def rd_projection_def intro!: rd_summary dest!: map_of_SomeD split: option.splits)
  moreover have "\<forall>x \<in> set ys. renderable (snd x)" if "neighbor_entries op pid direction predicate es = Inr ys" for ys
    using Cons.IH [OF _ that] Cons.prems(1) by simp
  ultimately show ?case
    using Cons.prems(2) by (simp add: bind_res_Inr split: option.splits if_splits) force+
qed simp

lemma rd_page:
  assumes "\<forall>j \<in> set items. renderable j" and "page_of feq op items route params limit cursor = Inr page"
  shows "renderable (JList (pg_items page))" and "renderable (page_info page)"
proof -
  have "\<forall>x \<in> set (encode_cursor op payload). x < 128" for payload
    by (auto simp: encode_cursor_def Let_def dest: b64_set)
  then have "encodable (encode_cursor op payload)" for payload by (rule encodable_ascii)
  with assms(2) show "renderable (page_info page)"
    by (auto simp: page_of_def Let_def res_simps page_info_def opt_str_def)
  from assms(2) have "set (pg_items page) \<subseteq> set items"
    using set_take_subset set_drop_subset by (fastforce simp: page_of_def Let_def res_simps page_slice_def)
  with assms(1) show "renderable (JList (pg_items page))" by (auto simp: rd_list)
qed

definition rd_paged :: "Page \<Rightarrow> bool" where
  "rd_paged page \<longleftrightarrow> renderable (JList (pg_items page)) \<and> renderable (page_info page)"

lemma rd_search_page:
  assumes "rd_projection op" and "search nfkc cf feq op q kind limit cursor = Inr page"
  shows "rd_paged page"
  using rd_page [OF _ assms(2) [unfolded search_def Let_def]] rd_search [OF assms(1)] by (simp add: rd_paged_def)

lemma rd_conflicts_page:
  assumes "rd_projection op" and "conflicts_page feq op s v t limit cursor = Inr page"
  shows "rd_paged page"
  using rd_page [OF _ assms(2) [unfolded conflicts_page_def]] rd_conflict_hits [OF assms(1)]
  by (simp add: rd_paged_def)

lemma rd_neighbors:
  assumes rd: "rd_projection op" and n: "neighbors feq op pid direction predicate limit cursor = Inr (Some page)"
  shows "rd_paged page" and "encodable pid"
proof -
  from n obtain node xs where node: "dict_get (op_nodes op) pid = Some node"
    and xs: "neighbor_entries op pid direction predicate (op_relationships op) = Inr xs"
    and page: "page_of feq op (map snd (sort_key fst xs)) ''neighbors'' (params_obj [(''public_id'', JStr pid),
      (''direction'', JStr direction), (''predicate'', opt_str predicate)]) limit cursor = Inr page"
    by (auto simp: neighbors_def res_simps split: if_splits)
  have "\<forall>j \<in> set (map snd (sort_key fst xs)). renderable j"
    using rd_neighbor_entries [OF rd order_refl xs] by auto
  from rd_page [OF this page] show "rd_paged page" by (simp add: rd_paged_def)
  from map_of_SomeD [OF node] rd show "encodable pid" by (fastforce simp: rd_projection_def)
qed

lemma rd_schema: "rd_projection op \<Longrightarrow> renderable (schema_document op)"
  by (auto simp: schema_document_def rd_obj rd_list COLLECTION_KINDS_def SCHEMA_VERSION_def PROJECTION_ID_def
      rd_projection_def rd_text_of)

lemma rd_release: "rd_projection op \<Longrightarrow> renderable (release_document op)"
  unfolding release_document_def
  by (intro rd_set)
    (fastforce simp: rd_projection_def rd_list rd_obj [of "map _ _"] intro!: rd_summary rd_with_kind)+

lemma rd_web_slot:
  assumes "rd_dict slot" and "web_slot slot = Inr j"
  shows "renderable j"
proof -
  have "encodable sl" if "dict_get APOSTLE_WEB_ROUTES i = Some (n, sl)" for i n sl
    using that by (auto simp: APOSTLE_WEB_ROUTES_def split: if_splits)
  moreover have "encodable (int_dec i)" for i
  proof -
    have "\<forall>c \<in> set (nat_dec n). c < 128" for n using nat_dec_digits [of n] by (auto simp: is_digit_def)
    then show ?thesis by (intro encodable_ascii) (simp add: int_dec_def)
  qed
  ultimately have "renderable (web_reference i sl)" if "dict_get APOSTLE_WEB_ROUTES i = Some (n, sl)" for i n sl
    using that by (auto simp: web_reference_def WEB_ORIGIN_def)
  with assms show ?thesis by (auto simp: web_slot_def intro!: rd_set split: option.splits if_splits)
qed

lemma rd_directory:
  assumes "rd_projection op" and "apostle_web_directory op = Inr data"
  shows "renderable data"
proof -
  have "rd_dict r" if "r \<in> set (collection (op_collections op) ''apostles'')" for r
  proof -
    from that obtain rs where "dict_get (op_collections op) (str ''apostles'') = Some rs" "r \<in> set rs"
      by (cases "dict_get (op_collections op) (str ''apostles'')") (auto simp: collection_def)
    from map_of_SomeD [OF this(1)] this(2) assms(1) show ?thesis by (fastforce simp: rd_projection_def)
  qed
  then have slots: "\<forall>r \<in> set (sort_key f (collection (op_collections op) ''apostles'')). rd_dict r" for f by simp
  have "\<forall>j \<in> set items. renderable j" if "map_res web_slot rs = Inr items" "\<forall>r \<in> set rs. rd_dict r" for rs items
    using that by (induction rs arbitrary: items) (auto simp: res_simps rd_web_slot)
  with assms(2) slots show ?thesis by (auto simp: apostle_web_directory_def res_simps rd_list)
qed

end
