(* ===== verification/OntologyTotal.thy ===== *)
theory OntologyTotal
  imports OntologyRender
begin

text \<open>
  With a configured runtime over a snapshot that can be rendered, no endpoint of the ontology API
  ends in an exception: the graph of a loaded release is closed, its roster fits the editorial
  directory's table, and the only errors of the paged operations are the ones the endpoints answer.
\<close>

section \<open>Errors that the endpoints answer\<close>

definition benign :: "onto_exn + 'a \<Rightarrow> bool" where
  "benign r \<longleftrightarrow> (\<forall>x. r = Inl x \<longrightarrow> (\<exists>m. encodable m \<and> (x = OntologyValueError m \<or> x = OntologyCursorError m)))"

named_theorems benign_intros

lemma benign_Inr [benign_intros]: "benign (Inr a)"
  and benign_value_error [benign_intros]: "encodable n \<Longrightarrow> benign (Inl (value_error n s))"
  and benign_cursor [benign_intros]: "benign (Inl (OntologyCursorError (str s)))"
  by (simp_all add: benign_def value_error_def)

lemma benign_bind [benign_intros]: "benign r \<Longrightarrow> (\<And>a. benign (f a)) \<Longrightarrow> benign (bind_res r f)"
  by (cases r) (auto simp: benign_def)

lemma benign_demand [benign_intros]: "encodable n \<Longrightarrow> benign (demand b (value_error n s))"
  by (simp add: demand_def benign_intros)

lemma benign_if [benign_intros]: "benign r \<Longrightarrow> benign s \<Longrightarrow> benign (if b then r else s)"
  by simp

lemma benign_query [benign_intros]:
  "benign (single_query_value rq n)" "benign (required_value rq n)" "benign (limit_of rq d)"
  "benign (check_opt ok m v)"
proof -
  show q: "benign (single_query_value rq n)" for n
    by (auto simp: single_query_value_def benign_intros split: list.split)
  show "benign (required_value rq n)"
    by (auto simp: required_value_def split: option.split intro!: benign_intros q)
  show "benign (limit_of rq d)"
    by (auto simp: limit_of_def Let_def split: option.split intro!: benign_intros q)
  show "benign (check_opt ok m v)" by (simp add: check_opt_def benign_intros)
qed

lemma benign_b64 [benign_intros]: "benign (b64decode v)"
  by (auto simp: b64decode_def Let_def benign_intros split: option.split)

lemma benign_cursor_of [benign_intros]: "benign (decode_cursor op c)"
  by (auto simp: decode_cursor_def intro!: benign_intros split: option.split json.split)

lemma benign_page [benign_intros]: "benign (page_of feq op items route params limit cursor)"
proof -
  have "benign (cursor_offset feq op route params l n c)" for l n c
    by (auto simp: cursor_offset_def intro!: benign_intros split: json.split)
  then show ?thesis by (auto simp: page_of_def Let_def intro!: benign_intros split: option.split)
qed

lemma benign_search [benign_intros]: "benign (search nfkc cf feq op q kind limit cursor)"
  and benign_conflicts [benign_intros]: "benign (conflicts_page feq op s v t limit cursor)"
  by (simp_all add: search_def conflicts_page_def Let_def benign_intros)

text \<open>The error responses, over metadata and with a request id that can be rendered.\<close>

lemma error_response_ok:
  assumes "encodable (request_id rq)" and "encodable m" and "p \<noteq> None \<Longrightarrow> rd_projection (the p)"
    and "d \<noteq> None \<Longrightarrow> renderable (the d)"
  shows "is_ok (error_response rq status code m p d)"
  using assms
  by (cases p; cases d)
    (simp_all add: error_response_def rd_obj meta_of_def rd_projection_def SCHEMA_VERSION_def PROJECTION_ID_def)

lemma tagged_ok:
  assumes "rd_projection op" and "renderable data" and "page \<noteq> None \<Longrightarrow> renderable (the page)"
  shows "is_ok (tagged rq op data etag page cc)"
  using assms by (cases page) (simp_all add: tagged_def success_def rd_obj rd_projection_def)

lemma bad_request_ok:
  assumes "encodable (request_id rq)" and "rd_projection op" and "benign r"
    and "\<And>a. r = Inr a \<Longrightarrow> is_ok (k a)"
  shows "is_ok (bad_request rq op r k)"
  using assms by (cases r) (auto simp: bad_request_def benign_def intro!: error_response_ok)

section \<open>The graph is closed\<close>

lemma built_edges:
  assumes b: "built casefold snapshot sha sn pt op" and e: "e \<in> set (op_relationships op)"
    and at: "edge_at direction pid e = Some x"
  shows "\<exists>node. dict_get (op_nodes op) (snd x) = Some node"
proof -
  from b e obtain e0 where e0: "e0 \<in> set (sn_relationships sn)" and eq: "e = copy_allowed e0 relationship_keys"
    by (auto simp: built_def)
  with b have ok: "edge_ok (map (\<lambda>p. rec_id (snd p)) (entries (sn_collections sn))) e0"
    by (simp add: built_def contract_def)
  then have same: "dict_get e k = dict_get e0 k" for k
    unfolding eq by (intro allowed_keys) (simp add: edge_ok_def)
  then have g: "get e k = get e0 k" for k by (simp add: get_def get_default_def)
  from ok obtain s t where s: "s \<in> set (entries (sn_collections sn))" "get e ''from_public_id'' = JStr (rec_id (snd s))"
    and t: "t \<in> set (entries (sn_collections sn))" "get e ''to_public_id'' = JStr (rec_id (snd t))"
    by (auto simp: edge_ok_def g)
  from at s(2) t(2) have "snd x \<in> {rec_id (snd s), rec_id (snd t)}"
    by (auto simp: edge_at_def text_of_def split: if_splits)
  moreover have "dict_get (op_nodes op) (rec_id (snd s)) = Some (node_of s)"
    using built_node [OF b] s(1) by blast
  moreover have "dict_get (op_nodes op) (rec_id (snd t)) = Some (node_of t)"
    using built_node [OF b] t(1) by blast
  ultimately show ?thesis by auto
qed

lemma neighbor_entries_ok:
  assumes "\<And>e x. e \<in> set es \<Longrightarrow> edge_at direction pid e = Some x \<Longrightarrow> \<exists>node. dict_get (op_nodes op) (snd x) = Some node"
  shows "\<exists>xs. neighbor_entries op pid direction predicate es = Inr xs"
  using assms
proof (induction es)
  case (Cons e es)
  have "\<exists>xs. neighbor_entries op pid direction predicate es = Inr xs"
    by (rule Cons.IH, rule Cons.prems) simp_all
  then obtain xs where xs: "neighbor_entries op pid direction predicate es = Inr xs" by blast
  show ?case
  proof (cases "edge_at direction pid e")
    case (Some x)
    with Cons.prems [of e x] obtain node where "dict_get (op_nodes op) (snd x) = Some node" by auto
    with Some xs show ?thesis by (simp add: neighbor_entry_def)
  qed (simp add: xs)
qed simp

lemma benign_neighbors:
  assumes "built casefold snapshot sha sn pt op"
  shows "benign (neighbors feq op pid direction predicate limit cursor)"
proof -
  have "\<exists>xs. neighbor_entries op pid direction predicate (op_relationships op) = Inr xs"
    by (rule neighbor_entries_ok) (rule built_edges [OF assms])
  then show ?thesis by (auto simp: neighbors_def intro!: benign_intros)
qed

section \<open>The roster fits the editorial table\<close>

lemma web_routes: "1 \<le> i \<Longrightarrow> i \<le> 12 \<Longrightarrow> \<exists>r. dict_get APOSTLE_WEB_ROUTES i = Some r"
proof -
  assume "1 \<le> i" "i \<le> (12 :: int)"
  then have "i = 1 \<or> i = 2 \<or> i = 3 \<or> i = 4 \<or> i = 5 \<or> i = 6 \<or> i = 7 \<or> i = 8 \<or> i = 9 \<or> i = 10
      \<or> i = 11 \<or> i = 12" by presburger
  then show ?thesis by (auto simp: APOSTLE_WEB_ROUTES_def)
qed

lemma web_slot_ok:
  assumes "int_position r = Some i" and "1 \<le> i" and "i \<le> 12" and "dict_get r (str ''entity'') = Some e"
  shows "web_slot r \<noteq> Inl (Some x)"
  using assms web_routes [OF assms(2,3)] by (auto simp: web_slot_def split: prod.splits if_splits)

lemma map_res_Inl: "map_res f xs = Inl e \<Longrightarrow> \<exists>x \<in> set xs. f x = Inl e"
  by (induction xs) (auto simp: res_simps)

lemma dict_get_records:
  "dict_get (map (\<lambda>(name, rs). (name, map (g name) rs)) cs) n = map_option (map (g n)) (dict_get cs n)"
  by (induction cs) auto

lemma directory_ok:
  assumes b: "built casefold snapshot sha sn pt op"
  shows "apostle_web_directory op \<noteq> Inl (Some x)"
proof
  assume "apostle_web_directory op = Inl (Some x)"
  then obtain r where r: "r \<in> set (collection (op_collections op) ''apostles'')" and w: "web_slot r = Inl (Some x)"
    by (auto simp: apostle_web_directory_def res_simps dest!: map_res_Inl)
  from b have c: "contract casefold snapshot sha sn pt" by (simp add: built_def)
  have "collection (op_collections op) ''apostles''
      = map (public_record (str ''apostles'')) (collection (sn_collections sn) ''apostles'')"
    using b by (simp add: built_def collection_def dict_get_records split: option.split)
  with r obtain r0 where r0: "r0 \<in> set (collection (sn_collections sn) ''apostles'')"
    and eq: "r = public_record (str ''apostles'') r0" by auto
  have ok: "record_ok (str ''apostles'') r0" using contract_records [OF c contract_collection(3) [OF c r0]] by simp
  have "int_position r = int_position r0"
    using public_record_get [OF ok, of "''position''"] by (simp add: int_position_def get_def get_default_def eq)
  with positions_range [OF roster(1) [OF c] r0] obtain i where i: "int_position r = Some i" "1 \<le> i" "i \<le> 12" by auto
  have "dict_get r (str ''entity'') = Some (copy_json apostle_entity_allowed (get r0 ''entity''))"
    by (simp add: eq public_record_def Let_def split: option.split)
  from web_slot_ok [OF i this] w show False by blast
qed

section \<open>No endpoint gets stuck\<close>

text \<open>The snapshot that the settings name, when it is JSON.\<close>

definition snapshot_at :: "(pystr \<Rightarrow> FileRead) \<Rightarrow> OntologySettings \<Rightarrow> json option" where
  "snapshot_at read os = (case read (os_snapshot_path os) of
     Contents raw \<Rightarrow> Option.bind (utf8_decode raw) loads | _ \<Rightarrow> None)"

lemma configured_endpoint:
  assumes conf: "configure casefold read os = (Inr (), rt)" and key: "is_ascii (os_internal_key os)"
    and hdr: "\<forall>k. header (oq_request rq) ''x-ontology-key'' = Some k \<longrightarrow> is_ascii k"
    and rid: "encodable (request_id rq)"
    and rd: "\<forall>j. snapshot_at read os = Some j \<longrightarrow> renderable j"
    and ok: "\<And>op sn pt snapshot. built casefold snapshot (os_content_sha256 os) sn pt op \<Longrightarrow> rd_projection op \<Longrightarrow>
      is_ok (endpoint op)"
  shows "is_ok (with_projection rt rq endpoint)"
proof (cases "or_projection rt")
  case (Some op)
  with conf obtain key where l: "load casefold (read (os_snapshot_path os)) (os_snapshot_sha256 os)
      (os_content_sha256 os) key = Inr op" and k: "or_internal_key rt = os_internal_key os"
    by (auto simp: configure_def reset_runtime_def split: if_splits option.splits sum.splits onto_exn.splits)
  from load_built [OF l] obtain raw doc snapshot sn pt where f: "read (os_snapshot_path os) = Contents raw"
    "utf8_decode raw = Some doc" "loads doc = Some snapshot"
    and b: "built casefold snapshot (os_content_sha256 os) sn pt op" by metis
  have "snapshot_at read os = Some snapshot" using f by (simp add: snapshot_at_def)
  with rd have "renderable snapshot" by blast
  then have rdp: "rd_projection op" by (rule built_rd [OF b])
  from ok [OF b rdp] key hdr k Some rid rdp show ?thesis
    by (cases "header (oq_request rq) ''x-ontology-key''")
      (auto simp: with_projection_def authorized_def compare_digest_def intro!: error_response_ok)
qed (use error_response_ok [OF rid, of _ None None] in \<open>simp add: with_projection_def\<close>)

lemma paged_ok:
  assumes "rd_projection op" and "rd_paged page" and "\<forall>p \<in> set ps. renderable (snd p)"
  shows "is_ok (tagged rq op (params_obj (ps @ [(''items'', JList (pg_items page))])) etag (Some (page_info page)) cc)"
  using assms by (intro tagged_ok) (auto simp: rd_paged_def)

lemmas items_ok = paged_ok [of _ _ "[]", simplified]
  and node_items_ok = paged_ok [of _ _ "[(''node_public_id'', JStr pid)]" for pid, simplified]

text \<open>C24: The ontology API never gets stuck. Once the runtime is configured, with the surface on or off,
  under a key of ASCII characters, over a snapshot whose numbers are finite floats or integers and
  whose texts have no lone surrogates, every endpoint answers every request whose key header is
  absent or ASCII, and whose id can be encoded, with a response: every stored edge leads to a
  node, every apostle has its route in the editorial table, all that parsing the query, the cursor
  and the page can raise is answered as 400, and every body can be rendered.\<close>

theorem ontology_endpoints_total:
  assumes "configure casefold read os = (Inr (), rt)" and "is_ascii (os_internal_key os)"
    and "\<forall>k. header (oq_request rq) ''x-ontology-key'' = Some k \<longrightarrow> is_ascii k"
    and "encodable (request_id rq)" and "\<forall>j. snapshot_at read os = Some j \<longrightarrow> renderable j"
  shows "is_ok (apostles rt rq) \<and> is_ok (search_endpoint nf rt rq) \<and> is_ok (conflicts_endpoint nf rt rq)
    \<and> is_ok (node_endpoint rt rq pid) \<and> is_ok (neighbors_endpoint nf rt rq pid)
    \<and> is_ok (schema_endpoint rt rq) \<and> is_ok (release_endpoint rt rq projection_id)"
proof -
  note rid = assms(4)
  have ok: "is_ok (with_projection rt rq endpoint)"
    if "\<And>op sn pt snapshot. built casefold snapshot (os_content_sha256 os) sn pt op \<Longrightarrow> rd_projection op \<Longrightarrow>
      is_ok (endpoint op)" for endpoint
    using that by (rule configured_endpoint [OF assms])
  have err: "is_ok (error_response rq status code (str m) (Some op) d)"
    if "rd_projection op" and "d \<noteq> None \<Longrightarrow> renderable (the d)" for status code m op d
    using that rid by (intro error_response_ok) simp_all
  show ?thesis
  proof (intro conjI)
    show "is_ok (apostles rt rq)"
      unfolding apostles_def
      by (rule ok) (auto intro: err tagged_ok rd_directory dest: directory_ok split: sum.split option.split)
    show "is_ok (search_endpoint nf rt rq)"
      unfolding search_endpoint_def Let_def
      by (rule ok, rule bad_request_ok [OF rid])
        (auto simp: bind_res_Inr demand_Inr intro!: benign_intros items_ok rd_search_page)
    show "is_ok (conflicts_endpoint nf rt rq)"
      unfolding conflicts_endpoint_def Let_def
      by (rule ok, rule bad_request_ok [OF rid])
        (auto simp: bind_res_Inr demand_Inr intro!: benign_intros items_ok rd_conflicts_page)
    show "is_ok (node_endpoint rt rq pid)"
      unfolding node_endpoint_def node_not_found_def
      by (rule ok) (auto simp: get_node_def rd_projection_def intro!: err tagged_ok rd_conflict_payload
          dest!: map_of_SomeD split: option.split)
    show "is_ok (neighbors_endpoint nf rt rq pid)"
      unfolding neighbors_endpoint_def Let_def node_not_found_def
      by (rule ok, rule bad_request_ok [OF rid])
        (auto simp: bind_res_Inr demand_Inr intro!: err benign_intros benign_neighbors node_items_ok
          dest: rd_neighbors split: option.split)
    show "is_ok (schema_endpoint rt rq)"
      unfolding schema_endpoint_def by (rule ok) (auto intro!: tagged_ok rd_schema)
    show "is_ok (release_endpoint rt rq projection_id)"
      unfolding release_endpoint_def by (rule ok) (auto intro!: err tagged_ok rd_release)
  qed
qed

end
