(* ===== verification/OntologyDemo.thy ===== *)
theory OntologyDemo
  imports OntologyTotal
begin

text \<open>
  A snapshot that the validator accepts, built record by record, and the concrete uses of the
  properties of the ontology on it. Its objects have their keys in order, so that the text that
  \<open>dumps\<close> writes of it reads back as itself.
\<close>

section \<open>The records\<close>

definition demo_pid :: "nat \<Rightarrow> pystr" where
  "demo_pid n = str ''mtg1-'' @ replicate 14 48 @ [hex_digit (n div 16), hex_digit (n mod 16)]"

definition obj :: "(string \<times> json) list \<Rightarrow> (pystr, json) pydict" where
  "obj kvs = map (\<lambda>(k, v). (str k, v)) kvs"

definition tx :: "string \<Rightarrow> json" where
  "tx s = JStr (str s)"

definition demo_axiom :: "nat \<Rightarrow> (pystr, json) pydict" where
  "demo_axiom i = obj [(''binding_state'', tx ''x''), (''body_policy'', tx ''x''), (''canonical_name'', tx ''x''),
     (''content_authority'', tx ''x''), (''definition'', tx ''x''), (''identity_authority'', tx ''x''),
     (''position'', JInt (int i)), (''public_id'', JStr (demo_pid i)), (''status'', tx ''x'')]"

definition demo_entity :: "json list \<Rightarrow> (string \<times> json) list \<Rightarrow> pystr \<Rightarrow> json" where
  "demo_entity aliases abbr name = JObj (obj ([(''aliases'', JList aliases), (''binding_state'', tx ''x''),
     (''body_policy'', tx ''x'')] @ abbr @ [(''canonical_name'', JStr name),
     (''content_authority'', tx ''x''), (''identity_authority'', tx ''x'')]))"

definition demo_apostle :: "nat \<Rightarrow> (pystr, json) pydict" where
  "demo_apostle i = obj [(''entity'', if i = 8 then demo_entity [tx ''OMC''] [(''canonical_abbreviation'', tx ''OMC'')] name_cloud
       else demo_entity [] [] (str ''x'')),
     (''position'', JInt (int i)), (''public_id'', JStr (demo_pid (12 + i))),
     (''selection_state'', tx ''SELECTED''), (''structural_group'', tx ''x'')]"

definition demo_candidate :: "string \<Rightarrow> pystr \<Rightarrow> json" where
  "demo_candidate cid name = JObj (obj [(''authority'', tx ''x''), (''binding_state'', tx ''x''),
     (''candidate_id'', tx cid), (''canonical_name'', JStr name), (''default_servable'', JBool False)])"

definition demo_open :: "(pystr, json) pydict" where
  "demo_open = obj [(''body_policy'', tx ''NO_DEFAULT''),
     (''candidates'', JList [demo_candidate ''a'' name_jesus, demo_candidate ''b'' name_aten]),
     (''entity'', JNull), (''position'', JInt 9), (''public_id'', JStr (demo_pid 21)),
     (''selection_state'', tx ''CONFLICT_PENDING''), (''structural_group'', tx ''x'')]"

definition demo_legion :: "nat \<Rightarrow> (pystr, json) pydict" where
  "demo_legion i = obj ((if i = 7 then [(''aliases'', JList [tx ''Hades''])] else []) @
     [(''binding_state'', tx ''x''), (''canonical_name'', if i = 7 then tx ''Harness'' else tx ''x'')]
     @ (if i = 7 then [(''identity_rule'', tx ''ONE_ENTITY_ONE_SLOT'')] else []) @
     [(''position'', JInt (int i)), (''public_id'', JStr (demo_pid (24 + i))), (''status'', tx ''x''),
      (''verb'', tx ''x'')])"

definition demo_omc :: "string \<Rightarrow> nat \<Rightarrow> (pystr, json) pydict" where
  "demo_omc name i = obj [(''binding_state'', tx ''x''), (''canonical_name'', tx name),
     (''public_id'', JStr (demo_pid (31 + i))), (''scope_note'', tx ''not a claim of implementation''),
     (''status'', tx ''x'')]"

definition demo_phase :: "pystr \<Rightarrow> nat \<Rightarrow> (pystr, json) pydict" where
  "demo_phase name i = obj [(''binding_state'', tx ''x''), (''body_policy'', tx ''x''), (''canonical_name'', JStr name),
     (''content_authority'', tx ''x''), (''public_id'', JStr (demo_pid (37 + i))), (''status'', tx ''x'')]"

definition demo_pattern :: "nat \<Rightarrow> (pystr, json) pydict" where
  "demo_pattern i = obj [(''binding_state'', tx ''x''), (''body_policy'', tx ''x''), (''canonical_name'', tx ''x''),
     (''public_id'', JStr (demo_pid (39 + i))), (''status'', tx ''x'')]"

definition demo_edge :: "string \<Rightarrow> string \<Rightarrow> string \<Rightarrow> nat \<Rightarrow> nat \<Rightarrow> nat \<Rightarrow> Edge" where
  "demo_edge predicate authority status from to i = obj [(''authority'', tx authority),
     (''from_public_id'', JStr (demo_pid from)), (''predicate'', tx predicate),
     (''relationship_id'', JStr [97 + i]), (''status'', tx status), (''to_public_id'', JStr (demo_pid to))]"

definition demo_conflict :: "nat \<Rightarrow> (pystr, json) pydict" where
  "demo_conflict i = obj [(''conflict_id'', JStr [97 + i]), (''detail'', tx ''x''), (''severity'', tx ''X''),
     (''status'', tx ''X''), (''subject_scope'', tx ''x'')]"

definition demo_apostles :: "(pystr, json) pydict list" where
  "demo_apostles = map demo_apostle [1, 2, 3, 4, 5, 6, 7, 8] @ demo_open # map demo_apostle [10, 11, 12]"

definition demo_axioms :: "(pystr, json) pydict list" where
  "demo_axioms = map demo_axiom [1, 2, 3, 4, 5, 6, 7, 8, 9, 10, 11, 12]"

definition demo_legions :: "(pystr, json) pydict list" where
  "demo_legions = map demo_legion [1, 2, 3, 4, 5, 6, 7]"

definition demo_omcs :: "(pystr, json) pydict list" where
  "demo_omcs = [demo_omc ''333'' 1, demo_omc ''CHU'' 2, demo_omc ''CRL'' 3,
     demo_omc ''engineboy'' 4, demo_omc ''orrr'' 5, demo_omc ''HSWM'' 6]"

definition demo_phases :: "(pystr, json) pydict list" where
  "demo_phases = [demo_phase name_void 1, demo_phase name_aten 2]"

definition demo_patterns :: "(pystr, json) pydict list" where
  "demo_patterns = map demo_pattern [1, 2, 3, 4]"

definition demo_collections :: Collections where
  "demo_collections = [(str ''axioms'', demo_axioms), (str ''apostles'', demo_apostles), (str ''legion_commanders'', demo_legions), (str ''omc_commanders'', demo_omcs), (str ''phases'', demo_phases), (str ''structural_patterns'', demo_patterns)]"

definition demo_edges :: "Edge list" where
  "demo_edges =
     map (\<lambda>i. demo_edge ''COMMANDS_LEGION'' ''PROJECT_CANON_WITH_USER_VERDICT'' ''ACTIVE'' 16 (24 + i) i) [1, 2, 3, 4, 5, 6, 7]
     @ map (\<lambda>i. demo_edge ''HAS_DIRECT_COMMANDER'' ''USER_PRIMARY'' ''ACTIVE'' 20 (31 + i) (7 + i)) [1, 2, 3, 4, 5, 6]
     @ [demo_edge ''PHASE_OF'' ''USER_PRIMARY'' ''PROJECTED_FROM_USER_SOURCE'' 38 22 14,
        demo_edge ''PHASE_OF'' ''PROJECT_CANON'' ''PROJECTED_FROM_PROJECT_CANON'' 39 22 15]"

definition demo_confs :: "(pystr, json) pydict list" where
  "demo_confs = map demo_conflict [1, 2, 3, 4, 5, 6, 7, 8]"

definition demo_sha :: pystr where
  "demo_sha = replicate 64 97"

definition demo_meta :: "(pystr, json) pydict" where
  "demo_meta = obj [(''content_sha256'', JStr demo_sha), (''projection_id'', JStr PROJECTION_ID),
     (''publication_status'', JStr PUBLICATION_STATUS), (''release_state'', JStr RELEASE_STATE),
     (''schema_version'', JStr SCHEMA_VERSION)]"

text \<open>In the order of the keys\<close>

definition demo_collections_obj :: "(pystr, json) pydict" where
  "demo_collections_obj = map (\<lambda>n. (str n, JList (map JObj (collection demo_collections n))))
     [''apostles'', ''axioms'', ''legion_commanders'', ''omc_commanders'', ''phases'', ''structural_patterns'']"

definition demo_snapshot :: json where
  "demo_snapshot = JObj (obj [(''data'', JObj (obj [(''collections'', JObj demo_collections_obj),
       (''conflicts'', JList (map JObj demo_confs)),
       (''relationships'', JList (map JObj demo_edges))])), (''meta'', JObj demo_meta)])"

section \<open>The records are accepted\<close>

lemma obj_get: "dict_get (obj kvs) (str k) = map_of kvs k"
  by (induction kvs) (auto simp: obj_def)

lemma obj_keys: "dict_keys (obj kvs) = map (str \<circ> fst) kvs"
  by (simp add: obj_def dict_keys_def comp_def case_prod_beta)

lemma obj_get_default: "get (obj kvs) k = (case map_of kvs k of None \<Rightarrow> JNull | Some v \<Rightarrow> v)"
  "get_default (obj kvs) (str k) JNull = (case map_of kvs k of None \<Rightarrow> JNull | Some v \<Rightarrow> v)"
  by (simp_all add: get_def get_default_def obj_get)

lemma pid_eq [simp]: "m < 256 \<Longrightarrow> n < 256 \<Longrightarrow> demo_pid m = demo_pid n \<longleftrightarrow> m = n"
proof -
  assume "m < 256" "n < 256"
  then have "m div 16 < 16" "n div 16 < 16" by auto
  with hex_digit_inj [of "m div 16" "n div 16"] hex_digit_inj [of "m mod 16" "n mod 16"]
  have "hex_digit (m div 16) = hex_digit (n div 16) \<and> hex_digit (m mod 16) = hex_digit (n mod 16) \<longleftrightarrow>
      m div 16 = n div 16 \<and> m mod 16 = n mod 16" by auto
  moreover have "m div 16 = n div 16 \<and> m mod 16 = n mod 16 \<longleftrightarrow> m = n"
    by (metis div_mult_mod_eq)
  ultimately show ?thesis by (simp add: demo_pid_def)
qed

lemma pid_ok: "n < 256 \<Longrightarrow> PUBLIC_ID_RE (demo_pid n)"
  by (auto simp: PUBLIC_ID_RE_def demo_pid_def startswith_def py_simps hex_digit_hex list_all_iff
      less_mult_imp_div_less is_hex_char_def [of 48])

lemma strip_pid [simp]: "strip (demo_pid n) \<noteq> []" 
  by (simp add: demo_pid_def strip_def strip_by_def py_space_def py_simps)

lemmas record_checks = validate_record_def validate_keys_def obj_keys obj_get obj_get_default demand_def
  require_mapping_def tx_def validate_aliases_def require_list_def is_text_def
  collection_allowed_keys_def collection_required_keys_def

lemma strip_Cons: "\<not> py_space c \<Longrightarrow> strip (c # s) \<noteq> []"
  by (simp add: strip_def strip_by_def)

lemma strip_lit: "\<not> py_space (of_char c) \<Longrightarrow> strip (str (c # s)) \<noteq> []"
  by (simp add: str_Cons strip_Cons)

lemmas strips = strip_lit strip_Cons py_space_def

lemma require_text_str: "strip s \<noteq> [] \<Longrightarrow> require_text (JStr s) path = Inr s"
  by (simp add: require_text_def)

lemma demo_axiom_ok:
  "n < 256 \<Longrightarrow> demo_pid n \<notin> set seen \<Longrightarrow> 
    validate_record (str ''axioms'') path seen (JObj (demo_axiom n)) = Inr (demo_pid n # seen, demo_axiom n)"
  by (simp add: record_checks demo_axiom_def axioms_allowed_def require_text_str pid_ok strips)


lemma demo_apostle_ok:
  "n < 200 \<Longrightarrow> demo_pid (12 + n) \<notin> set seen \<Longrightarrow>
    validate_record (str ''apostles'') path seen (JObj (demo_apostle n)) = Inr (demo_pid (12 + n) # seen, demo_apostle n)"
  by (simp add: record_checks demo_apostle_def apostles_allowed_def require_text_str pid_ok validate_apostle_def
      validate_entity_def demo_entity_def apostle_entity_required_def apostle_entity_allowed_def
      name_cloud_def strips)

lemma demo_open_ok:
  "demo_pid 21 \<notin> set seen \<Longrightarrow>
    validate_record (str ''apostles'') path seen (JObj demo_open) = Inr (demo_pid 21 # seen, demo_open)"
  by (simp add: record_checks demo_open_def apostles_allowed_def require_text_str pid_ok validate_apostle_def
      validate_entity_def demo_candidate_def validate_candidate_def candidate_keys_def validate_texts_def
      name_jesus_def name_aten_def strips)

lemma demo_legion_ok:
  "n < 200 \<Longrightarrow> demo_pid (24 + n) \<notin> set seen \<Longrightarrow>
    validate_record (str ''legion_commanders'') path seen (JObj (demo_legion n)) = Inr (demo_pid (24 + n) # seen, demo_legion n)"
  by (auto simp: record_checks demo_legion_def legion_commanders_allowed_def require_text_str pid_ok
      strips)

lemma demo_omc_ok:
  "strip (str name) \<noteq> [] \<Longrightarrow> n < 200 \<Longrightarrow> demo_pid (31 + n) \<notin> set seen \<Longrightarrow>
    validate_record (str ''omc_commanders'') path seen (JObj (demo_omc name n)) = Inr (demo_pid (31 + n) # seen, demo_omc name n)"
  by (simp add: record_checks demo_omc_def omc_commanders_allowed_def require_text_str pid_ok strips)

lemma demo_phase_ok:
  "strip name \<noteq> [] \<Longrightarrow> n < 200 \<Longrightarrow> demo_pid (37 + n) \<notin> set seen \<Longrightarrow>
    validate_record (str ''phases'') path seen (JObj (demo_phase name n)) = Inr (demo_pid (37 + n) # seen, demo_phase name n)"
  by (simp add: record_checks demo_phase_def phases_allowed_def require_text_str pid_ok strips)

lemma demo_pattern_ok:
  "n < 200 \<Longrightarrow> demo_pid (39 + n) \<notin> set seen \<Longrightarrow>
    validate_record (str ''structural_patterns'') path seen (JObj (demo_pattern n)) = Inr (demo_pid (39 + n) # seen, demo_pattern n)"
  by (simp add: record_checks demo_pattern_def structural_patterns_allowed_def require_text_str pid_ok strips)


section \<open>The collections are accepted\<close>

text \<open>Records under ascending identifiers\<close>

definition accepts :: "pystr \<Rightarrow> nat \<Rightarrow> (pystr, json) pydict \<Rightarrow> bool" where
  "accepts name n r \<longleftrightarrow> n < 256 \<and> (\<forall>path seen. demo_pid n \<notin> set seen \<longrightarrow>
     validate_record name path seen (JObj r) = Inr (demo_pid n # seen, r))"

lemma validate_fresh:
  assumes "list_all2 (accepts name) ns rs" and "sorted_wrt (<) (rev old @ ns)" and "\<forall>n \<in> set old. n < 256"
  shows "validate_records name path i (map demo_pid old) (map JObj rs) = Inr (map demo_pid (rev ns @ old), rs)"
  using assms
proof (induction ns rs arbitrary: i old rule: list_all2_induct)
  case (Cons n ns r rs)
  have "m < n" "m < 256" if "m \<in> set old" for m using Cons.prems that by (auto simp: sorted_wrt_append)
  moreover have n: "n < 256" using Cons.hyps by (simp add: accepts_def)
  ultimately have "demo_pid n \<notin> demo_pid ` set old" by auto (metis less_irrefl pid_eq)
  then have "validate_record name (index_path path i) (map demo_pid old) (JObj r)
      = Inr (map demo_pid (n # old), r)"
    using Cons.hyps by (simp add: accepts_def)
  moreover have "validate_records name path (Suc i) (map demo_pid (n # old)) (map JObj rs)
      = Inr (map demo_pid (rev ns @ n # old), rs)"
    using Cons.IH [of "n # old"] Cons.prems n by (simp add: sorted_wrt_append)
  ultimately show ?case by simp
qed simp

lemma demo_accepts:
  "n < 256 \<Longrightarrow> accepts (str ''axioms'') n (demo_axiom n)"
  "n < 200 \<Longrightarrow> accepts (str ''apostles'') (12 + n) (demo_apostle n)"
  "accepts (str ''apostles'') 21 demo_open"
  "n < 200 \<Longrightarrow> accepts (str ''legion_commanders'') (24 + n) (demo_legion n)"
  "\<not> py_space (of_char c) \<Longrightarrow> n < 200 \<Longrightarrow> accepts (str ''omc_commanders'') (31 + n) (demo_omc (c # s) n)"
  "strip name \<noteq> [] \<Longrightarrow> n < 200 \<Longrightarrow> accepts (str ''phases'') (37 + n) (demo_phase name n)"
  "n < 200 \<Longrightarrow> accepts (str ''structural_patterns'') (39 + n) (demo_pattern n)"
  by (simp_all add: accepts_def demo_axiom_ok demo_apostle_ok demo_open_ok demo_legion_ok demo_omc_ok
      demo_phase_ok demo_pattern_ok strip_lit)

definition demo_ids :: "pystr list" where
  "demo_ids = map demo_pid (rev [1..<44])"

lemma accepts_map:
  "(\<And>i. i \<in> set is \<Longrightarrow> accepts name (k + i) (f i)) \<Longrightarrow> list_all2 (accepts name) (map ((+) k) is) (map f is)"
  by (induction "is") simp_all

lemma demo_records:
  "list_all2 (accepts (str ''axioms'')) [1, 2, 3, 4, 5, 6, 7, 8, 9, 10, 11, 12]
     demo_axioms"
  "list_all2 (accepts (str ''apostles'')) [13, 14, 15, 16, 17, 18, 19, 20, 21, 22, 23, 24] demo_apostles"
  "list_all2 (accepts (str ''legion_commanders'')) [25, 26, 27, 28, 29, 30, 31] demo_legions"
  "list_all2 (accepts (str ''structural_patterns'')) [40, 41, 42, 43] demo_patterns"
  "list_all2 (accepts (str ''phases'')) [38, 39] demo_phases"
  "list_all2 (accepts (str ''omc_commanders'')) [32, 33, 34, 35, 36, 37] demo_omcs"
proof -
  show "list_all2 (accepts (str ''axioms'')) [1, 2, 3, 4, 5, 6, 7, 8, 9, 10, 11, 12]
     demo_axioms"
    by (simp add: demo_accepts demo_axioms_def)
  have "list_all2 (accepts (str ''apostles'')) (map ((+) 12) [1, 2, 3, 4, 5, 6, 7, 8]) (map demo_apostle [1, 2, 3, 4, 5, 6, 7, 8])"
    by (rule accepts_map, rule demo_accepts) auto
  then have front: "list_all2 (accepts (str ''apostles'')) [13, 14, 15, 16, 17, 18, 19, 20] (map demo_apostle [1, 2, 3, 4, 5, 6, 7, 8])"
    by simp
  have "list_all2 (accepts (str ''apostles'')) (map ((+) 12) [10, 11, 12]) (map demo_apostle [10, 11, 12])"
    by (rule accepts_map, rule demo_accepts) auto
  then have "list_all2 (accepts (str ''apostles'')) [22, 23, 24] (map demo_apostle [10, 11, 12])" by simp
  with demo_accepts(3) have "list_all2 (accepts (str ''apostles'')) [21, 22, 23, 24] (demo_open # map demo_apostle [10, 11, 12])"
    by simp
  from list_all2_appendI [OF front this]
  show "list_all2 (accepts (str ''apostles'')) [13, 14, 15, 16, 17, 18, 19, 20, 21, 22, 23, 24] demo_apostles"
    by (simp only: demo_apostles_def append.simps)
  have "list_all2 (accepts (str ''legion_commanders'')) (map ((+) 24) [1, 2, 3, 4, 5, 6, 7]) demo_legions"
    unfolding demo_legions_def by (rule accepts_map, rule demo_accepts) auto
  then show "list_all2 (accepts (str ''legion_commanders'')) [25, 26, 27, 28, 29, 30, 31] demo_legions"
    by simp
  have "list_all2 (accepts (str ''structural_patterns'')) (map ((+) 39) [1, 2, 3, 4]) demo_patterns"
    unfolding demo_patterns_def by (rule accepts_map, rule demo_accepts) auto
  then show "list_all2 (accepts (str ''structural_patterns'')) [40, 41, 42, 43] demo_patterns"
    by simp
  show "list_all2 (accepts (str ''phases'')) [38, 39] demo_phases"
    using demo_accepts(6) [of name_void 1] demo_accepts(6) [of name_aten 2]
    by (simp add: demo_phases_def name_void_def name_aten_def strips)
  show "list_all2 (accepts (str ''omc_commanders'')) [32, 33, 34, 35, 36, 37] demo_omcs"
    using demo_accepts(5) [of "CHR ''3''" 1 "''33''"] demo_accepts(5) [of "CHR ''C''" 2 "''HU''"]
      demo_accepts(5) [of "CHR ''C''" 3 "''RL''"] demo_accepts(5) [of "CHR ''e''" 4 "''ngineboy''"]
      demo_accepts(5) [of "CHR ''o''" 5 "''rrr''"] demo_accepts(5) [of "CHR ''H''" 6 "''SWM''"]
    by (simp add: demo_omcs_def py_space_def)
qed

lemma demo_collection [simp]:
  "collection demo_collections ''axioms'' = demo_axioms"
  "collection demo_collections ''apostles'' = demo_apostles"
  "collection demo_collections ''legion_commanders'' = demo_legions"
  "collection demo_collections ''omc_commanders'' = demo_omcs"
  "collection demo_collections ''phases'' = demo_phases"
  "collection demo_collections ''structural_patterns'' = demo_patterns"
  by (simp_all add: collection_def demo_collections_def)

lemma validate_collections_fresh:
  assumes "get_default cs name JNull = JList (map JObj rs)" and "list_all2 (accepts name) ns rs"
    and "sorted_wrt (<) (rev old @ ns)" and "\<forall>n \<in> set old. n < 256"
    and "validate_collections cs (map demo_pid (rev ns @ old)) rest = Inr (seen, rss)"
  shows "validate_collections cs (map demo_pid old) ((name, length rs) # rest) = Inr (seen, (name, rs) # rss)"
  using assms by (simp add: Let_def validate_fresh require_list_def demand_def del: map_append)

lemma demo_field:
  "get_default demo_collections_obj (str ''axioms'') JNull = JList (map JObj (collection demo_collections ''axioms''))"
  "get_default demo_collections_obj (str ''apostles'') JNull = JList (map JObj (collection demo_collections ''apostles''))"
  "get_default demo_collections_obj (str ''legion_commanders'') JNull = JList (map JObj (collection demo_collections ''legion_commanders''))"
  "get_default demo_collections_obj (str ''structural_patterns'') JNull = JList (map JObj (collection demo_collections ''structural_patterns''))"
  "get_default demo_collections_obj (str ''phases'') JNull = JList (map JObj (collection demo_collections ''phases''))"
  "get_default demo_collections_obj (str ''omc_commanders'') JNull = JList (map JObj (collection demo_collections ''omc_commanders''))"
  by (simp_all add: demo_collections_obj_def get_default_def del: demo_collection)

lemma demo_intervals:
  "list_all2 (accepts (str ''axioms'')) [1..<13] demo_axioms"
  "list_all2 (accepts (str ''apostles'')) [13..<25] demo_apostles"
  "list_all2 (accepts (str ''legion_commanders'')) [25..<32] demo_legions"
  "list_all2 (accepts (str ''omc_commanders'')) [32..<38] demo_omcs"
  "list_all2 (accepts (str ''phases'')) [38..<40] demo_phases"
  "list_all2 (accepts (str ''structural_patterns'')) [40..<44] demo_patterns"
  using demo_records by (simp_all add: upt_rec numeral_nat)

lemma demo_lengths:
  "EXPECTED_CARDINALITIES = map (\<lambda>(name, rs). (name, length rs)) demo_collections"
  by (simp add: EXPECTED_CARDINALITIES_def demo_collections_def demo_apostles_def demo_axioms_def demo_legions_def
      demo_omcs_def demo_phases_def demo_patterns_def)

lemma demo_validate_collections:
  "validate_collections demo_collections_obj [] EXPECTED_CARDINALITIES = Inr (demo_ids, demo_collections)"
proof -
  note step = validate_collections_fresh [where cs = demo_collections_obj]
  let ?v = "\<lambda>n. validate_collections demo_collections_obj (map demo_pid (rev [1..<n]))"
  have step: "?v m ((name, length rs) # rest) = Inr (seen, (name, rs) # rss)"
    if "get_default demo_collections_obj name JNull = JList (map JObj rs)" "list_all2 (accepts name) [m..<n] rs"
      "0 < m" "m \<le> n" "m \<le> 256" "?v n rest = Inr (seen, rss)" for m n name rs rest seen rss
  proof -
    have split: "[1..<n] = [1..<m] @ [m..<n]" using that(3,4) by (metis Suc_leI One_nat_def upt_add_eq_append le_add_diff_inverse)
    then have "sorted_wrt (<) ([1..<m] @ [m..<n])" by (metis sorted_wrt_upt)
    with split that show ?thesis
      by (intro validate_collections_fresh [of _ _ _ "[m..<n]"]) (simp_all flip: rev_append)
  qed
  have "?v 1 (map (\<lambda>(name, rs). (name, length rs)) demo_collections) = Inr (map demo_pid (rev [1..<44]), demo_collections)"
    unfolding demo_collections_def list.map prod.case
    apply (rule step [where n = 13], simp only: demo_field demo_collection, rule demo_intervals, simp, simp, simp)
    apply (rule step [where n = 25], simp only: demo_field demo_collection, rule demo_intervals, simp, simp, simp)
    apply (rule step [where n = 32], simp only: demo_field demo_collection, rule demo_intervals, simp, simp, simp)
    apply (rule step [where n = 38], simp only: demo_field demo_collection, rule demo_intervals, simp, simp, simp)
    apply (rule step [where n = 40], simp only: demo_field demo_collection, rule demo_intervals, simp, simp, simp)
    apply (rule step [where n = 44], simp only: demo_field demo_collection, rule demo_intervals, simp, simp, simp)
    apply simp
    done
  then show ?thesis by (simp add: demo_lengths demo_ids_def)
qed

section \<open>The invariants of the roster hold\<close>

lemma demo_text [simp]: "has_text (obj kvs) k s \<longleftrightarrow> map_of kvs k = Some (JStr s)"
  by (auto simp: has_text_def obj_get_default split: option.split)

lemma demo_key [simp]: "has_key (obj kvs) k \<longleftrightarrow> map_of kvs k \<noteq> None"
  by (simp add: has_key_def obj_get)

lemma demo_position:
  "int_position (demo_axiom n) = Some (int n)"
  "int_position (demo_apostle n) = Some (int n)"
  "int_position demo_open = Some 9"
  "int_position (demo_legion n) = Some (int n)"
  by (simp_all add: int_position_def demo_axiom_def demo_apostle_def demo_open_def demo_legion_def obj_get_default)

lemma demo_positions:
  "positions_ok 12 demo_axioms" "positions_ok 12 demo_apostles" "positions_ok 7 demo_legions"
  by (simp_all add: positions_ok_def demo_axioms_def demo_apostles_def demo_legions_def demo_position upto_rec1)

lemma demo_selected: "int n \<noteq> 9 \<Longrightarrow> selected_slot (demo_apostle n) = Inr ()" "selected_slot demo_open = Inr ()"
  by (simp_all add: selected_slot_def demo_position demand_def, simp_all add: demo_apostle_def obj_get_default is_mapping_def
      demo_entity_def tx_def)

lemma demo_selected_all: "\<exists>us. map_res selected_slot demo_apostles = Inr us"
  by (simp add: demo_apostles_def demo_selected)

lemma demo_at:
  "at_position 4 demo_apostles = Inr (demo_apostle 4)" "at_position 8 demo_apostles = Inr (demo_apostle 8)"
  "at_position 9 demo_apostles = Inr demo_open" "at_position 10 demo_apostles = Inr (demo_apostle 10)"
  by (simp_all add: at_position_def demo_apostles_def demo_position)

lemma demo_slot8: "slot8_ok demo_apostles = Inr ()"
  by (simp add: slot8_ok_def demo_at demand_def, simp add: demo_apostle_def demo_entity_def obj_get_default
      require_mapping_def tx_def)

lemma demo_slot9: "slot9_ok demo_apostles = Inr ()"
  by (simp add: slot9_ok_def demo_at demand_def, simp add: demo_open_def demo_candidate_def obj_get_default
      require_list_def as_mapping_def tx_def name_jesus_def name_aten_def)

lemma demo_harness: "harness_ok demo_legions = Inr ()"
  by (simp add: harness_ok_def demo_legions_def demand_def demo_legion_def tx_def obj_get_default)

lemma demo_scope:
  "contains (str ''implementation'') (str ''not a claim of implementation'')"
  "contains (str ''not a claim'') (str ''not a claim of implementation'')"
  by (simp_all add: startswith_def py_simps)

lemma demo_omc_roster: "omc_ok (\<lambda>s. s) demo_omcs = Inr ()"
  by (simp add: demo_scope omc_ok_def demo_omcs_def demand_def demo_omc_def tx_def obj_get_default OMC_COMMANDERS_def)

lemma demo_invariants: "validate_domain_invariants (\<lambda>s. s) demo_collections = Inr ()"
  using demo_selected_all demo_positions
  by (auto simp: validate_domain_invariants_def demand_def demo_slot8 demo_slot9 demo_harness demo_omc_roster
      positions_ok_def)

section \<open>The relationships and the conflicts hold\<close>

lemma demo_id_in: "n \<in> {1..43} \<Longrightarrow> demo_pid n \<in> set demo_ids"
  by (auto simp: demo_ids_def)

lemma demo_edge_ok:
  assumes "from \<in> {1..43}" and "to \<in> {1..43}" and "[97 + i] \<notin> set seen" and "strip (str predicate) \<noteq> []"
    and "strip (str authority) \<noteq> []" and "strip (str status) \<noteq> []" and "i < 26"
  shows "validate_relationship demo_ids seen path (JObj (demo_edge predicate authority status from to i))
    = Inr ([97 + i] # seen, demo_edge predicate authority status from to i)"
  using assms demo_id_in [OF assms(1)] demo_id_in [OF assms(2)]
  by (simp add: validate_relationship_def demo_edge_def require_mapping_def validate_keys_def obj_keys obj_get_default
      relationship_keys_def demand_def require_text_str strip_Cons py_space_def validate_texts_def tx_def in_ids_def)

lemma demo_conflict_ok:
  assumes "[97 + i] \<notin> set seen" and "i < 26"
  shows "validate_conflict ids seen path (JObj (demo_conflict i)) = Inr ([97 + i] # seen, demo_conflict i)"
  using assms
  by (simp add: validate_conflict_def demo_conflict_def require_mapping_def validate_keys_def obj_keys obj_get_default
      conflict_allowed_def conflict_required_def demand_def require_text_str strips validate_texts_def tx_def)

lemma validate_all_fresh:
  assumes "\<And>i seen path. i \<in> set is \<Longrightarrow> [97 + i] \<notin> set seen \<Longrightarrow> f seen path (JObj (g i)) = Inr ([97 + i] # seen, g i)"
  shows "sorted_wrt (<) (rev old @ is) \<Longrightarrow>
    validate_all f path n (map (\<lambda>i. [97 + i]) old) (map (\<lambda>i. JObj (g i)) is) = Inr (map g is)"
  using assms
proof (induction "is" arbitrary: n old)
  case (Cons i "is")
  have "[97 + i] \<notin> set (map (\<lambda>i. [97 + i]) old)" using Cons.prems(1) by (auto simp: sorted_wrt_append)
  from Cons.prems(2) [OF _ this] have "f (map (\<lambda>i. [97 + i]) old) (index_path path n) (JObj (g i))
      = Inr (map (\<lambda>i. [97 + i]) (i # old), g i)" by simp
  moreover have "validate_all f path (Suc n) (map (\<lambda>i. [97 + i]) (i # old)) (map (\<lambda>i. JObj (g i)) is) = Inr (map g is)"
    by (rule Cons.IH) (use Cons.prems in auto)
  ultimately show ?case by simp
qed simp

definition demo_edge_at :: "nat \<Rightarrow> Edge" where
  "demo_edge_at i =
     (if i \<le> 7 then demo_edge ''COMMANDS_LEGION'' ''PROJECT_CANON_WITH_USER_VERDICT'' ''ACTIVE'' 16 (24 + i) i
      else if i \<le> 13 then demo_edge ''HAS_DIRECT_COMMANDER'' ''USER_PRIMARY'' ''ACTIVE'' 20 (24 + i) i
      else if i \<le> 14 then demo_edge ''PHASE_OF'' ''USER_PRIMARY'' ''PROJECTED_FROM_USER_SOURCE'' 38 22 i
      else demo_edge ''PHASE_OF'' ''PROJECT_CANON'' ''PROJECTED_FROM_PROJECT_CANON'' 39 22 i)"

lemma demo_edges_at: "demo_edges = map demo_edge_at [1, 2, 3, 4, 5, 6, 7, 8, 9, 10, 11, 12, 13, 14, 15]"
  by (simp add: demo_edges_def demo_edge_at_def)

lemma demo_relationships:
  "validate_all (validate_relationship demo_ids) path 0 [] (map JObj demo_edges) = Inr demo_edges"
proof -
  have ok: "validate_relationship demo_ids seen path (JObj (demo_edge_at i))
      = Inr ([97 + i] # seen, demo_edge_at i)"
    if "1 \<le> i" "i \<le> 15" "[97 + i] \<notin> set seen" for i seen path
    unfolding demo_edge_at_def using that by (auto simp: strips intro!: demo_edge_ok)
  have "validate_all (validate_relationship demo_ids) path 0 (map (\<lambda>i. [97 + i]) [])
      (map (\<lambda>i. JObj (demo_edge_at i)) [1, 2, 3, 4, 5, 6, 7, 8, 9, 10, 11, 12, 13, 14, 15])
    = Inr (map demo_edge_at [1, 2, 3, 4, 5, 6, 7, 8, 9, 10, 11, 12, 13, 14, 15])"
    by (rule validate_all_fresh, rule ok) auto
  then show ?thesis unfolding demo_edges_at by (simp only: list.map)
qed

lemma demo_conflicts: "validate_all (validate_conflict ids) path 0 [] (map JObj demo_confs) = Inr demo_confs"
proof -
  have "validate_all (validate_conflict ids) path 0 (map (\<lambda>i. [97 + i]) [])
      (map (\<lambda>i. JObj (demo_conflict i)) [1, 2, 3, 4, 5, 6, 7, 8])
    = Inr (map demo_conflict [1, 2, 3, 4, 5, 6, 7, 8])"
    by (rule validate_all_fresh, rule demo_conflict_ok) auto
  then show ?thesis unfolding demo_confs_def by (simp only: list.map)
qed

lemma edge_get:
  "get (demo_edge p a s m n i) ''from_public_id'' = JStr (demo_pid m)"
  "get (demo_edge p a s m n i) ''to_public_id'' = JStr (demo_pid n)"
  "get (demo_edge p a s m n i) ''predicate'' = tx p"
  "has_text (demo_edge p a s m n i) ''predicate'' (str q) \<longleftrightarrow> p = q"
  "has_text (demo_edge p a s m n i) ''authority'' (str q) \<longleftrightarrow> a = q"
  "has_text (demo_edge p a s m n i) ''status'' (str q) \<longleftrightarrow> s = q"
  by (simp_all add: demo_edge_def obj_get_default tx_def)

lemma demo_id_get:
  "get (demo_apostle n) ''public_id'' = JStr (demo_pid (12 + n))"
  "get (demo_legion n) ''public_id'' = JStr (demo_pid (24 + n))"
  "get (demo_omc name n) ''public_id'' = JStr (demo_pid (31 + n))"
  "get (demo_phase p n) ''public_id'' = JStr (demo_pid (37 + n))"
  "get (demo_phase p n) ''canonical_name'' = JStr p"
  by (simp_all add: demo_apostle_def demo_legion_def demo_omc_def demo_phase_def obj_get_default)

lemma demo_stars:
  "with_predicate ''COMMANDS_LEGION'' demo_edges = map (\<lambda>i. demo_edge ''COMMANDS_LEGION''
     ''PROJECT_CANON_WITH_USER_VERDICT'' ''ACTIVE'' 16 (24 + i) i) [1, 2, 3, 4, 5, 6, 7]"
  "with_predicate ''HAS_DIRECT_COMMANDER'' demo_edges = map (\<lambda>i. demo_edge ''HAS_DIRECT_COMMANDER''
     ''USER_PRIMARY'' ''ACTIVE'' 20 (31 + i) (7 + i)) [1, 2, 3, 4, 5, 6]"
  "with_predicate ''PHASE_OF'' demo_edges = [demo_edge ''PHASE_OF'' ''USER_PRIMARY'' ''PROJECTED_FROM_USER_SOURCE'' 38 22 14,
     demo_edge ''PHASE_OF'' ''PROJECT_CANON'' ''PROJECTED_FROM_PROJECT_CANON'' 39 22 15]"
  by (simp_all add: with_predicate_def demo_edges_def edge_get)

lemma demo_topology: "validate_relationship_invariants demo_collections demo_edges = Inr ()"
proof -
  have "(\<lambda>e. get e ''predicate'') ` set demo_edges
      = {JStr (str ''COMMANDS_LEGION''), JStr (str ''HAS_DIRECT_COMMANDER''), JStr (str ''PHASE_OF'')}"
    by (auto simp: demo_edges_def edge_get tx_def)
  moreover have "star_topology (with_predicate ''COMMANDS_LEGION'' demo_edges) 7 (JStr (demo_pid 16))
      ((\<lambda>r. get r ''public_id'') ` set demo_legions) ''PROJECT_CANON_WITH_USER_VERDICT''"
    by (simp add: star_topology_def demo_stars edge_get demo_legions_def demo_id_get)
  moreover have "star_topology (with_predicate ''HAS_DIRECT_COMMANDER'' demo_edges) 6 (JStr (demo_pid 20))
      ((\<lambda>r. get r ''public_id'') ` set demo_omcs) ''USER_PRIMARY''"
    by (simp add: star_topology_def demo_stars edge_get demo_omcs_def demo_id_get)
  moreover have "\<forall>p \<in> set demo_phases. phase_edge_ok (with_predicate ''PHASE_OF'' demo_edges) (JStr (demo_pid 22)) p"
    by (simp add: phase_edge_ok_def demo_stars edge_get demo_phases_def demo_id_get phase_policy_def name_void_def name_aten_def)
  ultimately show ?thesis
    by (simp add: validate_relationship_invariants_def demand_def demo_at demo_id_get demo_stars(3) edge_get Let_def)
qed

section \<open>The text of the snapshot\<close>

text \<open>In order, writable, and without private material when nothing is folded\<close>

fun tidy :: "json \<Rightarrow> bool" where
  "tidy (JStr s) \<longleftrightarrow> encodable s \<and> (\<forall>m \<in> set forbidden_markers. \<not> contains m s)"
| "tidy (JInt i) \<longleftrightarrow> length (nat_dec (nat \<bar>i\<bar>)) \<le> 4300"
| "tidy (JFloat t) \<longleftrightarrow> False"
| "tidy (JList xs) \<longleftrightarrow> (\<forall>x \<in> set xs. tidy x)"
| "tidy (JObj kvs) \<longleftrightarrow> sorted (map fst kvs) \<and> distinct (map fst kvs)
     \<and> (\<forall>p \<in> set kvs. encodable (fst p) \<and> key_public (\<lambda>s. s) (fst p) \<and> tidy (snd p))"
| "tidy j \<longleftrightarrow> True"

lemma tidy_sorted: "tidy j \<Longrightarrow> json_sorted j = j"
proof (induction j rule: tidy.induct)
  case (5 kvs)
  then have "map (\<lambda>(k, v). (k, json_sorted v)) kvs = kvs" by (intro map_idI) fastforce
  with 5(2) show ?case by (simp add: sort_key_id_if_sorted)
qed (auto intro: map_idI)

lemma tidy_ok: "tidy j \<Longrightarrow> json_ok j"
  by (induction j rule: tidy.induct) fastforce+

lemma tidy_public:
  "tidy j \<Longrightarrow> no_private (\<lambda>s. s) path j = Inr ()"
  "(\<forall>p \<in> set kvs. key_public (\<lambda>s. s) (fst p) \<and> tidy (snd p)) \<Longrightarrow> no_private_fields (\<lambda>s. s) path kvs = Inr ()"
  "(\<forall>x \<in> set xs. tidy x) \<Longrightarrow> no_private_items (\<lambda>s. s) path i xs = Inr ()"
proof -
  have "(\<lambda>s. s) = cf \<Longrightarrow> tidy j \<Longrightarrow> no_private cf path j = Inr ()"
    and "(\<lambda>s. s) = cf \<Longrightarrow> (\<forall>p \<in> set kvs. key_public (\<lambda>s. s) (fst p) \<and> tidy (snd p)) \<Longrightarrow> no_private_fields cf path kvs = Inr ()"
    and "(\<lambda>s. s) = cf \<Longrightarrow> (\<forall>x \<in> set xs. tidy x) \<Longrightarrow> no_private_items cf path i xs = Inr ()" for cf
    by (induction cf path j and cf path kvs and cf path i xs rule: no_private_no_private_fields_no_private_items.induct)
      (auto simp: demand_def key_public_def)
  then show "tidy j \<Longrightarrow> no_private (\<lambda>s. s) path j = Inr ()"
    and "(\<forall>p \<in> set kvs. key_public (\<lambda>s. s) (fst p) \<and> tidy (snd p)) \<Longrightarrow> no_private_fields (\<lambda>s. s) path kvs = Inr ()"
    and "(\<forall>x \<in> set xs. tidy x) \<Longrightarrow> no_private_items (\<lambda>s. s) path i xs = Inr ()" by blast+
qed

lemma startswith_chars: "startswith s m \<Longrightarrow> set m \<subseteq> set s"
  unfolding startswith_def by (metis set_take_subset)

lemma contains_chars: "contains m s \<Longrightarrow> set m \<subseteq> set s"
proof (induction s)
  case (Cons c s)
  then show ?case using startswith_chars [of "c # s" m] by auto
qed simp

lemma no_marker: "47 \<notin> set s \<Longrightarrow> 58 \<notin> set s \<Longrightarrow> m \<in> set forbidden_markers \<Longrightarrow> \<not> contains m s"
  using contains_chars [of m s] by (auto simp: forbidden_markers_def py_simps)

lemma tidy_str: "47 \<notin> set s \<Longrightarrow> 58 \<notin> set s \<Longrightarrow> encodable s \<Longrightarrow> tidy (JStr s)"
  by (simp add: no_marker)

lemma tidy_tx: "list_all (\<lambda>c. of_char c \<noteq> (47 :: nat) \<and> of_char c \<noteq> (58 :: nat)) s \<Longrightarrow> tidy (tx s)"
  unfolding tx_def using encodable_str [of s] by (intro tidy_str) (auto simp: list_all_iff str_def)

lemma str_less:
  "str (c # s) < str (d # t) \<longleftrightarrow> of_char c < (of_char d :: nat) \<or> c = d \<and> str s < str t"
  "str [] < str (d # t)" "\<not> str s < str []"
  by (auto simp: str_def)

lemma tidy_pid: "n < 256 \<Longrightarrow> tidy (JStr (demo_pid n))"
  by (intro tidy_str) (auto simp: demo_pid_def py_simps hex_digit_def encodable_def split: if_splits)

lemma tidy_int: "n < 100 \<Longrightarrow> tidy (JInt (int n))"
  by (simp add: nat_dec.simps)

lemma tidy_numeral: "tidy (JInt 9)"
  by (simp add: nat_dec.simps)

lemma tidy_obj: "tidy (JObj (obj kvs)) \<longleftrightarrow> sorted_wrt (<) (map (str \<circ> fst) kvs)
    \<and> list_all (\<lambda>p. key_public (\<lambda>s. s) (str (fst p)) \<and> tidy (snd p)) kvs"
  by (auto simp: obj_def strict_sorted_iff list_all_iff comp_def case_prod_beta)

definition demo_keys :: "string list" where
  "demo_keys = [''binding_state'', ''body_policy'', ''canonical_name'', ''content_authority'', ''definition'',
     ''identity_authority'', ''position'', ''public_id'', ''status'', ''aliases'', ''canonical_abbreviation'',
     ''entity'', ''selection_state'', ''structural_group'', ''authority'', ''candidate_id'', ''default_servable'',
     ''candidates'', ''identity_rule'', ''verb'', ''scope_note'', ''from_public_id'', ''predicate'', ''relationship_id'',
     ''to_public_id'', ''conflict_id'', ''detail'', ''severity'', ''subject_scope'', ''content_sha256'', ''projection_id'',
     ''publication_status'', ''release_state'', ''schema_version'', ''apostles'', ''axioms'', ''legion_commanders'',
     ''omc_commanders'', ''phases'', ''structural_patterns'', ''collections'', ''conflicts'', ''relationships'', ''data'',
     ''meta'']"

lemma public_keys: "list_all (\<lambda>k. key_public (\<lambda>s. s) (str k)) demo_keys"
  by (simp add: demo_keys_def key_public_def forbidden_keys_def endswith_def, simp add: py_simps)

lemmas demo_key_public = public_keys [unfolded demo_keys_def list.pred_inject]

lemmas tidy_record = tidy_obj tidy_pid tidy_int tidy_numeral tidy_tx str_less demo_key_public

lemma demo_axiom_tidy: "n < 100 \<Longrightarrow> tidy (JObj (demo_axiom n))"
  by (simp add: demo_axiom_def tidy_record del: tidy.simps)

lemma tidy_names: "tidy (JStr name_cloud)" "tidy (JStr name_jesus)" "tidy (JStr name_aten)" "tidy (JStr name_void)"
  by (rule tidy_str; simp add: name_cloud_def name_jesus_def name_aten_def name_void_def encodable_def)+

lemma tidy_plain: "tidy JNull" "tidy (JBool b)" "tidy (JStr (str ''x''))"
  using tidy_tx [of "''x''"] by (simp_all add: tx_def)

lemma tidy_list: "tidy (JList xs) \<longleftrightarrow> list_all tidy xs"
  by (simp add: list_all_iff)

lemma tidy_entity: "list_all tidy aliases \<Longrightarrow> tidy (JStr name) \<Longrightarrow>
    abbr = [] \<or> abbr = [(''canonical_abbreviation'', tx ''OMC'')] \<Longrightarrow> tidy (demo_entity aliases abbr name)"
  by (auto simp: demo_entity_def tidy_record tidy_list simp del: tidy.simps)

lemma demo_apostle_tidy: "n < 50 \<Longrightarrow> tidy (JObj (demo_apostle n))"
  by (auto simp: demo_apostle_def tidy_record tidy_names tidy_entity tidy_plain simp del: tidy.simps)

lemma demo_open_tidy: "tidy (JObj demo_open)"
  using tidy_plain by (simp add: demo_open_def demo_candidate_def tidy_record tidy_names tidy_list tidy_plain del: tidy.simps)

lemma demo_legion_tidy: "n < 50 \<Longrightarrow> tidy (JObj (demo_legion n))"
  by (auto simp: demo_legion_def tidy_record tidy_list simp del: tidy.simps)

lemma demo_omc_tidy: "tidy (tx name) \<Longrightarrow> n < 50 \<Longrightarrow> tidy (JObj (demo_omc name n))"
  by (simp add: demo_omc_def tidy_record del: tidy.simps)

lemma demo_phase_tidy: "tidy (JStr name) \<Longrightarrow> n < 50 \<Longrightarrow> tidy (JObj (demo_phase name n))"
  by (simp add: demo_phase_def tidy_record del: tidy.simps)

lemma demo_pattern_tidy: "n < 50 \<Longrightarrow> tidy (JObj (demo_pattern n))"
  by (simp add: demo_pattern_def tidy_record del: tidy.simps)

lemma tidy_one: "i < 26 \<Longrightarrow> tidy (JStr [97 + i])"
  by (intro tidy_str) (simp_all add: encodable_def)

lemma demo_edge_tidy: "tidy (tx p) \<Longrightarrow> tidy (tx a) \<Longrightarrow> tidy (tx s) \<Longrightarrow> m < 50 \<Longrightarrow> n < 50 \<Longrightarrow> i < 26 \<Longrightarrow>
    tidy (JObj (demo_edge p a s m n i))"
  by (simp add: demo_edge_def tidy_record tidy_one del: tidy.simps)

lemma demo_conflict_tidy: "i < 26 \<Longrightarrow> tidy (JObj (demo_conflict i))"
  by (simp add: demo_conflict_def tidy_record tidy_one del: tidy.simps)

section \<open>The snapshot is accepted\<close>

lemma demo_collections_tidy:
  "list_all (\<lambda>r. tidy (JObj r)) demo_axioms" "list_all (\<lambda>r. tidy (JObj r)) demo_apostles"
  "list_all (\<lambda>r. tidy (JObj r)) demo_legions" "list_all (\<lambda>r. tidy (JObj r)) demo_omcs"
  "list_all (\<lambda>r. tidy (JObj r)) demo_phases" "list_all (\<lambda>r. tidy (JObj r)) demo_patterns"
  "list_all (\<lambda>r. tidy (JObj r)) demo_edges" "list_all (\<lambda>r. tidy (JObj r)) demo_confs"
  by (simp_all add: demo_axioms_def demo_apostles_def demo_legions_def demo_omcs_def demo_phases_def demo_patterns_def
      demo_edges_def demo_confs_def demo_conflict_tidy demo_axiom_tidy demo_apostle_tidy demo_open_tidy demo_legion_tidy demo_omc_tidy demo_phase_tidy
      demo_pattern_tidy demo_edge_tidy tidy_names tidy_tx del: tidy.simps)

lemma tidy_objs: "tidy (JList (map JObj rs)) \<longleftrightarrow> list_all (\<lambda>r. tidy (JObj r)) rs"
  by (simp add: list_all_iff)

lemma tidy_meta: "tidy (JStr SCHEMA_VERSION)" "tidy (JStr PROJECTION_ID)" "tidy (JStr RELEASE_STATE)"
  "tidy (JStr PUBLICATION_STATUS)" "tidy (JStr demo_sha)"
proof -
  show "tidy (JStr SCHEMA_VERSION)"
    by (simp add: SCHEMA_VERSION_def forbidden_markers_def, simp add: py_simps startswith_def)
  show "tidy (JStr PROJECTION_ID)" "tidy (JStr RELEASE_STATE)" "tidy (JStr PUBLICATION_STATUS)"
    using tidy_tx [of "''metahumotonic-public-graph-v1-2026-08-30''"] tidy_tx [of "''ACTIVE_INTERNAL_CONFLICT_AWARE''"]
      tidy_tx [of "''INTERNAL_ONLY''"]
    by (simp_all add: tx_def PROJECTION_ID_def RELEASE_STATE_def PUBLICATION_STATUS_def del: tidy.simps)
  show "tidy (JStr demo_sha)" by (intro tidy_str) (simp_all add: demo_sha_def encodable_def)
qed

lemma demo_tidy: "tidy demo_snapshot"
proof -
  have cs: "demo_collections_obj = obj [(''apostles'', JList (map JObj demo_apostles)),
      (''axioms'', JList (map JObj demo_axioms)), (''legion_commanders'', JList (map JObj demo_legions)),
      (''omc_commanders'', JList (map JObj demo_omcs)), (''phases'', JList (map JObj demo_phases)),
      (''structural_patterns'', JList (map JObj demo_patterns))]"
    by (simp add: demo_collections_obj_def obj_def)
  have "tidy (JObj demo_collections_obj)"
    unfolding cs by (simp add: tidy_record tidy_objs demo_collections_tidy del: tidy.simps)
  moreover have "tidy (JList (map JObj demo_confs))" "tidy (JList (map JObj demo_edges))"
    by (simp_all only: tidy_objs demo_collections_tidy)
  moreover have "tidy (JObj demo_meta)"
    by (simp add: demo_meta_def tidy_record tidy_meta del: tidy.simps)
  ultimately show ?thesis
    unfolding demo_snapshot_def by (simp add: tidy_record del: tidy.simps)
qed

definition demo_sn :: Snapshot where
  "demo_sn = \<lparr>sn_meta = demo_meta, sn_collections = demo_collections, sn_relationships = demo_edges,
     sn_conflicts = demo_confs\<rparr>"

lemma demo_meta_expected: "same_dict demo_meta (expected_meta demo_sha)"
proof -
  have "expected_meta demo_sha = obj [(''schema_version'', JStr SCHEMA_VERSION), (''projection_id'', JStr PROJECTION_ID),
      (''release_state'', JStr RELEASE_STATE), (''publication_status'', JStr PUBLICATION_STATUS),
      (''content_sha256'', JStr demo_sha)]"
    by (simp add: expected_meta_def obj_def)
  then show ?thesis by (auto simp: same_dict_def demo_meta_def obj_keys obj_get)
qed

lemma demo_valid: "validate_snapshot (\<lambda>s. s) demo_snapshot demo_sha = Inr demo_sn"
proof -
  obtain root where root: "demo_snapshot = JObj root" and keys: "set (dict_keys root) = {str ''meta'', str ''data''}"
    and meta: "get root ''meta'' = JObj demo_meta"
    and data: "get root ''data'' = JObj (obj [(''collections'', JObj demo_collections_obj),
       (''conflicts'', JList (map JObj demo_confs)),
       (''relationships'', JList (map JObj demo_edges))])"
    by (rule that [OF demo_snapshot_def]) (auto simp: obj_keys obj_get_default)
  have priv: "no_private_fields (\<lambda>s. s) (str ''$'') root = Inr ()"
    using tidy_public(1) [OF demo_tidy, of "str ''$''"] by (simp add: root)
  have names: "set (dict_keys demo_collections_obj) = set (map fst EXPECTED_CARDINALITIES)"
    by (auto simp: demo_collections_obj_def EXPECTED_CARDINALITIES_def dict_keys_def)
  have sha: "SHA256_RE demo_sha"
    by (simp add: SHA256_RE_def demo_sha_def list_all_iff is_hex_char_def)
  have edges: "length demo_edges = EXPECTED_RELATIONSHIPS" "length demo_confs = EXPECTED_CONFLICTS"
    by (simp_all add: demo_edges_def demo_confs_def EXPECTED_CONFLICTS_def EXPECTED_RELATIONSHIPS_def)
  show ?thesis
    unfolding validate_snapshot_def root
    by (simp add: require_mapping_def require_list_def demand_def priv keys meta data demo_meta_expected sha names edges
        obj_keys obj_get_default demo_validate_collections demo_invariants demo_relationships
        demo_topology demo_conflicts demo_sn_def insert_commute)
qed

definition demo_raw :: bytes where
  "demo_raw = map of_nat (dumps True demo_snapshot)"

definition demo_file_sha :: pystr where
  "demo_file_sha = hexdigest (sha256 demo_raw)"

lemma demo_load:
  assumes "32 \<le> length secret"
  shows "\<exists>op. load (\<lambda>s. s) (Contents demo_raw) demo_file_sha demo_sha secret = Inr op"
proof -
  note ok = tidy_ok [OF demo_tidy]
  have "SHA256_RE demo_file_sha"
    using hexdigest_hex by (simp add: SHA256_RE_def demo_file_sha_def list_all_iff)
  moreover have "SHA256_RE demo_sha"
    by (simp add: SHA256_RE_def demo_sha_def list_all_iff is_hex_char_def)
  moreover have "Option.bind (utf8_decode demo_raw) loads = Some demo_snapshot"
    by (simp add: demo_raw_def ascii_dumps [OF ok] loads_dumps [OF ok] tidy_sorted [OF demo_tidy])
  ultimately show ?thesis
    using assms by (simp add: load_def demo_file_sha_def demo_valid new_projection_def Let_def)
qed

section \<open>The properties on it\<close>

definition demo_secret :: pystr where
  "demo_secret = replicate 32 107"

definition demo_settings :: OntologySettings where
  "demo_settings = \<lparr>os_enabled = True, os_snapshot_path = str ''snapshot.json'', os_snapshot_sha256 = demo_file_sha,
     os_content_sha256 = demo_sha, os_internal_key = demo_secret\<rparr>"

lemma demo_configure:
  "\<exists>op. configure (\<lambda>s. s) (\<lambda>p. Contents demo_raw) demo_settings =
     (Inr (), \<lparr>or_enabled = True, or_ready = True, or_projection = Some op, or_internal_key = demo_secret\<rparr>)"
proof -
  have "utf8_encode demo_secret = Some (map of_nat demo_secret)"
    by (rule utf8_encode_ascii) (simp add: demo_secret_def)
  moreover obtain op where "load (\<lambda>s. s) (Contents demo_raw) demo_file_sha demo_sha (map of_nat demo_secret) = Inr op"
    using demo_load [of "map of_nat demo_secret"] by (auto simp: demo_secret_def)
  ultimately show ?thesis
    by (simp add: configure_def demo_settings_def demo_secret_def py_simps)
qed

lemma served_nothing_private_witness:
  "\<exists>op. load (\<lambda>s. s) (Contents demo_raw) demo_file_sha demo_sha (replicate 32 0) = Inr op
    \<and> list_all (\<lambda>e. nothing_private (\<lambda>s. s) (JObj e)) (op_relationships op)"
  using demo_load [of "replicate 32 0"] served_nothing_private [of "\<lambda>s. s" "Contents demo_raw" demo_file_sha demo_sha "replicate 32 0"]
  by (fastforce simp: list_all_iff)

lemma open_slot_never_served_witness:
  "\<exists>op pid r. load (\<lambda>s. s) (Contents demo_raw) demo_file_sha demo_sha (replicate 32 0) = Inr op
    \<and> get_node op pid = Inl (OntologyConflictPending r)"
proof -
  obtain op where op: "load (\<lambda>s. s) (Contents demo_raw) demo_file_sha demo_sha (replicate 32 0) = Inr op"
    using demo_load [of "replicate 32 0"] by auto
  from open_slot_never_served [OF this] op show ?thesis by blast
qed

definition demo_query :: OntologyRequest where
  "demo_query = \<lparr>oq_request = \<lparr>rq_headers = [(str ''x-ontology-key'', demo_secret)], rq_cookies = [], rq_host = None\<rparr>,
     oq_query = [(str ''limit'', str ''many'')], oq_request_id = None\<rparr>"

lemma tidy_renderable: "tidy j \<Longrightarrow> renderable j"
  by (induction j) (auto simp: rd_list rd_obj)

lemma ontology_endpoints_total_witness:
  "\<exists>rt op. configure (\<lambda>s. s) (\<lambda>p. Contents demo_raw) demo_settings = (Inr (), rt) \<and> or_projection rt = Some op
    \<and> is_ok (apostles rt demo_query)
    \<and> is_ok (search_endpoint \<lparr>nf_nfkc = \<lambda>s. s, nf_casefold = \<lambda>s. s, nf_float_eq = \<lambda>t i. False\<rparr> rt demo_query)"
proof -
  obtain op where op: "configure (\<lambda>s. s) (\<lambda>p. Contents demo_raw) demo_settings =
     (Inr (), \<lparr>or_enabled = True, or_ready = True, or_projection = Some op, or_internal_key = demo_secret\<rparr>)"
    using demo_configure by blast
  have key: "is_ascii demo_secret" by (simp add: is_ascii_def demo_secret_def)
  have at: "snapshot_at (\<lambda>p. Contents demo_raw) demo_settings = Some demo_snapshot"
    using tidy_ok [OF demo_tidy]
    by (simp add: snapshot_at_def demo_raw_def ascii_dumps loads_dumps tidy_sorted [OF demo_tidy])
  from ontology_endpoints_total [OF op, of demo_query] key op at tidy_renderable [OF demo_tidy] show ?thesis
    by (simp add: demo_settings_def demo_query_def header_def request_id_def)
qed

end
