(* ===== verification/KgData.thy ===== *)
theory KgData
  imports WikiDomain PyText
begin

text \<open>
  The data of the knowledge graph surface: the response models of \<open>src/app/contracts.py\<close>, the
  curated lists and the queries of \<open>src/app/kg.py\<close>, the values a Neo4j driver returns and the
  coercions \<open>kg.py\<close> applies to them. Conversions whose result depends on the decimal form of a
  float, on Unicode digits or on the lax mode of Pydantic are arguments, collected in a record.
\<close>

section \<open>Response models\<close>

record StatsContract =
  st_nodes :: int
  st_rels :: int
  st_labels :: int
  st_relTypes :: int
  st_domains :: int
  st_skills :: int

record DomainRecord =
  do_name :: pystr
  do_displayName :: pystr
  do_nodeCount :: int
  do_description :: pystr

record SkillRecord =
  sk_name :: pystr
  sk_description :: pystr
  sk_category :: pystr

datatype Source = Live | SnapshotSource

record ResearchSummary =
  su_findings :: int
  su_lessons :: int
  su_papers :: int
  su_validations :: int
  su_consensus :: int
  su_decisions :: int
  su_apostles :: int
  su_domains :: int
  su_source :: Source

record FindingRecord =
  fi_name :: pystr
  fi_finding :: pystr
  fi_axis :: pystr
  fi_subAxis :: pystr
  fi_confidence :: pystr
  fi_cycleId :: pystr
  fi_verified :: "bool option"
  fi_lakatosMechanism :: pystr
  fi_citationUrl :: pystr
  fi_createdAt :: pystr

record LessonRecord =
  le_name :: pystr
  le_problem :: pystr
  le_solution :: pystr
  le_wrongAssumption :: pystr
  le_truth :: pystr
  le_category :: pystr
  le_severity :: pystr
  le_lakatosMechanism :: pystr
  le_createdAt :: pystr

record PaperRecord =
  pa_title :: pystr
  pa_author :: pystr
  pa_year :: "int option"
  pa_journal :: pystr
  pa_doi :: pystr
  pa_domain :: pystr
  pa_coreThesis :: pystr
  pa_status :: pystr

record ConsensusRecord =
  co_name :: pystr
  co_summary :: pystr
  co_createdAt :: pystr

datatype RecentType = FindingItem | LessonItem | ConsensusItem

record RecentItem =
  re_type :: RecentType
  re_name :: pystr
  re_title :: pystr
  re_summary :: pystr
  re_createdAt :: pystr

datatype Direction = Out | In

record GraphNeighbor =
  ne_direction :: Direction
  ne_type :: pystr
  ne_name :: pystr
  ne_labels :: "pystr list"

record NodeNeighbors =
  nn_name :: pystr
  nn_found :: bool
  nn_degree :: int
  nn_neighbors :: "GraphNeighbor list"
  nn_truncated :: bool

record AgentFeed =
  af_doctrine_url :: pystr
  af_canonical_source :: pystr
  af_generated_hint :: pystr
  af_summary :: ResearchSummary
  af_recent_findings :: "FindingRecord list"
  af_recent_lessons :: "LessonRecord list"
  af_how_to_cite :: pystr

section \<open>Curated lists\<close>

definition mk_domain :: "pystr \<Rightarrow> pystr \<Rightarrow> int \<Rightarrow> DomainRecord" where
  "mk_domain n d k = \<lparr>do_name = n, do_displayName = d, do_nodeCount = k, do_description = []\<rparr>"

definition mk_skill :: "pystr \<Rightarrow> pystr \<Rightarrow> pystr \<Rightarrow> SkillRecord" where
  "mk_skill n d c = \<lparr>sk_name = n, sk_description = d, sk_category = c\<rparr>"

definition DOMAINS_FALLBACK :: "DomainRecord list" where
  "DOMAINS_FALLBACK = [
     mk_domain (str ''domain-hub-ai'') (str ''KG_AI '' @ [46020, 47700, 51064]) 499797,
     mk_domain (str ''domain-hub-sym'') (str ''KG_SYM '' @ [46020, 47700, 51064]) 29215,
     mk_domain (str ''domain-hub-reference'') (str ''KG_REFERENCE '' @ [46020, 47700, 51064]) 5961,
     mk_domain (str ''domain-hub-cs'') (str ''KG_CS '' @ [46020, 47700, 51064]) 4302,
     mk_domain (str ''domain-hub-projects'') (str ''KG_PROJECTS '' @ [46020, 47700, 51064]) 3451,
     mk_domain (str ''domain-hub-infra'') (str ''KG_INFRA '' @ [46020, 47700, 51064]) 2412,
     mk_domain (str ''domain-hub-creative'') (str ''KG_CREATIVE '' @ [46020, 47700, 51064]) 2081,
     mk_domain (str ''domain-hub-apt'') (str ''KG_APT '' @ [46020, 47700, 51064]) 1716,
     mk_domain (str ''domain-hub-import'') (str ''KG_Import '' @ [46020, 47700, 51064]) 275,
     mk_domain (str ''domain-hub-orphan'') (str ''KG_ORPHAN '' @ [46020, 47700, 51064]) 219,
     mk_domain (str ''domain-hub-333'') (str ''KG_333 '' @ [46020, 47700, 51064]) 74,
     mk_domain (str ''domain-hub-imported'') (str ''KG_Imported '' @ [46020, 47700, 51064]) 6,
     mk_domain (str ''domain-hub-unlabeled'') (str ''KG_UNLABELED '' @ [46020, 47700, 51064]) 0]"

definition SKILLS_FALLBACK :: "SkillRecord list" where
  "SKILLS_FALLBACK = [
     mk_skill (str ''apt'') (str ''APT v26.1 orchestrator'') (str ''apt''),
     mk_skill (str ''prometheus'') ([54925, 46301] @ str '' '' @ [8212] @ str '' knowledge-first research'') (str ''commander''),
     mk_skill (str ''eureka'') ([48156, 44204, 183, 52285, 51312] @ str '' '' @ [8212] @ str '' induction '' @ [8594] @ str '' new concepts (5'' @ [8594] @ str ''7 '' @ [54869, 51109] @ str '' 2026-05-26)'') (str ''commander''),
     mk_skill (str ''longinus'') ([50672, 44208] @ str '' '' @ [8212] @ str '' KG'' @ [8596] @ str ''code reference binding'') (str ''commander''),
     mk_skill (str ''occam'') ([51221, 47532] @ str '' '' @ [8212] @ str '' archive superseded'' @ [183] @ str ''stale (5'' @ [8594] @ str ''7 '' @ [54869, 51109] @ str '' 2026-05-26)'') (str ''commander''),
     mk_skill (str ''naesengmoon'') ([44160, 51613] @ str '' '' @ [8212] @ str '' '' @ [51201, 45824, 51201] @ str '' '' @ [44160, 51613] @ str '' (canonical, alias: taliban)'') (str ''commander''),
     mk_skill (str ''jaebaeman'') ([52636, 44201] @ str '' '' @ [8212] @ str '' plan-first subagent orchestration'') (str ''commander''),
     mk_skill (str ''harness'') ([49892, 54788] @ str '' '' @ [8212] @ str '' abstract spec '' @ [8594] @ str '' concrete code ('' @ [54616, 45348, 49828] @ str ''='' @ [54616, 45936, 49828] @ str '')'') (str ''commander''),
     mk_skill (str ''88-naesengmoon'') (str ''113-lens mathematical meta-verification'') (str ''commander''),
     mk_skill (str ''solve'') (str ''Systematic problem resolution'') (str ''meta''),
     mk_skill (str ''db-query'') (str ''Database query execution'') (str ''infra''),
     mk_skill (str ''server-status'') (str ''Server health check'') (str ''infra''),
     mk_skill (str ''docker-logs'') (str ''Container log inspection'') (str ''infra''),
     mk_skill (str ''kafka-manage'') (str ''Kafka topic management'') (str ''infra''),
     mk_skill (str ''deploy'') (str ''Service deployment'') (str ''infra''),
     mk_skill (str ''backup'') (str ''Backup management'') (str ''infra''),
     mk_skill (str ''skill-creator'') (str ''Skill creation wizard'') (str ''meta'')]"

definition DOMAINS_COUNT :: int where
  "DOMAINS_COUNT = int (length DOMAINS_FALLBACK)"

definition SKILLS_COUNT :: int where
  "SKILLS_COUNT = int (length SKILLS_FALLBACK)"

definition STATS_FALLBACK :: StatsContract where
  "STATS_FALLBACK = \<lparr>st_nodes = 90808, st_rels = 614376, st_labels = 3249, st_relTypes = 4682,
     st_domains = DOMAINS_COUNT, st_skills = SKILLS_COUNT\<rparr>"

definition RESEARCH_SUMMARY_FALLBACK :: ResearchSummary where
  "RESEARCH_SUMMARY_FALLBACK = \<lparr>su_findings = 12417, su_lessons = 1215, su_papers = 161, su_validations = 608,
     su_consensus = 25, su_decisions = 133, su_apostles = 12, su_domains = 13, su_source = SnapshotSource\<rparr>"

section \<open>Queries\<close>

definition text_lines :: "pystr list \<Rightarrow> pystr" where
  "text_lines ls = join [10] ls"

definition STATS_CYPHER :: pystr where
  "STATS_CYPHER = text_lines [
     [],
     str ''CALL db.labels() YIELD label'',
     str ''WITH count(label) AS labels'',
     str ''CALL db.relationshipTypes() YIELD relationshipType'',
     str ''WITH labels, count(relationshipType) AS relTypes'',
     str ''MATCH (n) WITH labels, relTypes, count(n) AS nodes'',
     str ''MATCH ()-[r]->() WITH labels, relTypes, nodes, count(r) AS rels'',
     str ''OPTIONAL MATCH (d:DomainHub)'',
     str ''RETURN labels, relTypes, nodes, rels, count(d) AS domains'',
     []]"

definition DOMAINS_CYPHER :: pystr where
  "DOMAINS_CYPHER = text_lines [
     [],
     str ''MATCH (d:DomainHub)'',
     str ''RETURN d.name AS name, d.displayName AS displayName,'',
     str ''       d.nodeCount AS nodeCount, coalesce(d.description, '' @ [39, 39] @ str '') AS description'',
     str ''ORDER BY d.nodeCount DESC'',
     []]"

definition RESEARCH_SUMMARY_CYPHER :: pystr where
  "RESEARCH_SUMMARY_CYPHER = text_lines [
     [],
     str ''MATCH (n:ResearchFinding) WITH count(n) AS findings'',
     str ''MATCH (l:Lesson) WITH findings, count(l) AS lessons'',
     str ''MATCH (p:Paper) WITH findings, lessons, count(p) AS papers'',
     str ''MATCH (v:ValidationResult) WITH findings, lessons, papers, count(v) AS validations'',
     str ''MATCH (c:Consensus) WITH findings, lessons, papers, validations, count(c) AS consensus'',
     str ''MATCH (d:DecisionLog)'',
     str ''  WITH findings, lessons, papers, validations, consensus, count(d) AS decisions'',
     str ''MATCH (a:Apostle)'',
     str ''  WITH findings, lessons, papers, validations, consensus, decisions, count(a) AS apostles'',
     str ''MATCH (dh:DomainHub)'',
     str ''RETURN findings, lessons, papers, validations, consensus, decisions, apostles,'',
     str ''       count(dh) AS domains'',
     []]"

definition FINDINGS_CYPHER :: pystr where
  "FINDINGS_CYPHER = text_lines [
     [],
     str ''MATCH (n:ResearchFinding)'',
     str ''WHERE ($cycle = '' @ [39, 39] @ str '' OR n.cycle_id = $cycle)'',
     str ''  AND n.name IS NOT NULL'',
     str ''WITH n, coalesce(toString(n.created_at), toString(n.createdAt),'',
     str ''                 toString(n.timestamp), '' @ [39, 39] @ str '') AS ts'',
     str ''WHERE coalesce(n.finding, n.claim, n.description, n.summary, n.body, '' @ [39, 39] @ str '') <> '' @ [39, 39],
     str ''RETURN n.name AS name,'',
     str ''       coalesce(n.finding, n.claim, n.description, n.summary, n.body, '' @ [39, 39] @ str '') AS finding,'',
     str ''       coalesce(n.axis, '' @ [39, 39] @ str '') AS axis,'',
     str ''       coalesce(n.sub_axis, n.subAxis, '' @ [39, 39] @ str '') AS subAxis,'',
     str ''       n.confidence AS confidence,'',
     str ''       coalesce(n.cycle_id, '' @ [39, 39] @ str '') AS cycleId,'',
     str ''       n.verified AS verified,'',
     str ''       coalesce(n.lakatos_mechanism, '' @ [39, 39] @ str '') AS lakatosMechanism,'',
     str ''       coalesce(n.citation_url, '' @ [39, 39] @ str '') AS citationUrl,'',
     str ''       ts AS createdAt'',
     str ''ORDER BY ts DESC, name'',
     str ''SKIP $offset LIMIT $limit'',
     []]"

definition LESSONS_CYPHER :: pystr where
  "LESSONS_CYPHER = text_lines [
     [],
     str ''MATCH (l:Lesson)'',
     str ''WHERE l.name IS NOT NULL'',
     str ''WITH l, coalesce(toString(l.createdAt), toString(l.created_at), '' @ [39, 39] @ str '') AS ts'',
     str ''RETURN l.name AS name,'',
     str ''       coalesce(l.problem, '' @ [39, 39] @ str '') AS problem,'',
     str ''       coalesce(l.solution, '' @ [39, 39] @ str '') AS solution,'',
     str ''       coalesce(l.wrongAssumption, '' @ [39, 39] @ str '') AS wrongAssumption,'',
     str ''       coalesce(l.truth, '' @ [39, 39] @ str '') AS truth,'',
     str ''       coalesce(l.category, '' @ [39, 39] @ str '') AS category,'',
     str ''       coalesce(l.severity, '' @ [39, 39] @ str '') AS severity,'',
     str ''       coalesce(l.lakatos_mechanism, '' @ [39, 39] @ str '') AS lakatosMechanism,'',
     str ''       ts AS createdAt'',
     str ''ORDER BY ts DESC, name'',
     str ''SKIP $offset LIMIT $limit'',
     []]"

definition PAPERS_CYPHER :: pystr where
  "PAPERS_CYPHER = text_lines [
     [],
     str ''MATCH (p:Paper)'',
     str ''WHERE ($domain = '' @ [39, 39] @ str '' OR p.domain = $domain)'',
     str ''  AND coalesce(p.title, p.name) IS NOT NULL'',
     str ''RETURN coalesce(p.title, p.name) AS title,'',
     str ''       coalesce(p.author, '' @ [39, 39] @ str '') AS author,'',
     str ''       p.year AS year,'',
     str ''       coalesce(p.journal, '' @ [39, 39] @ str '') AS journal,'',
     str ''       coalesce(p.doi, '' @ [39, 39] @ str '') AS doi,'',
     str ''       coalesce(p.domain, '' @ [39, 39] @ str '') AS domain,'',
     str ''       coalesce(p.core_thesis, p.key_insight, p.description, '' @ [39, 39] @ str '') AS coreThesis,'',
     str ''       coalesce(p.status, '' @ [39, 39] @ str '') AS status'',
     str ''ORDER BY coalesce(p.year, 0) DESC, title'',
     str ''SKIP $offset LIMIT $limit'',
     []]"

definition CONSENSUS_CYPHER :: pystr where
  "CONSENSUS_CYPHER = text_lines [
     [],
     str ''MATCH (c:Consensus)'',
     str ''WHERE c.name IS NOT NULL'',
     str ''WITH c, coalesce(toString(c.created_at), toString(c.createdAt), '' @ [39, 39] @ str '') AS ts'',
     str ''RETURN c.name AS name,'',
     str ''       coalesce(c.summary, c.description, c.statement, c.body, '' @ [39, 39] @ str '') AS summary,'',
     str ''       ts AS createdAt'',
     str ''ORDER BY ts DESC, name'',
     str ''LIMIT $limit'',
     []]"

definition NEIGHBORS_CYPHER :: pystr where
  "NEIGHBORS_CYPHER = text_lines [
     [],
     str ''MATCH (n {name: $name})'',
     str ''WITH n LIMIT 1'',
     str ''WITH n, COUNT { (n)--() } AS degree'',
     str ''CALL {'',
     str ''  WITH n'',
     str ''  MATCH (n)-[r]->(m)'',
     str ''  RETURN 'out' AS direction, type(r) AS rtype, m.name AS mname, labels(m) AS lbls'',
     str ''  UNION ALL'',
     str ''  WITH n'',
     str ''  MATCH (n)<-[r]-(m)'',
     str ''  RETURN 'in' AS direction, type(r) AS rtype, m.name AS mname, labels(m) AS lbls'',
     str ''}'',
     str ''WITH degree, collect({direction: direction, type: rtype,'',
     str ''                      name: coalesce(mname, '' @ [39, 39] @ str ''), labels: lbls})[0..$limit] AS neighbors'',
     str ''RETURN degree, neighbors'',
     []]"


section \<open>Values\<close>

text \<open>
  What the driver returns: JSON scalars, lists and maps, and native types (dates, points, nodes)
  that are known here by their \<open>str\<close>.
\<close>

datatype native =
    Scalar json
  | NativeList "native list"
  | NativeMap "(pystr \<times> native) list"
  | Native pystr

fun sanitize :: "native \<Rightarrow> json" where
  "sanitize (Scalar j) = j"
| "sanitize (NativeList xs) = JList (map sanitize xs)"
| "sanitize (NativeMap kvs) = JObj (map (\<lambda>(k, v). (k, sanitize v)) kvs)"
| "sanitize (Native t) = JStr t"

type_synonym Row = "(pystr, json) pydict"

definition drain :: "(pystr \<times> native) list list \<Rightarrow> Row list" where
  "drain rows = map (map (\<lambda>(k, v). (k, sanitize v))) rows"

text \<open>
  \<open>int\<close> of a float and of a text, \<open>str\<close> of a container, a float as \<open>.3g\<close> and its truth value,
  and an \<open>int\<close> field of a Pydantic model.
\<close>

record Conv =
  cv_trunc :: "pystr \<Rightarrow> wiki_exn + int"
  cv_parse :: "pystr \<Rightarrow> wiki_exn + int"
  cv_repr :: "json \<Rightarrow> pystr"
  cv_3g :: "pystr \<Rightarrow> pystr"
  cv_nonzero :: "pystr \<Rightarrow> bool"
  cv_lax_int :: "json \<Rightarrow> int option"

definition py_int :: "Conv \<Rightarrow> json \<Rightarrow> wiki_exn + int" where
  "py_int cv j = (case j of
     JInt i \<Rightarrow> Inr i
   | JBool b \<Rightarrow> Inr (if b then 1 else 0)
   | JFloat t \<Rightarrow> cv_trunc cv t
   | JStr s \<Rightarrow> cv_parse cv s
   | _ \<Rightarrow> Inl (PyTypeError (str ''int() argument must be a string, a bytes-like object or a real number'')))"

definition py_str :: "Conv \<Rightarrow> json \<Rightarrow> pystr" where
  "py_str cv j = (case j of
     JNull \<Rightarrow> str ''None''
   | JBool b \<Rightarrow> (if b then str ''True'' else str ''False'')
   | JInt i \<Rightarrow> int_dec i
   | JFloat t \<Rightarrow> t
   | JStr s \<Rightarrow> s
   | _ \<Rightarrow> cv_repr cv j)"

definition py_bool :: "Conv \<Rightarrow> json \<Rightarrow> bool" where
  "py_bool cv j = (case j of
     JNull \<Rightarrow> False
   | JBool b \<Rightarrow> b
   | JInt i \<Rightarrow> i \<noteq> 0
   | JFloat t \<Rightarrow> cv_nonzero cv t
   | JStr s \<Rightarrow> s \<noteq> []
   | JList xs \<Rightarrow> xs \<noteq> []
   | JObj d \<Rightarrow> d \<noteq> [])"

definition as_conf :: "Conv \<Rightarrow> json \<Rightarrow> pystr" where
  "as_conf cv j = (case j of JNull \<Rightarrow> [] | JFloat t \<Rightarrow> cv_3g cv t | _ \<Rightarrow> py_str cv j)"

text \<open>Only \<open>TypeError\<close> and \<open>ValueError\<close> are caught.\<close>

definition as_int :: "Conv \<Rightarrow> json \<Rightarrow> wiki_exn + int option" where
  "as_int cv j = (if j = JNull then Inr None else case py_int cv j of
     Inr i \<Rightarrow> Inr (Some i)
   | Inl (PyTypeError _) \<Rightarrow> Inr None
   | Inl (PyValueError _) \<Rightarrow> Inr None
   | Inl x \<Rightarrow> Inl x)"

definition as_bool :: "Conv \<Rightarrow> json \<Rightarrow> bool option" where
  "as_bool cv j = (case j of JBool b \<Rightarrow> Some b | JNull \<Rightarrow> None | _ \<Rightarrow> Some (py_bool cv j))"

definition bounds :: "int \<Rightarrow> int \<Rightarrow> int \<times> int" where
  "bounds limit offset = (max 1 (min limit 100), max 0 offset)"

section \<open>Records from rows\<close>

text \<open>\<open>r[k]\<close>, and a \<open>str\<close> field of a Pydantic model, which accepts nothing but a string.\<close>

definition item :: "Row \<Rightarrow> string \<Rightarrow> wiki_exn + json" where
  "item r k = (case dict_get r (str k) of None \<Rightarrow> Inl (PyKeyError (str k)) | Some v \<Rightarrow> Inr v)"

definition str_field :: "json \<Rightarrow> wiki_exn + pystr" where
  "str_field j = (case j of JStr s \<Rightarrow> Inr s | _ \<Rightarrow> Inl (PyValueError (str ''Input should be a valid string'')))"

definition text_item :: "Row \<Rightarrow> string \<Rightarrow> wiki_exn + pystr" where
  "text_item r k = bind_res (item r k) str_field"

text \<open>A required field of a model filled from the whole row\<close>

definition required :: "Row \<Rightarrow> string \<Rightarrow> wiki_exn + json" where
  "required r k = (case dict_get r (str k) of None \<Rightarrow> Inl (PyValueError (str ''Field required'')) | Some v \<Rightarrow> Inr v)"

definition required_text :: "Row \<Rightarrow> string \<Rightarrow> wiki_exn + pystr" where
  "required_text r k = bind_res (required r k) str_field"

text \<open>A field that may be absent\<close>

definition text_or :: "Row \<Rightarrow> string \<Rightarrow> pystr \<Rightarrow> wiki_exn + pystr" where
  "text_or r k d = (case dict_get r (str k) of None \<Rightarrow> Inr d | Some v \<Rightarrow> str_field v)"

definition int_item :: "Conv \<Rightarrow> Row \<Rightarrow> string \<Rightarrow> wiki_exn + int" where
  "int_item cv r k = bind_res (item r k) (py_int cv)"

definition finding_of :: "Conv \<Rightarrow> Row \<Rightarrow> wiki_exn + FindingRecord" where
  "finding_of cv r =
     bind_res (text_item r ''name'') (\<lambda>name.
     bind_res (text_item r ''finding'') (\<lambda>finding.
     bind_res (text_item r ''axis'') (\<lambda>axis.
     bind_res (text_item r ''subAxis'') (\<lambda>sub_axis.
     bind_res (item r ''confidence'') (\<lambda>conf.
     bind_res (text_item r ''cycleId'') (\<lambda>cycle.
     bind_res (item r ''verified'') (\<lambda>verified.
     bind_res (text_item r ''lakatosMechanism'') (\<lambda>mechanism.
     bind_res (text_item r ''citationUrl'') (\<lambda>url.
     bind_res (text_item r ''createdAt'') (\<lambda>created.
     Inr \<lparr>fi_name = name, fi_finding = finding, fi_axis = axis, fi_subAxis = sub_axis,
       fi_confidence = as_conf cv conf, fi_cycleId = cycle, fi_verified = as_bool cv verified,
       fi_lakatosMechanism = mechanism, fi_citationUrl = url, fi_createdAt = created\<rparr>))))))))))"

definition lesson_of :: "Row \<Rightarrow> wiki_exn + LessonRecord" where
  "lesson_of r =
     bind_res (required_text r ''name'') (\<lambda>name.
     bind_res (text_or r ''problem'' []) (\<lambda>problem.
     bind_res (text_or r ''solution'' []) (\<lambda>solution.
     bind_res (text_or r ''wrongAssumption'' []) (\<lambda>wrong.
     bind_res (text_or r ''truth'' []) (\<lambda>truth.
     bind_res (text_or r ''category'' []) (\<lambda>category.
     bind_res (text_or r ''severity'' []) (\<lambda>severity.
     bind_res (text_or r ''lakatosMechanism'' []) (\<lambda>mechanism.
     bind_res (text_or r ''createdAt'' []) (\<lambda>created.
     Inr \<lparr>le_name = name, le_problem = problem, le_solution = solution, le_wrongAssumption = wrong,
       le_truth = truth, le_category = category, le_severity = severity, le_lakatosMechanism = mechanism,
       le_createdAt = created\<rparr>)))))))))"

definition paper_of :: "Conv \<Rightarrow> Row \<Rightarrow> wiki_exn + PaperRecord" where
  "paper_of cv r =
     bind_res (text_item r ''title'') (\<lambda>title.
     bind_res (text_item r ''author'') (\<lambda>author.
     bind_res (bind_res (item r ''year'') (as_int cv)) (\<lambda>year.
     bind_res (text_item r ''journal'') (\<lambda>journal.
     bind_res (text_item r ''doi'') (\<lambda>doi.
     bind_res (text_item r ''domain'') (\<lambda>domain.
     bind_res (text_item r ''coreThesis'') (\<lambda>thesis.
     bind_res (text_item r ''status'') (\<lambda>status.
     Inr \<lparr>pa_title = title, pa_author = author, pa_year = year, pa_journal = journal, pa_doi = doi,
       pa_domain = domain, pa_coreThesis = thesis, pa_status = status\<rparr>))))))))"

definition consensus_of :: "Row \<Rightarrow> wiki_exn + ConsensusRecord" where
  "consensus_of r =
     bind_res (required_text r ''name'') (\<lambda>name.
     bind_res (text_or r ''summary'' []) (\<lambda>summary.
     bind_res (text_or r ''createdAt'' []) (\<lambda>created.
     Inr \<lparr>co_name = name, co_summary = summary, co_createdAt = created\<rparr>)))"

text \<open>\<open>_safe_map\<close>: a row that raises is dropped.\<close>

definition safe_map :: "(Row \<Rightarrow> wiki_exn + 'a) \<Rightarrow> Row list \<Rightarrow> 'a list" where
  "safe_map builder rows = concat (map (\<lambda>r. case builder r of Inl _ \<Rightarrow> [] | Inr x \<Rightarrow> [x]) rows)"

section \<open>The domain listing\<close>

record DomainProjection =
  dp_items :: "DomainRecord list"
  dp_source :: Source
  dp_omitted :: nat

datatype Quality = Complete | Partial | Unavailable

definition quality :: "DomainProjection \<Rightarrow> Quality" where
  "quality p = (if dp_omitted p \<noteq> 0 then (if dp_items p \<noteq> [] then Partial else Unavailable) else Complete)"

text \<open>\<open>DomainRecord.model_validate\<close>: unknown keys are ignored, the description may be absent.\<close>

definition domain_of :: "Conv \<Rightarrow> Row \<Rightarrow> wiki_exn + DomainRecord" where
  "domain_of cv r =
     bind_res (required_text r ''name'') (\<lambda>name.
     bind_res (required_text r ''displayName'') (\<lambda>display.
     bind_res (required r ''nodeCount'') (\<lambda>count.
     case cv_lax_int cv count of
       None \<Rightarrow> Inl (PyValueError (str ''Input should be a valid integer''))
     | Some n \<Rightarrow>
         bind_res (text_or r ''description'' []) (\<lambda>description.
         Inr \<lparr>do_name = name, do_displayName = display, do_nodeCount = n, do_description = description\<rparr>))))"

definition project_domains :: "Conv \<Rightarrow> Row list option \<Rightarrow> DomainRecord list \<Rightarrow> DomainProjection" where
  "project_domains cv rows fallback = (case rows of
     None \<Rightarrow> \<lparr>dp_items = fallback, dp_source = SnapshotSource, dp_omitted = 0\<rparr>
   | Some rs \<Rightarrow> \<lparr>dp_items = safe_map (domain_of cv) rs, dp_source = Live,
       dp_omitted = length (filter (\<lambda>r. \<not> is_ok (domain_of cv r)) rs)\<rparr>)"

end
