(* ===== verification/KgClient.thy ===== *)
theory KgClient
  imports KgData TtlCache Handler
begin

text \<open>
  The client of the knowledge graph, \<open>src/app/kg.py\<close>: the pool of drivers with its failover over
  the configured URIs, the breaker, the raw Cypher proxy, and the cached read operations. The
  database is an argument: which URIs a driver can be made for and what a query on one of them
  comes to. A call to the client is one step here; the interleaving of callers that miss the
  cache at the same time is \<open>TtlCache\<close>.
\<close>

section \<open>The database\<close>

text \<open>
  A query answers with rows, is refused by the server (\<open>Neo4jError\<close>), or fails otherwise (the
  connection, a timeout); whether a write that failed was committed is known only to the server.
  The proxy runs it in a transaction of the given access mode, true for writing.
\<close>

datatype Answer =
    Answered "(pystr \<times> native) list list"
  | Refused pystr
  | Failed (failure: pystr) (committed_anyway: bool)

type_synonym Params = "(pystr, json) pydict"

record KgWorld =
  kw_connect :: "pystr \<Rightarrow> bool"
  kw_answer :: "pystr \<Rightarrow> pystr \<Rightarrow> Params \<Rightarrow> Answer"
  kw_proxy :: "bool \<Rightarrow> pystr \<Rightarrow> pystr \<Rightarrow> Params \<Rightarrow> Answer"
  kw_start :: int
  kw_end :: int

record KgSettings =
  ks_uri :: pystr
  ks_fallback_uris :: pystr
  ks_live :: bool
  ks_max_rows :: int

section \<open>The pool of drivers\<close>

record KgClient =
  kc_driver :: "nat option"
  kc_drivers :: "(pystr, nat) pydict"
  kc_breaker :: Breaker
  kc_next :: nat

definition new_client :: KgClient where
  "new_client = \<lparr>kc_driver = None, kc_drivers = [], kc_breaker = new_breaker 30, kc_next = 0\<rparr>"

definition configured_uris :: "KgSettings \<Rightarrow> pystr list" where
  "configured_uris ks =
     foldl (\<lambda>deduped uri. if uri \<noteq> [] \<and> uri \<notin> set deduped then deduped @ [uri] else deduped) []
       (ks_uri ks # filter (\<lambda>u. u \<noteq> []) (map strip (split_on 44 (ks_fallback_uris ks))))"

definition get_driver :: "KgWorld \<Rightarrow> pystr \<Rightarrow> KgClient \<Rightarrow> nat option \<times> KgClient" where
  "get_driver w uri c =
     (case dict_get (kc_drivers c) uri of
        Some d \<Rightarrow> (Some d, c)
      | None \<Rightarrow>
          (if kw_connect w uri
           then (Some (kc_next c), c\<lparr>kc_drivers := dict_set uri (kc_next c) (kc_drivers c),
                                      kc_driver := Some (kc_next c), kc_next := kc_next c + 1\<rparr>)
           else (None, c)))"

definition first_driver :: "(pystr, nat) pydict \<Rightarrow> nat option" where
  "first_driver ds = (case ds of [] \<Rightarrow> None | p # _ \<Rightarrow> Some (snd p))"

text \<open>\<open>close\<close> of the driver itself is best effort.\<close>

definition drop_driver :: "pystr \<Rightarrow> KgClient \<Rightarrow> KgClient" where
  "drop_driver uri c =
     (case dict_get (kc_drivers c) uri of
        None \<Rightarrow> c
      | Some d \<Rightarrow>
          (let ds = dict_pop uri (kc_drivers c) in
           c\<lparr>kc_drivers := ds, kc_driver := (if kc_driver c = Some d then first_driver ds else kc_driver c)\<rparr>))"

definition close_client :: "KgClient \<Rightarrow> KgClient" where
  "close_client c = (foldl (\<lambda>c uri. drop_driver uri c) c (dict_keys (kc_drivers c)))\<lparr>kc_driver := None\<rparr>"

section \<open>Queries with failover\<close>

fun run_loop :: "KgWorld \<Rightarrow> pystr \<Rightarrow> Params \<Rightarrow> pystr list \<Rightarrow> KgClient \<Rightarrow> Row list option \<times> KgClient" where
  "run_loop w cypher ps [] c = (None, c)"
| "run_loop w cypher ps (uri # uris) c =
     (case get_driver w uri c of
        (None, c') \<Rightarrow> run_loop w cypher ps uris c'
      | (Some d, c') \<Rightarrow>
          (case kw_answer w uri cypher ps of
             Answered rows \<Rightarrow> (Some (drain rows), c')
           | _ \<Rightarrow> run_loop w cypher ps uris (drop_driver uri c')))"

definition run :: "KgSettings \<Rightarrow> KgWorld \<Rightarrow> pystr \<Rightarrow> Params \<Rightarrow> KgClient \<Rightarrow> Row list option \<times> KgClient" where
  "run ks w cypher ps c =
     (if \<not> ks_live ks \<or> is_open (kw_start w) (kc_breaker c) then (None, c)
      else case run_loop w cypher ps (configured_uris ks) c of
        (Some rows, c') \<Rightarrow> (Some rows, c'\<lparr>kc_breaker := reset_breaker (kc_breaker c')\<rparr>)
      | (None, c') \<Rightarrow> (None, c'\<lparr>kc_breaker := trip (kw_end w) (kc_breaker c')\<rparr>))"

text \<open>The proxy: the error of the server is the caller's, any other error moves on to the next URI.\<close>

datatype kg_exn = Neo4jError pystr | KGUnavailable pystr

definition py_take :: "int \<Rightarrow> 'a list \<Rightarrow> 'a list" where
  "py_take n xs = (if 0 \<le> n then take (nat n) xs else take (length xs - nat (- n)) xs)"

fun proxy_loop ::
  "KgSettings \<Rightarrow> KgWorld \<Rightarrow> pystr \<Rightarrow> Params \<Rightarrow> bool \<Rightarrow> pystr option \<Rightarrow> pystr list \<Rightarrow> KgClient
   \<Rightarrow> (kg_exn + Row list) \<times> KgClient" where
  "proxy_loop ks w cypher ps write last_error [] c =
     (Inl (KGUnavailable (case last_error of None \<Rightarrow> str ''no KG URI reachable'' | Some e \<Rightarrow> e)), c)"
| "proxy_loop ks w cypher ps write last_error (uri # uris) c =
     (case get_driver w uri c of
        (None, c') \<Rightarrow> proxy_loop ks w cypher ps write last_error uris c'
      | (Some d, c') \<Rightarrow>
          (case kw_proxy w write uri cypher ps of
             Answered rows \<Rightarrow> (Inr (py_take (ks_max_rows ks) (drain rows)), c')
           | Refused msg \<Rightarrow> (Inl (Neo4jError msg), c')
           | Failed msg _ \<Rightarrow> proxy_loop ks w cypher ps write (Some msg) uris (drop_driver uri c')))"

definition run_cypher ::
  "KgSettings \<Rightarrow> KgWorld \<Rightarrow> pystr \<Rightarrow> Params \<Rightarrow> bool \<Rightarrow> KgClient \<Rightarrow> (kg_exn + Row list) \<times> KgClient" where
  "run_cypher ks w cypher ps write c = proxy_loop ks w cypher ps write None (configured_uris ks) c"

section \<open>The cached operations\<close>

datatype KgValue =
    VStats StatsContract
  | VDomains DomainProjection
  | VSummary ResearchSummary
  | VFindings "FindingRecord list"
  | VLessons "LessonRecord list"
  | VPapers "PaperRecord list"
  | VConsensus "ConsensusRecord list"
  | VNeighbors NodeNeighbors

record KgService =
  sv_client :: KgClient
  sv_cache :: "KgValue Cache"
  sv_research :: "KgValue Cache"

type_synonym 'v producer = "KgClient \<Rightarrow> (wiki_exn + 'v) \<times> KgClient"

definition from_cache :: "KgWorld \<Rightarrow> pystr \<Rightarrow> KgValue producer \<Rightarrow> KgService \<Rightarrow> (wiki_exn + KgValue) \<times> KgService" where
  "from_cache w key producer sv =
     (case get_or_set (kw_start w) (kw_end w) key producer (sv_cache sv) (sv_client sv) of
        (r, ca, c) \<Rightarrow> (r, sv\<lparr>sv_cache := ca, sv_client := c\<rparr>))"

definition from_research :: "KgWorld \<Rightarrow> pystr \<Rightarrow> KgValue producer \<Rightarrow> KgService \<Rightarrow> (wiki_exn + KgValue) \<times> KgService" where
  "from_research w key producer sv =
     (case get_or_set (kw_start w) (kw_end w) key producer (sv_research sv) (sv_client sv) of
        (r, ca, c) \<Rightarrow> (r, sv\<lparr>sv_research := ca, sv_client := c\<rparr>))"

subsection \<open>Statistics and domains\<close>

definition get_skills :: "SkillRecord list" where
  "get_skills = SKILLS_FALLBACK"

definition stats_of :: "Conv \<Rightarrow> Row \<Rightarrow> wiki_exn + StatsContract" where
  "stats_of cv r =
     bind_res (int_item cv r ''domains'') (\<lambda>domains.
     bind_res (int_item cv r ''nodes'') (\<lambda>nodes.
     bind_res (int_item cv r ''rels'') (\<lambda>rels.
     bind_res (int_item cv r ''labels'') (\<lambda>labels.
     bind_res (int_item cv r ''relTypes'') (\<lambda>rel_types.
     Inr \<lparr>st_nodes = nodes, st_rels = rels, st_labels = labels, st_relTypes = rel_types,
       st_domains = (if domains = 0 then DOMAINS_COUNT else domains), st_skills = int (length get_skills)\<rparr>)))))"

definition fetch_stats :: "KgSettings \<Rightarrow> Conv \<Rightarrow> KgWorld \<Rightarrow> KgValue producer" where
  "fetch_stats ks cv w c =
     (case run ks w STATS_CYPHER [] c of
        (Some (r # rs), c') \<Rightarrow> (map_sum id VStats (stats_of cv r), c')
      | (_, c') \<Rightarrow> (Inr (VStats (STATS_FALLBACK\<lparr>st_domains := DOMAINS_COUNT, st_skills := int (length get_skills)\<rparr>)), c'))"

definition get_stats :: "KgSettings \<Rightarrow> Conv \<Rightarrow> KgWorld \<Rightarrow> KgService \<Rightarrow> (wiki_exn + KgValue) \<times> KgService" where
  "get_stats ks cv w = from_cache w (str ''stats'') (fetch_stats ks cv w)"

definition fetch_domain_projection :: "KgSettings \<Rightarrow> Conv \<Rightarrow> KgWorld \<Rightarrow> KgValue producer" where
  "fetch_domain_projection ks cv w c =
     (case run ks w DOMAINS_CYPHER [] c of
        (rows, c') \<Rightarrow> (Inr (VDomains (project_domains cv rows DOMAINS_FALLBACK)), c'))"

definition get_domain_projection ::
  "KgSettings \<Rightarrow> Conv \<Rightarrow> KgWorld \<Rightarrow> KgService \<Rightarrow> (wiki_exn + KgValue) \<times> KgService" where
  "get_domain_projection ks cv w = from_cache w (str ''domains:projection:v1'') (fetch_domain_projection ks cv w)"

subsection \<open>The research surface\<close>

definition summary_of :: "Conv \<Rightarrow> Row \<Rightarrow> wiki_exn + ResearchSummary" where
  "summary_of cv r =
     bind_res (int_item cv r ''findings'') (\<lambda>findings.
     bind_res (int_item cv r ''lessons'') (\<lambda>lessons.
     bind_res (int_item cv r ''papers'') (\<lambda>papers.
     bind_res (int_item cv r ''validations'') (\<lambda>validations.
     bind_res (int_item cv r ''consensus'') (\<lambda>consensus.
     bind_res (int_item cv r ''decisions'') (\<lambda>decisions.
     bind_res (int_item cv r ''apostles'') (\<lambda>apostles.
     bind_res (int_item cv r ''domains'') (\<lambda>domains.
     Inr \<lparr>su_findings = findings, su_lessons = lessons, su_papers = papers, su_validations = validations,
       su_consensus = consensus, su_decisions = decisions, su_apostles = apostles, su_domains = domains,
       su_source = Live\<rparr>))))))))"

definition fetch_research_summary :: "KgSettings \<Rightarrow> Conv \<Rightarrow> KgWorld \<Rightarrow> KgValue producer" where
  "fetch_research_summary ks cv w c =
     (case run ks w RESEARCH_SUMMARY_CYPHER [] c of
        (Some (r # rs), c') \<Rightarrow>
          (Inr (VSummary (case summary_of cv r of Inr s \<Rightarrow> s | Inl _ \<Rightarrow> RESEARCH_SUMMARY_FALLBACK)), c')
      | (_, c') \<Rightarrow> (Inr (VSummary RESEARCH_SUMMARY_FALLBACK), c'))"

definition get_research_summary ::
  "KgSettings \<Rightarrow> Conv \<Rightarrow> KgWorld \<Rightarrow> KgService \<Rightarrow> (wiki_exn + KgValue) \<times> KgService" where
  "get_research_summary ks cv w = from_research w (str ''research_summary'') (fetch_research_summary ks cv w)"

text \<open>The keys of the feeds\<close>

definition findings_key :: "int \<Rightarrow> int \<Rightarrow> pystr \<Rightarrow> pystr" where
  "findings_key limit offset cycle = str ''findings:'' @ int_dec limit @ 58 # int_dec offset @ 58 # cycle"

definition lessons_key :: "int \<Rightarrow> int \<Rightarrow> pystr" where
  "lessons_key limit offset = str ''lessons:'' @ int_dec limit @ 58 # int_dec offset"

definition papers_key :: "int \<Rightarrow> int \<Rightarrow> pystr \<Rightarrow> pystr" where
  "papers_key limit offset domain = str ''papers:'' @ int_dec limit @ 58 # int_dec offset @ 58 # domain"

definition consensus_key :: "int \<Rightarrow> pystr" where
  "consensus_key limit = str ''consensus:'' @ int_dec limit"

definition neighbors_key :: "pystr \<Rightarrow> int \<Rightarrow> pystr" where
  "neighbors_key name limit = str ''neighbors:'' @ name @ 58 # int_dec limit"

definition feed_rows :: "Row list option \<Rightarrow> (Row \<Rightarrow> wiki_exn + 'a) \<Rightarrow> 'a list" where
  "feed_rows rows builder = (case rows of None \<Rightarrow> [] | Some rs \<Rightarrow> safe_map builder rs)"

definition get_findings ::
  "KgSettings \<Rightarrow> Conv \<Rightarrow> KgWorld \<Rightarrow> int \<Rightarrow> int \<Rightarrow> pystr \<Rightarrow> KgService \<Rightarrow> (wiki_exn + KgValue) \<times> KgService" where
  "get_findings ks cv w limit0 offset0 cycle =
     (let (limit, offset) = bounds limit0 offset0 in
      from_research w (findings_key limit offset cycle) (\<lambda>c.
        case run ks w FINDINGS_CYPHER
               [(str ''limit'', JInt limit), (str ''offset'', JInt offset), (str ''cycle'', JStr cycle)] c of
          (rows, c') \<Rightarrow> (Inr (VFindings (feed_rows rows (finding_of cv))), c')))"

definition get_lessons ::
  "KgSettings \<Rightarrow> KgWorld \<Rightarrow> int \<Rightarrow> int \<Rightarrow> KgService \<Rightarrow> (wiki_exn + KgValue) \<times> KgService" where
  "get_lessons ks w limit0 offset0 =
     (let (limit, offset) = bounds limit0 offset0 in
      from_research w (lessons_key limit offset) (\<lambda>c.
        case run ks w LESSONS_CYPHER [(str ''limit'', JInt limit), (str ''offset'', JInt offset)] c of
          (rows, c') \<Rightarrow> (Inr (VLessons (feed_rows rows lesson_of)), c')))"

definition get_papers ::
  "KgSettings \<Rightarrow> Conv \<Rightarrow> KgWorld \<Rightarrow> int \<Rightarrow> int \<Rightarrow> pystr \<Rightarrow> KgService \<Rightarrow> (wiki_exn + KgValue) \<times> KgService" where
  "get_papers ks cv w limit0 offset0 domain =
     (let (limit, offset) = bounds limit0 offset0 in
      from_research w (papers_key limit offset domain) (\<lambda>c.
        case run ks w PAPERS_CYPHER
               [(str ''limit'', JInt limit), (str ''offset'', JInt offset), (str ''domain'', JStr domain)] c of
          (rows, c') \<Rightarrow> (Inr (VPapers (feed_rows rows (paper_of cv))), c')))"

definition get_consensus :: "KgSettings \<Rightarrow> KgWorld \<Rightarrow> int \<Rightarrow> KgService \<Rightarrow> (wiki_exn + KgValue) \<times> KgService" where
  "get_consensus ks w limit0 =
     (let limit = fst (bounds limit0 0) in
      from_research w (consensus_key limit) (\<lambda>c.
        case run ks w CONSENSUS_CYPHER [(str ''limit'', JInt limit)] c of
          (rows, c') \<Rightarrow> (Inr (VConsensus (feed_rows rows consensus_of)), c')))"

subsection \<open>The recent feed\<close>

text \<open>A feed of the wrong kind under a key would be an error of the attribute access on its items.\<close>

definition feed :: "(KgValue \<Rightarrow> 'a list option) \<Rightarrow> wiki_exn + KgValue \<Rightarrow> 'a list" where
  "feed sel r = (case r of Inl _ \<Rightarrow> [] | Inr v \<Rightarrow> (case sel v of None \<Rightarrow> [] | Some xs \<Rightarrow> xs))"

definition as_findings :: "KgValue \<Rightarrow> FindingRecord list option" where
  "as_findings v = (case v of VFindings xs \<Rightarrow> Some xs | _ \<Rightarrow> None)"

definition as_lessons :: "KgValue \<Rightarrow> LessonRecord list option" where
  "as_lessons v = (case v of VLessons xs \<Rightarrow> Some xs | _ \<Rightarrow> None)"

definition as_consensus :: "KgValue \<Rightarrow> ConsensusRecord list option" where
  "as_consensus v = (case v of VConsensus xs \<Rightarrow> Some xs | _ \<Rightarrow> None)"

text \<open>A space, a middle dot, a space; \<open>strip\<close> takes spaces and dots off both ends.\<close>

definition finding_title :: "FindingRecord \<Rightarrow> pystr" where
  "finding_title f =
     (let t = strip_by (\<lambda>c. c = 32 \<or> c = 183) (fi_axis f @ [32, 183, 32] @ fi_subAxis f)
      in if t = [] then str ''ResearchFinding'' else t)"

definition finding_item :: "FindingRecord \<Rightarrow> RecentItem" where
  "finding_item f = \<lparr>re_type = FindingItem, re_name = fi_name f, re_title = finding_title f,
     re_summary = fi_finding f, re_createdAt = fi_createdAt f\<rparr>"

definition lesson_item :: "LessonRecord \<Rightarrow> RecentItem" where
  "lesson_item l = \<lparr>re_type = LessonItem, re_name = le_name l,
     re_title = (if le_problem l \<noteq> [] then le_problem l else le_name l),
     re_summary = (if le_truth l \<noteq> [] then le_wrongAssumption l @ [32, 8594, 32] @ le_truth l else le_solution l),
     re_createdAt = le_createdAt l\<rparr>"

definition consensus_item :: "ConsensusRecord \<Rightarrow> RecentItem" where
  "consensus_item k = \<lparr>re_type = ConsensusItem, re_name = co_name k, re_title = co_name k,
     re_summary = co_summary k, re_createdAt = co_createdAt k\<rparr>"

definition recent_items ::
  "FindingRecord list \<Rightarrow> LessonRecord list \<Rightarrow> ConsensusRecord list \<Rightarrow> int \<Rightarrow> RecentItem list" where
  "recent_items fs ls ks limit =
     py_take limit (sort_desc re_createdAt (map finding_item fs @ map lesson_item ls @ map consensus_item ks))"

text \<open>The three getters run one after the other, each in the world of its moment.\<close>

definition get_recent ::
  "KgSettings \<Rightarrow> Conv \<Rightarrow> (nat \<Rightarrow> KgWorld) \<Rightarrow> int \<Rightarrow> KgService \<Rightarrow> RecentItem list \<times> KgService" where
  "get_recent ks cv ws limit sv =
     (let per = max 8 (min limit 40) in
      case get_findings ks cv (ws 0) per 0 [] sv of (fs, sv1) \<Rightarrow>
      case get_lessons ks (ws 1) per 0 sv1 of (ls, sv2) \<Rightarrow>
      case get_consensus ks (ws 2) (min per 25) sv2 of (cs, sv3) \<Rightarrow>
        (recent_items (feed as_findings fs) (feed as_lessons ls) (feed as_consensus cs) limit, sv3))"

subsection \<open>Neighbours\<close>

text \<open>\<open>x.get("name") or ""\<close> must be a string, \<open>x.get("labels") or []\<close> a list of strings.\<close>

definition or_default :: "Conv \<Rightarrow> json option \<Rightarrow> json \<Rightarrow> json" where
  "or_default cv j d = (case j of None \<Rightarrow> d | Some v \<Rightarrow> if py_bool cv v then v else d)"

definition direction_of :: "json \<Rightarrow> wiki_exn + Direction" where
  "direction_of j =
     (if j = JStr (str ''out'') then Inr Out else if j = JStr (str ''in'') then Inr In
      else Inl (PyValueError (str ''Input should be out or in'')))"

definition labels_of :: "json \<Rightarrow> wiki_exn + pystr list" where
  "labels_of j = (case j of JList xs \<Rightarrow> map_res str_field xs
     | _ \<Rightarrow> Inl (PyValueError (str ''Input should be a valid list'')))"

definition neighbor_of :: "Conv \<Rightarrow> json \<Rightarrow> wiki_exn + GraphNeighbor" where
  "neighbor_of cv j = (case j of
     JObj x \<Rightarrow>
       bind_res (bind_res (item x ''direction'') direction_of) (\<lambda>direction.
       bind_res (text_item x ''type'') (\<lambda>rel_type.
       bind_res (str_field (or_default cv (dict_get x (str ''name'')) (JStr []))) (\<lambda>name.
       bind_res (labels_of (or_default cv (dict_get x (str ''labels'')) (JList []))) (\<lambda>labels.
       Inr \<lparr>ne_direction = direction, ne_type = rel_type, ne_name = name, ne_labels = labels\<rparr>))))
   | _ \<Rightarrow> Inl (PyTypeError (str ''indices must be integers'')))"

definition iterate :: "json \<Rightarrow> wiki_exn + json list" where
  "iterate j = (case j of
     JList xs \<Rightarrow> Inr xs
   | JStr s \<Rightarrow> Inr (map (\<lambda>c. JStr [c]) s)
   | JObj d \<Rightarrow> Inr (map JStr (dict_keys d))
   | _ \<Rightarrow> Inl (PyTypeError (str ''object is not iterable'')))"

definition neighbors_of :: "Conv \<Rightarrow> pystr \<Rightarrow> int \<Rightarrow> Row list option \<Rightarrow> wiki_exn + NodeNeighbors" where
  "neighbors_of cv name limit rows = (case rows of
     Some (r # rs) \<Rightarrow>
       bind_res (int_item cv r ''degree'') (\<lambda>degree.
       bind_res (item r ''neighbors'') (\<lambda>ns.
       bind_res (iterate (if py_bool cv ns then ns else JList [])) (\<lambda>xs.
       bind_res (map_res (neighbor_of cv) xs) (\<lambda>nbrs.
       Inr \<lparr>nn_name = name, nn_found = True, nn_degree = degree, nn_neighbors = nbrs,
         nn_truncated = (limit < degree)\<rparr>))))
   | _ \<Rightarrow> Inr \<lparr>nn_name = name, nn_found = False, nn_degree = 0, nn_neighbors = [], nn_truncated = False\<rparr>)"

definition get_neighbors ::
  "KgSettings \<Rightarrow> Conv \<Rightarrow> KgWorld \<Rightarrow> pystr \<Rightarrow> int \<Rightarrow> KgService \<Rightarrow> (wiki_exn + KgValue) \<times> KgService" where
  "get_neighbors ks cv w name limit0 =
     (let limit = max 1 (min limit0 200) in
      from_research w (neighbors_key name limit) (\<lambda>c.
        case run ks w NEIGHBORS_CYPHER [(str ''name'', JStr name), (str ''limit'', JInt limit)] c of
          (rows, c') \<Rightarrow> (map_sum id VNeighbors (neighbors_of cv name limit rows), c')))"

end
