(* ===== verification/KgApi.thy ===== *)
theory KgApi
  imports KgClient WikiSecurity
begin

text \<open>
  The HTTP surface of the knowledge graph: \<open>src/app/routers/kg_proxy.py\<close>, \<open>domains.py\<close>,
  \<open>research.py\<close>, \<open>stats.py\<close> and \<open>skills.py\<close>. Query parameters arrive as the parsed values; their
  bounds are checked here.
\<close>

section \<open>The Cypher proxy\<close>

record CypherRequest =
  cq_query :: pystr
  cq_params :: Params

record CypherResponse =
  cr_rows :: "Row list"
  cr_count :: nat
  cr_mode :: pystr
  cr_truncated :: bool

definition cypher_request :: "json \<Rightarrow> http_exn + CypherRequest" where
  "cypher_request body = (case body of
     JObj d \<Rightarrow>
       (case dict_get d (str ''query'') of
          Some (JStr q) \<Rightarrow>
            (if q = [] \<or> 20000 < length q then Inl Invalid
             else case dict_get d (str ''params'') of
               None \<Rightarrow> Inr \<lparr>cq_query = q, cq_params = []\<rparr>
             | Some (JObj ps) \<Rightarrow> Inr \<lparr>cq_query = q, cq_params = ps\<rparr>
             | _ \<Rightarrow> Inl Invalid)
        | _ \<Rightarrow> Inl Invalid)
   | _ \<Rightarrow> Inl Invalid)"

record KgKeys =
  kk_read :: pystr
  kk_write :: pystr

text \<open>Every accepted key is compared, and the results are joined.\<close>

fun any_matches :: "pystr \<Rightarrow> pystr list \<Rightarrow> bool \<Rightarrow> wiki_exn + bool" where
  "any_matches candidate [] ok = Inr ok"
| "any_matches candidate (key # keys) ok =
     bind_res (compare_digest candidate key) (\<lambda>same. any_matches candidate keys (ok \<or> same))"

definition authorize :: "pystr option \<Rightarrow> pystr list \<Rightarrow> http_exn + unit" where
  "authorize provided accepted =
     (let configured = filter (\<lambda>k. k \<noteq> []) accepted in
      if configured = [] then Inl (HttpError 503 [] (str ''kg proxy disabled (no key set)''))
      else case any_matches (or_empty provided) configured False of
        Inl x \<Rightarrow> Inl (Unhandled x)
      | Inr ok \<Rightarrow> if ok then Inr () else Inl (HttpError 401 [] (str ''invalid or missing X-API-Key'')))"

definition on_client :: "(KgClient \<Rightarrow> 'a \<times> KgClient) \<Rightarrow> KgService \<Rightarrow> 'a \<times> KgService" where
  "on_client f sv = (case f (sv_client sv) of (r, c) \<Rightarrow> (r, sv\<lparr>sv_client := c\<rparr>))"

definition execute_cypher ::
  "KgSettings \<Rightarrow> KgWorld \<Rightarrow> CypherRequest \<Rightarrow> bool \<Rightarrow> (KgService, CypherResponse) handler" where
  "execute_cypher ks w body write sv =
     (case on_client (run_cypher ks w (cq_query body) (cq_params body) write) sv of
        (Inl (KGUnavailable e), sv') \<Rightarrow> (Inl (HttpError 502 [] (str ''KG unreachable: '' @ e)), sv')
      | (Inl (Neo4jError e), sv') \<Rightarrow> (Inl (HttpError 400 [] e), sv')
      | (Inr rows, sv') \<Rightarrow>
          (Inr \<lparr>cr_rows = rows, cr_count = length rows,
             cr_mode = (if write then str ''write'' else str ''read''),
             cr_truncated = (ks_max_rows ks \<le> int (length rows))\<rparr>, sv'))"

definition kg_read ::
  "KgSettings \<Rightarrow> KgKeys \<Rightarrow> KgWorld \<Rightarrow> pystr option \<Rightarrow> json \<Rightarrow> (KgService, CypherResponse) handler" where
  "kg_read ks keys w x_api_key body =
     hbind (hlift (cypher_request body)) (\<lambda>request.
     hbind (hlift (authorize x_api_key [kk_read keys, kk_write keys])) (\<lambda>_.
     execute_cypher ks w request False))"

definition kg_write ::
  "KgSettings \<Rightarrow> KgKeys \<Rightarrow> KgWorld \<Rightarrow> pystr option \<Rightarrow> json \<Rightarrow> (KgService, CypherResponse) handler" where
  "kg_write ks keys w x_api_key body =
     hbind (hlift (cypher_request body)) (\<lambda>request.
     hbind (hlift (authorize x_api_key [kk_write keys])) (\<lambda>_.
     execute_cypher ks w request True))"

section \<open>Statistics, skills, domains\<close>

text \<open>
  An uncaught exception is a 500; so is a value of the wrong type for the response model.
\<close>

definition answer_as :: "(KgValue \<Rightarrow> 'a option) \<Rightarrow> (wiki_exn + KgValue) \<times> KgService \<Rightarrow> (http_exn + 'a) \<times> KgService" where
  "answer_as sel r = (case r of
     (Inl x, sv) \<Rightarrow> (Inl (Unhandled x), sv)
   | (Inr v, sv) \<Rightarrow> (case sel v of None \<Rightarrow> (Inl (Unhandled (PyTypeError [])), sv) | Some a \<Rightarrow> (Inr a, sv)))"

definition as_stats :: "KgValue \<Rightarrow> StatsContract option" where
  "as_stats v = (case v of VStats s \<Rightarrow> Some s | _ \<Rightarrow> None)"

definition as_domains :: "KgValue \<Rightarrow> DomainProjection option" where
  "as_domains v = (case v of VDomains p \<Rightarrow> Some p | _ \<Rightarrow> None)"

definition as_summary :: "KgValue \<Rightarrow> ResearchSummary option" where
  "as_summary v = (case v of VSummary s \<Rightarrow> Some s | _ \<Rightarrow> None)"

definition as_papers :: "KgValue \<Rightarrow> PaperRecord list option" where
  "as_papers v = (case v of VPapers xs \<Rightarrow> Some xs | _ \<Rightarrow> None)"

definition as_neighbors :: "KgValue \<Rightarrow> NodeNeighbors option" where
  "as_neighbors v = (case v of VNeighbors n \<Rightarrow> Some n | _ \<Rightarrow> None)"

definition stats_endpoint :: "KgSettings \<Rightarrow> Conv \<Rightarrow> KgWorld \<Rightarrow> (KgService, StatsContract) handler" where
  "stats_endpoint ks cv w sv = answer_as as_stats (get_stats ks cv w sv)"

definition skills_endpoint :: "(KgService, SkillRecord list) handler" where
  "skills_endpoint = hret get_skills"

record DomainsResponse =
  dr_status :: int
  dr_headers :: "(pystr, pystr) pydict"
  dr_items :: "DomainRecord list option"

definition source_name :: "Source \<Rightarrow> pystr" where
  "source_name s = (case s of Live \<Rightarrow> str ''live'' | SnapshotSource \<Rightarrow> str ''snapshot'')"

definition quality_name :: "Quality \<Rightarrow> pystr" where
  "quality_name q = (case q of Complete \<Rightarrow> str ''complete'' | Partial \<Rightarrow> str ''partial''
     | Unavailable \<Rightarrow> str ''unavailable'')"

text \<open>A 503 carries the reason instead of items.\<close>

definition domains_response :: "DomainProjection \<Rightarrow> DomainsResponse" where
  "domains_response p =
     (let headers = [(str ''X-Data-Source'', source_name (dp_source p)), (str ''X-Data-Quality'', quality_name (quality p)),
                     (str ''X-Records-Omitted'', nat_dec (dp_omitted p))]
          @ (if dp_omitted p \<noteq> 0 \<or> dp_source p = SnapshotSource then [(str ''Cache-Control'', str ''no-store'')] else [])
      in if quality p = Unavailable then \<lparr>dr_status = 503, dr_headers = headers, dr_items = None\<rparr>
         else \<lparr>dr_status = 200, dr_headers = headers, dr_items = Some (dp_items p)\<rparr>)"

definition domains_endpoint :: "KgSettings \<Rightarrow> Conv \<Rightarrow> KgWorld \<Rightarrow> (KgService, DomainsResponse) handler" where
  "domains_endpoint ks cv w sv =
     (case answer_as as_domains (get_domain_projection ks cv w sv) of
        (Inl e, sv') \<Rightarrow> (Inl e, sv')
      | (Inr p, sv') \<Rightarrow> (Inr (domains_response p), sv'))"

section \<open>Research\<close>

definition checked :: "bool \<Rightarrow> ('s, 'a) handler \<Rightarrow> ('s, 'a) handler" where
  "checked ok h = (if ok then h else hfail Invalid)"

definition page_ok :: "int \<Rightarrow> int \<Rightarrow> int \<Rightarrow> bool" where
  "page_ok max_offset limit offset \<longleftrightarrow> 1 \<le> limit \<and> limit \<le> 100 \<and> 0 \<le> offset \<and> offset \<le> max_offset"

definition research_summary :: "KgSettings \<Rightarrow> Conv \<Rightarrow> KgWorld \<Rightarrow> (KgService, ResearchSummary) handler" where
  "research_summary ks cv w sv = answer_as as_summary (get_research_summary ks cv w sv)"

definition research_findings ::
  "KgSettings \<Rightarrow> int \<Rightarrow> Conv \<Rightarrow> KgWorld \<Rightarrow> int \<Rightarrow> int \<Rightarrow> pystr \<Rightarrow> (KgService, FindingRecord list) handler" where
  "research_findings ks max_offset cv w limit offset cycle =
     checked (page_ok max_offset limit offset \<and> length cycle \<le> 200)
       (\<lambda>sv. answer_as as_findings (get_findings ks cv w limit offset cycle sv))"

definition research_lessons ::
  "KgSettings \<Rightarrow> int \<Rightarrow> KgWorld \<Rightarrow> int \<Rightarrow> int \<Rightarrow> (KgService, LessonRecord list) handler" where
  "research_lessons ks max_offset w limit offset =
     checked (page_ok max_offset limit offset) (\<lambda>sv. answer_as as_lessons (get_lessons ks w limit offset sv))"

definition research_papers ::
  "KgSettings \<Rightarrow> int \<Rightarrow> Conv \<Rightarrow> KgWorld \<Rightarrow> int \<Rightarrow> int \<Rightarrow> pystr \<Rightarrow> (KgService, PaperRecord list) handler" where
  "research_papers ks max_offset cv w limit offset domain =
     checked (page_ok max_offset limit offset \<and> length domain \<le> 200)
       (\<lambda>sv. answer_as as_papers (get_papers ks cv w limit offset domain sv))"

definition research_consensus :: "KgSettings \<Rightarrow> KgWorld \<Rightarrow> int \<Rightarrow> (KgService, ConsensusRecord list) handler" where
  "research_consensus ks w limit =
     checked (1 \<le> limit \<and> limit \<le> 100) (\<lambda>sv. answer_as as_consensus (get_consensus ks w limit sv))"

definition research_recent ::
  "KgSettings \<Rightarrow> Conv \<Rightarrow> (nat \<Rightarrow> KgWorld) \<Rightarrow> int \<Rightarrow> (KgService, RecentItem list) handler" where
  "research_recent ks cv ws limit =
     checked (1 \<le> limit \<and> limit \<le> 100) (\<lambda>sv. case get_recent ks cv ws limit sv of (items, sv') \<Rightarrow> (Inr items, sv'))"

definition research_neighbors ::
  "KgSettings \<Rightarrow> Conv \<Rightarrow> KgWorld \<Rightarrow> pystr \<Rightarrow> int \<Rightarrow> (KgService, NodeNeighbors) handler" where
  "research_neighbors ks cv w name limit =
     checked (name \<noteq> [] \<and> length name \<le> 512 \<and> 1 \<le> limit \<and> limit \<le> 200)
       (\<lambda>sv. answer_as as_neighbors (get_neighbors ks cv w name limit sv))"

definition agent_feed ::
  "KgSettings \<Rightarrow> Conv \<Rightarrow> (nat \<Rightarrow> KgWorld) \<Rightarrow> (KgService, AgentFeed) handler" where
  "agent_feed ks cv ws =
     hbind (\<lambda>sv. answer_as as_summary (get_research_summary ks cv (ws 0) sv)) (\<lambda>summary.
     hbind (\<lambda>sv. answer_as as_findings (get_findings ks cv (ws 1) 10 0 [] sv)) (\<lambda>findings.
     hbind (\<lambda>sv. answer_as as_lessons (get_lessons ks (ws 2) 10 0 sv)) (\<lambda>lessons.
     hret \<lparr>af_doctrine_url = str ''https://metahumotonic.com/llms.txt'',
       af_canonical_source = str ''https://metahumotonic.com/api/research/agent'',
       af_generated_hint = str ''live KG query, cached ~5min; re-fetch for the newest state'',
       af_summary = summary, af_recent_findings = findings, af_recent_lessons = lessons,
       af_how_to_cite = str ''Cite findings by name + cycleId and link https://metahumotonic.com/research. ''
         @ str ''The body is the metahumotonic knowledge graph; /llms.txt defines the canon.''\<rparr>)))"

end
