(* ===== verification/CacheTyping.thy ===== *)
theory CacheTyping
  imports TtlCache
begin

text \<open>
  A cache whose entries fit their keys keeps doing so: shared by the components that put values of
  different kinds into one cache and read them back by key.
\<close>

definition typed :: "(pystr \<Rightarrow> 'v \<Rightarrow> bool) \<Rightarrow> 'v Cache \<Rightarrow> bool" where
  "typed fits ca \<longleftrightarrow> (\<forall>(k, t, v) \<in> set (ca_store ca). fits k v)"

lemma set_move_to_end: "set (move_to_end k d) \<subseteq> set d"
  by (auto simp: move_to_end_def dict_pop_def dest: map_of_SomeD split: option.splits)

lemma set_evict_loop: "set (fst (evict_loop m store locks)) \<subseteq> set store"
  by (induction m store locks rule: evict_loop.induct) auto

lemma typed_fresh: "typed fits ca \<Longrightarrow> cache_fresh now key ca = (h, ca') \<Longrightarrow> typed fits ca' \<and> (\<forall>v. h = Some v \<longrightarrow> fits key v)"
  using set_move_to_end [of key "ca_store ca"]
  by (fastforce simp: cache_fresh_def typed_def dict_pop_def dest: map_of_SomeD split: option.splits if_splits)

lemma typed_lock: "typed fits ca \<Longrightarrow> typed fits (snd (lock_for key ca))"
  by (auto simp: lock_for_def typed_def split: option.split)

lemma typed_put: "typed fits ca \<Longrightarrow> fits key v \<Longrightarrow> typed fits (cache_put now key v ca)"
proof -
  assume t: "typed fits ca" and f: "fits key v"
  let ?store = "move_to_end key (dict_set key (now, v) (ca_store ca))"
  have "set (ca_store (cache_put now key v ca)) \<subseteq> set ?store"
    using set_evict_loop [of "ca_max ca" ?store "ca_locks ca"] by (auto simp: cache_put_def evict_def split: prod.split)
  also have "\<dots> \<subseteq> insert (key, now, v) (set (ca_store ca))"
    using set_move_to_end set_dict_set by fast
  finally show ?thesis using t f by (fastforce simp: typed_def)
qed

lemma typed_get_or_set:
  assumes "typed fits ca" and "\<And>v c'. producer c = (Inr v, c') \<Longrightarrow> fits key v"
    and "get_or_set start stop key producer ca c = (r, ca', c')"
  shows "typed fits ca' \<and> (\<forall>v. r = Inr v \<longrightarrow> fits key v)"
  using assms typed_fresh [OF assms(1)] typed_lock [of fits] typed_put [of fits]
  by (auto simp: get_or_set_def Let_def split: prod.splits option.splits sum.splits if_splits)

lemma get_or_set_ok:
  assumes "is_ok (fst (producer c))"
  shows "is_ok (fst (get_or_set start stop key producer ca c))"
  using assms
  by (auto simp: get_or_set_def Let_def split: prod.splits option.splits sum.splits if_splits)

end
