(* ===== verification/KgProps.thy ===== *)
theory KgProps
  imports KgClient CacheTyping
begin

text \<open>
  Properties of the knowledge graph client: which URI answers a query and what that does to the
  breaker, that the pool of drivers stays consistent, that the cached feeds never fail and never
  share an entry, and that the proxy can apply a write twice.
\<close>

section \<open>Failover\<close>

lemma configured_uris_distinct: "distinct (configured_uris ks)"
proof -
  have keep: "distinct (foldl (\<lambda>d uri. if uri \<noteq> [] \<and> uri \<notin> set d then d @ [uri] else d) acc us)" if "distinct acc" for acc us
    using that by (induction us arbitrary: acc) auto
  show ?thesis unfolding configured_uris_def by (rule keep) simp
qed

definition usable :: "KgWorld \<Rightarrow> KgClient \<Rightarrow> pystr \<Rightarrow> bool" where
  "usable w c uri \<longleftrightarrow> dict_get (kc_drivers c) uri \<noteq> None \<or> kw_connect w uri"

definition answers :: "KgWorld \<Rightarrow> pystr \<Rightarrow> Params \<Rightarrow> KgClient \<Rightarrow> pystr \<Rightarrow> bool" where
  "answers w cypher ps c uri \<longleftrightarrow> usable w c uri \<and> (\<exists>rows. kw_answer w uri cypher ps = Answered rows)"

definition rows_of :: "Answer \<Rightarrow> Row list" where
  "rows_of a = (case a of Answered rows \<Rightarrow> drain rows | _ \<Rightarrow> [])"

lemma rows_of_Answered [simp]: "rows_of (Answered rows) = drain rows"
  by (simp add: rows_of_def)

lemma get_driver_other: "u \<noteq> uri \<Longrightarrow> dict_get (kc_drivers (snd (get_driver w uri c))) u = dict_get (kc_drivers c) u"
  by (auto simp: get_driver_def split: option.split)

lemma drop_driver_other: "u \<noteq> uri \<Longrightarrow> dict_get (kc_drivers (drop_driver uri c)) u = dict_get (kc_drivers c) u"
  by (auto simp: drop_driver_def Let_def dict_pop_get split: option.split)

lemma get_driver_None: "fst (get_driver w uri c) = None \<longleftrightarrow> \<not> usable w c uri"
  by (auto simp: get_driver_def usable_def split: option.split)

lemma get_driver_breaker [simp]: "kc_breaker (snd (get_driver w uri c)) = kc_breaker c"
  by (simp add: get_driver_def split: option.split)

lemma drop_driver_breaker [simp]: "kc_breaker (drop_driver uri c) = kc_breaker c"
  by (simp add: drop_driver_def Let_def split: option.split)

lemma answers_cong:
  "(\<And>u. u \<in> set us \<Longrightarrow> dict_get (kc_drivers c) u = dict_get (kc_drivers c') u) \<Longrightarrow>
     find (answers w cypher ps c) us = find (answers w cypher ps c') us"
  by (intro find_cong) (auto simp: answers_def usable_def)

lemma run_loop_find:
  assumes "distinct us"
  shows "fst (run_loop w cypher ps us c)
      = map_option (\<lambda>u. rows_of (kw_answer w u cypher ps)) (find (answers w cypher ps c) us)
    \<and> kc_breaker (snd (run_loop w cypher ps us c)) = kc_breaker c"
  using assms
proof (induction us arbitrary: c)
  case (Cons uri us)
  obtain d c' where g: "get_driver w uri c = (d, c')" by (cases "get_driver w uri c")
  have same: "find (answers w cypher ps c') us = find (answers w cypher ps c) us"
    "find (answers w cypher ps (drop_driver uri c')) us = find (answers w cypher ps c) us"
    using get_driver_other [of _ uri w c] drop_driver_other [of _ uri c'] Cons.prems g
    by (auto intro!: answers_cong) metis+
  have br: "kc_breaker c' = kc_breaker c" using get_driver_breaker [of w uri c] by (simp add: g)
  show ?case
  proof (cases d)
    case None
    then have "\<not> answers w cypher ps c uri" using get_driver_None [of w uri c] by (simp add: g answers_def)
    with Cons.IH [of c'] Cons.prems None same br show ?thesis by (simp add: g)
  next
    case (Some e)
    then have "usable w c uri" using get_driver_None [of w uri c] by (auto simp: g)
    then have "answers w cypher ps c uri \<longleftrightarrow> (\<exists>rows. kw_answer w uri cypher ps = Answered rows)"
      by (simp add: answers_def)
    with Cons.IH [of "drop_driver uri c'"] Cons.prems Some same br show ?thesis
      by (cases "kw_answer w uri cypher ps") (auto simp: g)
  qed
qed simp

text \<open>C25: A read asks the configured URIs in order and returns the rows of the first one that has a
  driver or gets one and answers; it returns nothing exactly when the client is offline, the
  breaker is open or none answers. An answer closes the breaker; when none answers it opens for
  its cooldown, and a call that was not attempted leaves it as it is.\<close>

theorem kg_failover:
  "fst (run ks w cypher ps c) =
     (if \<not> ks_live ks \<or> is_open (kw_start w) (kc_breaker c) then None
      else map_option (\<lambda>u. rows_of (kw_answer w u cypher ps)) (find (answers w cypher ps c) (configured_uris ks)))
   \<and> is_open t (kc_breaker (snd (run ks w cypher ps c))) =
     (if \<not> ks_live ks \<or> is_open (kw_start w) (kc_breaker c) then is_open t (kc_breaker c)
      else if find (answers w cypher ps c) (configured_uris ks) = None
      then t < kw_end w + br_cooldown (kc_breaker c) else t < 0)"
  using run_loop_find [OF configured_uris_distinct [of ks], of w cypher ps c]
  by (auto simp: run_def is_open_def reset_breaker_def trip_def split: prod.splits option.splits)

section \<open>The pool\<close>

definition pool_ok :: "KgSettings \<Rightarrow> KgClient \<Rightarrow> bool" where
  "pool_ok ks c \<longleftrightarrow> dict_wf (kc_drivers c) \<and> set (dict_keys (kc_drivers c)) \<subseteq> set (configured_uris ks)
     \<and> (case kc_driver c of None \<Rightarrow> kc_drivers c = [] | Some d \<Rightarrow> d \<in> set (dict_values (kc_drivers c)))
     \<and> distinct (dict_values (kc_drivers c)) \<and> list_all (\<lambda>d. d < kc_next c) (dict_values (kc_drivers c))"

lemma pool_ok_new: "pool_ok ks new_client"
  by (simp add: pool_ok_def new_client_def dict_wf_def dict_keys_def dict_values_def)

lemma values_pop: "dict_wf d \<Longrightarrow> v \<in> set (dict_values (dict_pop k d)) \<longleftrightarrow> (\<exists>k'. k' \<noteq> k \<and> dict_get d k' = Some v)"
  by (auto simp: dict_values_get dict_pop_get split: if_splits)

lemma dict_pop_values: "dict_values (dict_pop k d) = map snd (filter (\<lambda>p. fst p \<noteq> k) d)"
  by (simp add: dict_values_def dict_pop_def)

lemma pool_ok_drop:
  assumes "pool_ok ks c"
  shows "pool_ok ks (drop_driver uri c)"
proof (cases "dict_get (kc_drivers c) uri")
  case (Some d)
  let ?ds = "dict_pop uri (kc_drivers c)"
  from assms have wf: "dict_wf (kc_drivers c)" by (simp add: pool_ok_def)
  have vals: "set (dict_values ?ds) \<subseteq> set (dict_values (kc_drivers c))"
    by (auto simp: dict_pop_def dict_values_def)
  have "distinct (dict_values ?ds)"
    unfolding dict_pop_values using assms by (intro distinct_map_filter) (simp add: pool_ok_def dict_values_def)
  moreover have "set (dict_keys ?ds) \<subseteq> set (configured_uris ks)"
    using assms by (auto simp: pool_ok_def dict_keys_def dict_pop_def)
  moreover have "dict_wf ?ds" using wf distinct_map_filter [of fst "kc_drivers c"] by (simp add: dict_wf_def dict_pop_def)
  moreover have "list_all (\<lambda>d. d < kc_next c) (dict_values ?ds)"
    using assms vals by (auto simp: pool_ok_def list_all_iff)
  moreover have "case (if kc_driver c = Some d then first_driver ?ds else kc_driver c) of
      None \<Rightarrow> ?ds = [] | Some e \<Rightarrow> e \<in> set (dict_values ?ds)"
  proof (cases "kc_driver c = Some d")
    case True
    then show ?thesis by (cases ?ds) (auto simp: first_driver_def dict_values_def)
  next
    case False
    from assms Some obtain e where e: "kc_driver c = Some e" "e \<in> set (dict_values (kc_drivers c))"
      by (cases "kc_driver c") (auto simp: pool_ok_def)
    with wf obtain k where "dict_get (kc_drivers c) k = Some e" by (auto simp: dict_values_get)
    with False Some e(1) have "k \<noteq> uri" by auto
    with \<open>dict_get (kc_drivers c) k = Some e\<close> wf have "e \<in> set (dict_values ?ds)" by (auto simp: values_pop)
    with False e(1) show ?thesis by simp
  qed
  ultimately show ?thesis using Some by (auto simp: pool_ok_def drop_driver_def Let_def split: option.splits if_splits)
qed (use assms in \<open>simp add: drop_driver_def\<close>)

lemma pool_ok_get:
  assumes "pool_ok ks c" and "uri \<in> set (configured_uris ks)"
  shows "pool_ok ks (snd (get_driver w uri c))"
proof -
  have "kc_next c \<notin> set (dict_values (kc_drivers c))" using assms(1) by (auto simp: pool_ok_def list_all_iff)
  moreover have "list_all (\<lambda>d. d < Suc (kc_next c)) (dict_values (kc_drivers c))"
    using assms(1) by (auto simp: pool_ok_def list_all_iff less_Suc_eq)
  ultimately show ?thesis
    using assms
    by (auto simp: get_driver_def pool_ok_def dict_set_absent dict_values_def dict_keys_def dict_wf_def
        map_of_eq_None_iff split: option.split)
qed

lemma pool_ok_run_loop:
  "pool_ok ks c \<Longrightarrow> set us \<subseteq> set (configured_uris ks) \<Longrightarrow> pool_ok ks (snd (run_loop w cypher ps us c))"
proof (induction us arbitrary: c)
  case (Cons uri us)
  then have "pool_ok ks (snd (get_driver w uri c))" by (simp add: pool_ok_get)
  with Cons show ?case
    by (cases "get_driver w uri c") (auto simp: pool_ok_drop split: option.split Answer.split)
qed simp

lemma pool_ok_proxy_loop:
  "pool_ok ks c \<Longrightarrow> set us \<subseteq> set (configured_uris ks) \<Longrightarrow> pool_ok ks (snd (proxy_loop ks w cypher ps write e us c))"
proof (induction us arbitrary: c e)
  case (Cons uri us)
  then have "pool_ok ks (snd (get_driver w uri c))" by (simp add: pool_ok_get)
  with Cons show ?case
    by (cases "get_driver w uri c") (auto simp: pool_ok_drop split: option.split Answer.split)
qed simp

lemma pool_ok_breaker [simp]: "pool_ok ks (c\<lparr>kc_breaker := b\<rparr>) = pool_ok ks c"
  by (simp add: pool_ok_def split: option.split)

lemma pool_ok_run: "pool_ok ks c \<Longrightarrow> pool_ok ks (snd (run ks w cypher ps c))"
  using pool_ok_run_loop [of ks c "configured_uris ks" w cypher ps]
  by (auto simp: run_def split: prod.splits option.splits)

lemma drop_all_drivers:
  "kc_drivers (foldl (\<lambda>c uri. drop_driver uri c) c us) = filter (\<lambda>p. fst p \<notin> set us) (kc_drivers c)"
proof (induction us arbitrary: c)
  case (Cons u us)
  have "kc_drivers (drop_driver u c) = dict_pop u (kc_drivers c)"
    by (auto simp: drop_driver_def Let_def dict_pop_def map_of_eq_None_iff intro!: filter_True [symmetric] split: option.split)
  with Cons show ?case by (auto simp: dict_pop_def intro: filter_cong)
qed simp

lemma close_client_empty: "kc_drivers (close_client c) = [] \<and> kc_driver (close_client c) = None"
  by (auto simp: close_client_def drop_all_drivers dict_keys_def filter_empty_conv)

inductive kg_reachable :: "KgSettings \<Rightarrow> KgClient \<Rightarrow> bool" for ks where
  new: "kg_reachable ks new_client"
| run: "kg_reachable ks c \<Longrightarrow> kg_reachable ks (snd (run ks w cypher ps c))"
| proxy: "kg_reachable ks c \<Longrightarrow> kg_reachable ks (snd (run_cypher ks w cypher ps write c))"
| close: "kg_reachable ks c \<Longrightarrow> kg_reachable ks (close_client c)"

text \<open>Whatever was asked before, the client holds drivers of configured URIs only, one each, and its
  current driver is one of them, none exactly when the pool is empty.\<close>

lemma kg_pool_consistent: "kg_reachable ks c \<Longrightarrow> pool_ok ks c"
proof (induction rule: kg_reachable.induct)
  case (close c)
  then show ?case using close_client_empty [of c]
    by (simp add: pool_ok_def dict_wf_def dict_keys_def dict_values_def)
qed (simp_all add: pool_ok_new pool_ok_run run_cypher_def pool_ok_proxy_loop)

section \<open>The keys of the cache\<close>

datatype KgRequest =
    AskSummary
  | AskFindings int int pystr
  | AskLessons int int
  | AskPapers int int pystr
  | AskConsensus int
  | AskNeighbors pystr int

fun cache_key :: "KgRequest \<Rightarrow> pystr" where
  "cache_key AskSummary = str ''research_summary''"
| "cache_key (AskFindings l k cycle) = findings_key l k cycle"
| "cache_key (AskLessons l k) = lessons_key l k"
| "cache_key (AskPapers l k domain) = papers_key l k domain"
| "cache_key (AskConsensus l) = consensus_key l"
| "cache_key (AskNeighbors name l) = neighbors_key name l"

lemma int_dec_no_colon: "58 \<notin> set (int_dec i)"
  using nat_dec_digits [of "nat i"] nat_dec_digits [of "nat (- i)"] by (auto simp: int_dec_def is_digit_def)

lemma int_dec_inj [simp]: "int_dec i = int_dec j \<longleftrightarrow> i = j"
proof
  have digits: "45 \<notin> set (nat_dec n)" for n using nat_dec_digits [of n] by (auto simp: is_digit_def)
  assume eq: "int_dec i = int_dec j"
  consider "i < 0" "j < 0" | "0 \<le> i" "0 \<le> j" | "i < 0" "0 \<le> j" | "0 \<le> i" "j < 0" by linarith
  then show "i = j"
  proof cases
    case 1
    with eq show ?thesis by (auto simp: int_dec_def nat_dec_inj)
  next
    case 2
    with eq show ?thesis by (auto simp: int_dec_def nat_dec_inj)
  next
    case 3
    with arg_cong [OF eq, of set] digits [of "nat j"] show ?thesis by (auto simp: int_dec_def)
  next
    case 4
    with arg_cong [OF eq, of set] digits [of "nat i"] show ?thesis by (auto simp: int_dec_def)
  qed
qed simp

lemma colon_split: "58 \<notin> set a \<Longrightarrow> 58 \<notin> set b \<Longrightarrow> a @ 58 # x = b @ (58 :: nat) # y \<longleftrightarrow> a = b \<and> x = y"
proof (induction a arbitrary: b)
  case Nil
  then show ?case by (cases b) auto
next
  case (Cons c a)
  then show ?case by (cases b) auto
qed

lemma last_colon_split: "58 \<notin> set a \<Longrightarrow> 58 \<notin> set b \<Longrightarrow> x @ 58 # a = y @ (58 :: nat) # b \<longleftrightarrow> x = y \<and> a = b"
proof -
  assume "58 \<notin> set a" "58 \<notin> set b"
  then have "rev a @ 58 # rev x = rev b @ 58 # rev y \<longleftrightarrow> rev a = rev b \<and> rev x = rev y"
    by (intro colon_split) simp_all
  moreover have "x @ 58 # a = y @ 58 # b \<longleftrightarrow> rev a @ 58 # rev x = rev b @ 58 # rev y"
    using rev_is_rev_conv [of "x @ 58 # a" "y @ 58 # b"] by simp
  ultimately show ?thesis by auto
qed

lemmas key_defs = findings_key_def lessons_key_def papers_key_def consensus_key_def neighbors_key_def

lemma key_eqs:
  "findings_key l k c = findings_key l' k' c' \<longleftrightarrow> l = l' \<and> k = k' \<and> c = c'"
  "lessons_key l k = lessons_key l' k' \<longleftrightarrow> l = l' \<and> k = k'"
  "papers_key l k c = papers_key l' k' c' \<longleftrightarrow> l = l' \<and> k = k' \<and> c = c'"
  "consensus_key l = consensus_key l' \<longleftrightarrow> l = l'"
  "neighbors_key c l = neighbors_key c' l' \<longleftrightarrow> c = c' \<and> l = l'"
  by (auto simp: key_defs colon_split last_colon_split int_dec_no_colon)

lemma key_heads:
  "hd (findings_key l k c) = 102" "hd (lessons_key l k) = 108" "hd (papers_key l k c) = 112"
  "hd (consensus_key l) = 99" "hd (neighbors_key c l) = 110" "hd (str ''research_summary'') = 114"
  by (simp_all add: key_defs py_simps)

fun key_tag :: "KgRequest \<Rightarrow> nat" where
  "key_tag AskSummary = 114"
| "key_tag (AskFindings l k cycle) = 102"
| "key_tag (AskLessons l k) = 108"
| "key_tag (AskPapers l k domain) = 112"
| "key_tag (AskConsensus l) = 99"
| "key_tag (AskNeighbors name l) = 110"

lemma key_tag_hd: "hd (cache_key q) = key_tag q"
  by (cases q) (simp_all add: key_heads)

text \<open>No two different requests to the research surface share a cache entry, whatever text the
  client puts into the cycle, the domain or the node name.\<close>

theorem kg_cache_keys: "inj cache_key"
proof (rule injI)
  fix a b assume eq: "cache_key a = cache_key b"
  then have "key_tag a = key_tag b" by (simp flip: key_tag_hd)
  with eq show "a = b" by (cases a; cases b) (simp_all add: key_eqs key_heads)
qed

section \<open>The feeds never fail\<close>

text \<open>Every value in the caches has the type of its key.\<close>

definition fits :: "pystr \<Rightarrow> KgValue \<Rightarrow> bool" where
  "fits k v \<longleftrightarrow> hd k = (case v of
     VSummary _ \<Rightarrow> 114 | VFindings _ \<Rightarrow> 102 | VLessons _ \<Rightarrow> 108 | VPapers _ \<Rightarrow> 112 | VConsensus _ \<Rightarrow> 99
   | VNeighbors _ \<Rightarrow> 110 | VStats _ \<Rightarrow> 115 | VDomains _ \<Rightarrow> 100)"

definition service_typed :: "KgService \<Rightarrow> bool" where
  "service_typed sv \<longleftrightarrow> typed fits (sv_cache sv) \<and> typed fits (sv_research sv)"

lemma typed_from_cache:
  assumes "service_typed sv" and "\<And>c v c'. producer c = (Inr v, c') \<Longrightarrow> fits key v"
  shows "service_typed (snd (from_cache w key producer sv))
    \<and> (\<forall>v. fst (from_cache w key producer sv) = Inr v \<longrightarrow> fits key v)"
proof -
  obtain r ca c where g: "get_or_set (kw_start w) (kw_end w) key producer (sv_cache sv) (sv_client sv) = (r, ca, c)" by (metis prod.exhaust)
  have "typed fits ca \<and> (\<forall>v. r = Inr v \<longrightarrow> fits key v)"
    by (rule typed_get_or_set [where fits = fits, OF _ assms(2) g]) (use assms(1) in \<open>simp_all add: service_typed_def\<close>)
  with assms(1) show ?thesis by (simp add: from_cache_def g service_typed_def)
qed

lemma typed_from_research:
  assumes "service_typed sv" and "\<And>c v c'. producer c = (Inr v, c') \<Longrightarrow> fits key v"
  shows "service_typed (snd (from_research w key producer sv))
    \<and> (\<forall>v. fst (from_research w key producer sv) = Inr v \<longrightarrow> fits key v)"
proof -
  obtain r ca c where g: "get_or_set (kw_start w) (kw_end w) key producer (sv_research sv) (sv_client sv) = (r, ca, c)" by (metis prod.exhaust)
  have "typed fits ca \<and> (\<forall>v. r = Inr v \<longrightarrow> fits key v)"
    by (rule typed_get_or_set [where fits = fits, OF _ assms(2) g]) (use assms(1) in \<open>simp_all add: service_typed_def\<close>)
  with assms(1) show ?thesis by (simp add: from_research_def g service_typed_def)
qed

lemma from_ok:
  assumes "is_ok (fst (producer (sv_client sv)))"
  shows "is_ok (fst (from_cache w key producer sv))" and "is_ok (fst (from_research w key producer sv))"
  using get_or_set_ok [of producer "sv_client sv" "kw_start w" "kw_end w" key "sv_cache sv", OF assms]
    get_or_set_ok [of producer "sv_client sv" "kw_start w" "kw_end w" key "sv_research sv", OF assms]
  by (auto simp: from_cache_def from_research_def split: prod.splits)

lemma more_heads: "hd (str ''stats'') = 115" "hd (str ''domains:projection:v1'') = 100"
  by (simp_all add: py_simps)

lemma map_sum_Inr: "map_sum f g r = Inr v \<longleftrightarrow> (\<exists>u. r = Inr u \<and> v = g u)"
  by (cases r) auto

text \<open>The value each operation produces is of its kind.\<close>

lemma fits_producers:
  "fetch_stats ks cv w c = (Inr v, c') \<Longrightarrow> fits (str ''stats'') v"
  "fetch_domain_projection ks cv w c = (Inr v, c') \<Longrightarrow> fits (str ''domains:projection:v1'') v"
  "fetch_research_summary ks cv w c = (Inr v, c') \<Longrightarrow> fits (str ''research_summary'') v"
  by (auto simp: fetch_stats_def fetch_domain_projection_def fetch_research_summary_def fits_def key_heads more_heads
      map_sum_Inr split: prod.splits option.splits list.splits)

lemmas fits_feeds = fits_def key_heads map_sum_Inr

datatype KgCall =
    CallStats
  | CallDomains
  | CallSummary
  | CallFindings int int pystr
  | CallLessons int int
  | CallPapers int int pystr
  | CallConsensus int
  | CallNeighbors pystr int

fun kg_call :: "KgSettings \<Rightarrow> Conv \<Rightarrow> KgWorld \<Rightarrow> KgCall \<Rightarrow> KgService \<Rightarrow> (wiki_exn + KgValue) \<times> KgService" where
  "kg_call ks cv w CallStats = get_stats ks cv w"
| "kg_call ks cv w CallDomains = get_domain_projection ks cv w"
| "kg_call ks cv w CallSummary = get_research_summary ks cv w"
| "kg_call ks cv w (CallFindings l k cycle) = get_findings ks cv w l k cycle"
| "kg_call ks cv w (CallLessons l k) = get_lessons ks w l k"
| "kg_call ks cv w (CallPapers l k domain) = get_papers ks cv w l k domain"
| "kg_call ks cv w (CallConsensus l) = get_consensus ks w l"
| "kg_call ks cv w (CallNeighbors name l) = get_neighbors ks cv w name l"

definition new_service :: "int \<Rightarrow> int \<Rightarrow> int \<Rightarrow> KgService" where
  "new_service ttl research_ttl entries =
     \<lparr>sv_client = new_client, sv_cache = new_cache ttl entries, sv_research = new_cache research_ttl entries\<rparr>"

inductive kg_served :: "KgSettings \<Rightarrow> Conv \<Rightarrow> KgService \<Rightarrow> bool" for ks cv where
  start: "kg_served ks cv (new_service ttl research_ttl entries)"
| served: "kg_served ks cv sv \<Longrightarrow> kg_served ks cv (snd (kg_call ks cv w q sv))"

definition right_kind :: "KgCall \<Rightarrow> KgValue \<Rightarrow> bool" where
  "right_kind q v \<longleftrightarrow> (case q of
     CallStats \<Rightarrow> (case v of VStats _ \<Rightarrow> True | _ \<Rightarrow> False)
   | CallDomains \<Rightarrow> (case v of VDomains _ \<Rightarrow> True | _ \<Rightarrow> False)
   | CallSummary \<Rightarrow> (case v of VSummary _ \<Rightarrow> True | _ \<Rightarrow> False)
   | CallFindings _ _ _ \<Rightarrow> (case v of VFindings _ \<Rightarrow> True | _ \<Rightarrow> False)
   | CallLessons _ _ \<Rightarrow> (case v of VLessons _ \<Rightarrow> True | _ \<Rightarrow> False)
   | CallPapers _ _ _ \<Rightarrow> (case v of VPapers _ \<Rightarrow> True | _ \<Rightarrow> False)
   | CallConsensus _ \<Rightarrow> (case v of VConsensus _ \<Rightarrow> True | _ \<Rightarrow> False)
   | CallNeighbors _ _ \<Rightarrow> (case v of VNeighbors _ \<Rightarrow> True | _ \<Rightarrow> False))"

lemma right_kindI:
  "fits (str ''stats'') v \<Longrightarrow> right_kind CallStats v"
  "fits (str ''domains:projection:v1'') v \<Longrightarrow> right_kind CallDomains v"
  "fits (str ''research_summary'') v \<Longrightarrow> right_kind CallSummary v"
  "fits (findings_key l k c) v \<Longrightarrow> right_kind (CallFindings l' k' c') v"
  "fits (lessons_key l k) v \<Longrightarrow> right_kind (CallLessons l' k') v"
  "fits (papers_key l k c) v \<Longrightarrow> right_kind (CallPapers l' k' c') v"
  "fits (consensus_key l) v \<Longrightarrow> right_kind (CallConsensus l') v"
  "fits (neighbors_key c l) v \<Longrightarrow> right_kind (CallNeighbors c' l') v"
  by (cases v; simp add: right_kind_def fits_def key_heads more_heads)+

lemma typed_of_kind:
  "A \<and> (\<forall>v. r = Inr v \<longrightarrow> fits key v) \<Longrightarrow> (\<And>v. fits key v \<Longrightarrow> right_kind q v) \<Longrightarrow>
     A \<and> (\<forall>v. r = Inr v \<longrightarrow> right_kind q v)"
  by blast

lemma kg_call_typed:
  assumes "service_typed sv"
  shows "service_typed (snd (kg_call ks cv w q sv)) \<and> (\<forall>v. fst (kg_call ks cv w q sv) = Inr v \<longrightarrow> right_kind q v)"
proof (cases q)
  case CallStats
  show ?thesis
    unfolding CallStats kg_call.simps get_stats_def
    by (rule typed_of_kind [OF typed_from_cache [OF assms] right_kindI(1)]) (rule fits_producers(1))
next
  case CallDomains
  show ?thesis
    unfolding CallDomains kg_call.simps get_domain_projection_def
    by (rule typed_of_kind [OF typed_from_cache [OF assms] right_kindI(2)]) (rule fits_producers(2))
next
  case CallSummary
  show ?thesis
    unfolding CallSummary kg_call.simps get_research_summary_def
    by (rule typed_of_kind [OF typed_from_research [OF assms] right_kindI(3)]) (rule fits_producers(3))
next
  case (CallFindings l k cycle)
  show ?thesis
    unfolding CallFindings kg_call.simps get_findings_def Let_def bounds_def fst_conv prod.case
    by (rule typed_of_kind [OF typed_from_research [OF assms] right_kindI(4)])
      (auto simp: fits_feeds split: prod.splits)
next
  case (CallLessons l k)
  show ?thesis
    unfolding CallLessons kg_call.simps get_lessons_def Let_def bounds_def fst_conv prod.case
    by (rule typed_of_kind [OF typed_from_research [OF assms] right_kindI(5)])
      (auto simp: fits_feeds split: prod.splits)
next
  case (CallPapers l k domain)
  show ?thesis
    unfolding CallPapers kg_call.simps get_papers_def Let_def bounds_def fst_conv prod.case
    by (rule typed_of_kind [OF typed_from_research [OF assms] right_kindI(6)])
      (auto simp: fits_feeds split: prod.splits)
next
  case (CallConsensus l)
  show ?thesis
    unfolding CallConsensus kg_call.simps get_consensus_def Let_def bounds_def fst_conv prod.case
    by (rule typed_of_kind [OF typed_from_research [OF assms] right_kindI(7)])
      (auto simp: fits_feeds split: prod.splits)
next
  case (CallNeighbors name l)
  show ?thesis
    unfolding CallNeighbors kg_call.simps get_neighbors_def Let_def bounds_def fst_conv prod.case
    by (rule typed_of_kind [OF typed_from_research [OF assms] right_kindI(8)])
      (auto simp: fits_feeds split: prod.splits)
qed

lemma kg_served_typed: "kg_served ks cv sv \<Longrightarrow> service_typed sv"
proof (induction rule: kg_served.induct)
  case (start ttl research_ttl entries)
  then show ?case by (simp add: new_service_def service_typed_def typed_def new_cache_def)
next
  case (served sv w q)
  then show ?case using kg_call_typed by blast
qed

definition fail_soft :: "KgCall \<Rightarrow> bool" where
  "fail_soft q \<longleftrightarrow> (case q of CallStats \<Rightarrow> False | CallNeighbors _ _ \<Rightarrow> False | _ \<Rightarrow> True)"

lemma kg_call_ok:
  assumes "fail_soft q"
  shows "is_ok (fst (kg_call ks cv w q sv))"
  using assms
  by (cases q)
    (auto simp: fail_soft_def get_domain_projection_def get_research_summary_def get_findings_def get_lessons_def
      get_papers_def get_consensus_def fetch_domain_projection_def fetch_research_summary_def bounds_def Let_def
      intro!: from_ok split: prod.splits option.splits list.splits)

text \<open>The statistics and the neighbours answer too as long as the database gives them nothing.\<close>

lemma kg_call_offline:
  assumes "\<not> ks_live ks \<or> is_open (kw_start w) (kc_breaker (sv_client sv))"
  shows "is_ok (fst (kg_call ks cv w q sv))"
proof (cases "fail_soft q")
  case False
  with assms show ?thesis
    by (cases q) (auto simp: fail_soft_def get_stats_def get_neighbors_def fetch_stats_def run_def neighbors_of_def Let_def
      intro!: from_ok)
qed (simp add: kg_call_ok)

text \<open>C26: The reads of the knowledge graph are fail-soft and well-typed. In every service that has only
  been called, whatever the database does, the domain listing, the summary and the feeds answer,
  each with a value of its own kind, be it fresh, cached or the fallback; while the client is
  offline or the breaker is open the statistics and the neighbours answer as well.\<close>

theorem kg_reads_fail_soft:
  assumes "kg_served ks cv sv"
  shows "(\<exists>v. fst (kg_call ks cv w q sv) = Inr v \<and> right_kind q v)
    \<or> \<not> fail_soft q \<and> ks_live ks \<and> \<not> is_open (kw_start w) (kc_breaker (sv_client sv))"
proof (cases "fail_soft q \<or> \<not> ks_live ks \<or> is_open (kw_start w) (kc_breaker (sv_client sv))")
  case True
  then have "is_ok (fst (kg_call ks cv w q sv))" using kg_call_ok kg_call_offline by blast
  with kg_call_typed [OF kg_served_typed [OF assms], of ks cv w q] show ?thesis by (auto simp: is_ok_iff)
qed auto

definition quiet_world :: KgWorld where
  "quiet_world = \<lparr>kw_connect = (\<lambda>u. False), kw_answer = (\<lambda>u q ps. Failed [] False),
     kw_proxy = (\<lambda>m u q ps. Failed [] False), kw_start = 1, kw_end = 2\<rparr>"

definition live_settings :: KgSettings where
  "live_settings = \<lparr>ks_uri = str ''bolt'', ks_fallback_uris = [], ks_live = True, ks_max_rows = 1000\<rparr>"

definition plain_conv :: Conv where
  "plain_conv = \<lparr>cv_trunc = (\<lambda>t. Inl PyOverflowError), cv_parse = (\<lambda>s. Inl (PyValueError s)), cv_repr = (\<lambda>j. []),
     cv_3g = (\<lambda>t. t), cv_nonzero = (\<lambda>t. True), cv_lax_int = (\<lambda>j. case j of JInt i \<Rightarrow> Some i | _ \<Rightarrow> None)\<rparr>"

lemma kg_reads_fail_soft_witness:
  "\<exists>s. fst (kg_call live_settings plain_conv quiet_world CallSummary (new_service 120 300 512)) = Inr (VSummary s)"
proof -
  obtain v where "fst (kg_call live_settings plain_conv quiet_world CallSummary (new_service 120 300 512)) = Inr v"
    and "right_kind CallSummary v"
    using kg_reads_fail_soft [OF kg_served.start, of live_settings plain_conv quiet_world CallSummary 120 300 512]
    by (auto simp: fail_soft_def)
  then show ?thesis by (cases v) (auto simp: right_kind_def)
qed

section \<open>The proxy\<close>

text \<open>The URIs a call of the proxy runs its transaction on\<close>

fun asked :: "KgWorld \<Rightarrow> pystr \<Rightarrow> Params \<Rightarrow> bool \<Rightarrow> pystr list \<Rightarrow> KgClient \<Rightarrow> pystr list" where
  "asked w cypher ps write [] c = []"
| "asked w cypher ps write (uri # uris) c =
     (case get_driver w uri c of
        (None, c') \<Rightarrow> asked w cypher ps write uris c'
      | (Some d, c') \<Rightarrow>
          uri # (case kw_proxy w write uri cypher ps of
             Failed _ _ \<Rightarrow> asked w cypher ps write uris (drop_driver uri c')
           | _ \<Rightarrow> []))"

definition committed :: "Answer \<Rightarrow> bool" where
  "committed a = (case a of Answered _ \<Rightarrow> True | Refused _ \<Rightarrow> False | Failed _ b \<Rightarrow> b)"

text \<open>The URIs on which a write took effect\<close>

definition commits :: "KgSettings \<Rightarrow> KgWorld \<Rightarrow> pystr \<Rightarrow> Params \<Rightarrow> KgClient \<Rightarrow> pystr list" where
  "commits ks w cypher ps c =
     filter (\<lambda>u. committed (kw_proxy w True u cypher ps)) (asked w cypher ps True (configured_uris ks) c)"

definition two_uris :: KgSettings where
  "two_uris = \<lparr>ks_uri = str ''a'', ks_fallback_uris = str ''b'', ks_live = True, ks_max_rows = 1000\<rparr>"

lemma configured_two: "configured_uris two_uris = [str ''a'', str ''b'']"
  by (simp add: configured_uris_def two_uris_def py_simps strip_def strip_by_def py_space_def)

text \<open>The first database is down, the second answers with one row.\<close>

definition failover_world :: KgWorld where
  "failover_world = \<lparr>kw_connect = (\<lambda>u. True),
     kw_answer = (\<lambda>u q ps. if u = str ''b'' then Answered [[(str ''n'', Scalar (JInt 1))]] else Failed [] False),
     kw_proxy = (\<lambda>m u q ps. Answered []), kw_start = 1, kw_end = 2\<rparr>"

lemma kg_failover_witness:
  "fst (run two_uris failover_world (str ''q'') [] new_client) = Some [[(str ''n'', JInt 1)]]
   \<and> \<not> is_open 5 (kc_breaker (snd (run two_uris failover_world (str ''q'') [] new_client)))"
proof -
  have live: "ks_live two_uris" "\<not> is_open (kw_start failover_world) (kc_breaker new_client)"
    by (simp_all add: two_uris_def failover_world_def is_open_def new_client_def new_breaker_def)
  have found: "\<not> answers failover_world (str ''q'') [] new_client (str ''a'')"
      "answers failover_world (str ''q'') [] new_client (str ''b'')"
    by (simp_all add: answers_def usable_def failover_world_def)
  have rows: "rows_of (kw_answer failover_world (str ''b'') (str ''q'') []) = [[(str ''n'', JInt 1)]]"
    by (simp add: failover_world_def drain_def)
  show ?thesis
    using kg_failover [of two_uris failover_world "str ''q''" "[]" new_client 5]
    by (simp add: live configured_two found rows)
qed

definition late_world :: KgWorld where
  "late_world = \<lparr>kw_connect = (\<lambda>u. True), kw_answer = (\<lambda>u q ps. Answered []),
     kw_proxy = (\<lambda>m u q ps. if u = str ''a'' then Failed (str ''timeout'') True else Answered []),
     kw_start = 1, kw_end = 12\<rparr>"

text \<open>The proxy can apply one write on two databases. When the first configured URI commits but the
  answer is lost (a timeout of the client, a broken connection), the call moves on to the next
  URI and runs the same write there; the caller sees one success.\<close>

theorem kg_write_applied_twice:
  "\<exists>ks w cypher ps. fst (run_cypher ks w cypher ps True new_client) = Inr []
     \<and> commits ks w cypher ps new_client = [str ''a'', str ''b'']"
proof -
  note uris = configured_two
  have "fst (run_cypher two_uris late_world q ps True new_client) = Inr []"
    and "commits two_uris late_world q ps new_client = [str ''a'', str ''b'']" for q ps
    by (simp_all add: run_cypher_def commits_def uris get_driver_def late_world_def new_client_def drain_def py_take_def
        committed_def drop_driver_def dict_pop_def first_driver_def Let_def)
  then show ?thesis by blast
qed

end
