(* ===== verification/KgApiProps.thy ===== *)
theory KgApiProps
  imports KgApi KgProps
begin

text \<open>
  The gate of the Cypher proxy, the disclosure of the domain listing and the order of the recent
  feed.
\<close>

section \<open>The gate of the proxy\<close>

lemma any_matches_Inr: "any_matches candidate keys ok = Inr b \<Longrightarrow> b \<longleftrightarrow> ok \<or> candidate \<in> set keys"
  by (induction candidate keys ok rule: any_matches.induct) (auto simp: compare_digest_def res_simps split: if_splits)

lemma authorize_Inr: "authorize provided accepted = Inr () \<Longrightarrow> \<exists>k. provided = Some k \<and> k \<noteq> [] \<and> k \<in> set accepted"
  by (auto simp: authorize_def Let_def or_empty_def dest!: any_matches_Inr split: if_splits sum.splits option.splits)

lemma hbind_lift: "hbind (hlift r) f s = (case r of Inl e \<Rightarrow> (Inl e, s) | Inr x \<Rightarrow> f x s)"
  by (simp add: hbind_def hlift_def split: sum.split)

lemma proxy_loop_mode:
  "proxy_loop ks (w\<lparr>kw_proxy := \<lambda>m. if m = mode then kw_proxy w mode else f m\<rparr>) cypher ps mode e us c
     = proxy_loop ks w cypher ps mode e us c"
  by (induction us arbitrary: c e) (simp_all add: get_driver_def split: option.split prod.split Answer.split)

text \<open>C27: The key-gated split of the Cypher proxy. A call that answers, or that has any effect on the
  client, carried a configured key: the write key for writing, the read or the write key for
  reading. And reading never runs a write transaction: whatever the databases would do in one,
  the outcome of the read endpoint is the same.\<close>

theorem kg_proxy_gate:
  assumes "is_ok (fst (kg_write ks keys w key body sv)) \<or> snd (kg_write ks keys w key body sv) \<noteq> sv"
    and "is_ok (fst (kg_read ks keys w' key' body' sv')) \<or> snd (kg_read ks keys w' key' body' sv') \<noteq> sv'"
  shows "key = Some (kk_write keys) \<and> kk_write keys \<noteq> []
    \<and> (\<exists>k. key' = Some k \<and> k \<noteq> [] \<and> (k = kk_read keys \<or> k = kk_write keys))
    \<and> kg_read ks keys (w'\<lparr>kw_proxy := \<lambda>m. if m then f else kw_proxy w' False\<rparr>) key' body' sv'
        = kg_read ks keys w' key' body' sv'"
proof (intro conjI)
  have "authorize key [kk_write keys] = Inr ()"
    using assms(1) by (auto simp: kg_write_def hbind_lift split: sum.splits)
  from authorize_Inr [OF this] show "key = Some (kk_write keys)" and "kk_write keys \<noteq> []" by auto
  have "authorize key' [kk_read keys, kk_write keys] = Inr ()"
    using assms(2) by (auto simp: kg_read_def hbind_lift split: sum.splits)
  from authorize_Inr [OF this] show "\<exists>k. key' = Some k \<and> k \<noteq> [] \<and> (k = kk_read keys \<or> k = kk_write keys)" by auto
  have "(\<lambda>m. if m then f else kw_proxy w' False) = (\<lambda>m. if m = False then kw_proxy w' False else f)" by auto
  then show "kg_read ks keys (w'\<lparr>kw_proxy := \<lambda>m. if m then f else kw_proxy w' False\<rparr>) key' body' sv'
      = kg_read ks keys w' key' body' sv'"
    using proxy_loop_mode [where w = w' and mode = False and f = "\<lambda>m. f"]
    by (simp add: kg_read_def hbind_lift execute_cypher_def run_cypher_def on_client_def split: sum.split)
qed

definition proxy_keys :: KgKeys where
  "proxy_keys = \<lparr>kk_read = str ''reader'', kk_write = str ''writer''\<rparr>"

definition proxy_body :: json where
  "proxy_body = JObj [(str ''query'', JStr (str ''RETURN 1''))]"

lemma proxy_demo:
  "is_ok (fst (kg_write two_uris proxy_keys late_world (Some (str ''writer'')) proxy_body (new_service 120 300 512)))"
  "is_ok (fst (kg_read two_uris proxy_keys late_world (Some (str ''writer'')) proxy_body (new_service 120 300 512)))"
proof -
  have uris: "configured_uris two_uris = [str ''a'', str ''b'']"
    by (simp add: configured_uris_def two_uris_def py_simps strip_def strip_by_def py_space_def)
  have ascii: "is_ascii (str ''writer'')" "is_ascii (str ''reader'')" by (simp_all add: is_ascii_def py_simps)
  have req: "cypher_request proxy_body = Inr \<lparr>cq_query = str ''RETURN 1'', cq_params = []\<rparr>"
    by (simp add: cypher_request_def proxy_body_def)
  have auth: "authorize (Some (str ''writer'')) [kk_write proxy_keys] = Inr ()"
    "authorize (Some (str ''writer'')) [kk_read proxy_keys, kk_write proxy_keys] = Inr ()"
    by (simp_all add: authorize_def proxy_keys_def or_empty_def compare_digest_def ascii)
  have "is_ok (fst (execute_cypher two_uris late_world rq mode (new_service 120 300 512)))" for rq mode
    by (simp add: execute_cypher_def on_client_def run_cypher_def uris get_driver_def late_world_def new_service_def
        new_client_def drop_driver_def dict_pop_def first_driver_def Let_def)
  with req auth show
    "is_ok (fst (kg_write two_uris proxy_keys late_world (Some (str ''writer'')) proxy_body (new_service 120 300 512)))"
    "is_ok (fst (kg_read two_uris proxy_keys late_world (Some (str ''writer'')) proxy_body (new_service 120 300 512)))"
    by (simp_all add: kg_write_def kg_read_def hbind_lift)
qed

lemma kg_proxy_gate_witness:
  "kg_read two_uris proxy_keys (late_world\<lparr>kw_proxy := \<lambda>m. if m then (\<lambda>u q ps. Refused []) else kw_proxy late_world False\<rparr>)
     (Some (str ''writer'')) proxy_body (new_service 120 300 512)
   = kg_read two_uris proxy_keys late_world (Some (str ''writer'')) proxy_body (new_service 120 300 512)"
  using kg_proxy_gate [of two_uris proxy_keys late_world "Some (str ''writer'')" proxy_body "new_service 120 300 512"
      late_world "Some (str ''writer'')" proxy_body "new_service 120 300 512" "\<lambda>u q ps. Refused []"] proxy_demo
  by blast

section \<open>The domain listing\<close>

lemma length_safe_map: "length (safe_map f rs) + length (filter (\<lambda>r. \<not> is_ok (f r)) rs) = length rs"
  by (induction rs) (auto simp: safe_map_def split: sum.splits)

text \<open>The domain listing never hides a loss. Of the rows the query gave, exactly those that do not
  validate are left out and their number is in the header; the answer is refused with 503 exactly
  when every row is left out, and it may be cached only when nothing was left out and the data are
  live.\<close>

theorem domains_disclose_omissions:
  "let r = domains_response (project_domains cv (Some rows) fallback);
       lost = length (filter (\<lambda>row. \<not> is_ok (domain_of cv row)) rows)
   in dict_get (dr_headers r) (str ''X-Records-Omitted'') = Some (nat_dec lost)
    \<and> dr_items r = (if rows \<noteq> [] \<and> lost = length rows then None else Some (safe_map (domain_of cv) rows))
    \<and> length (safe_map (domain_of cv) rows) + lost = length rows
    \<and> (dr_status r = 503 \<longleftrightarrow> rows \<noteq> [] \<and> lost = length rows)
    \<and> (dict_get (dr_headers r) (str ''Cache-Control'') = None \<longleftrightarrow> lost = 0)
    \<and> dict_get (dr_headers (domains_response (project_domains cv None fallback))) (str ''Cache-Control'') = Some (str ''no-store'')"
proof -
  note l = length_safe_map [of "domain_of cv" rows]
  have empty: "safe_map (domain_of cv) rows = [] \<longleftrightarrow> length (filter (\<lambda>row. \<not> is_ok (domain_of cv row)) rows) = length rows"
    using l by (metis add_cancel_left_left length_0_conv)
  show ?thesis
    using l empty
    by (auto simp: Let_def domains_response_def project_domains_def quality_def)
qed

end
