(* ===== verification/McpRegistry.thy ===== *)
theory McpRegistry
  imports TtlCache Handler Json
begin

text \<open>
  The entries of the MCP registry and the manifest built from them, \<open>src/app/mcp_manifest.py\<close>,
  and the reader of the registry's collection, \<open>src/app/mcp_store.py\<close>. A document of the
  collection is a dictionary of BSON values as the driver hands them over; the collection
  itself is an argument: what each query comes to, or that it fails.
\<close>

section \<open>Documents\<close>

text \<open>
  A date is its wall-clock reading in microseconds with the offset from UTC, if it has one. A
  float is kept as its literal. Values of other BSON types (object ids, binary) are opaque.
\<close>

record Moment =
  mo_wall :: int
  mo_offset :: "int option"

datatype bson =
    BNull
  | BBool bool
  | BInt int
  | BFloat pystr
  | BStr pystr
  | BDate Moment
  | BList "bson list"
  | BDoc "(pystr \<times> bson) list"
  | BOther pystr

type_synonym bdoc = "(pystr, bson) pydict"

text \<open>
  What Python does with values other than text, integers and containers: \<open>str\<close>, truth,
  iteration, and \<open>max\<close> and \<open>sorted\<close> of lists that are not all text.
\<close>

record Builtins =
  py_show :: "bson \<Rightarrow> pystr"
  py_true :: "bson \<Rightarrow> bool"
  py_elements :: "pystr \<Rightarrow> wiki_exn + bson list"
  py_max :: "bson list \<Rightarrow> wiki_exn + bson"
  py_sorted :: "(bson \<times> bdoc) list \<Rightarrow> wiki_exn + bdoc list"

definition show_value :: "Builtins \<Rightarrow> bson \<Rightarrow> pystr" where
  "show_value B v = (case v of BStr s \<Rightarrow> s | BNull \<Rightarrow> str ''None'' | BInt i \<Rightarrow> int_dec i
     | BBool b \<Rightarrow> (if b then str ''True'' else str ''False'') | _ \<Rightarrow> py_show B v)"

definition truthy :: "Builtins \<Rightarrow> bson \<Rightarrow> bool" where
  "truthy B v = (case v of BNull \<Rightarrow> False | BBool b \<Rightarrow> b | BInt i \<Rightarrow> i \<noteq> 0 | BStr s \<Rightarrow> s \<noteq> []
     | BList xs \<Rightarrow> xs \<noteq> [] | BDoc d \<Rightarrow> d \<noteq> [] | BDate m \<Rightarrow> True | _ \<Rightarrow> py_true B v)"

definition got :: "bdoc \<Rightarrow> string \<Rightarrow> bson" where
  "got d key = (case dict_get d (str key) of None \<Rightarrow> BNull | Some v \<Rightarrow> v)"

text \<open>\<open>d.get(key) or default\<close>\<close>

definition got_or :: "Builtins \<Rightarrow> bdoc \<Rightarrow> string \<Rightarrow> bson \<Rightarrow> bson" where
  "got_or B d key dflt = (if truthy B (got d key) then got d key else dflt)"

text \<open>\<open>value.attribute\<close>, an attribute that only dictionaries have\<close>

definition as_doc :: "string \<Rightarrow> bson \<Rightarrow> wiki_exn + bdoc" where
  "as_doc attribute v = (case v of BDoc d \<Rightarrow> Inr d | _ \<Rightarrow> Inl (PyAttributeError (str attribute)))"

definition elements :: "Builtins \<Rightarrow> bson \<Rightarrow> wiki_exn + bson list" where
  "elements B v = (case v of BList xs \<Rightarrow> Inr xs | BStr s \<Rightarrow> Inr (map (\<lambda>c. BStr [c]) s)
     | BDoc d \<Rightarrow> Inr (map (BStr \<circ> fst) d) | BOther t \<Rightarrow> py_elements B t
     | _ \<Rightarrow> Inl (PyTypeError (str ''object is not iterable'')))"

section \<open>The manifest's constants\<close>

definition SCHEMA :: pystr where
  "SCHEMA = str ''metahumotonic/mcp-registry@1''"

definition SITE :: pystr where
  "SITE = str ''https://metahumotonic.com''"

definition JSONLD_CONTEXT :: bson where
  "JSONLD_CONTEXT = BDoc
     [(str ''schema'', BStr (str ''https://schema.org/'')),
      (str ''mhb'', BStr (str ''https://metahumotonic.com/mcp/ontology#''))]"

definition MANIFEST_TYPES :: bson where
  "MANIFEST_TYPES = BList [BStr (str ''schema:ItemList''), BStr (str ''mhb:McpRegistry'')]"

definition SERVER_TYPES :: bson where
  "SERVER_TYPES = BList [BStr (str ''schema:SoftwareApplication''), BStr (str ''mhb:McpServer'')]"

definition CATEGORY_CAPABILITIES :: "(pystr, pystr list) pydict" where
  "CATEGORY_CAPABILITIES =
     [(str ''graph'', [str ''cypher.read'', str ''cypher.write'', str ''schema.inspect'']),
      (str ''vector'', [str ''kv.crud'', str ''vector.search'', str ''json.document'', str ''streams'', str ''pubsub'']),
      (str ''document'', [str ''document.crud'', str ''query'', str ''aggregation'', str ''index.admin'']),
      (str ''storage'', [str ''bucket.admin'', str ''object.read'', str ''object.write'', str ''presigned-url'']),
      (str ''utility'', [str ''tools''])]"

definition DEFAULT_CAPABILITIES :: "pystr list" where
  "DEFAULT_CAPABILITIES = [str ''tools'']"

definition PUBLIC_SERVER_FIELDS :: "pystr list" where
  "PUBLIC_SERVER_FIELDS = [str ''name'', str ''description'', str ''category'', str ''transport'',
     str ''status'', str ''verified_at'', str ''last_probe_at'']"

definition VAULT_SPEC :: bson where
  "VAULT_SPEC = BDoc [(str ''status'', BStr (str ''disabled'')), (str ''access'', BStr (str ''operator-cli-only''))]"

section \<open>Secret placeholders\<close>

text \<open>\<open><([A-Z][A-Z0-9_]*)>\<close>: the name has no \<open>>\<close>, so the greedy match is the only one.\<close>

definition name_char :: "nat \<Rightarrow> bool" where
  "name_char c \<longleftrightarrow> 65 \<le> c \<and> c \<le> 90 \<or> 48 \<le> c \<and> c \<le> 57 \<or> c = 95"

fun findall :: "pystr \<Rightarrow> pystr list" where
  "findall [] = []"
| "findall (c # cs) =
     (let name = takeWhile name_char cs in
      if c = 60 \<and> name \<noteq> [] \<and> 65 \<le> hd name \<and> hd name \<le> 90 \<and> startswith (drop (length name) cs) [62]
      then name # findall (drop (length name + 1) cs)
      else findall cs)"

definition shown_names :: "Builtins \<Rightarrow> bson list \<Rightarrow> pystr list" where
  "shown_names B vs = concat (map (findall \<circ> show_value B) vs)"

definition placeholder_names :: "Builtins \<Rightarrow> bdoc \<Rightarrow> wiki_exn + pystr list" where
  "placeholder_names B connection =
     bind_res (as_doc ''values'' (got_or B connection ''env'' (BDoc []))) (\<lambda>env.
     bind_res (elements B (got_or B connection ''args'' (BList []))) (\<lambda>args.
     let url = got connection ''url'';
         names = shown_names B (dict_values env) @ shown_names B args
           @ (if truthy B url then shown_names B [url] else [])
     in Inr (sorted_list_of_set (set names))))"

section \<open>Entries\<close>

definition declared_capabilities :: "bdoc \<Rightarrow> bson list" where
  "declared_capabilities server = (case got server ''capabilities'' of BList xs \<Rightarrow> xs | _ \<Rightarrow> [])"

definition capabilities_for :: "Builtins \<Rightarrow> bdoc \<Rightarrow> wiki_exn + bson list" where
  "capabilities_for B server =
     (if declared_capabilities server \<noteq> [] then Inr (declared_capabilities server)
      else case got_or B server ''category'' (BStr []) of
        BStr c \<Rightarrow> Inr (map BStr (case dict_get CATEGORY_CAPABILITIES c of None \<Rightarrow> DEFAULT_CAPABILITIES | Some cs \<Rightarrow> cs))
      | BList _ \<Rightarrow> Inl (PyTypeError (str ''unhashable type''))
      | BDoc _ \<Rightarrow> Inl (PyTypeError (str ''unhashable type''))
      | _ \<Rightarrow> Inr (map BStr DEFAULT_CAPABILITIES))"

definition auth_type :: "string \<Rightarrow> bson" where
  "auth_type kind = BDoc [(str ''type'', BStr (str kind))]"

definition auth_for :: "Builtins \<Rightarrow> bdoc \<Rightarrow> wiki_exn + bson" where
  "auth_for B server =
     (let by_recipe =
        bind_res (as_doc ''get'' (got_or B server ''connection'' (BDoc []))) (\<lambda>connection.
        bind_res (placeholder_names B connection) (\<lambda>requires.
        Inr (auth_type (if requires \<noteq> [] then ''operator-managed'' else ''none''))))
      in case got server ''auth'' of
        BDoc d \<Rightarrow>
          (if got d ''type'' = BStr (str ''none'') then Inr (auth_type ''none'')
           else if d \<noteq> [] then Inr (auth_type ''operator-managed'')
           else by_recipe)
      | _ \<Rightarrow> by_recipe)"

definition public_fields :: "bdoc \<Rightarrow> bdoc" where
  "public_fields server = concat (map (\<lambda>k. case dict_get server k of None \<Rightarrow> [] | Some v \<Rightarrow> [(k, v)]) PUBLIC_SERVER_FIELDS)"

definition enrich_server :: "Builtins \<Rightarrow> bdoc \<Rightarrow> wiki_exn + bdoc" where
  "enrich_server B server =
     (let name = (case dict_get server (str ''name'') of None \<Rightarrow> [] | Some v \<Rightarrow> show_value B v) in
      bind_res (capabilities_for B server) (\<lambda>capabilities.
      bind_res (auth_for B server) (\<lambda>auth.
      Inr ([(str ''@type'', SERVER_TYPES), (str ''@id'', BStr (SITE @ str ''/api/mcp/servers/'' @ name))]
        @ public_fields server
        @ [(str ''capabilities'', BList capabilities),
           (str ''capabilities_source'',
             BStr (if declared_capabilities server \<noteq> [] then str ''declared'' else str ''category-inferred'')),
           (str ''auth'', auth)]))))"

fun bson_text :: "bson \<Rightarrow> pystr option" where
  "bson_text (BStr s) = Some s"
| "bson_text _ = None"

fun all_text :: "bson list \<Rightarrow> pystr list option" where
  "all_text [] = Some []"
| "all_text (v # vs) = (case (bson_text v, all_text vs) of (Some s, Some ss) \<Rightarrow> Some (s # ss) | _ \<Rightarrow> None)"

text \<open>\<open>max(values, default="")\<close>\<close>

definition latest :: "Builtins \<Rightarrow> bson list \<Rightarrow> wiki_exn + bson" where
  "latest B vs = (case vs of [] \<Rightarrow> Inr (BStr []) | [v] \<Rightarrow> Inr v
     | _ \<Rightarrow> (case all_text vs of Some ss \<Rightarrow> Inr (BStr (Max (set ss))) | None \<Rightarrow> py_max B vs))"

definition build_manifest :: "Builtins \<Rightarrow> bdoc list \<Rightarrow> bdoc \<Rightarrow> pystr \<Rightarrow> wiki_exn + bdoc" where
  "build_manifest B servers meta updated =
     bind_res (if updated \<noteq> [] then Inr (BStr updated)
               else latest B (map (\<lambda>s. got_or B s ''verified_at'' (BStr [])) servers)) (\<lambda>resolved_updated.
     bind_res (map_res (enrich_server B) servers) (\<lambda>entries.
     Inr [(str ''@context'', JSONLD_CONTEXT), (str ''@type'', MANIFEST_TYPES), (str ''schema'', BStr SCHEMA),
          (str ''updated'', resolved_updated), (str ''site'', BStr SITE), (str ''credential_vault'', VAULT_SPEC),
          (str ''servers'', BList (map BDoc entries))]))"

end
