(* ===== verification/McpApi.thy ===== *)
theory McpApi
  imports McpRegistry
begin

text \<open>
  The reader of the registry (\<open>src/app/mcp_store.py\<close>) and its HTTP surface
  (\<open>src/app/routers/mcp_registry.py\<close>): cached reads that fall back to an empty snapshot, the
  status page as data and as text, and the discovery document.
\<close>

section \<open>The store\<close>

text \<open>
  What the database does during one request: whether a client can be made, the documents that
  each query selects (\<open>None\<close> when it fails), whether the index can be made, and the readings of the
  monotonic clock when the request starts and when its queries are over. The documents are those
  of the collection; what a query shows of them is the code's projection, below.
\<close>

record McpWorld =
  mw_start :: int
  mw_end :: int
  mw_connects :: bool
  mw_index :: bool
  mw_servers :: "bdoc list option"
  mw_server :: "pystr \<Rightarrow> bdoc option option"
  mw_meta :: "bdoc option option"
  mw_health :: "bdoc list option"
  mw_vault :: "bdoc option option"

record McpRegistryStore =
  ms_client :: bool
  ms_collection :: bool
  ms_breaker :: Breaker

definition new_registry :: McpRegistryStore where
  "new_registry = \<lparr>ms_client = False, ms_collection = False, ms_breaker = new_breaker 30\<rparr>"

text \<open>
  The projections of the queries: \<open>{"_id": 0, "kind": 0}\<close> drops fields, \<open>{"_id": 0, "name": 1, ...}\<close>
  keeps the named ones; the fields stay in the document's order.
\<close>

definition project_out :: "string list \<Rightarrow> bdoc \<Rightarrow> bdoc" where
  "project_out ns d = filter (\<lambda>kv. fst kv \<notin> set (map str ns)) d"

definition project_in :: "string list \<Rightarrow> bdoc \<Rightarrow> bdoc" where
  "project_in ns d = filter (\<lambda>kv. fst kv \<in> set (map str ns)) d"

definition shown_doc :: "bdoc \<Rightarrow> bdoc" where
  "shown_doc d = project_out [''_id'', ''kind''] d"

definition health_row :: "bdoc \<Rightarrow> bdoc" where
  "health_row d = project_in [''name'', ''status'', ''verified_at'', ''last_probe_at''] d"

datatype mcp_exn =
    McpRegistryUnavailable pystr
  | McpRaises http_exn

definition get_mcp_collection :: "bool \<Rightarrow> McpWorld \<Rightarrow> McpRegistryStore \<Rightarrow> bool \<times> McpRegistryStore" where
  "get_mcp_collection uri w s =
     (if \<not> uri \<or> is_open (mw_start w) (ms_breaker s) then (False, s)
      else if ms_collection s then (True, s)
      else if mw_connects w then (True, s\<lparr>ms_client := True, ms_collection := True\<rparr>)
      else (False, s\<lparr>ms_breaker := trip (mw_end w) (ms_breaker s)\<rparr>))"

text \<open>The index plan that runs at startup; a failure is only logged.\<close>

definition ensure_mcp_indexes :: "bool \<Rightarrow> McpWorld \<Rightarrow> McpRegistryStore \<Rightarrow> bool \<times> McpRegistryStore" where
  "ensure_mcp_indexes uri w s =
     (case get_mcp_collection uri w s of (present, s') \<Rightarrow> (present \<and> mw_index w, s'))"

definition col_or_raise :: "bool \<Rightarrow> McpWorld \<Rightarrow> McpRegistryStore \<Rightarrow> (mcp_exn + unit) \<times> McpRegistryStore" where
  "col_or_raise uri w s =
     (case get_mcp_collection uri w s of (present, s') \<Rightarrow>
        (if present then Inr () else Inl (McpRegistryUnavailable (str ''mongo registry unavailable'')), s'))"

text \<open>A read: the breaker is reset before the answer is known, and tripped when it does not come.\<close>

definition read_registry ::
  "bool \<Rightarrow> McpWorld \<Rightarrow> 'a option \<Rightarrow> McpRegistryStore \<Rightarrow> (mcp_exn + 'a) \<times> McpRegistryStore" where
  "read_registry uri w answer s =
     (case col_or_raise uri w s of
        (Inl e, s') \<Rightarrow> (Inl e, s')
      | (Inr _, s') \<Rightarrow>
          (let s'' = s'\<lparr>ms_breaker := reset_breaker (ms_breaker s')\<rparr> in
           case answer of
             Some a \<Rightarrow> (Inr a, s'')
           | None \<Rightarrow> (Inl (McpRegistryUnavailable (str ''mongo registry read failed'')),
               s''\<lparr>ms_breaker := trip (mw_end w) (ms_breaker s''), ms_collection := False\<rparr>)))"

type_synonym 'a mcp_read = "McpRegistryStore \<Rightarrow> (mcp_exn + 'a) \<times> McpRegistryStore"

definition store_servers :: "bool \<Rightarrow> McpWorld \<Rightarrow> bdoc list mcp_read" where
  "store_servers uri w = read_registry uri w (map_option (map shown_doc) (mw_servers w))"

definition store_server :: "bool \<Rightarrow> McpWorld \<Rightarrow> pystr \<Rightarrow> bdoc option mcp_read" where
  "store_server uri w name = read_registry uri w (map_option (map_option shown_doc) (mw_server w name))"

definition manifest_meta :: "bool \<Rightarrow> McpWorld \<Rightarrow> bdoc mcp_read" where
  "manifest_meta uri w =
     read_registry uri w (map_option (\<lambda>doc. case doc of None \<Rightarrow> [] | Some d \<Rightarrow> shown_doc d) (mw_meta w))"

definition store_health :: "bool \<Rightarrow> McpWorld \<Rightarrow> bdoc list mcp_read" where
  "store_health uri w = read_registry uri w (map_option (map health_row) (mw_health w))"

definition store_vault :: "bool \<Rightarrow> McpWorld \<Rightarrow> bdoc option mcp_read" where
  "store_vault uri w = read_registry uri w (map_option (map_option shown_doc) (mw_vault w))"

lemma dict_get_filter:
  "dict_get (filter (\<lambda>kv. P (fst kv)) d) k = (if P k then dict_get d k else None)"
  by (induction d) (auto split: if_splits)

lemma got_shown_doc: "key \<notin> {''_id'', ''kind''} \<Longrightarrow> dict_get (shown_doc d) (str key) = dict_get d (str key)"
  using dict_get_filter [of "\<lambda>k. k \<notin> set (map str [''_id'', ''kind''])" d "str key"]
  by (simp add: shown_doc_def project_out_def)

lemma got_shown: "key \<notin> {''_id'', ''kind''} \<Longrightarrow> got (shown_doc d) key = got d key"
  by (simp add: got_def got_shown_doc)

lemma got_or_shown: "key \<notin> {''_id'', ''kind''} \<Longrightarrow> got_or B (shown_doc d) key v = got_or B d key v"
  by (simp add: got_or_def got_shown)

lemma got_health_row:
  "dict_get (health_row d) k =
     (if k \<in> set (map str [''name'', ''status'', ''verified_at'', ''last_probe_at'']) then dict_get d k else None)"
  unfolding health_row_def project_in_def by (rule dict_get_filter)

definition close_registry :: "McpRegistryStore \<Rightarrow> McpRegistryStore" where
  "close_registry s = (if ms_client s then s\<lparr>ms_client := False, ms_collection := False\<rparr> else s)"

section \<open>Cached reads\<close>

record McpService =
  mc_store :: McpRegistryStore
  mc_cache :: "bdoc Cache"

definition mcp_cached ::
  "McpWorld \<Rightarrow> pystr \<Rightarrow> bdoc mcp_read \<Rightarrow> bdoc \<Rightarrow> (McpService, bdoc) handler" where
  "mcp_cached w key producer fallback sv =
     (case get_or_set (mw_start w) (mw_end w) key producer (mc_cache sv) (mc_store sv) of
        (r, ca, s) \<Rightarrow>
          (case r of
             Inr v \<Rightarrow> Inr v
           | Inl (McpRegistryUnavailable _) \<Rightarrow> Inr fallback
           | Inl (McpRaises e) \<Rightarrow> Inl e,
           sv\<lparr>mc_cache := ca, mc_store := s\<rparr>))"

definition mcp_then :: "'a mcp_read \<Rightarrow> ('a \<Rightarrow> 'b mcp_read) \<Rightarrow> 'b mcp_read" where
  "mcp_then m f s = (case m s of (Inl e, s') \<Rightarrow> (Inl e, s') | (Inr a, s') \<Rightarrow> f a s')"

definition mcp_ret :: "'a \<Rightarrow> 'a mcp_read" where
  "mcp_ret a s = (Inr a, s)"

definition mcp_raise :: "http_exn \<Rightarrow> 'a mcp_read" where
  "mcp_raise e s = (Inl (McpRaises e), s)"

text \<open>An exception of the pure part is not caught.\<close>

definition mcp_lift :: "wiki_exn + 'a \<Rightarrow> 'a mcp_read" where
  "mcp_lift r s = (case r of Inl x \<Rightarrow> Inl (McpRaises (Unhandled x)) | Inr a \<Rightarrow> Inr a, s)"

section \<open>Servers, manifest, health\<close>

definition source_field :: "string \<Rightarrow> pystr \<times> bson" where
  "source_field v = (str ''source'', BStr (str v))"

definition list_payload :: "string \<Rightarrow> bdoc list \<Rightarrow> bdoc" where
  "list_payload source entries =
     [(str ''schema'', BStr SCHEMA), source_field source, (str ''count'', BInt (int (length entries))),
      (str ''servers'', BList (map BDoc entries))]"

definition list_servers :: "Builtins \<Rightarrow> bool \<Rightarrow> McpWorld \<Rightarrow> (McpService, bdoc) handler" where
  "list_servers B uri w =
     mcp_cached w (str ''servers'')
       (mcp_then (store_servers uri w) (\<lambda>servers.
        mcp_then (mcp_lift (map_res (enrich_server B) servers)) (\<lambda>entries.
        mcp_ret (list_payload ''live'' entries))))
       (list_payload ''snapshot'' [])"

definition server_payload :: "string \<Rightarrow> bson \<Rightarrow> bdoc" where
  "server_payload source server =
     [(str ''schema'', BStr SCHEMA), source_field source, (str ''server'', server)]"

definition get_server :: "Builtins \<Rightarrow> bool \<Rightarrow> McpWorld \<Rightarrow> pystr \<Rightarrow> (McpService, bdoc) handler" where
  "get_server B uri w name =
     mcp_cached w (str ''server:'' @ name)
       (mcp_then (store_server uri w name) (\<lambda>doc. case doc of
          None \<Rightarrow> mcp_raise (HttpError 404 [] (str ''mcp server not found: '' @ name))
        | Some d \<Rightarrow>
            mcp_then (mcp_lift (enrich_server B d)) (\<lambda>entry. mcp_ret (server_payload ''live'' (BDoc entry)))))
       (server_payload ''snapshot'' BNull)"

definition produce_manifest :: "Builtins \<Rightarrow> bool \<Rightarrow> McpWorld \<Rightarrow> bdoc mcp_read" where
  "produce_manifest B uri w =
     mcp_then (store_servers uri w) (\<lambda>servers.
     mcp_then (manifest_meta uri w) (\<lambda>meta.
     mcp_then (mcp_lift (build_manifest B servers meta [])) (\<lambda>manifest.
     mcp_ret (manifest @ [source_field ''live'']))))"

text \<open>The fallback is built before the cache is asked.\<close>

definition get_manifest :: "Builtins \<Rightarrow> bool \<Rightarrow> McpWorld \<Rightarrow> (McpService, bdoc) handler" where
  "get_manifest B uri w =
     hbind (hlift (case build_manifest B [] [] [] of Inl x \<Rightarrow> Inl (Unhandled x) | Inr m \<Rightarrow> Inr m)) (\<lambda>empty.
     mcp_cached w (str ''manifest'')
       (produce_manifest B uri w)
       (empty @ [source_field ''snapshot'']))"

definition get_health :: "bool \<Rightarrow> McpWorld \<Rightarrow> (McpService, bdoc) handler" where
  "get_health uri w =
     mcp_cached w (str ''health'')
       (mcp_then (store_health uri w) (\<lambda>rows. mcp_ret (list_payload ''live'' rows)))
       (list_payload ''snapshot'' [])"

definition get_vault :: "(McpService, bdoc) handler" where
  "get_vault = hfail (HttpError 404 [] (str ''credential vault is not publicly available''))"

definition well_known_mcp_servers :: "int \<times> pystr" where
  "well_known_mcp_servers = (302, str ''/api/mcp/manifest'')"

end
