(* ===== verification/McpStatus.thy ===== *)
theory McpStatus
  imports McpApi PyText
begin

text \<open>
  The status page of the registry (\<open>src/app/routers/mcp_registry.py\<close>): the health rows with a
  badge each, the counts over them, the same as plain text, and the discovery document. The wall
  clock and the parsing and printing of ISO dates are arguments.
\<close>

section \<open>Times\<close>

record Calendar =
  cal_now :: int
  cal_iso :: "Moment \<Rightarrow> pystr"
  cal_from_iso :: "pystr \<Rightarrow> Moment option"
  cal_from_date :: "pystr \<Rightarrow> int option"

text \<open>A moment of the status page has an offset; its instant is what comparisons use.\<close>

definition aware :: "Moment \<Rightarrow> Moment" where
  "aware m = (case mo_offset m of None \<Rightarrow> m\<lparr>mo_offset := Some 0\<rparr> | Some _ \<Rightarrow> m)"

definition instant :: "Moment \<Rightarrow> int" where
  "instant m = mo_wall m - (case mo_offset m of None \<Rightarrow> 0 | Some z \<Rightarrow> z)"

definition utc :: "int \<Rightarrow> Moment" where
  "utc t = \<lparr>mo_wall = t, mo_offset = Some 0\<rparr>"

text \<open>\<open>text.replace("Z", "+00:00")\<close>\<close>

definition zulu :: "pystr \<Rightarrow> pystr" where
  "zulu t = concat (map (\<lambda>c. if c = 90 then str ''+00:00'' else [c]) t)"

definition parse_ts :: "Builtins \<Rightarrow> Calendar \<Rightarrow> bson \<Rightarrow> Moment option" where
  "parse_ts B cal value =
     (if \<not> truthy B value then None
      else case value of
        BDate m \<Rightarrow> Some (aware m)
      | _ \<Rightarrow>
          (let t = strip (show_value B value) in
           case cal_from_iso cal (zulu t) of
             Some m \<Rightarrow> Some (aware m)
           | None \<Rightarrow> map_option utc (cal_from_date cal t)))"

definition STALE_AFTER :: int where
  "STALE_AFTER = 24 * 3600 * 1000000"

section \<open>The payload\<close>

record StatusRow =
  sr_name :: bson
  sr_status :: bson
  sr_badge :: bson
  sr_stale :: bool
  sr_verified_at :: bson
  sr_last_probe_at :: bson
  sr_last_check :: "Moment option"

text \<open>\<open>counts\<close>, \<open>stale_count\<close> and \<open>last_verify\<close> of the loop\<close>

record Tally =
  ta_verified :: int
  ta_available :: int
  ta_down :: int
  ta_unused :: int
  ta_stale :: int
  ta_last_verify :: "Moment option"

definition no_tally :: Tally where
  "no_tally = \<lparr>ta_verified = 0, ta_available = 0, ta_down = 0, ta_unused = 0, ta_stale = 0, ta_last_verify = None\<rparr>"

definition status_name :: "Builtins \<Rightarrow> bdoc \<Rightarrow> bson" where
  "status_name B row = got_or B row ''status'' (BStr (str ''unknown''))"

definition last_check :: "Builtins \<Rightarrow> Calendar \<Rightarrow> bdoc \<Rightarrow> Moment option" where
  "last_check B cal row =
     (case parse_ts B cal (got row ''last_probe_at'') of
        Some m \<Rightarrow> Some m
      | None \<Rightarrow> parse_ts B cal (got row ''verified_at''))"

definition stale :: "Calendar \<Rightarrow> Moment option \<Rightarrow> bool" where
  "stale cal check = (case check of None \<Rightarrow> True | Some m \<Rightarrow> STALE_AFTER < cal_now cal - instant m)"

text \<open>One turn of the loop.\<close>

definition status_step :: "Builtins \<Rightarrow> Calendar \<Rightarrow> bdoc \<Rightarrow> Tally \<Rightarrow> StatusRow \<times> Tally" where
  "status_step B cal row ta =
     (let status = status_name B row;
          probe_at = parse_ts B cal (got row ''last_probe_at'');
          check = last_check B cal row;
          old = stale cal check;
          ta = ta\<lparr>ta_last_verify := (case (probe_at, ta_last_verify ta) of
                 (Some p, None) \<Rightarrow> Some p
               | (Some p, Some v) \<Rightarrow> if instant v < instant p then Some p else Some v
               | (None, v) \<Rightarrow> v)\<rparr>;
          (badge, ta) =
            (if status = BStr (str ''unreachable'') then (BStr (str ''down''), ta\<lparr>ta_down := ta_down ta + 1\<rparr>)
             else if status = BStr (str ''verified'') then
               (if old then (BStr (str ''stale''), ta\<lparr>ta_verified := ta_verified ta + 1, ta_stale := ta_stale ta + 1\<rparr>)
                else (BStr (str ''verified''), ta\<lparr>ta_verified := ta_verified ta + 1\<rparr>))
             else if status = BStr (str ''unused'') then (BStr (str ''unused''), ta\<lparr>ta_unused := ta_unused ta + 1\<rparr>)
             else if status = BStr (str ''available'') then (BStr (str ''available''), ta\<lparr>ta_available := ta_available ta + 1\<rparr>)
             else (status, ta))
      in (\<lparr>sr_name = got row ''name'', sr_status = status, sr_badge = badge, sr_stale = old,
            sr_verified_at = got row ''verified_at'', sr_last_probe_at = got row ''last_probe_at'',
            sr_last_check = check\<rparr>, ta))"

fun status_loop :: "Builtins \<Rightarrow> Calendar \<Rightarrow> bdoc list \<Rightarrow> Tally \<Rightarrow> StatusRow list \<times> Tally" where
  "status_loop B cal [] ta = ([], ta)"
| "status_loop B cal (row # more_rows) ta =
     (case status_step B cal row ta of
        (r, ta') \<Rightarrow> (case status_loop B cal more_rows ta' of (rs, ta'') \<Rightarrow> (r # rs, ta'')))"

text \<open>\<open>sorted(items, key=lambda s: s.get("name", ""))\<close>, stable\<close>

definition row_key :: "bdoc \<Rightarrow> bson" where
  "row_key s = (case dict_get s (str ''name'') of None \<Rightarrow> BStr [] | Some v \<Rightarrow> v)"

definition sorted_rows :: "Builtins \<Rightarrow> bdoc list \<Rightarrow> wiki_exn + bdoc list" where
  "sorted_rows B rows =
     (case all_text (map row_key rows) of
        Some names \<Rightarrow> Inr (map snd (sort_key fst (zip names rows)))
      | None \<Rightarrow> if length rows = 1 then Inr rows else py_sorted B (map (\<lambda>s. (row_key s, s)) rows))"

record StatusPayload =
  sp_generated_at :: Moment
  sp_tally :: Tally
  sp_rows :: "StatusRow list"

definition status_payload :: "Builtins \<Rightarrow> Calendar \<Rightarrow> bdoc list \<Rightarrow> wiki_exn + StatusPayload" where
  "status_payload B cal rows =
     bind_res (sorted_rows B rows) (\<lambda>sorted_items.
     case status_loop B cal sorted_items no_tally of
       (rs, ta) \<Rightarrow> Inr \<lparr>sp_generated_at = utc (cal_now cal), sp_tally = ta, sp_rows = rs\<rparr>)"

text \<open>The dictionary that is cached and served.\<close>

definition iso_or_none :: "Calendar \<Rightarrow> Moment option \<Rightarrow> bson" where
  "iso_or_none cal m = (case m of None \<Rightarrow> BNull | Some t \<Rightarrow> BStr (cal_iso cal t))"

definition row_dict :: "Calendar \<Rightarrow> StatusRow \<Rightarrow> bdoc" where
  "row_dict cal r =
     [(str ''name'', sr_name r), (str ''status'', sr_status r), (str ''badge'', sr_badge r),
      (str ''stale'', BBool (sr_stale r)), (str ''verified_at'', sr_verified_at r),
      (str ''last_probe_at'', sr_last_probe_at r), (str ''last_check_at'', iso_or_none cal (sr_last_check r))]"

definition status_dict :: "Calendar \<Rightarrow> StatusPayload \<Rightarrow> bdoc" where
  "status_dict cal p =
     (let ta = sp_tally p in
      [(str ''schema'', BStr SCHEMA), (str ''source'', BStr (str ''live'')),
       (str ''generated_at'', BStr (cal_iso cal (sp_generated_at p))),
       (str ''last_verify_at'', iso_or_none cal (ta_last_verify ta)),
       (str ''stale_after_hours'', BInt (STALE_AFTER div 3600000000)),
       (str ''summary'', BDoc
         [(str ''total'', BInt (int (length (sp_rows p)))), (str ''verified'', BInt (ta_verified ta)),
          (str ''available'', BInt (ta_available ta)), (str ''down'', BInt (ta_down ta)),
          (str ''unused'', BInt (ta_unused ta)), (str ''stale'', BInt (ta_stale ta))]),
       (str ''servers'', BList (map (BDoc \<circ> row_dict cal) (sp_rows p)))])"

definition no_status :: bdoc where
  "no_status = [(str ''schema'', BStr SCHEMA), (str ''source'', BStr (str ''snapshot'')),
     (str ''summary'', BNull), (str ''servers'', BList [])]"

section \<open>The text\<close>

text \<open>\<open>d[key]\<close>\<close>

definition field :: "bson \<Rightarrow> string \<Rightarrow> wiki_exn + bson" where
  "field v key = (case v of
     BDoc d \<Rightarrow> (case dict_get d (str key) of None \<Rightarrow> Inl (PyKeyError (str key)) | Some x \<Rightarrow> Inr x)
   | _ \<Rightarrow> Inl (PyTypeError (str ''object is not subscriptable'')))"

definition text_row :: "Builtins \<Rightarrow> bson \<Rightarrow> wiki_exn + pystr" where
  "text_row B srv =
     bind_res (field srv ''badge'') (\<lambda>badge.
     bind_res (as_doc ''get'' srv) (\<lambda>d.
     bind_res (field srv ''name'') (\<lambda>name.
     Inr (show_value B name @ str '': '' @ show_value B badge @ str '', last check ''
       @ show_value B (got_or B d ''last_check_at'' (BStr (str ''never'')))
       @ (if badge = BStr (str ''stale'')
          then str '' (verified '' @ show_value B (got_or B d ''verified_at'' (BStr (str ''?'')))
            @ str '', not re-checked within 24h)''
          else [])))))"

definition status_text :: "Builtins \<Rightarrow> bdoc \<Rightarrow> wiki_exn + pystr" where
  "status_text B payload =
     (if got payload ''source'' \<noteq> BStr (str ''live'')
      then Inr (str ''metahumotonic MCP registry status UNAVAILABLE (snapshot fallback '' @ 8212
        # str '' registry store unreachable)'' @ [10])
      else
        bind_res (field (BDoc payload) ''summary'') (\<lambda>s.
        bind_res (field (BDoc payload) ''generated_at'') (\<lambda>ts.
        bind_res (field s ''total'') (\<lambda>total.
        bind_res (field s ''verified'') (\<lambda>verified.
        bind_res (field s ''stale'') (\<lambda>stale_rows.
        bind_res (field s ''available'') (\<lambda>available.
        bind_res (field s ''down'') (\<lambda>down.
        bind_res (field s ''unused'') (\<lambda>unused.
        bind_res (field (BDoc payload) ''servers'') (\<lambda>servers.
        bind_res (elements B servers) (\<lambda>rows.
        bind_res (map_res (text_row B) rows) (\<lambda>lines.
        Inr (join [10]
          ((str ''metahumotonic MCP registry status @ '' @ show_value B ts @ str '' '' @ 8212 # str '' ''
            @ show_value B total @ str '' servers: '' @ show_value B verified @ str '' verified (''
            @ show_value B stale_rows @ str '' stale), '' @ show_value B available @ str '' available, ''
            @ show_value B down @ str '' down, '' @ show_value B unused @ str '' unused; last verify run: ''
            @ show_value B (got_or B payload ''last_verify_at'' (BStr (str ''never''))))
           # lines) @ [10])))))))))))))"

datatype StatusReply =
    StatusJson bdoc
  | StatusText pystr

definition produce_status :: "Builtins \<Rightarrow> Calendar \<Rightarrow> bool \<Rightarrow> McpWorld \<Rightarrow> bdoc mcp_read" where
  "produce_status B cal uri w =
     mcp_then (store_health uri w) (\<lambda>rows.
     mcp_then (mcp_lift (status_payload B cal rows)) (\<lambda>p. mcp_ret (status_dict cal p)))"

definition get_status ::
  "Builtins \<Rightarrow> Calendar \<Rightarrow> bool \<Rightarrow> McpWorld \<Rightarrow> pystr option \<Rightarrow> (McpService, StatusReply) handler" where
  "get_status B cal uri w format =
     hbind (mcp_cached w (str ''status'') (produce_status B cal uri w) no_status) (\<lambda>payload.
     if format = Some (str ''text'')
     then hlift (case status_text B payload of Inl x \<Rightarrow> Inl (Unhandled x) | Inr t \<Rightarrow> Inr (StatusText t))
     else hret (StatusJson payload))"

section \<open>Discovery\<close>

definition discovery :: bdoc where
  "discovery =
    [(str ''schema'', BStr SCHEMA),
     (str ''source'', BStr (str ''live'')),
     (str ''name'', BStr (str ''metahumotonic MCP registry'')),
     (str ''description'', BStr (str ''Live registry of the Model Context Protocol servers used across the metahumotonic infrastructure. Read-only HTTP; writes happen via the mhb-mcp operator CLI (mhb-mcp import / upsert).'')),
     (str ''dashboard'', BStr (SITE @ str ''/mcp/'')),
     (str ''endpoints'', BList [BDoc [(str ''path'', BStr (str ''/api/mcp/manifest'')),
        (str ''method'', BStr (str ''GET'')),
        (str ''description'', BStr (str ''Canonical metahumotonic/mcp-registry@1 manifest '' @ [8212] @ str '' JSON-LD typed, per-server capabilities + auth.'')),
        (str ''example'', BStr (str ''curl -s '' @ SITE @ str ''/api/mcp/manifest''))],
       BDoc [(str ''path'', BStr (str ''/api/mcp/servers'')),
        (str ''method'', BStr (str ''GET'')),
        (str ''description'', BStr (str ''All registered servers (manifest-level fields, name-sorted).'')),
        (str ''example'', BStr (str ''curl -s '' @ SITE @ str ''/api/mcp/servers''))],
       BDoc [(str ''path'', BStr (str ''/api/mcp/servers/{name}'')),
        (str ''method'', BStr (str ''GET'')),
        (str ''description'', BStr (str ''One registry entry by name (404 when unknown).'')),
        (str ''example'', BStr (str ''curl -s '' @ SITE @ str ''/api/mcp/servers/redis''))],
       BDoc [(str ''path'', BStr (str ''/api/mcp/health'')),
        (str ''method'', BStr (str ''GET'')),
        (str ''description'', BStr (str ''Latest verify result per server (status/verified_at/last_probe_at).'')),
        (str ''example'', BStr (str ''curl -s '' @ SITE @ str ''/api/mcp/health''))],
       BDoc [(str ''path'', BStr (str ''/api/mcp/status'')),
        (str ''method'', BStr (str ''GET'')),
        (str ''description'', BStr (str ''Health + aggregate counts (verified/available/down/unused/stale) + last verify run time. ?format=text returns a plain-text summary.'')),
        (str ''example'', BStr (str ''curl -s '' @ [39] @ SITE @ str ''/api/mcp/status?format=text'' @ [39]))],
       BDoc [(str ''path'', BStr (str ''/.well-known/mcp-servers.json'')),
        (str ''method'', BStr (str ''GET'')),
        (str ''description'', BStr (str ''Well-known discovery alias '' @ [8212] @ str '' 302 redirect to /api/mcp/manifest.'')),
        (str ''example'', BStr (str ''curl -sL '' @ SITE @ str ''/.well-known/mcp-servers.json''))]]),
     (str ''schemas'', BDoc [(str ''manifest'', BDoc [(str ''id'', BStr SCHEMA),
         (str ''fields'', BList [BStr (str ''@context''),
           BStr (str ''@type''),
           BStr (str ''schema''),
           BStr (str ''updated''),
           BStr (str ''site''),
           BStr (str ''credential_vault''),
           BStr (str ''servers'')])]),
       (str ''server'', BDoc [(str ''fields'', BList [BStr (str ''name''),
           BStr (str ''description''),
           BStr (str ''category''),
           BStr (str ''transport''),
           BStr (str ''status''),
           BStr (str ''backend''),
           BStr (str ''capabilities''),
           BStr (str ''auth''),
           BStr (str ''verified_at''),
           BStr (str ''last_probe_at'')]),
         (str ''status'', BList [BStr (str ''verified (live-checked at verified_at)''),
           BStr (str ''available (configured, not currently loaded)''),
           BStr (str ''unused (defined, not in active use)''),
           BStr (str ''unreachable (last probe failed)'')])])]),
     (str ''agent_docs'', BDoc [(str ''llms_txt'', BStr (SITE @ str ''/llms.txt'')),
       (str ''mcp_llms_txt'', BStr (SITE @ str ''/mcp/llms.txt'')),
       (str ''well_known'', BStr (SITE @ str ''/.well-known/mcp-servers.json''))]),
     (str ''credential_vault'', VAULT_SPEC),
     (str ''write_access'', BStr (str ''This HTTP API is read-only. New servers are added with the operator CLI: '' @ [96] @ str ''mhb-mcp import <path-to-.mcp.json>'' @ [96] @ str '' (bulk, from a standard MCP client config) or '' @ [96] @ str ''mhb-mcp upsert <name> --set key=value'' @ [96] @ str ''.''))]"

definition get_discovery :: "(McpService, bdoc) handler" where
  "get_discovery = hret discovery"

end
