(* ===== verification/McpProps.thy ===== *)
theory McpProps
  imports McpStatus
begin

text \<open>
  Properties of the MCP registry: what the public endpoints can reveal, what they answer during
  an outage of the database, and that the counts and badges of the status page are those of the
  health rows.
\<close>

section \<open>One request\<close>

datatype McpRequest =
    RqDiscovery
  | RqServers
  | RqServer pystr
  | RqManifest
  | RqHealth
  | RqStatus "pystr option"
  | RqVault

definition mcp_reply :: "('s, bdoc) handler \<Rightarrow> ('s, StatusReply) handler" where
  "mcp_reply h = hbind h (\<lambda>d. hret (StatusJson d))"

definition mcp_serve ::
  "Builtins \<Rightarrow> Calendar \<Rightarrow> bool \<Rightarrow> McpWorld \<Rightarrow> McpRequest \<Rightarrow> (McpService, StatusReply) handler" where
  "mcp_serve B cal uri w rq = (case rq of
     RqDiscovery \<Rightarrow> mcp_reply get_discovery
   | RqServers \<Rightarrow> mcp_reply (list_servers B uri w)
   | RqServer name \<Rightarrow> mcp_reply (get_server B uri w name)
   | RqManifest \<Rightarrow> mcp_reply (get_manifest B uri w)
   | RqHealth \<Rightarrow> mcp_reply (get_health uri w)
   | RqStatus format \<Rightarrow> get_status B cal uri w format
   | RqVault \<Rightarrow> mcp_reply get_vault)"

section \<open>Only public fields\<close>

text \<open>
  What of a document is public, written down apart from the code: seven fields by name, the
  declared capabilities, and whether credentials are needed, yes or no. Two documents look the same to the
  public when they agree on those.
\<close>

definition public_names :: "pystr list" where
  "public_names = [str ''name'', str ''description'', str ''category'', str ''transport'', str ''status'',
     str ''verified_at'', str ''last_probe_at'']"

definition needs_credentials :: "Builtins \<Rightarrow> bdoc \<Rightarrow> wiki_exn + bool" where
  "needs_credentials B d = (case auth_for B d of Inl x \<Rightarrow> Inl x | Inr a \<Rightarrow> Inr (a \<noteq> auth_type ''none''))"

definition same_public :: "Builtins \<Rightarrow> bdoc \<Rightarrow> bdoc \<Rightarrow> bool" where
  "same_public B d e \<longleftrightarrow> list_all (\<lambda>k. dict_get d k = dict_get e k) (str ''capabilities'' # public_names)
     \<and> needs_credentials B d = needs_credentials B e"

lemma auth_for_two:
  "auth_for B d = Inr a \<Longrightarrow> a = auth_type ''none'' \<or> a = auth_type ''operator-managed''"
  by (auto simp: auth_for_def Let_def bind_res_Inr split: bson.splits if_splits)

lemma needs_credentials_auth:
  assumes "needs_credentials B d = needs_credentials B e"
  shows "auth_for B d = auth_for B e"
  using assms auth_for_two [of B d] auth_for_two [of B e]
  by (cases "auth_for B d"; cases "auth_for B e") (auto simp: needs_credentials_def)

lemma same_public_enrich:
  assumes "same_public B d e"
  shows "enrich_server B d = enrich_server B e" and "got d ''verified_at'' = got e ''verified_at''"
proof -
  have get: "dict_get d k = dict_get e k" if "k \<in> set (str ''capabilities'' # public_names)" for k
    using assms that unfolding same_public_def list_all_iff by blast
  have caps: "declared_capabilities d = declared_capabilities e" "got d ''category'' = got e ''category''"
    "got d ''verified_at'' = got e ''verified_at''" "dict_get d (str ''name'') = dict_get e (str ''name'')"
    by (simp_all add: declared_capabilities_def got_def get public_names_def)
  have "public_fields d = public_fields e"
    unfolding public_fields_def by (rule arg_cong [where f = concat], rule map_cong)
      (simp_all add: get PUBLIC_SERVER_FIELDS_def public_names_def, blast?)
  moreover have "auth_for B d = auth_for B e"
    using assms by (intro needs_credentials_auth) (simp add: same_public_def)
  ultimately show "enrich_server B d = enrich_server B e"
    using caps by (simp add: enrich_server_def capabilities_for_def got_or_def)
  show "got d ''verified_at'' = got e ''verified_at''" by (rule caps)
qed

lemma auth_for_shown [simp]: "auth_for B (shown_doc d) = auth_for B d"
  by (simp add: auth_for_def got_or_def got_shown)

lemma same_public_shown: "same_public B d e \<Longrightarrow> same_public B (shown_doc d) (shown_doc e)"
  by (simp add: same_public_def public_names_def got_shown_doc needs_credentials_def)

lemma same_public_map:
  "list_all2 (same_public B) ds es \<Longrightarrow>
     map_res (enrich_server B) (map shown_doc ds) = map_res (enrich_server B) (map shown_doc es)
     \<and> map (\<lambda>s. got_or B s ''verified_at'' (BStr [])) (map shown_doc ds)
       = map (\<lambda>s. got_or B s ''verified_at'' (BStr [])) (map shown_doc es)"
  by (induction rule: list_all2_induct) (simp_all add: same_public_enrich [OF same_public_shown] got_or_def)

lemma same_public_manifest:
  assumes "list_all2 (same_public B) ds es"
  shows "build_manifest B (map shown_doc ds) meta t = build_manifest B (map shown_doc es) meta' t"
  by (simp only: build_manifest_def same_public_map [OF assms])

text \<open>A health row is served as the database returns it, in the order of its fields.\<close>

definition public_part :: "bdoc \<Rightarrow> bdoc" where
  "public_part d = filter (\<lambda>kv. fst kv \<in> set public_names) d"

lemma health_row_public: "health_row (public_part d) = health_row d"
  by (induction d) (auto simp: health_row_def public_part_def project_in_def public_names_def)

lemma health_rows_public: "map public_part ds = map public_part es \<Longrightarrow> map health_row ds = map health_row es"
  by (metis (no_types, lifting) health_row_public list.map_comp map_eq_conv o_apply)

text \<open>
  Two databases look the same: they fail alike, their documents look the same, and the documents
  of the health query have the same public fields in the same order, whatever else they hold. The
  meta document and the vault may differ.
\<close>

definition same_database :: "Builtins \<Rightarrow> McpWorld \<Rightarrow> McpWorld \<Rightarrow> bool" where
  "same_database B w v \<longleftrightarrow> mw_start w = mw_start v \<and> mw_end w = mw_end v \<and> mw_connects w = mw_connects v
     \<and> rel_option (list_all2 (same_public B)) (mw_servers w) (mw_servers v)
     \<and> (\<forall>name. rel_option (rel_option (same_public B)) (mw_server w name) (mw_server v name))
     \<and> rel_option (\<lambda>_ _. True) (mw_meta w) (mw_meta v) 
     \<and> map_option (map public_part) (mw_health w) = map_option (map public_part) (mw_health v)"

lemma same_read_then:
  assumes db: "same_database B w v" and "rel_option P a b" and "\<And>x y. P x y \<Longrightarrow> f x = g y"
  shows "mcp_then (read_registry uri w a) f = mcp_then (read_registry uri v b) g"
proof
  fix s
  have c: "col_or_raise uri w s = col_or_raise uri v s"
    using db by (simp add: col_or_raise_def get_mcp_collection_def same_database_def)
  from assms show "mcp_then (read_registry uri w a) f s = mcp_then (read_registry uri v b) g s"
    by (cases a; cases b)
      (auto simp: mcp_then_def read_registry_def c same_database_def Let_def split: prod.splits sum.splits)
qed

lemma same_read_shown:
  assumes db: "same_database B w v" and ab: "rel_option P a b" and fg: "\<And>x y. P x y \<Longrightarrow> f (h x) = g (h y)"
  shows "mcp_then (read_registry uri w (map_option h a)) f = mcp_then (read_registry uri v (map_option h b)) g"
  by (rule same_read_then [OF db, where P = "\<lambda>x y. f x = g y"])
    (use ab fg in \<open>auto simp: option.rel_map elim!: option.rel_mono_strong\<close>)

lemma same_health_rows:
  "same_database B w v \<Longrightarrow> map_option (map health_row) (mw_health w) = map_option (map health_row) (mw_health v)"
  by (cases "mw_health w"; cases "mw_health v") (auto simp: same_database_def intro: health_rows_public)

lemma same_cached:
  assumes "same_database B w v" and "p = q"
  shows "mcp_cached w key p fallback = mcp_cached v key q fallback"
  using assms by (intro ext) (simp add: mcp_cached_def same_database_def)

lemma same_servers: "same_database B w v \<Longrightarrow> list_servers B uri w = list_servers B uri v"
  unfolding list_servers_def store_servers_def
  by (rule same_cached, assumption,
      rule same_read_shown [where P = "list_all2 (same_public B)"], assumption)
    (auto simp: same_database_def same_public_map simp del: map_map list.map_comp)

lemma same_server: "same_database B w v \<Longrightarrow> get_server B uri w name = get_server B uri v name"
  unfolding get_server_def store_server_def
  by (rule same_cached, assumption,
      rule same_read_shown [where P = "rel_option (same_public B)"], assumption)
    (auto simp: same_database_def same_public_enrich [OF same_public_shown] option_rel_Some1 split: option.splits)

lemma same_manifest:
  assumes db: "same_database B w v"
  shows "get_manifest B uri w = get_manifest B uri v"
proof -
  have inner: "mcp_then (manifest_meta uri w) (\<lambda>meta. mcp_then (mcp_lift (build_manifest B (map shown_doc ds) meta [])) h)
      = mcp_then (manifest_meta uri v) (\<lambda>meta. mcp_then (mcp_lift (build_manifest B (map shown_doc es) meta [])) h)"
    if "list_all2 (same_public B) ds es" for ds es h
    unfolding manifest_meta_def
    by (rule same_read_then [OF db, where P = "\<lambda>_ _. True"])
      (use db in \<open>auto simp: same_database_def option.rel_map
        intro!: arg_cong [where f = "\<lambda>r. mcp_then (mcp_lift r) h"] same_public_manifest [OF that]\<close>)
  show ?thesis
    unfolding get_manifest_def produce_manifest_def store_servers_def
    by (rule arg_cong2 [where f = hbind, OF refl], rule ext, rule same_cached [OF db],
        rule same_read_shown [OF db, where P = "list_all2 (same_public B)"])
      (use db inner in \<open>auto simp: same_database_def\<close>)
qed

lemma same_health: "same_database B w v \<Longrightarrow> get_health uri w = get_health uri v"
  unfolding get_health_def store_health_def
  by (rule same_cached, assumption, rule same_read_then [where P = "(=)"], assumption)
    (simp_all add: same_health_rows option.rel_eq)

lemma same_status: "same_database B w v \<Longrightarrow> get_status B cal uri w format = get_status B cal uri v format"
  unfolding get_status_def produce_status_def store_health_def
  by (rule arg_cong2 [where f = hbind, OF _ refl], rule same_cached, assumption,
      rule same_read_then [where P = "(=)"], assumption)
    (simp_all add: same_health_rows option.rel_eq)

text \<open>C28: The public endpoints of the registry reveal of a stored document only its public fields, its
  declared capabilities and whether it needs credentials: two databases that agree on those answer
  every request alike, health and status included, whatever the connection recipes, their secrets,
  the notes, the meta document and the vault hold, and leave the same state of the service.\<close>

theorem mcp_public_only:
  assumes "same_database B w v"
  shows "mcp_serve B cal uri w rq sv = mcp_serve B cal uri v rq sv"
  using assms
  by (cases rq) (simp_all add: mcp_serve_def same_servers same_server same_manifest same_health same_status)

end
