(* ===== verification/McpCounts.thy ===== *)
theory McpCounts
  imports McpProps
begin

text \<open>
  The status page counts its rows: badges, counts and the last verification run are functions of
  the health rows, whatever their order.
\<close>

definition is_status :: "Builtins \<Rightarrow> string \<Rightarrow> bdoc \<Rightarrow> bool" where
  "is_status B name row \<longleftrightarrow> status_name B row = BStr (str name)"

definition row_stale :: "Builtins \<Rightarrow> Calendar \<Rightarrow> bdoc \<Rightarrow> bool" where
  "row_stale B cal row = stale cal (last_check B cal row)"

definition badge_of :: "Builtins \<Rightarrow> Calendar \<Rightarrow> bdoc \<Rightarrow> bson" where
  "badge_of B cal row =
     (if is_status B ''unreachable'' row then BStr (str ''down'')
      else if is_status B ''verified'' row \<and> row_stale B cal row then BStr (str ''stale'')
      else status_name B row)"

definition counted :: "(bdoc \<Rightarrow> bool) \<Rightarrow> bdoc list \<Rightarrow> int" where
  "counted P rows = int (length (filter P rows))"

lemma counted_simps [simp]: "counted P [] = 0" "counted P (r # rs) = (if P r then 1 else 0) + counted P rs"
  by (simp_all add: counted_def)

definition probe_of :: "Builtins \<Rightarrow> Calendar \<Rightarrow> bdoc \<Rightarrow> Moment option" where
  "probe_of B cal row = parse_ts B cal (got row ''last_probe_at'')"

fun later :: "Moment option \<Rightarrow> Moment option \<Rightarrow> Moment option" where
  "later v None = v"
| "later None (Some p) = Some p"
| "later (Some v) (Some p) = (if instant v < instant p then Some p else Some v)"

lemma status_step_row:
  "sr_badge (fst (status_step B cal row ta)) = badge_of B cal row"
  "sr_name (fst (status_step B cal row ta)) = got row ''name''"
  "sr_stale (fst (status_step B cal row ta)) = row_stale B cal row"
  "sr_status (fst (status_step B cal row ta)) = status_name B row"
  by (auto simp: status_step_def Let_def badge_of_def is_status_def row_stale_def py_simps)

lemma status_step_tally:
  "ta_verified (snd (status_step B cal row ta)) = ta_verified ta + (if is_status B ''verified'' row then 1 else 0)"
  "ta_available (snd (status_step B cal row ta)) = ta_available ta + (if is_status B ''available'' row then 1 else 0)"
  "ta_down (snd (status_step B cal row ta)) = ta_down ta + (if is_status B ''unreachable'' row then 1 else 0)"
  "ta_unused (snd (status_step B cal row ta)) = ta_unused ta + (if is_status B ''unused'' row then 1 else 0)"
  "ta_stale (snd (status_step B cal row ta))
     = ta_stale ta + (if is_status B ''verified'' row \<and> row_stale B cal row then 1 else 0)"
  "ta_last_verify (snd (status_step B cal row ta)) = later (ta_last_verify ta) (probe_of B cal row)"
  by (auto simp: status_step_def Let_def is_status_def row_stale_def probe_of_def py_simps
      split: option.split)

lemma status_loop_rows:
  "map (\<lambda>r. (sr_name r, sr_badge r)) (fst (status_loop B cal rows ta)) = map (\<lambda>r. (got r ''name'', badge_of B cal r)) rows"
  by (induction rows arbitrary: ta) (simp_all add: status_step_row case_prod_beta)

lemma status_loop_tally:
  "ta_verified (snd (status_loop B cal rows ta)) = ta_verified ta + counted (is_status B ''verified'') rows"
  "ta_available (snd (status_loop B cal rows ta)) = ta_available ta + counted (is_status B ''available'') rows"
  "ta_down (snd (status_loop B cal rows ta)) = ta_down ta + counted (is_status B ''unreachable'') rows"
  "ta_unused (snd (status_loop B cal rows ta)) = ta_unused ta + counted (is_status B ''unused'') rows"
  "ta_stale (snd (status_loop B cal rows ta))
     = ta_stale ta + counted (\<lambda>r. is_status B ''verified'' r \<and> row_stale B cal r) rows"
  "ta_last_verify (snd (status_loop B cal rows ta)) = foldl later (ta_last_verify ta) (map (probe_of B cal) rows)"
  by (induction rows arbitrary: ta) (simp_all add: status_step_tally case_prod_beta)

text \<open>The latest of a list of moments, some of them missing\<close>

definition newest :: "Moment option list \<Rightarrow> Moment option \<Rightarrow> bool" where
  "newest ms v \<longleftrightarrow> (case v of
     None \<Rightarrow> set ms \<subseteq> {None}
   | Some t \<Rightarrow> Some t \<in> set ms \<and> (\<forall>m. Some m \<in> set ms \<longrightarrow> instant m \<le> instant t))"

lemma newest_Nil: "newest [] None"
  by (simp add: newest_def)

lemma newest_later: "newest ms v \<Longrightarrow> newest (ms @ [p]) (later v p)"
  by (cases v; cases p) (auto simp: newest_def)

lemma newest_foldl: "newest ms v \<Longrightarrow> newest (ms @ ps) (foldl later v ps)"
proof (induction ps arbitrary: ms v)
  case (Cons p ps)
  from Cons.IH [OF newest_later [OF Cons.prems]] show ?case by simp
qed simp

lemma newest_set: "set ms = set ns \<Longrightarrow> newest ms v = newest ns v"
  by (cases v) (simp_all add: newest_def)

lemma all_text_length: "all_text vs = Some names \<Longrightarrow> length names = length vs"
  by (induction vs arbitrary: names) (auto split: option.splits)

lemma sorted_rows_mset:
  assumes "all_text (map row_key rows) = Some names" and "sorted_rows B rows = Inr rs"
  shows "mset rs = mset rows"
  using assms all_text_length [OF assms(1)]
  by (auto simp: sorted_rows_def mset_map [symmetric] simp del: mset_map)
    (simp add: mset_map flip: mset_map [of snd "zip names rows"])

lemma counted_mset: "mset rs = mset rows \<Longrightarrow> counted P rs = counted P rows"
  by (metis counted_def mset_filter size_mset)

lemma four_counts:
  "counted (is_status B ''verified'') rows + counted (is_status B ''available'') rows
    + counted (is_status B ''unreachable'') rows + counted (is_status B ''unused'') rows \<le> int (length rows)"
  by (induction rows) (auto simp: is_status_def py_simps)

text \<open>The status page counts what it shows. When the names of the health rows are text, every row
  appears once with the badge its own status and age give it (an unreachable server is down, a
  verified one whose last check is older than a day is stale); verified, available, down and unused are the
  numbers of rows with those statuses, stale the number of verified rows that are stale, so the
  four add up to no more than the total; and the time of the last verification run is the
  newest probe of any row.\<close>

theorem mcp_status_counts:
  assumes ok: "status_payload B cal rows = Inr p" and names: "all_text (map row_key rows) = Some names"
  shows "mset (map (\<lambda>r. (sr_name r, sr_badge r)) (sp_rows p)) = mset (map (\<lambda>r. (got r ''name'', badge_of B cal r)) rows)
    \<and> ta_verified (sp_tally p) = counted (is_status B ''verified'') rows
    \<and> ta_available (sp_tally p) = counted (is_status B ''available'') rows
    \<and> ta_down (sp_tally p) = counted (is_status B ''unreachable'') rows
    \<and> ta_unused (sp_tally p) = counted (is_status B ''unused'') rows
    \<and> ta_stale (sp_tally p) = counted (\<lambda>r. is_status B ''verified'' r \<and> row_stale B cal r) rows
    \<and> ta_verified (sp_tally p) + ta_available (sp_tally p) + ta_down (sp_tally p) + ta_unused (sp_tally p)
        \<le> int (length (sp_rows p))
    \<and> newest (map (probe_of B cal) rows) (ta_last_verify (sp_tally p))"
proof -
  obtain rs where rs: "sorted_rows B rows = Inr rs"
    and p: "sp_rows p = fst (status_loop B cal rs no_tally)" "sp_tally p = snd (status_loop B cal rs no_tally)"
    using ok by (cases "sorted_rows B rows") (auto simp: status_payload_def case_prod_beta)
  note same = sorted_rows_mset [OF names rs]
  note cnt = counted_mset [OF same]
  have total: "length (sp_rows p) = length rows"
    using arg_cong [OF status_loop_rows [of B cal rs no_tally], of length] mset_eq_length [OF same] by (simp add: p)
  have probes: "set (map (probe_of B cal) rs) = set (map (probe_of B cal) rows)"
    using mset_eq_setD [OF same] by simp
  have "newest (map (probe_of B cal) rs) (foldl later None (map (probe_of B cal) rs))"
    using newest_foldl [OF newest_Nil] by (metis append_Nil)
  then have "newest (map (probe_of B cal) rows) (ta_last_verify (sp_tally p))"
    unfolding newest_set [OF probes] p status_loop_tally by (simp add: no_tally_def)
  moreover have "mset (map (\<lambda>r. (sr_name r, sr_badge r)) (sp_rows p)) = mset (map (\<lambda>r. (got r ''name'', badge_of B cal r)) rows)"
    by (simp add: p status_loop_rows same del: mset_map) (simp add: same)
  ultimately show ?thesis
    using four_counts [of B rows] total by (simp add: p status_loop_tally no_tally_def cnt)
qed

end
