(* ===== verification/McpTotal.thy ===== *)
theory McpTotal
  imports McpCounts CacheTyping
begin

text \<open>
  What the registry answers when its database is away and when it is there: no request fails
  with an uncaught exception, and the text form of the status page exists whenever its data does.
\<close>

section \<open>Exceptions of a producer\<close>

definition raises :: "'a mcp_read \<Rightarrow> McpRegistryStore \<Rightarrow> http_exn \<Rightarrow> bool" where
  "raises p s e \<longleftrightarrow> fst (p s) = Inl (McpRaises e)"

lemma raises_read:
  "raises (mcp_then (read_registry uri w a) f) s e \<Longrightarrow>
     fst (get_mcp_collection uri w s) \<and> (\<exists>x s'. a = Some x \<and> raises (f x) s' e)"
  by (auto simp: raises_def mcp_then_def read_registry_def col_or_raise_def Let_def
      split: prod.splits sum.splits option.splits if_splits)

lemma raises_lift [simp]:
  "raises (mcp_then (mcp_lift r) f) s e \<longleftrightarrow> (\<exists>x. r = Inl x \<and> e = Unhandled x) \<or> (\<exists>a. r = Inr a \<and> raises (f a) s e)"
  by (cases r) (auto simp: raises_def mcp_then_def mcp_lift_def)

lemma raises_simps [simp]: "\<not> raises (mcp_ret a) s e" "raises (mcp_raise x) s e \<longleftrightarrow> e = x"
  by (auto simp: raises_def mcp_ret_def mcp_raise_def)

lemma cached_error:
  assumes "fst (mcp_cached w key producer fallback sv) = Inl e"
  shows "raises producer (mc_store sv) e"
  using assms
  by (auto simp: mcp_cached_def get_or_set_def raises_def Let_def
      split: prod.splits sum.splits option.splits if_splits mcp_exn.splits)

section \<open>Documents the code can read\<close>

definition server_doc_ok :: "Builtins \<Rightarrow> bdoc \<Rightarrow> bool" where
  "server_doc_ok B d \<longleftrightarrow>
     (case got_or B d ''category'' (BStr []) of BList _ \<Rightarrow> False | BDoc _ \<Rightarrow> False | _ \<Rightarrow> True)
     \<and> (case got_or B d ''connection'' (BDoc []) of
          BDoc c \<Rightarrow> is_ok (as_doc ''values'' (got_or B c ''env'' (BDoc []))) \<and> is_ok (elements B (got_or B c ''args'' (BList [])))
        | _ \<Rightarrow> False)"

definition registry_ok :: "Builtins \<Rightarrow> McpWorld \<Rightarrow> bool" where
  "registry_ok B w \<longleftrightarrow>
     (\<forall>ds. mw_servers w = Some ds \<longrightarrow> list_all (server_doc_ok B) ds
        \<and> all_text (map (\<lambda>s. got_or B s ''verified_at'' (BStr [])) ds) \<noteq> None)
     \<and> (\<forall>name d. mw_server w name = Some (Some d) \<longrightarrow> server_doc_ok B d)
     \<and> (\<forall>rows. mw_health w = Some rows \<longrightarrow> all_text (map row_key rows) \<noteq> None)"

lemma placeholder_names_ok:
  assumes "is_ok (as_doc ''values'' (got_or B c ''env'' (BDoc [])))" and "is_ok (elements B (got_or B c ''args'' (BList [])))"
  shows "is_ok (placeholder_names B c)"
  using assms by (auto simp: placeholder_names_def Let_def is_ok_iff bind_res_Inr)

lemma auth_for_ok:
  assumes "server_doc_ok B d"
  shows "is_ok (auth_for B d)"
proof -
  obtain c where c: "got_or B d ''connection'' (BDoc []) = BDoc c" and names: "is_ok (placeholder_names B c)"
    using assms placeholder_names_ok by (auto simp: server_doc_ok_def split: bson.splits)
  then obtain ns where "placeholder_names B c = Inr ns" by (auto simp: is_ok_iff)
  with c show ?thesis by (simp add: auth_for_def Let_def as_doc_def split: bson.split)
qed

lemma enrich_server_ok:
  assumes "server_doc_ok B d"
  shows "is_ok (enrich_server B d)"
proof -
  have "is_ok (capabilities_for B d)"
    using assms by (auto simp: server_doc_ok_def capabilities_for_def split: bson.splits)
  with auth_for_ok [OF assms] show ?thesis
    by (auto simp: enrich_server_def Let_def is_ok_iff bind_res_Inr)
qed

lemma server_doc_ok_shown [simp]: "server_doc_ok B (shown_doc d) = server_doc_ok B d"
  by (simp add: server_doc_ok_def got_or_def got_shown)

lemma row_key_health [simp]: "row_key (health_row d) = row_key d"
  by (simp add: row_key_def got_health_row)

lemma shown_docs_ok:
  assumes "registry_ok B w" and "mw_servers w = Some ds"
  shows "list_all (server_doc_ok B) (map shown_doc ds)"
    and "all_text (map (\<lambda>s. got_or B s ''verified_at'' (BStr [])) (map shown_doc ds)) \<noteq> None"
  using assms by (simp_all add: registry_ok_def list_all_iff comp_def got_or_shown)

lemma enrich_all_ok: "list_all (server_doc_ok B) ds \<Longrightarrow> is_ok (map_res (enrich_server B) ds)"
  using enrich_server_ok by (induction ds) (auto simp: is_ok_iff bind_res_Inr)

lemma latest_ok: "all_text vs \<noteq> None \<Longrightarrow> is_ok (latest B vs)"
  by (auto simp: latest_def split: list.split option.splits)

lemma build_manifest_ok:
  assumes "list_all (server_doc_ok B) ds" and "all_text (map (\<lambda>s. got_or B s ''verified_at'' (BStr [])) ds) \<noteq> None"
  shows "is_ok (build_manifest B ds meta updated)"
  using enrich_all_ok [OF assms(1)] latest_ok [OF assms(2), of B]
  by (auto simp: build_manifest_def is_ok_iff bind_res_Inr)

lemma status_payload_ok: "all_text (map row_key rows) \<noteq> None \<Longrightarrow> is_ok (status_payload B cal rows)"
  by (auto simp: status_payload_def sorted_rows_def case_prod_beta)

section \<open>The cached status\<close>

definition status_fits :: "pystr \<Rightarrow> bdoc \<Rightarrow> bool" where
  "status_fits k v \<longleftrightarrow> (k = str ''status'' \<longrightarrow> (\<exists>cal p. v = status_dict cal p))"

lemma cached_typed:
  assumes "typed status_fits (mc_cache sv)" and "\<And>s v s'. producer s = (Inr v, s') \<Longrightarrow> status_fits key v"
  shows "typed status_fits (mc_cache (snd (mcp_cached w key producer fallback sv)))
    \<and> (\<forall>v. fst (mcp_cached w key producer fallback sv) = Inr v \<longrightarrow> v = fallback \<or> status_fits key v)"
proof -
  obtain r ca s where g: "get_or_set (mw_start w) (mw_end w) key producer (mc_cache sv) (mc_store sv) = (r, ca, s)"
    by (metis prod.exhaust)
  have "typed status_fits ca \<and> (\<forall>v. r = Inr v \<longrightarrow> status_fits key v)"
    by (rule typed_get_or_set [where fits = status_fits, OF assms(1) assms(2) g])
  then show ?thesis by (auto simp: mcp_cached_def g split: sum.splits mcp_exn.splits)
qed

lemma text_row_ok: "is_ok (text_row B (BDoc (row_dict cal r)))"
  by (simp add: text_row_def row_dict_def field_def as_doc_def py_simps)

lemma text_rows_ok: "is_ok (map_res (text_row B) (map (BDoc \<circ> row_dict cal) rs))"
  using text_row_ok by (induction rs) (auto simp: is_ok_iff bind_res_Inr)

lemma status_text_ok: "is_ok (status_text B (status_dict cal p))"
proof -
  have rows: "is_ok (bind_res (map_res (text_row B) (map (BDoc \<circ> row_dict cal) (sp_rows p))) (\<lambda>lines. Inr (f lines)))" for f
    using text_rows_ok [of B cal "sp_rows p"] by (auto simp: is_ok_iff bind_res_Inr)
  show ?thesis
    by (simp add: status_text_def status_dict_def Let_def field_def elements_def rows py_simps)
qed

section \<open>Every request\<close>

definition new_mcp_service :: "int \<Rightarrow> McpService" where
  "new_mcp_service ttl = \<lparr>mc_store = new_registry, mc_cache = new_cache ttl 64\<rparr>"

inductive mcp_served :: "Builtins \<Rightarrow> bool \<Rightarrow> McpService \<Rightarrow> bool" for B uri where
  start: "mcp_served B uri (new_mcp_service ttl)"
| request: "mcp_served B uri sv \<Longrightarrow> mcp_served B uri (snd (mcp_serve B cal uri w rq sv))"

lemma status_heads: "str ''server:'' @ name \<noteq> str ''status''" "str ''servers'' \<noteq> str ''status''"
  "str ''manifest'' \<noteq> str ''status''" "str ''health'' \<noteq> str ''status''"
  by (simp_all add: str_def)

lemma other_key: "k \<noteq> str ''status'' \<Longrightarrow> status_fits k v"
  by (simp add: status_fits_def)

lemma status_produced: "produce_status B cal uri w s = (Inr v, s') \<Longrightarrow> status_fits (str ''status'') v"
  by (auto simp: produce_status_def mcp_then_def mcp_lift_def mcp_ret_def status_fits_def split: prod.splits sum.splits)

lemma status_cached:
  assumes "typed status_fits (mc_cache sv)"
  shows "typed status_fits (mc_cache (snd (mcp_cached w (str ''status'') (produce_status B cal uri w') fallback sv)))
    \<and> (\<forall>v. fst (mcp_cached w (str ''status'') (produce_status B cal uri w') fallback sv) = Inr v
          \<longrightarrow> v = fallback \<or> status_fits (str ''status'') v)"
  by (rule cached_typed [OF assms]) (rule status_produced)

lemma snd_mcp_reply: "snd (mcp_reply h sv) = snd (h sv)"
  by (simp add: mcp_reply_def hbind_def hret_def split: prod.split sum.split)

lemma serve_typed:
  assumes "typed status_fits (mc_cache sv)"
  shows "typed status_fits (mc_cache (snd (mcp_serve B cal uri w rq sv)))"
proof (cases rq)
  case (RqStatus format)
  show ?thesis
    using conjunct1 [OF status_cached [OF assms]]
    by (simp add: RqStatus mcp_serve_def get_status_def hbind_def hlift_def hret_def case_prod_beta split: sum.split)
next
  case RqManifest
  show ?thesis
    using conjunct1 [OF cached_typed [OF assms other_key [OF status_heads(3)]]]
    by (simp add: RqManifest mcp_serve_def snd_mcp_reply get_manifest_def hbind_def hlift_def assms case_prod_beta split: sum.split)
qed (simp_all add: mcp_serve_def snd_mcp_reply get_discovery_def hret_def get_vault_def hfail_def assms
    list_servers_def get_server_def get_health_def
    conjunct1 [OF cached_typed [OF assms other_key]] status_heads)

lemma served_typed: "mcp_served B uri sv \<Longrightarrow> typed status_fits (mc_cache sv)"
proof (induction rule: mcp_served.induct)
  case (start ttl)
  then show ?case by (simp add: new_mcp_service_def new_cache_def typed_def)
qed (rule serve_typed)

lemma reply_error: "fst (mcp_reply h sv) = Inl e \<longleftrightarrow> fst (h sv) = Inl e"
  by (auto simp: mcp_reply_def hbind_def hret_def split: prod.splits sum.splits)

lemma servers_error:
  assumes "fst (list_servers B uri w sv) = Inl e" and "registry_ok B w"
  shows False
proof -
  from raises_read [OF cached_error [OF assms(1) [unfolded list_servers_def store_servers_def]]]
  obtain ds where ds: "mw_servers w = Some ds" and "\<not> is_ok (map_res (enrich_server B) (map shown_doc ds))"
    by (auto simp: is_ok_iff)
  with enrich_all_ok [OF shown_docs_ok(1) [OF assms(2) ds]] show False by blast
qed

lemma server_error:
  assumes "fst (get_server B uri w name sv) = Inl e" and "registry_ok B w"
  shows "mw_server w name = Some None \<and> e = HttpError 404 [] (str ''mcp server not found: '' @ name)"
proof -
  from raises_read [OF cached_error [OF assms(1) [unfolded get_server_def store_server_def]]]
  obtain found where found: "mw_server w name = Some found"
    and e: "(found = None \<and> e = HttpError 404 [] (str ''mcp server not found: '' @ name))
      \<or> (\<exists>d. found = Some d \<and> \<not> is_ok (enrich_server B (shown_doc d)))"
    by (auto simp: is_ok_iff map_option_case split: option.splits)
  have "is_ok (enrich_server B (shown_doc d))" if "found = Some d" for d
    using assms(2) found that by (intro enrich_server_ok) (simp add: registry_ok_def)
  with e found show ?thesis by blast
qed

lemma empty_manifest: "\<exists>m. build_manifest B [] [] [] = Inr m"
  by (simp add: build_manifest_def latest_def)

lemma manifest_error:
  assumes e: "fst (get_manifest B uri w sv) = Inl e" and ok: "registry_ok B w"
  shows False
proof -
  obtain m where m: "build_manifest B [] [] [] = Inr m" using empty_manifest by blast
  from e have "fst (mcp_cached w (str ''manifest'') (produce_manifest B uri w) (m @ [source_field ''snapshot'']) sv) = Inl e"
    by (simp add: get_manifest_def m hbind_def hlift_def)
  from cached_error [OF this] obtain ds meta s' where ds: "mw_servers w = Some ds"
    and r: "raises (mcp_then (mcp_lift (build_manifest B (map shown_doc ds) meta [])) (\<lambda>manifest. mcp_ret (manifest @ [source_field ''live'']))) s' e"
    unfolding produce_manifest_def store_servers_def manifest_meta_def
    by (auto simp: map_option_eq_Some dest!: raises_read)
  from r have "\<not> is_ok (build_manifest B (map shown_doc ds) meta [])" by (auto simp: is_ok_iff)
  with shown_docs_ok [OF ok ds] build_manifest_ok [of B "map shown_doc ds" meta "[]"] show False by blast
qed

lemma health_error: "fst (get_health uri w sv) \<noteq> Inl e"
  by (auto simp: get_health_def store_health_def dest!: cached_error raises_read)

lemma status_read_error:
  assumes "fst (mcp_cached w (str ''status'') (produce_status B cal uri w) no_status sv) = Inl e" and "registry_ok B w"
  shows False
proof -
  from cached_error [OF assms(1)] obtain rows s' where rows: "mw_health w = Some rows"
    and r: "raises (mcp_then (mcp_lift (status_payload B cal (map health_row rows))) (\<lambda>p. mcp_ret (status_dict cal p))) s' e"
    unfolding produce_status_def store_health_def by (auto simp: map_option_eq_Some dest!: raises_read)
  from r have "\<not> is_ok (status_payload B cal (map health_row rows))" by (auto simp: is_ok_iff)
  with assms(2) rows status_payload_ok [of "map health_row rows"] show False
    by (simp add: registry_ok_def comp_def)
qed

lemma no_status_text: "is_ok (status_text B no_status)"
  by (simp add: status_text_def no_status_def got_def py_simps)

lemma status_error:
  assumes typed: "typed status_fits (mc_cache sv)" and e: "fst (get_status B cal uri w format sv) = Inl e"
  shows "\<exists>e'. fst (mcp_cached w (str ''status'') (produce_status B cal uri w) no_status sv) = Inl e'"
proof (cases "fst (mcp_cached w (str ''status'') (produce_status B cal uri w) no_status sv)")
  case (Inr v)
  then have "v = no_status \<or> status_fits (str ''status'') v" using status_cached [OF typed] by blast
  then have "is_ok (status_text B v)" using no_status_text status_text_ok by (auto simp: status_fits_def)
  with Inr e show ?thesis
    by (auto simp: get_status_def hbind_def hlift_def hret_def is_ok_iff split: prod.splits if_splits)
qed auto

lemma away_no_error:
  assumes "\<not> fst (get_mcp_collection uri w (mc_store sv))"
  shows "fst (list_servers B uri w sv) \<noteq> Inl e" "fst (get_server B uri w name sv) \<noteq> Inl e"
    "fst (get_manifest B uri w sv) \<noteq> Inl e"
    "fst (mcp_cached w (str ''status'') (produce_status B cal uri w) no_status sv) \<noteq> Inl e"
proof -
  have none: "\<not> raises (mcp_then (read_registry uri w a) f) (mc_store sv) e" for a and f :: "'a \<Rightarrow> 'b mcp_read" and e
    using assms raises_read by blast
  show "fst (list_servers B uri w sv) \<noteq> Inl e" "fst (get_server B uri w name sv) \<noteq> Inl e"
    unfolding list_servers_def get_server_def store_servers_def store_server_def by (auto dest!: cached_error simp: none)
  show "fst (mcp_cached w (str ''status'') (produce_status B cal uri w) no_status sv) \<noteq> Inl e"
    unfolding produce_status_def store_health_def by (auto dest!: cached_error simp: none)
  obtain m where "build_manifest B [] [] [] = Inr m" using empty_manifest by blast
  then show "fst (get_manifest B uri w sv) \<noteq> Inl e"
    unfolding get_manifest_def produce_manifest_def store_servers_def hbind_def hlift_def
    by (auto dest!: cached_error simp: none)
qed

text \<open>C29: The public registry never answers 500. In every service that has only served requests, when the
  database cannot be reached (no address, an open breaker, no connection), or when it can and its
  queries fail or return documents of the documented shape, every request is answered, the
  text form of the status page included; the only errors are the 404 of the vault and
  the 404 of a server that the database does not have.\<close>

theorem mcp_never_500:
  assumes "mcp_served B uri sv"
    and "registry_ok B w \<or> \<not> fst (get_mcp_collection uri w (mc_store sv))"
    and "fst (mcp_serve B cal uri w rq sv) = Inl e"
  shows "rq = RqVault \<and> e = HttpError 404 [] (str ''credential vault is not publicly available'')
    \<or> (\<exists>name. rq = RqServer name \<and> mw_server w name = Some None
          \<and> e = HttpError 404 [] (str ''mcp server not found: '' @ name))"
proof (cases rq)
  case (RqStatus format)
  with assms(3) have "fst (get_status B cal uri w format sv) = Inl e" by (simp add: mcp_serve_def)
  from status_error [OF served_typed [OF assms(1)] this] obtain e' where
    "fst (mcp_cached w (str ''status'') (produce_status B cal uri w) no_status sv) = Inl e'" ..
  with assms(2) status_read_error away_no_error(4) show ?thesis by blast
next
  case RqVault
  with assms(3) show ?thesis by (auto simp: mcp_serve_def mcp_reply_def hbind_def get_vault_def hfail_def)
next
  case (RqServer name)
  with assms(3) have e: "fst (get_server B uri w name sv) = Inl e" by (simp add: mcp_serve_def reply_error)
  with assms(2) server_error [OF e] away_no_error(2) RqServer show ?thesis by blast
qed (use assms(2,3) servers_error manifest_error away_no_error(1,3) health_error in
    \<open>auto simp: mcp_serve_def reply_error get_discovery_def hret_def\<close>)

end
