(* ===== verification/McpDemo.thy ===== *)
theory McpDemo
  imports McpTotal
begin

text \<open>The properties of the registry at concrete documents.\<close>

definition demo_py :: Builtins where
  "demo_py = \<lparr>py_show = (\<lambda>v. []), py_true = (\<lambda>v. True), py_elements = (\<lambda>t. Inr []),
     py_max = (\<lambda>vs. Inr (BStr [])), py_sorted = (\<lambda>xs. Inr (map snd xs))\<rparr>"

definition demo_cal :: Calendar where
  "demo_cal = \<lparr>cal_now = 1000, cal_iso = (\<lambda>m. []), cal_from_iso = (\<lambda>t. None), cal_from_date = (\<lambda>t. None)\<rparr>"

text \<open>An entry whose recipe holds a secret\<close>

definition secret_doc :: "pystr \<Rightarrow> bdoc" where
  "secret_doc secret =
     [(str ''name'', BStr (str ''redis'')), (str ''status'', BStr (str ''verified'')),
      (str ''connection'', BDoc [(str ''url'', BStr (60 # 80 # 87 # 62 # secret))])]"

definition demo_registry :: "pystr \<Rightarrow> McpWorld" where
  "demo_registry secret = \<lparr>mw_start = 1, mw_end = 2, mw_connects = True, mw_index = True,
     mw_servers = Some [secret_doc secret], mw_server = (\<lambda>name. Some None),
     mw_meta = Some (Some [(str ''notes'', BStr secret)]), mw_health = Some [secret_doc secret], mw_vault = None\<rparr>"

lemma demo_auth: "auth_for demo_py (secret_doc s) = Inr (auth_type ''operator-managed'')"
  by (simp add: auth_for_def secret_doc_def got_def got_or_def truthy_def as_doc_def placeholder_names_def
      elements_def shown_names_def show_value_def dict_values_def name_char_def startswith_def py_simps Let_def; blast)

lemma mcp_public_only_witness:
  "mcp_serve demo_py demo_cal True (demo_registry [97]) RqHealth (new_mcp_service 300)
     = mcp_serve demo_py demo_cal True (demo_registry [98]) RqHealth (new_mcp_service 300)
   \<and> demo_registry [97] \<noteq> demo_registry [98]"
proof -
  have "same_public demo_py (secret_doc [97]) (secret_doc [98])"
    unfolding same_public_def needs_credentials_def demo_auth by (simp add: public_names_def secret_doc_def py_simps)
  moreover have "public_part (secret_doc [97]) = public_part (secret_doc [98])"
    by (simp add: public_part_def public_names_def secret_doc_def py_simps)
  ultimately have "same_database demo_py (demo_registry [97]) (demo_registry [98])"
    by (simp add: same_database_def demo_registry_def)
  then show ?thesis
    using mcp_public_only [of demo_py "demo_registry [97]" "demo_registry [98]" demo_cal True RqHealth "new_mcp_service 300"]
    by (simp add: demo_registry_def)
qed

definition demo_rows :: "bdoc list" where
  "demo_rows =
     [[(str ''name'', BStr (str ''redis'')), (str ''status'', BStr (str ''verified''))],
      [(str ''name'', BStr (str ''graph'')), (str ''status'', BStr (str ''unreachable''))]]"

lemma mcp_status_counts_witness:
  "\<exists>p. status_payload demo_py demo_cal demo_rows = Inr p
     \<and> ta_verified (sp_tally p) = 1 \<and> ta_down (sp_tally p) = 1 \<and> ta_stale (sp_tally p) = 1"
proof -
  have names: "all_text (map row_key demo_rows) = Some [str ''redis'', str ''graph'']"
    by (simp add: demo_rows_def row_key_def)
  then obtain p where p: "status_payload demo_py demo_cal demo_rows = Inr p"
    using status_payload_ok [of demo_rows demo_py demo_cal] by (auto simp: is_ok_iff)
  have "counted (is_status demo_py ''verified'') demo_rows = 1" "counted (is_status demo_py ''unreachable'') demo_rows = 1"
    "counted (\<lambda>r. is_status demo_py ''verified'' r \<and> row_stale demo_py demo_cal r) demo_rows = 1"
    by (simp_all add: demo_rows_def is_status_def status_name_def got_or_def got_def truthy_def row_stale_def
        last_check_def parse_ts_def stale_def py_simps)
  with mcp_status_counts [OF p names] p show ?thesis by auto
qed

lemma mcp_never_500_witness:
  "\<exists>e. fst (mcp_serve demo_py demo_cal True (demo_registry [97]) (RqServer (str ''nope'')) (new_mcp_service 300)) = Inl e
     \<and> he_status e = 404"
proof -
  let ?r = "mcp_serve demo_py demo_cal True (demo_registry [97]) (RqServer (str ''nope'')) (new_mcp_service 300)"
  have ok: "registry_ok demo_py (demo_registry [97])"
    by (simp add: registry_ok_def demo_registry_def server_doc_ok_def secret_doc_def got_or_def got_def truthy_def
        as_doc_def elements_def row_key_def py_simps)
  have "\<exists>e. fst ?r = Inl e"
    by (simp add: mcp_serve_def reply_error get_server_def mcp_cached_def get_or_set_def new_mcp_service_def
        new_cache_def cache_fresh_def mcp_then_def store_server_def read_registry_def col_or_raise_def
        get_mcp_collection_def new_registry_def new_breaker_def is_open_def demo_registry_def mcp_raise_def Let_def)
  then obtain e where e: "fst ?r = Inl e" ..
  with mcp_never_500 [OF mcp_served.start disjI1 [OF ok] e] show ?thesis by auto
qed

end
