(* ===== verification/CacheLive.thy ===== *)
theory CacheLive
  imports TtlCache
begin

text \<open>
  Progress of the callers of the TTL cache: the steps that are left are bounded, and a system that
  can make none has answered every caller.
\<close>

text \<open>The steps a task still has to make: a waiting one takes its lock and awaits the producer.\<close>

fun task_work :: "'v Task \<Rightarrow> nat" where
  "task_work (Bypass key) = 1"
| "task_work (Waiting key l) = 2"
| "task_work (Producing key l) = 1"
| "task_work _ = 0"

definition remaining :: "'v System \<Rightarrow> nat" where
  "remaining s = sum_list (map (task_work \<circ> snd) (sy_tasks s))"

definition all_done :: "'v System \<Rightarrow> bool" where
  "all_done s \<longleftrightarrow> list_all (\<lambda>p. task_work (snd p) = 0) (sy_tasks s)"

text \<open>
  What the event loop can run next: a waiter whose lock is free, or the end of a producer, which
  returns or raises.
\<close>

inductive cache_step :: "'v System \<Rightarrow> 'v System \<Rightarrow> bool" where
  take_lock: "dict_get (sy_tasks s) t = Some (Waiting key l) \<Longrightarrow> lock_free l s \<Longrightarrow> cache_step s (acquire t now s)"
| end_producer: "dict_get (sy_tasks s) t = Some (Producing key l) \<Longrightarrow> cache_step s (produced t now result s)"
| end_bypass: "dict_get (sy_tasks s) t = Some (Bypass key) \<Longrightarrow> cache_step s (produced t now result s)"

lemma work_set:
  "dict_get d t = Some a \<Longrightarrow>
     sum_list (map (f \<circ> snd) (dict_set t b d)) + f a = sum_list (map (f \<circ> snd) d) + (f b :: nat)"
  by (induction d) (auto split: if_splits)

lemma cache_step_wf: "cache_step s s' \<Longrightarrow> dict_wf (sy_tasks s) \<Longrightarrow> dict_wf (sy_tasks s')"
  by (induction rule: cache_step.induct)
    (auto simp: acquire_def produced_def split: option.split prod.split)

lemma work_less:
  "dict_get (sy_tasks s) t = Some a \<Longrightarrow> task_work b < task_work a \<Longrightarrow>
     remaining (s\<lparr>sy_cache := c, sy_tasks := dict_set t b (sy_tasks s)\<rparr>) < remaining s"
  using work_set [of "sy_tasks s" t a task_work b] by (simp add: remaining_def)

lemma cache_step_work: "cache_step s s' \<Longrightarrow> remaining s' < remaining s"
proof (induction rule: cache_step.induct)
  case (take_lock s t key l now)
  then show ?case by (auto simp: acquire_def work_less split: option.split prod.split)
next
  case (end_producer s t key l now result)
  then show ?case
    using work_less [of s t _ _ "sy_cache s"] by (auto simp: produced_def work_less split: option.split)
next
  case (end_bypass s t key now result)
  then show ?case
    using work_less [of s t _ _ "sy_cache s"] by (auto simp: produced_def work_less split: option.split)
qed

lemma cache_step_stuck:
  assumes wf: "dict_wf (sy_tasks s)" and stuck: "\<nexists>s'. cache_step s s'"
  shows "all_done s"
proof -
  have task: "dict_get (sy_tasks s) t = Some k" if "(t, k) \<in> set (sy_tasks s)" for t k
    using wf that by (simp add: dict_wf_get_iff)
  have producing: "(t, k) \<in> set (sy_tasks s) \<Longrightarrow> k \<noteq> Producing key l \<and> k \<noteq> Bypass key" for t k key l
    using task stuck cache_step.end_producer cache_step.end_bypass by blast
  then have "lock_free l s" for l by (auto simp: lock_free_def split: Task.split)
  then have waiting: "(t, k) \<in> set (sy_tasks s) \<Longrightarrow> k \<noteq> Waiting key l" for t k key l
    using task stuck cache_step.take_lock by blast
  have "task_work k = 0" if "(t, k) \<in> set (sy_tasks s)" for t k
    using producing [OF that] waiting [OF that] by (cases k) auto
  then show ?thesis by (auto simp: all_done_def list_all_iff)
qed

lemma reachable_tasks_wf: "cache_reachable ttl max_entries s \<Longrightarrow> dict_wf (sy_tasks s)"
proof (induction rule: cache_reachable.induct)
  case (call s t now key)
  then show ?case by (auto simp: call_def split: option.split prod.split)
next
  case (acquire s t now)
  then show ?case by (auto simp: acquire_def split: option.split prod.split Task.split)
next
  case (produced s t now result)
  then show ?case by (auto simp: produced_def split: option.split Task.split)
qed simp_all

lemma remaining_bound: "remaining s \<le> 2 * length (sy_tasks s)"
proof -
  have le: "task_work k \<le> 2" for k :: "'a Task" by (cases k) auto
  have "sum_list (map (task_work \<circ> snd) ts) \<le> 2 * length ts" for ts :: "(nat \<times> 'a Task) list"
  proof (induction ts)
    case (Cons p ts)
    with le [of "snd p"] show ?case by simp
  qed simp
  then show ?thesis by (simp add: remaining_def)
qed

lemma cache_steps: "(cache_step ^^ n) s s' \<Longrightarrow> dict_wf (sy_tasks s) \<Longrightarrow> n + remaining s' \<le> remaining s \<and> dict_wf (sy_tasks s')"
proof (induction n arbitrary: s')
  case (Suc n)
  from Suc.prems(1) obtain m where m: "(cache_step ^^ n) s m" "cache_step m s'" by auto
  from Suc.IH [OF m(1) Suc.prems(2)] cache_step_work [OF m(2)] cache_step_wf [OF m(2)] show ?case by auto
qed simp

text \<open>C30: No caller of the cache waits for ever. From every reachable state, however the event loop
  orders them, at most two steps for each caller are left, provided that awaited producers end, by
  returning or raising; and as long as some caller has no answer another step can be made. So
  every schedule ends, after at most twice as many steps as there are callers, with every
  caller answered.\<close>

theorem cache_callers_answered:
  assumes "cache_reachable ttl max_entries s" and "(cache_step ^^ n) s s'"
  shows "n \<le> 2 * length (sy_tasks s) \<and> n + remaining s' \<le> remaining s \<and> (all_done s' \<or> (\<exists>s''. cache_step s' s''))"
  using cache_steps [OF assms(2) reachable_tasks_wf [OF assms(1)]] remaining_bound [of s] cache_step_stuck [of s'] by auto

text \<open>Two callers of one key, the first awaiting its producer, which then raises\<close>

definition two_callers :: "nat System" where
  "two_callers = acquire 0 1 (call 1 1 (str ''k'') (call 0 0 (str ''k'')
     \<lparr>sy_cache = new_cache 60 4, sy_tasks = []\<rparr>))"

lemma cache_callers_answered_witness:
  "\<exists>s'. (cache_step ^^ 1) two_callers s' \<and> \<not> all_done s' \<and> (\<exists>s''. cache_step s' s'')"
proof -
  have tasks: "sy_tasks two_callers = [(0, Producing (str ''k'') 0), (1, Waiting (str ''k'') 0)]"
    by (simp add: two_callers_def call_def acquire_def new_cache_def cache_fresh_def lock_for_def lock_free_def
        keep_last_def move_to_end_def dict_pop_def)
  have r: "cache_reachable 60 4 two_callers"
    unfolding two_callers_def
    by (intro cache_reachable.acquire cache_reachable.call cache_reachable.new)
      (simp_all add: call_def new_cache_def cache_fresh_def lock_for_def)
  let ?s = "produced 0 2 None two_callers"
  have step: "(cache_step ^^ 1) two_callers ?s"
    using cache_step.end_producer [of two_callers 0 "str ''k''" 0 2 None] tasks by (simp add: eq_OO)
  moreover have "\<not> all_done ?s" by (simp add: tasks produced_def all_done_def)
  ultimately show ?thesis using cache_callers_answered [OF r step] by blast
qed

end
