(* ===== verification/AppConfig.thy ===== *)
theory AppConfig
  imports WikiSecurity Throttle Feedback OntologyView KgApi PyText
begin

text \<open>
  The settings of the service, \<open>src/app/config.py\<close>, and what the components take from them. How
  the environment is read into the fields is Pydantic's; here is the record with its defaults. A
  float is kept as its literal.
\<close>

record Settings =
  neo4j_uri :: pystr
  neo4j_fallback_uris :: pystr
  neo4j_user :: pystr
  neo4j_password :: pystr
  neo4j_database :: pystr
  neo4j_live :: bool
  kg_read_key :: pystr
  kg_write_key :: pystr
  kg_proxy_max_rows :: int
  ontology_enabled :: bool
  ontology_snapshot_path :: pystr
  ontology_snapshot_sha256 :: pystr
  ontology_content_sha256 :: pystr
  ontology_internal_key :: pystr
  mongo_uri :: pystr
  mongo_db :: pystr
  mongo_feedback_collection :: pystr
  mcp_registry_collection :: pystr
  mcp_registry_cache_ttl_seconds :: int
  feedback_ttl_days :: int
  feedback_require_durable :: bool
  feedback_admin_key :: pystr
  stats_cache_ttl_seconds :: int
  research_cache_ttl_seconds :: int
  kg_query_timeout_seconds :: pystr
  cache_max_entries :: int
  research_max_offset :: int
  redis_url :: pystr
  wiki_public_writes :: bool
  wiki_database_url :: pystr
  wiki_session_secret :: pystr
  wiki_moderation_admin_key :: pystr
  wiki_session_ttl_seconds :: int
  wiki_session_cookie_secure :: bool
  wiki_require_redis :: bool
  wiki_session_max_per_window :: int
  wiki_session_window_seconds :: int
  wiki_mutation_max_per_window :: int
  wiki_mutation_window_seconds :: int
  wiki_read_max_per_window :: int
  wiki_read_window_seconds :: int
  wiki_max_body_bytes :: int
  wiki_max_offset :: int
  metrics_enabled :: bool
  log_json :: bool
  turnstile_secret :: pystr
  turnstile_hostname :: pystr
  turnstile_action :: pystr
  turnstile_fail_open :: bool
  cors_origins :: pystr
  feedback_max_per_window :: int
  feedback_window_seconds :: int
  trust_proxy :: bool

definition default_settings :: Settings where
  "default_settings = \<lparr>
     neo4j_uri = str ''bolt://localhost:7687'',
     neo4j_fallback_uris = [],
     neo4j_user = str ''neo4j'',
     neo4j_password = [],
     neo4j_database = str ''neo4j'',
     neo4j_live = False,
     kg_read_key = [],
     kg_write_key = [],
     kg_proxy_max_rows = 1000,
     ontology_enabled = False,
     ontology_snapshot_path = [],
     ontology_snapshot_sha256 = [],
     ontology_content_sha256 = [],
     ontology_internal_key = [],
     mongo_uri = [],
     mongo_db = str ''metahumotonic'',
     mongo_feedback_collection = str ''web_feedback'',
     mcp_registry_collection = str ''mcp_servers'',
     mcp_registry_cache_ttl_seconds = 300,
     feedback_ttl_days = 365,
     feedback_require_durable = False,
     feedback_admin_key = [],
     stats_cache_ttl_seconds = 120,
     research_cache_ttl_seconds = 300,
     kg_query_timeout_seconds = str ''10.0'',
     cache_max_entries = 512,
     research_max_offset = 10000,
     redis_url = [],
     wiki_public_writes = False,
     wiki_database_url = [],
     wiki_session_secret = [],
     wiki_moderation_admin_key = [],
     wiki_session_ttl_seconds = 43200,
     wiki_session_cookie_secure = True,
     wiki_require_redis = True,
     wiki_session_max_per_window = 10,
     wiki_session_window_seconds = 600,
     wiki_mutation_max_per_window = 30,
     wiki_mutation_window_seconds = 60,
     wiki_read_max_per_window = 180,
     wiki_read_window_seconds = 60,
     wiki_max_body_bytes = 524288,
     wiki_max_offset = 10000,
     metrics_enabled = True,
     log_json = True,
     turnstile_secret = [],
     turnstile_hostname = str ''metahumotonic.com'',
     turnstile_action = str ''feedback_submit'',
     turnstile_fail_open = False,
     cors_origins = str ''https://metahumotonic.com,http://localhost:4321'',
     feedback_max_per_window = 5,
     feedback_window_seconds = 600,
     trust_proxy = False\<rparr>"

definition cors_origin_list :: "Settings \<Rightarrow> pystr list" where
  "cors_origin_list st = map strip (filter (\<lambda>o'. strip o' \<noteq> []) (split_on 44 (cors_origins st)))"

text \<open>What each component reads of them\<close>

definition kg_settings :: "Settings \<Rightarrow> KgSettings" where
  "kg_settings st = \<lparr>ks_uri = neo4j_uri st, ks_fallback_uris = neo4j_fallback_uris st, ks_live = neo4j_live st,
     ks_max_rows = kg_proxy_max_rows st\<rparr>"

definition kg_keys :: "Settings \<Rightarrow> KgKeys" where
  "kg_keys st = \<lparr>kk_read = kg_read_key st, kk_write = kg_write_key st\<rparr>"

definition ontology_settings :: "Settings \<Rightarrow> OntologySettings" where
  "ontology_settings st = \<lparr>os_enabled = ontology_enabled st, os_snapshot_path = ontology_snapshot_path st,
     os_snapshot_sha256 = ontology_snapshot_sha256 st, os_content_sha256 = ontology_content_sha256 st,
     os_internal_key = ontology_internal_key st\<rparr>"

definition feedback_settings :: "Settings \<Rightarrow> FeedbackSettings" where
  "feedback_settings st = \<lparr>fe_mongo_uri = mongo_uri st, fe_require_durable = feedback_require_durable st,
     fe_ttl_days = feedback_ttl_days st, fe_admin_key = feedback_admin_key st,
     fe_turnstile = \<lparr>ts_secret = turnstile_secret st, ts_hostname = turnstile_hostname st,
       ts_action = turnstile_action st, ts_fail_open = turnstile_fail_open st\<rparr>\<rparr>"

end
