(* ===== verification/Startup.thy ===== *)
theory Startup
  imports AppConfig WikiApi WikiSchema KgClient McpApi
begin

text \<open>
  How the service comes up and reports itself: the wiki runtime built at import and the start of
  the application (\<open>src/app/main.py\<close>), and the probes (\<open>src/app/routers/meta.py\<close>). What lies
  outside (the file system, Redis, MongoDB, PostgreSQL, Neo4j) is an argument of each call.
\<close>

section \<open>The wiki runtime\<close>

text \<open>\<open>random\<close> is what \<open>secrets.token_bytes(32)\<close> returns.\<close>

definition wiki_signer :: "Settings \<Rightarrow> bytes \<Rightarrow> wiki_exn + Signer" where
  "wiki_signer st random =
     (case utf8_encode (wiki_session_secret st) of
        None \<Rightarrow> Inl PyUnicodeEncodeError
      | Some configured \<Rightarrow>
          new_signer (if 32 \<le> length configured then configured else random)
            (wiki_session_ttl_seconds st * 1000000))"

definition wiki_moderator_actor :: "Settings \<Rightarrow> Request \<Rightarrow> wiki_exn + pystr" where
  "wiki_moderator_actor st rq =
     (case utf8_encode (wiki_moderation_admin_key st) of
        None \<Rightarrow> Inl PyUnicodeEncodeError
      | Some key \<Rightarrow> Inr (str ''moderator:'' @ take 32 (hexdigest (sha256 key))))"

definition wiki_fail_closed :: "Settings \<Rightarrow> bool" where
  "wiki_fail_closed st \<longleftrightarrow> wiki_public_writes st \<and> wiki_require_redis st"

definition wiki_session_limiter :: "Settings \<Rightarrow> Limiter" where
  "wiki_session_limiter st = new_limiter (wiki_session_max_per_window st) (wiki_session_window_seconds st)
     (redis_url st) (wiki_fail_closed st)"

definition wiki_mutation_limiter :: "Settings \<Rightarrow> Limiter" where
  "wiki_mutation_limiter st = new_limiter (wiki_mutation_max_per_window st) (wiki_mutation_window_seconds st)
     (redis_url st) (wiki_fail_closed st)"

definition wiki_read_limiter :: "Settings \<Rightarrow> Limiter" where
  "wiki_read_limiter st = new_limiter (wiki_read_max_per_window st) (wiki_read_window_seconds st)
     (redis_url st) (wiki_fail_closed st)"

section \<open>The application\<close>

text \<open>The store of the runtime is in memory until startup puts the PostgreSQL one in its place.\<close>

record 'd AppState =
  ap_feedback :: FeedbackStore
  ap_registry :: McpRegistryStore
  ap_kg :: KgClient
  ap_ontology :: OntologyRuntime
  ap_session :: Limiter
  ap_mutation :: Limiter
  ap_read :: Limiter
  ap_postgres :: bool
  ap_ready :: bool
  ap_database :: "'d SchemaDb"

definition new_app :: "Settings \<Rightarrow> 'd SchemaDb \<Rightarrow> 'd AppState" where
  "new_app st db = \<lparr>ap_feedback = new_feedback_store [], ap_registry = new_registry, ap_kg = new_client,
     ap_ontology = reset_runtime, ap_session = wiki_session_limiter st, ap_mutation = wiki_mutation_limiter st,
     ap_read = wiki_read_limiter st, ap_postgres = False, ap_ready = False, ap_database = db\<rparr>"

text \<open>
  The world of one call: the clocks of the MongoDB stores, the files, for each limiter whether a
  new connection to Redis answers and whether the ping does, and PostgreSQL: whether a connection
  can be had, what statements do, what the catalog shows, the packaged migrations. The ping at the
  end of a start takes a connection of its own after the migrations are committed: it may fail, and
  see another catalog than they did.
\<close>

record 'd AppWorld =
  aw_clock :: Clock
  aw_mcp :: McpWorld
  aw_kg :: KgWorld
  aw_casefold :: "pystr \<Rightarrow> pystr"
  aw_read :: "pystr \<Rightarrow> FileRead"
  aw_mono :: int
  aw_redis_session :: "bool \<times> bool"
  aw_redis_mutation :: "bool \<times> bool"
  aw_redis_read :: "bool \<times> bool"
  aw_connects :: "wiki_exn + unit"
  aw_execute :: "Statement \<Rightarrow> 'd \<Rightarrow> wiki_exn + 'd"
  aw_catalog :: "'d \<Rightarrow> Catalog option"
  aw_ping_connects :: "wiki_exn + unit"
  aw_ping_catalog :: "'d \<Rightarrow> Catalog option"
  aw_migrations :: "(pystr \<times> bytes) list"

definition validate_wiki_configuration :: "Settings \<Rightarrow> wiki_exn + unit" where
  "validate_wiki_configuration st =
     (if wiki_session_ttl_seconds st < 300
      then Inl (PyRuntimeError (str ''MHB_WIKI_SESSION_TTL_SECONDS must be at least 300''))
      else if \<not> wiki_public_writes st then Inr ()
      else if wiki_database_url st = []
      then Inl (PyRuntimeError (str ''MHB_WIKI_DATABASE_URL is required when wiki writes are enabled''))
      else case utf8_encode (wiki_session_secret st) of
        None \<Rightarrow> Inl PyUnicodeEncodeError
      | Some secret \<Rightarrow>
          (if length secret < 32
           then Inl (PyRuntimeError (str ''MHB_WIKI_SESSION_SECRET must be at least 32 bytes''))
           else case utf8_encode (wiki_moderation_admin_key st) of
             None \<Rightarrow> Inl PyUnicodeEncodeError
           | Some key \<Rightarrow>
               (if length key < 32
                then Inl (PyRuntimeError (str ''MHB_WIKI_MODERATION_ADMIN_KEY must be at least 32 bytes''))
                else if wiki_moderation_admin_key st = wiki_session_secret st
                then Inl (PyRuntimeError (str ''wiki moderation and session-signing secrets must be distinct''))
                else if wiki_require_redis st \<and> redis_url st = []
                then Inl (PyRuntimeError (str ''MHB_REDIS_URL is required when public wiki writes are enabled''))
                else Inr ())))"

definition ensure_feedback_indexes :: "Settings \<Rightarrow> Clock \<Rightarrow> FeedbackStore \<Rightarrow> FeedbackStore" where
  "ensure_feedback_indexes st ck fs =
     (if feedback_ttl_days st \<le> 0 then fs else snd (get_collection (feedback_settings st) ck fs))"

text \<open>The three limiters are asked in turn, each of them, before the answers are looked at.\<close>

definition limiters_ready :: "'d AppWorld \<Rightarrow> 'd AppState \<Rightarrow> bool list \<times> 'd AppState" where
  "limiters_ready w ap =
     (case limiter_ready (aw_mono w) (fst (aw_redis_session w)) (snd (aw_redis_session w)) (ap_session ap) of
        (a, session) \<Rightarrow>
      case limiter_ready (aw_mono w) (fst (aw_redis_mutation w)) (snd (aw_redis_mutation w)) (ap_mutation ap) of
        (b, mutation) \<Rightarrow>
      case limiter_ready (aw_mono w) (fst (aw_redis_read w)) (snd (aw_redis_read w)) (ap_read ap) of
        (c, reading) \<Rightarrow>
      ([a, b, c], ap\<lparr>ap_session := session, ap_mutation := mutation, ap_read := reading\<rparr>))"

text \<open>\<open>PostgresWikiStore.ping\<close>: the packaged migrations are read before a connection is asked for.\<close>

definition store_ping ::
  "wiki_exn + unit \<Rightarrow> ('d \<Rightarrow> Catalog option) \<Rightarrow> (pystr \<times> bytes) list \<Rightarrow> 'd SchemaDb \<Rightarrow> wiki_exn + bool" where
  "store_ping connects catalog files db =
     bind_res (migration_specs files) (\<lambda>migrations.
     if migrations = [] then Inr False
     else bind_res connects (\<lambda>_. Inr (schema_is_current catalog migrations db)))"

text \<open>
  Connecting, migrating and checking; an error closes the pool and leaves the runtime as it is. What
  \<open>ensure_schema\<close> has committed stays when the ping fails.
\<close>

definition open_wiki_store :: "'d AppWorld \<Rightarrow> 'd AppState \<Rightarrow> (wiki_exn + unit) \<times> 'd AppState" where
  "open_wiki_store w ap =
     (case aw_connects w of
        Inl x \<Rightarrow> (Inl x, ap)
      | Inr _ \<Rightarrow>
          (case ensure_schema (aw_execute w) (aw_catalog w) (aw_migrations w) (ap_database ap) of
             (Inl x, db) \<Rightarrow> (Inl x, ap\<lparr>ap_database := db\<rparr>)
           | (Inr _, db) \<Rightarrow>
               (case store_ping (aw_ping_connects w) (aw_ping_catalog w) (aw_migrations w) db of
                  Inl x \<Rightarrow> (Inl x, ap\<lparr>ap_database := db\<rparr>)
                | Inr False \<Rightarrow>
                    (Inl (PyRuntimeError (str ''wiki PostgreSQL schema readiness check failed'')), ap\<lparr>ap_database := db\<rparr>)
                | Inr True \<Rightarrow> (Inr (), ap\<lparr>ap_database := db, ap_postgres := True, ap_ready := True\<rparr>))))"

definition start_app :: "Settings \<Rightarrow> 'd AppWorld \<Rightarrow> 'd AppState \<Rightarrow> (wiki_exn + unit) \<times> 'd AppState" where
  "start_app st w ap =
     (let ap1 = ap\<lparr>ap_feedback := ensure_feedback_indexes st (aw_clock w) (ap_feedback ap),
                   ap_registry := snd (ensure_mcp_indexes (mongo_uri st \<noteq> []) (aw_mcp w) (ap_registry ap))\<rparr> in
      case configure (aw_casefold w) (aw_read w) (ontology_settings st) of
        (Inl x, rt) \<Rightarrow> (Inl x, ap1\<lparr>ap_ontology := rt\<rparr>)
      | (Inr _, rt) \<Rightarrow>
          (let ap2 = ap1\<lparr>ap_ontology := rt\<rparr> in
           case validate_wiki_configuration st of
             Inl x \<Rightarrow> (Inl x, ap2)
           | Inr _ \<Rightarrow>
               (case (if wiki_public_writes st then limiters_ready w ap2 else ([], ap2)) of
                  (oks, ap3) \<Rightarrow>
                    (if \<not> list_all id oks
                     then (Inl (PyRuntimeError (str ''Redis rate limiter is required but unavailable'')), ap3)
                     else if wiki_database_url st \<noteq> [] then open_wiki_store w ap3
                     else (Inr (), ap3\<lparr>ap_ready := \<not> wiki_public_writes st\<rparr>)))))"

section \<open>The probes\<close>

definition version :: pystr where
  "version = str ''1.0.0''"

definition health :: "(pystr \<times> pystr) list" where
  "health = [(str ''status'', str ''ok''), (str ''service'', str ''metahumotonic-web-back''), (str ''version'', version)]"

definition root_endpoints :: "pystr list" where
  "root_endpoints = [str ''/health'', str ''/ready'', str ''/api/stats'', str ''/api/domains'', str ''/api/skills'',
     str ''/api/feedback'', str ''/api/wiki/v1'', str ''/api/v1/ontology/schema'', str ''/api/v1/ontology/conflicts'']"

record Readiness =
  rd_status :: int
  rd_kg_live :: bool
  rd_wiki_required :: bool
  rd_wiki_live :: bool
  rd_wiki_store_live :: bool
  rd_wiki_rate_limit_live :: bool
  rd_ontology_required :: bool
  rd_ontology_live :: bool
  rd_degraded :: bool

definition probe_kg :: "Settings \<Rightarrow> 'd AppWorld \<Rightarrow> 'd AppState \<Rightarrow> bool \<times> 'd AppState" where
  "probe_kg st w ap =
     (if \<not> neo4j_live st then (False, ap)
      else case KgClient.run (kg_settings st) (aw_kg w) (str ''RETURN 1 AS ok'') [] (ap_kg ap) of
        (rows, kg) \<Rightarrow> ((case rows of Some (_ # _) \<Rightarrow> True | _ \<Rightarrow> False), ap\<lparr>ap_kg := kg\<rparr>))"

text \<open>The ping of the runtime's store; an exception of it counts as no.\<close>

definition store_alive :: "'d AppWorld \<Rightarrow> 'd AppState \<Rightarrow> bool" where
  "store_alive w ap =
     (if ap_postgres ap
      then store_ping (aw_connects w) (aw_catalog w) (aw_migrations w) (ap_database ap) = Inr True
      else True)"

definition ready_probe :: "Settings \<Rightarrow> 'd AppWorld \<Rightarrow> 'd AppState \<Rightarrow> Readiness \<times> 'd AppState" where
  "ready_probe st w ap =
     (case probe_kg st w ap of (kg_live, ap1) \<Rightarrow>
      let wiki_required = wiki_public_writes st;
          needs_redis = (wiki_required \<and> wiki_require_redis st);
          wiki_store_live = (ap_ready ap1 \<and> store_alive w ap1) in
      case (if ap_ready ap1 \<and> needs_redis then limiters_ready w ap1 else ([\<not> needs_redis], ap1)) of (oks, ap2) \<Rightarrow>
      let wiki_rate_limit_live = list_all id oks;
          wiki_live = (wiki_store_live \<and> wiki_rate_limit_live);
          rt = ap_ontology ap2;
          ontology_live = (or_enabled rt \<and> or_ready rt \<and> or_projection rt \<noteq> None);
          not_ready = (wiki_required \<and> \<not> wiki_live \<or> ontology_enabled st \<and> \<not> ontology_live) in
      (\<lparr>rd_status = (if not_ready then 503 else 200), rd_kg_live = kg_live, rd_wiki_required = wiki_required,
         rd_wiki_live = wiki_live, rd_wiki_store_live = wiki_store_live, rd_wiki_rate_limit_live = wiki_rate_limit_live,
         rd_ontology_required = ontology_enabled st, rd_ontology_live = ontology_live,
         rd_degraded = (neo4j_live st \<and> \<not> kg_live \<or> wiki_required \<and> \<not> wiki_live
           \<or> ontology_enabled st \<and> \<not> ontology_live)\<rparr>, ap2))"

end
