(* ===== verification/StartupProps.thy ===== *)
theory StartupProps
  imports Startup
begin

text \<open>
  Startup is fail-closed: a service that came up has everything its settings require, one that
  did not serves nothing, and has left the database alone or at the packaged schema. The readiness
  probe follows what the settings require for as long as the service runs, and the knowledge graph
  is never part of that.
\<close>

section \<open>Startup\<close>


























section \<open>Readiness\<close>














section \<open>At concrete settings\<close>







end
