(* ===== verification/Access.thy ===== *)
theory Access
  imports Throttle WikiHttp
begin

text \<open>
  The request log, \<open>src/app/middleware.py\<close>: every response carries a request id that the server
  made, and requests are logged with their status. The wrapped application and its client are
  those of \<open>WikiHttp\<close>. The random id is an argument, and so is what Starlette's
  \<open>MutableHeaders\<close> does when it sets a header. Durations are not modelled, and sending a message to
  the client does not fail.
\<close>

section \<open>The log\<close>

record AccessLine =
  al_request_id :: pystr
  al_method :: pystr
  al_path :: pystr
  al_status :: int
  al_client :: pystr
  al_correlation :: "pystr option"

datatype LogEntry =
    RequestLine AccessLine
  | RequestFailed pystr pystr pystr

type_synonym headers = "(bytes \<times> bytes) list"

record AccessEnv =
  ae_rid :: pystr
  ae_set_header :: "bytes \<Rightarrow> bytes \<Rightarrow> headers \<Rightarrow> headers"
  ae_trust_proxy :: bool
  ae_host :: "pystr option"

definition excluded :: "pystr list" where
  "excluded = [str ''/metrics'', str ''/health'', str ''/ready'']"

definition body_500 :: bytes where
  "body_500 = ascii_bytes (map (\<lambda>c. if c = 96 then 34 else c) (str ''{`detail`:`Internal Server Error`}''))"

text \<open>Header names and values as text (latin-1); the first of several is the one that is read.\<close>

definition text_headers :: "Scope \<Rightarrow> (pystr, pystr) pydict" where
  "text_headers sc = map (\<lambda>(k, v). (map unat k, map unat v)) (sc_headers sc)"

definition cid_char :: "nat \<Rightarrow> bool" where
  "cid_char c \<longleftrightarrow> 48 \<le> c \<and> c \<le> 57 \<or> 65 \<le> c \<and> c \<le> 90 \<or> 97 \<le> c \<and> c \<le> 122 \<or> c = 46 \<or> c = 95 \<or> c = 45"

definition cid_ok :: "pystr \<Rightarrow> bool" where
  "cid_ok cid \<longleftrightarrow> 1 \<le> length cid \<and> length cid \<le> 64 \<and> list_all cid_char cid"

definition inbound_correlation_id :: "Scope \<Rightarrow> pystr option" where
  "inbound_correlation_id sc =
     (case dict_get (text_headers sc) (str ''x-request-id'') of
        None \<Rightarrow> None
      | Some cid \<Rightarrow> if cid_ok cid then Some cid else None)"

section \<open>The middleware\<close>

record AccessState =
  as_started :: bool
  as_logged :: bool
  as_status :: int
  as_log :: "LogEntry list"

definition access_line :: "AccessEnv \<Rightarrow> Scope \<Rightarrow> int \<Rightarrow> AccessLine" where
  "access_line env sc status_code =
     \<lparr>al_request_id = ae_rid env, al_method = sc_method sc, al_path = sc_path sc, al_status = status_code,
      al_client = client_key (ae_trust_proxy env) (text_headers sc) (ae_host env),
      al_correlation = inbound_correlation_id sc\<rparr>"

definition emit_access :: "AccessEnv \<Rightarrow> Scope \<Rightarrow> int \<Rightarrow> AccessState \<Rightarrow> AccessState" where
  "emit_access env sc status_code st =
     (if as_logged st then st
      else if sc_path sc \<in> set excluded \<and> status_code < 400 then st
      else st\<lparr>as_logged := True, as_log := as_log st @ [RequestLine (access_line env sc status_code)]\<rparr>)"

definition rid_header :: bytes where
  "rid_header = ascii_bytes (str ''x-request-id'')"

fun send_wrapper :: "AccessEnv \<Rightarrow> Scope \<Rightarrow> Outbound \<Rightarrow> AccessState \<Rightarrow> Outbound \<times> AccessState" where
  "send_wrapper env sc (ResponseStart status hs) st =
     (ResponseStart status (ae_set_header env rid_header (ascii_bytes (ae_rid env)) hs),
      st\<lparr>as_started := True, as_status := status\<rparr>)"
| "send_wrapper env sc (ResponseBody body mb) st =
     (ResponseBody body mb, if mb then st else emit_access env sc (as_status st) st)"

primrec run_access :: "App \<Rightarrow> AccessEnv \<Rightarrow> Scope \<Rightarrow> Inbound list \<Rightarrow> AccessState \<Rightarrow> Outbound list \<times> Outcome \<times> AccessState" where
  "run_access (Receive k) = (\<lambda>env sc ms st.
     case ms of [] \<Rightarrow> ([], Blocked, st) | m # ms \<Rightarrow> run_access (k (Inr m)) env sc ms st)"
| "run_access (Send m a) = (\<lambda>env sc ms st.
     case send_wrapper env sc m st of (m', st') \<Rightarrow>
     case run_access a env sc ms st' of (sent, oc, st'') \<Rightarrow> (m' # sent, oc, st''))"
| "run_access Return = (\<lambda>env sc ms st. ([], Returned, st))"
| "run_access (Raise x) = (\<lambda>env sc ms st. ([], Raised x, st))"

definition new_access_state :: AccessState where
  "new_access_state = \<lparr>as_started = False, as_logged = False, as_status = 500, as_log = []\<rparr>"

definition request_logging :: "AccessEnv \<Rightarrow> App \<Rightarrow> Scope \<Rightarrow> Inbound list \<Rightarrow> Outbound list \<times> Outcome \<times> LogEntry list" where
  "request_logging env app sc ms =
     (if sc_type sc \<noteq> str ''http'' then (case run app ms of (sent, oc) \<Rightarrow> (sent, oc, []))
      else case run_access app env sc ms new_access_state of
        (sent, oc, st) \<Rightarrow>
          (case oc of
             Raised x \<Rightarrow>
               (let st1 = emit_access env sc 500
                      (st\<lparr>as_log := as_log st @ [RequestFailed (ae_rid env) (sc_method sc) (sc_path sc)]\<rparr>) in
                if \<not> as_started st1
                then (sent @ [ResponseStart 500
                        [(ascii_bytes (str ''content-type''), ascii_bytes (str ''application/json'')),
                         (rid_header, ascii_bytes (ae_rid env))],
                      ResponseBody body_500 False], Returned, as_log st1)
                else (sent, Raised x, as_log st1))
           | _ \<Rightarrow> (sent, oc, as_log st)))"

section \<open>One log line, one id\<close>

definition request_lines :: "LogEntry list \<Rightarrow> AccessLine list" where
  "request_lines es = concat (map (\<lambda>e. case e of RequestLine l \<Rightarrow> [l] | _ \<Rightarrow> []) es)"

text \<open>The status a response has when its body ends: the last one that was started before.\<close>

fun final_status :: "int \<Rightarrow> Outbound list \<Rightarrow> int option" where
  "final_status s [] = None"
| "final_status s (ResponseStart s' hs # out) = final_status s' out"
| "final_status s (ResponseBody body mb # out) = (if mb then final_status s out else Some s)"

fun is_start :: "Outbound \<Rightarrow> bool" where
  "is_start (ResponseStart s hs) \<longleftrightarrow> True"
| "is_start (ResponseBody body mb) \<longleftrightarrow> False"

text \<open>The id of a response is that of the server.\<close>

definition carries_id :: "AccessEnv \<Rightarrow> Outbound \<Rightarrow> bool" where
  "carries_id env m \<longleftrightarrow> (case m of ResponseStart s hs \<Rightarrow> dict_get hs rid_header = Some (ascii_bytes (ae_rid env)) | _ \<Rightarrow> True)"

text \<open>The documented behaviour of \<open>headers[name] = value\<close>: reading the header back gives the value.\<close>

definition sets_header :: "AccessEnv \<Rightarrow> bool" where
  "sets_header env \<longleftrightarrow> (\<forall>k v hs. dict_get (ae_set_header env k v hs) k = Some v)"

lemma carries_wrapped: "sets_header env \<Longrightarrow> carries_id env (fst (send_wrapper env sc m st))"
  by (cases m) (auto simp: carries_id_def sets_header_def)

lemma run_access_ids:
  "sets_header env \<Longrightarrow> list_all (carries_id env) (fst (run_access app env sc ms st))"
proof (induction app arbitrary: ms st)
  case (Receive k)
  then show ?case by (cases ms) auto
next
  case (Send m a)
  then show ?case using carries_wrapped [OF Send.prems, of sc m st] by (auto split: prod.split) (metis fst_conv)
qed auto

lemma run_access_outcome: "fst (snd (run_access app env sc ms st)) = snd (run app ms)"
proof (induction app arbitrary: ms st)
  case (Receive k)
  then show ?case by (cases ms) auto
qed (auto simp: case_prod_beta)

lemma run_access_logged:
  "as_logged st \<Longrightarrow> as_logged (snd (snd (run_access app env sc ms st)))
     \<and> as_log (snd (snd (run_access app env sc ms st))) = as_log st"
proof (induction app arbitrary: ms st)
  case (Receive k)
  then show ?case by (cases ms) auto
next
  case (Send m a)
  have "as_logged (snd (send_wrapper env sc m st)) \<and> as_log (snd (send_wrapper env sc m st)) = as_log st"
    using Send.prems by (cases m) (auto simp: emit_access_def)
  with Send.IH show ?case by (simp add: case_prod_beta)
qed auto

lemma run_access_line:
  assumes "sc_path sc \<notin> set excluded" and "\<not> as_logged st"
  shows "as_log (snd (snd (run_access app env sc ms st))) = as_log st
      @ (case final_status (as_status st) (fst (run app ms)) of None \<Rightarrow> [] | Some s \<Rightarrow> [RequestLine (access_line env sc s)])
    \<and> (as_logged (snd (snd (run_access app env sc ms st))) \<longleftrightarrow> final_status (as_status st) (fst (run app ms)) \<noteq> None)"
  using assms(2)
proof (induction app arbitrary: ms st)
  case (Receive k)
  then show ?case by (cases ms) auto
next
  case (Send m a)
  show ?case
  proof (cases m)
    case (ResponseStart s hs)
    then show ?thesis using Send.IH [of "snd (send_wrapper env sc m st)" ms] Send.prems by (simp add: case_prod_beta)
  next
    case (ResponseBody body mb)
    show ?thesis
    proof (cases mb)
      case True
      then show ?thesis using ResponseBody Send.IH [of st ms] Send.prems by (simp add: case_prod_beta)
    next
      case False
      then show ?thesis
        using ResponseBody Send.prems assms(1) run_access_logged [of "emit_access env sc (as_status st) st" a env sc ms]
        by (simp add: case_prod_beta emit_access_def)
    qed
  qed
qed auto

lemma run_access_started:
  "as_started (snd (snd (run_access app env sc ms st)))
     \<longleftrightarrow> as_started st \<or> list_ex is_start (fst (run app ms))"
proof (induction app arbitrary: ms st)
  case (Receive k)
  then show ?case by (cases ms) auto
next
  case (Send m a)
  then show ?case by (cases m) (auto simp: case_prod_beta emit_access_def)
qed auto

lemma new_access_state_simps [simp]:
  "\<not> as_started new_access_state" "\<not> as_logged new_access_state"
  "as_status new_access_state = 500" "as_log new_access_state = []"
  by (simp_all add: new_access_state_def)

lemma request_lines_simps [simp]:
  "request_lines [] = []" "request_lines (es @ fs) = request_lines es @ request_lines fs"
  "request_lines (RequestLine l # es) = l # request_lines es" "request_lines (RequestFailed a b c # es) = request_lines es"
  by (simp_all add: request_lines_def)

lemma access_line_simps [simp]:
  "al_status (access_line env sc s) = s" "al_request_id (access_line env sc s) = ae_rid env"
  "al_correlation (access_line env sc s) = inbound_correlation_id sc"
  by (simp_all add: access_line_def)

text \<open>The valid correlation ids: 1 to 64 letters, digits, dots, underscores and dashes, all ASCII.\<close>

definition correlation_alphabet :: pystr where
  "correlation_alphabet = [48..<58] @ [65..<91] @ [97..<123] @ str ''._-''"

lemma cid_char_alphabet: "cid_char c \<longleftrightarrow> c \<in> set correlation_alphabet"
  by (auto simp: cid_char_def correlation_alphabet_def py_simps simp del: upt_rec_numeral)

lemma correlation_id_iff:
  "inbound_correlation_id sc = Some c \<longleftrightarrow> dict_get (text_headers sc) (str ''x-request-id'') = Some c
     \<and> c \<noteq> [] \<and> length c \<le> 64 \<and> set c \<subseteq> set correlation_alphabet"
  by (cases c) (auto simp: inbound_correlation_id_def cid_ok_def cid_char_alphabet list_all_iff split: option.split if_splits)

text \<open>C33: A request is logged at most once, and the line is about that request. Whatever the wrapped application
  does, every response start that reaches the client has the server's request id in its header; a request
  outside the probes has one request line if the application ended a body or raised, and none
  otherwise. The line has exactly that request id, the method and the path of the request, the client key
  of its headers and address, the status the response had when its body ended, or 500 if the application
  raised before that, and the caller's x-request-id as correlation id when it is 1 to 64 characters
  of the allowed alphabet, and none otherwise. And an application that raises before it started a
  response is answered, with 500.\<close>

theorem request_logged_once:
  assumes set: "sets_header env" and http: "sc_type sc = str ''http''" and path: "sc_path sc \<notin> set excluded"
    and run: "request_logging env app sc ms = (sent, oc, entries)"
  shows "list_all (carries_id env) sent
    \<and> (\<exists>correlation. (\<forall>c. correlation = Some c \<longleftrightarrow> dict_get (text_headers sc) (str ''x-request-id'') = Some c
            \<and> c \<noteq> [] \<and> length c \<le> 64 \<and> set c \<subseteq> set correlation_alphabet)
        \<and> request_lines entries = map (\<lambda>s.
              \<lparr>al_request_id = ae_rid env, al_method = sc_method sc, al_path = sc_path sc, al_status = s,
               al_client = client_key (ae_trust_proxy env) (text_headers sc) (ae_host env), al_correlation = correlation\<rparr>)
            (case final_status 500 (fst (WikiHttp.run app ms)) of
               Some s \<Rightarrow> [s]
             | None \<Rightarrow> (case snd (WikiHttp.run app ms) of Raised x \<Rightarrow> [500] | _ \<Rightarrow> [])))
    \<and> (case oc of Raised x \<Rightarrow> list_ex is_start (fst (WikiHttp.run app ms)) | _ \<Rightarrow> True)"
proof -
  obtain out st where r: "run_access app env sc ms new_access_state = (out, snd (WikiHttp.run app ms), st)"
    using run_access_outcome [of app env sc ms new_access_state] by (metis prod.collapse)
  note facts = run_access_ids [OF set, of app sc ms new_access_state]
    run_access_line [OF path, of new_access_state app env ms] run_access_started [of app env sc ms new_access_state]
  have ids: "list_all (carries_id env) out" using facts(1) by (simp add: r)
  have start: "as_started st \<longleftrightarrow> list_ex is_start (fst (WikiHttp.run app ms))"
    using facts(3) by (simp add: r)
  have entries: "as_log st = (case final_status 500 (fst (WikiHttp.run app ms)) of None \<Rightarrow> [] | Some s \<Rightarrow> [RequestLine (access_line env sc s)])"
    "as_logged st \<longleftrightarrow> final_status 500 (fst (WikiHttp.run app ms)) \<noteq> None"
    using facts(2) by (simp_all add: r)
  have lines: "request_lines (as_log st) = (case final_status 500 (fst (WikiHttp.run app ms)) of None \<Rightarrow> [] | Some s \<Rightarrow> [access_line env sc s])"
    unfolding entries(1) by (simp split: option.split)
  have all: "list_all (carries_id env) sent
    \<and> request_lines entries = map (access_line env sc) (case final_status 500 (fst (WikiHttp.run app ms)) of
         Some s \<Rightarrow> [s]
       | None \<Rightarrow> (case snd (WikiHttp.run app ms) of Raised x \<Rightarrow> [500] | _ \<Rightarrow> []))
    \<and> (case oc of Raised x \<Rightarrow> list_ex is_start (fst (WikiHttp.run app ms)) | _ \<Rightarrow> True)"
  proof (cases "snd (WikiHttp.run app ms)")
    case (Raised x)
    then show ?thesis
      using run ids start entries path
      by (auto simp: request_logging_def http r Let_def emit_access_def carries_id_def rid_header_def
          ascii_bytes_def py_simps split: option.splits if_splits Outcome.split)
  qed (use run ids lines in \<open>auto simp: request_logging_def http r split: option.splits\<close>)
  then show ?thesis
    by (intro conjI exI [where x = "inbound_correlation_id sc"] allI correlation_id_iff) (simp_all add: access_line_def)
qed

text \<open>An application that fails before its response, behind a caller that sent an id of its own\<close>

definition demo_env :: AccessEnv where
  "demo_env = \<lparr>ae_rid = str ''0123456789abcdef'',
     ae_set_header = (\<lambda>k v hs. (k, v) # filter (\<lambda>p. fst p \<noteq> k) hs), ae_trust_proxy = False, ae_host = None\<rparr>"

definition demo_scope :: Scope where
  "demo_scope = \<lparr>sc_type = str ''http'', sc_path = str ''/api/stats'', sc_method = str ''GET'',
     sc_headers = [(rid_header, ascii_bytes (str ''caller-1''))]\<rparr>"

lemma request_logged_once_witness:
  "case request_logging demo_env (Raise (AppExn [])) demo_scope [] of (sent, oc, entries) \<Rightarrow>
     map (\<lambda>l. (al_status l, al_path l)) (request_lines entries) = [(500, str ''/api/stats'')] \<and> oc = Returned"
proof -
  obtain sent oc entries where r: "request_logging demo_env (Raise (AppExn [])) demo_scope [] = (sent, oc, entries)"
    by (metis prod.exhaust)
  have "sets_header demo_env" "sc_type demo_scope = str ''http''" "sc_path demo_scope \<notin> set excluded"
    by (simp_all add: sets_header_def demo_env_def demo_scope_def excluded_def py_simps)
  from request_logged_once [OF this r] obtain correlation where lines: "request_lines entries = map (\<lambda>s.
      \<lparr>al_request_id = ae_rid demo_env, al_method = sc_method demo_scope, al_path = sc_path demo_scope, al_status = s,
       al_client = client_key (ae_trust_proxy demo_env) (text_headers demo_scope) (ae_host demo_env),
       al_correlation = correlation\<rparr>) [500]"
    by auto
  moreover have "oc = Returned" using r by (auto simp: request_logging_def demo_scope_def Let_def emit_access_def split: if_splits)
  ultimately show ?thesis unfolding r by (simp add: demo_scope_def)
qed

end
