(* ===== verification/ClientConfig.thy ===== *)
theory ClientConfig
  imports WikiSecurity
begin

text \<open>
  The configuration of the wiki's HTTP client, \<open>WikiClientConfig\<close> of \<open>src/app/wiki_client.py\<close>:
  how the base URL, the token and the timeout are resolved from the arguments, the environment
  and the config file, and how the file is written. The float conversion, the address checks of
  \<open>urllib\<close> and the resolution of a path are arguments.
\<close>

section \<open>Errors\<close>

text \<open>
  \<open>WikiClientError\<close>, its subclass \<open>WikiAPIError\<close> with its status, message and code, and an
  exception of another class, by its name.
\<close>

datatype client_exn =
    ClientError pystr
  | ApiError int pystr "pystr option"
  | Escapes pystr

definition user_facing :: "client_exn \<Rightarrow> bool" where
  "user_facing e = (case e of Escapes _ \<Rightarrow> False | _ \<Rightarrow> True)"

text \<open>\<open>str(exc)\<close> of the two classes of the module\<close>

definition error_text :: "client_exn \<Rightarrow> pystr" where
  "error_text e = (case e of
     ClientError msg \<Rightarrow> msg
   | ApiError status msg code \<Rightarrow>
       str ''wiki API returned HTTP '' @ int_dec status
         @ (case code of None \<Rightarrow> [] | Some c \<Rightarrow> if c = [] then [] else str '' ('' @ c @ str '')'')
         @ str '': '' @ msg
   | Escapes name \<Rightarrow> name)"

section \<open>URLs\<close>

text \<open>
  \<open>urlsplit\<close> of the standard library: the scheme, the network location, the path, the query and
  the fragment. \<open>netloc_ok\<close> says whether the checks of a bracketed address and of the characters
  that normalization would turn into delimiters pass; without them \<open>ValueError\<close> is raised.
\<close>

record SplitUrl =
  su_scheme :: pystr
  su_netloc :: pystr
  su_path :: pystr
  su_query :: pystr
  su_fragment :: pystr

definition is_alpha_ascii :: "nat \<Rightarrow> bool" where
  "is_alpha_ascii c \<longleftrightarrow> 65 \<le> c \<and> c \<le> 90 \<or> 97 \<le> c \<and> c \<le> 122"

definition scheme_char :: "nat \<Rightarrow> bool" where
  "scheme_char c \<longleftrightarrow> is_alpha_ascii c \<or> is_digit c \<or> c = 43 \<or> c = 45 \<or> c = 46"

text \<open>The part before the first character that satisfies \<open>p\<close>, and what follows that character.\<close>

definition before :: "(nat \<Rightarrow> bool) \<Rightarrow> pystr \<Rightarrow> pystr" where
  "before p s = takeWhile (\<lambda>c. \<not> p c) s"

definition after :: "(nat \<Rightarrow> bool) \<Rightarrow> pystr \<Rightarrow> pystr" where
  "after p s = tl (dropWhile (\<lambda>c. \<not> p c) s)"

definition split_scheme :: "pystr \<Rightarrow> pystr \<times> pystr" where
  "split_scheme s =
     (let p = before (\<lambda>c. c = 58) s in
      if 58 \<in> set s \<and> p \<noteq> [] \<and> is_alpha_ascii (hd p) \<and> (\<forall>c \<in> set p. scheme_char c)
      then (map lower_ascii p, after (\<lambda>c. c = 58) s) else ([], s))"

definition urlsplit :: "(pystr \<Rightarrow> bool) \<Rightarrow> pystr \<Rightarrow> client_exn + SplitUrl" where
  "urlsplit netloc_ok s =
     (let s1 = filter (\<lambda>c. c \<notin> {9, 10, 13}) (dropWhile (\<lambda>c. c \<le> 32) s);
          (scheme, s2) = split_scheme s1;
          has = take 2 s2 = str ''//'';
          netloc = (if has then before (\<lambda>c. c \<in> {47, 63, 35}) (drop 2 s2) else []);
          s3 = (if has then drop (2 + length netloc) s2 else s2)
      in if (91 \<in> set netloc) \<noteq> (93 \<in> set netloc) \<or> \<not> netloc_ok netloc
         then Inl (Escapes (str ''ValueError''))
         else let s4 = before (\<lambda>c. c = 35) s3 in
           Inr \<lparr>su_scheme = scheme, su_netloc = netloc, su_path = before (\<lambda>c. c = 63) s4,
                su_query = after (\<lambda>c. c = 63) s4, su_fragment = after (\<lambda>c. c = 35) s3\<rparr>)"

text \<open>\<open>username\<close>, \<open>password\<close> and \<open>hostname\<close>; \<open>[]\<close> stands for \<open>None\<close> too, which the callers treat alike.\<close>

definition userinfo :: "pystr \<Rightarrow> pystr" where
  "userinfo netloc =
     (if 64 \<in> set netloc then rev (after (\<lambda>c. c = 64) (rev netloc)) else [])"

definition hostinfo :: "pystr \<Rightarrow> pystr" where
  "hostinfo netloc = rev (before (\<lambda>c. c = 64) (rev netloc))"

definition su_username :: "SplitUrl \<Rightarrow> pystr" where
  "su_username u = before (\<lambda>c. c = 58) (userinfo (su_netloc u))"

definition su_password :: "SplitUrl \<Rightarrow> pystr" where
  "su_password u = after (\<lambda>c. c = 58) (userinfo (su_netloc u))"

definition su_hostname :: "SplitUrl \<Rightarrow> pystr" where
  "su_hostname u = (let h = hostinfo (su_netloc u) in
     if 91 \<in> set h then before (\<lambda>c. c = 93) (after (\<lambda>c. c = 91) h) else before (\<lambda>c. c = 58) h)"

definition validate_base_url :: "(pystr \<Rightarrow> bool) \<Rightarrow> pystr \<Rightarrow> client_exn + unit" where
  "validate_base_url netloc_ok value =
     bind_res (urlsplit netloc_ok value) (\<lambda>u.
     if su_scheme u \<notin> {str ''http'', str ''https''} \<or> su_hostname u = []
        \<or> su_username u \<noteq> [] \<or> su_password u \<noteq> [] \<or> su_query u \<noteq> [] \<or> su_fragment u \<noteq> []
     then Inl (ClientError (str ''wiki base URL must be a credential-free HTTP(S) URL''))
     else Inr ())"

section \<open>Files\<close>

text \<open>A file has a mode and its bytes. Reading text turns \<open>\r\n\<close> and \<open>\r\<close> into \<open>\n\<close>.\<close>

type_synonym FileSystem = "pystr \<Rightarrow> (nat \<times> bytes) option"

fun universal_newlines :: "pystr \<Rightarrow> pystr" where
  "universal_newlines [] = []"
| "universal_newlines (c # cs) =
     (if c = 13 then 10 # universal_newlines (if take 1 cs = [10] then drop 1 cs else cs)
      else c # universal_newlines cs)"

text \<open>
  The surroundings of the client: the environment, the files, which of them cannot be read and
  why, \<open>Path(p).expanduser()\<close>, the default path, the texts of decoding errors, the conversion to
  float (\<open>Inl\<close> the name of the exception) with its test for \<open>\<le> 0\<close>, and the checks of \<open>urlsplit\<close>.
\<close>

record 'f Surroundings =
  sr_env :: "(pystr, pystr) pydict"
  sr_files :: FileSystem
  sr_unreadable :: "pystr \<Rightarrow> pystr option"
  sr_expand :: "pystr \<Rightarrow> pystr"
  sr_default_path :: pystr
  sr_json_error :: "bytes \<Rightarrow> pystr"
  sr_float :: "json \<Rightarrow> pystr + 'f"
  sr_not_positive :: "'f \<Rightarrow> bool"
  sr_netloc_ok :: "pystr \<Rightarrow> bool"
  sr_foreign :: Foreign

definition env_text :: "'f Surroundings \<Rightarrow> string \<Rightarrow> pystr" where
  "env_text S name = (case dict_get (sr_env S) (str name) of None \<Rightarrow> [] | Some v \<Rightarrow> v)"

definition DEFAULT_BASE_URL :: pystr where
  "DEFAULT_BASE_URL = str ''https://metahumotonic.com''"

record 'f WikiClientConfig =
  wc_base_url :: pystr
  wc_token :: pystr
  wc_timeout :: 'f

text \<open>\<open>Path(given or $MHB_WIKI_CONFIG or default).expanduser()\<close>\<close>

definition config_path_of :: "'f Surroundings \<Rightarrow> pystr option \<Rightarrow> pystr" where
  "config_path_of S given = sr_expand S
     (if given \<noteq> None \<and> given \<noteq> Some [] then the given
      else if strip (env_text S ''MHB_WIKI_CONFIG'') \<noteq> [] then strip (env_text S ''MHB_WIKI_CONFIG'')
      else sr_default_path S)"

definition stored_config :: "'f Surroundings \<Rightarrow> pystr \<Rightarrow> client_exn + (pystr, json) pydict" where
  "stored_config S path =
     (case sr_files S path of
        None \<Rightarrow> Inr []
      | Some (mode, bs) \<Rightarrow>
          (let failed = (\<lambda>why. Inl (ClientError (str ''cannot read wiki config '' @ path @ str '': '' @ why)))
           in case sr_unreadable S path of
                Some why \<Rightarrow> failed why
              | None \<Rightarrow>
                  (case Option.bind (utf8_decode bs) (loads \<circ> universal_newlines) of
                     None \<Rightarrow> failed (sr_json_error S bs)
                   | Some (JObj d) \<Rightarrow> Inr d
                   | Some _ \<Rightarrow> Inl (ClientError
                       (str ''wiki config '' @ path @ str '' must contain a JSON object'')))))"

definition rstrip_slash :: "pystr \<Rightarrow> pystr" where
  "rstrip_slash s = rev (dropWhile (\<lambda>c. c = 47) (rev s))"

definition resolve_timeout :: "'f Surroundings \<Rightarrow> 'f option \<Rightarrow> (pystr, json) pydict \<Rightarrow> client_exn + 'f" where
  "resolve_timeout S given stored =
     bind_res
       (case given of
          Some t \<Rightarrow> Inr t
        | None \<Rightarrow>
            (let raw = (if env_text S ''MHB_WIKI_TIMEOUT'' \<noteq> [] then JStr (env_text S ''MHB_WIKI_TIMEOUT'')
                        else if py_truthy (sr_foreign S) (get_default stored (str ''timeout'') JNull)
                        then get_default stored (str ''timeout'') JNull else JFloat (str ''20.0''))
             in case sr_float S raw of
                  Inr t \<Rightarrow> Inr t
                | Inl name \<Rightarrow> Inl (if name \<in> {str ''TypeError'', str ''ValueError''}
                    then ClientError (str ''wiki timeout must be a positive number'') else Escapes name)))
       (\<lambda>t. if sr_not_positive S t then Inl (ClientError (str ''wiki timeout must be a positive number''))
            else Inr t)"

definition resolve_url :: "'f Surroundings \<Rightarrow> pystr option \<Rightarrow> (pystr, json) pydict \<Rightarrow> pystr" where
  "resolve_url S given stored = rstrip_slash
     (if given \<noteq> None \<and> given \<noteq> Some [] then the given
      else if strip (env_text S ''MHB_WIKI_BASE_URL'') \<noteq> [] then strip (env_text S ''MHB_WIKI_BASE_URL'')
      else if py_truthy (sr_foreign S) (get_default stored (str ''base_url'') JNull)
      then py_str (sr_foreign S) (get_default stored (str ''base_url'') JNull) else DEFAULT_BASE_URL)"

definition resolve_token :: "'f Surroundings \<Rightarrow> pystr option \<Rightarrow> (pystr, json) pydict \<Rightarrow> pystr" where
  "resolve_token S given stored = strip
     (case given of
        Some t \<Rightarrow> t
      | None \<Rightarrow>
          (if strip (env_text S ''MHB_WIKI_TOKEN'') \<noteq> [] then strip (env_text S ''MHB_WIKI_TOKEN'')
           else if py_truthy (sr_foreign S) (get_default stored (str ''token'') JNull)
           then py_str (sr_foreign S) (get_default stored (str ''token'') JNull) else []))"

definition from_sources ::
  "'f Surroundings \<Rightarrow> pystr option \<Rightarrow> pystr option \<Rightarrow> 'f option \<Rightarrow> pystr option \<Rightarrow> client_exn + 'f WikiClientConfig"
where
  "from_sources S base_url token timeout config_path =
     bind_res (stored_config S (config_path_of S config_path)) (\<lambda>stored.
     bind_res (resolve_timeout S timeout stored) (\<lambda>t.
     bind_res (validate_base_url (sr_netloc_ok S) (resolve_url S base_url stored)) (\<lambda>_.
     Inr \<lparr>wc_base_url = resolve_url S base_url stored, wc_token = resolve_token S token stored,
          wc_timeout = t\<rparr>)))"

section \<open>Saving\<close>

text \<open>
  The steps of \<open>save\<close> inside its \<open>try\<close>: each has the effect it has when it succeeds, and the
  effect it may leave when it raises \<open>OSError\<close>: a flush that fails leaves some prefix of the
  text in the temporary file. \<open>fails\<close> says which steps fail and with what message. The result
  lists the file systems passed through, with the message of the failure.
\<close>

type_synonym fs_step = "(FileSystem \<Rightarrow> FileSystem) \<times> (FileSystem \<Rightarrow> FileSystem)"

fun run_steps ::
  "(nat \<Rightarrow> pystr option) \<Rightarrow> nat \<Rightarrow> fs_step list \<Rightarrow> FileSystem \<Rightarrow> FileSystem list \<times> pystr option" where
  "run_steps fails i [] fs = ([], None)"
| "run_steps fails i (st # steps) fs =
     (case fails i of
        Some why \<Rightarrow> ([snd st fs], Some why)
      | None \<Rightarrow> (let (seen, end) = run_steps fails (Suc i) steps (fst st fs) in (fst st fs # seen, end)))"

definition chmod :: "pystr \<Rightarrow> nat \<Rightarrow> FileSystem \<Rightarrow> FileSystem" where
  "chmod p mode fs = (case fs p of None \<Rightarrow> fs | Some (m, bs) \<Rightarrow> fs(p \<mapsto> (mode, bs)))"

definition put_bytes :: "pystr \<Rightarrow> bytes \<Rightarrow> FileSystem \<Rightarrow> FileSystem" where
  "put_bytes p bs fs = (case fs p of None \<Rightarrow> fs | Some (m, old) \<Rightarrow> fs(p \<mapsto> (m, bs)))"

definition os_replace :: "pystr \<Rightarrow> pystr \<Rightarrow> FileSystem \<Rightarrow> FileSystem" where
  "os_replace src dst fs = (fs(dst := fs src))(src := None)"

definition config_text :: "'f WikiClientConfig \<Rightarrow> pystr" where
  "config_text cfg = dumps_in indented False 0
     (JObj [(str ''base_url'', JStr (wc_base_url cfg)), (str ''token'', JStr (wc_token cfg))]) @ [10]"

text \<open>Opening the file, \<open>chmod\<close>, \<open>write\<close>, \<open>flush\<close>, \<open>fsync\<close> and the end of the \<open>with\<close> block.\<close>

definition write_steps :: "pystr \<Rightarrow> bytes \<Rightarrow> nat \<Rightarrow> fs_step list" where
  "write_steps temp payload written =
     [(\<lambda>fs. fs(temp \<mapsto> (384, [])), id),
      (chmod temp 384, id),
      (put_bytes temp (take written payload), put_bytes temp (take written payload)),
      (put_bytes temp payload, put_bytes temp (take written payload)),
      (id, id),
      (id, id)]"

definition replace_steps :: "pystr \<Rightarrow> pystr \<Rightarrow> fs_step list" where
  "replace_steps temp target = [(os_replace temp target, id), (chmod target 384, id)]"

text \<open>
  What ends \<open>save\<close>. A failing \<open>mkdir\<close> is outside the \<open>try\<close>. The file is removed after an
  \<open>OSError\<close> once it has a name, unless that fails as well; an encoding error is no \<open>OSError\<close>
  and leaves it. 384 is the mode \<open>0o600\<close>.
\<close>

definition finish_save ::
  "pystr \<Rightarrow> pystr \<Rightarrow> bool \<Rightarrow> client_exn + pystr \<Rightarrow> FileSystem \<Rightarrow> FileSystem list \<times> pystr option
     \<Rightarrow> FileSystem list \<times> (client_exn + pystr)" where
  "finish_save target temp unlinks done fs outcome =
     (case outcome of
        (seen, None) \<Rightarrow> (seen, done)
      | (seen, Some why) \<Rightarrow>
          (seen @ (if unlinks then [(last (fs # seen))(temp := None)] else []),
           Inl (ClientError (str ''cannot save wiki config '' @ target @ str '': '' @ why))))"

definition save ::
  "'f WikiClientConfig \<Rightarrow> pystr \<Rightarrow> pystr \<Rightarrow> pystr option \<Rightarrow> (nat \<Rightarrow> pystr option) \<Rightarrow> nat \<Rightarrow> bool \<Rightarrow> FileSystem
     \<Rightarrow> FileSystem list \<times> (client_exn + pystr)" where
  "save cfg target temp mkdir fails written unlinks fs =
     (let finish = finish_save target temp (unlinks \<and> fails 0 = None) in
      case mkdir of
        Some name \<Rightarrow> ([], Inl (Escapes name))
      | None \<Rightarrow>
          (case utf8_encode (config_text cfg) of
             None \<Rightarrow> finish (Inl (Escapes (str ''UnicodeEncodeError''))) fs
               (run_steps fails 0 (take 2 (write_steps temp [] 0)) fs)
           | Some payload \<Rightarrow> finish (Inr target) fs
               (run_steps fails 0 (write_steps temp payload written @ replace_steps temp target) fs)))"

end
