(* ===== verification/WikiClient.thy ===== *)
theory WikiClient
  imports ClientConfig
begin

text \<open>
  The wiki's HTTP client, \<open>WikiClient\<close> of \<open>src/app/wiki_client.py\<close>: the call each operation
  makes and what it makes of the answer. The transport (\<open>httpx\<close> and the service behind it) is an
  argument that takes a call and the state of the outside world; so is what \<open>json\<close> and \<open>str\<close> do
  with floats and containers. Putting headers on the wire is part of the transport: \<open>httpx\<close> encodes
  their values as ASCII and raises \<open>UnicodeEncodeError\<close> where it cannot.
\<close>

section \<open>Calls\<close>

text \<open>
  \<open>params\<close>, the JSON body and the extra headers of one request. A null parameter stands for an
  argument that is \<open>None\<close>.
\<close>

record ClientCall =
  ca_method :: pystr
  ca_target :: pystr
  ca_params :: "(pystr, json) pydict"
  ca_body :: "(pystr, json) pydict option"
  ca_headers :: "(pystr, pystr) pydict"

record Reply =
  rp_status :: int
  rp_content :: bytes
  rp_reason :: pystr

text \<open>An answer, an \<open>httpx.HTTPError\<close> by the name of its class, or another exception.\<close>

datatype sent = Answered Reply | HttpxError pystr | OtherError pystr

type_synonym 'w transport = "ClientCall \<Rightarrow> 'w \<Rightarrow> sent \<times> 'w"

type_synonym payload = "(pystr, json) pydict"

definition without_none :: "(pystr, json) pydict \<Rightarrow> (pystr, json) pydict" where
  "without_none values = filter (\<lambda>kv. snd kv \<noteq> JNull) values"

text \<open>\<open>quote(s, safe="")\<close>\<close>

definition unreserved :: "nat \<Rightarrow> bool" where
  "unreserved c \<longleftrightarrow> is_alpha_ascii c \<or> is_digit c \<or> c = 45 \<or> c = 46 \<or> c = 95 \<or> c = 126"

definition hex_upper :: "nat \<Rightarrow> nat" where
  "hex_upper n = (if n < 10 then 48 + n else 55 + n)"

definition quote_byte :: "byte \<Rightarrow> pystr" where
  "quote_byte b = (if unreserved (unat b) then [unat b]
     else [37, hex_upper (unat b div 16), hex_upper (unat b mod 16)])"

definition quote :: "pystr \<Rightarrow> client_exn + pystr" where
  "quote s = (case utf8_encode s of
     None \<Rightarrow> Inl (Escapes (str ''UnicodeEncodeError''))
   | Some bs \<Rightarrow> Inr (concat (map quote_byte bs)))"

definition client_slug :: "pystr \<Rightarrow> client_exn + pystr" where
  "client_slug v = (if strip v = [] then Inl (ClientError (str ''wiki slug must not be empty''))
     else quote (strip v))"

text \<open>\<open>fresh\<close> is \<open>str(uuid4())\<close>.\<close>

definition idempotency_key :: "pystr \<Rightarrow> pystr option \<Rightarrow> client_exn + pystr" where
  "idempotency_key fresh v =
     (let key = (case v of None \<Rightarrow> fresh | Some s \<Rightarrow> if s = [] then fresh else strip s) in
      if key = [] \<or> 128 < length key \<or> (\<exists>c \<in> set key. py_space c)
      then Inl (ClientError (str ''idempotency key must be 1-128 non-whitespace characters''))
      else Inr key)"

section \<open>The client\<close>

definition API_PREFIX :: pystr where
  "API_PREFIX = str ''/api/wiki/v1''"

record WikiClient =
  cl_root :: pystr
  cl_headers :: "(pystr, pystr) pydict"

definition new_wiki_client :: "'f WikiClientConfig \<Rightarrow> WikiClient" where
  "new_wiki_client cfg =
     (let root = (if endswith (wc_base_url cfg) API_PREFIX then wc_base_url cfg
                  else wc_base_url cfg @ API_PREFIX)
      in \<lparr>cl_root = rstrip_slash root @ str ''/'',
          cl_headers = [(str ''Accept'', str ''application/json''), (str ''User-Agent'', str ''mhb-wiki/1'')]
            @ (if wc_token cfg = [] then [] else [(str ''Authorization'', str ''Bearer '' @ wc_token cfg)])\<rparr>)"

definition call_target :: "WikiClient \<Rightarrow> pystr \<Rightarrow> pystr" where
  "call_target cl path = (if path = [] then rstrip_slash (cl_root cl) else dropWhile (\<lambda>c. c = 47) path)"

section \<open>Answers\<close>

text \<open>\<open>repr\<close> of a float that \<open>json\<close> read, which \<open>json.dumps\<close> writes back.\<close>

fun shown_floats :: "(pystr \<Rightarrow> pystr) \<Rightarrow> json \<Rightarrow> json" where
  "shown_floats r (JFloat t) = JFloat (r t)"
| "shown_floats r (JList xs) = JList (map (shown_floats r) xs)"
| "shown_floats r (JObj kvs) = JObj (map (\<lambda>(k, v). (k, shown_floats r v)) kvs)"
| "shown_floats r j = j"

definition json_text :: "(pystr \<Rightarrow> pystr) \<Rightarrow> json \<Rightarrow> pystr" where
  "json_text r j = dumps_in spaced False 0 (shown_floats r j)"

definition is_success :: "Reply \<Rightarrow> bool" where
  "is_success rp \<longleftrightarrow> 200 \<le> rp_status rp \<and> rp_status rp \<le> 299"

definition is_value_error :: "wiki_exn \<Rightarrow> bool" where
  "is_value_error x = (case x of PyValueError _ \<Rightarrow> True | PyUnicodeDecodeError \<Rightarrow> True
     | PyUnicodeEncodeError \<Rightarrow> True | _ \<Rightarrow> False)"

definition or_value :: "Foreign \<Rightarrow> json \<Rightarrow> json \<Rightarrow> json" where
  "or_value F a b = (if py_truthy F a then a else b)"

text \<open>The payload of an answer; a text that does not parse fails a success and is empty otherwise.\<close>

definition read_reply :: "Foreign \<Rightarrow> Reply \<Rightarrow> client_exn + json" where
  "read_reply F rp =
     (if rp_content rp = [] then Inr (JObj [])
      else case loads_bytes F (rp_content rp) of
        Inr j \<Rightarrow> Inr j
      | Inl x \<Rightarrow>
          (if \<not> is_value_error x then Inl (Escapes (str ''Exception''))
           else if is_success rp then Inl (ClientError (str ''wiki API returned a non-JSON success response''))
           else Inr (JObj [])))"

definition as_object :: "json \<Rightarrow> payload" where
  "as_object j = (case j of JObj d \<Rightarrow> d | _ \<Rightarrow> [])"

definition api_error :: "Foreign \<Rightarrow> (pystr \<Rightarrow> pystr) \<Rightarrow> Reply \<Rightarrow> json \<Rightarrow> client_exn" where
  "api_error F r rp payload =
     (let body = as_object payload;
          detail = get_default body (str ''detail'') JNull;
          detail_body = as_object detail;
          message = or_value F (get_default body (str ''message'') JNull)
                      (or_value F (get_default detail_body (str ''message'') JNull)
                        (or_value F detail (JStr (rp_reason rp))));
          code = or_value F (get_default body (str ''code'') JNull)
                   (get_default detail_body (str ''code'') JNull)
      in ApiError (rp_status rp)
           (case message of JObj _ \<Rightarrow> json_text r message | JList _ \<Rightarrow> json_text r message
            | _ \<Rightarrow> py_str F message)
           (if py_truthy F code then Some (py_str F code) else None))"

definition answer_of :: "Foreign \<Rightarrow> (pystr \<Rightarrow> pystr) \<Rightarrow> Reply \<Rightarrow> client_exn + payload" where
  "answer_of F r rp =
     bind_res (read_reply F rp) (\<lambda>payload.
     if \<not> is_success rp then Inl (api_error F r rp payload)
     else case payload of
       JObj d \<Rightarrow> Inr d
     | _ \<Rightarrow> Inl (ClientError (str ''wiki API response must be a JSON object'')))"

text \<open>The call that \<open>request\<close> hands to the transport.\<close>

definition sent_call :: "WikiClient \<Rightarrow> ClientCall \<Rightarrow> ClientCall" where
  "sent_call cl c = c\<lparr>ca_target := call_target cl (ca_target c), ca_params := without_none (ca_params c),
     ca_body := map_option without_none (ca_body c), ca_headers := cl_headers cl @ ca_headers c\<rparr>"

definition request ::
  "Foreign \<Rightarrow> (pystr \<Rightarrow> pystr) \<Rightarrow> WikiClient \<Rightarrow> 'w transport \<Rightarrow> ClientCall \<Rightarrow> 'w \<Rightarrow> (client_exn + payload) \<times> 'w" where
  "request F r cl net c w =
     (case net (sent_call cl c) w of
        (Answered rp, w') \<Rightarrow> (answer_of F r rp, w')
      | (HttpxError name, w') \<Rightarrow> (Inl (ClientError (str ''wiki API request failed: '' @ name)), w')
      | (OtherError name, w') \<Rightarrow> (Inl (Escapes name), w'))"

section \<open>Operations\<close>

text \<open>The call of each operation, or the error its arguments raise before any request.\<close>

definition null_or_int :: "int option \<Rightarrow> json" where
  "null_or_int n = (case n of None \<Rightarrow> JNull | Some i \<Rightarrow> JInt i)"

definition null_or_str :: "pystr option \<Rightarrow> json" where
  "null_or_str s = (case s of None \<Rightarrow> JNull | Some t \<Rightarrow> JStr t)"

definition get_call :: "pystr \<Rightarrow> (pystr, json) pydict \<Rightarrow> ClientCall" where
  "get_call path params = \<lparr>ca_method = str ''GET'', ca_target = path, ca_params = params, ca_body = None,
     ca_headers = []\<rparr>"

definition post_call :: "pystr \<Rightarrow> (pystr, json) pydict \<Rightarrow> (pystr, pystr) pydict \<Rightarrow> ClientCall" where
  "post_call path body headers = \<lparr>ca_method = str ''POST'', ca_target = path, ca_params = [],
     ca_body = Some body, ca_headers = headers\<rparr>"

definition paging :: "int option \<Rightarrow> int option \<Rightarrow> (pystr, json) pydict" where
  "paging limit offset = [(str ''limit'', null_or_int limit), (str ''offset'', null_or_int offset)]"

definition index_call :: "client_exn + ClientCall" where
  "index_call = Inr (get_call [] [])"

definition search_call :: "pystr \<Rightarrow> int option \<Rightarrow> int option \<Rightarrow> client_exn + ClientCall" where
  "search_call query limit offset =
     Inr (get_call (str ''pages'') ((str ''q'', JStr query) # paging limit offset))"

definition get_page_call :: "pystr \<Rightarrow> client_exn + ClientCall" where
  "get_page_call sl = bind_res (client_slug sl) (\<lambda>s. Inr (get_call (str ''pages/'' @ s) []))"

definition create_session_call :: "pystr \<Rightarrow> pystr \<Rightarrow> pystr option \<Rightarrow> client_exn + ClientCall" where
  "create_session_call name kind agent_url = Inr (post_call (str ''sessions'')
     [(str ''display_name'', JStr name), (str ''actor_kind'', JStr kind), (str ''agent_url'', null_or_str agent_url)] [])"

definition keyed :: "pystr \<Rightarrow> pystr option \<Rightarrow> client_exn + (pystr, pystr) pydict" where
  "keyed fresh key = bind_res (idempotency_key fresh key) (\<lambda>k. Inr [(str ''Idempotency-Key'', k)])"

definition create_page_call ::
  "pystr \<Rightarrow> pystr \<Rightarrow> pystr \<Rightarrow> pystr \<Rightarrow> pystr \<Rightarrow> pystr option \<Rightarrow> client_exn + ClientCall" where
  "create_page_call fresh sl ti te su key =
     bind_res (keyed fresh key) (\<lambda>hs. Inr (post_call (str ''pages'')
       [(str ''slug'', JStr sl), (str ''title'', JStr ti), (str ''content'', JStr te),
        (str ''edit_summary'', JStr su)] hs))"

definition create_revision_call ::
  "pystr \<Rightarrow> pystr \<Rightarrow> pystr option \<Rightarrow> pystr \<Rightarrow> pystr \<Rightarrow> pystr \<Rightarrow> pystr option \<Rightarrow> client_exn + ClientCall" where
  "create_revision_call fresh sl ti te su head key =
     (if strip head = []
      then Inl (ClientError (str ''expected_head_revision_id is required for a safe edit''))
      else
     bind_res (client_slug sl) (\<lambda>s. bind_res (keyed fresh key) (\<lambda>hs.
     Inr (post_call (str ''pages/'' @ s @ str ''/revisions'')
       [(str ''title'', null_or_str ti), (str ''content'', JStr te), (str ''edit_summary'', JStr su),
        (str ''expected_head_revision_id'', JStr head)] hs))))"

definition history_call :: "pystr \<Rightarrow> int option \<Rightarrow> int option \<Rightarrow> client_exn + ClientCall" where
  "history_call sl limit offset = bind_res (client_slug sl) (\<lambda>s.
     Inr (get_call (str ''pages/'' @ s @ str ''/history'') (paging limit offset)))"

definition diff_call :: "pystr \<Rightarrow> pystr \<Rightarrow> pystr \<Rightarrow> client_exn + ClientCall" where
  "diff_call sl from_revision to_revision = bind_res (client_slug sl) (\<lambda>s.
     Inr (get_call (str ''pages/'' @ s @ str ''/diff'')
       [(str ''from_revision_id'', JStr from_revision), (str ''to_revision_id'', JStr to_revision)]))"

definition recent_call :: "int option \<Rightarrow> int option \<Rightarrow> client_exn + ClientCall" where
  "recent_call limit offset = Inr (get_call (str ''recent-changes'') (paging limit offset))"

definition submit_call ::
  "pystr \<Rightarrow> pystr \<Rightarrow> pystr option \<Rightarrow> pystr option \<Rightarrow> pystr \<Rightarrow> pystr option \<Rightarrow> client_exn + ClientCall" where
  "submit_call fresh sl revision hash remark key =
     bind_res (client_slug sl) (\<lambda>s. bind_res (keyed fresh key) (\<lambda>hs.
     Inr (post_call (str ''pages/'' @ s @ str ''/submit-review'')
       [(str ''revision_id'', null_or_str revision), (str ''content_hash'', null_or_str hash),
        (str ''note'', JStr remark)] hs)))"

definition report_call :: "pystr \<Rightarrow> pystr \<Rightarrow> pystr \<Rightarrow> pystr option \<Rightarrow> client_exn + ClientCall" where
  "report_call fresh sl why key =
     bind_res (client_slug sl) (\<lambda>s. bind_res (keyed fresh key) (\<lambda>hs.
     Inr (post_call (str ''pages/'' @ s @ str ''/report'') [(str ''reason'', JStr why)] hs)))"

text \<open>An operation: its arguments are checked first, then one request is made.\<close>

definition perform ::
  "Foreign \<Rightarrow> (pystr \<Rightarrow> pystr) \<Rightarrow> WikiClient \<Rightarrow> 'w transport \<Rightarrow> client_exn + ClientCall \<Rightarrow> 'w
     \<Rightarrow> (client_exn + payload) \<times> 'w" where
  "perform F r cl net built w = (case built of Inl e \<Rightarrow> (Inl e, w) | Inr c \<Rightarrow> request F r cl net c w)"

end
