(* ===== verification/ClientConfigProps.thy ===== *)
theory ClientConfigProps
  imports ClientConfig
begin

text \<open>
  What saving the client's configuration leaves in the file system at every moment, and that the
  saved file is read back as the configuration it was written from.
\<close>

section \<open>The text of the file\<close>

lemma encodable_char: "encodable (json_char False c) \<Longrightarrow> c < 1114112 \<and> \<not> (55296 \<le> c \<and> c \<le> 57343)"
  by (cases "c \<in> {34, 92, 10, 13, 9, 12, 8} \<or> c < 32") (auto simp: json_char_def encodable_def)

lemma encodable_json_string: "encodable (json_string False s) \<Longrightarrow> encodable s"
proof -
  assume "encodable (json_string False s)"
  then have "\<forall>c \<in> set s. encodable (json_char False c)" by (auto simp: json_string_def encodable_def)
  then show ?thesis using encodable_char unfolding encodable_def [of s] by blast
qed

lemma newlines_id: "13 \<notin> set s \<Longrightarrow> universal_newlines s = s"
  by (induction s rule: universal_newlines.induct) auto

lemma config_text_eq: "config_text cfg =
    123 # 10 # 32 # 32 # json_string False (str ''base_url'') @ str '': '' @ json_string False (wc_base_url cfg)
      @ 44 # 10 # 32 # 32 # json_string False (str ''token'') @ str '': '' @ json_string False (wc_token cfg)
      @ [10, 125, 10]"
  by (simp add: config_text_def indented_def numeral_2_eq_2)

lemma hex_digit_ge: "48 \<le> hex_digit n"
  by (simp add: hex_digit_def)

lemma no_cr_char: "x \<in> set (json_char False c) \<Longrightarrow> x \<noteq> 13"
proof -
  assume x: "x \<in> set (json_char False c)"
  have "json_char False c \<in> {[92, 34], [92, 92], [92, 110], [92, 114], [92, 116], [92, 102], [92, 98]}
      \<or> json_char False c = u_escape c \<or> (json_char False c = [c] \<and> c \<noteq> 13)"
    unfolding json_char_def by simp
  moreover have "\<forall>y \<in> set (u_escape c). y \<noteq> 13"
  proof
    fix y assume "y \<in> set (u_escape c)"
    then have "y \<in> {92, 117} \<union> range hex_digit" unfolding u_escape_def hex4_def by auto
    moreover have "13 \<noteq> hex_digit n" for n using hex_digit_ge [of n] by simp
    ultimately show "y \<noteq> 13" by auto
  qed
  ultimately show ?thesis using x by auto
qed

lemma no_cr_string: "13 \<notin> set (json_string False s)"
  using no_cr_char by (auto simp: json_string_def)

lemma config_text_no_cr: "13 \<notin> set (config_text cfg)"
  using no_cr_string by (auto simp: config_text_eq py_simps)

lemma config_text_loads:
  assumes "utf8_encode (config_text cfg) \<noteq> None"
  shows "loads (config_text cfg)
    = Some (JObj [(str ''base_url'', JStr (wc_base_url cfg)), (str ''token'', JStr (wc_token cfg))])"
proof -
  have "encodable (config_text cfg)" using assms utf8_encode_total_iff by blast
  then have "encodable (json_string False (wc_base_url cfg))" "encodable (json_string False (wc_token cfg))"
    by (auto simp: config_text_eq encodable_def)
  then have "json_ok (JObj [(str ''base_url'', JStr (wc_base_url cfg)), (str ''token'', JStr (wc_token cfg))])"
    by (simp add: encodable_json_string)
  then show ?thesis unfolding config_text_def
    by (rule il.loads_dumps_in) (simp add: all_ws_def json_ws_def)
qed

section \<open>The steps\<close>

lemma run_steps_invariant:
  assumes "I k fs" and "\<And>j g. j < length steps \<Longrightarrow> I (k + j) g \<Longrightarrow>
      I (k + Suc j) (fst (steps ! j) g) \<and> P (fst (steps ! j) g) \<and> P (snd (steps ! j) g)"
    and "g \<in> set (fst (run_steps fails i steps fs))"
  shows "P g"
  using assms
proof (induction steps arbitrary: i k fs)
  case (Cons st steps)
  have now: "I (Suc k) (fst st fs)" "P (fst st fs)" "P (snd st fs)"
    using Cons.prems(1) Cons.prems(2) [of 0 fs] by auto
  have later: "I (Suc k + Suc j) (fst (steps ! j) h) \<and> P (fst (steps ! j) h) \<and> P (snd (steps ! j) h)"
    if "j < length steps" "I (Suc k + j) h" for j h
    using Cons.prems(2) [of "Suc j" h] that by simp
  show ?case
  proof (cases "fails i")
    case None
    then have "g = fst st fs \<or> g \<in> set (fst (run_steps fails (Suc i) steps (fst st fs)))"
      using Cons.prems(3) by (auto split: prod.splits)
    then show ?thesis using now(2) Cons.IH [of "Suc k", OF now(1) later] by blast
  next
    case (Some why)
    then show ?thesis using Cons.prems(3) now(3) by simp
  qed
qed simp

lemma run_steps_end:
  assumes "I k fs" and "\<And>j g. j < length steps \<Longrightarrow> I (k + j) g \<Longrightarrow> I (k + Suc j) (fst (steps ! j) g)"
    and "snd (run_steps fails i steps fs) = None"
  shows "I (k + length steps) (last (fs # fst (run_steps fails i steps fs)))"
  using assms
proof (induction steps arbitrary: i k fs)
  case (Cons st steps)
  have now: "I (Suc k) (fst st fs)" using Cons.prems(1) Cons.prems(2) [of 0 fs] by auto
  have later: "I (Suc k + Suc j) (fst (steps ! j) h)" if "j < length steps" "I (Suc k + j) h" for j h
    using Cons.prems(2) [of "Suc j" h] that by simp
  from Cons.prems(3) have "fails i = None" "snd (run_steps fails (Suc i) steps (fst st fs)) = None"
    by (auto split: option.splits prod.splits)
  with Cons.IH [of "Suc k", OF now later this(2)] show ?case by (auto split: prod.splits)
qed simp

text \<open>How far the saving is: not begun, writing, the text complete, put in place.\<close>

definition stage :: "FileSystem \<Rightarrow> pystr \<Rightarrow> pystr \<Rightarrow> bytes \<Rightarrow> nat \<Rightarrow> FileSystem \<Rightarrow> bool" where
  "stage fs temp target payload k g \<longleftrightarrow>
     (\<forall>p. p \<noteq> temp \<longrightarrow> p \<noteq> target \<longrightarrow> g p = fs p)
     \<and> (if k = 0 then g temp = None \<and> g target = fs target
        else if k \<le> 6 then (\<exists>bs. g temp = Some (384, bs) \<and> (4 \<le> k \<longrightarrow> bs = payload)) \<and> g target = fs target
        else g temp = None \<and> g target = Some (384, payload))"

definition discreet :: "FileSystem \<Rightarrow> pystr \<Rightarrow> pystr \<Rightarrow> bytes \<Rightarrow> FileSystem \<Rightarrow> bool" where
  "discreet fs temp target payload g \<longleftrightarrow>
     (\<forall>p. p \<noteq> temp \<longrightarrow> p \<noteq> target \<longrightarrow> g p = fs p)
     \<and> (g temp = None \<or> (\<exists>bs. g temp = Some (384, bs)))
     \<and> (g target = fs target \<or> g target = Some (384, payload))"

lemma stage_discreet: "stage fs temp target payload k g \<Longrightarrow> discreet fs temp target payload g"
  by (auto simp: stage_def discreet_def split: if_splits)

lemma less_8_cases: "(j::nat) < 8 \<Longrightarrow> j = 0 \<or> j = 1 \<or> j = 2 \<or> j = 3 \<or> j = 4 \<or> j = 5 \<or> j = 6 \<or> j = 7"
  by arith

lemma save_step:
  assumes "temp \<noteq> target" and "j < 8" and "stage fs temp target payload j g"
    and "st = (write_steps temp payload n @ replace_steps temp target) ! j"
  shows "stage fs temp target payload (Suc j) (fst st g) \<and> discreet fs temp target payload (snd st g)"
proof -
  note ds = write_steps_def replace_steps_def stage_def discreet_def chmod_def put_bytes_def os_replace_def
  from less_8_cases [OF assms(2)] show ?thesis
  proof (elim disjE)
    assume "j = 0" then show ?thesis using assms by (auto simp: ds)
  next
    assume "j = 1" then show ?thesis using assms by (auto simp: ds)
  next
    assume "j = 2" then show ?thesis using assms by (auto simp: ds)
  next
    assume "j = 3" then show ?thesis using assms by (auto simp: ds)
  next
    assume "j = 4" then show ?thesis using assms by (auto simp: ds)
  next
    assume "j = 5" then show ?thesis using assms by (auto simp: ds)
  next
    assume "j = 6" then show ?thesis using assms by (auto simp: ds)
  next
    assume "j = 7" then show ?thesis using assms by (auto simp: ds)
  qed
qed

lemma save_run:
  assumes "fs temp = None" and "temp \<noteq> target"
    and "run_steps fails 0 (write_steps temp payload n @ replace_steps temp target) fs = (seen, failure)"
  shows "g \<in> set seen \<Longrightarrow> discreet fs temp target payload g"
    and "failure = None \<Longrightarrow> last (fs # seen) temp = None \<and> last (fs # seen) target = Some (384, payload)"
    and "failure \<noteq> None \<Longrightarrow> seen \<noteq> []"
proof -
  let ?I = "stage fs temp target payload" and ?steps = "write_steps temp payload n @ replace_steps temp target"
  have l: "length ?steps = 8" by (simp add: write_steps_def replace_steps_def)
  have start: "?I 0 fs" using assms(1) by (simp add: stage_def)
  have step: "?I (0 + Suc j) (fst (?steps ! j) h) \<and> discreet fs temp target payload (fst (?steps ! j) h)
      \<and> discreet fs temp target payload (snd (?steps ! j) h)" if "j < length ?steps" "?I (0 + j) h" for j h
    using save_step [OF assms(2), of j fs payload h _ n] that l stage_discreet by fastforce
  show "discreet fs temp target payload g" if "g \<in> set seen"
    using run_steps_invariant [of ?I 0 fs ?steps "discreet fs temp target payload", OF start step] that assms(3)
    by (metis fst_conv)
  show "last (fs # seen) temp = None \<and> last (fs # seen) target = Some (384, payload)" if "failure = None"
  proof -
    have "?I (0 + length ?steps) (last (fs # seen))"
      using run_steps_end [of ?I 0 fs ?steps fails 0, OF start] step that assms(3) by (metis fst_conv snd_conv)
    then have "?I 8 (last (fs # seen))" unfolding l by simp
    then show ?thesis by (simp add: stage_def)
  qed
  show "seen \<noteq> []" if "failure \<noteq> None"
    using assms(3) that by (auto simp: write_steps_def split: option.splits prod.splits)
qed

lemma save_unencodable:
  assumes "fs temp = None" and "temp \<noteq> target"
    and "run_steps fails 0 (take 2 (write_steps temp [] 0)) fs = (seen, failure)"
  shows "g \<in> set seen \<Longrightarrow> discreet fs temp target [] g \<and> g target = fs target"
    and "failure \<noteq> None \<Longrightarrow> seen \<noteq> []"
  using assms by (auto simp: write_steps_def discreet_def chmod_def split: option.splits)

text \<open>A failure of the first step leaves nothing; after any other the file is removed.\<close>

lemma finish_save_seen:
  assumes "finish_save target temp u done fs (seen, failure) = (all, r)"
    and "\<And>g. g \<in> set seen \<Longrightarrow> P g" and "\<And>g. g \<in> set seen \<Longrightarrow> P (g(temp := None))"
    and "failure \<noteq> None \<Longrightarrow> seen \<noteq> []" and "g \<in> set all"
  shows "P g"
proof (cases "failure = None \<or> \<not> u")
  case True
  then have "all = seen" using assms(1) by (auto simp: finish_save_def split: option.splits)
  with assms(2,5) show ?thesis by simp
next
  case False
  then have "all = seen @ [(last seen)(temp := None)]" "last seen \<in> set seen"
    using assms(1,4) by (auto simp: finish_save_def split: option.splits)
  with assms(2,3,5) show ?thesis by auto
qed

lemma discreet_removed: "temp \<noteq> target \<Longrightarrow> discreet fs temp target payload g \<Longrightarrow>
    discreet fs temp target payload (g(temp := None))"
  by (simp add: discreet_def)

lemma save_seen:
  assumes "fs temp = None" and "temp \<noteq> target"
    and "save cfg target temp mkdir fails written unlinks fs = (seen, r)" and "g \<in> set seen"
  shows "(\<forall>p. p \<noteq> temp \<longrightarrow> p \<noteq> target \<longrightarrow> g p = fs p)
    \<and> (g temp = None \<or> (\<exists>bs. g temp = Some (384, bs)))
    \<and> (g target = fs target \<or> (\<exists>bs. utf8_encode (config_text cfg) = Some bs \<and> g target = Some (384, bs)))"
proof -
  have mk: "mkdir = None" using assms(3,4) by (auto simp: save_def Let_def split: option.splits)
  let ?u = "unlinks \<and> fails 0 = None"
  show ?thesis
  proof (cases "utf8_encode (config_text cfg)")
    case None
    obtain ss f where run: "run_steps fails 0 (take 2 (write_steps temp [] 0)) fs = (ss, f)" by fastforce
    with None mk assms(3) have fin: "finish_save target temp ?u (Inl (Escapes (str ''UnicodeEncodeError''))) fs (ss, f)
        = (seen, r)" by (simp add: save_def)
    let ?P = "\<lambda>g. discreet fs temp target [] g \<and> g target = fs target"
    have "?P (h(temp := None))" if "?P h" for h
      using that assms(2) discreet_removed [OF assms(2)] by simp
    with finish_save_seen [of _ _ _ _ _ _ _ _ _ ?P, OF fin _ _ _ assms(4)] save_unencodable [OF assms(1,2) run]
    have "?P g" by blast
    then show ?thesis by (auto simp: discreet_def)
  next
    case (Some payload)
    obtain ss f where run: "run_steps fails 0 (write_steps temp payload written @ replace_steps temp target) fs = (ss, f)"
      by fastforce
    with Some mk assms(3) have fin: "finish_save target temp ?u (Inr target) fs (ss, f) = (seen, r)"
      by (simp add: save_def)
    have "discreet fs temp target payload g"
      using finish_save_seen [of _ _ _ _ _ _ _ _ _ "discreet fs temp target payload", OF fin _ _ _ assms(4)]
        save_run [OF assms(1,2) run] discreet_removed [OF assms(2)] by blast
    with Some show ?thesis by (auto simp: discreet_def)
  qed
qed

lemma save_done:
  assumes "fs temp = None" and "temp \<noteq> target"
    and "save cfg target temp mkdir fails written unlinks fs = (seen, Inr t)"
  shows "\<exists>bs. utf8_encode (config_text cfg) = Some bs \<and> last (fs # seen) target = Some (384, bs)
    \<and> last (fs # seen) temp = None \<and> t = target"
proof -
  have mk: "mkdir = None" using assms(3) by (auto simp: save_def Let_def split: option.splits)
  have "utf8_encode (config_text cfg) \<noteq> None"
  proof
    assume n: "utf8_encode (config_text cfg) = None"
    obtain ss f where run: "run_steps fails 0 (take 2 (write_steps temp [] 0)) fs = (ss, f)" by fastforce
    with assms(3) mk n show False by (cases f) (simp_all add: save_def finish_save_def)
  qed
  then obtain payload where p: "utf8_encode (config_text cfg) = Some payload" by blast
  obtain ss f where run: "run_steps fails 0 (write_steps temp payload written @ replace_steps temp target) fs = (ss, f)"
    by fastforce
  with p mk assms(3) have "f = None" "ss = seen" "t = target"
    by (cases f; simp add: save_def finish_save_def)+
  with p save_run(2) [OF assms(1,2) run] show ?thesis by simp
qed

text \<open>C34: Saving never exposes the token: in every file system that \<open>save\<close> passes through, whatever
  step fails, only the temporary file and the config file differ from before, both are readable
  by their owner only, and the config file is either untouched or the complete new text.\<close>

theorem config_saved_discreetly:
  assumes "fs temp = None" and "temp \<noteq> target"
    and "save cfg target temp mkdir fails written unlinks fs = (seen, r)" and "g \<in> set seen"
  shows "(\<forall>p. p \<noteq> temp \<longrightarrow> p \<noteq> target \<longrightarrow> g p = fs p)
    \<and> (g temp = None \<or> (\<exists>bs. g temp = Some (384, bs)))
    \<and> (g target = fs target \<or> (\<exists>bs. utf8_encode (config_text cfg) = Some bs \<and> g target = Some (384, bs)))"
  using assms by (rule save_seen)

section \<open>Reading it back\<close>

lemma rstrip_slash_idem: "rstrip_slash (rstrip_slash s) = rstrip_slash s"
  by (simp add: rstrip_slash_def)

lemma validate_nonempty: "validate_base_url ok [] \<noteq> Inr x"
  by (simp add: validate_base_url_def urlsplit_def split_scheme_def Let_def)

lemma from_sources_resolved:
  assumes "from_sources S url tok t path = Inr cfg"
  shows "rstrip_slash (wc_base_url cfg) = wc_base_url cfg" and "strip (wc_token cfg) = wc_token cfg"
    and "validate_base_url (sr_netloc_ok S) (wc_base_url cfg) = Inr ()" and "wc_base_url cfg \<noteq> []"
proof -
  from assms obtain d where c: "wc_base_url cfg = resolve_url S url d" "wc_token cfg = resolve_token S tok d"
    and v: "validate_base_url (sr_netloc_ok S) (resolve_url S url d) = Inr ()"
    by (auto simp: from_sources_def bind_res_Inr)
  show "validate_base_url (sr_netloc_ok S) (wc_base_url cfg) = Inr ()" using c v by simp
  then show "wc_base_url cfg \<noteq> []" using validate_nonempty by metis
  show "rstrip_slash (wc_base_url cfg) = wc_base_url cfg"
    unfolding c(1) resolve_url_def by (rule rstrip_slash_idem)
  show "strip (wc_token cfg) = wc_token cfg"
    unfolding c(2) resolve_token_def strip_def by (rule strip_by_idem)
qed

text \<open>Surroundings that settle nothing but what the config file says.\<close>

definition only_file :: "'f Surroundings \<Rightarrow> pystr option \<Rightarrow> pystr \<Rightarrow> bool" where
  "only_file S path target \<longleftrightarrow> config_path_of S path = target \<and> sr_unreadable S target = None
     \<and> strip (env_text S ''MHB_WIKI_BASE_URL'') = [] \<and> strip (env_text S ''MHB_WIKI_TOKEN'') = []
     \<and> env_text S ''MHB_WIKI_TIMEOUT'' = []"

lemma stored_config_saved:
  assumes "sr_files S path = Some (m, bs)" and "sr_unreadable S path = None"
    and "utf8_encode (config_text cfg) = Some bs"
  shows "stored_config S path
    = Inr [(str ''base_url'', JStr (wc_base_url cfg)), (str ''token'', JStr (wc_token cfg))]"
proof -
  have "Option.bind (utf8_decode bs) (loads \<circ> universal_newlines) = loads (config_text cfg)"
    using utf8_decode_encode [OF assms(3)] newlines_id [OF config_text_no_cr [of cfg]] by simp
  then show ?thesis using assms config_text_loads [of cfg] by (simp add: stored_config_def)
qed

lemma config_read_back:
  assumes "from_sources S url tok t path = Inr cfg"
    and "fs temp = None" and "temp \<noteq> target"
    and "save cfg target temp mkdir fails written unlinks fs = (seen, Inr x)"
    and "only_file S' path' target" and "sr_files S' = last (fs # seen)"
    and "sr_netloc_ok S' = sr_netloc_ok S"
    and "sr_float S' (JFloat (str ''20.0'')) = Inr d" and "\<not> sr_not_positive S' d"
  shows "from_sources S' None None None path' = Inr (cfg\<lparr>wc_timeout := d\<rparr>)"
proof -
  note cfg = from_sources_resolved [OF assms(1)]
  from save_done [OF assms(2-4)] obtain bs where bs: "utf8_encode (config_text cfg) = Some bs"
    and f: "last (fs # seen) target = Some (384, bs)" by blast
  let ?d = "[(str ''base_url'', JStr (wc_base_url cfg)), (str ''token'', JStr (wc_token cfg))]"
  from f assms(6) have "sr_files S' target = Some (384, bs)" by simp
  from stored_config_saved [OF this _ bs] assms(5)
  have st: "stored_config S' (config_path_of S' path') = Inr ?d" by (simp add: only_file_def)
  have env: "strip (env_text S' ''MHB_WIKI_BASE_URL'') = []" "strip (env_text S' ''MHB_WIKI_TOKEN'') = []"
    "env_text S' ''MHB_WIKI_TIMEOUT'' = []"
    using assms(5) unfolding only_file_def by blast+
  have got: "get_default ?d (str ''base_url'') JNull = JStr (wc_base_url cfg)"
    "get_default ?d (str ''token'') JNull = JStr (wc_token cfg)" "get_default ?d (str ''timeout'') JNull = JNull"
    by (simp_all add: get_default_def)
  have shown: "py_truthy (sr_foreign S') (JStr s) = (s \<noteq> [])" "py_str (sr_foreign S') (JStr s) = s" for s
    by (simp_all add: py_truthy_def py_str_def)
  have "resolve_url S' None ?d = wc_base_url cfg"
    unfolding resolve_url_def env got shown using cfg(1,4) by simp
  moreover have "resolve_token S' None ?d = wc_token cfg"
    unfolding resolve_token_def env got shown using cfg(2) by (cases "wc_token cfg") simp_all
  moreover have "resolve_timeout S' None ?d = Inr d"
    unfolding resolve_timeout_def env got using assms(8,9) by (simp add: py_truthy_def)
  ultimately show ?thesis using st cfg(3) assms(7) by (simp add: from_sources_def)
qed

text \<open>C35: A saved configuration is read back: once \<open>save\<close> returns, resolving the configuration from
  that file alone gives the same base URL and token, and the default timeout.\<close>

theorem config_roundtrip:
  assumes "from_sources S url tok t path = Inr cfg"
    and "fs temp = None" and "temp \<noteq> target"
    and "save cfg target temp mkdir fails written unlinks fs = (seen, Inr x)"
    and "only_file S' path' target" and "sr_files S' = last (fs # seen)"
    and "sr_netloc_ok S' = sr_netloc_ok S"
    and "sr_float S' (JFloat (str ''20.0'')) = Inr d" and "\<not> sr_not_positive S' d"
  shows "from_sources S' None None None path' = Inr (cfg\<lparr>wc_timeout := d\<rparr>)"
  using assms by (rule config_read_back)

end
