(* ===== verification/ClientConfigDemo.thy ===== *)
theory ClientConfigDemo
  imports ClientConfigProps
begin

text \<open>The configuration client on a concrete machine, for the properties of \<open>ClientConfigProps\<close>.\<close>

definition plain_foreign :: Foreign where
  "plain_foreign = \<lparr>fo_int = (\<lambda>j. Inr 0), fo_str = (\<lambda>j. []), fo_is_one = (\<lambda>t. False),
     fo_is_zero = (\<lambda>t. False), fo_decode = (\<lambda>bs. Inl PyUnicodeDecodeError)\<rparr>"

definition demo_surroundings :: "FileSystem \<Rightarrow> int Surroundings" where
  "demo_surroundings fs = \<lparr>sr_env = [], sr_files = fs, sr_unreadable = (\<lambda>p. None), sr_expand = id,
     sr_default_path = str ''/wiki.json'', sr_json_error = (\<lambda>bs. []), sr_float = (\<lambda>j. Inr 20),
     sr_not_positive = (\<lambda>t. t \<le> 0), sr_netloc_ok = (\<lambda>n. True), sr_foreign = plain_foreign\<rparr>"

definition demo_config :: "int WikiClientConfig" where
  "demo_config = \<lparr>wc_base_url = str ''https://a'', wc_token = str ''t'', wc_timeout = 5\<rparr>"

lemma demo_config_resolved:
  "from_sources (demo_surroundings Map.empty) (Some (str ''https://a/'')) (Some (str '' t'')) (Some 5) None
    = Inr demo_config"
  by code_simp

lemma demo_config_bytes: "\<exists>bs. utf8_encode (config_text demo_config) = Some bs"
proof -
  have "utf8_encode (config_text demo_config) \<noteq> None" by code_simp
  then show ?thesis by blast
qed

lemma demo_saved: "\<exists>seen. save demo_config (str ''/wiki.json'') (str ''/tmp'') None (\<lambda>i. None) 3 True Map.empty
    = (seen, Inr (str ''/wiki.json'')) \<and> seen \<noteq> []"
  using demo_config_bytes
  by (auto simp: save_def finish_save_def write_steps_def replace_steps_def)

lemma config_saved_discreetly_witness:
  "\<exists>g. g (str ''/etc/hosts'') = (None :: (nat \<times> bytes) option)
     \<and> g (str ''/wiki.json'') \<in> {None, map_option (Pair 384) (utf8_encode (config_text demo_config))}"
proof -
  from demo_saved obtain seen where s: "save demo_config (str ''/wiki.json'') (str ''/tmp'') None (\<lambda>i. None) 3 True Map.empty
    = (seen, Inr (str ''/wiki.json''))" "seen \<noteq> []" by blast
  then have "last seen \<in> set seen" by simp
  from config_saved_discreetly [OF _ _ s(1) this] show ?thesis by (intro exI [of _ "last seen"]) auto
qed

lemma config_roundtrip_witness:
  "\<exists>fs. from_sources (demo_surroundings fs) None None None None = Inr (demo_config\<lparr>wc_timeout := 20\<rparr>)"
proof -
  from demo_saved obtain seen where s: "save demo_config (str ''/wiki.json'') (str ''/tmp'') None (\<lambda>i. None) 3 True Map.empty
    = (seen, Inr (str ''/wiki.json''))" by blast
  let ?S = "demo_surroundings (last (Map.empty # seen))"
  have "only_file ?S None (str ''/wiki.json'')"
    by (simp add: only_file_def config_path_of_def demo_surroundings_def env_text_def strip_def strip_by_def)
  from config_roundtrip [OF demo_config_resolved _ _ s this, of 20]
  have "from_sources ?S None None None None = Inr (demo_config\<lparr>wc_timeout := 20\<rparr>)"
    by (simp add: demo_surroundings_def)
  then show ?thesis by blast
qed

end
