(* ===== verification/WikiClientProps.thy ===== *)
theory WikiClientProps
  imports WikiClient ClientConfigDemo WikiApi
begin

text \<open>
  What the client's calls can reach and how the service reads them: a slug stays one segment of
  the path, answers are exceptions of the module or JSON objects, and the token and the
  idempotency key of a write are the ones the service sees.
\<close>

section \<open>Quoting\<close>

fun percent_decode :: "pystr \<Rightarrow> bytes option" where
  "percent_decode [] = Some []"
| "percent_decode (c # cs) =
     (if c \<noteq> 37 then map_option ((#) (of_nat c)) (percent_decode cs)
      else case cs of
        a # b # r \<Rightarrow>
          (case (hex_val a, hex_val b) of
             (Some x, Some y) \<Rightarrow> map_option ((#) (of_nat (nat (16 * x + y)))) (percent_decode r)
           | _ \<Rightarrow> None)
      | _ \<Rightarrow> None)"

lemma hex_val_upper: "n < 16 \<Longrightarrow> hex_val (hex_upper n) = Some (int n)"
  by (auto simp: hex_val_def hex_upper_def)

lemma unreserved_char: "unreserved c \<Longrightarrow> c \<noteq> 37 \<and> c < 128"
  by (auto simp: unreserved_def is_alpha_ascii_def is_digit_def)

lemma quote_byte_decode: "percent_decode (quote_byte b @ s) = map_option ((#) b) (percent_decode s)"
proof (cases "unreserved (unat b)")
  case True
  then show ?thesis by (simp add: quote_byte_def unreserved_char)
next
  case False
  let ?h = "unat b div 16" and ?l = "unat b mod 16"
  have "?h < 16" "?l < 16" using unat_byte_lt [of b] by auto
  moreover have "nat (16 * int ?h + int ?l) = unat b"
    using div_mult_mod_eq [of "unat b" 16] by linarith
  ultimately show ?thesis using False by (simp add: quote_byte_def hex_val_upper)
qed

lemma quote_decode: "percent_decode (concat (map quote_byte bs)) = Some bs"
  by (induction bs) (auto simp: quote_byte_decode)

lemma hex_upper_unreserved: "n < 16 \<Longrightarrow> unreserved (hex_upper n)"
  by (simp add: hex_upper_def unreserved_def is_digit_def is_alpha_ascii_def)

lemma quote_byte_set: "c \<in> set (quote_byte b) \<Longrightarrow> unreserved c \<or> c = 37"
proof -
  assume c: "c \<in> set (quote_byte b)"
  have "unat b div 16 < 16" "unat b mod 16 < 16" using unat_byte_lt [of b] by auto
  then have "unreserved (hex_upper (unat b div 16))" "unreserved (hex_upper (unat b mod 16))"
    by (simp_all only: hex_upper_unreserved)
  with c show ?thesis unfolding quote_byte_def by (auto split: if_splits)
qed

lemma quote_byte_ne: "quote_byte b \<noteq> []"
  by (simp add: quote_byte_def)

text \<open>A slug stays one segment of the path: what the client puts into a URL holds only unreserved
  characters and percent signs, so no slash, question mark or number sign, it is not empty, and
  decoding it gives back the slug without the white space around it.\<close>

theorem client_slug_segment:
  assumes "client_slug v = Inr s"
  shows "(\<forall>c \<in> set s. unreserved c \<or> c = 37) \<and> s \<noteq> []
    \<and> Option.bind (percent_decode s) utf8_decode = Some (strip v)"
proof -
  from assms have ne: "strip v \<noteq> []" by (auto simp: client_slug_def split: if_splits)
  with assms obtain bs where bs: "utf8_encode (strip v) = Some bs" "s = concat (map quote_byte bs)"
    by (auto simp: client_slug_def quote_def split: option.splits)
  from ne bs(1) length_utf8_encode [OF bs(1)] have "bs \<noteq> []" by auto
  then have "s \<noteq> []" using bs(2) quote_byte_ne by (cases bs) auto
  moreover have "\<forall>c \<in> set s. unreserved c \<or> c = 37" using bs(2) quote_byte_set by auto
  ultimately show ?thesis using bs utf8_decode_encode [OF bs(1)] by (simp add: quote_decode)
qed

lemma client_slug_segment_witness:
  "Option.bind (percent_decode (str ''a%2F%3Fb'')) utf8_decode = Some (str ''a/?b'')"
proof -
  have "client_slug (str '' a/?b'') = Inr (str ''a%2F%3Fb'')"
    by (simp add: client_slug_def strip_def strip_by_def quote_def quote_byte_def unreserved_def is_digit_def
        is_alpha_ascii_def hex_upper_def py_simps py_space_def utf8_char_def)
  from client_slug_segment [OF this] show ?thesis by (simp add: strip_def strip_by_def py_simps py_space_def)
qed

section \<open>Answers\<close>

lemma read_reply_errors:
  "read_reply F rp = Inl e \<Longrightarrow> e = Escapes (str ''Exception'') \<or>
     (is_success rp \<and> e = ClientError (str ''wiki API returned a non-JSON success response''))"
  by (auto simp: read_reply_def split: if_splits sum.splits)

lemma answer_ok_iff: "answer_of F r rp = Inr d \<longleftrightarrow> is_success rp \<and> read_reply F rp = Inr (JObj d)"
proof (cases "read_reply F rp")
  case (Inr j)
  then show ?thesis by (cases j) (auto simp: answer_of_def)
qed (simp add: answer_of_def)

lemma answer_api_error:
  "answer_of F r rp = Inl (ApiError status msg code) \<Longrightarrow> \<not> is_success rp \<and> status = rp_status rp"
  by (auto simp: answer_of_def bind_res_Inl api_error_def Let_def split: if_splits json.splits
      dest!: read_reply_errors)

section \<open>The service's view of a call\<close>

text \<open>
  What lies between the client and the handler, \<open>httpx\<close>, the wire and the server, is an argument:
  the request a call arrives as, if it does. Of its documented behaviour only this is used: when every
  header is printable ASCII without white space around it, no name comes twice in any case, and the call
  gets through, each value arrives as it was sent, under its name in lower case. Of other
  values nothing is assumed: \<open>httpx\<close> cannot encode characters outside ASCII, and control
  characters are refused on the way.
\<close>

type_synonym delivery = "ClientCall \<Rightarrow> pystr option \<Rightarrow> Request option"

definition printable :: "pystr \<Rightarrow> bool" where
  "printable v \<longleftrightarrow> v \<noteq> [] \<and> list_all (\<lambda>c. 32 \<le> c \<and> c \<le> 126) v \<and> hd v \<noteq> 32 \<and> last v \<noteq> 32"

definition wire_headers :: "ClientCall \<Rightarrow> (pystr, pystr) pydict" where
  "wire_headers c = map (\<lambda>(k, v). (map lower_ascii k, v)) (ca_headers c)"

definition carries_headers :: "delivery \<Rightarrow> bool" where
  "carries_headers deliver \<longleftrightarrow> (\<forall>c host rq k v.
     list_all (\<lambda>(k, v). printable k \<and> printable v) (wire_headers c) \<and> distinct (map fst (wire_headers c))
     \<and> deliver c host = Some rq \<and> dict_get (wire_headers c) k = Some v \<longrightarrow> dict_get (rq_headers rq) k = Some v)"

lemma lower_names:
  "map lower_ascii (str ''Accept'') = str ''accept''"
  "map lower_ascii (str ''User-Agent'') = str ''user-agent''"
  "map lower_ascii (str ''Authorization'') = str ''authorization''"
  "map lower_ascii (str ''Idempotency-Key'') = str ''idempotency-key''"
  by code_simp+

lemma bearer_prefix: "startswith (map lower_ascii (str ''Bearer '' @ t)) (str ''bearer '')"
  by (simp add: startswith_def py_simps lower_ascii_def is_upper_ascii_def)

text \<open>The headers of a write with a key, as they go on the wire\<close>

lemma keyed_wire:
  assumes "wc_token cfg \<noteq> []" and "ca_headers c = [(str ''Idempotency-Key'', k)]"
  shows "wire_headers (sent_call (new_wiki_client cfg) c) =
    [(str ''accept'', str ''application/json''), (str ''user-agent'', str ''mhb-wiki/1''),
     (str ''authorization'', str ''Bearer '' @ wc_token cfg), (str ''idempotency-key'', k)]"
  using assms by (simp add: wire_headers_def sent_call_def new_wiki_client_def lower_names del: map_append)

lemma printable_names:
  "printable (str ''accept'')" "printable (str ''user-agent'')" "printable (str ''authorization'')"
  "printable (str ''idempotency-key'')" "printable (str ''application/json'')" "printable (str ''mhb-wiki/1'')"
  by (simp_all add: printable_def py_simps)

lemma printable_bearer: "printable t \<Longrightarrow> printable (str ''Bearer '' @ t)"
  by (simp add: printable_def py_simps)

lemma seen_headers:
  assumes wire: "carries_headers deliver" and got: "deliver (sent_call (new_wiki_client cfg) c) host = Some rq"
    and tok: "printable (wc_token cfg)" and k: "printable k" "ca_headers c = [(str ''Idempotency-Key'', k)]"
  shows "header rq ''authorization'' = Some (str ''Bearer '' @ wc_token cfg)"
    and "header rq ''idempotency-key'' = Some k"
proof -
  let ?c = "sent_call (new_wiki_client cfg) c"
  have w: "wire_headers ?c = [(str ''accept'', str ''application/json''), (str ''user-agent'', str ''mhb-wiki/1''),
     (str ''authorization'', str ''Bearer '' @ wc_token cfg), (str ''idempotency-key'', k)]"
    using tok k(2) by (intro keyed_wire) (simp_all add: printable_def)
  have ok: "list_all (\<lambda>(k, v). printable k \<and> printable v) (wire_headers ?c)" "distinct (map fst (wire_headers ?c))"
    unfolding w using tok k(1) by (simp_all add: printable_names printable_bearer)
  have arrives: "dict_get (rq_headers rq) n = Some v" if "dict_get (wire_headers ?c) n = Some v" for n v
    using wire ok got that unfolding carries_headers_def by blast
  show "header rq ''authorization'' = Some (str ''Bearer '' @ wc_token cfg)"
    unfolding header_def by (rule arrives) (simp add: w)
  show "header rq ''idempotency-key'' = Some k"
    unfolding header_def by (rule arrives) (simp add: w)
qed

lemma bearer_of_header:
  assumes "header rq ''authorization'' = Some (str ''Bearer '' @ t)" and "strip t = t"
  shows "bearer_token rq = t"
proof -
  have "drop 7 (str ''Bearer '' @ t) = t" by simp
  with assms show ?thesis by (simp add: bearer_token_def or_empty_def bearer_prefix del: map_append)
qed

lemma idempotency_key_bounds:
  "idempotency_key fresh key = Inr k \<Longrightarrow> k \<noteq> [] \<and> length k \<le> 128 \<and> (\<forall>c \<in> set k. \<not> py_space c)"
  by (auto simp: idempotency_key_def Let_def split: if_splits)

text \<open>A command id of the service is made from the caller and the key, of their UTF-8 bytes.\<close>

lemma accepted_key:
  assumes "k \<noteq> []" and "length k \<le> 128" and "encodable k" and "encodable actor"
  shows "\<exists>bs. utf8_encode (actor @ 0 # k) = Some bs
    \<and> (\<forall>env. mk_command_id env actor (Some k) = Inr (str ''idem:'' @ hexdigest (sha256 bs)))"
proof -
  have "encodable (actor @ 0 # k)" using assms by (auto simp: encodable_def)
  then obtain bs where "utf8_encode (actor @ 0 # k) = Some bs" using utf8_encode_total_iff by blast
  then show ?thesis using assms(1,2) by (simp add: mk_command_id_def)
qed

lemma printable_encodable: "printable k \<Longrightarrow> encodable k"
  by (auto simp: printable_def encodable_def list_all_iff)

text \<open>The key a write is to have: the caller's without white space around it, or a fresh one.\<close>

definition chosen_key :: "pystr \<Rightarrow> pystr option \<Rightarrow> pystr" where
  "chosen_key fresh key = (case key of Some (c # cs) \<Rightarrow> strip (c # cs) | _ \<Rightarrow> fresh)"

lemma idempotency_key_chosen: "idempotency_key fresh key = Inr k \<Longrightarrow> k = chosen_key fresh key"
  by (auto simp: idempotency_key_def chosen_key_def Let_def split: option.splits if_splits list.splits)

text \<open>The writes that carry a key.\<close>

definition keyed_writes ::
  "pystr \<Rightarrow> pystr \<Rightarrow> pystr option \<Rightarrow> pystr \<Rightarrow> pystr \<Rightarrow> pystr \<Rightarrow> pystr option \<Rightarrow> (client_exn + ClientCall) set" where
  "keyed_writes fresh sl ti te su head key =
     {create_page_call fresh sl (or_empty ti) te su key, create_revision_call fresh sl ti te su head key,
      submit_call fresh sl (Some head) ti te key, report_call fresh sl te key}"

lemma keyed_writes_headers:
  assumes "built \<in> keyed_writes fresh sl ti te su head key" and "built = Inr c"
  shows "\<exists>k. idempotency_key fresh key = Inr k \<and> ca_headers c = [(str ''Idempotency-Key'', k)]"
proof -
  let ?ok = "\<exists>k. idempotency_key fresh key = Inr k \<and> ca_headers c = [(str ''Idempotency-Key'', k)]"
  note ds = keyed_def post_call_def bind_res_Inr
  have "create_page_call fresh sl (or_empty ti) te su key = Inr c \<Longrightarrow> ?ok"
    by (auto simp: create_page_call_def ds)
  moreover have "create_revision_call fresh sl ti te su head key = Inr c \<Longrightarrow> ?ok"
    by (auto simp: create_revision_call_def ds split: if_splits)
  moreover have "submit_call fresh sl (Some head) ti te key = Inr c \<Longrightarrow> ?ok"
    by (auto simp: submit_call_def ds)
  moreover have "report_call fresh sl te key = Inr c \<Longrightarrow> ?ok"
    by (auto simp: report_call_def ds)
  ultimately show ?thesis using assms unfolding keyed_writes_def by blast
qed

text \<open>C36: The service understands what the client sends with a write. When the token of a resolved
  configuration and the key are printable ASCII (what else the client lets through does not
  reach the service) and the call gets there, the token arrives as the bearer token; the key that
  arrives is the caller's own without white space around it, or the fresh one if there is none; and
  the service accepts it and derives from it and the caller one command id, whatever its clock and its
  random source are, so that repeating the write repeats the command.\<close>

theorem client_write_understood:
  assumes "from_sources S url tok t path = Inr cfg" and "printable (wc_token cfg)"
    and "built \<in> keyed_writes fresh sl ti te su head key" and "built = Inr c"
    and "encodable actor" and "printable (chosen_key fresh key)"
    and "carries_headers deliver" and "deliver (sent_call (new_wiki_client cfg) c) host = Some rq"
  shows "bearer_token rq = wc_token cfg
    \<and> header rq ''idempotency-key'' = Some (chosen_key fresh key)
    \<and> (\<exists>bs. utf8_encode (actor @ 0 # chosen_key fresh key) = Some bs
         \<and> (\<forall>env. mk_command_id env actor (header rq ''idempotency-key'') = Inr (str ''idem:'' @ hexdigest (sha256 bs))))"
proof -
  obtain k where k: "idempotency_key fresh key = Inr k" "ca_headers c = [(str ''Idempotency-Key'', k)]"
    using keyed_writes_headers [OF assms(3,4)] by blast
  have chosen: "k = chosen_key fresh key" using k(1) by (rule idempotency_key_chosen)
  have pk: "printable k" using assms(6) chosen by simp
  note arrived = seen_headers [OF assms(7,8,2) pk k(2)]
  have "bearer_token rq = wc_token cfg"
    by (rule bearer_of_header [OF arrived(1) from_sources_resolved(2) [OF assms(1)]])
  moreover have "\<exists>bs. utf8_encode (actor @ 0 # k) = Some bs
      \<and> (\<forall>env. mk_command_id env actor (Some k) = Inr (str ''idem:'' @ hexdigest (sha256 bs)))"
    using idempotency_key_bounds [OF k(1)] by (intro accepted_key printable_encodable pk assms(5)) simp_all
  ultimately show ?thesis using arrived(2) chosen by simp
qed

text \<open>A wire that hands every header over, with the name in lower case\<close>

definition plain_wire :: delivery where
  "plain_wire c host = Some \<lparr>rq_headers = wire_headers c, rq_cookies = [], rq_host = host\<rparr>"

lemma plain_wire_carries: "carries_headers plain_wire"
  by (auto simp: carries_headers_def plain_wire_def)

lemma client_write_understood_witness:
  "\<exists>c rq. report_call (str ''u'') (str ''a'') (str ''spam'') (Some (str ''k1'')) = Inr c
     \<and> plain_wire (sent_call (new_wiki_client demo_config) c) None = Some rq
     \<and> bearer_token rq = str ''t'' \<and> header rq ''idempotency-key'' = Some (str ''k1'')"
proof -
  let ?b = "report_call (str ''u'') (str ''a'') (str ''spam'') (Some (str ''k1''))"
  have "client_slug (str ''a'') = Inr (str ''a'')"
    by (simp add: client_slug_def strip_def strip_by_def quote_def quote_byte_def unreserved_def
        is_alpha_ascii_def py_simps py_space_def utf8_char_def)
  moreover have "idempotency_key (str ''u'') (Some (str ''k1'')) = Inr (str ''k1'')"
    by (simp add: idempotency_key_def strip_def strip_by_def py_simps py_space_def)
  ultimately obtain c where c: "?b = Inr c" by (simp add: report_call_def keyed_def)
  have mem: "?b \<in> keyed_writes (str ''u'') (str ''a'') None (str ''spam'') [] [] (Some (str ''k1''))"
    by (simp add: keyed_writes_def)
  have key: "chosen_key (str ''u'') (Some (str ''k1'')) = str ''k1''"
    by (simp add: chosen_key_def strip_def strip_by_def py_simps py_space_def)
  have tok: "wc_token demo_config = str ''t''" by (simp add: demo_config_def)
  have printable: "printable (wc_token demo_config)" "printable (chosen_key (str ''u'') (Some (str ''k1'')))"
    unfolding tok key by (simp_all add: printable_def py_simps)
  obtain rq where rq: "plain_wire (sent_call (new_wiki_client demo_config) c) None = Some rq"
    by (simp add: plain_wire_def)
  from client_write_understood [OF demo_config_resolved printable(1) mem c encodable_str [of "''actor''"]
      printable(2) plain_wire_carries rq]
  show ?thesis using c rq unfolding tok key by blast
qed

end
