(* ===== verification/WikiCli.thy ===== *)
theory WikiCli
  imports WikiClientProps
begin

text \<open>
  The two adapters over the wiki's client: the commands of \<open>mhb-wiki\<close> (\<open>src/app/wiki_cli.py\<close>) and
  the tools of the stdio MCP server (\<open>src/app/wiki_mcp.py\<close>). The parsing of the command line by
  \<open>argparse\<close> and the MCP protocol are not modelled: a command or a tool comes with its arguments.
\<close>

section \<open>Commands\<close>

datatype CliCommand =
    CliInit pystr pystr "pystr option" bool bool
  | CliGet pystr
  | CliSearch pystr "int option" "int option"
  | CliCreate pystr pystr pystr pystr "pystr option"
  | CliEdit pystr "pystr option" pystr pystr pystr "pystr option"
  | CliHistory pystr "int option" "int option"
  | CliDiff pystr pystr pystr
  | CliRecent "int option" "int option"
  | CliSubmit pystr "pystr option" "pystr option" pystr "pystr option"
  | CliReport pystr pystr "pystr option"

record 'f CliOptions =
  co_base_url :: "pystr option"
  co_token :: "pystr option"
  co_config :: "pystr option"
  co_timeout :: "'f option"

text \<open>
  What a command meets: the machine, a fresh UUID, the standard input, \<open>repr\<close> of floats and of text, and how
  saving the configuration goes (see \<open>save\<close>).
\<close>

record ('f, 'w) CliWorld =
  cw_machine :: "'f Surroundings"
  cw_uuid :: pystr
  cw_stdin :: pystr
  cw_repr :: "pystr \<Rightarrow> pystr"
  cw_quoted :: "pystr \<Rightarrow> pystr"
  cw_net :: "'w transport"
  cw_temp :: pystr
  cw_mkdir :: "pystr option"
  cw_fails :: "nat \<Rightarrow> pystr option"
  cw_written :: nat
  cw_unlinks :: bool

definition content_of :: "('f, 'w) CliWorld \<Rightarrow> pystr \<Rightarrow> client_exn + pystr" where
  "content_of W v =
     (let failed = (\<lambda>why. Inl (ClientError (str ''cannot read content file '' @ v @ str '': '' @ why)))
      in if v = str ''-'' then Inr (cw_stdin W)
         else case sr_files (cw_machine W) v of
           None \<Rightarrow> failed (str ''[Errno 2] No such file or directory: '' @ cw_quoted W v)
         | Some (m, bs) \<Rightarrow>
             (case sr_unreadable (cw_machine W) v of
                Some why \<Rightarrow> failed why
              | None \<Rightarrow> (case utf8_decode bs of
                           None \<Rightarrow> Inl (Escapes (str ''UnicodeDecodeError''))
                         | Some t \<Rightarrow> Inr (universal_newlines t))))"

text \<open>What \<open>_emit\<close> prints.\<close>

definition emitted :: "('f, 'w) CliWorld \<Rightarrow> payload \<Rightarrow> pystr" where
  "emitted W d = dumps_in indented False 0 (json_sorted (shown_floats (cw_repr W) (JObj d))) @ [10]"

definition session_token :: "Foreign \<Rightarrow> payload \<Rightarrow> pystr" where
  "session_token F d = strip (py_str F
     (or_value F (get_default d (str ''bearer_token'') JNull)
       (or_value F (get_default d (str ''access_token'') JNull)
         (or_value F (get_default d (str ''token'') JNull) (JStr [])))))"

definition token_keys :: "pystr set" where
  "token_keys = {str ''access_token'', str ''bearer_token'', str ''csrf_token'', str ''token''}"

definition redact_session_tokens :: "payload \<Rightarrow> payload" where
  "redact_session_tokens d = map (\<lambda>(k, v). (k, if k \<in> token_keys then JStr (str ''[REDACTED]'') else v)) d"

text \<open>What a command printed or raised, the world, and the file systems it passed through.\<close>

type_synonym 'w outcome = "(client_exn + pystr) \<times> 'w \<times> FileSystem list"

definition ask ::
  "('f, 'w) CliWorld \<Rightarrow> 'f WikiClientConfig \<Rightarrow> client_exn + ClientCall \<Rightarrow> 'w \<Rightarrow> (client_exn + payload) \<times> 'w" where
  "ask W cfg built w =
     perform (sr_foreign (cw_machine W)) (cw_repr W) (new_wiki_client cfg) (cw_net W) built w"

definition simple_command ::
  "('f, 'w) CliWorld \<Rightarrow> 'f WikiClientConfig \<Rightarrow> client_exn + ClientCall \<Rightarrow> 'w \<Rightarrow> 'w outcome" where
  "simple_command W cfg built w =
     (case ask W cfg built w of
        (Inl e, w') \<Rightarrow> (Inl e, w', [])
      | (Inr d, w') \<Rightarrow> (Inr (emitted W d), w', []))"

definition cmd_init ::
  "('f, 'w) CliWorld \<Rightarrow> 'f WikiClientConfig \<Rightarrow> pystr option \<Rightarrow> pystr \<Rightarrow> pystr \<Rightarrow> pystr option \<Rightarrow> bool \<Rightarrow> bool
     \<Rightarrow> 'w \<Rightarrow> 'w outcome" where
  "cmd_init W cfg config name kind agent_url save_it show_token w =
     (case ask W cfg (create_session_call name kind agent_url) w of
        (Inl e, w') \<Rightarrow> (Inl e, w', [])
      | (Inr d, w') \<Rightarrow>
          (let token = session_token (sr_foreign (cw_machine W)) d;
               shown = (\<lambda>d. emitted W (if show_token then d else redact_session_tokens d))
           in if \<not> save_it then (Inr (shown d), w', [])
              else if token = []
              then (Inl (ClientError (str ''session response has no access_token/token to save'')), w', [])
              else case save (cfg\<lparr>wc_token := token\<rparr>) (config_path_of (cw_machine W) config) (cw_temp W)
                     (cw_mkdir W) (cw_fails W) (cw_written W) (cw_unlinks W) (sr_files (cw_machine W)) of
                (seen, Inl e) \<Rightarrow> (Inl e, w', seen)
              | (seen, Inr saved) \<Rightarrow>
                  (Inr (shown (dict_set (str ''config_saved'') (JStr saved) d)), w', seen)))"

definition handle ::
  "('f, 'w) CliWorld \<Rightarrow> 'f WikiClientConfig \<Rightarrow> pystr option \<Rightarrow> CliCommand \<Rightarrow> 'w \<Rightarrow> 'w outcome" where
  "handle W cfg config cmd w =
     (case cmd of
        CliInit name kind agent_url save_it show_token \<Rightarrow> cmd_init W cfg config name kind agent_url save_it show_token w
      | CliGet sl \<Rightarrow> simple_command W cfg (get_page_call sl) w
      | CliSearch q limit offset \<Rightarrow> simple_command W cfg (search_call q limit offset) w
      | CliCreate sl ti file su k \<Rightarrow> simple_command W cfg
          (bind_res (content_of W file) (\<lambda>te. create_page_call (cw_uuid W) sl ti te su k)) w
      | CliEdit sl ti file su head k \<Rightarrow> simple_command W cfg
          (bind_res (content_of W file) (\<lambda>te. create_revision_call (cw_uuid W) sl ti te su head k)) w
      | CliHistory sl limit offset \<Rightarrow> simple_command W cfg (history_call sl limit offset) w
      | CliDiff sl from_revision to_revision \<Rightarrow> simple_command W cfg (diff_call sl from_revision to_revision) w
      | CliRecent limit offset \<Rightarrow> simple_command W cfg (recent_call limit offset) w
      | CliSubmit sl revision hash remark k \<Rightarrow> simple_command W cfg
          (submit_call (cw_uuid W) sl revision hash remark k) w
      | CliReport sl why k \<Rightarrow> simple_command W cfg (report_call (cw_uuid W) sl why k) w)"

definition async_main ::
  "('f, 'w) CliWorld \<Rightarrow> 'f CliOptions \<Rightarrow> CliCommand \<Rightarrow> 'w \<Rightarrow> 'w outcome" where
  "async_main W opts cmd w =
     (case from_sources (cw_machine W) (co_base_url opts) (co_token opts) (co_timeout opts) (co_config opts) of
        Inl e \<Rightarrow> (Inl e, w, [])
      | Inr cfg \<Rightarrow> handle W cfg (co_config opts) cmd w)"

text \<open>The exit code with what goes to the standard output and to the standard error, or the exception.\<close>

record Exit =
  ex_code :: int
  ex_out :: pystr
  ex_err :: pystr

definition wiki_main ::
  "('f, 'w) CliWorld \<Rightarrow> 'f CliOptions \<Rightarrow> CliCommand \<Rightarrow> 'w \<Rightarrow> (pystr + Exit) \<times> 'w \<times> FileSystem list" where
  "wiki_main W opts cmd w =
     (case async_main W opts cmd w of
        (Inr out, w', seen) \<Rightarrow> (Inr \<lparr>ex_code = 0, ex_out = out, ex_err = []\<rparr>, w', seen)
      | (Inl e, w', seen) \<Rightarrow>
          (if e = Escapes (str ''KeyboardInterrupt'')
           then (Inr \<lparr>ex_code = 130, ex_out = [], ex_err = str ''interrupted'' @ [10]\<rparr>, w', seen)
           else if user_facing e
           then (Inr \<lparr>ex_code = 1, ex_out = [], ex_err = str ''error: '' @ error_text e @ [10]\<rparr>, w', seen)
           else (Inl (error_text e), w', seen)))"

section \<open>Tools\<close>

datatype WikiTool =
    ToolGet pystr
  | ToolSearch pystr "int option" "int option"
  | ToolCreatePage pystr pystr pystr pystr "pystr option"
  | ToolCreateRevision pystr pystr pystr pystr "pystr option" "pystr option"
  | ToolHistory pystr "int option" "int option"
  | ToolDiff pystr pystr pystr
  | ToolRecent "int option" "int option"
  | ToolSubmit pystr "pystr option" "pystr option" pystr "pystr option"
  | ToolReport pystr pystr "pystr option"

record ToolHints =
  th_read_only :: bool
  th_destructive :: bool
  th_idempotent :: bool
  th_open_world :: bool

definition READ_ONLY :: ToolHints where
  "READ_ONLY = \<lparr>th_read_only = True, th_destructive = False, th_idempotent = True, th_open_world = False\<rparr>"

definition SAFE_WRITE :: ToolHints where
  "SAFE_WRITE = \<lparr>th_read_only = False, th_destructive = False, th_idempotent = False, th_open_world = False\<rparr>"

text \<open>The name and the annotations each tool is registered with, and the call it makes.\<close>

definition tool_name :: "WikiTool \<Rightarrow> pystr" where
  "tool_name t = (case t of ToolGet _ \<Rightarrow> str ''wiki_get'' | ToolSearch _ _ _ \<Rightarrow> str ''wiki_search''
     | ToolCreatePage _ _ _ _ _ \<Rightarrow> str ''wiki_create_page''
     | ToolCreateRevision _ _ _ _ _ _ \<Rightarrow> str ''wiki_create_revision''
     | ToolHistory _ _ _ \<Rightarrow> str ''wiki_history'' | ToolDiff _ _ _ \<Rightarrow> str ''wiki_diff''
     | ToolRecent _ _ \<Rightarrow> str ''wiki_recent'' | ToolSubmit _ _ _ _ _ \<Rightarrow> str ''wiki_submit_for_review''
     | ToolReport _ _ _ \<Rightarrow> str ''wiki_report'')"

definition tool_hints :: "WikiTool \<Rightarrow> ToolHints" where
  "tool_hints t = (case t of ToolGet _ \<Rightarrow> READ_ONLY | ToolSearch _ _ _ \<Rightarrow> READ_ONLY
     | ToolCreatePage _ _ _ _ _ \<Rightarrow> SAFE_WRITE | ToolCreateRevision _ _ _ _ _ _ \<Rightarrow> SAFE_WRITE
     | ToolHistory _ _ _ \<Rightarrow> READ_ONLY | ToolDiff _ _ _ \<Rightarrow> READ_ONLY | ToolRecent _ _ \<Rightarrow> READ_ONLY
     | ToolSubmit _ _ _ _ _ \<Rightarrow> SAFE_WRITE | ToolReport _ _ _ \<Rightarrow> SAFE_WRITE)"

definition tool_call :: "pystr \<Rightarrow> WikiTool \<Rightarrow> client_exn + ClientCall" where
  "tool_call fresh t = (case t of
     ToolGet sl \<Rightarrow> get_page_call sl
   | ToolSearch q limit offset \<Rightarrow> search_call q limit offset
   | ToolCreatePage sl ti te su k \<Rightarrow> create_page_call fresh sl ti te su k
   | ToolCreateRevision sl te su head ti k \<Rightarrow> create_revision_call fresh sl ti te su head k
   | ToolHistory sl limit offset \<Rightarrow> history_call sl limit offset
   | ToolDiff sl from_revision to_revision \<Rightarrow> diff_call sl from_revision to_revision
   | ToolRecent limit offset \<Rightarrow> recent_call limit offset
   | ToolSubmit sl revision hash remark k \<Rightarrow> submit_call fresh sl revision hash remark k
   | ToolReport sl why k \<Rightarrow> report_call fresh sl why k)"

definition run_tool ::
  "Foreign \<Rightarrow> (pystr \<Rightarrow> pystr) \<Rightarrow> WikiClient \<Rightarrow> 'w transport \<Rightarrow> pystr \<Rightarrow> WikiTool \<Rightarrow> 'w
     \<Rightarrow> (client_exn + payload) \<times> 'w" where
  "run_tool F r cl net fresh t w = perform F r cl net (tool_call fresh t) w"

end
