(* ===== verification/WikiCliProps.thy ===== *)
theory WikiCliProps
  imports WikiCli
begin

text \<open>
  The command line shows no session token unless it is asked to, and the annotations of the MCP
  tools are true of the calls they make.
\<close>

section \<open>Redaction\<close>

definition redacted :: "pystr \<Rightarrow> json \<Rightarrow> json" where
  "redacted k v = (if k \<in> token_keys then JStr (str ''[REDACTED]'') else v)"

lemma redact_eq: "redact_session_tokens d = map (\<lambda>(k, v). (k, redacted k v)) d"
  by (simp add: redact_session_tokens_def redacted_def)

lemma redact_set: "redact_session_tokens (dict_set k v d) = dict_set k (redacted k v) (redact_session_tokens d)"
  unfolding redact_eq by (induction d) auto

lemma saved_key: "redacted (str ''config_saved'') v = v"
  by (simp add: redacted_def token_keys_def)

text \<open>What \<open>init\<close> prints without \<open>--show-token\<close> is made from the redacted payload.\<close>

lemma save_returns_target: "save c target temp mk fails n u fs = (seen, Inr t) \<Longrightarrow> t = target"
  by (auto simp: save_def finish_save_def Let_def split: option.splits prod.splits)

lemma init_prints_redacted:
  assumes "cmd_init W cfg config name kind agent_url save_it False w = (Inr out, w', seen)"
    and "ask W cfg (create_session_call name kind agent_url) w = (Inr d, w'')"
  shows "out = emitted W (if save_it
    then dict_set (str ''config_saved'') (JStr (config_path_of (cw_machine W) config)) (redact_session_tokens d)
    else redact_session_tokens d)"
  using assms
  by (auto simp: cmd_init_def Let_def redact_set saved_key split: if_splits prod.splits sum.splits
      dest!: save_returns_target)

text \<open>
  The secrets of a session response, written down apart from the code: the names under which the
  service puts the access token, the bearer token and the CSRF token, and \<open>token\<close>, under which an older
  service put its only one. Two responses differ in secrets only when they have the same names
  in the same order and the same values under every other name.
\<close>

definition secret_names :: "pystr list" where
  "secret_names = [str ''access_token'', str ''bearer_token'', str ''csrf_token'', str ''token'']"

definition same_but_secrets :: "payload \<Rightarrow> payload \<Rightarrow> bool" where
  "same_but_secrets = list_all2 (\<lambda>(k, v) (k', v'). k = k' \<and> (k \<in> set secret_names \<or> v = v'))"

lemma same_but_secrets_redact:
  "same_but_secrets d d' \<Longrightarrow> redact_session_tokens d = redact_session_tokens d'"
  unfolding same_but_secrets_def redact_eq
  by (induction rule: list_all2_induct) (auto simp: redacted_def secret_names_def token_keys_def)

text \<open>C37: Unless asked to show them, \<open>mhb-wiki init\<close> prints nothing that depends on a token: if the
  service answers two runs with sessions that differ only in their access, bearer and CSRF
  tokens and the older token field, what the runs print when they succeed is the same, whether or
  not they save the configuration.\<close>

theorem init_hides_tokens:
  assumes "ask W cfg (create_session_call name kind agent_url) w = (Inr d, w1)"
    and "ask (W\<lparr>cw_net := net\<rparr>) cfg (create_session_call name kind agent_url) w = (Inr d', w2)"
    and "same_but_secrets d d'"
    and "fst (cmd_init W cfg config name kind agent_url save_it False w) = Inr out"
    and "fst (cmd_init (W\<lparr>cw_net := net\<rparr>) cfg config name kind agent_url save_it False w) = Inr out'"
  shows "out = out'"
proof -
  obtain p q where pq: "snd (cmd_init W cfg config name kind agent_url save_it False w) = p"
    "snd (cmd_init (W\<lparr>cw_net := net\<rparr>) cfg config name kind agent_url save_it False w) = q" by blast
  have e: "emitted (W\<lparr>cw_net := net\<rparr>) = emitted W" by (simp add: emitted_def fun_eq_iff)
  show ?thesis
    using init_prints_redacted [OF _ assms(1), of config save_it out "fst p" "snd p"]
      init_prints_redacted [OF _ assms(2), of config save_it out' "fst q" "snd q"] same_but_secrets_redact [OF assms(3)] assms(4,5) pq e
    by (simp add: prod_eq_iff)
qed

section \<open>The tools\<close>

text \<open>The annotations of the MCP tools are true: a tool is marked read-only exactly when its call is
  a GET without a body, every other tool sends a POST with an idempotency key, and no tool asks
  for a session.\<close>

theorem tool_hints_true:
  assumes "tool_call fresh t = Inr c"
  shows "(if th_read_only (tool_hints t) then ca_method c = str ''GET'' \<and> ca_body c = None
          else ca_method c = str ''POST'' \<and> map fst (ca_headers c) = [str ''Idempotency-Key''])
    \<and> ca_target c \<noteq> str ''sessions''"
proof -
  note ds = get_call_def post_call_def keyed_def bind_res_Inr READ_ONLY_def SAFE_WRITE_def tool_hints_def
    tool_call_def
  have p: "str ''pages/'' @ s \<noteq> str ''sessions''" for s by (simp add: py_simps)
  show ?thesis
  proof (cases t)
    case (ToolGet a) with assms p show ?thesis by (auto simp: ds get_page_call_def)
  next
    case (ToolSearch a b d) with assms show ?thesis by (auto simp: ds search_call_def)
  next
    case (ToolCreatePage a b d e f) with assms show ?thesis by (auto simp: ds create_page_call_def)
  next
    case (ToolCreateRevision a b d e f g)
    with assms p show ?thesis by (auto simp: ds create_revision_call_def split: if_splits)
  next
    case (ToolHistory a b d) with assms p show ?thesis by (auto simp: ds history_call_def)
  next
    case (ToolDiff a b d) with assms p show ?thesis by (auto simp: ds diff_call_def)
  next
    case (ToolRecent a b) with assms show ?thesis by (auto simp: ds recent_call_def)
  next
    case (ToolSubmit a b d e f) with assms p show ?thesis by (auto simp: ds submit_call_def)
  next
    case (ToolReport a b d) with assms p show ?thesis by (auto simp: ds report_call_def)
  qed
qed

lemma tool_hints_true_witness:
  "\<exists>c. tool_call [] (ToolRecent None None) = Inr c \<and> ca_method c = str ''GET''"
proof -
  obtain c where c: "tool_call [] (ToolRecent None None) = Inr c" by (simp add: tool_call_def recent_call_def)
  from tool_hints_true [OF this] c show ?thesis by (simp add: tool_hints_def READ_ONLY_def)
qed

section \<open>A concrete run\<close>

lemma loads_bytes_dumps: "json_ok j \<Longrightarrow> loads_bytes F (map of_nat (dumps True j)) = Inr (json_sorted j)"
proof -
  assume ok: "json_ok j"
  then have "\<forall>x \<in> set (dumps True j). 0 < x \<and> x < 128"
    using dumps_plain_ascii [OF json_ok_sorted [OF ok]] by (simp add: dumps_def)
  from ascii_bytes [OF this] loads_dumps [OF ok, of True] show ?thesis by (simp add: loads_bytes_def)
qed

definition demo_session :: "string \<Rightarrow> payload" where
  "demo_session t = [(str ''access_token'', JStr (str t)), (str ''actor_id'', JStr (str ''a'')),
     (str ''csrf_token'', JStr (str t))]"

definition demo_net :: "string \<Rightarrow> unit transport" where
  "demo_net t c w = (Answered \<lparr>rp_status = 201, rp_content = map of_nat (dumps True (JObj (demo_session t))),
     rp_reason = []\<rparr>, w)"

definition demo_world :: "(int, unit) CliWorld" where
  "demo_world = \<lparr>cw_machine = demo_surroundings Map.empty, cw_uuid = [], cw_stdin = [], cw_repr = id, cw_quoted = id,
     cw_net = demo_net ''x'', cw_temp = str ''/tmp'', cw_mkdir = None, cw_fails = (\<lambda>i. None), cw_written = 0,
     cw_unlinks = True\<rparr>"

lemma demo_ask: "ask (demo_world\<lparr>cw_net := demo_net t\<rparr>) cfg (create_session_call n k a) () = (Inr (demo_session t), ())"
proof -
  have ok: "json_ok (JObj (demo_session t))" by (simp add: demo_session_def)
  have st: "json_sorted (JObj (demo_session t)) = JObj (demo_session t)"
    by (simp add: demo_session_def py_simps)
  have lb: "loads_bytes F (map of_nat (dumps True (JObj (demo_session t)))) = Inr (JObj (demo_session t))" for F
    using loads_bytes_dumps [OF ok] unfolding st .
  have ne: "dumps True (JObj (demo_session t)) \<noteq> []" by (simp add: dumps_def)
  show ?thesis
    by (simp add: ask_def perform_def create_session_call_def request_def demo_net_def answer_ok_iff
        answer_of_def read_reply_def is_success_def lb ne)
qed

lemma init_hides_tokens_witness:
  "fst (cmd_init (demo_world\<lparr>cw_net := demo_net ''x''\<rparr>) demo_config None [] [] None False False ())
     = fst (cmd_init (demo_world\<lparr>cw_net := demo_net ''y''\<rparr>) demo_config None [] [] None False False ())"
proof -
  let ?W = "demo_world\<lparr>cw_net := demo_net ''x''\<rparr>" and ?W' = "demo_world\<lparr>cw_net := demo_net ''x''\<rparr>\<lparr>cw_net := demo_net ''y''\<rparr>"
  have d': "ask ?W' demo_config (create_session_call [] [] None) () = (Inr (demo_session ''y''), ())"
    using demo_ask [of "''y''" demo_config "[]" "[]" None] by simp
  have same: "same_but_secrets (demo_session ''x'') (demo_session ''y'')"
    by (simp add: demo_session_def same_but_secrets_def secret_names_def)
  obtain out where o: "fst (cmd_init ?W demo_config None [] [] None False False ()) = Inr out"
    using demo_ask by (simp add: cmd_init_def)
  obtain out' where o': "fst (cmd_init ?W' demo_config None [] [] None False False ()) = Inr out'"
    using d' by (simp add: cmd_init_def)
  from init_hides_tokens [OF demo_ask d' same o o'] o o' show ?thesis by simp
qed

end
