(* ===== verification/RegistryText.thy ===== *)
theory RegistryText
  imports ClientConfig
begin

text \<open>
  How the operator's CLI of the MCP registry (\<open>src/app/cli.py\<close>) reads a client configuration: the
  patterns that find secrets, their placeholders, and the connection recipe made of an entry. The
  Unicode tables behind \<open>\w\<close>, \<open>\d\<close> and \<open>str.lower\<close> outside ASCII are arguments.
\<close>

record CharTables =
  ch_alnum :: "nat \<Rightarrow> bool"
  ch_digit :: "nat \<Rightarrow> nat option"
  ch_lower :: "pystr \<Rightarrow> pystr"

section \<open>Credentials in URIs\<close>

text \<open>
  \<open>([a-zA-Z][a-zA-Z0-9+.-]*)://([^/\s:@]+):([^@/\s]+)@\<close>: no group can end earlier than where its
  characters end, as the next character of the pattern is not one of them.
\<close>

definition user_char :: "nat \<Rightarrow> bool" where
  "user_char c \<longleftrightarrow> c \<noteq> 47 \<and> c \<noteq> 58 \<and> c \<noteq> 64 \<and> \<not> py_space c"

definition password_char :: "nat \<Rightarrow> bool" where
  "password_char c \<longleftrightarrow> c \<noteq> 47 \<and> c \<noteq> 64 \<and> \<not> py_space c"

definition cred_tail :: "pystr \<Rightarrow> (pystr \<times> pystr \<times> pystr) option" where
  "cred_tail s =
     (let u = takeWhile user_char (drop 3 s); f = dropWhile user_char (drop 3 s);
          p = takeWhile password_char (drop 1 f); h = dropWhile password_char (drop 1 f)
      in if take 3 s = str ''://'' \<and> u \<noteq> [] \<and> take 1 f = [58] \<and> p \<noteq> [] \<and> take 1 h = [64]
         then Some (u, p, drop 1 h) else None)"

definition cred_match :: "pystr \<Rightarrow> (pystr \<times> pystr \<times> pystr \<times> pystr) option" where
  "cred_match s =
     (if s \<noteq> [] \<and> is_alpha_ascii (hd s)
      then map_option (Pair (takeWhile scheme_char s)) (cred_tail (dropWhile scheme_char s)) else None)"

lemma cred_tail_shorter: "cred_tail s = Some (u, p, r) \<Longrightarrow> length r < length s"
proof -
  assume t: "cred_tail s = Some (u, p, r)"
  let ?f = "dropWhile user_char (drop 3 s)"
  from t have "r = drop 1 (dropWhile password_char (drop 1 ?f))" and "s \<noteq> []"
    by (auto simp: cred_tail_def Let_def py_simps split: if_splits)
  moreover have "length (drop 1 (dropWhile password_char (drop 1 ?f))) \<le> length ?f - 1 - 1"
    using length_dropWhile_le [of password_char "drop 1 ?f"] by (simp only: length_drop)
  moreover have "length ?f \<le> length s - 3"
    using length_dropWhile_le [of user_char "drop 3 s"] by simp
  ultimately show ?thesis by (cases s) auto
qed

lemma cred_match_shorter: "cred_match s = Some (a, u, p, r) \<Longrightarrow> length r < length s"
  using cred_tail_shorter [of "dropWhile scheme_char s" u p r] length_dropWhile_le [of scheme_char s]
  by (auto simp: cred_match_def split: if_splits)

definition SCHEME_PLACEHOLDER :: "(pystr, pystr) pydict" where
  "SCHEME_PLACEHOLDER =
     [(str ''mongodb'', str ''MONGO''), (str ''mongo'', str ''MONGO''), (str ''postgresql'', str ''PG''),
      (str ''postgres'', str ''PG''), (str ''redis'', str ''REDIS''), (str ''rediss'', str ''REDIS'')]"

definition upper_ascii :: "nat \<Rightarrow> nat" where
  "upper_ascii c = (if 97 \<le> c \<and> c \<le> 122 then c - 32 else c)"

definition pw_placeholder :: "pystr \<Rightarrow> pystr" where
  "pw_placeholder scheme =
     (let stem = (case dict_get SCHEME_PLACEHOLDER (map lower_ascii scheme) of
                    Some s \<Rightarrow> s
                  | None \<Rightarrow> map (\<lambda>c. if c = 45 then 95 else c) (map upper_ascii scheme))
      in str ''<'' @ stem @ str ''_PASSWORD>'')"

function redact_uri_passwords :: "pystr \<Rightarrow> pystr" where
  "redact_uri_passwords s =
     (case cred_match s of
        Some (a, u, p, r) \<Rightarrow> a @ str ''://'' @ u @ 58 # pw_placeholder a @ 64 # redact_uri_passwords r
      | None \<Rightarrow> (case s of [] \<Rightarrow> [] | c # cs \<Rightarrow> c # redact_uri_passwords cs))"
  by pat_completeness auto
termination
  by (relation "measure length") (auto dest: cred_match_shorter)

declare redact_uri_passwords.simps [simp del]

text \<open>\<open>finditer\<close>: the groups of each match with its text\<close>

function uri_creds :: "pystr \<Rightarrow> (pystr \<times> pystr \<times> pystr) list" where
  "uri_creds s =
     (case cred_match s of
        Some (a, u, p, r) \<Rightarrow> (a, u, p) # uri_creds r
      | None \<Rightarrow> (case s of [] \<Rightarrow> [] | c # cs \<Rightarrow> uri_creds cs))"
  by pat_completeness auto
termination
  by (relation "measure length") (auto dest: cred_match_shorter)

declare uri_creds.simps [simp del]

definition cred_text :: "pystr \<times> pystr \<times> pystr \<Rightarrow> pystr" where
  "cred_text m = (case m of (a, u, p) \<Rightarrow> a @ str ''://'' @ u @ 58 # p @ [64])"

section \<open>Names that look secret\<close>

text \<open>Ignoring case, \<open>K\<close>, \<open>S\<close> and \<open>I\<close> also stand for the Kelvin sign, the long s and the Turkish i's.\<close>

definition re_fold :: "nat \<Rightarrow> nat" where
  "re_fold c = (if c = 8490 then 107 else if c = 383 then 115 else if c = 304 \<or> c = 305 then 105
     else lower_ascii c)"

definition mentions :: "pystr list \<Rightarrow> pystr \<Rightarrow> bool" where
  "mentions needles key \<longleftrightarrow> (\<exists>n \<in> set needles. contains n (map re_fold key))"

definition secret_key :: "pystr \<Rightarrow> bool" where
  "secret_key key \<longleftrightarrow> mentions [str ''pass'', str ''token'', str ''secret'', str ''key'', str ''credential''] key"

definition companion_key :: "pystr \<Rightarrow> bool" where
  "companion_key key \<longleftrightarrow>
     mentions [str ''user'', str ''uri'', str ''url'', str ''database'', str ''endpoint'', str ''host''] key"

text \<open>
  \<open>\b([A-Za-z_][A-Za-z0-9_]*)=(\S+)\<close>; the first argument of the scanners tells whether the
  character before is one of \<open>\w\<close>.
\<close>

definition word_char :: "CharTables \<Rightarrow> nat \<Rightarrow> bool" where
  "word_char T c \<longleftrightarrow> (if c < 128 then is_alpha_ascii c \<or> is_digit c \<or> c = 95 else ch_alnum T c)"

definition key_char :: "nat \<Rightarrow> bool" where
  "key_char c \<longleftrightarrow> is_alpha_ascii c \<or> is_digit c \<or> c = 95"

definition keyval_match :: "bool \<Rightarrow> pystr \<Rightarrow> (pystr \<times> pystr \<times> pystr) option" where
  "keyval_match inside s =
     (let k = takeWhile key_char s; r = dropWhile key_char s;
          v = takeWhile (\<lambda>c. \<not> py_space c) (drop 1 r)
      in if \<not> inside \<and> k \<noteq> [] \<and> \<not> is_digit (hd k) \<and> take 1 r = [61] \<and> v \<noteq> []
         then Some (k, v, dropWhile (\<lambda>c. \<not> py_space c) (drop 1 r)) else None)"

lemma keyval_match_shorter: "keyval_match b s = Some (k, v, r) \<Longrightarrow> length r < length s"
proof -
  assume m: "keyval_match b s = Some (k, v, r)"
  let ?r = "dropWhile key_char s"
  from m have "r = dropWhile (\<lambda>c. \<not> py_space c) (drop 1 ?r)" and "takeWhile key_char s \<noteq> []"
    by (auto simp: keyval_match_def Let_def split: if_splits)
  moreover have "length (dropWhile (\<lambda>c. \<not> py_space c) (drop 1 ?r)) \<le> length ?r - 1"
    using length_dropWhile_le [of "\<lambda>c. \<not> py_space c" "drop 1 ?r"] by simp
  moreover have "length ?r \<le> length s" by (rule length_dropWhile_le)
  ultimately show ?thesis by (cases s) auto
qed

function sub_keyvals :: "CharTables \<Rightarrow> bool \<Rightarrow> pystr \<Rightarrow> pystr" where
  "sub_keyvals T inside s =
     (case keyval_match inside s of
        Some (k, v, r) \<Rightarrow>
          k @ 61 # (if secret_key k then str ''<'' @ k @ str ''>'' else v) @ sub_keyvals T (word_char T (last v)) r
      | None \<Rightarrow> (case s of [] \<Rightarrow> [] | c # cs \<Rightarrow> c # sub_keyvals T (word_char T c) cs))"
  by pat_completeness auto
termination
  by (relation "measure (\<lambda>(T, b, s). length s)") (auto dest: keyval_match_shorter)

function keyvals :: "CharTables \<Rightarrow> bool \<Rightarrow> pystr \<Rightarrow> (pystr \<times> pystr) list" where
  "keyvals T inside s =
     (case keyval_match inside s of
        Some (k, v, r) \<Rightarrow> (k, v) # keyvals T (word_char T (last v)) r
      | None \<Rightarrow> (case s of [] \<Rightarrow> [] | c # cs \<Rightarrow> keyvals T (word_char T c) cs))"
  by pat_completeness auto
termination
  by (relation "measure (\<lambda>(T, b, s). length s)") (auto dest: keyval_match_shorter)

declare sub_keyvals.simps [simp del] keyvals.simps [simp del]

section \<open>Sanitizing\<close>

definition sanitize_arg :: "CharTables \<Rightarrow> pystr \<Rightarrow> pystr" where
  "sanitize_arg T arg = sub_keyvals T False (redact_uri_passwords arg)"

definition sanitize_env :: "(pystr, json) pydict \<Rightarrow> (pystr, json) pydict" where
  "sanitize_env env = map (\<lambda>(k, v). (k, case v of
       JStr t \<Rightarrow> JStr (if secret_key k then str ''<'' @ k @ str ''>'' else redact_uri_passwords t)
     | _ \<Rightarrow> v)) env"

section \<open>Inference\<close>

definition CATEGORY_RULES :: "(pystr \<times> pystr) list" where
  "CATEGORY_RULES =
     [(str ''neo4j'', str ''graph''), (str ''redis'', str ''vector''), (str ''valkey'', str ''vector''),
      (str ''minio'', str ''storage''), (str ''aistor'', str ''storage''), (str ''s3'', str ''storage''),
      (str ''mongo'', str ''document''), (str ''postgres'', str ''document''), (str ''pgsql'', str ''document''),
      (str ''mysql'', str ''document''), (str ''mariadb'', str ''document''), (str ''sqlite'', str ''document'')]"

definition infer_category :: "CharTables \<Rightarrow> pystr \<Rightarrow> pystr" where
  "infer_category T name =
     (case find (\<lambda>(needle, category). contains needle (ch_lower T name)) CATEGORY_RULES of
        Some (needle, category) \<Rightarrow> category
      | None \<Rightarrow> str ''utility'')"

text \<open>\<open>(?:127\.0\.0\.1|localhost):(\d{2,5})\<close>\<close>

definition digit_value :: "CharTables \<Rightarrow> nat \<Rightarrow> nat option" where
  "digit_value T c = (if c < 128 then (if is_digit c then Some (c - 48) else None) else ch_digit T c)"

definition port_at :: "CharTables \<Rightarrow> pystr \<Rightarrow> nat option" where
  "port_at T s =
     (let host = (if startswith s (str ''127.0.0.1:'') then 10
                  else if startswith s (str ''localhost:'') then 10 else 0);
          ds = takeWhile (\<lambda>c. digit_value T c \<noteq> None) (take 5 (drop host s))
      in if 0 < host \<and> 2 \<le> length ds
         then Some (foldl (\<lambda>n c. 10 * n + the (digit_value T c)) 0 ds) else None)"

fun tunnel_port :: "CharTables \<Rightarrow> pystr \<Rightarrow> nat option" where
  "tunnel_port T [] = None"
| "tunnel_port T (c # cs) = (case port_at T (c # cs) of Some n \<Rightarrow> Some n | None \<Rightarrow> tunnel_port T cs)"

definition SSH_OPT_WITH_VALUE :: "pystr list" where
  "SSH_OPT_WITH_VALUE = map (\<lambda>c. [45, c]) (str ''bcDEFiJLlmopQRSWw'')"

fun ssh_alias_and_command :: "pystr list \<Rightarrow> pystr \<times> pystr" where
  "ssh_alias_and_command [] = ([], [])"
| "ssh_alias_and_command (token # args) =
     (if token \<in> set SSH_OPT_WITH_VALUE then ssh_alias_and_command (drop 1 args)
      else if startswith token (str ''-'') then ssh_alias_and_command args
      else (token, join (str '' '') args))"

section \<open>Connections\<close>

definition got_json :: "(pystr, json) pydict \<Rightarrow> string \<Rightarrow> json" where
  "got_json d k = get_default d (str k) JNull"

definition is_http_config :: "Foreign \<Rightarrow> CharTables \<Rightarrow> (pystr, json) pydict \<Rightarrow> bool" where
  "is_http_config F T cfg \<longleftrightarrow>
     (let kind = (if py_truthy F (got_json cfg ''type'') then py_str F (got_json cfg ''type'')
                  else if py_truthy F (got_json cfg ''transport'') then py_str F (got_json cfg ''transport'') else [])
      in py_truthy F (got_json cfg ''url'')
         \<or> ch_lower T kind \<in> {str ''http'', str ''sse'', str ''streamable-http''})"

definition text_or_empty :: "Foreign \<Rightarrow> json \<Rightarrow> pystr" where
  "text_or_empty F v = (if py_truthy F v then py_str F v else [])"

text \<open>\<open>[str(a) for a in (cfg.get("args") or [])]\<close> and \<open>cfg.get("env") or {}\<close> used as a dictionary\<close>

definition args_of :: "Foreign \<Rightarrow> (pystr, json) pydict \<Rightarrow> wiki_exn + pystr list" where
  "args_of F cfg = (if py_truthy F (got_json cfg ''args'')
     then bind_res (py_iter (got_json cfg ''args'')) (\<lambda>xs. Inr (map (py_str F) xs)) else Inr [])"

definition env_of :: "Foreign \<Rightarrow> (pystr, json) pydict \<Rightarrow> wiki_exn + (pystr, json) pydict" where
  "env_of F cfg = (if py_truthy F (got_json cfg ''env'')
     then (case got_json cfg ''env'' of JObj d \<Rightarrow> Inr d | _ \<Rightarrow> Inl (PyAttributeError (str ''items''))) else Inr [])"

definition tunnel_of :: "CharTables \<Rightarrow> pystr \<Rightarrow> pystr \<Rightarrow> (pystr, json) pydict" where
  "tunnel_of T name text = (case tunnel_port T text of
     None \<Rightarrow> []
   | Some n \<Rightarrow> if n = 0 then [] else
       [(str ''tunnel'', JObj [(str ''port'', JInt (int n)), (str ''target'', JStr name),
          (str ''opened_by'', JStr (str ''local SSH tunnel''))])])"

definition env_entry :: "(pystr, json) pydict \<Rightarrow> (pystr, json) pydict" where
  "env_entry env = (if env = [] then [] else [(str ''env'', JObj env)])"

definition LOCAL_RUNNERS :: "pystr list" where
  "LOCAL_RUNNERS = [str ''npx'', str ''uvx'', str ''uv'', str ''node'', str ''deno'', str ''bun'']"

definition basename :: "pystr \<Rightarrow> pystr" where
  "basename path = last (split_on 47 path)"

definition infer_connection ::
  "Foreign \<Rightarrow> CharTables \<Rightarrow> pystr \<Rightarrow> (pystr, json) pydict \<Rightarrow> wiki_exn + (pystr, json) pydict" where
  "infer_connection F T name cfg =
     (if is_http_config F T cfg
      then let url = redact_uri_passwords (text_or_empty F (got_json cfg ''url'')) in
        Inr ([(str ''recipe'', JStr (str ''http'')), (str ''url'', JStr url)] @ tunnel_of T name url)
      else let command = text_or_empty F (got_json cfg ''command'') in
     bind_res (args_of F cfg) (\<lambda>args.
     if basename command = str ''ssh'' then
       (case ssh_alias_and_command args of (alias, remote) \<Rightarrow>
       bind_res (env_of F cfg) (\<lambda>env.
       Inr ([(str ''recipe'', JStr (str ''ssh-stdio'')), (str ''command'', JStr (str ''ssh'')),
             (str ''args'', JList (map JStr ((if alias = [] then [] else [alias])
                @ (if remote = [] then [] else [sanitize_arg T remote]))))]
            @ env_entry (sanitize_env env))))
     else
     bind_res (env_of F cfg) (\<lambda>env.
     let haystack = join (str '' '') (command # args @ map (py_str F \<circ> snd) env);
         tunnel = tunnel_of T name haystack;
         recipe = (if tunnel \<noteq> [] then str ''local-tunnel''
                   else if basename command \<in> set LOCAL_RUNNERS then str ''local-npx'' else str ''local-command'')
     in Inr ([(str ''recipe'', JStr recipe), (str ''command'', JStr command),
              (str ''args'', JList (map (JStr \<circ> sanitize_arg T) args))]
             @ tunnel @ env_entry (sanitize_env env)))))"

section \<open>Capturing credentials for the vault\<close>

definition add_env :: "pystr \<Rightarrow> json \<Rightarrow> (pystr, json) pydict \<Rightarrow> (pystr, json) pydict" where
  "add_env k v creds = dict_set (str ''env'')
     (JObj (dict_set k v (case got_json creds ''env'' of JObj d \<Rightarrow> d | _ \<Rightarrow> []))) creds"

definition add_url :: "pystr \<Rightarrow> (pystr, json) pydict \<Rightarrow> (pystr, json) pydict" where
  "add_url u creds =
     (let urls = (case got_json creds ''urls'' of JList xs \<Rightarrow> xs | _ \<Rightarrow> []) in
      dict_set (str ''urls'') (JList (if JStr u \<in> set urls then urls else urls @ [JStr u])) creds)"

definition creds_of_env :: "(pystr, json) pydict \<Rightarrow> (pystr, json) pydict" where
  "creds_of_env env = foldl (\<lambda>creds (k, v). case v of
       JStr t \<Rightarrow> if secret_key k \<or> companion_key k \<or> uri_creds t \<noteq> [] then add_env k v creds else creds
     | _ \<Rightarrow> creds) [] env"

definition creds_of_text :: "CharTables \<Rightarrow> (pystr, json) pydict \<Rightarrow> pystr \<Rightarrow> (pystr, json) pydict" where
  "creds_of_text T creds text =
     foldl (\<lambda>c (k, v). if secret_key k then add_env k (JStr v) c else c)
       (foldl (\<lambda>c m. add_url (cred_text m) c) creds (uri_creds text)) (keyvals T False text)"

definition creds_of_server ::
  "Foreign \<Rightarrow> CharTables \<Rightarrow> (pystr, json) pydict \<Rightarrow> wiki_exn + (pystr, json) pydict" where
  "creds_of_server F T cfg =
     bind_res (env_of F cfg) (\<lambda>env. bind_res (args_of F cfg) (\<lambda>args.
     Inr (foldl (creds_of_text T) (creds_of_env env)
       (args @ (if py_truthy F (got_json cfg ''url'') then [py_str F (got_json cfg ''url'')] else [])))))"

end
