(* ===== verification/McpVault.thy ===== *)
theory McpVault
  imports WikiClient McpRegistry
begin

text \<open>
  The credential vault of the MCP registry, \<open>src/app/mcp_vault.py\<close>: the key derivation, the
  document that is stored, its decryption and its public projection. Fernet of the
  \<open>cryptography\<close> package is an argument, as are the random salt, the current time, and what
  \<open>int\<close>, \<open>repr\<close>, \<open>sorted\<close> and \<open>base64\<close> do with values that are not text.
\<close>

section \<open>Errors and arguments\<close>

datatype vault_exn = VaultError pystr | VaultRaises wiki_exn

record Fernet =
  fe_encrypt :: "pystr \<Rightarrow> bytes \<Rightarrow> bytes"
  fe_decrypt :: "pystr \<Rightarrow> pystr \<Rightarrow> bytes option"

record VaultPy =
  vp_builtins :: Builtins
  vp_float :: "pystr \<Rightarrow> pystr"
  vp_int :: "bson \<Rightarrow> wiki_exn + int"
  vp_repr :: "bson \<Rightarrow> pystr"
  vp_sorted :: "bson \<Rightarrow> wiki_exn + bson"
  vp_salt :: "bson \<Rightarrow> bytes option"

definition VAULT_ID :: pystr where "VAULT_ID = str ''credential_vault''"

definition KDF_NAME :: pystr where "KDF_NAME = str ''PBKDF2-SHA256''"

definition CIPHER_NAME :: pystr where "CIPHER_NAME = str ''fernet''"

definition PBKDF2_ITERATIONS :: int where "PBKDF2_ITERATIONS = 600000"

definition raising :: "wiki_exn + 'a \<Rightarrow> vault_exn + 'a" where
  "raising r = (case r of Inl x \<Rightarrow> Inl (VaultRaises x) | Inr a \<Rightarrow> Inr a)"

section \<open>Key derivation\<close>

text \<open>
  \<open>hashlib.pbkdf2_hmac("sha256", password, salt, n, dklen=32)\<close>: one block, the exclusive or of \<open>n\<close>
  iterated MACs. A count below 1 is a \<open>ValueError\<close>, one that is no 32-bit integer an
  \<open>OverflowError\<close>.
\<close>

fun pbkdf2_rounds :: "bytes \<Rightarrow> nat \<Rightarrow> bytes \<Rightarrow> bytes \<Rightarrow> bytes" where
  "pbkdf2_rounds password 0 u acc = acc"
| "pbkdf2_rounds password (Suc n) u acc =
     (let u' = hmac_sha256 password u in pbkdf2_rounds password n u' (map2 (XOR) acc u'))"

definition pbkdf2 :: "bytes \<Rightarrow> bytes \<Rightarrow> int \<Rightarrow> wiki_exn + bytes" where
  "pbkdf2 password salt n =
     (if n < 1 then Inl (PyValueError (str ''iteration value must be greater than 0.''))
      else if 2147483647 < n then Inl PyOverflowError
      else Inr (pbkdf2_rounds password (nat n) (salt @ [0, 0, 0, 1]) (replicate 32 0)))"

definition derive_key :: "pystr \<Rightarrow> bytes \<Rightarrow> int \<Rightarrow> vault_exn + pystr" where
  "derive_key password salt n =
     (if password = [] then Inl (VaultError (str ''empty vault password''))
      else case utf8_encode password of
        None \<Rightarrow> Inl (VaultRaises PyUnicodeEncodeError)
      | Some pw \<Rightarrow> bind_res (raising (pbkdf2 pw salt n)) (\<lambda>raw. Inr (b64_encode raw)))"

section \<open>Encryption\<close>

text \<open>\<open>base64.b64encode\<close> uses \<open>+\<close> and \<open>/\<close>.\<close>

definition b64_standard :: "bytes \<Rightarrow> pystr" where
  "b64_standard bs = url_translate (b64_encode bs)"

definition payload_text :: "VaultPy \<Rightarrow> (pystr, json) pydict \<Rightarrow> pystr" where
  "payload_text V d = dumps_in spaced False 0 (json_sorted (shown_floats (vp_float V) (JObj d)))"

definition vault_document :: "(pystr, json) pydict \<Rightarrow> int \<Rightarrow> bytes \<Rightarrow> pystr \<Rightarrow> pystr \<Rightarrow> bdoc" where
  "vault_document d n salt blob now =
     [(str ''_id'', BStr VAULT_ID), (str ''kind'', BStr (str ''vault'')), (str ''version'', BInt 1),
      (str ''cipher'', BStr CIPHER_NAME),
      (str ''kdf'', BDoc [(str ''name'', BStr KDF_NAME), (str ''iterations'', BInt n),
         (str ''salt'', BStr (b64_standard salt))]),
      (str ''blob'', BStr blob), (str ''services'', BList (map BStr (sort (map fst d)))),
      (str ''updated_at'', BStr now)]"

definition encrypt_payload ::
  "VaultPy \<Rightarrow> Fernet \<Rightarrow> bytes \<Rightarrow> pystr \<Rightarrow> (pystr, json) pydict \<Rightarrow> pystr \<Rightarrow> int \<Rightarrow> vault_exn + bdoc" where
  "encrypt_payload V fe salt now d password n =
     (if d = [] then Inl (VaultError (str ''vault payload must be a non-empty {service: creds} object''))
      else
     bind_res (derive_key password salt n) (\<lambda>key.
     case utf8_encode (payload_text V d) of
       None \<Rightarrow> Inl (VaultRaises PyUnicodeEncodeError)
     | Some plain \<Rightarrow> Inr (vault_document d n salt (map unat (fe_encrypt fe key plain)) now)))"

section \<open>Decryption\<close>

definition kdf_of :: "VaultPy \<Rightarrow> bdoc \<Rightarrow> bson" where
  "kdf_of V doc = got_or (vp_builtins V) doc ''kdf'' (BDoc [])"

definition got_default :: "bdoc \<Rightarrow> string \<Rightarrow> bson \<Rightarrow> bson" where
  "got_default d key dflt = (case dict_get d (str key) of None \<Rightarrow> dflt | Some v \<Rightarrow> v)"

definition require_fields :: "VaultPy \<Rightarrow> bdoc \<Rightarrow> vault_exn + bdoc \<times> bson" where
  "require_fields V doc =
     (let B = vp_builtins V; blob = got_or B doc ''blob'' (BStr []);
          incomplete = Inl (VaultError (str ''vault document is incomplete (kdf.salt/iterations/blob)''))
      in if \<not> truthy B blob then incomplete
         else
         bind_res (raising (as_doc ''get'' (kdf_of V doc))) (\<lambda>kdf.
         if \<not> truthy B (got kdf ''salt'') \<or> \<not> truthy B (got kdf ''iterations'') then incomplete
         else if got_default kdf ''name'' (BStr KDF_NAME) \<noteq> BStr KDF_NAME
         then Inl (VaultError (str ''unsupported kdf: '' @ vp_repr V (got kdf ''name'')))
         else if got_default doc ''cipher'' (BStr CIPHER_NAME) \<noteq> BStr CIPHER_NAME
         then Inl (VaultError (str ''unsupported cipher: '' @ vp_repr V (got doc ''cipher'')))
         else Inr (kdf, blob)))"

definition decode_salt :: "VaultPy \<Rightarrow> bson \<Rightarrow> vault_exn + bytes" where
  "decode_salt V v =
     (case (case v of BStr s \<Rightarrow> if is_ascii s then a2b 0 0 0 s else None | _ \<Rightarrow> vp_salt V v) of
        Some bs \<Rightarrow> Inr bs
      | None \<Rightarrow> Inl (VaultError (str ''vault kdf.salt is not valid base64'')))"

definition py_int_of :: "VaultPy \<Rightarrow> bson \<Rightarrow> vault_exn + int" where
  "py_int_of V v = (case v of BInt i \<Rightarrow> Inr i | _ \<Rightarrow> raising (vp_int V v))"

definition read_plain :: "bytes \<Rightarrow> vault_exn + (pystr, json) pydict" where
  "read_plain plain =
     (case Option.bind (utf8_decode plain) loads of
        None \<Rightarrow> Inl (VaultError (str ''vault plaintext is not valid JSON''))
      | Some (JObj d) \<Rightarrow> Inr d
      | Some _ \<Rightarrow> Inl (VaultError (str ''vault payload is not a JSON object'')))"

definition decrypt_payload :: "VaultPy \<Rightarrow> Fernet \<Rightarrow> bdoc \<Rightarrow> pystr \<Rightarrow> vault_exn + (pystr, json) pydict" where
  "decrypt_payload V fe doc password =
     bind_res (require_fields V doc) (\<lambda>(kdf, blob).
     bind_res (decode_salt V (got kdf ''salt'')) (\<lambda>salt.
     bind_res (py_int_of V (got kdf ''iterations'')) (\<lambda>n.
     bind_res (derive_key password salt n) (\<lambda>key.
     case blob of
       BStr token \<Rightarrow>
         (if \<not> is_ascii token then Inl (VaultRaises PyUnicodeEncodeError)
          else case fe_decrypt fe key token of
            None \<Rightarrow> Inl (VaultError (str ''decryption failed '' @ 8212 # str '' wrong password or corrupted vault''))
          | Some plain \<Rightarrow> read_plain plain)
     | _ \<Rightarrow> Inl (VaultRaises (PyAttributeError (str ''encode'')))))))"

section \<open>The public projection\<close>

definition sorted_services :: "VaultPy \<Rightarrow> bson \<Rightarrow> vault_exn + bson" where
  "sorted_services V v =
     (case v of
        BList xs \<Rightarrow> (case all_text xs of Some ss \<Rightarrow> Inr (BList (map BStr (sort ss))) | None \<Rightarrow> raising (vp_sorted V v))
      | _ \<Rightarrow> raising (vp_sorted V v))"

definition public_view :: "VaultPy \<Rightarrow> bdoc \<Rightarrow> vault_exn + bdoc" where
  "public_view V doc =
     bind_res (require_fields V doc) (\<lambda>(kdf, blob).
     bind_res (py_int_of V (got kdf ''iterations'')) (\<lambda>n.
     bind_res (sorted_services V (got_or (vp_builtins V) doc ''services'' (BList []))) (\<lambda>services.
     Inr [(str ''version'', got_default doc ''version'' (BInt 1)),
          (str ''cipher'', got_default doc ''cipher'' (BStr CIPHER_NAME)),
          (str ''kdf'', BDoc [(str ''name'', got_default kdf ''name'' (BStr KDF_NAME)), (str ''iterations'', BInt n),
             (str ''salt'', got kdf ''salt'')]),
          (str ''blob'', blob), (str ''services'', services), (str ''updated_at'', got doc ''updated_at'')])))"

section \<open>Round trip\<close>

text \<open>What the vault relies on of Fernet: a token is ASCII and decrypts under its key.\<close>

definition fernet_law :: "Fernet \<Rightarrow> bool" where
  "fernet_law fe \<longleftrightarrow> (\<forall>key plain. is_ascii (map unat (fe_encrypt fe key plain)) \<and> fe_encrypt fe key plain \<noteq> []
     \<and> fe_decrypt fe key (map unat (fe_encrypt fe key plain)) = Some plain)"

end
