(* ===== verification/RegistryCli.thy ===== *)
theory RegistryCli
  imports RegistryText McpVault
begin

text \<open>
  The commands of \<open>mhb-mcp\<close>, the operator's CLI of the MCP registry (\<open>src/app/cli.py\<close>), over the
  registry's collection. The collection is an argument: what each query and each update comes to
  and the collection after it; the parsing of the command line by \<open>argparse\<close> is not modelled.
\<close>

section \<open>State and errors\<close>

text \<open>\<open>CliError\<close>, a \<open>VaultError\<close> that no command catches, and any other exception.\<close>

datatype cli_exn = CliError pystr | CliVault pystr | CliRaises wiki_exn

text \<open>
  The collection of documents: \<open>find_one\<close> and \<open>delete_one\<close> by kind and name, \<open>find_one\<close> by id, the
  servers in the order of the cursor, \<open>update_one\<close> with \<open>$set\<close> by kind and name (with or without
  upsert) and by id (with upsert), and \<open>create_index\<close>.
\<close>

record 'c Collection =
  rg_find :: "bson \<Rightarrow> 'c \<Rightarrow> (wiki_exn + bdoc option) \<times> 'c"
  rg_find_id :: "pystr \<Rightarrow> 'c \<Rightarrow> (wiki_exn + bdoc option) \<times> 'c"
  rg_servers :: "'c \<Rightarrow> (wiki_exn + bdoc list) \<times> 'c"
  rg_set :: "bool \<Rightarrow> bson \<Rightarrow> bdoc \<Rightarrow> 'c \<Rightarrow> (wiki_exn + unit) \<times> 'c"
  rg_set_id :: "pystr \<Rightarrow> bdoc \<Rightarrow> 'c \<Rightarrow> (wiki_exn + unit) \<times> 'c"
  rg_delete :: "bson \<Rightarrow> 'c \<Rightarrow> (wiki_exn + nat) \<times> 'c"
  rg_index :: "'c \<Rightarrow> (wiki_exn + unit) \<times> 'c"
  rg_title :: pystr

text \<open>
  The process: the environment, the files, the clock (now as a document value, now and today in
  ISO form), and what the Python primitives do with values that are not text.
\<close>

record CliMachine =
  cm_env :: "(pystr, pystr) pydict"
  cm_files :: FileSystem
  cm_unreadable :: "pystr \<Rightarrow> pystr option"
  cm_json_error :: "bytes \<Rightarrow> pystr"
  cm_unwritable :: "pystr \<Rightarrow> wiki_exn option"
  cm_now :: bson
  cm_now_iso :: pystr
  cm_today :: pystr
  cm_tables :: CharTables
  cm_foreign :: Foreign
  cm_vault_py :: VaultPy
  cm_fernet :: Fernet
  cm_salt :: bytes
  cm_repr :: "json \<Rightarrow> pystr"
  cm_format :: "nat \<Rightarrow> bson \<Rightarrow> wiki_exn + pystr"
  cm_head :: "nat \<Rightarrow> bson \<Rightarrow> wiki_exn + bson"
  cm_exn_text :: "wiki_exn \<Rightarrow> pystr"

abbreviation builtins_of :: "CliMachine \<Rightarrow> Builtins" where
  "builtins_of M \<equiv> vp_builtins (cm_vault_py M)"

text \<open>A command: the collection and the files it has written, and the lines it has printed.\<close>

record 'c CliState =
  cs_collection :: 'c
  cs_files :: "(pystr, pystr) pydict"
  cs_out :: "pystr list"

type_synonym ('c, 'a) cmd = "'c CliState \<Rightarrow> (cli_exn + 'a) \<times> 'c CliState"

definition cret :: "'a \<Rightarrow> ('c, 'a) cmd" where "cret x s = (Inr x, s)"

definition cfail :: "cli_exn \<Rightarrow> ('c, 'a) cmd" where "cfail e s = (Inl e, s)"

definition clift :: "cli_exn + 'a \<Rightarrow> ('c, 'a) cmd" where "clift r s = (r, s)"

definition cbind :: "('c, 'a) cmd \<Rightarrow> ('a \<Rightarrow> ('c, 'b) cmd) \<Rightarrow> ('c, 'b) cmd" where
  "cbind m f s = (case m s of (Inl e, s') \<Rightarrow> (Inl e, s') | (Inr x, s') \<Rightarrow> f x s')"

definition raised :: "wiki_exn + 'a \<Rightarrow> cli_exn + 'a" where
  "raised r = (case r of Inl x \<Rightarrow> Inl (CliRaises x) | Inr a \<Rightarrow> Inr a)"

definition db :: "('c \<Rightarrow> (wiki_exn + 'a) \<times> 'c) \<Rightarrow> ('c, 'a) cmd" where
  "db oper s = (case oper (cs_collection s) of (r, c) \<Rightarrow> (raised r, s\<lparr>cs_collection := c\<rparr>))"

definition say :: "pystr \<Rightarrow> ('c, unit) cmd" where
  "say line s = (Inr (), s\<lparr>cs_out := cs_out s @ [line]\<rparr>)"

lemma cbind_Inr [res_simps]: "cbind m f s = (Inr y, s') \<longleftrightarrow> (\<exists>x t. m s = (Inr x, t) \<and> f x t = (Inr y, s'))"
  by (auto simp: cbind_def split: prod.splits sum.splits)

lemma cret_eq [res_simps]: "cret x s = (r, s') \<longleftrightarrow> r = Inr x \<and> s' = s"
  by (auto simp: cret_def)

lemma cfail_eq [res_simps]: "cfail e s = (r, s') \<longleftrightarrow> r = Inl e \<and> s' = s"
  by (auto simp: cfail_def)

lemma clift_eq [res_simps]: "clift a s = (r, s') \<longleftrightarrow> a = r \<and> s' = s"
  by (auto simp: clift_def)

lemma say_eq [res_simps]: "say l s = (r, s') \<longleftrightarrow> r = Inr () \<and> s' = s\<lparr>cs_out := cs_out s @ [l]\<rparr>"
  by (auto simp: say_def)

lemma db_Inr [res_simps]:
  "db oper s = (Inr x, s') \<longleftrightarrow> (\<exists>c. oper (cs_collection s) = (Inr x, c) \<and> s' = s\<lparr>cs_collection := c\<rparr>)"
  by (auto simp: db_def raised_def split: prod.splits sum.splits)

section \<open>Values\<close>

fun bson_of :: "json \<Rightarrow> bson" where
  "bson_of JNull = BNull"
| "bson_of (JBool b) = BBool b"
| "bson_of (JInt i) = BInt i"
| "bson_of (JFloat t) = BFloat t"
| "bson_of (JStr s) = BStr s"
| "bson_of (JList xs) = BList (map bson_of xs)"
| "bson_of (JObj kvs) = BDoc (map (\<lambda>(k, v). (k, bson_of v)) kvs)"

definition bdoc_of :: "(pystr, json) pydict \<Rightarrow> bdoc" where
  "bdoc_of d = map (\<lambda>(k, v). (k, bson_of v)) d"

text \<open>What \<open>json.dumps(default=str)\<close> writes for a document value.\<close>

fun json_of :: "Builtins \<Rightarrow> bson \<Rightarrow> json" where
  "json_of B BNull = JNull"
| "json_of B (BBool b) = JBool b"
| "json_of B (BInt i) = JInt i"
| "json_of B (BFloat t) = JFloat t"
| "json_of B (BStr s) = JStr s"
| "json_of B (BList xs) = JList (map (json_of B) xs)"
| "json_of B (BDoc kvs) = JObj (map (\<lambda>(k, v). (k, json_of B v)) kvs)"
| "json_of B (BDate m) = JStr (py_show B (BDate m))"
| "json_of B (BOther t) = JStr (py_show B (BOther t))"

definition pretty :: "CliMachine \<Rightarrow> bson \<Rightarrow> pystr" where
  "pretty M v = dumps_in indented False 0 (shown_floats (vp_float (cm_vault_py M)) (json_of (builtins_of M) v))"

text \<open>\<open>d.update(other)\<close>\<close>

definition dict_update :: "('k, 'v) pydict \<Rightarrow> ('k, 'v) pydict \<Rightarrow> ('k, 'v) pydict" where
  "dict_update d e = foldl (\<lambda>m (k, v). dict_set k v m) d e"

definition env_value :: "CliMachine \<Rightarrow> string \<Rightarrow> pystr" where
  "env_value M name = (case dict_get (cm_env M) (str name) of None \<Rightarrow> [] | Some v \<Rightarrow> v)"

section \<open>Target and files\<close>

definition resolve_mongo_uri :: "CliMachine \<Rightarrow> pystr \<Rightarrow> cli_exn + pystr" where
  "resolve_mongo_uri M flag =
     (if flag \<noteq> [] then Inr flag
      else if strip (env_value M ''MHB_MONGO_URI'') \<noteq> [] then Inr (strip (env_value M ''MHB_MONGO_URI''))
      else if env_value M ''MONGO_PASSWORD'' \<noteq> []
      then Inr (str ''mongodb://mongo:'' @ env_value M ''MONGO_PASSWORD''
        @ str ''@127.0.0.1:37017/?authSource=admin&directConnection=true'')
      else Inl (CliError (str ''no Mongo target: set MHB_MONGO_URI, pass --mongo-uri, or set ''
        @ str ''MONGO_PASSWORD for the macbook tunnel default (127.0.0.1:37017)'')))"

definition read_json_file :: "CliMachine \<Rightarrow> pystr \<Rightarrow> cli_exn + json" where
  "read_json_file M path =
     (let failed = (\<lambda>why. Inl (CliError (str ''cannot read '' @ path @ str '': '' @ why)))
      in case cm_files M path of
        None \<Rightarrow> failed (str ''[Errno 2] No such file or directory: '' @ cm_repr M (JStr path))
      | Some (m, bs) \<Rightarrow>
          (case cm_unreadable M path of
             Some why \<Rightarrow> failed why
           | None \<Rightarrow> (case Option.bind (utf8_decode bs) (loads \<circ> universal_newlines) of
                        None \<Rightarrow> failed (cm_json_error M bs)
                      | Some j \<Rightarrow> Inr j)))"

definition parse_value :: "pystr \<Rightarrow> json" where
  "parse_value raw = (case loads raw of None \<Rightarrow> JStr raw | Some j \<Rightarrow> j)"

section \<open>Registry documents\<close>

definition META_ID :: pystr where "META_ID = str ''manifest_meta''"

definition name_key :: "bdoc \<Rightarrow> bson" where
  "name_key d = (case dict_get d (str ''name'') of None \<Rightarrow> BStr [] | Some v \<Rightarrow> v)"

definition text_key :: "bdoc \<Rightarrow> pystr" where
  "text_key d = (case name_key d of BStr s \<Rightarrow> s | _ \<Rightarrow> [])"

definition by_name :: "Builtins \<Rightarrow> bdoc list \<Rightarrow> wiki_exn + bdoc list" where
  "by_name B docs = (case all_text (map name_key docs) of
       Some _ \<Rightarrow> Inr (sort_key text_key docs)
     | None \<Rightarrow> py_sorted B (map (\<lambda>d. (name_key d, d)) docs))"

definition all_servers :: "CliMachine \<Rightarrow> 'c Collection \<Rightarrow> ('c, bdoc list) cmd" where
  "all_servers M K = cbind (db (rg_servers K)) (\<lambda>docs. clift (raised (by_name (builtins_of M) docs)))"

definition touch_meta_updated :: "CliMachine \<Rightarrow> 'c Collection \<Rightarrow> ('c, unit) cmd" where
  "touch_meta_updated M K = db (rg_set_id K META_ID [(str ''updated'', BStr (cm_today M))])"

definition public_doc :: "bdoc \<Rightarrow> bdoc" where
  "public_doc d = filter (\<lambda>(k, v). k \<noteq> str ''_id'' \<and> k \<noteq> str ''kind'') d"

definition stamped :: "CliMachine \<Rightarrow> bdoc \<Rightarrow> bdoc" where
  "stamped M d = dict_set (str ''updated_at'') (cm_now M) (dict_set (str ''kind'') (BStr (str ''server'')) d)"

section \<open>seed\<close>

definition seed_entry :: "CliMachine \<Rightarrow> 'c Collection \<Rightarrow> json \<Rightarrow> ('c, unit) cmd" where
  "seed_entry M K entry =
     (case entry of
        JObj d \<Rightarrow>
          (let name = get_default d (str ''name'') JNull in
           if \<not> py_truthy (cm_foreign M) name
           then cfail (CliError (str ''server entry without a name: '' @ cm_repr M entry))
           else db (rg_set K True (bson_of name) (stamped M (bdoc_of d))))
      | _ \<Rightarrow> cfail (CliRaises (PyAttributeError (str ''get''))))"

fun each :: "('a \<Rightarrow> ('c, unit) cmd) \<Rightarrow> 'a list \<Rightarrow> ('c, unit) cmd" where
  "each f [] = cret ()"
| "each f (x # xs) = cbind (f x) (\<lambda>_. each f xs)"

definition cmd_seed :: "CliMachine \<Rightarrow> 'c Collection \<Rightarrow> pystr \<Rightarrow> ('c, int) cmd" where
  "cmd_seed M K path =
     cbind (clift (read_json_file M path)) (\<lambda>manifest.
     let d = as_object manifest; entries = (case get_default d (str ''servers'') JNull of JList xs \<Rightarrow> xs | _ \<Rightarrow> []) in
     if entries = []
     then cfail (CliError (str ''manifest has no non-empty '' @ 39 # str ''servers'' @ 39 # str '' list''))
     else
     cbind (db (rg_index K)) (\<lambda>_.
     cbind (each (seed_entry M K) entries) (\<lambda>_.
     cbind (db (rg_set_id K META_ID
       [(str ''kind'', BStr (str ''meta'')),
        (str ''schema'', bson_of (get_default d (str ''schema'') (JStr SCHEMA))),
        (str ''site'', bson_of (get_default d (str ''site'') (JStr SITE))),
        (str ''notes'', bson_of (get_default d (str ''notes'') (JList []))),
        (str ''updated'', bson_of (get_default d (str ''updated'') (JStr (cm_today M))))])) (\<lambda>_.
     cbind (say (str ''seeded '' @ int_dec (int (length entries)) @ str '' servers into '' @ rg_title K)) (\<lambda>_.
     cret 0)))))"

section \<open>list, show, upsert, remove\<close>

definition padded :: "CliMachine \<Rightarrow> nat \<Rightarrow> bson \<Rightarrow> wiki_exn + pystr" where
  "padded M n v = (case v of BStr s \<Rightarrow> Inr (s @ replicate (n - length s) 32) | _ \<Rightarrow> cm_format M n v)"

definition list_row :: "CliMachine \<Rightarrow> bdoc \<Rightarrow> wiki_exn + pystr" where
  "list_row M d =
     (let B = builtins_of M in
     bind_res (case got_or B d ''description'' (BStr []) of BStr s \<Rightarrow> Inr (BStr (take 60 s)) | v \<Rightarrow> cm_head M 60 v) (\<lambda>desc.
     bind_res (padded M 22 (name_key d)) (\<lambda>a.
     bind_res (padded M 14 (got_or B d ''status'' (BStr (str ''-'')))) (\<lambda>b.
     bind_res (padded M 14 (got_or B d ''verified_at'' (BStr (str ''-'')))) (\<lambda>c.
     bind_res (padded M 14 (got_or B d ''category'' (BStr (str ''-'')))) (\<lambda>e.
     Inr (a @ b @ c @ e @ show_value B desc)))))))"

definition list_header :: pystr where
  "list_header = str ''NAME'' @ replicate 18 32 @ str ''STATUS'' @ replicate 8 32 @ str ''VERIFIED_AT'' @ replicate 3 32
     @ str ''CATEGORY'' @ replicate 6 32 @ str ''DESCRIPTION''"

definition cmd_list :: "CliMachine \<Rightarrow> 'c Collection \<Rightarrow> bool \<Rightarrow> ('c, int) cmd" where
  "cmd_list M K json =
     cbind (all_servers M K) (\<lambda>docs.
     let servers = map public_doc docs in
     if json then cbind (say (pretty M (BList (map BDoc servers)))) (\<lambda>_. cret 0)
     else if servers = []
     then cbind (say (str ''(registry empty '' @ 8212 # str '' run: mhb-mcp seed manifest.json)'')) (\<lambda>_. cret 0)
     else
     cbind (say list_header) (\<lambda>_.
     cbind (each (\<lambda>d. cbind (clift (raised (list_row M d))) say) servers) (\<lambda>_. cret 0)))"

definition no_such_server :: "pystr \<Rightarrow> cli_exn" where
  "no_such_server name = CliError (str ''no such server: '' @ name)"

definition cmd_show :: "CliMachine \<Rightarrow> 'c Collection \<Rightarrow> pystr \<Rightarrow> ('c, int) cmd" where
  "cmd_show M K name =
     cbind (db (rg_find K (BStr name))) (\<lambda>found.
     case found of
       None \<Rightarrow> cfail (no_such_server name)
     | Some doc \<Rightarrow> cbind (say (pretty M (BDoc (public_doc doc)))) (\<lambda>_. cret 0))"

definition set_pair :: "CliMachine \<Rightarrow> pystr \<Rightarrow> bdoc \<Rightarrow> cli_exn + bdoc" where
  "set_pair M pair doc =
     (if 61 \<notin> set pair \<or> before (\<lambda>c. c = 61) pair = []
      then Inl (CliError (str ''--set expects key=value, got: '' @ cm_repr M (JStr pair)))
      else Inr (dict_set (before (\<lambda>c. c = 61) pair) (bson_of (parse_value (after (\<lambda>c. c = 61) pair))) doc))"

fun set_pairs :: "CliMachine \<Rightarrow> pystr list \<Rightarrow> bdoc \<Rightarrow> cli_exn + bdoc" where
  "set_pairs M [] doc = Inr doc"
| "set_pairs M (pair # pairs) doc = bind_res (set_pair M pair doc) (set_pairs M pairs)"

definition file_fields :: "CliMachine \<Rightarrow> pystr option \<Rightarrow> bdoc \<Rightarrow> cli_exn + bdoc" where
  "file_fields M file doc =
     (case file of
        None \<Rightarrow> Inr doc
      | Some path \<Rightarrow>
          (if path = [] then Inr doc
           else bind_res (read_json_file M path) (\<lambda>j.
             case j of JObj d \<Rightarrow> Inr (dict_update doc (bdoc_of d))
             | _ \<Rightarrow> Inl (CliError (str ''upsert file must contain a JSON object'')))))"

definition cmd_upsert ::
  "CliMachine \<Rightarrow> 'c Collection \<Rightarrow> pystr \<Rightarrow> pystr option \<Rightarrow> pystr list \<Rightarrow> ('c, int) cmd" where
  "cmd_upsert M K name file pairs =
     cbind (db (rg_find K (BStr name))) (\<lambda>found.
     let existing = (case found of None \<Rightarrow> [] | Some d \<Rightarrow> d) in
     cbind (clift (file_fields M file (public_doc existing))) (\<lambda>doc0.
     cbind (clift (set_pairs M pairs doc0)) (\<lambda>doc1.
     let doc2 = dict_set (str ''name'') (BStr name) doc1;
         doc3 = (if dict_get doc2 (str ''status'') = None
                 then dict_set (str ''status'') (BStr (str ''available'')) doc2 else doc2);
         doc = stamped M doc3
     in
     cbind (db (rg_set K True (BStr name) doc)) (\<lambda>_.
     cbind (touch_meta_updated M K) (\<lambda>_.
     cbind (say (str (if existing = [] then ''created '' else ''updated '') @ name @ str '' (status=''
       @ show_value (builtins_of M) (got doc ''status'') @ str '')'')) (\<lambda>_.
     cret 0))))))"

definition cmd_remove :: "CliMachine \<Rightarrow> 'c Collection \<Rightarrow> pystr \<Rightarrow> ('c, int) cmd" where
  "cmd_remove M K name =
     cbind (db (rg_delete K (BStr name))) (\<lambda>deleted.
     if deleted = 0 then cfail (no_such_server name)
     else
     cbind (touch_meta_updated M K) (\<lambda>_.
     cbind (say (str ''removed '' @ name)) (\<lambda>_. cret 0)))"

section \<open>import\<close>

definition mcp_servers_map :: "json \<Rightarrow> pystr \<Rightarrow> cli_exn + (pystr, json) pydict" where
  "mcp_servers_map data path =
     (let none_found = Inl (CliError (path @ str '': no '' @ 39 # str ''mcpServers'' @ 39 # str '' object found''));
          is_object = (\<lambda>j. case j of JObj _ \<Rightarrow> True | _ \<Rightarrow> False)
      in case data of
        JObj d \<Rightarrow>
          (case get_default d (str ''mcpServers'') JNull of
             JObj servers \<Rightarrow> Inr servers
           | _ \<Rightarrow> if d \<noteq> [] \<and> (\<forall>v \<in> set (dict_values d). is_object v) then Inr d else none_found)
      | _ \<Rightarrow> none_found)"

definition imported_doc ::
  "CliMachine \<Rightarrow> pystr \<Rightarrow> pystr \<Rightarrow> (pystr, json) pydict \<Rightarrow> bdoc \<Rightarrow> wiki_exn + bdoc" where
  "imported_doc M path name cfg existing =
     (let F = cm_foreign M; T = cm_tables M;
          doc1 = dict_set (str ''name'') (BStr name) (public_doc existing);
          doc2 = dict_set (str ''transport'') (BStr (if is_http_config F T cfg then str ''http'' else str ''stdio'')) doc1;
          doc3 = dict_set (str ''category'') (got_or (builtins_of M) existing ''category'' (BStr (infer_category T name))) doc2
      in bind_res (infer_connection F T name cfg) (\<lambda>connection.
      let doc4 = dict_set (str ''connection'') (BDoc (bdoc_of connection)) doc3;
          doc5 = (if existing = []
            then dict_set (str ''description'') (BStr (str ''Imported from '' @ basename path))
                   (dict_set (str ''status'') (BStr (str ''available'')) doc4)
            else doc4)
      in Inr (stamped M doc5)))"

definition connection_recipe :: "bdoc \<Rightarrow> bson" where
  "connection_recipe doc = (case got doc ''connection'' of BDoc d \<Rightarrow> got d ''recipe'' | _ \<Rightarrow> BNull)"

definition import_one :: "CliMachine \<Rightarrow> 'c Collection \<Rightarrow> pystr \<Rightarrow> pystr \<Rightarrow> json \<Rightarrow> ('c, bool) cmd" where
  "import_one M K path name cfg =
     (case cfg of
        JObj d \<Rightarrow>
          cbind (db (rg_find K (BStr name))) (\<lambda>found.
          let existing = (case found of None \<Rightarrow> [] | Some e \<Rightarrow> e) in
          cbind (clift (raised (imported_doc M path name d existing))) (\<lambda>doc.
          cbind (db (rg_set K True (BStr name) doc)) (\<lambda>_.
          cbind (say (str (if existing = [] then ''created '' else ''updated '') @ name @ str '' (''
            @ show_value (builtins_of M) (got doc ''category'') @ str '', ''
            @ show_value (builtins_of M) (connection_recipe doc) @ str '')'')) (\<lambda>_.
          cret (existing = [])))))
      | _ \<Rightarrow> cfail (CliError (path @ str '': server '' @ cm_repr M (JStr name) @ str '' is not a JSON object'')))"

fun import_all ::
  "CliMachine \<Rightarrow> 'c Collection \<Rightarrow> pystr \<Rightarrow> (pystr, json) pydict \<Rightarrow> nat \<Rightarrow> nat \<Rightarrow> ('c, nat \<times> nat) cmd" where
  "import_all M K path [] created updated = cret (created, updated)"
| "import_all M K path ((name, cfg) # rest) created updated =
     cbind (import_one M K path name cfg) (\<lambda>fresh.
     import_all M K path rest (created + (if fresh then 1 else 0)) (updated + (if fresh then 0 else 1)))"

definition cmd_import :: "CliMachine \<Rightarrow> 'c Collection \<Rightarrow> pystr \<Rightarrow> ('c, int) cmd" where
  "cmd_import M K path =
     cbind (clift (bind_res (read_json_file M path) (\<lambda>data. mcp_servers_map data path))) (\<lambda>servers.
     cbind (import_all M K path (sort_key fst servers) 0 0) (\<lambda>(created, updated).
     cbind (touch_meta_updated M K) (\<lambda>_.
     cbind (say (str ''imported '' @ int_dec (int (created + updated)) @ str '' servers from '' @ path @ str '' (''
       @ int_dec (int created) @ str '' new, '' @ int_dec (int updated) @ str '' updated)'')) (\<lambda>_.
     cret 0))))"

end
