(* ===== verification/RegistryOps.thy ===== *)
theory RegistryOps
  imports RegistryCli
begin

text \<open>
  The remaining commands of \<open>mhb-mcp\<close> (\<open>src/app/cli.py\<close>): the credential vault, the reachability
  probes and their record, the export, and the exit code. The network is an argument.
\<close>

section \<open>vault\<close>

definition vault_password :: "CliMachine \<Rightarrow> pystr \<Rightarrow> cli_exn + pystr" where
  "vault_password M flag =
     (let password = (if flag \<noteq> [] then flag else env_value M ''MHB_VAULT_PASSWORD'') in
      if password = []
      then Inl (CliError (str ''vault password required: --password or MHB_VAULT_PASSWORD env''))
      else Inr password)"

definition extract_credentials :: "CliMachine \<Rightarrow> json \<Rightarrow> cli_exn + (pystr, json) pydict" where
  "extract_credentials M data =
     bind_res (mcp_servers_map data (str ''<mcp-json>'')) (\<lambda>servers.
     bind_res (map_res (\<lambda>(name, cfg). case cfg of
         JObj d \<Rightarrow> bind_res (raised (creds_of_server (cm_foreign M) (cm_tables M) d)) (\<lambda>c. Inr (name, c))
       | _ \<Rightarrow> Inl (CliRaises (PyAttributeError (str ''get'')))) servers) (\<lambda>found.
     Inr (map (\<lambda>(name, c). (name, JObj c)) (filter (\<lambda>(name, c). c \<noteq> []) found))))"

definition extract_mc_alias :: "CliMachine \<Rightarrow> json \<Rightarrow> pystr \<Rightarrow> cli_exn + (pystr, json) pydict" where
  "extract_mc_alias M mc_config alias =
     (let F = cm_foreign M;
          truthy_object = (\<lambda>j. if \<not> py_truthy F j then Inr []
            else case j of JObj d \<Rightarrow> Inr d | _ \<Rightarrow> Inl (CliRaises (PyAttributeError (str ''get''))))
      in bind_res (truthy_object mc_config) (\<lambda>config.
     bind_res (truthy_object (get_default config (str ''aliases'') JNull)) (\<lambda>aliases.
     let entry = get_default aliases alias JNull in
     if \<not> py_truthy F entry
     then Inl (CliError (str ''mc config has no alias '' @ cm_repr M (JStr alias) @ str '' (have: ''
       @ join (str '', '') (sort (map fst aliases)) @ str '')''))
     else case entry of
       JObj d \<Rightarrow> Inr [(str ''endpoint'', get_default d (str ''url'') JNull),
         (str ''access_key'', get_default d (str ''accessKey'') JNull),
         (str ''secret_key'', get_default d (str ''secretKey'') JNull)]
     | _ \<Rightarrow> Inl (CliRaises (PyAttributeError (str ''get''))))))"

function deep_merge :: "(pystr, json) pydict \<Rightarrow> (pystr, json) pydict \<Rightarrow> (pystr, json) pydict" where
  "deep_merge base [] = base"
| "deep_merge base ((k, v) # extra) =
     deep_merge
       (dict_set k
         (case v of
            JObj e \<Rightarrow> (case dict_get base k of Some (JObj b) \<Rightarrow> JObj (deep_merge b e) | _ \<Rightarrow> v)
          | _ \<Rightarrow> v) base)
       extra"
  by pat_completeness auto
termination
  by (relation "measure (\<lambda>(b, e). size (JObj e))") auto

record VaultArgs =
  va_password :: pystr
  va_file :: pystr
  va_from_mcp_json :: pystr
  va_mc_config :: pystr
  va_mc_alias :: pystr
  va_mc_service :: pystr
  va_set :: "pystr list"

definition set_field :: "CliMachine \<Rightarrow> (pystr, json) pydict \<Rightarrow> pystr \<Rightarrow> cli_exn + (pystr, json) pydict" where
  "set_field M payload pair =
     (let lhs = before (\<lambda>c. c = 61) pair; raw = after (\<lambda>c. c = 61) pair;
          service = before (\<lambda>c. c = 46) lhs; field = after (\<lambda>c. c = 46) lhs
      in if 61 \<notin> set pair \<or> 46 \<notin> set lhs \<or> service = [] \<or> field = []
         then Inl (CliError (str ''--set expects service.field=value, got: '' @ cm_repr M (JStr pair)))
         else case get_default payload service (JObj []) of
           JObj d \<Rightarrow> Inr (dict_set service (JObj (dict_set field (parse_value raw) d)) payload)
         | _ \<Rightarrow> Inl (CliRaises (PyTypeError (str ''object does not support item assignment''))))"

fun set_fields :: "CliMachine \<Rightarrow> (pystr, json) pydict \<Rightarrow> pystr list \<Rightarrow> cli_exn + (pystr, json) pydict" where
  "set_fields M payload [] = Inr payload"
| "set_fields M payload (pair # pairs) = bind_res (set_field M payload pair) (\<lambda>p. set_fields M p pairs)"

definition load_seed_payload :: "CliMachine \<Rightarrow> VaultArgs \<Rightarrow> cli_exn + (pystr, json) pydict" where
  "load_seed_payload M a =
     bind_res (if va_file a = [] then Inr []
               else bind_res (read_json_file M (va_file a)) (\<lambda>j. case j of
                   JObj d \<Rightarrow> Inr (deep_merge [] d)
                 | _ \<Rightarrow> Inl (CliError (str ''vault seed file must contain a JSON object {service: creds}'')))) (\<lambda>p1.
     bind_res (if va_from_mcp_json a = [] then Inr p1
               else bind_res (read_json_file M (va_from_mcp_json a)) (\<lambda>j.
                    bind_res (extract_credentials M j) (\<lambda>c. Inr (deep_merge p1 c)))) (\<lambda>p2.
     bind_res (if va_mc_config a = [] then Inr p2
               else bind_res (read_json_file M (va_mc_config a)) (\<lambda>j.
                    bind_res (extract_mc_alias M j (va_mc_alias a)) (\<lambda>c.
                    Inr (deep_merge p2 [(if va_mc_service a \<noteq> [] then va_mc_service a else va_mc_alias a, JObj c)])))) (\<lambda>p3.
     bind_res (set_fields M p3 (va_set a)) (\<lambda>payload.
     if payload = []
     then Inl (CliError (str ''empty vault payload '' @ 8212 # str '' pass --file, --from-mcp-json, --mc-config or --set''))
     else Inr payload))))"

definition vault_raised :: "vault_exn + 'a \<Rightarrow> cli_exn + 'a" where
  "vault_raised r = (case r of
       Inl (VaultError m) \<Rightarrow> Inl (CliVault m) | Inl (VaultRaises x) \<Rightarrow> Inl (CliRaises x)
     | Inr a \<Rightarrow> Inr a)"

definition vault_reported :: "vault_exn + 'a \<Rightarrow> cli_exn + 'a" where
  "vault_reported r = (case r of
       Inl (VaultError m) \<Rightarrow> Inl (CliError m) | Inl (VaultRaises x) \<Rightarrow> Inl (CliRaises x) | Inr a \<Rightarrow> Inr a)"

definition cmd_vault_init :: "CliMachine \<Rightarrow> 'c Collection \<Rightarrow> VaultArgs \<Rightarrow> ('c, int) cmd" where
  "cmd_vault_init M K a =
     cbind (clift (load_seed_payload M a)) (\<lambda>payload.
     cbind (clift (vault_password M (va_password a))) (\<lambda>password.
     cbind (clift (vault_raised (encrypt_payload (cm_vault_py M) (cm_fernet M) (cm_salt M) (cm_now_iso M) payload
       password PBKDF2_ITERATIONS))) (\<lambda>doc.
     cbind (db (rg_set_id K VAULT_ID doc)) (\<lambda>_.
     cbind (touch_meta_updated M K) (\<lambda>_.
     cbind (say (str ''vault initialized: '' @ int_dec (int (length payload)) @ str '' services (''
       @ join (str '', '') (sort (map fst payload)) @ str '') '' @ 8212
       # str '' ciphertext stored in Mongo, plaintext nowhere'')) (\<lambda>_.
     cret 0))))))"

definition vault_doc :: "'c Collection \<Rightarrow> ('c, bdoc) cmd" where
  "vault_doc K =
     cbind (db (rg_find_id K VAULT_ID)) (\<lambda>found.
     case found of
       Some (kv # doc) \<Rightarrow> cret (kv # doc)
     | _ \<Rightarrow> cfail (CliError (str ''vault not initialized '' @ 8212 # str '' run: mhb-mcp vault init'')))"

definition sorted_text :: "CliMachine \<Rightarrow> json \<Rightarrow> pystr" where
  "sorted_text M j = dumps_in indented False 0 (json_sorted (shown_floats (vp_float (cm_vault_py M)) j))"

definition cmd_vault_unlock :: "CliMachine \<Rightarrow> 'c Collection \<Rightarrow> pystr \<Rightarrow> ('c, int) cmd" where
  "cmd_vault_unlock M K flag =
     cbind (vault_doc K) (\<lambda>doc.
     cbind (clift (vault_password M flag)) (\<lambda>password.
     cbind (clift (vault_reported (decrypt_payload (cm_vault_py M) (cm_fernet M) doc password))) (\<lambda>payload.
     cbind (say (sorted_text M (JObj payload))) (\<lambda>_. cret 0))))"

text \<open>Values that \<open>json.dumps\<close> takes without a default.\<close>

fun serializable :: "bson \<Rightarrow> bool" where
  "serializable (BDate m) \<longleftrightarrow> False"
| "serializable (BOther t) \<longleftrightarrow> False"
| "serializable (BList xs) \<longleftrightarrow> (\<forall>x \<in> set xs. serializable x)"
| "serializable (BDoc kvs) \<longleftrightarrow> (\<forall>(k, v) \<in> set kvs. serializable v)"
| "serializable v \<longleftrightarrow> True"

text \<open>\<open>len(view["blob"])\<close>: text, the only kind of blob that \<open>vault init\<close> stores, or the length Python gives.\<close>

definition cmd_vault_show :: "CliMachine \<Rightarrow> 'c Collection \<Rightarrow> (bson \<Rightarrow> wiki_exn + nat) \<Rightarrow> ('c, int) cmd" where
  "cmd_vault_show M K py_len =
     cbind (vault_doc K) (\<lambda>doc.
     cbind (clift (vault_raised (public_view (cm_vault_py M) doc))) (\<lambda>view.
     cbind (clift (raised (case got view ''blob'' of BStr s \<Rightarrow> Inr (length s) | v \<Rightarrow> py_len v))) (\<lambda>n.
     let shown = BDoc (dict_set (str ''blob'')
       (BStr (str ''<'' @ int_dec (int n) @ str '' chars of fernet ciphertext>'')) view)
     in if \<not> serializable shown
        then cfail (CliRaises (PyTypeError (str ''Object is not JSON serializable'')))
        else cbind (say (sorted_text M (json_of (builtins_of M) shown))) (\<lambda>_. cret 0))))"

section \<open>verify\<close>

text \<open>
  One probe: a TCP connection or an HTTP request succeeds or raises (the text is the class and the
  message); \<open>ssh\<close> ends with a code and what it wrote to the standard error, or raises.
\<close>

record Network =
  nt_tcp :: "int \<Rightarrow> pystr option"
  nt_http :: "bson \<Rightarrow> pystr + int"
  nt_ssh :: "pystr \<Rightarrow> pystr + int \<times> pystr"

definition probe_ssh :: "Network \<Rightarrow> pystr \<Rightarrow> pystr + unit" where
  "probe_ssh N alias =
     (case nt_ssh N alias of
        Inl raise \<Rightarrow> Inl raise
      | Inr (code, stderr) \<Rightarrow>
          (if code = 0 then Inr ()
           else let t = take 200 (strip stderr) in
             Inl (str ''CliError: '' @ (if t = [] then str ''ssh failed'' else t))))"

datatype probe_result = ProbeOk | ProbeFail | ProbeSkip

definition probed :: "pystr + 'a \<Rightarrow> ('a \<Rightarrow> pystr) \<Rightarrow> probe_result \<times> pystr" where
  "probed r detail = (case r of Inl why \<Rightarrow> (ProbeFail, take 300 why) | Inr a \<Rightarrow> (ProbeOk, detail a))"

text \<open>\<open>port_of\<close> is \<open>int(tunnel.get("port", 0))\<close>, or the text of what it raises.\<close>

definition port_of :: "CliMachine \<Rightarrow> bson \<Rightarrow> pystr + int" where
  "port_of M tunnel =
     (case tunnel of
        BDoc d \<Rightarrow> (case got_default d ''port'' (BInt 0) of
                     BInt i \<Rightarrow> Inr i
                   | v \<Rightarrow> (case vp_int (cm_vault_py M) v of Inr i \<Rightarrow> Inr i | Inl x \<Rightarrow> Inl (cm_exn_text M x)))
      | _ \<Rightarrow> Inl (cm_exn_text M (PyAttributeError (str ''get''))))"

definition probe_server :: "CliMachine \<Rightarrow> Network \<Rightarrow> bdoc \<Rightarrow> wiki_exn + probe_result \<times> pystr" where
  "probe_server M N server =
     (let B = builtins_of M in
     bind_res (as_doc ''get'' (got_or B server ''connection'' (BDoc []))) (\<lambda>connection.
     let recipe = got_default connection ''recipe'' (BStr []) in Inr (
     if recipe = BStr (str ''local-tunnel'') then
       (case port_of M (got_or B connection ''tunnel'' (BDoc [])) of
          Inl why \<Rightarrow> (ProbeFail, take 300 why)
        | Inr port \<Rightarrow>
            (if port = 0 then (ProbeSkip, str ''local-tunnel without tunnel.port'')
             else probed (case nt_tcp N port of None \<Rightarrow> Inr () | Some why \<Rightarrow> Inl why)
                    (\<lambda>_. str ''tcp 127.0.0.1:'' @ int_dec port @ str '' connect'')))
     else if recipe = BStr (str ''http'') then
       (let url = got_default connection ''url'' (BStr []) in
        if \<not> truthy B url then (ProbeSkip, str ''http recipe without url'')
        else probed (nt_http N url) (\<lambda>code. str ''GET '' @ show_value B url @ str '' -> HTTP '' @ int_dec code))
     else if recipe = BStr (str ''ssh-stdio'') then
       (case got_or B connection ''args'' (BList []) of
          BList [] \<Rightarrow> (ProbeSkip, str ''ssh-stdio without ssh alias in args[0]'')
        | BList (a # _) \<Rightarrow> probed (probe_ssh N (show_value B a)) (\<lambda>_. str ''ssh '' @ show_value B a @ str '' true'')
        | BStr (c # _) \<Rightarrow> probed (probe_ssh N [c]) (\<lambda>_. str ''ssh '' @ [c] @ str '' true'')
        | BDoc _ \<Rightarrow> (ProbeFail, take 300 (cm_exn_text M (PyKeyError (str ''0''))))
        | _ \<Rightarrow> (ProbeFail, take 300 (cm_exn_text M (PyTypeError (str ''object is not subscriptable'')))))
     else (ProbeSkip, str ''recipe '' @ vp_repr (cm_vault_py M) recipe @ str '' has no probe (local command)''))))"

definition probe_update :: "CliMachine \<Rightarrow> probe_result \<Rightarrow> pystr \<Rightarrow> bdoc" where
  "probe_update M result detail =
     [(str ''updated_at'', cm_now M)]
     @ (case result of
          ProbeOk \<Rightarrow> [(str ''status'', BStr (str ''verified'')), (str ''verified_at'', BStr (cm_today M)),
            (str ''last_probe_at'', BStr (cm_now_iso M)), (str ''notes'', BStr (str ''probe ok: '' @ detail))]
        | ProbeFail \<Rightarrow> [(str ''status'', BStr (str ''unreachable'')), (str ''last_probe_at'', BStr (cm_now_iso M)),
            (str ''notes'', BStr (str ''probe failed: '' @ detail))]
        | ProbeSkip \<Rightarrow> [(str ''notes'', BStr (str ''probe skipped: '' @ detail))])"

definition record_probe :: "CliMachine \<Rightarrow> 'c Collection \<Rightarrow> bson \<Rightarrow> probe_result \<Rightarrow> pystr \<Rightarrow> ('c, unit) cmd" where
  "record_probe M K name result detail = db (rg_set K False name (probe_update M result detail))"

definition probe_mark :: "probe_result \<Rightarrow> pystr" where
  "probe_mark r = (case r of ProbeOk \<Rightarrow> str ''OK  '' | ProbeFail \<Rightarrow> str ''FAIL'' | ProbeSkip \<Rightarrow> str ''SKIP'')"

text \<open>The targets in turn, each with the network it meets; the number of failures.\<close>

fun verify_each ::
  "CliMachine \<Rightarrow> 'c Collection \<Rightarrow> (nat \<Rightarrow> Network) \<Rightarrow> nat \<Rightarrow> bdoc list \<Rightarrow> nat \<Rightarrow> ('c, nat) cmd" where
  "verify_each M K N i [] failures = cret failures"
| "verify_each M K N i (server # rest) failures =
     cbind (clift (raised (probe_server M (N i) server))) (\<lambda>(result, detail).
     let name = got_default server ''name'' (BStr (str ''?'')) in
     cbind (record_probe M K name result detail) (\<lambda>_.
     cbind (clift (raised (padded M 22 name))) (\<lambda>shown.
     cbind (say (probe_mark result @ 32 # shown @ detail)) (\<lambda>_.
     verify_each M K N (Suc i) rest (if result = ProbeFail then Suc failures else failures)))))"

definition cmd_verify :: "CliMachine \<Rightarrow> 'c Collection \<Rightarrow> (nat \<Rightarrow> Network) \<Rightarrow> pystr \<Rightarrow> ('c, int) cmd" where
  "cmd_verify M K N name =
     cbind (if name = [] then all_servers M K
            else cbind (db (rg_find K (BStr name))) (\<lambda>found. case found of
                None \<Rightarrow> cfail (no_such_server name) | Some doc \<Rightarrow> cret [doc])) (\<lambda>targets.
     if targets = [] then cbind (say (str ''(registry empty)'')) (\<lambda>_. cret 0)
     else
     cbind (verify_each M K N 0 targets 0) (\<lambda>failures.
     cbind (touch_meta_updated M K) (\<lambda>_.
     cret (if failures = 0 then 0 else 1))))"

section \<open>export\<close>

definition EXPORT_DROP :: "pystr list" where
  "EXPORT_DROP = [str ''kind'', str ''_id'', str ''updated_at'', str ''last_probe_at'']"

definition exported_doc :: "bdoc \<Rightarrow> bdoc" where
  "exported_doc d = filter (\<lambda>(k, v). k \<notin> set EXPORT_DROP) (public_doc d)"

definition write_file :: "CliMachine \<Rightarrow> pystr \<Rightarrow> pystr \<Rightarrow> ('c, unit) cmd" where
  "write_file M path body s =
     (case cm_unwritable M path of
        Some x \<Rightarrow> (Inl (CliRaises x), s)
      | None \<Rightarrow>
          (if utf8_encode body = None
           then (Inl (CliRaises PyUnicodeEncodeError), s\<lparr>cs_files := dict_set path [] (cs_files s)\<rparr>)
           else (Inr (), s\<lparr>cs_files := dict_set path body (cs_files s)\<rparr>)))"

definition cmd_export :: "CliMachine \<Rightarrow> 'c Collection \<Rightarrow> pystr \<Rightarrow> ('c, int) cmd" where
  "cmd_export M K out =
     cbind (db (rg_find_id K META_ID)) (\<lambda>found.
     cbind (all_servers M K) (\<lambda>docs.
     let servers = map exported_doc docs in
     cbind (clift (raised (build_manifest (builtins_of M) servers (case found of None \<Rightarrow> [] | Some m \<Rightarrow> m)
       (cm_today M)))) (\<lambda>manifest.
     let body = pretty M (BDoc manifest) @ [10] in
     if out \<noteq> []
     then cbind (write_file M out body) (\<lambda>_.
       cbind (say (str ''wrote '' @ out @ str '' ('' @ int_dec (int (length servers)) @ str '' servers)'')) (\<lambda>_. cret 0))
     else cbind (say (pretty M (BDoc manifest))) (\<lambda>_. cret 0))))"

section \<open>The program\<close>

datatype RegistryCommand =
    RcSeed pystr
  | RcList bool
  | RcShow pystr
  | RcUpsert pystr "pystr option" "pystr list"
  | RcRemove pystr
  | RcImport pystr
  | RcVerify pystr
  | RcExport pystr
  | RcVaultInit VaultArgs
  | RcVaultUnlock pystr
  | RcVaultShow

definition registry_command ::
  "CliMachine \<Rightarrow> 'c Collection \<Rightarrow> (nat \<Rightarrow> Network) \<Rightarrow> (bson \<Rightarrow> wiki_exn + nat) \<Rightarrow> RegistryCommand \<Rightarrow> ('c, int) cmd" where
  "registry_command M K N py_len cmd =
     (case cmd of
        RcSeed path \<Rightarrow> cmd_seed M K path
      | RcList json \<Rightarrow> cmd_list M K json
      | RcShow name \<Rightarrow> cmd_show M K name
      | RcUpsert name file pairs \<Rightarrow> cmd_upsert M K name file pairs
      | RcRemove name \<Rightarrow> cmd_remove M K name
      | RcImport path \<Rightarrow> cmd_import M K path
      | RcVerify name \<Rightarrow> cmd_verify M K N name
      | RcExport out \<Rightarrow> cmd_export M K out
      | RcVaultInit a \<Rightarrow> cmd_vault_init M K a
      | RcVaultUnlock flag \<Rightarrow> cmd_vault_unlock M K flag
      | RcVaultShow \<Rightarrow> cmd_vault_show M K py_len)"

text \<open>The collection behind a URI is an argument; every error is one line and exit code 1.\<close>

definition registry_main ::
  "CliMachine \<Rightarrow> (pystr \<Rightarrow> wiki_exn + 'c Collection) \<Rightarrow> (nat \<Rightarrow> Network) \<Rightarrow> (bson \<Rightarrow> wiki_exn + nat) \<Rightarrow> pystr
     \<Rightarrow> RegistryCommand \<Rightarrow> 'c CliState \<Rightarrow> (int \<times> pystr) \<times> 'c CliState" where
  "registry_main M connect N py_len flag cmd s =
     (case cbind (clift (bind_res (resolve_mongo_uri M flag) (\<lambda>uri. raised (connect uri))))
             (\<lambda>K. registry_command M K N py_len cmd) s of
        (Inr code, s') \<Rightarrow> ((code, []), s')
      | (Inl (CliError msg), s') \<Rightarrow> ((1, str ''mhb-mcp: error: '' @ msg), s')
      | (Inl (CliVault msg), s') \<Rightarrow> ((1, str ''mhb-mcp: error: VaultError: '' @ msg), s')
      | (Inl (CliRaises x), s') \<Rightarrow> ((1, str ''mhb-mcp: error: '' @ cm_exn_text M x), s'))"

end
