(* ===== verification/RegistryTextProps.thy ===== *)
theory RegistryTextProps
  imports RegistryText
begin

text \<open>
  What redaction does to a text: the credential URIs it finds afterwards are the ones it found
  before, each with the placeholder of its scheme for a password.
\<close>

section \<open>The pattern\<close>

lemma takeWhile_stop: "\<not> Q x \<Longrightarrow> takeWhile Q (w @ x # y) = takeWhile Q (w @ x # z)"
  and dropWhile_stop: "\<not> Q x \<Longrightarrow> take 1 (dropWhile Q (w @ x # y)) = take 1 (dropWhile Q (w @ x # z))"
  by (induction w) auto

lemma takeWhile_run: "\<forall>c \<in> set w. Q c \<Longrightarrow> \<not> Q x \<Longrightarrow> takeWhile Q (w @ x # y) = w \<and> dropWhile Q (w @ x # y) = x # y"
  by (induction w) auto

lemma char_classes:
  "scheme_char c \<Longrightarrow> user_char c" "\<not> scheme_char 58" "\<not> scheme_char 47" "\<not> user_char 58" "\<not> user_char 47"
  "\<not> password_char 47" "\<not> password_char 64" "is_alpha_ascii c \<Longrightarrow> scheme_char c" "\<not> is_alpha_ascii 58"
  "\<not> is_alpha_ascii 47" "\<not> is_alpha_ascii 64"
  by (auto simp: scheme_char_def user_char_def password_char_def is_alpha_ascii_def is_digit_def py_space_def)

lemma cred_tail_build:
  assumes "u \<noteq> []" "\<forall>c \<in> set u. user_char c" "p \<noteq> []" "\<forall>c \<in> set p. password_char c"
  shows "cred_tail (58 # 47 # 47 # u @ 58 # p @ 64 # r) = Some (u, p, r)"
  using takeWhile_run [OF assms(2), of 58 "p @ 64 # r"] takeWhile_run [OF assms(4), of 64 r] assms(1,3)
  by (simp add: cred_tail_def char_classes py_simps)

lemma take_1_Cons: "take 1 xs = [y] \<Longrightarrow> xs = y # drop 1 xs"
  by (cases xs) auto

lemma cred_tail_split:
  assumes "cred_tail s = Some (u, p, r)"
  shows "s = 58 # 47 # 47 # u @ 58 # p @ 64 # r \<and> u \<noteq> [] \<and> (\<forall>c \<in> set u. user_char c)
    \<and> p \<noteq> [] \<and> (\<forall>c \<in> set p. password_char c)"
proof -
  let ?f = "dropWhile user_char (drop 3 s)"
  let ?h = "dropWhile password_char (drop 1 ?f)"
  from assms have u: "u = takeWhile user_char (drop 3 s)" "u \<noteq> []" and p: "p = takeWhile password_char (drop 1 ?f)" "p \<noteq> []"
    and s: "take 3 s = [58, 47, 47]" and f: "take 1 ?f = [58]" and h: "take 1 ?h = [64]" "r = drop 1 ?h"
    by (auto simp: cred_tail_def Let_def py_simps split: if_splits)
  have "?h = 64 # r" using take_1_Cons [OF h(1)] h(2) by simp
  moreover have "drop 1 ?f = p @ ?h" unfolding p(1) by simp
  moreover have "?f = 58 # drop 1 ?f" using f by (rule take_1_Cons)
  moreover have "drop 3 s = u @ ?f" unfolding u(1) by simp
  moreover have "s = [58, 47, 47] @ drop 3 s" using append_take_drop_id [of 3 s] s by simp
  ultimately have "s = 58 # 47 # 47 # u @ 58 # p @ 64 # r" by simp
  then show ?thesis using u p by (auto dest: set_takeWhileD)
qed

lemma cred_match_build:
  assumes "a \<noteq> []" "is_alpha_ascii (hd a)" "\<forall>c \<in> set a. scheme_char c"
    and "u \<noteq> []" "\<forall>c \<in> set u. user_char c" "p \<noteq> []" "\<forall>c \<in> set p. password_char c"
  shows "cred_match (a @ str ''://'' @ u @ 58 # p @ 64 # r) = Some (a, u, p, r)"
  using takeWhile_run [OF assms(3), of 58 "47 # 47 # u @ 58 # p @ 64 # r"] cred_tail_build [OF assms(4-7), of r] assms(1,2)
  by (simp add: cred_match_def char_classes py_simps)

lemma cred_match_split:
  assumes "cred_match s = Some (a, u, p, r)"
  shows "s = a @ str ''://'' @ u @ 58 # p @ 64 # r \<and> a \<noteq> [] \<and> is_alpha_ascii (hd a) \<and> (\<forall>c \<in> set a. scheme_char c)
    \<and> u \<noteq> [] \<and> (\<forall>c \<in> set u. user_char c) \<and> p \<noteq> [] \<and> (\<forall>c \<in> set p. password_char c)"
proof -
  from assms have s: "s \<noteq> []" "is_alpha_ascii (hd s)" and a: "a = takeWhile scheme_char s"
    and t: "cred_tail (dropWhile scheme_char s) = Some (u, p, r)"
    by (auto simp: cred_match_def split: if_splits)
  note tail = cred_tail_split [OF t]
  have "s = a @ dropWhile scheme_char s" unfolding a by simp
  moreover have "a \<noteq> []" "hd a = hd s" using s char_classes(8) by (cases s; simp add: a)+
  ultimately show ?thesis using s tail a by (auto simp: py_simps dest: set_takeWhileD)
qed

lemma placeholder_chars: "\<forall>c \<in> set a. scheme_char c \<Longrightarrow> \<forall>c \<in> set (pw_placeholder a). password_char c"
proof -
  assume a: "\<forall>c \<in> set a. scheme_char c"
  have up: "password_char (upper_ascii c)" if "scheme_char c" for c
    using that by (auto simp: scheme_char_def password_char_def upper_ascii_def is_alpha_ascii_def is_digit_def py_space_def)
  moreover have "password_char 95" by (simp add: password_char_def py_space_def)
  moreover have "\<forall>c \<in> set v. password_char c" if "dict_get SCHEME_PLACEHOLDER k = Some v" for k v
    using that by (auto simp: SCHEME_PLACEHOLDER_def py_simps password_char_def py_space_def split: if_splits)
  moreover have "\<forall>c \<in> set (str ''<'') \<union> set (str ''_PASSWORD>''). password_char c"
    by (simp add: py_simps password_char_def py_space_def)
  ultimately show ?thesis using a
    by (auto simp: pw_placeholder_def Let_def split: option.splits)
qed

lemma placeholder_ne: "pw_placeholder a \<noteq> []"
  by (simp add: pw_placeholder_def Let_def)

section \<open>Redaction\<close>

lemma redact_Some: "cred_match s = Some (a, u, p, r) \<Longrightarrow>
    redact_uri_passwords s = a @ str ''://'' @ u @ 58 # pw_placeholder a @ 64 # redact_uri_passwords r"
  and redact_Cons: "cred_match (c # cs) = None \<Longrightarrow> redact_uri_passwords (c # cs) = c # redact_uri_passwords cs"
  and redact_Nil: "redact_uri_passwords [] = []"
  by (simp_all add: redact_uri_passwords.simps [of s] redact_uri_passwords.simps [of "c # cs"]
      redact_uri_passwords.simps [of "[]"] cred_match_def)

lemma creds_Some: "cred_match s = Some (a, u, p, r) \<Longrightarrow> uri_creds s = (a, u, p) # uri_creds r"
  and creds_Cons: "cred_match (c # cs) = None \<Longrightarrow> uri_creds (c # cs) = uri_creds cs"
  and creds_Nil: "uri_creds [] = []"
  by (simp_all add: uri_creds.simps [of s] uri_creds.simps [of "c # cs"] uri_creds.simps [of "[]"] cred_match_def)

text \<open>Reading a text match by match.\<close>

lemma text_induct [case_names Nil Match Char]:
  assumes "P []" and "\<And>s a u p r. cred_match s = Some (a, u, p, r) \<Longrightarrow> P r \<Longrightarrow> P s"
    and "\<And>c cs. cred_match (c # cs) = None \<Longrightarrow> P cs \<Longrightarrow> P (c # cs)"
  shows "P s"
proof (induction s rule: length_induct)
  case (1 s)
  show ?case
  proof (cases "cred_match s")
    case None
    with 1 assms(1,3) show ?thesis by (cases s) auto
  next
    case (Some x)
    with 1 assms(2) cred_match_shorter show ?thesis by (cases x) blast
  qed
qed

lemma redact_runs:
  assumes "\<not> Q 47"
  shows "takeWhile Q (redact_uri_passwords s) = takeWhile Q s
    \<and> take 1 (dropWhile Q (redact_uri_passwords s)) = take 1 (dropWhile Q s)"
proof (induction s rule: text_induct)
  case (Match s a u p r)
  have "s = (a @ [58]) @ 47 # 47 # u @ 58 # p @ 64 # r"
    using cred_match_split [OF Match(1)] by (simp add: py_simps)
  moreover have "redact_uri_passwords s = (a @ [58]) @ 47 # 47 # u @ 58 # pw_placeholder a @ 64 # redact_uri_passwords r"
    by (simp add: redact_Some [OF Match(1)] py_simps)
  ultimately show ?case using assms takeWhile_stop dropWhile_stop by metis
qed (simp_all add: redact_Nil redact_Cons)

lemma redact_after:
  assumes "\<And>c. scheme_char c \<Longrightarrow> Q c" and "\<not> Q 58"
  shows "dropWhile Q (redact_uri_passwords s) = redact_uri_passwords (dropWhile Q s)
    \<or> cred_tail (dropWhile Q s) \<noteq> None \<and> take 3 (dropWhile Q (redact_uri_passwords s)) = [58, 47, 47]"
proof (induction s rule: text_induct)
  case (Match s a u p r)
  note m = cred_match_split [OF Match(1)]
  with assms(1) have a: "\<forall>c \<in> set a. Q c" by blast
  have "s = a @ 58 # 47 # 47 # u @ 58 # p @ 64 # r" using m by (simp add: py_simps)
  then have "dropWhile Q s = 58 # 47 # 47 # u @ 58 # p @ 64 # r" using takeWhile_run [OF a assms(2)] by simp
  moreover have "redact_uri_passwords s = a @ 58 # 47 # 47 # u @ 58 # pw_placeholder a @ 64 # redact_uri_passwords r"
    by (simp add: redact_Some [OF Match(1)] py_simps)
  then have "take 3 (dropWhile Q (redact_uri_passwords s)) = [58, 47, 47]" using takeWhile_run [OF a assms(2)] by simp
  ultimately show ?case using cred_tail_build m by simp
qed (auto simp: redact_Nil redact_Cons)

lemma redact_plain: "\<not> is_alpha_ascii c \<Longrightarrow> redact_uri_passwords (c # cs) = c # redact_uri_passwords cs"
  by (rule redact_Cons) (simp add: cred_match_def)

lemma redact_head: "take 1 (redact_uri_passwords s) = take 1 s"
  using redact_runs [of "\<lambda>c. False" s] by simp

lemma redact_plain_head:
  "redact_uri_passwords s = c # t \<Longrightarrow> \<not> is_alpha_ascii c \<Longrightarrow> \<exists>cs. s = c # cs \<and> t = redact_uri_passwords cs"
  using redact_head [of s] redact_plain [of c] by (cases s) (auto simp: redact_Nil)

lemma redact_tail:
  assumes "cred_tail d = None"
  shows "cred_tail (redact_uri_passwords d) = None"
proof (rule ccontr)
  assume "cred_tail (redact_uri_passwords d) \<noteq> None"
  then obtain u p r where "cred_tail (redact_uri_passwords d) = Some (u, p, r)" by (cases "cred_tail (redact_uri_passwords d)") auto
  note t = cred_tail_split [OF this]
  then obtain e where d: "d = 58 # 47 # 47 # e" and e: "redact_uri_passwords e = u @ 58 # p @ 64 # r"
    using redact_plain_head char_classes by metis
  have u: "takeWhile user_char e = u" "dropWhile user_char (redact_uri_passwords e) = 58 # p @ 64 # r"
    using redact_runs [of user_char e] e takeWhile_run [of u user_char 58 "p @ 64 # r"] t char_classes by auto
  have "hd p \<noteq> 47" using t char_classes(6) by (cases p) auto
  then have "take 3 (dropWhile user_char (redact_uri_passwords e)) \<noteq> [58, 47, 47]"
    using u(2) t by (cases p) auto
  with redact_after [of user_char e] char_classes
  have "redact_uri_passwords (dropWhile user_char e) = 58 # p @ 64 # r" using u(2) by auto
  then obtain g where g: "dropWhile user_char e = 58 # g" "redact_uri_passwords g = p @ 64 # r"
    using redact_plain_head char_classes by metis
  have "takeWhile password_char g = p" "take 1 (dropWhile password_char g) = [64]"
    using redact_runs [of password_char g] g(2) takeWhile_run [of p password_char 64 r] t char_classes by auto
  then have "cred_tail d \<noteq> None" using d u(1) g(1) t by (simp add: cred_tail_def py_simps)
  with assms show False by simp
qed

lemma redact_no_match:
  assumes "cred_match (c # cs) = None"
  shows "cred_match (c # redact_uri_passwords cs) = None"
proof (cases "is_alpha_ascii c")
  case True
  with assms have "cred_tail (dropWhile scheme_char cs) = None"
    by (simp add: cred_match_def char_classes)
  with redact_after [of scheme_char cs] char_classes redact_tail
  have "cred_tail (dropWhile scheme_char (redact_uri_passwords cs)) = None" by metis
  with True show ?thesis by (simp add: cred_match_def char_classes)
qed (simp add: cred_match_def)

lemma redacted_creds:
  "uri_creds (redact_uri_passwords s) = map (\<lambda>(a, u, p). (a, u, pw_placeholder a)) (uri_creds s)"
proof (induction s rule: text_induct)
  case (Match s a u p r)
  note m = cred_match_split [OF Match(1)]
  have "cred_match (redact_uri_passwords s) = Some (a, u, pw_placeholder a, redact_uri_passwords r)"
    unfolding redact_Some [OF Match(1)]
    by (rule cred_match_build) (use m placeholder_chars placeholder_ne in auto)
  with Match show ?case by (simp add: creds_Some)
next
  case (Char c cs)
  then show ?case by (simp add: redact_Cons creds_Cons redact_no_match)
qed (simp add: redact_Nil creds_Nil)

section \<open>Every credential of the form is found\<close>

text \<open>
  A text holds the credential of a URI, written down apart from the scanner: somewhere in it stands a
  scheme, \<open>://\<close>, a user, a colon, a password and an at sign.
\<close>

definition holds_credential :: "pystr \<Rightarrow> pystr \<Rightarrow> pystr \<Rightarrow> pystr \<Rightarrow> bool" where
  "holds_credential t a u pw \<longleftrightarrow> (\<exists>front rear. t = front @ a @ str ''://'' @ u @ str '':'' @ pw @ str ''@'' @ rear)
     \<and> a \<noteq> [] \<and> is_alpha_ascii (hd a) \<and> (\<forall>c \<in> set a. is_alpha_ascii c \<or> is_digit c \<or> c \<in> set (str ''+.-''))
     \<and> u \<noteq> [] \<and> (\<forall>c \<in> set u. c \<notin> set (str ''/:@'') \<and> \<not> py_space c)
     \<and> pw \<noteq> [] \<and> (\<forall>c \<in> set pw. c \<notin> set (str ''/@'') \<and> \<not> py_space c)"

lemma unique_mark:
  assumes "58 \<notin> set (a0 :: nat list)" and "xs @ 58 # 47 # 47 # z = a0 @ 58 # 47 # 47 # w"
  shows "xs = a0 \<and> z = w \<or> (\<exists>ys. xs = a0 @ 58 # 47 # 47 # ys \<and> w = ys @ 58 # 47 # 47 # z)"
proof -
  from assms obtain us where us: "xs = a0 @ us" "us @ 58 # 47 # 47 # z = 58 # 47 # 47 # w"
    by (auto simp: append_eq_append_conv2 Cons_eq_append_conv)
  then show ?thesis by (auto simp: append_eq_Cons_conv)
qed

lemma after_credential:
  assumes "47 \<notin> set m" and "m @ 64 # r = ys @ 58 # 47 # 47 # (z :: nat list)"
  shows "\<exists>rest. ys = m @ 64 # rest \<and> r = rest @ 58 # 47 # 47 # z"
  using assms
proof (induction m arbitrary: ys)
  case Nil
  then show ?case by (cases ys) auto
next
  case (Cons c m)
  show ?case
  proof (cases ys)
    case Nil
    with Cons.prems show ?thesis by (cases m) auto
  next
    case (Cons d ds)
    with Cons.prems Cons.IH [of ds] show ?thesis by auto
  qed
qed

lemma scheme_after_at:
  assumes "64 \<notin> set a" and "front @ a = m @ 64 # rest"
  shows "\<exists>b. rest = b @ (a :: nat list)"
  using assms by (auto simp: append_eq_append_conv2 append_eq_Cons_conv Cons_eq_append_conv)

lemma credential_chars:
  "scheme_char c \<longleftrightarrow> is_alpha_ascii c \<or> is_digit c \<or> c \<in> set (str ''+.-'')"
  "user_char c \<longleftrightarrow> c \<notin> set (str ''/:@'') \<and> \<not> py_space c"
  "password_char c \<longleftrightarrow> c \<notin> set (str ''/@'') \<and> \<not> py_space c"
  by (auto simp: scheme_char_def user_char_def password_char_def py_simps)

lemma holds_credential_iff:
  "holds_credential t a u pw \<longleftrightarrow> (\<exists>front rear. t = front @ a @ 58 # 47 # 47 # u @ 58 # pw @ 64 # rear)
     \<and> a \<noteq> [] \<and> is_alpha_ascii (hd a) \<and> (\<forall>c \<in> set a. scheme_char c)
     \<and> u \<noteq> [] \<and> (\<forall>c \<in> set u. user_char c) \<and> pw \<noteq> [] \<and> (\<forall>c \<in> set pw. password_char c)"
  unfolding holds_credential_def credential_chars by (simp add: str_Cons)

lemma holds_credential_chars:
  assumes "holds_credential t a u pw"
  shows "a \<noteq> []" "is_alpha_ascii (hd a)" "\<forall>c \<in> set a. scheme_char c" "u \<noteq> []" "\<forall>c \<in> set u. user_char c"
    "pw \<noteq> []" "\<forall>c \<in> set pw. password_char c"
  using assms unfolding holds_credential_iff by blast+

lemma same_credential:
  assumes "\<forall>c \<in> set u. user_char c" "\<forall>c \<in> set pw. password_char c"
    and "\<forall>c \<in> set u'. user_char c" "\<forall>c \<in> set pw'. password_char c"
    and "u @ 58 # pw @ 64 # r = u' @ 58 # pw' @ 64 # r'"
  shows "u = u' \<and> pw = pw'"
proof -
  have "takeWhile user_char (u @ 58 # pw @ 64 # r) = u" "takeWhile user_char (u' @ 58 # pw' @ 64 # r') = u'"
    using takeWhile_run [OF assms(1)] takeWhile_run [OF assms(3)] char_classes(4) by blast+
  then have u: "u = u'" unfolding assms(5) by (rule trans [OF sym])
  with assms(5) have rest: "pw @ 64 # r = pw' @ 64 # r'" by simp
  have "takeWhile password_char (pw @ 64 # r) = pw" "takeWhile password_char (pw' @ 64 # r') = pw'"
    using takeWhile_run [OF assms(2)] takeWhile_run [OF assms(4)] char_classes(7) by blast+
  then have "pw = pw'" unfolding rest by (rule trans [OF sym])
  with u show ?thesis ..
qed

lemma credential_found:
  "holds_credential t a u pw \<Longrightarrow> \<exists>a'. (a', u, pw) \<in> set (uri_creds t)"
proof (induction t rule: text_induct)
  case Nil
  then show ?case by (simp add: holds_credential_iff)
next
  case (Char c cs)
  note chars = holds_credential_chars [OF Char.prems]
  from Char.prems obtain front rear where
    t: "c # cs = front @ a @ 58 # 47 # 47 # u @ 58 # pw @ 64 # rear" by (auto simp: holds_credential_iff)
  have "front \<noteq> []"
    using cred_match_build [OF chars, of rear] Char.hyps t by (auto simp: py_simps)
  with t obtain f where "cs = f @ a @ 58 # 47 # 47 # u @ 58 # pw @ 64 # rear" by (cases front) auto
  with chars have "holds_credential cs a u pw" unfolding holds_credential_iff by blast
  with Char.IH Char.hyps show ?case by (simp add: creds_Cons)
next
  case (Match t a0 u0 p0 r)
  note chars = holds_credential_chars [OF Match.prems] and split = cred_match_split [OF Match.hyps]
  from Match.prems obtain front rear where
    t: "t = front @ a @ 58 # 47 # 47 # u @ 58 # pw @ 64 # rear" by (auto simp: holds_credential_iff)
  have a: "64 \<notin> set a" and a0: "58 \<notin> set a0"
    using chars(3) split by (auto simp: scheme_char_def is_alpha_ascii_def is_digit_def)
  have creds: "uri_creds t = (a0, u0, p0) # uri_creds r" using creds_Some [OF Match.hyps] .
  have "(front @ a) @ 58 # 47 # 47 # (u @ 58 # pw @ 64 # rear) = a0 @ 58 # 47 # 47 # (u0 @ 58 # p0 @ 64 # r)"
    using t split by (simp add: str_Cons)
  from unique_mark [OF a0 this] show ?case
  proof (elim disjE exE conjE)
    assume "u @ 58 # pw @ 64 # rear = u0 @ 58 # p0 @ 64 # r"
    with same_credential [OF chars(5,7) _ _ this] split show ?thesis unfolding creds by auto
  next
    fix ys
    assume front: "front @ a = a0 @ 58 # 47 # 47 # ys"
      and r: "u0 @ 58 # p0 @ 64 # r = ys @ 58 # 47 # 47 # u @ 58 # pw @ 64 # rear"
    have slash: "47 \<notin> set (u0 @ 58 # p0)" using split by (auto simp: user_char_def password_char_def)
    from after_credential [OF slash, of r ys] r obtain rest where
      rest: "ys = (u0 @ 58 # p0) @ 64 # rest" "r = rest @ 58 # 47 # 47 # u @ 58 # pw @ 64 # rear" by auto
    from front rest(1) have "front @ a = (a0 @ 58 # 47 # 47 # u0 @ 58 # p0) @ 64 # rest" by simp
    from scheme_after_at [OF a this] obtain b where "rest = b @ a" ..
    with rest(2) have "r = b @ a @ 58 # 47 # 47 # u @ 58 # pw @ 64 # rear" by simp
    with chars have "holds_credential r a u pw" unfolding holds_credential_iff by blast
    from Match.IH [OF this] show ?thesis unfolding creds by auto
  qed
qed

text \<open>So what a redacted text holds in the place of a password is a placeholder.\<close>

lemma redacted_credential:
  assumes "holds_credential (redact_uri_passwords t) a u pw"
  shows "\<exists>stem. pw = str ''<'' @ stem @ str ''_PASSWORD>''"
proof -
  from credential_found [OF assms] obtain a' where "(a', u, pw) \<in> set (uri_creds (redact_uri_passwords t))" ..
  then have "pw = pw_placeholder a'" unfolding redacted_creds by auto
  then show ?thesis by (auto simp: pw_placeholder_def Let_def)
qed

text \<open>A name looks secret when one of five words is in it, in either case.\<close>

definition secret_words :: "pystr list" where
  "secret_words = [str ''pass'', str ''token'', str ''secret'', str ''key'', str ''credential'']"

definition looks_secret :: "pystr \<Rightarrow> bool" where
  "looks_secret k \<longleftrightarrow> (\<exists>front x rear. k = front @ x @ rear \<and> map lower_ascii x \<in> set secret_words)"

lemma contains_front: "contains w (w @ rear)"
  by (cases "w @ rear") (simp_all add: startswith_def, metis append_eq_conv_conj)

lemma contains_middle: "contains w (front @ w @ rear)"
  by (induction front) (simp_all add: contains_front)

lemma looks_secret_key:
  assumes "looks_secret k"
  shows "secret_key k"
proof -
  from assms obtain front x rear where k: "k = front @ x @ rear" and x: "map lower_ascii x \<in> set secret_words"
    by (auto simp: looks_secret_def)
  have small: "\<forall>c \<in> set (map lower_ascii x). 97 \<le> c \<and> c \<le> 122"
  proof -
    have "\<forall>w \<in> set secret_words. \<forall>c \<in> set w. 97 \<le> c \<and> c \<le> 122" by (simp add: secret_words_def py_simps)
    with x show ?thesis by blast
  qed
  have "re_fold c = lower_ascii c" if "c \<in> set x" for c
  proof -
    have "97 \<le> lower_ascii c \<and> lower_ascii c \<le> 122" using small that by simp
    then show ?thesis by (auto simp: re_fold_def lower_ascii_def is_upper_ascii_def split: if_splits)
  qed
  then have "map re_fold x = map lower_ascii x" by (rule map_cong [OF refl])
  then have fold: "map re_fold k = map re_fold front @ map lower_ascii x @ map re_fold rear"
    unfolding k map_append by (rule arg_cong)
  have "contains (map lower_ascii x) (map re_fold k)" unfolding fold by (rule contains_middle)
  with x show ?thesis unfolding secret_key_def mentions_def secret_words_def by blast
qed

end
