(* ===== verification/VaultProps.thy ===== *)
theory VaultProps
  imports RegistryOps RegistryTextProps
begin

text \<open>
  The vault end to end: what \<open>vault init\<close> stores, \<open>vault unlock\<close> prints, given what Fernet
  documents of its tokens and what MongoDB documents of \<open>$set\<close>. And what import keeps out of the
  registry.
\<close>

section \<open>Base 64 with padding\<close>

lemma b64_encode_pad: "b64_encode bs = b64 bs @ replicate ((4 - length (b64 bs) mod 4) mod 4) 61"
  by (induction bs rule: b64_encode.induct) (simp_all add: b64_simps numeral_2_eq_2)

lemma url_translate_alt: "url_translate s = map url_char s"
  by (simp add: url_translate_def url_char_def)

lemma salt_decodes: "a2b 0 0 0 (b64_standard bs) = Some bs"
  unfolding b64_standard_def b64_encode_pad url_translate_alt by (rule a2b_roundtrip)

lemma salt_ascii: "is_ascii (b64_standard bs)"
proof -
  have "c < 128" if "c \<in> set (b64_encode bs)" for c
    using that b64_set [of c bs] by (auto simp: b64_encode_pad)
  then show ?thesis by (auto simp: is_ascii_def b64_standard_def url_translate_def)
qed

lemma salt_ne: "bs \<noteq> [] \<Longrightarrow> b64_standard bs \<noteq> []"
  by (cases bs rule: b64_encode.cases) (auto simp: b64_standard_def url_translate_def)

section \<open>Encryption and decryption\<close>

lemma floats_id: "json_ok j \<Longrightarrow> shown_floats r j = j"
proof (induction j)
  case (JList xs)
  then show ?case by (auto intro: map_idI)
next
  case (JObj kvs)
  have "map (\<lambda>(k, v). (k, shown_floats r v)) kvs = kvs"
    by (rule map_idI) (use JObj in fastforce)
  then show ?case by simp
qed simp_all

lemma payload_reads_back:
  assumes "json_ok (JObj d)" and "utf8_encode (payload_text V d) = Some plain"
    and "json_sorted (JObj d) = JObj d'"
  shows "read_plain plain = Inr d'"
proof -
  have t: "payload_text V d = dumps_in spaced False 0 (JObj d')"
    unfolding payload_text_def floats_id [OF assms(1)] assms(3) ..
  have "json_ok (JObj d')" using json_ok_sorted [OF assms(1)] unfolding assms(3) .
  from sl.loads_dumps_in [OF this, of "[]" False] have "loads (payload_text V d) = Some (JObj d')"
    by (simp add: t all_ws_def)
  with utf8_decode_encode [OF assms(2)] show ?thesis by (simp add: read_plain_def)
qed

text \<open>A stored document that has the vault's fields, whatever else it has.\<close>

definition stores :: "bdoc \<Rightarrow> bdoc \<Rightarrow> bool" where
  "stores e doc \<longleftrightarrow> e \<noteq> [] \<and> (\<forall>k \<in> fst ` set doc. dict_get e k = dict_get doc k)"

lemma decrypt_encrypted:
  assumes law: "fernet_law fe" and salt: "salt \<noteq> []"
    and enc: "encrypt_payload V fe salt now d password n = Inr doc" and e: "stores e doc"
    and ok: "json_ok (JObj d)" and sorted: "json_sorted (JObj d) = JObj d'"
  shows "decrypt_payload V fe e password = Inr d'"
proof -
  from enc obtain key plain where key: "derive_key password salt n = Inr key"
    and plain: "utf8_encode (payload_text V d) = Some plain"
    and doc: "doc = vault_document d n salt (map unat (fe_encrypt fe key plain)) now"
    by (auto simp: encrypt_payload_def bind_res_Inr split: if_splits option.splits)
  have n: "n \<noteq> 0" using key
    by (auto simp: derive_key_def bind_res_Inr raising_def pbkdf2_def split: if_splits option.splits sum.splits)
  let ?token = "map unat (fe_encrypt fe key plain)"
  have token: "is_ascii ?token" "?token \<noteq> []" "fe_decrypt fe key ?token = Some plain"
    using law by (auto simp: fernet_law_def)
  define kdf where "kdf = [(str ''name'', BStr KDF_NAME), (str ''iterations'', BInt n), (str ''salt'', BStr (b64_standard salt))]"
  have got_e: "dict_get e (str ''kdf'') = Some (BDoc kdf)" "dict_get e (str ''blob'') = Some (BStr ?token)"
    "dict_get e (str ''cipher'') = Some (BStr CIPHER_NAME)"
    using e by (auto simp: stores_def doc vault_document_def kdf_def)
  have got_k: "got kdf ''salt'' = BStr (b64_standard salt)" "got kdf ''iterations'' = BInt n"
    "got_default kdf ''name'' (BStr KDF_NAME) = BStr KDF_NAME"
    by (simp_all add: kdf_def got_def got_default_def)
  have "kdf_of V e = BDoc kdf" "got_or (vp_builtins V) e ''blob'' (BStr []) = BStr ?token"
    using got_e token(2) by (auto simp: kdf_of_def got_or_def got_def truthy_def kdf_def)
  then have "require_fields V e = Inr (kdf, BStr ?token)"
    using got_e(3) got_k salt_ne [OF salt] n token(2)
    by (auto simp: require_fields_def truthy_def as_doc_def raising_def got_default_def)
  moreover have "decode_salt V (BStr (b64_standard salt)) = Inr salt"
    by (simp add: decode_salt_def salt_ascii salt_decodes)
  ultimately show ?thesis
    using token key payload_reads_back [OF ok plain sorted]
    by (simp add: decrypt_payload_def got_k py_int_of_def)
qed

section \<open>The collection\<close>

text \<open>
  What the vault relies on of the collection: after \<open>$set\<close> by an id with upsert the document of
  that id has the fields that were set, and no other document changes.
\<close>

definition set_law :: "'c Collection \<Rightarrow> bool" where
  "set_law K \<longleftrightarrow> (\<forall>id d c c'. d \<noteq> [] \<longrightarrow> dict_wf d \<longrightarrow> rg_set_id K id d c = (Inr (), c') \<longrightarrow>
     (\<exists>e. fst (rg_find_id K id c') = Inr (Some e) \<and> stores e d)
     \<and> (\<forall>id'. id' \<noteq> id \<longrightarrow> fst (rg_find_id K id' c') = fst (rg_find_id K id' c)))"

lemma vault_not_meta: "VAULT_ID \<noteq> META_ID"
  by (simp add: VAULT_ID_def META_ID_def)

lemma init_stores:
  assumes "set_law K" and "cmd_vault_init M K a s = (Inr code, s')"
    and "load_seed_payload M a = Inr payload" and "vault_password M (va_password a) = Inr pw"
  shows "\<exists>doc e. encrypt_payload (cm_vault_py M) (cm_fernet M) (cm_salt M) (cm_now_iso M) payload pw PBKDF2_ITERATIONS = Inr doc
    \<and> fst (rg_find_id K VAULT_ID (cs_collection s')) = Inr (Some e) \<and> stores e doc"
proof -
  from assms(2-4) obtain doc c1 c2 where
      doc: "encrypt_payload (cm_vault_py M) (cm_fernet M) (cm_salt M) (cm_now_iso M) payload pw PBKDF2_ITERATIONS = Inr doc"
    and c1: "rg_set_id K VAULT_ID doc (cs_collection s) = (Inr (), c1)"
    and c2: "rg_set_id K META_ID [(str ''updated'', BStr (cm_today M))] c1 = (Inr (), c2)"
    and s': "cs_collection s' = c2"
    by (auto simp: cmd_vault_init_def res_simps vault_raised_def touch_meta_updated_def
        split: sum.splits vault_exn.splits)
  have "doc \<noteq> []" "dict_wf doc" using doc
    by (auto simp: encrypt_payload_def bind_res_Inr vault_document_def dict_wf_def split: if_splits option.splits)
  with assms(1) c1 obtain e where e: "fst (rg_find_id K VAULT_ID c1) = Inr (Some e)" "stores e doc"
    unfolding set_law_def by blast
  have "dict_wf [(str ''updated'', BStr (cm_today M))]" by (simp add: dict_wf_def)
  with assms(1) c2 vault_not_meta have "fst (rg_find_id K VAULT_ID c2) = fst (rg_find_id K VAULT_ID c1)"
    unfolding set_law_def by blast
  with e doc s' show ?thesis by auto
qed

lemma json_sorted_idem: "json_sorted (json_sorted j) = json_sorted j"
proof (induction j)
  case (JList xs)
  then show ?case by simp
next
  case (JObj kvs)
  let ?f = "\<lambda>(k, v). (k, json_sorted v)"
  let ?s = "sort_key fst (map ?f kvs)"
  have "map ?f ?s = ?s"
  proof (rule map_idI)
    fix x assume "x \<in> set ?s"
    then obtain k v where "(k, v) \<in> set kvs" "x = (k, json_sorted v)" by auto
    with JObj show "?f x = x" by fastforce
  qed
  moreover have "sort_key fst ?s = ?s"
    by (rule sort_key_id_if_sorted) simp
  ultimately show ?case by (simp only: json_sorted.simps)
qed simp_all

lemma unlock_prints:
  assumes "fst (rg_find_id K VAULT_ID (cs_collection s)) = Inr (Some e)" and "e \<noteq> []"
    and "vault_password M flag = Inr pw"
    and "decrypt_payload (cm_vault_py M) (cm_fernet M) e pw = Inr d"
  shows "\<exists>s'. cmd_vault_unlock M K flag s = (Inr 0, s') \<and> cs_out s' = cs_out s @ [sorted_text M (JObj d)]"
proof -
  obtain kv r where e: "e = kv # r" using assms(2) by (cases e) auto
  obtain c where "rg_find_id K VAULT_ID (cs_collection s) = (Inr (Some e), c)"
    using assms(1) by (cases "rg_find_id K VAULT_ID (cs_collection s)") auto
  then show ?thesis using assms(3,4) e
    by (simp add: cmd_vault_unlock_def vault_doc_def cbind_def db_def raised_def clift_def vault_reported_def
        cret_def say_def)
qed

lemma unlock_after_init:
  assumes "set_law K" and "fernet_law (cm_fernet M)" and "cm_salt M \<noteq> []"
    and "cmd_vault_init M K a s = (Inr code, s')"
    and "load_seed_payload M a = Inr payload" and "json_ok (JObj payload)"
    and "vault_password M (va_password a) = Inr pw" and "vault_password M flag = Inr pw"
  shows "\<exists>s''. cmd_vault_unlock M K flag s' = (Inr 0, s'')
    \<and> cs_out s'' = cs_out s' @ [sorted_text M (JObj payload)]"
proof -
  from init_stores [OF assms(1,4,5,7)] obtain doc e where
      doc: "encrypt_payload (cm_vault_py M) (cm_fernet M) (cm_salt M) (cm_now_iso M) payload pw PBKDF2_ITERATIONS = Inr doc"
    and e: "fst (rg_find_id K VAULT_ID (cs_collection s')) = Inr (Some e)" "stores e doc" by blast
  obtain d where d: "json_sorted (JObj payload) = JObj d" by simp
  have "decrypt_payload (cm_vault_py M) (cm_fernet M) e pw = Inr d"
    by (rule decrypt_encrypted [OF assms(2,3) doc e(2) assms(6) d])
  with unlock_prints [OF e(1) _ assms(8)] e(2) obtain s'' where
      s'': "cmd_vault_unlock M K flag s' = (Inr 0, s'')" "cs_out s'' = cs_out s' @ [sorted_text M (JObj d)]"
    by (auto simp: stores_def)
  have "json_ok (JObj d)" using json_ok_sorted [OF assms(6)] unfolding d .
  then have "sorted_text M (JObj d) = sorted_text M (JObj payload)"
    using json_sorted_idem [of "JObj payload"] d floats_id [OF assms(6)] floats_id [of "JObj d"]
    unfolding sorted_text_def by metis
  with s'' show ?thesis by auto
qed

text \<open>C38: One password unlocks the vault: after \<open>vault init\<close> has stored a payload under a password,
  \<open>vault unlock\<close> with that password prints exactly that payload.\<close>

theorem vault_unlocks:
  assumes "set_law K" and "fernet_law (cm_fernet M)" and "cm_salt M \<noteq> []"
    and "cmd_vault_init M K a s = (Inr code, s')"
    and "load_seed_payload M a = Inr payload" and "json_ok (JObj payload)"
    and "vault_password M (va_password a) = Inr pw" and "vault_password M flag = Inr pw"
  shows "\<exists>s''. cmd_vault_unlock M K flag s' = (Inr 0, s'')
    \<and> cs_out s'' = cs_out s' @ [sorted_text M (JObj payload)]"
  using assms by (rule unlock_after_init)

section \<open>What import keeps out\<close>

text \<open>C39: Redaction is exact: the credential URIs found in a redacted text are those of the text, with
  the same schemes and users and in the same order, each with the placeholder of its scheme in
  place of the password.\<close>

theorem redaction_exact:
  "uri_creds (redact_uri_passwords s) = map (\<lambda>(a, u, p). (a, u, pw_placeholder a)) (uri_creds s)"
  by (rule redacted_creds)






text \<open>A URI without a user name, the usual form for Redis, is not found, so neither import nor the
  capture of credentials sees its password; nor is a password with a slash.\<close>

lemma userless_password_survives:
  "redact_uri_passwords (str ''redis://:pw@h'') = str ''redis://:pw@h''"
  "uri_creds (str ''redis://:pw@h'') = []"
  "redact_uri_passwords (str ''pg://u:p/w@h'') = str ''pg://u:p/w@h''"
  by (simp_all add: redact_uri_passwords.simps uri_creds.simps cred_match_def cred_tail_def py_simps
      is_alpha_ascii_def scheme_char_def is_digit_def user_char_def password_char_def py_space_def)

end
