(* ===== verification/RegistryDemo.thy ===== *)
theory RegistryDemo
  imports VaultProps WikiClientProps
begin

text \<open>
  The properties of \<open>VaultProps\<close> on a concrete machine: a collection of documents by id, and an
  encryption with the documented law of Fernet.
\<close>

section \<open>A collection\<close>

type_synonym demo_docs = "(pystr, bdoc) pydict"

definition demo_set_id :: "pystr \<Rightarrow> bdoc \<Rightarrow> demo_docs \<Rightarrow> (wiki_exn + unit) \<times> demo_docs" where
  "demo_set_id i d c =
     (Inr (), dict_set i (dict_update (case dict_get c i of None \<Rightarrow> [] | Some e \<Rightarrow> e) d) c)"

definition demo_collection :: "demo_docs Collection" where
  "demo_collection = \<lparr>rg_find = (\<lambda>n c. (Inr None, c)), rg_find_id = (\<lambda>id c. (Inr (dict_get c id), c)),
     rg_servers = (\<lambda>c. (Inr [], c)), rg_set = (\<lambda>u n d c. (Inr (), c)), rg_set_id = demo_set_id,
     rg_delete = (\<lambda>n c. (Inr 0, c)), rg_index = (\<lambda>c. (Inr (), c)), rg_title = str ''db.mcp_servers''\<rparr>"

lemma dict_update_get:
  "distinct (map fst e) \<Longrightarrow> dict_get (dict_update d e) k = (case dict_get e k of None \<Rightarrow> dict_get d k | Some v \<Rightarrow> Some v)"
proof (induction e arbitrary: d)
  case (Cons kv e)
  obtain a v where kv: "kv = (a, v)" by (cases kv)
  have "dict_update d (kv # e) = dict_update (dict_set a v d) e" by (simp add: dict_update_def kv)
  moreover have "distinct (map fst e)" using Cons.prems kv by simp
  moreover have "dict_get e a = None" using Cons.prems kv by (simp add: map_of_eq_None_iff)
  ultimately show ?case using Cons.IH [of "dict_set a v d"] kv by (cases "k = a") (simp_all split: option.split)
qed (simp add: dict_update_def)

section \<open>A machine\<close>

definition demo_fernet :: Fernet where
  "demo_fernet = \<lparr>fe_encrypt = (\<lambda>key plain. 65 # map of_nat (concat (map quote_byte plain))),
     fe_decrypt = (\<lambda>key token. percent_decode (drop 1 token))\<rparr>"

lemma quote_bytes_small: "\<forall>c \<in> set (concat (map quote_byte bs)). c < 128"
  using quote_byte_set unreserved_char by fastforce

lemma demo_fernet_law: "fernet_law demo_fernet"
proof -
  have small: "map (\<lambda>x. unat (of_nat x :: byte)) (concat (map quote_byte bs)) = concat (map quote_byte bs)" for bs
  proof (rule map_idI)
    fix x assume "x \<in> set (concat (map quote_byte bs))"
    then have "x < 256" using quote_bytes_small [of bs] by fastforce
    then show "unat (of_nat x :: byte) = x" by (simp add: unat_of_nat)
  qed
  have "map unat (fe_encrypt demo_fernet key bs) = 65 # concat (map quote_byte bs)" for key bs
    using small [of bs] by (simp add: demo_fernet_def comp_def)
  moreover have "fe_encrypt demo_fernet key bs \<noteq> []" for key bs by (simp add: demo_fernet_def)
  moreover have "fe_decrypt demo_fernet key (65 # concat (map quote_byte bs)) = Some bs" for key bs
    by (simp add: demo_fernet_def quote_decode)
  ultimately show ?thesis using quote_bytes_small by (simp add: fernet_law_def is_ascii_def)
qed

lemma demo_set_law: "set_law demo_collection"
proof -
  have "stores (dict_update old d) d" if ne: "d \<noteq> []" and wf: "dict_wf d" for old d :: bdoc
  proof -
    have g: "dict_get (dict_update old d) k = (case dict_get d k of None \<Rightarrow> dict_get old k | Some v \<Rightarrow> Some v)" for k
      using dict_update_get wf by (simp add: dict_wf_def)
    obtain k v r where "d = (k, v) # r" using ne by (cases d) auto
    then have "dict_get (dict_update old d) k \<noteq> None" using g [of k] by simp
    then have "dict_update old d \<noteq> []" by auto
    moreover have "dict_get (dict_update old d) k = dict_get d k" if "k \<in> fst ` set d" for k
      using that g [of k] by (auto simp: map_of_eq_None_iff split: option.splits)
    ultimately show ?thesis by (simp add: stores_def)
  qed
  then show ?thesis by (auto simp: set_law_def demo_collection_def demo_set_id_def)
qed

definition demo_builtins :: Builtins where
  "demo_builtins = \<lparr>py_show = (\<lambda>v. []), py_true = (\<lambda>v. True), py_elements = (\<lambda>t. Inr []),
     py_max = (\<lambda>vs. Inr BNull), py_sorted = (\<lambda>vs. Inr [])\<rparr>"

definition demo_tables :: CharTables where
  "demo_tables = \<lparr>ch_alnum = (\<lambda>c. True), ch_digit = (\<lambda>c. None), ch_lower = map lower_ascii\<rparr>"

definition demo_machine :: CliMachine where
  "demo_machine = \<lparr>cm_env = [], cm_files = Map.empty, cm_unreadable = (\<lambda>p. None), cm_json_error = (\<lambda>bs. []),
     cm_unwritable = (\<lambda>p. None), cm_now = BNull, cm_now_iso = str ''now'', cm_today = str ''today'',
     cm_tables = demo_tables, cm_foreign = plain_foreign,
     cm_vault_py = \<lparr>vp_builtins = demo_builtins, vp_float = (\<lambda>t. t), vp_int = (\<lambda>v. Inr 0), vp_repr = (\<lambda>v. []),
       vp_sorted = Inr, vp_salt = (\<lambda>v. None)\<rparr>,
     cm_fernet = demo_fernet, cm_salt = [7], cm_repr = (\<lambda>j. []), cm_format = (\<lambda>n v. Inr []),
     cm_head = (\<lambda>n v. Inr v), cm_exn_text = (\<lambda>x. [])\<rparr>"

definition demo_vault_args :: VaultArgs where
  "demo_vault_args = \<lparr>va_password = str ''pw'', va_file = [], va_from_mcp_json = [], va_mc_config = [],
     va_mc_alias = [], va_mc_service = [], va_set = [str ''db.user=u'']\<rparr>"

definition demo_payload :: "(pystr, json) pydict" where
  "demo_payload = [(str ''db'', JObj [(str ''user'', JStr (str ''u''))])]"

lemma demo_seed_payload: "load_seed_payload demo_machine demo_vault_args = Inr demo_payload"
proof -
  have "loads (str ''u'') = None"
    by (simp add: loads_def literal_def startswith_def scan_number_def int_part_def is_digit_def py_simps
        skip_ws_def json_ws_def numeral_3_eq_3)
  then show ?thesis
    by (simp add: load_seed_payload_def demo_vault_args_def set_field_def before_def after_def parse_value_def
        get_default_def demo_payload_def py_simps)
qed

lemma demo_init: "\<exists>s'. cmd_vault_init demo_machine demo_collection demo_vault_args
    \<lparr>cs_collection = [], cs_files = [], cs_out = []\<rparr> = (Inr 0, s')"
proof -
  have pw: "vault_password demo_machine (va_password demo_vault_args) = Inr (str ''pw'')"
    by (simp add: vault_password_def demo_vault_args_def)
  have "utf8_encode (payload_text (cm_vault_py demo_machine) demo_payload) \<noteq> None" by code_simp
  then obtain plain where plain: "utf8_encode (payload_text (cm_vault_py demo_machine) demo_payload) = Some plain" by blast
  have "utf8_encode (str ''pw'') = Some (map of_nat (str ''pw''))"
    by (rule utf8_encode_ascii) (simp add: py_simps)
  then have "is_ok (derive_key (str ''pw'') (cm_salt demo_machine) PBKDF2_ITERATIONS)"
    by (simp add: derive_key_def pbkdf2_def raising_def PBKDF2_ITERATIONS_def)
  then obtain key where key: "derive_key (str ''pw'') (cm_salt demo_machine) PBKDF2_ITERATIONS = Inr key"
    by (auto simp: is_ok_iff)
  have "demo_payload \<noteq> []" by (simp add: demo_payload_def)
  then obtain doc where "encrypt_payload (cm_vault_py demo_machine) (cm_fernet demo_machine) (cm_salt demo_machine)
      (cm_now_iso demo_machine) demo_payload (str ''pw'') PBKDF2_ITERATIONS = Inr doc"
    using key plain by (simp add: encrypt_payload_def)
  with pw show ?thesis
    by (simp add: cmd_vault_init_def demo_seed_payload cbind_def clift_def vault_raised_def db_def demo_collection_def
        demo_set_id_def raised_def touch_meta_updated_def say_def cret_def)
qed

lemma vault_unlocks_witness:
  "\<exists>s s''. cmd_vault_unlock demo_machine demo_collection (str ''pw'') s = (Inr 0, s'')
     \<and> cs_out s'' = cs_out s @ [sorted_text demo_machine (JObj demo_payload)]"
proof -
  from demo_init obtain s' where i: "cmd_vault_init demo_machine demo_collection demo_vault_args
      \<lparr>cs_collection = [], cs_files = [], cs_out = []\<rparr> = (Inr 0, s')" by blast
  have "fernet_law (cm_fernet demo_machine)" "cm_salt demo_machine \<noteq> []"
    using demo_fernet_law by (simp_all add: demo_machine_def)
  moreover have "json_ok (JObj demo_payload)" by (simp add: demo_payload_def)
  moreover have "vault_password demo_machine (va_password demo_vault_args) = Inr (str ''pw'')"
    "vault_password demo_machine (str ''pw'') = Inr (str ''pw'')"
    by (simp_all add: vault_password_def demo_vault_args_def)
  ultimately show ?thesis using vault_unlocks [OF demo_set_law _ _ i demo_seed_payload] by blast
qed

section \<open>An import\<close>


end
