(* ===== verification/ApiParity.thy ===== *)
theory ApiParity
  imports WikiClient
begin

text \<open>
  The read-only parity gate between two origins of the API, \<open>src/scripts/check-api-parity.py\<close>:
  the allowed checks, the comparison of two answers up to the fields that may vary, and the
  receipt. The network is an argument that takes a method and a URL; so are the lower case of
  text outside ASCII, the equality of numbers with a fraction, and how they are printed.
\<close>

section \<open>Checks\<close>

record ParityCheck =
  pc_identifier :: pystr
  pc_path :: pystr
  pc_status :: int
  pc_json :: bool
  pc_live :: bool

definition parity_check :: "string \<Rightarrow> string \<Rightarrow> int \<Rightarrow> bool \<Rightarrow> bool \<Rightarrow> ParityCheck" where
  "parity_check i p s j l = \<lparr>pc_identifier = str i, pc_path = str p, pc_status = s, pc_json = j, pc_live = l\<rparr>"

definition CHECKS :: "ParityCheck list" where
  "CHECKS =
     [parity_check ''stats'' ''/api/stats'' 200 True False,
      parity_check ''domains'' ''/api/domains'' 200 True False,
      parity_check ''skills'' ''/api/skills'' 200 True False,
      parity_check ''research-summary'' ''/api/research/summary'' 200 True True,
      parity_check ''research-findings'' ''/api/research/findings?limit=1&offset=0'' 200 True False,
      parity_check ''research-lessons'' ''/api/research/lessons?limit=1&offset=0'' 200 True False,
      parity_check ''research-papers'' ''/api/research/papers?limit=1&offset=0'' 200 True False,
      parity_check ''research-consensus'' ''/api/research/consensus?limit=1'' 200 True False,
      parity_check ''research-recent'' ''/api/research/recent?limit=1'' 200 True False,
      parity_check ''research-agent'' ''/api/research/agent'' 200 True False,
      parity_check ''mcp-discovery'' ''/api/mcp'' 200 True False,
      parity_check ''mcp-servers'' ''/api/mcp/servers'' 200 True False,
      parity_check ''mcp-manifest'' ''/api/mcp/manifest'' 200 True False,
      parity_check ''mcp-health'' ''/api/mcp/health'' 200 True False,
      parity_check ''mcp-status'' ''/api/mcp/status'' 200 True False,
      parity_check ''well-known-mcp'' ''/.well-known/mcp-servers.json'' 302 False False,
      parity_check ''missing-route'' ''/__mh_api_parity_missing__'' 404 False False]"

definition HEADER_NAMES :: "pystr list" where
  "HEADER_NAMES = [str ''content-type'', str ''cache-control'', str ''etag'', str ''x-data-source'',
     str ''x-data-quality'', str ''x-records-omitted'']"

definition CANONICAL_NOISE_FIELDS :: "pystr list" where
  "CANONICAL_NOISE_FIELDS = [str ''request_id'', str ''instance'', str ''deployedAt'', str ''generated_at'',
     str ''evaluatedAt'', str ''updated'', str ''last_verify_at'']"

definition MAX_BODY_BYTES :: nat where
  "MAX_BODY_BYTES = 1048576"

section \<open>Answers\<close>

text \<open>A failed check, or another exception, which nothing catches.\<close>

datatype parity_exn = ParityFail pystr | ParityRaises pystr

record ParityPy =
  py_lower_text :: "pystr \<Rightarrow> pystr"
  py_number_eq :: "json \<Rightarrow> json \<Rightarrow> bool"
  py_float_text :: "pystr \<Rightarrow> pystr"
  py_decode :: Foreign

text \<open>The answer of an origin with all its bytes, no answer (\<open>URLError\<close>), or another exception.\<close>

datatype fetched = Got int "pystr \<Rightarrow> pystr option" bytes | Unreachable | FetchRaises pystr

record ParityResponse =
  pr_status :: int
  pr_headers :: "(pystr, pystr option) pydict"
  pr_body :: bytes

definition parse_origin :: "(pystr \<Rightarrow> bool) \<Rightarrow> pystr \<Rightarrow> unit + pystr" where
  "parse_origin netloc_ok v =
     (case urlsplit netloc_ok v of
        Inl _ \<Rightarrow> Inl ()
      | Inr u \<Rightarrow>
          (if su_scheme u \<notin> {str ''http'', str ''https''} \<or> su_netloc u = [] then Inl ()
           else if su_username u \<noteq> [] \<or> su_password u \<noteq> [] \<or> su_path u \<notin> {[], str ''/''}
             \<or> su_query u \<noteq> [] \<or> su_fragment u \<noteq> [] then Inl ()
           else Inr (su_scheme u @ str ''://'' @ su_netloc u)))"

definition media_type :: "ParityPy \<Rightarrow> pystr \<Rightarrow> pystr option" where
  "media_type P v = (if v = [] then None else Some (py_lower_text P (strip (before (\<lambda>c. c = 59) v))))"

definition normalized_header :: "ParityPy \<Rightarrow> pystr \<Rightarrow> pystr \<Rightarrow> pystr option" where
  "normalized_header P name v =
     (if name = str ''content-type'' then media_type P v else Some (join (str '' '') (split_ws v)))"

definition normalized_headers :: "ParityPy \<Rightarrow> (pystr \<Rightarrow> pystr option) \<Rightarrow> (pystr, pystr option) pydict" where
  "normalized_headers P get = concat (map (\<lambda>name. case get name of
       None \<Rightarrow> [] | Some v \<Rightarrow> [(name, normalized_header P name v)]) HEADER_NAMES)"

fun canonical_json :: "json \<Rightarrow> json" where
  "canonical_json (JObj kvs) = JObj (filter (\<lambda>(k, v). k \<notin> set CANONICAL_NOISE_FIELDS)
     (sort_key fst (map (\<lambda>(k, v). (k, canonical_json v)) kvs)))"
| "canonical_json (JList xs) = JList (map canonical_json xs)"
| "canonical_json j = j"

definition is_number :: "json \<Rightarrow> bool" where
  "is_number j = (case j of JBool _ \<Rightarrow> True | JInt _ \<Rightarrow> True | JFloat _ \<Rightarrow> True | _ \<Rightarrow> False)"

text \<open>Equality of Python: a boolean is the integer it stands for; dictionaries ignore order.\<close>

fun py_equal :: "ParityPy \<Rightarrow> json \<Rightarrow> json \<Rightarrow> bool" where
  "py_equal P (JObj d) (JObj e) \<longleftrightarrow> length d = length e
     \<and> (\<forall>kv \<in> set d. case dict_get e (fst kv) of None \<Rightarrow> False | Some w \<Rightarrow> py_equal P (snd kv) w)"
| "py_equal P (JList xs) (JList ys) \<longleftrightarrow> list_all2 (py_equal P) xs ys"
| "py_equal P (JFloat t) v \<longleftrightarrow> is_number v \<and> py_number_eq P (JFloat t) v"
| "py_equal P v (JFloat t) \<longleftrightarrow> is_number v \<and> py_number_eq P v (JFloat t)"
| "py_equal P (JBool b) (JInt i) \<longleftrightarrow> (if b then 1 else 0) = i"
| "py_equal P (JInt i) (JBool b) \<longleftrightarrow> (if b then 1 else 0) = i"
| "py_equal P v w \<longleftrightarrow> v = w"

definition fingerprint :: "ParityPy \<Rightarrow> json \<Rightarrow> parity_exn + pystr" where
  "fingerprint P v =
     (case utf8_encode (dumps False (shown_floats (py_float_text P) v)) of
        None \<Rightarrow> Inl (ParityRaises (str ''UnicodeEncodeError''))
      | Some bs \<Rightarrow> Inr (str ''sha256:'' @ hexdigest (sha256 bs)))"

section \<open>Comparing\<close>

type_synonym 'w parity_net = "pystr \<Rightarrow> pystr \<Rightarrow> 'w \<Rightarrow> fetched \<times> 'w"

definition read_fetched :: "ParityPy \<Rightarrow> fetched \<Rightarrow> parity_exn + ParityResponse" where
  "read_fetched P f =
     (case f of
        Unreachable \<Rightarrow> Inl (ParityFail (str ''origin was unreachable''))
      | FetchRaises name \<Rightarrow> Inl (ParityRaises name)
      | Got status get body \<Rightarrow>
          (let kept = take (MAX_BODY_BYTES + 1) body in
           if MAX_BODY_BYTES < length kept
           then Inl (ParityFail (str ''response exceeded read-only comparison budget''))
           else Inr \<lparr>pr_status = status, pr_headers = normalized_headers P get, pr_body = kept\<rparr>))"

definition fetch :: "ParityPy \<Rightarrow> 'w parity_net \<Rightarrow> pystr \<Rightarrow> pystr \<Rightarrow> 'w \<Rightarrow> (parity_exn + ParityResponse) \<times> 'w" where
  "fetch P net origin path w = (case net (str ''GET'') (origin @ path) w of (f, w') \<Rightarrow> (read_fetched P f, w'))"

definition decode_json :: "ParityPy \<Rightarrow> ParityResponse \<Rightarrow> pystr \<Rightarrow> parity_exn + json" where
  "decode_json P r i =
     (if dict_get (pr_headers r) (str ''content-type'') \<noteq> Some (Some (str ''application/json''))
      then Inl (ParityFail (i @ str '': expected application/json''))
      else case loads_bytes (py_decode P) (pr_body r) of
        Inr j \<Rightarrow> Inr j
      | Inl x \<Rightarrow> if is_value_error x then Inl (ParityFail (i @ str '': invalid JSON response''))
                 else Inl (ParityRaises (str ''Exception'')))"

definition live_source :: "json \<Rightarrow> parity_exn + bool" where
  "live_source j = (case j of
       JObj d \<Rightarrow> Inr (dict_get d (str ''source'') = Some (JStr (str ''live'')))
     | _ \<Rightarrow> Inl (ParityRaises (str ''AttributeError'')))"

definition compare_responses ::
  "ParityPy \<Rightarrow> ParityCheck \<Rightarrow> ParityResponse \<Rightarrow> ParityResponse \<Rightarrow> parity_exn + pystr option" where
  "compare_responses P chk l r =
     (let i = pc_identifier chk in
      if pr_status l \<noteq> pc_status chk \<or> pr_status r \<noteq> pc_status chk
      then Inl (ParityFail (i @ str '': unexpected status''))
      else if pr_status l \<noteq> pr_status r \<or> set (pr_headers l) \<noteq> set (pr_headers r)
      then Inl (ParityFail (i @ str '': status/header contract differs''))
      else if \<not> pc_json chk then Inr None
      else
     bind_res (decode_json P l i) (\<lambda>jl. bind_res (decode_json P r i) (\<lambda>jr.
     bind_res (if \<not> pc_live chk then Inr True
               else bind_res (live_source jl) (\<lambda>a. if \<not> a then Inr False else live_source jr)) (\<lambda>live.
     if \<not> live then Inl (ParityFail (i @ str '': research is not live''))
     else if \<not> py_equal P (canonical_json jl) (canonical_json jr)
     then Inl (ParityFail (i @ str '': canonical JSON differs''))
     else bind_res (fingerprint P (canonical_json jl)) (\<lambda>digest. Inr (Some digest))))))"

definition compare_check ::
  "ParityPy \<Rightarrow> 'w parity_net \<Rightarrow> pystr \<Rightarrow> pystr \<Rightarrow> ParityCheck \<Rightarrow> 'w \<Rightarrow> (parity_exn + pystr option) \<times> 'w" where
  "compare_check P net python_origin ts_origin chk w =
     (case fetch P net python_origin (pc_path chk) w of
        (Inl e, w1) \<Rightarrow> (Inl e, w1)
      | (Inr l, w1) \<Rightarrow>
          (case fetch P net ts_origin (pc_path chk) w1 of
             (Inl e, w2) \<Rightarrow> (Inl e, w2)
           | (Inr r, w2) \<Rightarrow> (compare_responses P chk l r, w2)))"

fun compare_all ::
  "ParityPy \<Rightarrow> 'w parity_net \<Rightarrow> pystr \<Rightarrow> pystr \<Rightarrow> ParityCheck list \<Rightarrow> 'w
     \<Rightarrow> (parity_exn + (pystr \<times> int \<times> pystr option) list) \<times> 'w" where
  "compare_all P net a b [] w = (Inr [], w)"
| "compare_all P net a b (chk # checks) w =
     (case compare_check P net a b chk w of
        (Inl e, w1) \<Rightarrow> (Inl e, w1)
      | (Inr digest, w1) \<Rightarrow>
          (case compare_all P net a b checks w1 of
             (Inl e, w2) \<Rightarrow> (Inl e, w2)
           | (Inr rows, w2) \<Rightarrow> (Inr ((pc_identifier chk, pc_status chk, digest) # rows), w2)))"

section \<open>The gate\<close>

text \<open>The row of a check and the receipt; \<open>now\<close> is the time in ISO form with its \<open>Z\<close>.\<close>

definition receipt_row :: "pystr \<times> int \<times> pystr option \<Rightarrow> json" where
  "receipt_row row = (case row of (i, status, digest) \<Rightarrow> JObj
     ([(str ''id'', JStr i), (str ''status'', JInt status), (str ''headers_match'', JBool True)]
      @ (case digest of None \<Rightarrow> [] | Some d \<Rightarrow> [(str ''canonical_json_digest'', JStr d)])))"

definition receipt :: "pystr \<Rightarrow> (pystr \<times> int \<times> pystr option) list \<Rightarrow> json" where
  "receipt now rows = JObj
     [(str ''schema'', JStr (str ''metahumotonic/api-parity-receipt@1'')), (str ''status'', JStr (str ''PASS'')),
      (str ''checkedAt'', JStr now), (str ''checks'', JList (map receipt_row rows)),
      (str ''noiseFieldsExcluded'', JList (map JStr (sort CANONICAL_NOISE_FIELDS)))]"

text \<open>
  The end of the program: the exit code with the text of the receipt, if one is written, or the
  exception. A wrong argument is exit code 2; \<open>in_range\<close> is the test of the timeout.
\<close>

definition parity_main ::
  "ParityPy \<Rightarrow> (pystr \<Rightarrow> bool) \<Rightarrow> 'w parity_net \<Rightarrow> pystr \<Rightarrow> pystr \<Rightarrow> bool \<Rightarrow> pystr \<Rightarrow> 'w
     \<Rightarrow> (pystr + int \<times> pystr option) \<times> 'w" where
  "parity_main P netloc_ok net python_origin ts_origin in_range now w =
     (case (parse_origin netloc_ok python_origin, parse_origin netloc_ok ts_origin) of
        (Inr a, Inr b) \<Rightarrow>
          (if \<not> in_range then (Inr (2, None), w)
           else case compare_all P net a b CHECKS w of
             (Inl (ParityFail msg), w') \<Rightarrow> (Inr (1, None), w')
           | (Inl (ParityRaises name), w') \<Rightarrow> (Inl name, w')
           | (Inr rows, w') \<Rightarrow>
               (Inr (0, Some (dumps_in indented True 0 (json_sorted (receipt now rows)) @ [10])), w'))
      | _ \<Rightarrow> (Inr (2, None), w))"

end
