(* ===== verification/ApiParityProps.thy ===== *)
theory ApiParityProps
  imports ApiParity
begin

text \<open>What a passed parity gate means, and which requests it makes.\<close>

definition agreeing :: "ParityPy \<Rightarrow> ParityCheck \<Rightarrow> ParityResponse \<Rightarrow> ParityResponse \<Rightarrow> bool" where
  "agreeing P chk l r \<longleftrightarrow> pr_status l = pc_status chk \<and> pr_status r = pc_status chk
     \<and> set (pr_headers l) = set (pr_headers r)
     \<and> (pc_json chk \<longrightarrow> (\<exists>jl jr. decode_json P l (pc_identifier chk) = Inr jl
          \<and> decode_json P r (pc_identifier chk) = Inr jr \<and> py_equal P (canonical_json jl) (canonical_json jr)))"

lemma compare_responses_ok: "compare_responses P chk l r = Inr d \<Longrightarrow> agreeing P chk l r"
  by (auto simp: compare_responses_def agreeing_def Let_def bind_res_Inr split: if_splits)

lemma compare_all_ok:
  assumes "compare_all P net a b checks w = (Inr rows, w')" and "chk \<in> set checks"
  shows "\<exists>wa wb l r. fst (fetch P net a (pc_path chk) wa) = Inr l \<and> fst (fetch P net b (pc_path chk) wb) = Inr r
    \<and> agreeing P chk l r"
  using assms
proof (induction checks arbitrary: w rows)
  case (Cons c checks)
  from Cons.prems(1) obtain d w1 rows' where c: "compare_check P net a b c w = (Inr d, w1)"
    and rest: "compare_all P net a b checks w1 = (Inr rows', w')"
    by (auto split: prod.splits sum.splits)
  show ?case
  proof (cases "chk = c")
    case True
    from c obtain l r wa where l: "fetch P net a (pc_path c) w = (Inr l, wa)"
      and r: "fst (fetch P net b (pc_path c) wa) = Inr r" and "compare_responses P c l r = Inr d"
      by (auto simp: compare_check_def split: prod.splits sum.splits)
    with compare_responses_ok True show ?thesis by (metis fst_conv)
  next
    case False
    with Cons.prems(2) Cons.IH [OF rest] show ?thesis by simp
  qed
qed simp

text \<open>
  If the gate passes, both origins answered every check with the expected status, the same
  compared headers and, where the check asks for JSON, equal documents up to the noise fields.
\<close>

lemma parity_passed:
  assumes "parity_main P ok net pa pb in_range now w = (Inr (0, t), w')" and "chk \<in> set CHECKS"
  shows "\<exists>a b wa wb l r. parse_origin ok pa = Inr a \<and> parse_origin ok pb = Inr b
    \<and> fst (fetch P net a (pc_path chk) wa) = Inr l \<and> fst (fetch P net b (pc_path chk) wb) = Inr r
    \<and> agreeing P chk l r"
proof -
  from assms(1) obtain a b rows where ab: "parse_origin ok pa = Inr a" "parse_origin ok pb = Inr b"
    and "compare_all P net a b CHECKS w = (Inr rows, w')"
    by (auto simp: parity_main_def split: sum.splits if_splits prod.splits parity_exn.splits)
  from compare_all_ok [OF this(3) assms(2)] ab show ?thesis by blast
qed

section \<open>Requests\<close>

text \<open>A network that remembers what it was asked.\<close>

definition logged :: "'w parity_net \<Rightarrow> ('w \<times> (pystr \<times> pystr) list) parity_net" where
  "logged net m url w = (case net m url (fst w) of (f, w') \<Rightarrow> (f, (w', snd w @ [(m, url)])))"

lemma fetch_logged: "snd (snd (fetch P (logged net) origin path w)) = snd w @ [(str ''GET'', origin @ path)]"
  by (simp add: fetch_def logged_def split: prod.splits)

definition allowed :: "pystr \<Rightarrow> pystr \<Rightarrow> ParityCheck list \<Rightarrow> (pystr \<times> pystr) set" where
  "allowed a b checks = {str ''GET''} \<times> ((\<lambda>c. a @ pc_path c) ` set checks \<union> (\<lambda>c. b @ pc_path c) ` set checks)"

lemma compare_check_logged:
  "\<exists>asked. snd (snd (compare_check P (logged net) a b chk w)) = snd w @ asked \<and> set asked \<subseteq> allowed a b [chk]"
  using fetch_logged [of P net a "pc_path chk" w]
    fetch_logged [of P net b "pc_path chk" "snd (fetch P (logged net) a (pc_path chk) w)"]
  by (auto simp: compare_check_def allowed_def split: prod.splits sum.splits)

text \<open>Whatever the origins answer, the gate only sends GET requests, to the paths of its checks.\<close>

lemma parity_only_gets:
  "\<exists>asked. snd (snd (compare_all P (logged net) a b checks w)) = snd w @ asked \<and> set asked \<subseteq> allowed a b checks"
proof (induction checks arbitrary: w)
  case (Cons chk checks)
  let ?c = "compare_check P (logged net) a b chk w"
  obtain asked where x: "snd (snd ?c) = snd w @ asked" "set asked \<subseteq> allowed a b [chk]"
    using compare_check_logged [of P net a b chk w] by blast
  obtain more where y: "snd (snd (compare_all P (logged net) a b checks (snd ?c))) = snd (snd ?c) @ more"
    "set more \<subseteq> allowed a b checks"
    using Cons.IH [of "snd ?c"] by blast
  have sub: "allowed a b [chk] \<subseteq> allowed a b (chk # checks)" "allowed a b checks \<subseteq> allowed a b (chk # checks)"
    by (auto simp: allowed_def)
  show ?case
  proof (cases "fst ?c")
    case (Inl e)
    then have "snd (snd (compare_all P (logged net) a b (chk # checks) w)) = snd w @ asked"
      using x(1) by (auto split: prod.splits)
    with x(2) sub show ?thesis by blast
  next
    case (Inr d)
    then have "snd (snd (compare_all P (logged net) a b (chk # checks) w)) = snd w @ asked @ more"
      using x(1) y(1) by (auto split: prod.splits sum.splits)
    moreover have "set (asked @ more) \<subseteq> allowed a b (chk # checks)" using x(2) y(2) sub by auto
    ultimately show ?thesis by blast
  qed
qed simp

text \<open>A boolean and the integer it stands for pass for equal, although their digests differ.\<close>

lemma parity_confuses_booleans:
  "py_equal P (JObj [(k, JBool True)]) (JObj [(k, JInt 1)])"
  by simp

end
