(* ===== verification/Render.thy ===== *)
theory Render
  imports ClientConfig
begin

text \<open>
  The rendering of a page's Markdown, \<open>src/app/wiki/render.py\<close>. The Markdown renderer
  (\<open>markdown-it\<close>) and the sanitizer (\<open>bleach\<close>) are arguments: the first takes the options and
  the attribute that every opening of a link is given, the second its allow-lists.
\<close>

definition ALLOWED_TAGS :: "pystr list" where
  "ALLOWED_TAGS = [str ''a'', str ''blockquote'', str ''br'', str ''code'', str ''em'', str ''h1'', str ''h2'',
     str ''h3'', str ''h4'', str ''h5'', str ''h6'', str ''hr'', str ''li'', str ''ol'', str ''p'', str ''pre'',
     str ''strong'', str ''ul'']"

definition ALLOWED_ATTRIBUTES :: "(pystr, pystr list) pydict" where
  "ALLOWED_ATTRIBUTES = [(str ''a'', [str ''href'', str ''rel'', str ''title''])]"

definition ALLOWED_PROTOCOLS :: "pystr list" where
  "ALLOWED_PROTOCOLS = [str ''http'', str ''https'', str ''mailto'']"

definition SAFE_LINK_REL :: pystr where
  "SAFE_LINK_REL = str ''nofollow noopener noreferrer ugc''"

record MarkdownOptions =
  md_preset :: pystr
  md_html :: bool
  md_linkify :: bool
  md_typographer :: bool
  md_link_attribute :: "pystr \<times> pystr"

definition MARKDOWN :: MarkdownOptions where
  "MARKDOWN = \<lparr>md_preset = str ''commonmark'', md_html = False, md_linkify = False, md_typographer = False,
     md_link_attribute = (str ''rel'', SAFE_LINK_REL)\<rparr>"

record CleanerOptions =
  bl_tags :: "pystr list"
  bl_attributes :: "(pystr, pystr list) pydict"
  bl_protocols :: "pystr list"
  bl_strip :: bool
  bl_strip_comments :: bool

definition CLEANER :: CleanerOptions where
  "CLEANER = \<lparr>bl_tags = ALLOWED_TAGS, bl_attributes = ALLOWED_ATTRIBUTES, bl_protocols = ALLOWED_PROTOCOLS,
     bl_strip = True, bl_strip_comments = True\<rparr>"

text \<open>\<open>s.replace(p, t)\<close> for a non-empty \<open>p\<close>\<close>

fun replace_all :: "pystr \<Rightarrow> pystr \<Rightarrow> pystr \<Rightarrow> pystr" where
  "replace_all p t [] = []"
| "replace_all p t (c # cs) =
     (if p \<noteq> [] \<and> startswith (c # cs) p then t @ replace_all p t (drop (length p - 1) cs)
      else c # replace_all p t cs)"

definition canonical_lines :: "pystr \<Rightarrow> pystr" where
  "canonical_lines s = replace_all [13] [10] (replace_all [13, 10] [10] s)"

definition render_markdown ::
  "(MarkdownOptions \<Rightarrow> pystr \<Rightarrow> pystr) \<Rightarrow> (CleanerOptions \<Rightarrow> pystr \<Rightarrow> pystr) \<Rightarrow> pystr \<Rightarrow> pystr" where
  "render_markdown md clean s = clean CLEANER (md MARKDOWN (canonical_lines s))"

section \<open>Line endings\<close>

lemma replace_crlf: "replace_all [13, 10] [10] (c # cs) =
    (if c = 13 \<and> take 1 cs = [10] then 10 # replace_all [13, 10] [10] (drop 1 cs)
     else c # replace_all [13, 10] [10] cs)"
  by (cases cs) (auto simp: startswith_def)

lemma canonical_lines_newlines: "canonical_lines s = universal_newlines s"
proof (induction s rule: universal_newlines.induct)
  case (2 c cs)
  then show ?case
    unfolding canonical_lines_def replace_crlf by (auto simp: startswith_def)
qed (simp add: canonical_lines_def)

lemma canonical_lines_no_cr: "13 \<notin> set (canonical_lines s)"
  unfolding canonical_lines_newlines by (induction s rule: universal_newlines.induct) auto

lemma canonical_lines_plain: "13 \<notin> set s \<Longrightarrow> canonical_lines s = s"
  unfolding canonical_lines_newlines by (induction s rule: universal_newlines.induct) auto

text \<open>
  Texts that differ in their line endings only render alike, and rendering the canonical text
  changes nothing.
\<close>

lemma render_line_endings:
  "render_markdown md clean (canonical_lines s) = render_markdown md clean s"
  unfolding render_markdown_def by (simp add: canonical_lines_plain canonical_lines_no_cr)

end
