(* ===== verification/Harness.thy ===== *)
theory Harness
  imports WikiDomain
begin

text \<open>
  The judgement of the verification harness, \<open>src/harness/runner/verify.py\<close>: the four verdicts of a
  gate, how gates are folded into the terms of DONE, and the exit code. Running a command is an
  argument: its exit code and what it printed, with the marks the runner itself puts there for a
  timeout and for a missing tool. Durations, digests and the receipt's file are left out.
\<close>

datatype Verdict = GREEN | RED | INCONCLUSIVE | NOT_RUN

definition SEVERITY :: "Verdict \<Rightarrow> int" where
  "SEVERITY v = (case v of GREEN \<Rightarrow> 0 | INCONCLUSIVE \<Rightarrow> 1 | NOT_RUN \<Rightarrow> 2 | RED \<Rightarrow> 3)"

record Gate =
  ga_id :: pystr
  ga_term :: pystr
  ga_cmd :: "pystr list option"
  ga_monitorable :: bool
  ga_inconclusive_exit :: "int option"

record GateResult =
  gr_id :: pystr
  gr_term :: pystr
  gr_verdict :: Verdict

definition command_verdict :: "Gate \<Rightarrow> int \<Rightarrow> pystr \<Rightarrow> Verdict" where
  "command_verdict g code out =
     (let verdict =
        (if startswith out (str ''__TIMEOUT__'') \<or> startswith out (str ''__MISSING_TOOL__'') then INCONCLUSIVE
         else if code = (case ga_inconclusive_exit g of None \<Rightarrow> -999 | Some n \<Rightarrow> n) then INCONCLUSIVE
         else if code = 0 then GREEN
         else RED)
      in if \<not> ga_monitorable g \<and> verdict = GREEN then INCONCLUSIVE else verdict)"

definition run_gate :: "(pystr list \<Rightarrow> int \<times> pystr) \<Rightarrow> Gate \<Rightarrow> GateResult" where
  "run_gate sh g = \<lparr>gr_id = ga_id g, gr_term = ga_term g,
     gr_verdict = (case ga_cmd g of
        None \<Rightarrow> NOT_RUN
      | Some cmd \<Rightarrow> (case sh cmd of (code, out) \<Rightarrow> command_verdict g code out))\<rparr>"

text \<open>One turn of the loop over the results; a term that the manifest does not list is a \<open>KeyError\<close>.\<close>

definition fold_gate :: "(pystr, Verdict) pydict \<Rightarrow> GateResult \<Rightarrow> wiki_exn + (pystr, Verdict) pydict" where
  "fold_gate terms r =
     (case dict_get terms (gr_term r) of
        None \<Rightarrow> Inl (PyKeyError (gr_term r))
      | Some v \<Rightarrow>
          (if SEVERITY v < SEVERITY (gr_verdict r) then Inr (dict_set (gr_term r) (gr_verdict r) terms)
           else if v = NOT_RUN \<and> gr_verdict r = GREEN then Inr (dict_set (gr_term r) GREEN terms)
           else Inr terms))"

fun fold_gates :: "(pystr, Verdict) pydict \<Rightarrow> GateResult list \<Rightarrow> wiki_exn + (pystr, Verdict) pydict" where
  "fold_gates terms [] = Inr terms"
| "fold_gates terms (r # rs) = bind_res (fold_gate terms r) (\<lambda>terms'. fold_gates terms' rs)"

definition done_terms :: "pystr list \<Rightarrow> GateResult list \<Rightarrow> wiki_exn + (pystr, Verdict) pydict" where
  "done_terms ts rs = fold_gates (map (\<lambda>t. (t, NOT_RUN)) ts) rs"

definition is_done :: "(pystr, Verdict) pydict \<Rightarrow> bool" where
  "is_done terms \<longleftrightarrow> list_all (\<lambda>kv. snd kv = GREEN) terms"

definition exit_code :: "GateResult list \<Rightarrow> int" where
  "exit_code rs = (if list_ex (\<lambda>r. gr_verdict r = RED) rs then 1 else 0)"

section \<open>What a verdict means\<close>

text \<open>A gate is green only if it is monitorable and its command ran to the end with exit code 0.\<close>

lemma green_gate:
  assumes "gr_verdict (run_gate sh g) = GREEN"
  obtains cmd out where "ga_cmd g = Some cmd" "ga_monitorable g" "sh cmd = (0, out)"
    "\<not> startswith out (str ''__TIMEOUT__'')" "\<not> startswith out (str ''__MISSING_TOOL__'')"
  using assms
  by (auto simp: run_gate_def command_verdict_def Let_def split: option.splits prod.splits if_splits)

section \<open>What DONE means\<close>

lemma fold_gate_keys: "fold_gate terms r = Inr terms' \<Longrightarrow> map fst terms' = map fst terms"
proof -
  have known: "map fst (dict_set k v d) = map fst d" if "dict_get d k = Some x" for k :: pystr and v x :: Verdict and d
    using that by (induction d) (auto split: if_splits)
  show "fold_gate terms r = Inr terms' \<Longrightarrow> map fst terms' = map fst terms"
    by (auto simp: fold_gate_def known split: option.splits if_splits)
qed

lemma fold_gates_keys: "fold_gates terms rs = Inr terms' \<Longrightarrow> map fst terms' = map fst terms"
  by (induction rs arbitrary: terms) (auto simp: bind_res_Inr dest: fold_gate_keys)

text \<open>Red is never taken back.\<close>

lemma red_stays:
  "fold_gates terms rs = Inr terms' \<Longrightarrow> dict_get terms t = Some RED \<Longrightarrow> dict_get terms' t = Some RED"
proof (induction rs arbitrary: terms)
  case (Cons r rs)
  then obtain m where m: "fold_gate terms r = Inr m" "fold_gates m rs = Inr terms'" by (auto simp: bind_res_Inr)
  have "dict_get m t = Some RED"
    using m(1) Cons.prems(2) by (auto simp: fold_gate_def SEVERITY_def split: option.splits if_splits Verdict.splits)
  with Cons.IH [OF m(2)] show ?case .
qed simp

lemma red_shows:
  "fold_gates terms rs = Inr terms' \<Longrightarrow> r \<in> set rs \<Longrightarrow> gr_verdict r = RED \<Longrightarrow> dict_get terms' (gr_term r) = Some RED"
proof (induction rs arbitrary: terms)
  case (Cons q rs)
  then obtain m where m: "fold_gate terms q = Inr m" "fold_gates m rs = Inr terms'" by (auto simp: bind_res_Inr)
  show ?case
  proof (cases "q = r")
    case True
    with m(1) Cons.prems(3) have "dict_get m (gr_term r) = Some RED"
      by (auto simp: fold_gate_def SEVERITY_def split: option.splits if_splits Verdict.splits)
    with red_stays [OF m(2)] show ?thesis .
  next
    case False
    with Cons.prems Cons.IH [OF m(2)] show ?thesis by simp
  qed
qed simp

text \<open>A term is green only through a green gate of its own.\<close>

lemma green_shows:
  "fold_gates terms rs = Inr terms' \<Longrightarrow> dict_get terms t \<noteq> Some GREEN \<Longrightarrow> dict_get terms' t = Some GREEN
     \<Longrightarrow> \<exists>r \<in> set rs. gr_term r = t \<and> gr_verdict r = GREEN"
proof (induction rs arbitrary: terms)
  case (Cons q rs)
  then obtain m where m: "fold_gate terms q = Inr m" "fold_gates m rs = Inr terms'" by (auto simp: bind_res_Inr)
  show ?case
  proof (cases "dict_get m t = Some GREEN")
    case True
    with m(1) Cons.prems(2) have "gr_term q = t \<and> gr_verdict q = GREEN"
      by (auto simp: fold_gate_def split: option.splits if_splits)
    then show ?thesis by auto
  next
    case False
    with Cons.IH [OF m(2) _ Cons.prems(3)] show ?thesis by auto
  qed
qed simp

lemma done_means:
  assumes "done_terms ts rs = Inr terms" and "is_done terms"
  shows "exit_code rs = 0 \<and> (\<forall>t \<in> set ts. \<exists>r \<in> set rs. gr_term r = t \<and> gr_verdict r = GREEN)"
proof -
  have green: "dict_get terms t = Some GREEN" if "dict_get terms t \<noteq> None" for t
  proof -
    from that obtain v where v: "dict_get terms t = Some v" by auto
    from map_of_SomeD [OF v] assms(2) have "v = GREEN" by (auto simp: is_done_def list_all_iff)
    with v show ?thesis by simp
  qed
  have "gr_verdict r \<noteq> RED" if "r \<in> set rs" for r
    using red_shows [OF assms(1) [unfolded done_terms_def] that] green [of "gr_term r"] by auto
  then have "exit_code rs = 0" by (auto simp: exit_code_def list_ex_iff)
  moreover have "\<exists>r \<in> set rs. gr_term r = t \<and> gr_verdict r = GREEN" if "t \<in> set ts" for t
  proof (rule green_shows [OF assms(1) [unfolded done_terms_def]])
    have keys: "map fst terms = ts"
      using assms(1) fold_gates_keys [of "map (\<lambda>t. (t, NOT_RUN)) ts" rs terms] by (simp add: done_terms_def comp_def)
    with that have "dict_get terms t \<noteq> None" by (metis map_of_eq_None_iff list.set_map)
    with green show "dict_get terms t = Some GREEN" .
    show "dict_get (map (\<lambda>t. (t, NOT_RUN)) ts) t \<noteq> Some GREEN" by (auto dest!: map_of_SomeD)
  qed
  ultimately show ?thesis by blast
qed

text \<open>
  What DONE does not mean: that every gate was green. A term is to be as bad as its worst gate, but
  a green gate takes back what an inconclusive one or one that was not run left, if it comes
  after it, and so the order of the manifest decides.
\<close>

lemma order_decides:
  fixes t :: pystr
  defines "g v \<equiv> \<lparr>gr_id = [], gr_term = t, gr_verdict = v\<rparr>"
  shows "done_terms [t] [g INCONCLUSIVE, g GREEN] = Inr [(t, GREEN)]"
    and "done_terms [t] [g GREEN, g INCONCLUSIVE] = Inr [(t, INCONCLUSIVE)]"
  by (simp_all add: done_terms_def fold_gate_def SEVERITY_def g_def)

end
