(* ===== verification/Spec2Isabelle.thy ===== *)
theory Spec2Isabelle
  imports WikiModeration WikiHttp WikiSchema FeedbackProps OntologyDemo KgApiProps McpDemo CacheLive StartupProps Access
    WikiCliProps RegistryDemo ApiParityProps Render Harness
begin

text \<open>
  A verification library for the backend of the metahumotonic web site: the FastAPI service under
  \<open>src/app\<close>, its command line clients, the parity gate in \<open>src/scripts\<close> and the judgement of \<open>src/harness\<close>.

  \<^bold>\<open>The program.\<close> One process serves five surfaces over shared plumbing. The community wiki
  (\<open>app/wiki\<close>, \<open>app/routers/wiki.py\<close>) is an event-sourced store: a pure function decides a
  command on the state of a page, an adapter (in memory or PostgreSQL) records the events with a
  receipt per command and hands effects to an outbox, and the router authenticates sessions and
  turns requests into commands. Feedback (\<open>app/store.py\<close>, \<open>app/routers/feedback.py\<close>) is taken
  into MongoDB with a bounded fallback in memory and reviewed by operators. The ontology
  (\<open>app/ontology.py\<close>, \<open>app/routers/ontology.py\<close>) serves a validated, immutable snapshot. The
  knowledge graph (\<open>app/kg.py\<close> and the routers over it) reads Neo4j through a cache and a circuit
  breaker and must never fail its callers. The MCP registry (\<open>app/mcp_store.py\<close>,
  \<open>app/mcp_manifest.py\<close>, \<open>app/routers/mcp_registry.py\<close>) publishes an operator's catalogue of
  servers, which \<open>app/cli.py\<close> maintains together with an encrypted vault (\<open>app/mcp_vault.py\<close>).
  \<open>app/main.py\<close> checks the configuration, brings the parts up and answers the probes. The wiki has
  an HTTP client with a command line and a set of MCP tools (\<open>app/wiki_client.py\<close>,
  \<open>app/wiki_cli.py\<close>, \<open>app/wiki_mcp.py\<close>).

  \<^bold>\<open>How the code is modelled.\<close> A Python string is the list of its code points (\<open>pystr\<close>), an
  integer is \<open>int\<close>, a dictionary is an association list in insertion order with \<open>dict_get\<close> and
  \<open>dict_set\<close>, a dataclass or Pydantic model is a record, and a function that may raise returns
  \<open>exception + value\<close> with one datatype of exceptions per component. State is passed explicitly; a
  handler returns its result and the state after it also when it raises. What awaits in between
  is cut there: the cache and the Redis limiter are step relations over interleaved tasks, the two
  middlewares work on an application that is a tree of its awaits, and saving a configuration is
  the sequence of file systems it passes through. Everything the standard library contributes to a
  result is written out (UTF-8, SHA-256, SHA-1, HMAC, PBKDF2, base 64, \<open>json.dumps\<close> and
  \<open>json.loads\<close>, URL quoting, \<open>urlsplit\<close>, \<open>str.split\<close> and \<open>str.strip\<close>), and all of it computes.

  \<^bold>\<open>Arguments of the model.\<close> Code that is not in the repository is an argument of the definitions
  that use it, and what is relied on is a hypothesis named after it: the Unicode tables (case
  folding, NFKC, word characters), conversions of floats, the databases (which queries answer, with
  what, and which connections fail), Redis, the HTTP transport, Fernet, \<open>markdown-it\<close> and
  \<open>bleach\<close>, the ISO date functions, random values and clock readings.

  \<^bold>\<open>Theories, in the order of their imports.\<close>

  \<^item> \<open>Prelude\<close>: strings, dictionaries, results, the collections \<open>res_simps\<close> and \<open>py_simps\<close>.
    \<open>Hashing\<close>, \<open>PyText\<close>, \<open>Uuid5\<close>, \<open>Json\<close> and \<open>JsonParse\<close>: the standard library, with the round trip
    of every text \<open>json.dumps\<close> writes in any of the program's layouts (locale \<open>json_layout\<close>,
    interpreted for the compact, the spaced and the indented one).
  \<^item> \<open>EventKernel\<close>: the contract of a command-to-event kernel (a locale), interpreted by
    \<open>WikiDomain\<close> on \<open>decide\<close> and \<open>evolve\<close> of \<open>app/wiki/domain.py\<close>. Its lemmas say exactly when each
    command is accepted, that events fold, that concurrent edits do not overwrite each other and
    that a quarantined page is frozen.
  \<^item> \<open>WikiStore\<close>: the records and the contract of \<open>app/wiki/store.py\<close> (a locale). \<open>WikiMemory\<close>,
    \<open>WikiMemoryProps\<close>: \<open>app/wiki/memory.py\<close>. \<open>WikiPostgres\<close>, \<open>WikiPostgresProps\<close>, \<open>WikiAgree\<close>:
    \<open>app/wiki/postgres.py\<close> statement by statement, the keys of its tables, the refinement of the
    events by the rows, serialisability of \<open>execute\<close> and the agreement of the two adapters.
    \<open>WikiSchema\<close>: its migrations and the check of the schema.
  \<^item> \<open>WikiSecurity\<close>: \<open>app/wiki/security.py\<close>; tokens round-trip and cannot be forged. \<open>WikiModels\<close>,
    \<open>Handler\<close>, \<open>WikiApi\<close>, \<open>WikiApiProps\<close>, \<open>WikiModeration\<close>: \<open>app/routers/wiki.py\<close>; what authorises a
    write, what a retry gives, what a quarantine hides. \<open>WikiHttp\<close>: \<open>app/wiki/http.py\<close>; the body
    limit. \<open>Render\<close>: \<open>app/wiki/render.py\<close>; line endings do not change a page.
  \<^item> \<open>TtlCache\<close>, \<open>CacheTyping\<close>, \<open>CacheLive\<close>: \<open>app/cache.py\<close> and \<open>app/breaker.py\<close>; single flight for a
    positive lifetime (with none, callers produce side by side), entries of the right kind, and that
    every caller is answered. \<open>Throttle\<close>: \<open>app/ratelimit.py\<close> and
    \<open>app/netutil.py\<close>; the window is exact, and several replicas share one.
  \<^item> \<open>Feedback\<close>, \<open>FeedbackProps\<close>: \<open>app/contracts.py\<close>, \<open>app/turnstile.py\<close>, \<open>app/store.py\<close> and
    \<open>app/routers/feedback.py\<close>; an acknowledgement is honest, the review lifecycle is kept.
  \<^item> \<open>Ontology\<close> (the validator), \<open>OntologyView\<close> (projection, runtime), \<open>OntologyCursor\<close> (paging),
    \<open>OntologyApi\<close> with \<open>OntologyContract\<close>, \<open>OntologyRender\<close>, \<open>OntologyProps\<close>, \<open>OntologyTotal\<close>:
    \<open>app/ontology.py\<close>, \<open>app/ontology_web.py\<close>, \<open>app/routers/ontology.py\<close>; what an accepted snapshot
    satisfies and hence what is never served, what of it can be rendered as JSON, and that no
    endpoint gets stuck on one that can. \<open>OntologyDemo\<close> builds a snapshot that the validator accepts.
  \<^item> \<open>KgData\<close>, \<open>KgClient\<close>, \<open>KgProps\<close>, \<open>KgApi\<close>, \<open>KgApiProps\<close>: \<open>app/kg.py\<close>, \<open>app/domain_projection.py\<close> and
    the routers \<open>kg_proxy\<close>, \<open>domains\<close>, \<open>research\<close>, \<open>stats\<close>, \<open>skills\<close>; failover, fail-soft reads, the
    keys of the proxy.
  \<^item> \<open>McpRegistry\<close>, \<open>McpApi\<close>, \<open>McpStatus\<close>, \<open>McpProps\<close>, \<open>McpCounts\<close>, \<open>McpTotal\<close>, \<open>McpDemo\<close>: the registry's
    reader with the projections of its queries, manifest and router; what the public endpoints may
    reveal, and that they do not fail.
  \<^item> \<open>AppConfig\<close>, \<open>Startup\<close>, \<open>StartupProps\<close>: \<open>app/config.py\<close>, \<open>app/main.py\<close>, \<open>app/routers/meta.py\<close>; startup
    is fail-closed, and readiness follows the settings for as long as the service runs. \<open>Access\<close>: \<open>app/middleware.py\<close>.
  \<^item> \<open>ClientConfig\<close>, \<open>WikiClient\<close>, \<open>WikiCli\<close> with their \<open>Props\<close> and \<open>ClientConfigDemo\<close>: the wiki's client,
    its command line and its MCP tools; where the token goes and what the service makes of a call.
  \<^item> \<open>RegistryText\<close>, \<open>RegistryTextProps\<close>, \<open>McpVault\<close>, \<open>RegistryCli\<close>, \<open>RegistryOps\<close>, \<open>VaultProps\<close>,
    \<open>RegistryDemo\<close>: \<open>app/cli.py\<close> and \<open>app/mcp_vault.py\<close>; redaction, import, and the vault end to end.
  \<^item> \<open>ApiParity\<close>, \<open>ApiParityProps\<close>: \<open>scripts/check-api-parity.py\<close>; what a passed gate means and that
    it only reads. \<open>Harness\<close>: the judgement of \<open>harness/runner/verify.py\<close>; what DONE means, and what
    it does not.

  Side conditions that the code around a component sees to are part of the notion of a reachable
  state: pages of the memory store are created under ids no page has (\<open>mem_reachable\<close>) and page ids
  of the PostgreSQL store are canonical UUIDs (\<open>pg_reachable\<close>), because the router derives them from
  command ids with \<open>uuid5\<close>.

  Properties that span components stand with the component that depends on the others: the
  agreement of the two stores in \<open>WikiAgree\<close>, the API over either store in \<open>WikiApiProps\<close> and
  \<open>WikiModeration\<close>, the client against the service in \<open>WikiClientProps\<close>, startup over all of them
  in \<open>StartupProps\<close>.

  \<^bold>\<open>Bounds and fuel.\<close> The scanner of JSON gets twice the length of the text plus one: of two nested
  calls one consumes a character. A client that follows cursors gets one request more than there
  are items, which \<open>paging_terminates\<close> shows to be enough; that every cursor is accepted holds for
  positions below \<open>10 ^ 18\<close> and parameters whose JSON text has at most 2800 characters, since the
  service refuses a cursor of more than 4096. Everything else is structural recursion or comes with its termination
  proof. SHA-1 and SHA-256 work on 32-bit words.

  \<^bold>\<open>Not modelled.\<close>

  \<^item> The framework: routing, the decoding of HTTP, the CORS middleware and dependency injection of
    FastAPI and Starlette; reading the environment into the settings, which is
    \<open>pydantic-settings\<close>; command line parsing by \<open>argparse\<close>; the MCP protocol. The assembly of the
    routers in \<open>app/main.py\<close> only names them. Shutdown closes every client and ignores what that
    raises.
  \<^item> \<open>app/observability.py\<close> and the choice of a backend in \<open>app/trace.py\<close>: they only set up other
    libraries. Events are logged in the model where \<open>emit\<close> is called.
  \<^item> \<open>src/_vendor/ooptdd\<close>: a third-party package kept in the repository. The service calls one
    method of it, and no result depends on the answer.
  \<^item> The other scripts of \<open>src/scripts\<close> and \<open>src/harness\<close>, \<open>src/ops\<close> and \<open>src/deploy\<close>: they start processes
    and containers, or call RDF libraries, and report what these print.
  \<^item> \<open>src/ts\<close>: a port of the service to another language, with tests of its own; \<open>src/tests\<close>.
  \<^item> Interleavings inside a command of the PostgreSQL store other than the one of
    \<open>pg_serializable\<close>, the wait limits of network calls, memory limits and recursion limits.
\<close>

end
